(* ===== verification/Prelude.thy ===== *)
theory Prelude
  imports Main "HOL-Library.Char_ord" "HOL-Library.List_Lexorder" "HOL-Library.Sublist"
begin

text \<open>
  Shared vocabulary of the development: the JavaScript string and array functions that the
  control plane calls (\<open>toLowerCase\<close>, \<open>includes\<close>, \<open>trim\<close>, \<open>[...new Set(xs)].sort()\<close>),
  decimal rendering of numbers in messages, JSON values, SQL tables as lists of rows, and the
  named theorem collections that the proofs about effects use.
  A JavaScript string is a \<open>string\<close> (a list of characters).
\<close>

named_theorems step_intros \<open>introduction rules for one-step relations of effectful code\<close>
named_theorems run_simps \<open>unfolding rules for running effectful code on a given world\<close>

section \<open>JavaScript strings\<close>

definition toLowerChar :: "char \<Rightarrow> char" where
  "toLowerChar c =
     (let n = (of_char c :: nat) in if 65 \<le> n \<and> n \<le> 90 then char_of (n + 32) else c)"

definition toLowerCase :: "string \<Rightarrow> string" where
  "toLowerCase s = map toLowerChar s"

fun includesStr :: "string \<Rightarrow> string \<Rightarrow> bool" where
  "includesStr [] t = (t = [])"
| "includesStr (c # s) t = (prefix t (c # s) \<or> includesStr s t)"

definition isSpaceChar :: "char \<Rightarrow> bool" where
  "isSpaceChar c = (let n = (of_char c :: nat) in n = 32 \<or> (9 \<le> n \<and> n \<le> 13) \<or> n = 160)"

definition trim :: "string \<Rightarrow> string" where
  "trim s = rev (dropWhile isSpaceChar (rev (dropWhile isSpaceChar s)))"

definition isHexDigit :: "char \<Rightarrow> bool" where
  "isHexDigit c =
     (let n = (of_char c :: nat)
      in (48 \<le> n \<and> n \<le> 57) \<or> (65 \<le> n \<and> n \<le> 70) \<or> (97 \<le> n \<and> n \<le> 102))"

definition digit_char :: "nat \<Rightarrow> char" where
  "digit_char d = char_of (48 + d)"

fun show_nat :: "nat \<Rightarrow> string" where
  "show_nat n = (if n < 10 then [digit_char n] else show_nat (n div 10) @ [digit_char (n mod 10)])"

declare show_nat.simps [simp del]

text \<open>\<open>[...new Set(values)].sort()\<close> and the element-wise comparison of two string arrays.\<close>

definition sortedUnique :: "string list \<Rightarrow> string list" where
  "sortedUnique values = sort (remdups values)"

definition sameStrings :: "string list \<Rightarrow> string list \<Rightarrow> bool" where
  "sameStrings left right =
     (length left = length right \<and> (\<forall>i < length left. left ! i = right ! i))"

lemma length_toLowerCase [simp]: "length (toLowerCase s) = length s"
  by (simp add: toLowerCase_def)

lemma toLowerCase_append [simp]: "toLowerCase (s @ t) = toLowerCase s @ toLowerCase t"
  by (simp add: toLowerCase_def)

lemma toLowerCase_Cons: "toLowerCase (c # s) = toLowerChar c # toLowerCase s"
  by (simp add: toLowerCase_def)

lemma toLowerChar_idem [simp]: "toLowerChar (toLowerChar c) = toLowerChar c"
proof (cases "65 \<le> (of_char c :: nat) \<and> (of_char c :: nat) \<le> 90")
  case True
  then have "(of_char (char_of (of_char c + 32 :: nat)) :: nat) = of_char c + 32"
    by simp
  with True show ?thesis by (simp add: toLowerChar_def Let_def)
next
  case False
  then show ?thesis by (auto simp: toLowerChar_def Let_def)
qed

lemma toLowerCase_idem [simp]: "toLowerCase (toLowerCase s) = toLowerCase s"
  by (simp add: toLowerCase_def)

lemma isHexDigit_toLowerChar [simp]: "isHexDigit c \<Longrightarrow> isHexDigit (toLowerChar c)"
  by (auto simp: isHexDigit_def toLowerChar_def Let_def)

lemma list_all_isHexDigit_toLowerCase [simp]:
  "list_all isHexDigit s \<Longrightarrow> list_all isHexDigit (toLowerCase s)"
  by (auto simp: toLowerCase_def list_all_iff)

lemma includesStr_iff: "includesStr s t \<longleftrightarrow> (\<exists>pre post. s = pre @ t @ post)"
proof (induction s)
  case Nil
  then show ?case by simp
next
  case (Cons c s)
  show ?case
  proof
    assume "includesStr (c # s) t"
    then consider "prefix t (c # s)" | "includesStr s t" by auto
    then show "\<exists>pre post. c # s = pre @ t @ post"
    proof cases
      case 1
      then show ?thesis by (metis append_Nil prefix_def)
    next
      case 2
      with Cons.IH show ?thesis by (metis append_Cons)
    qed
  next
    assume "\<exists>pre post. c # s = pre @ t @ post"
    then obtain pre post where eq: "c # s = pre @ t @ post" by blast
    show "includesStr (c # s) t"
    proof (cases pre)
      case Nil
      with eq have "prefix t (c # s)" by (auto simp: prefix_def)
      then show ?thesis by simp
    next
      case (Cons _ pre')
      with eq \<open>includesStr s t = _\<close> show ?thesis by auto
    qed
  qed
qed

lemma sameStrings_eq [simp]: "sameStrings xs ys \<longleftrightarrow> xs = ys"
  by (auto simp: sameStrings_def list_eq_iff_nth_eq)

lemma sortedUnique_set [simp]: "set (sortedUnique xs) = set xs"
  by (simp add: sortedUnique_def)

lemma sortedUnique_distinct [simp]: "distinct (sortedUnique xs)"
  by (simp add: sortedUnique_def)

lemma sortedUnique_sorted [simp]: "sorted (sortedUnique xs)"
  by (simp add: sortedUnique_def)

lemma sortedUnique_eq_iff: "sortedUnique xs = sortedUnique ys \<longleftrightarrow> set xs = set ys"
  by (metis sorted_distinct_set_unique sortedUnique_distinct sortedUnique_set sortedUnique_sorted)

section \<open>JSON values\<close>

datatype json =
    JNull
  | JBool bool
  | JNum int
  | JStr string
  | JArr "json list"
  | JObj "(string \<times> json) list"

text \<open>Property access \<open>value.key\<close> (with \<open>'key' in value\<close>) on a parsed JSON object.\<close>

fun json_field :: "json \<Rightarrow> string \<Rightarrow> json option" where
  "json_field (JObj fs) k = map_of fs k"
| "json_field _ k = None"

text \<open>A property whose value is \<open>undefined\<close> is left out by \<open>JSON.stringify\<close>.\<close>

definition opt_field :: "string \<Rightarrow> ('a \<Rightarrow> json) \<Rightarrow> 'a option \<Rightarrow> (string \<times> json) list" where
  "opt_field k f v = (case v of None \<Rightarrow> [] | Some x \<Rightarrow> [(k, f x)])"

definition nullable :: "('a \<Rightarrow> json) \<Rightarrow> 'a option \<Rightarrow> json" where
  "nullable f v = (case v of None \<Rightarrow> JNull | Some x \<Rightarrow> f x)"

definition jnat :: "nat \<Rightarrow> json" where
  "jnat n = JNum (int n)"

section \<open>SQL tables\<close>

text \<open>
  A table is the list of its rows in insertion order. \<open>find_row\<close> is a lookup by primary key
  (\<open>WHERE id = ? LIMIT 1\<close>), \<open>update_rows\<close> is \<open>UPDATE ... WHERE\<close>, \<open>oldest\<close> is
  \<open>ORDER BY created_at ASC LIMIT 1\<close> on the selected rows.
\<close>

definition find_row :: "('r \<Rightarrow> string) \<Rightarrow> string \<Rightarrow> 'r list \<Rightarrow> 'r option" where
  "find_row key k rows = find (\<lambda>r. key r = k) rows"

definition update_rows :: "('r \<Rightarrow> bool) \<Rightarrow> ('r \<Rightarrow> 'r) \<Rightarrow> 'r list \<Rightarrow> 'r list" where
  "update_rows P f rows = map (\<lambda>r. if P r then f r else r) rows"

definition first_row :: "'r list \<Rightarrow> 'r option" where
  "first_row rows = (case rows of [] \<Rightarrow> None | r # _ \<Rightarrow> Some r)"

definition oldest :: "('r \<Rightarrow> nat) \<Rightarrow> 'r list \<Rightarrow> 'r option" where
  "oldest created rows = first_row (sort_key created rows)"

lemma find_row_Some: "find_row key k rows = Some r \<Longrightarrow> r \<in> set rows \<and> key r = k"
  by (auto simp: find_row_def find_Some_iff)

lemma find_row_None: "find_row key k rows = None \<longleftrightarrow> (\<forall>r \<in> set rows. key r \<noteq> k)"
  by (auto simp: find_row_def find_None_iff)

lemma find_row_append:
  "find_row key k (xs @ ys) = (case find_row key k xs of None \<Rightarrow> find_row key k ys | Some r \<Rightarrow> Some r)"
  by (induction xs) (auto simp: find_row_def)

lemma find_row_snoc:
  "find_row key k (xs @ [r]) = Some r' \<longleftrightarrow>
     find_row key k xs = Some r' \<or> (find_row key k xs = None \<and> key r = k \<and> r' = r)"
proof -
  have "find_row key k [r] = (if key r = k then Some r else None)"
    by (simp add: find_row_def)
  then show ?thesis by (auto simp: find_row_append split: option.splits)
qed

lemma find_row_update:
  assumes "\<And>r. key (f r) = key r"
  shows "find_row key k (update_rows P f rows) =
    map_option (\<lambda>r. if P r then f r else r) (find_row key k rows)"
  using assms by (induction rows) (auto simp: find_row_def update_rows_def)

lemma find_row_unique:
  assumes "distinct (map key rows)" and "r \<in> set rows"
  shows "find_row key (key r) rows = Some r"
  using assms by (induction rows) (auto simp: find_row_def)

lemma map_key_update_rows:
  assumes "\<And>r. key (f r) = key r"
  shows "map key (update_rows P f rows) = map key rows"
  using assms by (auto simp: update_rows_def)

lemma set_update_rows: "set (update_rows P f rows) = (\<lambda>r. if P r then f r else r) ` set rows"
  by (simp add: update_rows_def)

lemma first_row_None [simp]: "first_row rows = None \<longleftrightarrow> rows = []"
  by (auto simp: first_row_def split: list.splits)

lemma first_row_Some: "first_row rows = Some r \<Longrightarrow> r \<in> set rows"
  by (auto simp: first_row_def split: list.splits)

lemma oldest_None [simp]: "oldest created rows = None \<longleftrightarrow> rows = []"
  by (auto simp: oldest_def) (metis length_0_conv length_sort)

lemma oldest_Some: "oldest created rows = Some r \<Longrightarrow> r \<in> set rows"
  unfolding oldest_def by (drule first_row_Some) simp

lemma oldest_least:
  assumes "oldest created rows = Some r" and "r' \<in> set rows"
  shows "created r \<le> created r'"
proof -
  obtain rest where sk: "sort_key created rows = r # rest"
    using assms(1) by (auto simp: oldest_def first_row_def split: list.splits)
  have srt: "sorted (map created (r # rest))"
    using sorted_sort_key [of created rows] by (simp add: sk)
  have "r' \<in> set (r # rest)"
    using assms(2) by (metis set_sort sk)
  with srt show ?thesis by auto
qed

end
