(* ===== verification/Records.thy ===== *)
theory Records
  imports Prelude
begin

text \<open>
  The data of the control plane, with the source's constructors and fields:
  operations (\<^verbatim>\<open>operations/operation.types.ts\<close>), the Agent's read model and plans
  (\<^verbatim>\<open>agent/read-model.ts\<close>, \<^verbatim>\<open>agent/placement-model.ts\<close>,
  \<^verbatim>\<open>agent/capacity-model.ts\<close>), deployments (\<^verbatim>\<open>deployments/deployment.types.ts\<close>),
  requests, and the exceptions that the services raise and catch.
  Versions, replica counts and force-update counters are non-negative integers by the zod
  schemas (\<open>nat\<close>); timestamps are milliseconds (\<open>nat\<close>).
\<close>

section \<open>Operations\<close>

datatype OperationType = SCALE | RESTART | DEPLOY | ROLLBACK

datatype OperationStatus = PENDING | RUNNING | VERIFYING | SUCCESS | FAILED | NEEDS_ATTENTION

record OperationRecord =
  o_id :: string
  o_clusterId :: string
  o_serviceId :: string
  o_type :: OperationType
  o_status :: OperationStatus
  o_actorId :: string
  o_expectedVersion :: nat
  o_beforeSpecHash :: string
  o_targetSpecHash :: string
  o_targetForceUpdate :: nat
  o_targetReplicas :: "nat option"
  o_targetImage :: "string option"
  o_targetTaskSpecHash :: "string option"
  o_targetRuntimeSpecHash :: "string option"
  o_resultVersion :: "nat option"
  o_errorCode :: "string option"
  o_errorMessage :: "string option"
  o_createdAt :: nat
  o_updatedAt :: nat

record AuditEventInput =
  a_operationId :: string
  a_actorId :: string
  a_clusterId :: string
  a_serviceId :: string
  a_resourceType :: "string option"
  a_resourceId :: "string option"
  a_action :: string
  a_beforeJson :: "json option"
  a_afterJson :: "json option"

datatype NodeOperationType = DRAIN | ACTIVATE | LABELS

datatype Availability = AvDrain | AvActive | AvPause

type_synonym labels = "(string \<times> string) list"

record LabelPatch =
  lp_set :: labels
  lp_remove :: "string list"

record NodeOperationRecord =
  n_id :: string
  n_clusterId :: string
  n_nodeId :: string
  n_type :: NodeOperationType
  n_status :: OperationStatus
  n_actorId :: string
  n_expectedVersion :: nat
  n_beforeSpecHash :: string
  n_targetSpecHash :: string
  n_targetAvailability :: Availability
  n_targetLabels :: "labels option"
  n_labelPatch :: "LabelPatch option"
  n_affectedServiceIds :: "string list"
  n_resultVersion :: "nat option"
  n_errorCode :: "string option"
  n_errorMessage :: "string option"
  n_createdAt :: nat
  n_updatedAt :: nat

definition status_terminal :: "OperationStatus \<Rightarrow> bool" where
  "status_terminal s = (s = SUCCESS \<or> s = FAILED)"

lemma status_terminal_simps [simp]:
  "status_terminal SUCCESS" "status_terminal FAILED"
  "\<not> status_terminal PENDING" "\<not> status_terminal RUNNING"
  "\<not> status_terminal VERIFYING" "\<not> status_terminal NEEDS_ATTENTION"
  by (simp_all add: status_terminal_def)

section \<open>The Agent's read model\<close>

record ServiceSummary =
  s_id :: string
  s_name :: string
  s_version :: nat
  s_specHash :: string
  s_forceUpdate :: nat
  s_taskSpecHash :: "string option"
  s_runtimeSpecHash :: "string option"
  s_image :: "string option"
  s_mode :: string
  s_desiredReplicas :: nat
  s_runningReplicas :: nat
  s_updateState :: "string option"
  s_updateMessage :: "string option"
  s_createdAt :: string
  s_updatedAt :: string

record TaskSummary =
  t_id :: string
  t_serviceId :: string
  t_specHash :: string
  t_runtimeSpecHash :: string
  t_slot :: int
  t_nodeId :: "string option"
  t_desiredState :: string
  t_state :: string
  t_forceUpdate :: nat
  t_message :: "string option"
  t_error :: "string option"
  t_containerId :: "string option"
  t_image :: "string option"
  t_timestamp :: string

record ServiceDetailResponse =
  sd_service :: ServiceSummary
  sd_tasks :: "TaskSummary list"

record ServiceMutationPlan =
  p_serviceId :: string
  p_version :: nat
  p_beforeSpecHash :: string
  p_targetSpecHash :: string
  p_targetForceUpdate :: nat
  p_targetReplicas :: "nat option"
  p_targetImage :: "string option"
  p_targetTaskSpecHash :: "string option"
  p_targetRuntimeSpecHash :: "string option"

record ServiceMutationResponse =
  r_serviceId :: string
  r_version :: nat
  r_targetSpecHash :: string
  r_targetForceUpdate :: nat

record NodeSummary =
  nd_id :: string
  nd_version :: nat
  nd_specHash :: string
  nd_hostname :: string
  nd_address :: string
  nd_role :: string
  nd_availability :: string
  nd_state :: string
  nd_message :: "string option"
  nd_manager :: bool
  nd_leader :: bool
  nd_reachability :: "string option"
  nd_engineVersion :: "string option"
  nd_nanoCpus :: int
  nd_memoryBytes :: int
  nd_labels :: labels

record NodeDetailResponse =
  ndr_node :: NodeSummary
  ndr_tasks :: "TaskSummary list"
  ndr_serviceIds :: "string list"

record NodeMutationPlan =
  np_nodeId :: string
  np_version :: nat
  np_beforeSpecHash :: string
  np_targetSpecHash :: string
  np_targetAvailability :: Availability
  np_affectedServiceIds :: "string list"
  np_targetLabels :: "labels option"

record NodeMutationResponse =
  nr_nodeId :: string
  nr_version :: nat
  nr_targetSpecHash :: string
  nr_targetAvailability :: Availability

datatype PlacementStatus = PlConverged | PlPending | PlUnknown

datatype CapacityStatus = SUFFICIENT | INSUFFICIENT | CapUnknown

record CapacityCheckRequest =
  cr_expectedVersion :: nat
  cr_targetReplicas :: nat
  cr_includeUpdateOverlap :: bool

record CapacityNode =
  cn_nodeId :: string
  cn_hostname :: string
  cn_availableNanoCpus :: nat
  cn_availableMemoryBytes :: nat
  cn_existingServiceTasks :: nat
  cn_maxAdditionalReplicas :: nat

record CapacityCheckResponse =
  cc_serviceId :: string
  cc_status :: CapacityStatus
  cc_currentReplicas :: nat
  cc_targetReplicas :: nat
  cc_updateOverlapReplicas :: nat
  cc_requiredAdditionalReplicas :: nat
  cc_schedulableAdditionalReplicas :: nat
  cc_unplacedReplicas :: nat
  cc_eligibleNodeCount :: nat
  cc_reservation :: "nat \<times> nat"
  cc_reasons :: "string list"
  cc_unsupportedConstraints :: "string list"
  cc_nodes :: "CapacityNode list"

text \<open>The strings in which availabilities are compared and stored.\<close>

fun availability_string :: "Availability \<Rightarrow> string" where
  "availability_string AvDrain = ''drain''"
| "availability_string AvActive = ''active''"
| "availability_string AvPause = ''pause''"

section \<open>Deployments\<close>

datatype DeploymentStatus =
    DEPLOYING | D_VERIFYING | D_SUCCESS | D_FAILED | ROLLING_BACK
  | ROLLBACK_VERIFYING | ROLLED_BACK | ROLLBACK_FAILED | D_NEEDS_ATTENTION

datatype DeploymentKind = KIND_DEPLOY | HISTORICAL_REDEPLOY

record HealthCheckConfig =
  h_url :: string
  h_intervalMs :: nat
  h_timeoutMs :: nat
  h_retries :: nat
  h_stabilityWindowMs :: nat
  h_expectedStatus :: nat

record DeploymentRecord =
  d_id :: string
  d_kind :: DeploymentKind
  d_sourceDeploymentId :: "string option"
  d_releaseId :: string
  d_previousReleaseId :: "string option"
  d_deploymentTargetId :: string
  d_operationId :: string
  d_rollbackOperationId :: "string option"
  d_status :: DeploymentStatus
  d_reason :: "string option"
  d_noOp :: bool
  d_beforeSpec :: json
  d_targetSpec :: json
  d_health :: HealthCheckConfig
  d_expectedServiceVersion :: nat
  d_startedAt :: nat
  d_finishedAt :: "nat option"
  d_createdBy :: string
  d_createdAt :: nat

record DeploymentTargetRecord =
  dt_id :: string
  dt_applicationId :: string
  dt_clusterId :: string
  dt_environment :: string
  dt_dockerServiceId :: string
  dt_serviceName :: string
  dt_createdAt :: nat
  dt_updatedAt :: nat

record ApplicationRecord =
  ap_id :: string
  ap_name :: string
  ap_description :: "string option"
  ap_createdAt :: nat
  ap_updatedAt :: nat

record ReleaseRecord =
  rl_id :: string
  rl_applicationId :: string
  rl_version :: string
  rl_imageRepository :: string
  rl_imageTag :: "string option"
  rl_imageDigest :: string
  rl_gitCommit :: "string option"
  rl_buildNumber :: "string option"
  rl_createdBy :: string
  rl_createdAt :: nat

datatype DeploymentDecision =
  DecPending | DecSuccess | DecRollbackPaused | DecFailed | DecExternalConflict

section \<open>Requests\<close>

datatype Role = VIEWER | OPERATOR | ADMIN

record Principal =
  pr_actorId :: string
  pr_role :: Role
  pr_clusters :: "string list"

record ScaleServiceRequest =
  sr_operationId :: string
  sr_expectedVersion :: nat
  sr_replicas :: nat

record RestartServiceRequest =
  rr_operationId :: string
  rr_expectedVersion :: nat

record NodeMutationRequest =
  nq_operationId :: string
  nq_expectedVersion :: nat
  nq_set :: labels
  nq_remove :: "string list"

record DeployRequest =
  dq_operationId :: string
  dq_releaseId :: string
  dq_health :: HealthCheckConfig

section \<open>Exceptions\<close>

text \<open>
  An HTTP error body is its text together with what \<open>JSON.parse\<close> makes of it
  (\<open>None\<close> where parsing throws).
\<close>

record ErrorBody =
  body_text :: string
  body_json :: "json option"

datatype MaintenanceCode = MAINTENANCE_CLOSED | MAINTENANCE_UNAVAILABLE

datatype RegistryErrorCode =
    INVALID_REPOSITORY
  | AUTHENTICATION_REQUIRED
  | ACCESS_DENIED
  | MANIFEST_NOT_FOUND
  | RATE_LIMITED
  | INVALID_DIGEST
  | REGISTRY_UNAVAILABLE

text \<open>
  One constructor per class of error that some \<open>catch\<close> of the source distinguishes:
  \<open>AgentRequestError\<close> (an HTTP status of the Agent), \<open>MaintenancePreDispatchRejection\<close>
  (its subclass raised before transport), \<open>AgentTransportError\<close> (transport, identity or
  contract failures of the client), database failures, Nest's HTTP exceptions, plain \<open>Error\<close>,
  the two convergence-guard errors of the deployment service, the duplicate-dispatch error
  of the journal and the errors of the registry client.
\<close>

datatype failure =
    AgentRequestError nat ErrorBody
  | MaintenancePreDispatchRejection MaintenanceCode
  | AgentTransportError string
  | DatabaseError string
  | DuplicateEntry string
  | ConflictException string
  | CapacityConflict CapacityCheckResponse
  | BadGatewayException string
  | BadRequestException string
  | ForbiddenException string
  | UnauthorizedException string
  | NotFoundException string
  | ServiceUnavailableException string
  | PlainError string
  | DeploymentConvergenceGuardError "DeploymentDecision option" string
  | RollbackConvergenceGuardError "DeploymentDecision option" string
  | DuplicateDispatchEvidence
  | RegistryRequestError RegistryErrorCode string

definition maintenance_status :: "MaintenanceCode \<Rightarrow> nat" where
  "maintenance_status c = (if c = MAINTENANCE_CLOSED then 409 else 503)"

definition maintenance_body :: "MaintenanceCode \<Rightarrow> ErrorBody" where
  "maintenance_body c =
     (let code = (if c = MAINTENANCE_CLOSED then ''MAINTENANCE_CLOSED'' else ''MAINTENANCE_UNAVAILABLE'')
      in \<lparr>body_text = ''{\"code\":\"'' @ code @ ''\"}'',
          body_json = Some (JObj [(''code'', JStr code)])\<rparr>)"

text \<open>\<open>errorMessage\<close>: the \<open>message\<close> property of an error.\<close>

fun errorMessage :: "failure \<Rightarrow> string" where
  "errorMessage (AgentRequestError st b) = ''Agent request failed with '' @ show_nat st"
| "errorMessage (MaintenancePreDispatchRejection c) =
     ''Agent request failed with '' @ show_nat (maintenance_status c)"
| "errorMessage (AgentTransportError m) = m"
| "errorMessage (DatabaseError m) = m"
| "errorMessage (DuplicateEntry m) = m"
| "errorMessage (ConflictException m) = m"
| "errorMessage (CapacityConflict _) =
     ''Swarm capacity pre-check found insufficient eligible capacity''"
| "errorMessage (BadGatewayException m) = m"
| "errorMessage (BadRequestException m) = m"
| "errorMessage (ForbiddenException m) = m"
| "errorMessage (UnauthorizedException m) = m"
| "errorMessage (NotFoundException m) = m"
| "errorMessage (ServiceUnavailableException m) = m"
| "errorMessage (PlainError m) = m"
| "errorMessage (DeploymentConvergenceGuardError _ m) = m"
| "errorMessage (RollbackConvergenceGuardError _ m) = m"
| "errorMessage DuplicateDispatchEvidence =
     ''Existing mutation dispatch evidence requires reconciliation''"
| "errorMessage (RegistryRequestError c m) = m"

text \<open>\<open>error instanceof AgentRequestError\<close>: its status code and body, for the subclass too.\<close>

fun agent_request_error :: "failure \<Rightarrow> (nat \<times> ErrorBody) option" where
  "agent_request_error (AgentRequestError st b) = Some (st, b)"
| "agent_request_error (MaintenancePreDispatchRejection c) =
     Some (maintenance_status c, maintenance_body c)"
| "agent_request_error _ = None"

text \<open>
  \<open>isDeterministicAgentRejection\<close>: the answer to a mutation request proves that the
  mutation did not run.
\<close>

definition rejection_code_matches :: "nat \<Rightarrow> json \<Rightarrow> bool" where
  "rejection_code_matches st body =
     (case body of
        JObj fs \<Rightarrow>
          (case map_of fs ''code'' of
             None \<Rightarrow> False
           | Some code \<Rightarrow>
               (st = 412 \<and> code = JStr ''CLUSTER_PRECONDITION_FAILED'') \<or>
               (st = 428 \<and> code = JStr ''CLUSTER_PRECONDITION_REQUIRED'') \<or>
               (st = 503 \<and> code = JStr ''CLUSTER_IDENTITY_UNAVAILABLE''))
      | _ \<Rightarrow> False)"

fun isDeterministicAgentRejection :: "failure \<Rightarrow> bool" where
  "isDeterministicAgentRejection (MaintenancePreDispatchRejection c) = True"
| "isDeterministicAgentRejection (AgentRequestError st b) =
     (if st = 400 \<or> st = 409 then True
      else if st \<notin> {412, 428, 503} then False
      else (case body_json b of None \<Rightarrow> False | Some body \<Rightarrow> rejection_code_matches st body))"
| "isDeterministicAgentRejection _ = False"

lemma deterministic_is_agent_error:
  "isDeterministicAgentRejection e \<Longrightarrow> \<exists>st b. agent_request_error e = Some (st, b)"
  by (cases e) auto

section \<open>JSON renderings stored in the database\<close>

definition serviceJson :: "ServiceSummary \<Rightarrow> json" where
  "serviceJson s = JObj (
     [(''id'', JStr (s_id s)), (''name'', JStr (s_name s)), (''version'', jnat (s_version s)),
      (''specHash'', JStr (s_specHash s)), (''forceUpdate'', jnat (s_forceUpdate s))]
     @ opt_field ''taskSpecHash'' JStr (s_taskSpecHash s)
     @ opt_field ''runtimeSpecHash'' JStr (s_runtimeSpecHash s)
     @ opt_field ''image'' JStr (s_image s)
     @ [(''mode'', JStr (s_mode s)), (''desiredReplicas'', jnat (s_desiredReplicas s)),
        (''runningReplicas'', jnat (s_runningReplicas s))]
     @ opt_field ''updateState'' JStr (s_updateState s)
     @ opt_field ''updateMessage'' JStr (s_updateMessage s)
     @ [(''createdAt'', JStr (s_createdAt s)), (''updatedAt'', JStr (s_updatedAt s))])"

definition labelsJson :: "labels \<Rightarrow> json" where
  "labelsJson ls = JObj (map (\<lambda>(k, v). (k, JStr v)) ls)"

definition nodeJson :: "NodeSummary \<Rightarrow> json" where
  "nodeJson n = JObj (
     [(''id'', JStr (nd_id n)), (''version'', jnat (nd_version n)),
      (''specHash'', JStr (nd_specHash n)), (''hostname'', JStr (nd_hostname n)),
      (''address'', JStr (nd_address n)), (''role'', JStr (nd_role n)),
      (''availability'', JStr (nd_availability n)), (''state'', JStr (nd_state n))]
     @ opt_field ''message'' JStr (nd_message n)
     @ [(''manager'', JBool (nd_manager n)), (''leader'', JBool (nd_leader n))]
     @ opt_field ''reachability'' JStr (nd_reachability n)
     @ opt_field ''engineVersion'' JStr (nd_engineVersion n)
     @ [(''nanoCpus'', JNum (nd_nanoCpus n)), (''memoryBytes'', JNum (nd_memoryBytes n)),
        (''labels'', labelsJson (nd_labels n))])"

definition taskJson :: "TaskSummary \<Rightarrow> json" where
  "taskJson t = JObj (
     [(''id'', JStr (t_id t)), (''serviceId'', JStr (t_serviceId t)),
      (''specHash'', JStr (t_specHash t)), (''runtimeSpecHash'', JStr (t_runtimeSpecHash t)),
      (''slot'', JNum (t_slot t))]
     @ opt_field ''nodeId'' JStr (t_nodeId t)
     @ [(''desiredState'', JStr (t_desiredState t)), (''state'', JStr (t_state t)),
        (''forceUpdate'', jnat (t_forceUpdate t))]
     @ opt_field ''message'' JStr (t_message t)
     @ opt_field ''error'' JStr (t_error t)
     @ opt_field ''containerId'' JStr (t_containerId t)
     @ opt_field ''image'' JStr (t_image t)
     @ [(''timestamp'', JStr (t_timestamp t))])"

definition codeMessageJson :: "string \<Rightarrow> string \<Rightarrow> json" where
  "codeMessageJson code message = JObj [(''code'', JStr code), (''message'', JStr message)]"

definition rejectionJson :: "nat \<Rightarrow> ErrorBody \<Rightarrow> json" where
  "rejectionJson st b = JObj [(''statusCode'', jnat st), (''body'', JStr (body_text b))]"

end
