(* ===== verification/Effects.thy ===== *)
theory Effects
  imports Records
begin

text \<open>
  The effects of the control plane: its database, the outside world it calls, and the
  computations of its services.

  \<^item> \<open>database\<close> has one list of rows per SQL table.
  \<^item> \<open>external\<close> is everything the process does not control: configuration, the outcome of
    each database statement, the answers of the Agent, of \<open>GET_LOCK\<close>, of DNS and of health
    endpoints, of the image registry, URL parsing and rendering, random identifiers, latencies and
    the lateness of timers.
    Each external interaction has a number, and \<open>external\<close> gives the answer
    to interaction \<open>n\<close>; nothing is assumed about these functions, so a theorem holds for
    every behaviour of database, network and Agent unless it names a hypothesis.
  \<^item> \<open>world\<close> is the state: the database, the clock, the number of interactions so far, the
    named locks held by the session, the three \<open>AsyncLocalStorage\<close> scopes, and two ghost
    components: the mutation requests and the barrier changes handed to transport so far, each with
    the database at that moment.
  \<^item> an effectful function of type \<open>'a cp\<close> takes a world and returns an error or a value
    with the new world; \<open>bindM\<close>, \<open>throwM\<close>, \<open>attempt\<close> and \<open>inTransaction\<close> are
    \<open>await\<close>, \<open>throw\<close>, \<open>try/catch\<close> and the
    \<open>beginTransaction / commit / rollback\<close> pattern of the source.

  \<open>steps R m\<close> says that every run of \<open>m\<close> relates its worlds by \<open>R\<close>; \<open>hoare\<close> is
  the flow-sensitive version. The locale \<open>step_relation\<close> collects what a relation must
  satisfy for whole services to be covered by rules alone.
\<close>

section \<open>Database\<close>

record AuditRow =
  au_operationId :: string
  au_actorId :: string
  au_clusterId :: string
  au_serviceId :: string
  au_resourceType :: string
  au_resourceId :: string
  au_action :: string
  au_beforeJson :: "json option"
  au_afterJson :: "json option"

record RegistrationRow =
  cg_id :: string
  cg_clusterId :: string
  cg_swarmClusterId :: string
  cg_displayName :: string
  cg_registeredBy :: string
  cg_verifiedNodeId :: string
  cg_createdAt :: nat

record MaintenanceStateRow =
  ms_clusterId :: string
  ms_state :: string
  ms_generation :: nat
  ms_ownerId :: string
  ms_reason :: string
  ms_changedBy :: string
  ms_changedAt :: nat

record AdmissionRow =
  ad_id :: string
  ad_clusterId :: string
  ad_generation :: nat
  ad_ownerId :: string
  ad_resourceType :: string
  ad_resourceId :: string
  ad_operationId :: "string option"

datatype DispatchPhase = PREPARED | SENDING | ACKNOWLEDGED | REJECTED | UNCERTAIN

record DispatchRow =
  di_id :: string
  di_clusterId :: string
  di_generation :: nat
  di_agentId :: string
  di_operationId :: string
  di_phase :: DispatchPhase

record BarrierRow =
  ab_clusterId :: string
  ab_agentId :: string
  ab_generation :: nat
  ab_state :: string

record LeaseRow =
  cl_clusterId :: string
  cl_holderId :: string
  cl_fenceToken :: nat
  cl_expiresAt :: nat

datatype EvidenceType = DISPATCH | ADMISSION

record ResolutionRow =
  er_id :: string
  er_clusterId :: string
  er_type :: EvidenceType
  er_evidenceId :: string
  er_actorId :: string
  er_reason :: string
  er_json :: json

datatype BootstrapNodeRole = BrManager | BrWorker

record BootstrapTokenRow =
  bt_id :: string
  bt_tokenHash :: string
  bt_clusterId :: string
  bt_nodeRole :: BootstrapNodeRole
  bt_labels :: labels
  bt_createdBy :: string
  bt_expiresAt :: nat
  bt_usedAt :: "nat option"
  bt_claimId :: "string option"
  bt_completedNodeId :: "string option"
  bt_createdAt :: nat

record database =
  operations :: "OperationRecord list"
  node_operations :: "NodeOperationRecord list"
  deployments :: "DeploymentRecord list"
  rollback_attempts :: "(string \<times> string) list"
  audit_events :: "AuditRow list"
  deployment_targets :: "DeploymentTargetRecord list"
  releases :: "ReleaseRecord list"
  cluster_registrations :: "RegistrationRow list"
  cluster_maintenance_states :: "MaintenanceStateRow list"
  maintenance_active_admissions :: "AdmissionRow list"
  maintenance_dispatches :: "DispatchRow list"
  maintenance_agent_barriers :: "BarrierRow list"
  maintenance_control_leases :: "LeaseRow list"
  maintenance_evidence_resolutions :: "ResolutionRow list"
  applications :: "ApplicationRecord list"
  bootstrap_tokens :: "BootstrapTokenRow list"

definition empty_db :: database where
  "empty_db = \<lparr>operations = [], node_operations = [], deployments = [], rollback_attempts = [],
     audit_events = [], deployment_targets = [], releases = [], cluster_registrations = [],
     cluster_maintenance_states = [], maintenance_active_admissions = [], maintenance_dispatches = [],
     maintenance_agent_barriers = [], maintenance_control_leases = [], maintenance_evidence_resolutions = [],
     applications = [], bootstrap_tokens = []\<rparr>"

section \<open>The outside world\<close>

text \<open>
  A statement succeeds, fails without effect, or takes effect while its acknowledgement is lost.
\<close>

datatype DbOutcome = DbOk | DbFailed string | DbLost string

datatype MutationRequest =
    ScaleService string nat string string nat
  | RestartService string nat string string
  | UpdateServiceImage string nat string string string
  | RollbackService string nat string string
  | DrainNode string nat string string "string list"
  | ActivateNode string nat string string
  | UpdateNodeLabels string nat string string "string list" labels

record BarrierResponse =
  br_clusterId :: string
  br_nodeId :: string
  br_generation :: string
  br_state :: string

record AgentIdentityResponse =
  ai_clusterId :: string
  ai_nodeId :: string
  ai_hostname :: string
  ai_manager :: bool
  ai_leader :: bool

record ClusterResponse =
  cv_id :: string
  cv_managersTotal :: nat
  cv_managersReachable :: nat
  cv_managersRequired :: nat
  cv_managersAvailable :: bool
  cv_leaderCount :: nat
  cv_nodes :: "NodeSummary list"

text \<open>
  The parts of a parsed \<open>URL\<close> and of a \<open>fetch\<close> response that the source reads;
  \<open>fr_cancelled\<close> is whether \<open>body.cancel()\<close> succeeds.
\<close>

record Url =
  u_protocol :: string
  u_username :: string
  u_password :: string
  u_host :: string
  u_hostname :: string
  u_pathname :: string
  u_search :: string
  u_hash :: string

record FetchResponse =
  fr_status :: nat
  fr_location :: "string option"
  fr_cancelled :: bool

text \<open>
  What the registry client sends and reads: the request with its \<open>Authorization\<close> header, the
  headers of the answer, and its body when it is JSON.
\<close>

record RegistryRequest =
  gq_verb :: string
  gq_url :: Url
  gq_accept :: "string option"
  gq_authorization :: "string option"

record RegistryResponse =
  gp_status :: nat
  gp_location :: "string option"
  gp_wwwAuthenticate :: "string option"
  gp_dockerContentDigest :: "string option"
  gp_contentLength :: "string option"
  gp_contentType :: "string option"
  gp_json :: "json option"

record RegistryCredentials =
  rc_username :: string
  rc_password :: string

record SwarmJoinEntry =
  sj_clusterId :: string
  sj_remoteAddr :: string
  sj_managerToken :: string
  sj_workerToken :: string

record external =
  x_clusterId :: string
  x_maintenanceEnforce :: bool
  x_registrationEnforce :: bool
  x_expectedSwarmClusterId :: "string option"
  x_processInstanceId :: string
  x_db :: "nat \<Rightarrow> DbOutcome"
  x_latency :: "nat \<Rightarrow> nat"
  x_timerDelay :: "nat \<Rightarrow> nat"
  x_uuid :: "nat \<Rightarrow> string"
  x_sha256Hex :: "string \<Rightarrow> string"
  x_getLock :: "nat \<Rightarrow> string \<Rightarrow> bool"
  x_inspectService :: "nat \<Rightarrow> string \<Rightarrow> failure + ServiceDetailResponse"
  x_checkPlacement :: "nat \<Rightarrow> string \<Rightarrow> failure + PlacementStatus"
  x_checkCapacity :: "nat \<Rightarrow> string \<Rightarrow> CapacityCheckRequest \<Rightarrow> failure + CapacityCheckResponse"
  x_inspectNode :: "nat \<Rightarrow> string \<Rightarrow> failure + NodeDetailResponse"
  x_planScale :: "nat \<Rightarrow> string \<Rightarrow> nat \<Rightarrow> nat \<Rightarrow> failure + ServiceMutationPlan"
  x_planRestart :: "nat \<Rightarrow> string \<Rightarrow> nat \<Rightarrow> failure + ServiceMutationPlan"
  x_planUpdateImage :: "nat \<Rightarrow> string \<Rightarrow> nat \<Rightarrow> string \<Rightarrow> failure + ServiceMutationPlan"
  x_planRollback :: "nat \<Rightarrow> string \<Rightarrow> nat \<Rightarrow> failure + ServiceMutationPlan"
  x_planDrain :: "nat \<Rightarrow> string \<Rightarrow> nat \<Rightarrow> failure + NodeMutationPlan"
  x_planActivate :: "nat \<Rightarrow> string \<Rightarrow> nat \<Rightarrow> failure + NodeMutationPlan"
  x_planLabels :: "nat \<Rightarrow> string \<Rightarrow> nat \<Rightarrow> labels \<Rightarrow> string list \<Rightarrow> failure + NodeMutationPlan"
  x_selectMutationAgent :: "nat \<Rightarrow> failure + string"
  x_swarmClusterId :: "string"
  x_barrier :: "nat \<Rightarrow> string \<Rightarrow> failure + BarrierResponse"
  x_identity :: "nat \<Rightarrow> failure + AgentIdentityResponse"
  x_agents :: "string list"
  x_managerClusterId :: "string option"
  x_agentIdentity :: "nat \<Rightarrow> string \<Rightarrow> failure + AgentIdentityResponse"
  x_agentCluster :: "nat \<Rightarrow> string \<Rightarrow> failure + ClusterResponse"
  x_putBarrier :: "nat \<Rightarrow> string \<Rightarrow> string \<Rightarrow> string \<Rightarrow> string \<Rightarrow> failure + BarrierResponse"
  x_sendService :: "nat \<Rightarrow> MutationRequest \<Rightarrow> failure + ServiceMutationResponse"
  x_sendNode :: "nat \<Rightarrow> MutationRequest \<Rightarrow> failure + NodeMutationResponse"
  x_healthPrivateHosts :: "string option"
  x_parseUrl :: "string \<Rightarrow> Url option"
  x_resolveUrl :: "string \<Rightarrow> Url \<Rightarrow> Url option"
  x_lookup :: "nat \<Rightarrow> string \<Rightarrow> failure + string list"
  x_fetch :: "nat \<Rightarrow> Url \<Rightarrow> nat \<Rightarrow> failure + FetchResponse"
  x_inspectCluster :: "nat \<Rightarrow> failure + ClusterResponse"
  x_listServices :: "nat \<Rightarrow> failure + ServiceSummary list"
  x_listServiceTasks :: "nat \<Rightarrow> string \<Rightarrow> failure + TaskSummary list"
  x_randomToken :: "nat \<Rightarrow> string"
  x_swarmJoin :: "SwarmJoinEntry list"
  x_registryPrivateHosts :: "string option"
  x_registryCredentials :: "(string \<times> RegistryCredentials) list"
  x_href :: "Url \<Rightarrow> string"
  x_setSearchParam :: "string \<Rightarrow> string \<Rightarrow> Url \<Rightarrow> Url"
  x_toNumber :: "string \<Rightarrow> int option"
  x_registryFetch :: "nat \<Rightarrow> RegistryRequest \<Rightarrow> failure + RegistryResponse"

section \<open>The world and computations\<close>

record SentMutation =
  sent_request :: MutationRequest
  sent_operation :: "string option"
  sent_db :: database
  sent_locks :: "string list"

record BarrierPut =
  bp_agentId :: string
  bp_generation :: nat
  bp_state :: string
  bp_db :: database

record world =
  w_db :: database
  w_clock :: nat
  w_calls :: nat
  w_locks :: "string list"
  w_operation :: "string option"
  w_admission :: "(string \<times> nat) option"
  w_active :: "(string \<times> string) option"
  w_sent :: "SentMutation list"
  w_puts :: "BarrierPut list"

type_synonym 'a cp = "world \<Rightarrow> (failure + 'a) \<times> world"

definition retM :: "'a \<Rightarrow> 'a cp" where
  "retM x w = (Inr x, w)"

definition throwM :: "failure \<Rightarrow> 'a cp" where
  "throwM e w = (Inl e, w)"

definition bindM :: "'a cp \<Rightarrow> ('a \<Rightarrow> 'b cp) \<Rightarrow> 'b cp" where
  "bindM m f w = (case m w of (Inl e, w') \<Rightarrow> (Inl e, w') | (Inr x, w') \<Rightarrow> f x w')"

definition thenM :: "'a cp \<Rightarrow> 'b cp \<Rightarrow> 'b cp" where
  "thenM m k = bindM m (\<lambda>_. k)"

text \<open>\<open>try { ... } catch (error) { ... }\<close>: the outcome of \<open>m\<close> as a value.\<close>

definition attempt :: "'a cp \<Rightarrow> (failure + 'a) cp" where
  "attempt m w = (case m w of (r, w') \<Rightarrow> (Inr r, w'))"

definition catchM :: "'a cp \<Rightarrow> (failure \<Rightarrow> 'a cp) \<Rightarrow> 'a cp" where
  "catchM m h w = (case m w of (Inl e, w') \<Rightarrow> h e w' | (Inr x, w') \<Rightarrow> (Inr x, w'))"

definition whenM :: "bool \<Rightarrow> unit cp \<Rightarrow> unit cp" where
  "whenM b m = (if b then m else retM ())"

text \<open>\<open>try { ... } finally { ... }\<close>: an error of the final action replaces the outcome.\<close>

definition finallyM :: "'a cp \<Rightarrow> unit cp \<Rightarrow> 'a cp" where
  "finallyM m fin w =
     (case m w of (r, w') \<Rightarrow> (case fin w' of (Inl e, w'') \<Rightarrow> (Inl e, w'') | (Inr _, w'') \<Rightarrow> (r, w'')))"

text \<open>\<open>for (const x of xs) { await f(x); }\<close>.\<close>

fun forEachM :: "('a \<Rightarrow> unit cp) \<Rightarrow> 'a list \<Rightarrow> unit cp" where
  "forEachM f [] = retM ()"
| "forEachM f (x # xs) = thenM (f x) (forEachM f xs)"

definition getsM :: "(world \<Rightarrow> 'a) \<Rightarrow> 'a cp" where
  "getsM f w = (Inr (f w), w)"

lemmas monad_defs [run_simps] =
  retM_def throwM_def bindM_def thenM_def attempt_def catchM_def whenM_def finallyM_def getsM_def

subsection \<open>External interactions\<close>

definition tick :: "external \<Rightarrow> world \<Rightarrow> world" where
  "tick ext w = w\<lparr>w_calls := Suc (w_calls w), w_clock := w_clock w + x_latency ext (w_calls w)\<rparr>"

definition callExternal :: "external \<Rightarrow> (nat \<Rightarrow> failure + 'a) \<Rightarrow> 'a cp" where
  "callExternal ext f w = (f (w_calls w), tick ext w)"

text \<open>\<open>setTimeout\<close> resumes no earlier than the requested delay, and possibly later.\<close>

definition sleepW :: "external \<Rightarrow> nat \<Rightarrow> world \<Rightarrow> world" where
  "sleepW ext ms w = w\<lparr>w_clock := w_clock w + ms + x_timerDelay ext (w_calls w)\<rparr>"

definition randomUUID :: "external \<Rightarrow> string cp" where
  "randomUUID ext = callExternal ext (\<lambda>n. Inr (x_uuid ext n))"

text \<open>
  A statement that changes the database (\<open>connection.execute\<close>) computes the number of affected
  rows and the new database from the current time, or fails with an SQL error. A query reads.
\<close>

type_synonym statement = "nat \<Rightarrow> database \<Rightarrow> failure + (nat \<times> database)"

definition executeStmt :: "external \<Rightarrow> statement \<Rightarrow> nat cp" where
  "executeStmt ext stmt w =
     (let w' = tick ext w in
      case x_db ext (w_calls w) of
        DbFailed m \<Rightarrow> (Inl (DatabaseError m), w')
      | DbLost m \<Rightarrow>
          (case stmt (w_clock w) (w_db w) of
             Inl e \<Rightarrow> (Inl e, w')
           | Inr (n, d) \<Rightarrow> (Inl (DatabaseError m), w'\<lparr>w_db := d\<rparr>))
      | DbOk \<Rightarrow>
          (case stmt (w_clock w) (w_db w) of
             Inl e \<Rightarrow> (Inl e, w')
           | Inr (n, d) \<Rightarrow> (Inr n, w'\<lparr>w_db := d\<rparr>)))"

definition execute :: "external \<Rightarrow> statement \<Rightarrow> unit cp" where
  "execute ext stmt = thenM (executeStmt ext stmt) (retM ())"

definition query :: "external \<Rightarrow> (database \<Rightarrow> 'a) \<Rightarrow> 'a cp" where
  "query ext q w =
     (case x_db ext (w_calls w) of
        DbOk \<Rightarrow> (Inr (q (w_db w)), tick ext w)
      | DbFailed m \<Rightarrow> (Inl (DatabaseError m), tick ext w)
      | DbLost m \<Rightarrow> (Inl (DatabaseError m), tick ext w))"

text \<open>A query that also reads the database clock.\<close>

definition queryAt :: "external \<Rightarrow> (nat \<Rightarrow> database \<Rightarrow> 'a) \<Rightarrow> 'a cp" where
  "queryAt ext q w = query ext (q (w_clock w)) w"

text \<open>
  \<open>await connection.beginTransaction(); try { body; commit } catch (e) { rollback; throw e }\<close>.
  A transaction that is not committed leaves no change; a lost commit acknowledgement raises an
  error although the change is durable; a failing \<open>rollback()\<close> replaces the error (the server
  discards the open transaction with the session).
\<close>

definition rollbackTo :: "external \<Rightarrow> database \<Rightarrow> failure \<Rightarrow> 'a cp" where
  "rollbackTo ext d e w =
     (let w' = (tick ext w)\<lparr>w_db := d\<rparr> in
      case x_db ext (w_calls w) of
        DbOk \<Rightarrow> (Inl e, w')
      | DbFailed m \<Rightarrow> (Inl (DatabaseError m), w')
      | DbLost m \<Rightarrow> (Inl (DatabaseError m), w'))"

definition inTransaction :: "external \<Rightarrow> 'a cp \<Rightarrow> 'a cp" where
  "inTransaction ext body w =
     (let w1 = tick ext w in
      case x_db ext (w_calls w) of
        DbFailed m \<Rightarrow> (Inl (DatabaseError m), w1)
      | DbLost m \<Rightarrow> (Inl (DatabaseError m), w1)
      | DbOk \<Rightarrow>
          (case body w1 of
             (Inl e, w2) \<Rightarrow> rollbackTo ext (w_db w) e w2
           | (Inr x, w2) \<Rightarrow>
               (case x_db ext (w_calls w2) of
                  DbOk \<Rightarrow> (Inr x, tick ext w2)
                | DbFailed m \<Rightarrow> rollbackTo ext (w_db w) (DatabaseError m) (tick ext w2)
                | DbLost m \<Rightarrow> rollbackTo ext (w_db w2) (DatabaseError m) (tick ext w2))))"

text \<open>
  The same with an early exit \<open>await connection.rollback(); return false;\<close> inside the
  \<open>try\<close> block, taken when the body returns \<open>None\<close>. When that \<open>rollback()\<close> fails, the
  handler rolls back once more and rethrows.
\<close>

definition inTransactionUnless :: "external \<Rightarrow> 'a option cp \<Rightarrow> 'a option cp" where
  "inTransactionUnless ext body w =
     (let w1 = tick ext w in
      case x_db ext (w_calls w) of
        DbFailed m \<Rightarrow> (Inl (DatabaseError m), w1)
      | DbLost m \<Rightarrow> (Inl (DatabaseError m), w1)
      | DbOk \<Rightarrow>
          (case body w1 of
             (Inr None, w2) \<Rightarrow>
               (let w3 = (tick ext w2)\<lparr>w_db := w_db w\<rparr> in
                case x_db ext (w_calls w2) of
                  DbOk \<Rightarrow> (Inr None, w3)
                | DbFailed m \<Rightarrow> rollbackTo ext (w_db w) (DatabaseError m) w3
                | DbLost m \<Rightarrow> rollbackTo ext (w_db w) (DatabaseError m) w3)
           | _ \<Rightarrow> inTransaction ext body w))"

subsection \<open>Polling loops\<close>

text \<open>
  \<open>while (Date.now() < deadline) { ...; await sleep(interval); }\<close>. The body either breaks
  out with a result or continues with a new loop state after a sleep. The fuel of \<open>poll\<close>
  is never exhausted before the deadline (\<open>poll_timeout\<close> below).
\<close>

datatype ('s, 'r) loop_step = Continue 's | Break 'r

fun pollLoop :: "external \<Rightarrow> nat \<Rightarrow> nat \<Rightarrow> nat \<Rightarrow> ('s \<Rightarrow> ('s, 'r) loop_step cp) \<Rightarrow> 's \<Rightarrow> ('s + 'r) cp" where
  "pollLoop ext 0 deadline interval body s w = (Inr (Inl s), w)"
| "pollLoop ext (Suc fuel) deadline interval body s w =
     (if w_clock w < deadline then
        (case body s w of
           (Inl e, w') \<Rightarrow> (Inl e, w')
         | (Inr (Break r), w') \<Rightarrow> (Inr (Inr r), w')
         | (Inr (Continue s'), w') \<Rightarrow> pollLoop ext fuel deadline interval body s' (sleepW ext interval w'))
      else (Inr (Inl s), w))"

definition poll :: "external \<Rightarrow> nat \<Rightarrow> nat \<Rightarrow> ('s \<Rightarrow> ('s, 'r) loop_step cp) \<Rightarrow> 's \<Rightarrow> ('s + 'r) cp" where
  "poll ext timeout interval body s w =
     pollLoop ext (Suc (timeout div interval)) (w_clock w + timeout) interval body s w"

section \<open>Relations kept by computations\<close>

definition steps :: "(world \<Rightarrow> world \<Rightarrow> bool) \<Rightarrow> 'a cp \<Rightarrow> bool" where
  "steps R m \<longleftrightarrow> (\<forall>w. R w (snd (m w)))"

definition hoare ::
    "(world \<Rightarrow> bool) \<Rightarrow> 'a cp \<Rightarrow> ('a \<Rightarrow> world \<Rightarrow> bool) \<Rightarrow> (failure \<Rightarrow> world \<Rightarrow> bool) \<Rightarrow> bool" where
  "hoare P m Q E \<longleftrightarrow>
     (\<forall>w. P w \<longrightarrow> (\<forall>x w'. m w = (Inr x, w') \<longrightarrow> Q x w') \<and> (\<forall>e w'. m w = (Inl e, w') \<longrightarrow> E e w'))"

lemma stepsI: "(\<And>w r w'. m w = (r, w') \<Longrightarrow> R w w') \<Longrightarrow> steps R m"
  unfolding steps_def by (metis prod.collapse)

lemma stepsD: "steps R m \<Longrightarrow> m w = (r, w') \<Longrightarrow> R w w'"
  unfolding steps_def by (metis snd_conv)

text \<open>The laws of a relation that is respected by everything except writes and dispatch.\<close>

locale step_relation =
  fixes R :: "world \<Rightarrow> world \<Rightarrow> bool"
  assumes refl: "R w w"
    and trans: "R a b \<Longrightarrow> R b c \<Longrightarrow> R a c"
    and clocked: "R w (w\<lparr>w_calls := w_calls w + n, w_clock := w_clock w + t\<rparr>)"
    and admission_scoped: "R w (w\<lparr>w_admission := am\<rparr>)"
begin

lemma ticked: "R w (tick ext w)"
  using clocked [where n = 1 and t = "x_latency ext (w_calls w)"] by (simp add: tick_def)

lemma slept: "R w (sleepW ext ms w)"
  using clocked [where n = 0 and t = "ms + x_timerDelay ext (w_calls w)"] by (simp add: sleepW_def add.assoc)

lemma steps_retM [step_intros]: "steps R (retM x)"
  by (simp add: steps_def retM_def refl)

lemma steps_throwM [step_intros]: "steps R (throwM e)"
  by (simp add: steps_def throwM_def refl)

lemma steps_getsM [step_intros]: "steps R (getsM f)"
  by (simp add: steps_def getsM_def refl)

lemma steps_bindM [step_intros]: "steps R m \<Longrightarrow> (\<And>x. steps R (f x)) \<Longrightarrow> steps R (bindM m f)"
  unfolding steps_def bindM_def
  by (auto split: prod.splits sum.splits) (metis snd_conv trans)+

lemma steps_thenM [step_intros]: "steps R m \<Longrightarrow> steps R k \<Longrightarrow> steps R (thenM m k)"
  unfolding thenM_def by (rule steps_bindM)

lemma steps_attempt [step_intros]: "steps R m \<Longrightarrow> steps R (attempt m)"
  unfolding steps_def attempt_def by (auto split: prod.splits) (metis snd_conv)

lemma steps_catchM [step_intros]: "steps R m \<Longrightarrow> (\<And>e. steps R (h e)) \<Longrightarrow> steps R (catchM m h)"
  unfolding steps_def catchM_def
  by (auto split: prod.splits sum.splits) (metis snd_conv trans)+

lemma steps_whenM [step_intros]: "(b \<Longrightarrow> steps R m) \<Longrightarrow> steps R (whenM b m)"
  by (simp add: whenM_def steps_retM)

lemma steps_if [step_intros]:
  "(b \<Longrightarrow> steps R m) \<Longrightarrow> (\<not> b \<Longrightarrow> steps R k) \<Longrightarrow> steps R (if b then m else k)"
  by simp

lemma steps_case_option [step_intros]:
  "(x = None \<Longrightarrow> steps R m) \<Longrightarrow> (\<And>y. x = Some y \<Longrightarrow> steps R (k y)) \<Longrightarrow>
   steps R (case x of None \<Rightarrow> m | Some y \<Rightarrow> k y)"
  by (cases x) simp_all

lemma steps_case_sum [step_intros]:
  "(\<And>e. x = Inl e \<Longrightarrow> steps R (m e)) \<Longrightarrow> (\<And>y. x = Inr y \<Longrightarrow> steps R (k y)) \<Longrightarrow>
   steps R (case x of Inl e \<Rightarrow> m e | Inr y \<Rightarrow> k y)"
  by (cases x) simp_all

lemma steps_case_prod [step_intros]:
  "(\<And>a b. x = (a, b) \<Longrightarrow> steps R (k a b)) \<Longrightarrow> steps R (case x of (a, b) \<Rightarrow> k a b)"
  by (cases x) simp_all

lemma steps_Let [step_intros]: "steps R (k t) \<Longrightarrow> steps R (let x = t in k x)"
  by (simp add: Let_def)

lemma steps_forEachM [step_intros]: "(\<And>x. steps R (f x)) \<Longrightarrow> steps R (forEachM f xs)"
  by (induction xs) (auto intro: steps_retM steps_thenM)

lemma steps_finallyM [step_intros]: "steps R m \<Longrightarrow> steps R fin \<Longrightarrow> steps R (finallyM m fin)"
  unfolding steps_def finallyM_def
  by (auto split: prod.splits sum.splits) (metis snd_conv trans)+

text \<open>The same rules for one given world, where facts about that world are needed.\<close>

lemma bindM_related:
  assumes "R w (snd (m w))" and "\<And>x w'. m w = (Inr x, w') \<Longrightarrow> R w' (snd (f x w'))"
  shows "R w (snd (bindM m f w))"
proof -
  obtain r w' where m: "m w = (r, w')" by fastforce
  show ?thesis
  proof (cases r)
    case (Inl e)
    with m assms(1) show ?thesis by (simp add: bindM_def)
  next
    case (Inr x)
    with m have "R w w'" "R w' (snd (f x w'))" using assms by auto
    with m Inr show ?thesis using trans by (simp add: bindM_def)
  qed
qed

lemma bindM_from:
  assumes "R w0 (snd (m w))" and "\<And>x w'. m w = (Inr x, w') \<Longrightarrow> R w0 w' \<Longrightarrow> R w0 (snd (f x w'))"
  shows "R w0 (snd (bindM m f w))"
proof -
  obtain r w' where m: "m w = (r, w')" by fastforce
  then show ?thesis using assms by (cases r) (auto simp: bindM_def)
qed

lemma steps_from: "steps R m \<Longrightarrow> R w0 w \<Longrightarrow> R w0 (snd (m w))"
  unfolding steps_def using trans by blast

lemma steps_at: "steps R m \<Longrightarrow> R w (snd (m w))"
  unfolding steps_def by blast

lemma finallyM_related:
  assumes "R w (snd (m w))" and "steps R fin"
  shows "R w (snd (finallyM m fin w))"
proof -
  obtain r w' where m: "m w = (r, w')" by fastforce
  have "R w (snd (fin w'))"
    using trans [OF _ assms(2) [unfolded steps_def, rule_format]] assms(1) m by simp
  then show ?thesis using m by (auto simp: finallyM_def split: prod.splits sum.splits)
qed

lemma steps_callExternal [step_intros]: "steps R (callExternal ext f)"
  by (simp add: steps_def callExternal_def ticked)

lemma steps_randomUUID [step_intros]: "steps R (randomUUID ext)"
  by (simp add: randomUUID_def steps_callExternal)

lemma steps_query [step_intros]: "steps R (query ext q)"
  by (auto simp: steps_def query_def ticked split: DbOutcome.splits)

lemma steps_queryAt [step_intros]: "steps R (queryAt ext q)"
  unfolding steps_def queryAt_def using steps_at [OF steps_query] by blast

lemma steps_executeStmt:
  assumes "\<And>w n d. stmt (w_clock w) (w_db w) = Inr (n, d) \<Longrightarrow> R w (w\<lparr>w_db := d\<rparr>)"
  shows "steps R (executeStmt ext stmt)"
proof (rule stepsI)
  fix w r w'
  assume run: "executeStmt ext stmt w = (r, w')"
  have "R w ((tick ext w)\<lparr>w_db := d\<rparr>)" if "stmt (w_clock w) (w_db w) = Inr (n, d)" for n d
  proof -
    have "R w (w\<lparr>w_db := d\<rparr>)" using that by (rule assms)
    moreover have "(tick ext w)\<lparr>w_db := d\<rparr> = tick ext (w\<lparr>w_db := d\<rparr>)"
      by (simp add: tick_def)
    ultimately show ?thesis using ticked trans by metis
  qed
  then show "R w w'"
    using run ticked by (auto simp: executeStmt_def Let_def split: DbOutcome.splits sum.splits)
qed

lemma steps_execute:
  assumes "\<And>w n d. stmt (w_clock w) (w_db w) = Inr (n, d) \<Longrightarrow> R w (w\<lparr>w_db := d\<rparr>)"
  shows "steps R (execute ext stmt)"
  unfolding execute_def by (intro steps_thenM steps_executeStmt steps_retM assms)

lemma steps_pollLoop: "(\<And>s. steps R (body s)) \<Longrightarrow> steps R (pollLoop ext fuel deadline interval body s)"
proof (induction fuel arbitrary: s)
  case 0
  show ?case by (simp add: steps_def refl)
next
  case (Suc fuel)
  show ?case
  proof (rule stepsI)
    fix w r w'
    assume run: "pollLoop ext (Suc fuel) deadline interval body s w = (r, w')"
    obtain b w1 where b: "body s w = (b, w1)" by fastforce
    have r1: "R w w1" using Suc.prems b by (rule stepsD)
    have "R w (snd (pollLoop ext fuel deadline interval body s' (sleepW ext interval w1)))" for s'
      using Suc.IH [OF Suc.prems, of s'] r1 slept trans unfolding steps_def by metis
    then show "R w w'"
      using run b r1 refl by (auto split: if_splits sum.splits loop_step.splits) (metis snd_conv)
  qed
qed

text \<open>Loops whose body keeps \<open>R\<close> only under an invariant.\<close>

lemma pollLoop_invariant:
  assumes body: "\<And>s w. I w \<Longrightarrow> R w (snd (body s w)) \<and> I (snd (body s w))"
    and sleep: "\<And>w. I w \<Longrightarrow> I (sleepW ext interval w)" and "I w"
  shows "R w (snd (pollLoop ext fuel deadline interval body s w)) \<and> I (snd (pollLoop ext fuel deadline interval body s w))"
  using \<open>I w\<close>
proof (induction fuel arbitrary: s w)
  case 0
  then show ?case by (simp add: refl)
next
  case (Suc fuel)
  obtain b w1 where b: "body s w = (b, w1)" by fastforce
  have w1: "R w w1" "I w1" using body [OF Suc.prems, of s] b by simp_all
  have "R (sleepW ext interval w1) (snd (pollLoop ext fuel deadline interval body s' (sleepW ext interval w1)))"
      "I (snd (pollLoop ext fuel deadline interval body s' (sleepW ext interval w1)))" for s'
    using Suc.IH [OF sleep [OF w1(2)]] by blast+
  then have "R w (snd (pollLoop ext fuel deadline interval body s' (sleepW ext interval w1)))"
      "I (snd (pollLoop ext fuel deadline interval body s' (sleepW ext interval w1)))" for s'
    using trans [OF trans [OF w1(1) slept]] by blast+
  then show ?case using b w1 Suc.prems refl by (auto split: sum.split loop_step.split)
qed

lemma poll_invariant:
  assumes "\<And>s w. I w \<Longrightarrow> R w (snd (body s w)) \<and> I (snd (body s w))"
    and "\<And>w. I w \<Longrightarrow> I (sleepW ext interval w)" and "I w"
  shows "R w (snd (poll ext timeout interval body s w)) \<and> I (snd (poll ext timeout interval body s w))"
  unfolding poll_def using assms by (rule pollLoop_invariant)

lemma pollLoop_Break:
  assumes "\<And>s. steps R (body s)"
    and "pollLoop ext fuel deadline interval body s w = (Inr (Inr r), w')"
  shows "\<exists>s1 w1. R w w1 \<and> body s1 w1 = (Inr (Break r), w')"
  using assms(2)
proof (induction fuel arbitrary: s w)
  case (Suc fuel)
  obtain b w1 where b: "body s w = (b, w1)" by fastforce
  have r1: "R w w1" using assms(1) b by (rule stepsD)
  consider "b = Inr (Break r)" "w1 = w'"
    | s' where "b = Inr (Continue s')"
        "pollLoop ext fuel deadline interval body s' (sleepW ext interval w1) = (Inr (Inr r), w')"
    using Suc.prems b by (auto split: if_splits sum.splits loop_step.splits)
  then show ?case
  proof cases
    case 1
    then show ?thesis using b refl by blast
  next
    case 2
    then show ?thesis using Suc.IH [OF 2(2)] trans [OF trans [OF r1 slept]] by blast
  qed
qed simp

lemma poll_Break:
  assumes "\<And>s. steps R (body s)" and "poll ext timeout interval body s w = (Inr (Inr r), w')"
  shows "\<exists>s1 w1. R w w1 \<and> body s1 w1 = (Inr (Break r), w')"
  using pollLoop_Break [OF assms(1) assms(2) [unfolded poll_def]] .

lemma steps_poll [step_intros]:
  assumes "\<And>s. steps R (body s)"
  shows "steps R (poll ext timeout interval body s)"
proof (rule stepsI)
  fix w r w'
  assume "poll ext timeout interval body s w = (r, w')"
  then show "R w w'"
    unfolding poll_def by (rule stepsD [OF steps_pollLoop [OF assms]])
qed

end

text \<open>Relations that a transaction keeps: undoing the changes of the database is harmless.\<close>

locale undo_relation = step_relation +
  assumes restored: "R w w' \<Longrightarrow> R w (w'\<lparr>w_db := w_db w\<rparr>)"
begin

lemma rollbackTo_related:
  assumes "R w (w2\<lparr>w_db := d\<rparr>)"
  shows "R w (snd (rollbackTo ext d e w2))"
proof -
  have "(tick ext w2)\<lparr>w_db := d\<rparr> = tick ext (w2\<lparr>w_db := d\<rparr>)"
    by (simp add: tick_def)
  with assms have "R w ((tick ext w2)\<lparr>w_db := d\<rparr>)"
    using ticked trans by metis
  then show ?thesis
    by (auto simp: rollbackTo_def Let_def split: DbOutcome.splits)
qed

text \<open>
  A transaction keeps \<open>R\<close> when its successful body does and its failed body does up to the
  database, which is restored.
\<close>

lemma steps_transaction:
  fixes body :: "'a cp"
  assumes ok: "\<And>w x w'. body w = (Inr x, w') \<Longrightarrow> R w w'"
    and bad: "\<And>w e w'. body w = (Inl e, w') \<Longrightarrow> R w (w'\<lparr>w_db := w_db w\<rparr>)"
  shows "steps R (inTransaction ext body)"
proof (rule stepsI)
  fix w r w'
  assume run: "inTransaction ext body w = (r, w')"
  let ?w1 = "tick ext w"
  have w1: "R w ?w1" by (rule ticked)
  have db1: "w_db ?w1 = w_db w" by (simp add: tick_def)
  show "R w w'"
  proof (cases "x_db ext (w_calls w)")
    case DbOk
    obtain b w2 where body: "body ?w1 = (b, w2)" by fastforce
    show ?thesis
    proof (cases b)
      case (Inl e)
      have "R w (w2\<lparr>w_db := w_db w\<rparr>)"
        using bad [OF body [unfolded Inl]] trans [OF w1] db1 by simp
      then have "R w (snd (rollbackTo ext (w_db w) e w2 :: (failure + 'a) \<times> world))"
        by (rule rollbackTo_related)
      moreover have "rollbackTo ext (w_db w) e w2 = (r, w')"
        using run DbOk body Inl by (simp add: inTransaction_def Let_def)
      ultimately show ?thesis by simp
    next
      case (Inr x)
      have w2: "R w w2" using ok [OF body [unfolded Inr]] trans [OF w1] by blast
      have t2: "R w (tick ext w2)" using w2 ticked trans by blast
      have lost: "R w (snd (rollbackTo ext (w_db w2) e (tick ext w2) :: (failure + 'a) \<times> world))" for e
        using t2 by (intro rollbackTo_related) (simp add: tick_def)
      have undone: "R w (snd (rollbackTo ext (w_db w) e (tick ext w2) :: (failure + 'a) \<times> world))" for e
        using t2 by (intro rollbackTo_related restored)
      show ?thesis
      proof (cases "x_db ext (w_calls w2)")
        case DbOk2: DbOk
        with run DbOk body Inr t2 show ?thesis by (simp add: inTransaction_def Let_def)
      next
        case (DbFailed m)
        with run DbOk body Inr have "rollbackTo ext (w_db w) (DatabaseError m) (tick ext w2) = (r, w')"
          by (simp add: inTransaction_def Let_def)
        then show ?thesis using undone [of "DatabaseError m"] by simp
      next
        case (DbLost m)
        with run DbOk body Inr have "rollbackTo ext (w_db w2) (DatabaseError m) (tick ext w2) = (r, w')"
          by (simp add: inTransaction_def Let_def)
        then show ?thesis using lost [of "DatabaseError m"] by simp
      qed
    qed
  qed (use run w1 in \<open>auto simp: inTransaction_def Let_def\<close>)
qed

lemma steps_transaction_body [step_intros]: "steps R body \<Longrightarrow> steps R (inTransaction ext body)"
  by (rule steps_transaction) (auto dest: stepsD intro: restored)

lemma steps_transactionUnless [step_intros]:
  fixes body :: "'a option cp"
  assumes "steps R body"
  shows "steps R (inTransactionUnless ext body)"
proof (rule stepsI)
  fix w r w'
  assume run: "inTransactionUnless ext body w = (r, w')"
  obtain b w2 where body: "body (tick ext w) = (b, w2)" by fastforce
  have w2: "R w w2" using stepsD [OF assms body] ticked trans by blast
  show "R w w'"
  proof (cases "x_db ext (w_calls w) = DbOk \<and> b = Inr None")
    case True
    let ?w3 = "(tick ext w2)\<lparr>w_db := w_db w\<rparr>"
    have w3: "R w ?w3" using w2 ticked trans restored by blast
    have "R w (snd (rollbackTo ext (w_db w) e ?w3 :: (failure + 'a option) \<times> world))" for e
      using w3 by (intro rollbackTo_related) simp
    then show ?thesis
      using run True body w3
      by (auto simp: inTransactionUnless_def Let_def split: DbOutcome.splits) (metis snd_conv)+
  next
    case False
    then have "inTransaction ext body w = (r, w')"
      using run body
      by (auto simp: inTransactionUnless_def inTransaction_def Let_def split: DbOutcome.splits sum.splits option.splits)
    then show ?thesis using stepsD [OF steps_transaction_body [OF assms]] by blast
  qed
qed

end

text \<open>Relations that ignore the session's locks and scopes.\<close>

locale scoped_relation = step_relation +
  assumes locked: "R w (w\<lparr>w_locks := ls\<rparr>)"
    and operation_scoped: "R w (w\<lparr>w_operation := op\<rparr>)"
    and active_scoped: "R w (w\<lparr>w_active := ac\<rparr>)"

section \<open>Flow-sensitive rules\<close>

lemma hoareI:
  assumes "\<And>w x w'. P w \<Longrightarrow> m w = (Inr x, w') \<Longrightarrow> Q x w'"
    and "\<And>w e w'. P w \<Longrightarrow> m w = (Inl e, w') \<Longrightarrow> E e w'"
  shows "hoare P m Q E"
  unfolding hoare_def using assms by blast

lemma hoare_OK: "hoare P m Q E \<Longrightarrow> P w \<Longrightarrow> m w = (Inr x, w') \<Longrightarrow> Q x w'"
  unfolding hoare_def by blast

lemma hoare_Err: "hoare P m Q E \<Longrightarrow> P w \<Longrightarrow> m w = (Inl e, w') \<Longrightarrow> E e w'"
  unfolding hoare_def by blast

lemma hoareD:
  "hoare P m Q E \<Longrightarrow> P w \<Longrightarrow> m w = (r, w') \<Longrightarrow> case r of Inr x \<Rightarrow> Q x w' | Inl e \<Rightarrow> E e w'"
  by (cases r) (auto dest: hoare_OK hoare_Err)

lemma hoare_both: "hoare P m (\<lambda>_. Q) (\<lambda>_. Q) \<Longrightarrow> P w \<Longrightarrow> m w = (r, w') \<Longrightarrow> Q w'"
  by (cases r) (auto dest: hoare_OK hoare_Err)

lemma hoare_fromI: "(\<And>w. P w \<Longrightarrow> Q (snd (m w))) \<Longrightarrow> hoare P m (\<lambda>_. Q) (\<lambda>_. Q)"
  by (rule hoareI) (metis snd_conv)+

lemma hoare_pre: "hoare P m Q E \<Longrightarrow> (\<And>w. P' w \<Longrightarrow> P w) \<Longrightarrow> hoare P' m Q E"
  unfolding hoare_def by blast

lemma hoare_post:
  assumes "hoare P m Q' E'" and "\<And>x w. Q' x w \<Longrightarrow> Q x w" and "\<And>e w. E' e w \<Longrightarrow> E e w"
  shows "hoare P m Q E"
proof (rule hoareI)
  fix w x w' assume "P w" "m w = (Inr x, w')"
  with assms(1) have "Q' x w'" by (rule hoare_OK)
  then show "Q x w'" by (rule assms(2))
next
  fix w e w' assume "P w" "m w = (Inl e, w')"
  with assms(1) have "E' e w'" by (rule hoare_Err)
  then show "E e w'" by (rule assms(3))
qed

lemma hoare_retM: "(\<And>w. P w \<Longrightarrow> Q x w) \<Longrightarrow> hoare P (retM x) Q E"
  by (auto simp: hoare_def retM_def)

lemma hoare_throwM: "(\<And>w. P w \<Longrightarrow> E e w) \<Longrightarrow> hoare P (throwM e) Q E"
  by (auto simp: hoare_def throwM_def)

lemma hoare_bindM:
  assumes m: "hoare P m Q' E" and f: "\<And>x. hoare (Q' x) (f x) Q E"
  shows "hoare P (bindM m f) Q E"
proof (rule hoareI)
  fix w y w'' assume P: "P w" and run: "bindM m f w = (Inr y, w'')"
  then obtain x w' where x: "m w = (Inr x, w')" and y: "f x w' = (Inr y, w'')"
    by (auto simp: bindM_def split: prod.splits sum.splits)
  show "Q y w''" using hoare_OK [OF f hoare_OK [OF m P x] y] .
next
  fix w e w'' assume P: "P w" and run: "bindM m f w = (Inl e, w'')"
  then consider "m w = (Inl e, w'')" | x w' where "m w = (Inr x, w')" "f x w' = (Inl e, w'')"
    by (auto simp: bindM_def split: prod.splits sum.splits)
  then show "E e w''"
  proof cases
    case 1
    then show ?thesis by (rule hoare_Err [OF m P])
  next
    case 2
    then show ?thesis by (metis hoare_Err [OF f] hoare_OK [OF m P])
  qed
qed

lemma hoare_thenM: "hoare P m (\<lambda>_. Q') E \<Longrightarrow> hoare Q' k Q E \<Longrightarrow> hoare P (thenM m k) Q E"
  unfolding thenM_def by (rule hoare_bindM)

lemma hoare_attempt:
  assumes "hoare P m (\<lambda>x. Q (Inr x)) (\<lambda>e. Q (Inl e))"
  shows "hoare P (attempt m) Q E"
proof (rule hoareI)
  fix w x w' assume P: "P w" and "attempt m w = (Inr x, w')"
  then have "m w = (x, w')" by (auto simp: attempt_def split: prod.splits)
  then show "Q x w'" using hoareD [OF assms P, of x w'] by (cases x) simp_all
qed (auto simp: attempt_def split: prod.splits)

lemma hoare_if:
  "(b \<Longrightarrow> hoare P m Q E) \<Longrightarrow> (\<not> b \<Longrightarrow> hoare P k Q E) \<Longrightarrow> hoare P (if b then m else k) Q E"
  by simp

lemma hoare_case_option:
  "(x = None \<Longrightarrow> hoare P m Q E) \<Longrightarrow> (\<And>y. x = Some y \<Longrightarrow> hoare P (k y) Q E) \<Longrightarrow>
   hoare P (case x of None \<Rightarrow> m | Some y \<Rightarrow> k y) Q E"
  by (cases x) simp_all

lemma hoare_case_sum:
  "(\<And>e. x = Inl e \<Longrightarrow> hoare P (m e) Q E) \<Longrightarrow> (\<And>y. x = Inr y \<Longrightarrow> hoare P (k y) Q E) \<Longrightarrow>
   hoare P (case x of Inl e \<Rightarrow> m e | Inr y \<Rightarrow> k y) Q E"
  by (cases x) simp_all

lemma hoare_case_prod:
  "(\<And>a b. x = (a, b) \<Longrightarrow> hoare P (k a b) Q E) \<Longrightarrow> hoare P (case x of (a, b) \<Rightarrow> k a b) Q E"
  by (cases x) simp_all

lemmas hoare_splits = hoare_if hoare_case_option hoare_case_sum hoare_case_prod

lemma hoare_conj_pre: "(b \<Longrightarrow> hoare P m Q E) \<Longrightarrow> hoare (\<lambda>w. P w \<and> b) m Q E"
  unfolding hoare_def by auto

lemma hoare_steps: "hoare (\<lambda>w. w = w0) m (\<lambda>_ w. R w0 w) (\<lambda>_ w. R w0 w) \<longleftrightarrow> R w0 (snd (m w0))"
  unfolding hoare_def by (cases "m w0"; cases "fst (m w0)") auto

text \<open>
  \<open>since R w0 F\<close>: the current world is related to \<open>w0\<close>, the session holds the same
  locks and its database satisfies \<open>F\<close>. Reads and calls keep such an assertion.
\<close>

definition since :: "(world \<Rightarrow> world \<Rightarrow> bool) \<Rightarrow> world \<Rightarrow> (database \<Rightarrow> bool) \<Rightarrow> world \<Rightarrow> bool" where
  "since R w0 F w \<longleftrightarrow> R w0 w \<and> w_locks w = w_locks w0 \<and> F (w_db w)"

context step_relation
begin

lemma stepsI_hoare:
  assumes "\<And>w0. hoare (since R w0 (\<lambda>d. d = w_db w0)) m (\<lambda>_. R w0) (\<lambda>_. R w0)"
  shows "steps R m"
proof (rule stepsI)
  fix w r w' assume "m w = (r, w')"
  then show "R w w'"
    using hoareD [OF assms, of w w r w'] by (cases r) (simp_all add: since_def refl)
qed

lemma hoare_of_steps:
  assumes "steps R m"
  shows "hoare (since R w0 F) m (\<lambda>_. R w0) (\<lambda>_. R w0)"
  unfolding since_def
  by (rule hoareI; blast dest: stepsD [OF assms] intro: trans)

lemma hoare_query:
  "hoare (since R w0 F) (query ext q) (\<lambda>x. since R w0 (\<lambda>d. F d \<and> x = q d)) (\<lambda>_. R w0)"
  unfolding since_def
  by (rule hoareI) (auto simp: query_def tick_def split: DbOutcome.splits
      intro: trans [OF _ ticked [unfolded tick_def]])

lemma hoare_callExternal:
  "hoare (since R w0 F) (callExternal ext f)
     (\<lambda>x. since R w0 (\<lambda>d. F d \<and> (\<exists>n. f n = Inr x))) (\<lambda>_. R w0)"
  unfolding since_def
  by (rule hoareI) (auto simp: callExternal_def tick_def
      intro: trans [OF _ ticked [unfolded tick_def]])

end

section \<open>Time\<close>

definition later :: "world \<Rightarrow> world \<Rightarrow> bool" where
  "later w w' \<longleftrightarrow> w_clock w \<le> w_clock w' \<and> w_calls w \<le> w_calls w'"

interpretation time: scoped_relation later
  by unfold_locales (auto simp: later_def)

lemma later_executeStmt [step_intros]: "steps later (executeStmt ext stmt)"
  by (rule time.steps_executeStmt) (simp add: later_def)

text \<open>
  A polling loop gives up only when its deadline has passed, for every body that does not turn
  the clock back: the fuel of \<open>poll\<close> is enough.
\<close>

lemma pollLoop_timeout:
  assumes mono: "\<And>s. steps later (body s)" and "0 < interval"
    and "deadline < w_clock w + Suc fuel * interval"
    and "pollLoop ext (Suc fuel) deadline interval body s w = (Inr (Inl s'), w')"
  shows "deadline \<le> w_clock w'"
  using assms(3,4)
proof (induction fuel arbitrary: s w)
  case 0
  show ?case
  proof (cases "w_clock w < deadline")
    case True
    with 0(2) obtain s1 w1 where b: "body s w = (Inr (Continue s1), w1)" and w': "w' = sleepW ext interval w1"
      by (auto split: prod.splits sum.splits loop_step.splits)
    have "w_clock w \<le> w_clock w1" using stepsD [OF mono b] by (simp add: later_def)
    with 0(1) w' show ?thesis by (simp add: sleepW_def)
  next
    case False
    with 0(2) show ?thesis by simp
  qed
next
  case (Suc fuel)
  show ?case
  proof (cases "w_clock w < deadline")
    case True
    with Suc.prems(2) obtain s1 w1 where b: "body s w = (Inr (Continue s1), w1)"
      and rest: "pollLoop ext (Suc fuel) deadline interval body s1 (sleepW ext interval w1) = (Inr (Inl s'), w')"
      by (auto simp del: pollLoop.simps(2) simp: pollLoop.simps(2) [of ext "Suc fuel"]
          split: prod.splits sum.splits loop_step.splits)
    have "w_clock w \<le> w_clock w1" using stepsD [OF mono b] by (simp add: later_def)
    then have "deadline < w_clock (sleepW ext interval w1) + Suc fuel * interval"
      using Suc.prems(1) by (simp add: sleepW_def)
    then show ?thesis using rest by (rule Suc.IH)
  next
    case False
    with Suc.prems(2) show ?thesis by simp
  qed
qed

lemma poll_timeout:
  assumes "\<And>s. steps later (body s)" and "0 < interval"
    and "poll ext timeout interval body s w = (Inr (Inl s'), w')"
  shows "w_clock w + timeout \<le> w_clock w'"
proof (rule pollLoop_timeout [OF assms(1,2)])
  have "timeout < Suc (timeout div interval) * interval"
    using assms(2) by (metis dividend_less_div_times mult.commute mult_Suc_right add.commute)
  then show "w_clock w + timeout < w_clock w + Suc (timeout div interval) * interval" by simp
qed (use assms(3) in \<open>simp add: poll_def\<close>)

section \<open>Runs that return\<close>

lemma bindM_OK: "bindM m f w = (Inr y, w'') \<longleftrightarrow> (\<exists>x w'. m w = (Inr x, w') \<and> f x w' = (Inr y, w''))"
  by (auto simp: bindM_def split: prod.splits sum.splits)

lemma thenM_OK: "thenM m k w = (Inr y, w'') \<longleftrightarrow> (\<exists>x w'. m w = (Inr x, w') \<and> k w' = (Inr y, w''))"
  by (simp add: thenM_def bindM_OK)

lemma retM_OK: "retM x w = (Inr y, w') \<longleftrightarrow> y = x \<and> w' = w"
  by (auto simp: retM_def)

lemma throwM_OK: "throwM e w \<noteq> (Inr y, w')"
  by (simp add: throwM_def)

lemma attempt_OK: "attempt m w = (Inr r, w') \<longleftrightarrow> m w = (r, w')"
  by (auto simp: attempt_def split: prod.splits)

lemma if_OK:
  "(if b then m else k) w = (Inr y, w') \<longleftrightarrow> (b \<and> m w = (Inr y, w')) \<or> (\<not> b \<and> k w = (Inr y, w'))"
  by simp

lemma case_option_OK:
  "(case x of None \<Rightarrow> m | Some a \<Rightarrow> f a) w = (Inr y, w') \<longleftrightarrow>
     (x = None \<and> m w = (Inr y, w')) \<or> (\<exists>a. x = Some a \<and> f a w = (Inr y, w'))"
  by (cases x) simp_all

lemma case_sum_OK:
  "(case x of Inl e \<Rightarrow> h e | Inr a \<Rightarrow> f a) w = (Inr y, w') \<longleftrightarrow>
     (\<exists>e. x = Inl e \<and> h e w = (Inr y, w')) \<or> (\<exists>a. x = Inr a \<and> f a w = (Inr y, w'))"
  by (cases x) simp_all

lemma case_prod_OK:
  "(case x of (a, b) \<Rightarrow> f a b) w = (Inr y, w') \<longleftrightarrow> (\<exists>a b. x = (a, b) \<and> f a b w = (Inr y, w'))"
  by (cases x) simp_all

lemmas OK_simps = bindM_OK thenM_OK retM_OK throwM_OK attempt_OK if_OK case_option_OK case_sum_OK case_prod_OK

lemma attempt_snd [simp]: "snd (attempt m w) = snd (m w)"
  by (simp add: attempt_def case_prod_beta)

lemma catchM_OK:
  "catchM m h w = (Inr x, w') \<longleftrightarrow> m w = (Inr x, w') \<or> (\<exists>e w1. m w = (Inl e, w1) \<and> h e w1 = (Inr x, w'))"
  by (auto simp: catchM_def split: prod.splits sum.splits)

lemma callExternal_OK:
  "callExternal ext f w = (Inr x, w') \<longleftrightarrow> f (w_calls w) = Inr x \<and> w' = tick ext w"
  by (auto simp: callExternal_def)

lemma executeStmt_OK:
  "executeStmt ext stmt w = (Inr n, w') \<Longrightarrow> \<exists>now. stmt now (w_db w) = Inr (n, w_db w')"
  by (auto simp: executeStmt_def Let_def split: DbOutcome.splits sum.splits prod.splits)

lemma execute_OK:
  "execute ext stmt w = (Inr u, w') \<Longrightarrow> \<exists>now n d. stmt now (w_db w) = Inr (n, d) \<and> w_db w' = d"
  unfolding execute_def thenM_OK retM_OK by (metis executeStmt_OK)

lemma query_OK: "query ext q w = (Inr x, w') \<Longrightarrow> x = q (w_db w) \<and> w_db w' = w_db w"
  by (auto simp: query_def tick_def split: DbOutcome.splits)

end
