(* ===== verification/Repositories.thy ===== *)
theory Repositories
  imports Effects
begin

text \<open>
  The SQL repositories: \<^verbatim>\<open>operations/operation.repository.ts\<close>,
  \<^verbatim>\<open>operations/node-operation.repository.ts\<close> and
  \<^verbatim>\<open>deployments/deployment.repository.ts\<close>, one definition per method, each a single
  statement or query on the tables of \<open>database\<close>.
\<close>

section \<open>Operations\<close>

definition nonTerminal :: "OperationStatus \<Rightarrow> bool" where
  "nonTerminal s = (s \<in> {PENDING, RUNNING, VERIFYING, NEEDS_ATTENTION})"

lemma nonTerminal_iff [simp]: "nonTerminal s \<longleftrightarrow> \<not> status_terminal s"
  by (cases s) (auto simp: nonTerminal_def)

text \<open>\<open>UPDATE operations SET ... WHERE id = ? AND status NOT IN ('SUCCESS', 'FAILED')\<close>.\<close>

definition updateOpenOperation :: "string \<Rightarrow> (OperationRecord \<Rightarrow> OperationRecord) \<Rightarrow> statement" where
  "updateOpenOperation oid f now d =
     (let P = (\<lambda>r. o_id r = oid \<and> \<not> status_terminal (o_status r)) in
      Inr (length (filter P (operations d)),
           d\<lparr>operations := update_rows P (\<lambda>r. (f r)\<lparr>o_updatedAt := now\<rparr>) (operations d)\<rparr>))"

definition op_find :: "external \<Rightarrow> string \<Rightarrow> OperationRecord option cp" where
  "op_find ext oid = query ext (\<lambda>d. find_row o_id oid (operations d))"

definition op_findWithConnection :: "external \<Rightarrow> string \<Rightarrow> OperationRecord option cp" where
  "op_findWithConnection ext oid = query ext (\<lambda>d. find_row o_id oid (operations d))"

definition op_listNonTerminal :: "external \<Rightarrow> OperationRecord list cp" where
  "op_listNonTerminal ext =
     query ext (\<lambda>d. sort_key o_createdAt (filter (\<lambda>r. nonTerminal (o_status r)) (operations d)))"

definition nonTerminalForService :: "string \<Rightarrow> string \<Rightarrow> database \<Rightarrow> OperationRecord list" where
  "nonTerminalForService clusterId serviceId d =
     filter (\<lambda>r. o_clusterId r = clusterId \<and> o_serviceId r = serviceId \<and> nonTerminal (o_status r))
       (operations d)"

definition op_findNonTerminalForService :: "external \<Rightarrow> string \<Rightarrow> string \<Rightarrow> OperationRecord option cp" where
  "op_findNonTerminalForService ext clusterId serviceId =
     query ext (\<lambda>d. oldest o_createdAt (nonTerminalForService clusterId serviceId d))"

record OperationInput =
  oi_id :: string
  oi_clusterId :: string
  oi_serviceId :: string
  oi_type :: OperationType
  oi_actorId :: string
  oi_expectedVersion :: nat
  oi_beforeSpecHash :: string
  oi_targetSpecHash :: string
  oi_targetForceUpdate :: nat
  oi_targetReplicas :: "nat option"
  oi_targetImage :: "string option"
  oi_targetTaskSpecHash :: "string option"
  oi_targetRuntimeSpecHash :: "string option"

definition newOperation :: "nat \<Rightarrow> OperationInput \<Rightarrow> OperationRecord" where
  "newOperation now i =
     \<lparr>o_id = oi_id i, o_clusterId = oi_clusterId i, o_serviceId = oi_serviceId i,
      o_type = oi_type i, o_status = PENDING, o_actorId = oi_actorId i,
      o_expectedVersion = oi_expectedVersion i, o_beforeSpecHash = oi_beforeSpecHash i,
      o_targetSpecHash = oi_targetSpecHash i, o_targetForceUpdate = oi_targetForceUpdate i,
      o_targetReplicas = oi_targetReplicas i, o_targetImage = oi_targetImage i,
      o_targetTaskSpecHash = oi_targetTaskSpecHash i,
      o_targetRuntimeSpecHash = oi_targetRuntimeSpecHash i,
      o_resultVersion = None, o_errorCode = None, o_errorMessage = None,
      o_createdAt = now, o_updatedAt = now\<rparr>"

definition insertOperation :: "OperationInput \<Rightarrow> statement" where
  "insertOperation i now d =
     (if find_row o_id (oi_id i) (operations d) \<noteq> None
      then Inl (DuplicateEntry ''Duplicate entry for key operations.PRIMARY'')
      else Inr (1, d\<lparr>operations := operations d @ [newOperation now i]\<rparr>))"

definition op_create :: "external \<Rightarrow> OperationInput \<Rightarrow> unit cp" where
  "op_create ext i = execute ext (insertOperation i)"

definition op_backfillTargetRuntimeSpecHash :: "external \<Rightarrow> string \<Rightarrow> string \<Rightarrow> unit cp" where
  "op_backfillTargetRuntimeSpecHash ext oid h =
     execute ext (\<lambda>now d.
       let P = (\<lambda>r. o_id r = oid \<and> o_targetRuntimeSpecHash r = None) in
       Inr (length (filter P (operations d)),
            d\<lparr>operations := update_rows P
                (\<lambda>r. r\<lparr>o_targetRuntimeSpecHash := Some h, o_updatedAt := now\<rparr>) (operations d)\<rparr>))"

definition op_markRunning :: "external \<Rightarrow> string \<Rightarrow> unit cp" where
  "op_markRunning ext oid = execute ext (updateOpenOperation oid (\<lambda>r. r\<lparr>o_status := RUNNING\<rparr>))"

definition op_markVerifying :: "external \<Rightarrow> string \<Rightarrow> nat \<Rightarrow> unit cp" where
  "op_markVerifying ext oid resultVersion =
     execute ext (updateOpenOperation oid
       (\<lambda>r. r\<lparr>o_status := VERIFYING, o_resultVersion := Some resultVersion,
              o_errorCode := None, o_errorMessage := None\<rparr>))"

definition op_markVerificationPending :: "external \<Rightarrow> string \<Rightarrow> string \<Rightarrow> string \<Rightarrow> unit cp" where
  "op_markVerificationPending ext oid code message =
     execute ext (updateOpenOperation oid
       (\<lambda>r. r\<lparr>o_status := VERIFYING, o_errorCode := Some code, o_errorMessage := Some message\<rparr>))"

definition op_markSuccess :: "external \<Rightarrow> string \<Rightarrow> nat \<Rightarrow> unit cp" where
  "op_markSuccess ext oid resultVersion =
     execute ext (updateOpenOperation oid
       (\<lambda>r. r\<lparr>o_status := SUCCESS, o_resultVersion := Some resultVersion,
              o_errorCode := None, o_errorMessage := None\<rparr>))"

definition op_markNeedsAttention :: "external \<Rightarrow> string \<Rightarrow> string \<Rightarrow> string \<Rightarrow> unit cp" where
  "op_markNeedsAttention ext oid code message =
     execute ext (updateOpenOperation oid
       (\<lambda>r. r\<lparr>o_status := NEEDS_ATTENTION, o_errorCode := Some code, o_errorMessage := Some message\<rparr>))"

definition op_markFailed :: "external \<Rightarrow> string \<Rightarrow> string \<Rightarrow> string \<Rightarrow> unit cp" where
  "op_markFailed ext oid code message =
     execute ext (updateOpenOperation oid
       (\<lambda>r. r\<lparr>o_status := FAILED, o_errorCode := Some code, o_errorMessage := Some message\<rparr>))"

definition auditRow :: "AuditEventInput \<Rightarrow> AuditRow" where
  "auditRow i =
     \<lparr>au_operationId = a_operationId i, au_actorId = a_actorId i, au_clusterId = a_clusterId i,
      au_serviceId = a_serviceId i,
      au_resourceType = (case a_resourceType i of None \<Rightarrow> ''service'' | Some t \<Rightarrow> t),
      au_resourceId = (case a_resourceId i of None \<Rightarrow> a_serviceId i | Some r \<Rightarrow> r),
      au_action = a_action i, au_beforeJson = a_beforeJson i, au_afterJson = a_afterJson i\<rparr>"

definition op_audit :: "external \<Rightarrow> AuditEventInput \<Rightarrow> unit cp" where
  "op_audit ext i =
     execute ext (\<lambda>now d. Inr (1, d\<lparr>audit_events := audit_events d @ [auditRow i]\<rparr>))"

text \<open>The common shape of the audit events of service mutations.\<close>

definition serviceAudit ::
    "string \<Rightarrow> string \<Rightarrow> string \<Rightarrow> string \<Rightarrow> string \<Rightarrow> json option \<Rightarrow> json option \<Rightarrow> AuditEventInput" where
  "serviceAudit oid actor cluster service action before after =
     \<lparr>a_operationId = oid, a_actorId = actor, a_clusterId = cluster, a_serviceId = service,
      a_resourceType = None, a_resourceId = None, a_action = action,
      a_beforeJson = before, a_afterJson = after\<rparr>"

definition nodeAudit ::
    "string \<Rightarrow> string \<Rightarrow> string \<Rightarrow> string \<Rightarrow> string \<Rightarrow> json option \<Rightarrow> json option \<Rightarrow> AuditEventInput" where
  "nodeAudit oid actor cluster node action before after =
     \<lparr>a_operationId = oid, a_actorId = actor, a_clusterId = cluster, a_serviceId = node,
      a_resourceType = Some ''node'', a_resourceId = Some node, a_action = action,
      a_beforeJson = before, a_afterJson = after\<rparr>"

section \<open>Node operations\<close>

definition updateOpenNodeOperation ::
    "string \<Rightarrow> (NodeOperationRecord \<Rightarrow> NodeOperationRecord) \<Rightarrow> statement" where
  "updateOpenNodeOperation oid f now d =
     (let P = (\<lambda>r. n_id r = oid \<and> \<not> status_terminal (n_status r)) in
      Inr (length (filter P (node_operations d)),
           d\<lparr>node_operations := update_rows P (\<lambda>r. (f r)\<lparr>n_updatedAt := now\<rparr>) (node_operations d)\<rparr>))"

definition nop_find :: "external \<Rightarrow> string \<Rightarrow> NodeOperationRecord option cp" where
  "nop_find ext oid = query ext (\<lambda>d. find_row n_id oid (node_operations d))"

definition nop_findWithConnection :: "external \<Rightarrow> string \<Rightarrow> NodeOperationRecord option cp" where
  "nop_findWithConnection ext oid = query ext (\<lambda>d. find_row n_id oid (node_operations d))"

definition nop_listNonTerminal :: "external \<Rightarrow> NodeOperationRecord list cp" where
  "nop_listNonTerminal ext =
     query ext (\<lambda>d. sort_key n_createdAt (filter (\<lambda>r. nonTerminal (n_status r)) (node_operations d)))"

definition nonTerminalForNode :: "string \<Rightarrow> string \<Rightarrow> database \<Rightarrow> NodeOperationRecord list" where
  "nonTerminalForNode clusterId nodeId d =
     filter (\<lambda>r. n_clusterId r = clusterId \<and> n_nodeId r = nodeId \<and> nonTerminal (n_status r))
       (node_operations d)"

definition nop_findNonTerminalForNodeWithConnection ::
    "external \<Rightarrow> string \<Rightarrow> string \<Rightarrow> NodeOperationRecord option cp" where
  "nop_findNonTerminalForNodeWithConnection ext clusterId nodeId =
     query ext (\<lambda>d. oldest n_createdAt (nonTerminalForNode clusterId nodeId d))"

definition nop_findNonTerminalForNode ::
    "external \<Rightarrow> string \<Rightarrow> string \<Rightarrow> NodeOperationRecord option cp" where
  "nop_findNonTerminalForNode ext clusterId nodeId =
     query ext (\<lambda>d. oldest n_createdAt (nonTerminalForNode clusterId nodeId d))"

definition nonTerminalAffectingService :: "string \<Rightarrow> string \<Rightarrow> database \<Rightarrow> NodeOperationRecord list" where
  "nonTerminalAffectingService clusterId serviceId d =
     filter (\<lambda>r. n_clusterId r = clusterId \<and> nonTerminal (n_status r)
                 \<and> serviceId \<in> set (n_affectedServiceIds r)) (node_operations d)"

definition nop_findNonTerminalAffectingService ::
    "external \<Rightarrow> string \<Rightarrow> string \<Rightarrow> NodeOperationRecord option cp" where
  "nop_findNonTerminalAffectingService ext clusterId serviceId =
     query ext (\<lambda>d. oldest n_createdAt (nonTerminalAffectingService clusterId serviceId d))"

record NodeOperationInput =
  ni_id :: string
  ni_clusterId :: string
  ni_nodeId :: string
  ni_type :: NodeOperationType
  ni_actorId :: string
  ni_expectedVersion :: nat
  ni_beforeSpecHash :: string
  ni_targetSpecHash :: string
  ni_targetAvailability :: Availability
  ni_affectedServiceIds :: "string list"
  ni_targetLabels :: "labels option"
  ni_labelPatch :: "LabelPatch option"

definition newNodeOperation :: "nat \<Rightarrow> NodeOperationInput \<Rightarrow> NodeOperationRecord" where
  "newNodeOperation now i =
     \<lparr>n_id = ni_id i, n_clusterId = ni_clusterId i, n_nodeId = ni_nodeId i, n_type = ni_type i,
      n_status = PENDING, n_actorId = ni_actorId i, n_expectedVersion = ni_expectedVersion i,
      n_beforeSpecHash = ni_beforeSpecHash i, n_targetSpecHash = ni_targetSpecHash i,
      n_targetAvailability = ni_targetAvailability i, n_targetLabels = ni_targetLabels i,
      n_labelPatch = ni_labelPatch i, n_affectedServiceIds = ni_affectedServiceIds i,
      n_resultVersion = None, n_errorCode = None, n_errorMessage = None,
      n_createdAt = now, n_updatedAt = now\<rparr>"

definition insertNodeOperation :: "NodeOperationInput \<Rightarrow> statement" where
  "insertNodeOperation i now d =
     (if find_row n_id (ni_id i) (node_operations d) \<noteq> None
      then Inl (DuplicateEntry ''Duplicate entry for key node_operations.PRIMARY'')
      else Inr (1, d\<lparr>node_operations := node_operations d @ [newNodeOperation now i]\<rparr>))"

definition nop_create :: "external \<Rightarrow> NodeOperationInput \<Rightarrow> unit cp" where
  "nop_create ext i = execute ext (insertNodeOperation i)"

definition nop_markRunning :: "external \<Rightarrow> string \<Rightarrow> unit cp" where
  "nop_markRunning ext oid = execute ext (updateOpenNodeOperation oid (\<lambda>r. r\<lparr>n_status := RUNNING\<rparr>))"

definition nop_markVerifying :: "external \<Rightarrow> string \<Rightarrow> nat \<Rightarrow> unit cp" where
  "nop_markVerifying ext oid resultVersion =
     execute ext (updateOpenNodeOperation oid
       (\<lambda>r. r\<lparr>n_status := VERIFYING, n_resultVersion := Some resultVersion,
              n_errorCode := None, n_errorMessage := None\<rparr>))"

definition nop_markSuccess :: "external \<Rightarrow> string \<Rightarrow> nat \<Rightarrow> unit cp" where
  "nop_markSuccess ext oid resultVersion =
     execute ext (updateOpenNodeOperation oid
       (\<lambda>r. r\<lparr>n_status := SUCCESS, n_resultVersion := Some resultVersion,
              n_errorCode := None, n_errorMessage := None\<rparr>))"

definition nop_markFailed :: "external \<Rightarrow> string \<Rightarrow> string \<Rightarrow> string \<Rightarrow> unit cp" where
  "nop_markFailed ext oid code message =
     execute ext (updateOpenNodeOperation oid
       (\<lambda>r. r\<lparr>n_status := FAILED, n_errorCode := Some code, n_errorMessage := Some message\<rparr>))"

definition nop_markNeedsAttention :: "external \<Rightarrow> string \<Rightarrow> string \<Rightarrow> string \<Rightarrow> unit cp" where
  "nop_markNeedsAttention ext oid code message =
     execute ext (updateOpenNodeOperation oid
       (\<lambda>r. r\<lparr>n_status := NEEDS_ATTENTION, n_errorCode := Some code, n_errorMessage := Some message\<rparr>))"

section \<open>Deployments\<close>

definition updateDeployment ::
    "string \<Rightarrow> (nat \<Rightarrow> DeploymentRecord \<Rightarrow> DeploymentRecord) \<Rightarrow> statement" where
  "updateDeployment did f now d =
     (let P = (\<lambda>r. d_id r = did) in
      Inr (length (filter P (deployments d)),
           d\<lparr>deployments := update_rows P (f now) (deployments d)\<rparr>))"

definition dep_requireWithConnection :: "external \<Rightarrow> string \<Rightarrow> DeploymentRecord cp" where
  "dep_requireWithConnection ext did =
     bindM (query ext (\<lambda>d. find_row d_id did (deployments d)))
       (\<lambda>row. case row of
          None \<Rightarrow> throwM (PlainError ''Deployment disappeared after persistence'')
        | Some r \<Rightarrow> retM r)"

record DeploymentInput =
  dpi_kind :: DeploymentKind
  dpi_sourceDeploymentId :: "string option"
  dpi_releaseId :: string
  dpi_previousReleaseId :: "string option"
  dpi_deploymentTargetId :: string
  dpi_operationId :: string
  dpi_status :: DeploymentStatus
  dpi_noOp :: bool
  dpi_beforeSpec :: json
  dpi_targetSpec :: json
  dpi_health :: HealthCheckConfig
  dpi_expectedServiceVersion :: nat
  dpi_createdBy :: string

definition newDeployment :: "nat \<Rightarrow> string \<Rightarrow> DeploymentInput \<Rightarrow> DeploymentRecord" where
  "newDeployment now did i =
     \<lparr>d_id = did, d_kind = dpi_kind i, d_sourceDeploymentId = dpi_sourceDeploymentId i,
      d_releaseId = dpi_releaseId i, d_previousReleaseId = dpi_previousReleaseId i,
      d_deploymentTargetId = dpi_deploymentTargetId i, d_operationId = dpi_operationId i,
      d_rollbackOperationId = None, d_status = dpi_status i, d_reason = None, d_noOp = dpi_noOp i,
      d_beforeSpec = dpi_beforeSpec i, d_targetSpec = dpi_targetSpec i, d_health = dpi_health i,
      d_expectedServiceVersion = dpi_expectedServiceVersion i, d_startedAt = now,
      d_finishedAt = None, d_createdBy = dpi_createdBy i, d_createdAt = now\<rparr>"

definition insertDeployment :: "string \<Rightarrow> DeploymentInput \<Rightarrow> statement" where
  "insertDeployment did i now d =
     (if find_row d_id did (deployments d) \<noteq> None
         \<or> find_row d_operationId (dpi_operationId i) (deployments d) \<noteq> None
      then Inl (DuplicateEntry ''Duplicate entry for deployments'')
      else Inr (1, d\<lparr>deployments := deployments d @ [newDeployment now did i]\<rparr>))"

definition dep_create :: "external \<Rightarrow> DeploymentInput \<Rightarrow> DeploymentRecord cp" where
  "dep_create ext i =
     bindM (randomUUID ext) (\<lambda>did.
     thenM (execute ext (insertDeployment did i))
       (dep_requireWithConnection ext did))"

text \<open>\<open>ORDER BY finished_at DESC, created_at DESC\<close>: \<open>NULL\<close> sorts last in descending order.\<close>

definition finished_key :: "DeploymentRecord \<Rightarrow> nat" where
  "finished_key r = (case d_finishedAt r of None \<Rightarrow> 0 | Some t \<Rightarrow> Suc t)"

definition newestDeployments :: "(DeploymentRecord \<Rightarrow> nat) \<Rightarrow> DeploymentRecord list \<Rightarrow> DeploymentRecord list" where
  "newestDeployments key rows = rev (sort_key key (sort_key d_createdAt rows))"

definition dep_latestSuccessfulReleaseId :: "external \<Rightarrow> string \<Rightarrow> string option cp" where
  "dep_latestSuccessfulReleaseId ext targetId =
     query ext (\<lambda>d. map_option d_releaseId (first_row (newestDeployments finished_key
       (filter (\<lambda>r. d_deploymentTargetId r = targetId \<and> d_status r = D_SUCCESS) (deployments d)))))"

definition dep_findLatestSuccessfulForReleaseWithConnection ::
    "external \<Rightarrow> string \<Rightarrow> string \<Rightarrow> DeploymentRecord option cp" where
  "dep_findLatestSuccessfulForReleaseWithConnection ext targetId releaseId =
     query ext (\<lambda>d. first_row (newestDeployments
       (\<lambda>r. case d_finishedAt r of None \<Rightarrow> d_createdAt r | Some t \<Rightarrow> t)
       (filter (\<lambda>r. d_deploymentTargetId r = targetId \<and> d_releaseId r = releaseId
                    \<and> d_status r = D_SUCCESS) (deployments d))))"

definition dep_listForTarget :: "external \<Rightarrow> string \<Rightarrow> DeploymentRecord list cp" where
  "dep_listForTarget ext targetId =
     query ext (\<lambda>d. rev (sort_key d_createdAt
       (filter (\<lambda>r. d_deploymentTargetId r = targetId) (deployments d))))"

definition dep_findByOperation :: "external \<Rightarrow> string \<Rightarrow> DeploymentRecord option cp" where
  "dep_findByOperation ext oid = query ext (\<lambda>d. find_row d_operationId oid (deployments d))"

definition dep_find :: "external \<Rightarrow> string \<Rightarrow> DeploymentRecord option cp" where
  "dep_find ext did = query ext (\<lambda>d. find_row d_id did (deployments d))"

definition deploymentOfRollback :: "string \<Rightarrow> database \<Rightarrow> DeploymentRecord option" where
  "deploymentOfRollback oid d =
     (case map_of (rollback_attempts d) oid of
        None \<Rightarrow> None
      | Some did \<Rightarrow> find_row d_id did (deployments d))"

definition dep_findByRollbackOperation :: "external \<Rightarrow> string \<Rightarrow> DeploymentRecord option cp" where
  "dep_findByRollbackOperation ext oid = query ext (deploymentOfRollback oid)"

definition dep_findByRollbackOperationWithConnection ::
    "external \<Rightarrow> string \<Rightarrow> DeploymentRecord option cp" where
  "dep_findByRollbackOperationWithConnection ext oid = query ext (deploymentOfRollback oid)"

definition dep_findByOperationWithConnection :: "external \<Rightarrow> string \<Rightarrow> DeploymentRecord option cp" where
  "dep_findByOperationWithConnection ext oid =
     query ext (\<lambda>d. find_row d_operationId oid (deployments d))"

definition dep_recordRollbackAttempt :: "external \<Rightarrow> string \<Rightarrow> string \<Rightarrow> unit cp" where
  "dep_recordRollbackAttempt ext did oid =
     execute ext (\<lambda>now d.
       if map_of (rollback_attempts d) oid \<noteq> None
       then Inl (DuplicateEntry ''Duplicate entry for key rollback_attempts.PRIMARY'')
       else Inr (1, d\<lparr>rollback_attempts := rollback_attempts d @ [(oid, did)]\<rparr>))"

definition dep_markRollingBack :: "external \<Rightarrow> string \<Rightarrow> string \<Rightarrow> unit cp" where
  "dep_markRollingBack ext did rollbackOperationId =
     execute ext (updateDeployment did (\<lambda>now r. r\<lparr>d_status := ROLLING_BACK,
       d_rollbackOperationId := Some rollbackOperationId, d_reason := None, d_finishedAt := None\<rparr>))"

definition dep_markRollbackVerifying :: "external \<Rightarrow> string \<Rightarrow> unit cp" where
  "dep_markRollbackVerifying ext did =
     execute ext (updateDeployment did (\<lambda>now r. r\<lparr>d_status := ROLLBACK_VERIFYING,
       d_reason := None, d_finishedAt := None\<rparr>))"

definition dep_markRollbackVerificationPending :: "external \<Rightarrow> string \<Rightarrow> string \<Rightarrow> unit cp" where
  "dep_markRollbackVerificationPending ext did reason =
     execute ext (updateDeployment did (\<lambda>now r. r\<lparr>d_status := ROLLBACK_VERIFYING,
       d_reason := Some reason, d_finishedAt := None\<rparr>))"

definition dep_markRolledBack :: "external \<Rightarrow> string \<Rightarrow> unit cp" where
  "dep_markRolledBack ext did =
     execute ext (updateDeployment did (\<lambda>now r. r\<lparr>d_status := ROLLED_BACK,
       d_reason := None, d_finishedAt := Some now\<rparr>))"

definition dep_markRollbackFailed :: "external \<Rightarrow> string \<Rightarrow> string \<Rightarrow> unit cp" where
  "dep_markRollbackFailed ext did reason =
     execute ext (updateDeployment did (\<lambda>now r. r\<lparr>d_status := ROLLBACK_FAILED,
       d_reason := Some reason, d_finishedAt := Some now\<rparr>))"

definition dep_markVerifying :: "external \<Rightarrow> string \<Rightarrow> unit cp" where
  "dep_markVerifying ext did =
     execute ext (updateDeployment did (\<lambda>now r. r\<lparr>d_status := D_VERIFYING,
       d_reason := None, d_finishedAt := None\<rparr>))"

definition dep_markVerificationPending :: "external \<Rightarrow> string \<Rightarrow> string \<Rightarrow> unit cp" where
  "dep_markVerificationPending ext did reason =
     execute ext (updateDeployment did (\<lambda>now r. r\<lparr>d_status := D_VERIFYING,
       d_reason := Some reason, d_finishedAt := None\<rparr>))"

definition dep_markSuccess :: "external \<Rightarrow> string \<Rightarrow> unit cp" where
  "dep_markSuccess ext did =
     execute ext (updateDeployment did (\<lambda>now r. r\<lparr>d_status := D_SUCCESS,
       d_reason := None, d_finishedAt := Some now\<rparr>))"

definition dep_markFailed :: "external \<Rightarrow> string \<Rightarrow> string \<Rightarrow> unit cp" where
  "dep_markFailed ext did reason =
     execute ext (updateDeployment did (\<lambda>now r. r\<lparr>d_status := D_FAILED,
       d_reason := Some reason, d_finishedAt := Some now\<rparr>))"

definition dep_markNeedsAttention :: "external \<Rightarrow> string \<Rightarrow> string \<Rightarrow> unit cp" where
  "dep_markNeedsAttention ext did reason =
     execute ext (updateDeployment did (\<lambda>now r. r\<lparr>d_status := D_NEEDS_ATTENTION,
       d_reason := Some reason, d_finishedAt := Some now\<rparr>))"

lemmas repository_query_defs =
  op_find_def op_findWithConnection_def op_listNonTerminal_def op_findNonTerminalForService_def
  nop_find_def nop_findWithConnection_def nop_listNonTerminal_def
  nop_findNonTerminalForNodeWithConnection_def nop_findNonTerminalForNode_def
  nop_findNonTerminalAffectingService_def dep_latestSuccessfulReleaseId_def
  dep_findLatestSuccessfulForReleaseWithConnection_def dep_listForTarget_def
  dep_findByOperation_def dep_find_def dep_findByRollbackOperation_def
  dep_findByRollbackOperationWithConnection_def dep_findByOperationWithConnection_def

lemmas operation_stmt_defs =
  op_markRunning_def op_markVerifying_def op_markVerificationPending_def op_markSuccess_def
  op_markNeedsAttention_def op_markFailed_def

lemmas node_operation_stmt_defs =
  nop_markRunning_def nop_markVerifying_def nop_markSuccess_def nop_markFailed_def
  nop_markNeedsAttention_def

lemmas deployment_stmt_defs =
  dep_markRollingBack_def dep_markRollbackVerifying_def dep_markRollbackVerificationPending_def
  dep_markRolledBack_def dep_markRollbackFailed_def dep_markVerifying_def
  dep_markVerificationPending_def dep_markSuccess_def dep_markFailed_def dep_markNeedsAttention_def

end
