(* ===== verification/History.thy ===== *)
theory History
  imports Repositories
begin

text \<open>
  What the statements of the repositories keep of history, and the locale for relations that
  look at the database only.

  \<open>rows_evolve key E\<close> relates two versions of a table: every row is still there under its
  key, in a later version by \<open>E\<close>. \<open>history_kept\<close> combines it for operations, node
  operations and deployments with the append-only logs.
\<close>

section \<open>Evolution of rows\<close>

definition rows_evolve ::
    "('r \<Rightarrow> string) \<Rightarrow> ('r \<Rightarrow> 'r \<Rightarrow> bool) \<Rightarrow> 'r list \<Rightarrow> 'r list \<Rightarrow> bool" where
  "rows_evolve key E rows rows' \<longleftrightarrow>
     (\<forall>k r. find_row key k rows = Some r \<longrightarrow> (\<exists>r'. find_row key k rows' = Some r' \<and> E r r'))"

locale row_evolution =
  fixes key :: "'r \<Rightarrow> string" and E :: "'r \<Rightarrow> 'r \<Rightarrow> bool"
  assumes E_refl: "E r r"
    and E_trans: "E a b \<Longrightarrow> E b c \<Longrightarrow> E a c"
    and E_key: "E a b \<Longrightarrow> key b = key a"
begin

lemma evolve_refl: "rows_evolve key E rows rows"
  by (auto simp: rows_evolve_def E_refl)

lemma evolve_trans:
  "rows_evolve key E a b \<Longrightarrow> rows_evolve key E b c \<Longrightarrow> rows_evolve key E a c"
  unfolding rows_evolve_def by (meson E_trans)

lemma evolve_append: "rows_evolve key E rows (rows @ new)"
  by (auto simp: rows_evolve_def find_row_append E_refl)

lemma evolve_update:
  assumes "\<And>r. P r \<Longrightarrow> E r (f r)"
  shows "rows_evolve key E rows (update_rows P f rows)"
proof -
  have "update_rows P f rows = update_rows P (\<lambda>r. if P r then f r else r) rows"
    by (simp add: update_rows_def)
  moreover have "key (if P r then f r else r) = key r" for r
    using assms E_key by auto
  ultimately have "find_row key k (update_rows P f rows) =
      map_option (\<lambda>r. if P r then f r else r) (find_row key k rows)" for k
    using find_row_update [of key "\<lambda>r. if P r then f r else r" k P rows]
    by (simp cong: if_cong)
  then show ?thesis
    using assms by (auto simp: rows_evolve_def E_refl)
qed

end

text \<open>
  An operation keeps the recorded intent (a missing runtime fingerprint may be filled in) and,
  once finished, its outcome.
\<close>

definition op_same_intent :: "OperationRecord \<Rightarrow> OperationRecord \<Rightarrow> bool" where
  "op_same_intent a b \<longleftrightarrow>
     o_id b = o_id a \<and> o_clusterId b = o_clusterId a \<and> o_serviceId b = o_serviceId a \<and>
     o_type b = o_type a \<and> o_actorId b = o_actorId a \<and>
     o_expectedVersion b = o_expectedVersion a \<and> o_beforeSpecHash b = o_beforeSpecHash a \<and>
     o_targetSpecHash b = o_targetSpecHash a \<and> o_targetForceUpdate b = o_targetForceUpdate a \<and>
     o_targetReplicas b = o_targetReplicas a \<and> o_targetImage b = o_targetImage a \<and>
     o_targetTaskSpecHash b = o_targetTaskSpecHash a \<and> o_createdAt b = o_createdAt a \<and>
     (o_targetRuntimeSpecHash a = None \<or> o_targetRuntimeSpecHash b = o_targetRuntimeSpecHash a)"

definition op_same_outcome :: "OperationRecord \<Rightarrow> OperationRecord \<Rightarrow> bool" where
  "op_same_outcome a b \<longleftrightarrow>
     o_status b = o_status a \<and> o_resultVersion b = o_resultVersion a \<and>
     o_errorCode b = o_errorCode a \<and> o_errorMessage b = o_errorMessage a"

definition op_evolves :: "OperationRecord \<Rightarrow> OperationRecord \<Rightarrow> bool" where
  "op_evolves a b \<longleftrightarrow> op_same_intent a b \<and> (status_terminal (o_status a) \<longrightarrow> op_same_outcome a b)"

definition node_same_intent :: "NodeOperationRecord \<Rightarrow> NodeOperationRecord \<Rightarrow> bool" where
  "node_same_intent a b \<longleftrightarrow>
     n_id b = n_id a \<and> n_clusterId b = n_clusterId a \<and> n_nodeId b = n_nodeId a \<and>
     n_type b = n_type a \<and> n_actorId b = n_actorId a \<and>
     n_expectedVersion b = n_expectedVersion a \<and> n_beforeSpecHash b = n_beforeSpecHash a \<and>
     n_targetSpecHash b = n_targetSpecHash a \<and> n_targetAvailability b = n_targetAvailability a \<and>
     n_targetLabels b = n_targetLabels a \<and> n_labelPatch b = n_labelPatch a \<and>
     n_affectedServiceIds b = n_affectedServiceIds a \<and> n_createdAt b = n_createdAt a"

definition node_same_outcome :: "NodeOperationRecord \<Rightarrow> NodeOperationRecord \<Rightarrow> bool" where
  "node_same_outcome a b \<longleftrightarrow>
     n_status b = n_status a \<and> n_resultVersion b = n_resultVersion a \<and>
     n_errorCode b = n_errorCode a \<and> n_errorMessage b = n_errorMessage a"

definition node_evolves :: "NodeOperationRecord \<Rightarrow> NodeOperationRecord \<Rightarrow> bool" where
  "node_evolves a b \<longleftrightarrow> node_same_intent a b \<and> (status_terminal (n_status a) \<longrightarrow> node_same_outcome a b)"

definition dep_evolves :: "DeploymentRecord \<Rightarrow> DeploymentRecord \<Rightarrow> bool" where
  "dep_evolves a b \<longleftrightarrow>
     d_id b = d_id a \<and> d_kind b = d_kind a \<and> d_sourceDeploymentId b = d_sourceDeploymentId a \<and>
     d_releaseId b = d_releaseId a \<and> d_previousReleaseId b = d_previousReleaseId a \<and>
     d_deploymentTargetId b = d_deploymentTargetId a \<and> d_operationId b = d_operationId a \<and>
     d_noOp b = d_noOp a \<and> d_beforeSpec b = d_beforeSpec a \<and> d_targetSpec b = d_targetSpec a \<and>
     d_health b = d_health a \<and> d_expectedServiceVersion b = d_expectedServiceVersion a \<and>
     d_startedAt b = d_startedAt a \<and> d_createdBy b = d_createdBy a \<and> d_createdAt b = d_createdAt a"

lemmas evolves_defs =
  op_evolves_def op_same_intent_def op_same_outcome_def
  node_evolves_def node_same_intent_def node_same_outcome_def dep_evolves_def

interpretation op_rows: row_evolution o_id op_evolves
  by unfold_locales (auto simp: evolves_defs)

interpretation node_rows: row_evolution n_id node_evolves
  by unfold_locales (auto simp: evolves_defs)

interpretation dep_rows: row_evolution d_id dep_evolves
  by unfold_locales (auto simp: evolves_defs)

text \<open>
  The catalogue: applications, targets, releases, cluster registrations and bootstrap tokens.
  Rows of the first four are appended and never changed. A token keeps what it was issued for; once
  it is used it keeps its claim, and once it is bound it keeps its node. \<open>catalog_ok\<close> collects the
  keys of these tables and that exactly the used tokens have a claim.
\<close>

type_synonym catalogue =
  "ApplicationRecord list \<times> DeploymentTargetRecord list \<times> ReleaseRecord list \<times> RegistrationRow list
     \<times> BootstrapTokenRow list"

definition catalog :: "database \<Rightarrow> catalogue" where
  "catalog d = (applications d, deployment_targets d, releases d, cluster_registrations d, bootstrap_tokens d)"

definition bt_evolves :: "BootstrapTokenRow \<Rightarrow> BootstrapTokenRow \<Rightarrow> bool" where
  "bt_evolves a b \<longleftrightarrow>
     bt_id b = bt_id a \<and> bt_tokenHash b = bt_tokenHash a \<and> bt_clusterId b = bt_clusterId a \<and>
     bt_nodeRole b = bt_nodeRole a \<and> bt_labels b = bt_labels a \<and> bt_createdBy b = bt_createdBy a \<and>
     bt_expiresAt b = bt_expiresAt a \<and> bt_createdAt b = bt_createdAt a \<and>
     (bt_usedAt a \<noteq> None \<longrightarrow> bt_usedAt b = bt_usedAt a \<and> bt_claimId b = bt_claimId a) \<and>
     (bt_completedNodeId a \<noteq> None \<longrightarrow> bt_completedNodeId b = bt_completedNodeId a)"

definition bt_ok :: "BootstrapTokenRow \<Rightarrow> bool" where
  "bt_ok t \<longleftrightarrow> (bt_claimId t = None \<longleftrightarrow> bt_usedAt t = None) \<and> (bt_usedAt t = None \<longrightarrow> bt_completedNodeId t = None)"

fun catalog_ok :: "catalogue \<Rightarrow> bool" where
  "catalog_ok (apps, targets, rels, regs, toks) \<longleftrightarrow>
     distinct (map ap_id apps) \<and> distinct (map ap_name apps) \<and>
     distinct (map dt_id targets) \<and> distinct (map (\<lambda>t. (dt_clusterId t, dt_dockerServiceId t)) targets) \<and>
     distinct (map (\<lambda>t. (dt_applicationId t, dt_environment t)) targets) \<and>
     distinct (map rl_id rels) \<and> distinct (map (\<lambda>r. (rl_applicationId r, rl_version r)) rels) \<and>
     distinct (map cg_id regs) \<and> distinct (map cg_clusterId regs) \<and> distinct (map cg_swarmClusterId regs) \<and>
     distinct (map bt_id toks) \<and> distinct (map bt_tokenHash toks) \<and> list_all bt_ok toks"

fun catalog_kept :: "catalogue \<Rightarrow> catalogue \<Rightarrow> bool" where
  "catalog_kept (apps, targets, rels, regs, toks) (apps', targets', rels', regs', toks') \<longleftrightarrow>
     prefix apps apps' \<and> prefix targets targets' \<and> prefix rels rels' \<and> prefix regs regs' \<and>
     rows_evolve bt_id bt_evolves toks toks'"

interpretation bt_rows: row_evolution bt_id bt_evolves
  by unfold_locales (auto simp: bt_evolves_def)

lemma catalog_kept_refl [simp]: "catalog_kept c c"
  by (cases c) (simp add: bt_rows.evolve_refl)

lemma catalog_kept_trans: "catalog_kept a b \<Longrightarrow> catalog_kept b c \<Longrightarrow> catalog_kept a c"
  by (cases a; cases b; cases c) (auto intro: prefix_order.trans bt_rows.evolve_trans)

lemma catalog_simps [simp]:
  "catalog (d\<lparr>operations := x1\<rparr>) = catalog d"
  "catalog (d\<lparr>node_operations := x2\<rparr>) = catalog d"
  "catalog (d\<lparr>deployments := x3\<rparr>) = catalog d"
  "catalog (d\<lparr>rollback_attempts := x4\<rparr>) = catalog d"
  "catalog (d\<lparr>audit_events := x5\<rparr>) = catalog d"
  "catalog (d\<lparr>maintenance_active_admissions := x6\<rparr>) = catalog d"
  "catalog (d\<lparr>maintenance_dispatches := x7\<rparr>) = catalog d"
  "catalog (d\<lparr>cluster_maintenance_states := x8\<rparr>) = catalog d"
  "catalog (d\<lparr>maintenance_control_leases := x9\<rparr>) = catalog d"
  "catalog (d\<lparr>maintenance_agent_barriers := x10\<rparr>) = catalog d"
  "catalog (d\<lparr>maintenance_evidence_resolutions := x11\<rparr>) = catalog d"
  by (simp_all add: catalog_def)

text \<open>
  The tables that control maintenance. A state row moves only forward along the cycle \<open>OPEN\<close>,
  \<open>CLOSING\<close>, \<open>CLOSED\<close>, \<open>RECONCILING\<close>, one generation per transition; the fencing
  token of a lease never decreases and a token belongs to one holder; resolutions
  are appended; a barrier acknowledgement is never removed.
  \<open>control_ok\<close> collects the keys, the range of \<open>BIGINT UNSIGNED\<close>, and that the state is a
  function of the generation.
\<close>

definition nextState :: "string \<Rightarrow> string" where
  "nextState s = (if s = ''OPEN'' then ''CLOSING'' else if s = ''CLOSING'' then ''CLOSED''
     else if s = ''CLOSED'' then ''RECONCILING'' else if s = ''RECONCILING'' then ''OPEN'' else s)"

definition ms_evolves :: "MaintenanceStateRow \<Rightarrow> MaintenanceStateRow \<Rightarrow> bool" where
  "ms_evolves a b \<longleftrightarrow>
     ms_clusterId b = ms_clusterId a \<and> ms_generation a \<le> ms_generation b \<and>
     ms_state b = (nextState ^^ (ms_generation b - ms_generation a)) (ms_state a) \<and>
     (ms_generation b = ms_generation a \<longrightarrow> b = a)"

definition lease_evolves :: "LeaseRow \<Rightarrow> LeaseRow \<Rightarrow> bool" where
  "lease_evolves a b \<longleftrightarrow>
     cl_clusterId b = cl_clusterId a \<and> cl_fenceToken a \<le> cl_fenceToken b \<and>
     (cl_fenceToken b = cl_fenceToken a \<longrightarrow> cl_holderId b = cl_holderId a)"

definition state_ok :: "MaintenanceStateRow \<Rightarrow> bool" where
  "state_ok m \<longleftrightarrow> 1 \<le> ms_generation m \<and> ms_generation m < 2 ^ 64 \<and>
     ms_state m = (nextState ^^ (ms_generation m - 1)) ''OPEN''"

definition control_ok :: "database \<Rightarrow> bool" where
  "control_ok d \<longleftrightarrow>
     distinct (map ms_clusterId (cluster_maintenance_states d)) \<and>
     distinct (map cl_clusterId (maintenance_control_leases d)) \<and>
     distinct (map (\<lambda>r. (er_clusterId r, er_type r, er_evidenceId r)) (maintenance_evidence_resolutions d)) \<and>
     list_all state_ok (cluster_maintenance_states d) \<and> catalog_ok (catalog d)"

definition barrier_keys :: "database \<Rightarrow> (string \<times> string) set" where
  "barrier_keys d = (\<lambda>b. (ab_clusterId b, ab_agentId b)) ` set (maintenance_agent_barriers d)"

definition control_kept :: "database \<Rightarrow> database \<Rightarrow> bool" where
  "control_kept d d' \<longleftrightarrow>
     rows_evolve ms_clusterId ms_evolves (cluster_maintenance_states d) (cluster_maintenance_states d') \<and>
     rows_evolve cl_clusterId lease_evolves (maintenance_control_leases d) (maintenance_control_leases d') \<and>
     prefix (maintenance_evidence_resolutions d) (maintenance_evidence_resolutions d') \<and>
     catalog_kept (catalog d) (catalog d') \<and>
     barrier_keys d \<subseteq> barrier_keys d' \<and> (control_ok d \<longrightarrow> control_ok d')"

definition same_control :: "database \<Rightarrow> database \<Rightarrow> bool" where
  "same_control d d' \<longleftrightarrow>
     cluster_maintenance_states d' = cluster_maintenance_states d \<and>
     maintenance_control_leases d' = maintenance_control_leases d \<and>
     maintenance_evidence_resolutions d' = maintenance_evidence_resolutions d \<and>
     catalog d' = catalog d \<and>
     maintenance_agent_barriers d' = maintenance_agent_barriers d"

interpretation ms_rows: row_evolution ms_clusterId ms_evolves
proof unfold_locales
  fix a b c assume "ms_evolves a b" "ms_evolves b c"
  then show "ms_evolves a c"
    by (auto simp: ms_evolves_def funpow_add [symmetric, THEN fun_cong, unfolded o_def])
qed (auto simp: ms_evolves_def)

interpretation lease_rows: row_evolution cl_clusterId lease_evolves
  by unfold_locales (auto simp: lease_evolves_def)

lemma control_kept_same [intro]: "same_control d d' \<Longrightarrow> control_kept d d'"
  by (simp add: same_control_def control_kept_def control_ok_def barrier_keys_def ms_rows.evolve_refl lease_rows.evolve_refl)

lemma control_kept_refl [simp]: "control_kept d d"
  by (rule control_kept_same) (simp add: same_control_def)

lemma control_kept_trans: "control_kept a b \<Longrightarrow> control_kept b c \<Longrightarrow> control_kept a c"
  unfolding control_kept_def
  by (blast intro: ms_rows.evolve_trans lease_rows.evolve_trans prefix_order.trans catalog_kept_trans)

lemma control_kept_simps [simp]:
  "control_kept d (d'\<lparr>operations := x1\<rparr>) = control_kept d d'"
  "control_kept d (d'\<lparr>node_operations := x2\<rparr>) = control_kept d d'"
  "control_kept d (d'\<lparr>deployments := x3\<rparr>) = control_kept d d'"
  "control_kept d (d'\<lparr>rollback_attempts := x4\<rparr>) = control_kept d d'"
  "control_kept d (d'\<lparr>audit_events := x5\<rparr>) = control_kept d d'"
  "control_kept d (d'\<lparr>maintenance_active_admissions := x6\<rparr>) = control_kept d d'"
  "control_kept d (d'\<lparr>maintenance_dispatches := x7\<rparr>) = control_kept d d'"
  by (simp_all add: control_kept_def control_ok_def barrier_keys_def)

definition history_kept :: "database \<Rightarrow> database \<Rightarrow> bool" where
  "history_kept d d' \<longleftrightarrow>
     rows_evolve o_id op_evolves (operations d) (operations d') \<and>
     rows_evolve n_id node_evolves (node_operations d) (node_operations d') \<and>
     rows_evolve d_id dep_evolves (deployments d) (deployments d') \<and>
     prefix (audit_events d) (audit_events d') \<and>
     prefix (rollback_attempts d) (rollback_attempts d') \<and> control_kept d d'"

section \<open>Relations on databases\<close>

definition on_db :: "(database \<Rightarrow> database \<Rightarrow> bool) \<Rightarrow> world \<Rightarrow> world \<Rightarrow> bool" where
  "on_db T w w' \<longleftrightarrow> T (w_db w) (w_db w')"

locale db_relation =
  fixes T :: "database \<Rightarrow> database \<Rightarrow> bool"
  assumes T_refl: "T d d"
    and T_trans: "T a b \<Longrightarrow> T b c \<Longrightarrow> T a c"

sublocale db_relation \<subseteq> scoped_relation "on_db T"
  by unfold_locales (auto simp: on_db_def T_refl intro: T_trans)

sublocale db_relation \<subseteq> undo_relation "on_db T"
  by unfold_locales (simp add: on_db_def T_refl)

context db_relation
begin

lemma steps_write:
  assumes "\<And>now d n d'. stmt now d = Inr (n, d') \<Longrightarrow> T d d'"
  shows "steps (on_db T) (execute ext stmt)"
  by (rule steps_execute) (auto simp: on_db_def intro: assms)

lemma steps_writeStmt:
  assumes "\<And>now d n d'. stmt now d = Inr (n, d') \<Longrightarrow> T d d'"
  shows "steps (on_db T) (executeStmt ext stmt)"
  by (rule steps_executeStmt) (auto simp: on_db_def intro: assms)

lemma steps_db_transaction:
  assumes "\<And>w x w'. body w = (Inr x, w') \<Longrightarrow> T (w_db w) (w_db w')"
  shows "steps (on_db T) (inTransaction ext body)"
  by (rule steps_transaction) (auto simp: on_db_def T_refl intro: assms)

end

text \<open>Queries change nothing; a relation that ignores the database is kept by every statement.\<close>

context step_relation
begin

lemma steps_repository_queries [step_intros]:
  "steps R (op_find ext oid)" "steps R (op_findWithConnection ext oid)"
  "steps R (op_listNonTerminal ext)" "steps R (op_findNonTerminalForService ext c sid)"
  "steps R (nop_find ext oid)" "steps R (nop_findWithConnection ext oid)"
  "steps R (nop_listNonTerminal ext)" "steps R (nop_findNonTerminalForNodeWithConnection ext c nid)"
  "steps R (nop_findNonTerminalForNode ext c nid)"
  "steps R (nop_findNonTerminalAffectingService ext c sid)"
  "steps R (dep_latestSuccessfulReleaseId ext tid)"
  "steps R (dep_findLatestSuccessfulForReleaseWithConnection ext tid rid)"
  "steps R (dep_listForTarget ext tid)" "steps R (dep_findByOperation ext oid)"
  "steps R (dep_find ext did)" "steps R (dep_findByRollbackOperation ext oid)"
  "steps R (dep_findByRollbackOperationWithConnection ext oid)"
  "steps R (dep_findByOperationWithConnection ext oid)"
  unfolding repository_query_defs by (rule steps_query)+

lemma steps_dep_requireWithConnection [step_intros]: "steps R (dep_requireWithConnection ext did)"
  unfolding dep_requireWithConnection_def by (intro step_intros)

end

locale db_blind_relation = step_relation +
  assumes db_free: "R w (w\<lparr>w_db := d\<rparr>)"

sublocale db_blind_relation \<subseteq> undo_relation
  by unfold_locales (blast intro: trans db_free)

context db_blind_relation
begin

lemma steps_any_executeStmt [step_intros]: "steps R (executeStmt ext stmt)"
  by (rule steps_executeStmt) (rule db_free)

lemma steps_any_execute [step_intros]: "steps R (execute ext stmt)"
  by (rule steps_execute) (rule db_free)

lemma steps_any_operation_statement [step_intros]:
  "steps R (op_create ext i)" "steps R (op_backfillTargetRuntimeSpecHash ext oid h)"
  "steps R (op_markRunning ext oid)" "steps R (op_markVerifying ext oid v)"
  "steps R (op_markVerificationPending ext oid cd m)" "steps R (op_markSuccess ext oid v)"
  "steps R (op_markNeedsAttention ext oid cd m)" "steps R (op_markFailed ext oid cd m)"
  "steps R (op_audit ext ai)"
  unfolding op_create_def op_backfillTargetRuntimeSpecHash_def operation_stmt_defs op_audit_def
  by (rule steps_any_execute)+

lemma steps_any_node_operation_statement [step_intros]:
  "steps R (nop_create ext ni)" "steps R (nop_markRunning ext oid)"
  "steps R (nop_markVerifying ext oid v)" "steps R (nop_markSuccess ext oid v)"
  "steps R (nop_markNeedsAttention ext oid cd m)" "steps R (nop_markFailed ext oid cd m)"
  unfolding nop_create_def node_operation_stmt_defs by (rule steps_any_execute)+

lemma steps_any_deployment_statement [step_intros]:
  "steps R (dep_recordRollbackAttempt ext did oid)" "steps R (dep_markRollingBack ext did oid)"
  "steps R (dep_markRollbackVerifying ext did)" "steps R (dep_markRollbackVerificationPending ext did m)"
  "steps R (dep_markRolledBack ext did)" "steps R (dep_markRollbackFailed ext did m)"
  "steps R (dep_markVerifying ext did)" "steps R (dep_markVerificationPending ext did m)"
  "steps R (dep_markSuccess ext did)" "steps R (dep_markFailed ext did m)"
  "steps R (dep_markNeedsAttention ext did m)"
  unfolding dep_recordRollbackAttempt_def deployment_stmt_defs by (rule steps_any_execute)+

lemma steps_any_dep_create [step_intros]: "steps R (dep_create ext di)"
  unfolding dep_create_def by (intro step_intros)

end

interpretation history: db_relation history_kept
  by unfold_locales
     (auto simp: history_kept_def op_rows.evolve_refl node_rows.evolve_refl dep_rows.evolve_refl
       intro: control_kept_trans op_rows.evolve_trans node_rows.evolve_trans dep_rows.evolve_trans prefix_order.trans)

lemmas evolve_rules =
  op_rows.evolve_refl op_rows.evolve_append op_rows.evolve_update
  node_rows.evolve_refl node_rows.evolve_append node_rows.evolve_update
  dep_rows.evolve_refl dep_rows.evolve_append dep_rows.evolve_update

text \<open>Every statement of the repositories keeps history.\<close>

lemma history_updateOpenOperation [step_intros]:
  assumes "\<And>r. op_same_intent r (f r)"
  shows "steps (on_db history_kept) (execute ext (updateOpenOperation oid f))"
  by (rule history.steps_write)
     (use assms in \<open>auto simp: updateOpenOperation_def history_kept_def Let_def op_evolves_def
        op_same_intent_def intro!: evolve_rules\<close>)

lemma history_updateOpenNodeOperation [step_intros]:
  assumes "\<And>r. node_same_intent r (f r)"
  shows "steps (on_db history_kept) (execute ext (updateOpenNodeOperation oid f))"
  by (rule history.steps_write)
     (use assms in \<open>auto simp: updateOpenNodeOperation_def history_kept_def Let_def node_evolves_def
        node_same_intent_def intro!: evolve_rules\<close>)

lemma history_updateDeployment [step_intros]:
  assumes "\<And>now r. dep_evolves r (f now r)"
  shows "steps (on_db history_kept) (execute ext (updateDeployment did f))"
  by (rule history.steps_write)
     (use assms in \<open>auto simp: updateDeployment_def history_kept_def Let_def intro!: evolve_rules\<close>)

lemma history_operation_statements [step_intros]:
  "steps (on_db history_kept) (op_markRunning ext oid)"
  "steps (on_db history_kept) (op_markVerifying ext oid v)"
  "steps (on_db history_kept) (op_markVerificationPending ext oid c m)"
  "steps (on_db history_kept) (op_markSuccess ext oid v)"
  "steps (on_db history_kept) (op_markNeedsAttention ext oid c m)"
  "steps (on_db history_kept) (op_markFailed ext oid c m)"
  unfolding operation_stmt_defs
  by (rule history_updateOpenOperation, simp add: op_same_intent_def)+

lemma history_node_operation_statements [step_intros]:
  "steps (on_db history_kept) (nop_markRunning ext oid)"
  "steps (on_db history_kept) (nop_markVerifying ext oid v)"
  "steps (on_db history_kept) (nop_markSuccess ext oid v)"
  "steps (on_db history_kept) (nop_markNeedsAttention ext oid c m)"
  "steps (on_db history_kept) (nop_markFailed ext oid c m)"
  unfolding node_operation_stmt_defs
  by (rule history_updateOpenNodeOperation, simp add: node_same_intent_def)+

lemma history_deployment_statements [step_intros]:
  "steps (on_db history_kept) (dep_markRollingBack ext did oid)"
  "steps (on_db history_kept) (dep_markRollbackVerifying ext did)"
  "steps (on_db history_kept) (dep_markRollbackVerificationPending ext did m)"
  "steps (on_db history_kept) (dep_markRolledBack ext did)"
  "steps (on_db history_kept) (dep_markRollbackFailed ext did m)"
  "steps (on_db history_kept) (dep_markVerifying ext did)"
  "steps (on_db history_kept) (dep_markVerificationPending ext did m)"
  "steps (on_db history_kept) (dep_markSuccess ext did)"
  "steps (on_db history_kept) (dep_markFailed ext did m)"
  "steps (on_db history_kept) (dep_markNeedsAttention ext did m)"
  unfolding deployment_stmt_defs
  by (rule history_updateDeployment, simp add: dep_evolves_def)+

lemma history_op_create [step_intros]: "steps (on_db history_kept) (op_create ext i)"
  unfolding op_create_def
  by (rule history.steps_write)
     (auto simp: insertOperation_def history_kept_def split: if_splits intro!: evolve_rules)

lemma history_nop_create [step_intros]: "steps (on_db history_kept) (nop_create ext i)"
  unfolding nop_create_def
  by (rule history.steps_write)
     (auto simp: insertNodeOperation_def history_kept_def split: if_splits intro!: evolve_rules)

lemma history_op_audit [step_intros]: "steps (on_db history_kept) (op_audit ext i)"
  unfolding op_audit_def
  by (rule history.steps_write) (auto simp: history_kept_def intro!: evolve_rules)

lemma history_op_backfill [step_intros]:
  "steps (on_db history_kept) (op_backfillTargetRuntimeSpecHash ext oid h)"
  unfolding op_backfillTargetRuntimeSpecHash_def
  by (rule history.steps_write)
     (auto simp: history_kept_def Let_def evolves_defs intro!: evolve_rules)

lemma history_dep_recordRollbackAttempt [step_intros]:
  "steps (on_db history_kept) (dep_recordRollbackAttempt ext did oid)"
  unfolding dep_recordRollbackAttempt_def
  by (rule history.steps_write)
     (auto simp: history_kept_def split: if_splits intro!: evolve_rules)

lemma history_insertDeployment [step_intros]:
  "steps (on_db history_kept) (execute ext (insertDeployment did i))"
  by (rule history.steps_write)
     (auto simp: insertDeployment_def history_kept_def split: if_splits intro!: evolve_rules)

lemma history_dep_create [step_intros]: "steps (on_db history_kept) (dep_create ext i)"
  unfolding dep_create_def by (intro step_intros)

end
