(* ===== verification/Dispatch.thy ===== *)
theory Dispatch
  imports History
begin

text \<open>
  How a mutation reaches an Agent: the registration check
  (\<^verbatim>\<open>clusters/cluster-binding.policy.ts\<close>), the registered client with its maintenance
  gate (\<^verbatim>\<open>clusters/registered-agent-client.ts\<close>), the HTTP client's
  \<open>mutationRequest\<close> (\<^verbatim>\<open>agent/http-agent.client.ts\<close>) and the durable dispatch
  journal (\<^verbatim>\<open>clusters/maintenance-dispatch-journal.ts\<close>). Reads go through the
  registration check only.

  The choice of a manager Agent (\<open>selectMutationAgent\<close>), the Agent's barrier and the transport
  itself are answers of \<open>external\<close>. \<open>transport\<close> is the one definition that hands a
  mutation to the network and records it in \<open>w_sent\<close>.
\<close>

section \<open>Registration\<close>

definition isIdentifierChar :: "char \<Rightarrow> bool" where
  "isIdentifierChar c =
     (let n = (of_char c :: nat) in
      (48 \<le> n \<and> n \<le> 57) \<or> (65 \<le> n \<and> n \<le> 90) \<or> (97 \<le> n \<and> n \<le> 122) \<or> n = 45 \<or> n = 95)"

definition isBoundedIdentifier :: "string \<Rightarrow> bool" where
  "isBoundedIdentifier s = (0 < length s \<and> length s \<le> 128 \<and> list_all isIdentifierChar s)"

definition registration_find :: "external \<Rightarrow> string \<Rightarrow> RegistrationRow option cp" where
  "registration_find ext clusterId =
     query ext (\<lambda>d. find_row cg_clusterId clusterId (cluster_registrations d))"

definition assertRegistered :: "external \<Rightarrow> string \<Rightarrow> unit cp" where
  "assertRegistered ext clusterId =
     (if clusterId \<noteq> x_clusterId ext then throwM (NotFoundException ''Cluster not found'')
      else if \<not> x_registrationEnforce ext then retM ()
      else bindM (attempt (registration_find ext clusterId)) (\<lambda>r.
        case r of
          Inl e \<Rightarrow> throwM (ServiceUnavailableException ''CLUSTER_REGISTRATION_UNAVAILABLE'')
        | Inr found \<Rightarrow>
            (case found of
               None \<Rightarrow> throwM (ServiceUnavailableException ''CLUSTER_REGISTRATION_REQUIRED'')
             | Some reg \<Rightarrow>
                 if cg_clusterId reg \<noteq> clusterId
                    \<or> Some (cg_swarmClusterId reg) \<noteq> x_expectedSwarmClusterId ext
                 then throwM (ServiceUnavailableException ''CLUSTER_REGISTRATION_MISMATCH'')
                 else retM ())))"

section \<open>Reads of the Agent\<close>

definition agentRead :: "external \<Rightarrow> (nat \<Rightarrow> failure + 'a) \<Rightarrow> 'a cp" where
  "agentRead ext f = thenM (assertRegistered ext (x_clusterId ext)) (callExternal ext f)"

definition inspectService :: "external \<Rightarrow> string \<Rightarrow> ServiceDetailResponse cp" where
  "inspectService ext sid = agentRead ext (\<lambda>n. x_inspectService ext n sid)"

definition checkServicePlacement :: "external \<Rightarrow> string \<Rightarrow> PlacementStatus cp" where
  "checkServicePlacement ext sid = agentRead ext (\<lambda>n. x_checkPlacement ext n sid)"

definition checkServiceCapacity :: "external \<Rightarrow> string \<Rightarrow> CapacityCheckRequest \<Rightarrow> CapacityCheckResponse cp" where
  "checkServiceCapacity ext sid i = agentRead ext (\<lambda>n. x_checkCapacity ext n sid i)"

definition inspectNode :: "external \<Rightarrow> string \<Rightarrow> NodeDetailResponse cp" where
  "inspectNode ext nid = agentRead ext (\<lambda>n. x_inspectNode ext n nid)"

definition planScaleService :: "external \<Rightarrow> string \<Rightarrow> nat \<Rightarrow> nat \<Rightarrow> ServiceMutationPlan cp" where
  "planScaleService ext sid v k = agentRead ext (\<lambda>n. x_planScale ext n sid v k)"

definition planRestartService :: "external \<Rightarrow> string \<Rightarrow> nat \<Rightarrow> ServiceMutationPlan cp" where
  "planRestartService ext sid v = agentRead ext (\<lambda>n. x_planRestart ext n sid v)"

definition planUpdateServiceImage :: "external \<Rightarrow> string \<Rightarrow> nat \<Rightarrow> string \<Rightarrow> ServiceMutationPlan cp" where
  "planUpdateServiceImage ext sid v img = agentRead ext (\<lambda>n. x_planUpdateImage ext n sid v img)"

definition planRollbackService :: "external \<Rightarrow> string \<Rightarrow> nat \<Rightarrow> ServiceMutationPlan cp" where
  "planRollbackService ext sid v = agentRead ext (\<lambda>n. x_planRollback ext n sid v)"

definition planDrainNode :: "external \<Rightarrow> string \<Rightarrow> nat \<Rightarrow> NodeMutationPlan cp" where
  "planDrainNode ext nid v = agentRead ext (\<lambda>n. x_planDrain ext n nid v)"

definition planActivateNode :: "external \<Rightarrow> string \<Rightarrow> nat \<Rightarrow> NodeMutationPlan cp" where
  "planActivateNode ext nid v = agentRead ext (\<lambda>n. x_planActivate ext n nid v)"

definition planNodeLabels :: "external \<Rightarrow> string \<Rightarrow> nat \<Rightarrow> labels \<Rightarrow> string list \<Rightarrow> NodeMutationPlan cp" where
  "planNodeLabels ext nid v setL removeL = agentRead ext (\<lambda>n. x_planLabels ext n nid v setL removeL)"

lemmas agent_read_defs =
  inspectService_def checkServicePlacement_def checkServiceCapacity_def inspectNode_def
  planScaleService_def planRestartService_def planUpdateServiceImage_def planRollbackService_def
  planDrainNode_def planActivateNode_def planNodeLabels_def

section \<open>The dispatch journal\<close>

text \<open>
  The unique keys of \<open>maintenance_dispatches\<close>: the row identifier and
  \<open>(cluster_id, operation_id)\<close>.
\<close>

definition insertDispatch :: "DispatchRow \<Rightarrow> statement" where
  "insertDispatch row now d =
     (if \<exists>r \<in> set (maintenance_dispatches d). di_id r = di_id row
           \<or> (di_clusterId r = di_clusterId row \<and> di_operationId r = di_operationId row)
      then Inl (DuplicateEntry ''Duplicate entry for maintenance_dispatches'')
      else Inr (1, d\<lparr>maintenance_dispatches := maintenance_dispatches d @ [row]\<rparr>))"

definition linkAdmission :: "string \<Rightarrow> string \<Rightarrow> string \<Rightarrow> statement" where
  "linkAdmission aid clusterId operationId now d =
     (let P = (\<lambda>a. ad_id a = aid \<and> ad_clusterId a = clusterId
                   \<and> (ad_operationId a = None \<or> ad_operationId a = Some operationId)) in
      Inr (length (filter P (maintenance_active_admissions d)),
           d\<lparr>maintenance_active_admissions := update_rows P
               (\<lambda>a. a\<lparr>ad_operationId := Some operationId\<rparr>) (maintenance_active_admissions d)\<rparr>))"

definition journal_prepare ::
    "external \<Rightarrow> string \<Rightarrow> nat \<Rightarrow> string \<Rightarrow> string \<Rightarrow> string cp" where
  "journal_prepare ext clusterId generation agentId operationId =
     bindM (randomUUID ext) (\<lambda>jid.
     bindM (attempt
       (bindM (getsM w_active) (\<lambda>active.
        thenM
          (case active of
             None \<Rightarrow> retM ()
           | Some (aid, acluster) \<Rightarrow>
               if acluster = clusterId then
                 bindM (executeStmt ext (linkAdmission aid clusterId operationId)) (\<lambda>n.
                   if n \<noteq> 1 then throwM (ServiceUnavailableException ''Active admission operation linkage failed'')
                   else retM ())
               else retM ())
          (execute ext (insertDispatch
             \<lparr>di_id = jid, di_clusterId = clusterId, di_generation = generation,
              di_agentId = agentId, di_operationId = operationId, di_phase = PREPARED\<rparr>)))))
       (\<lambda>r. case r of
          Inr _ \<Rightarrow> retM jid
        | Inl e \<Rightarrow> (case e of
             DuplicateEntry _ \<Rightarrow> throwM DuplicateDispatchEvidence
           | _ \<Rightarrow> throwM (ServiceUnavailableException ''Mutation dispatch journal unavailable before send''))))"

definition maintenanceOpenAt :: "string \<Rightarrow> nat \<Rightarrow> database \<Rightarrow> bool" where
  "maintenanceOpenAt clusterId generation d \<longleftrightarrow>
     (\<exists>m \<in> set (cluster_maintenance_states d).
        ms_clusterId m = clusterId \<and> ms_generation m = generation \<and> ms_state m = ''OPEN'')"

definition promoteToSending :: "string \<Rightarrow> string \<Rightarrow> nat \<Rightarrow> string \<Rightarrow> string \<Rightarrow> statement" where
  "promoteToSending jid clusterId generation agentId operationId now d =
     (let P = (\<lambda>r. di_id r = jid \<and> di_clusterId r = clusterId \<and> di_agentId r = agentId
                   \<and> di_operationId r = operationId \<and> di_phase r = PREPARED
                   \<and> di_generation r = generation \<and> maintenanceOpenAt clusterId generation d) in
      Inr (length (filter P (maintenance_dispatches d)),
           d\<lparr>maintenance_dispatches := update_rows P (\<lambda>r. r\<lparr>di_phase := SENDING\<rparr>)
               (maintenance_dispatches d)\<rparr>))"

definition journal_beginSend ::
    "external \<Rightarrow> string \<Rightarrow> string \<Rightarrow> nat \<Rightarrow> string \<Rightarrow> string \<Rightarrow> unit cp" where
  "journal_beginSend ext jid clusterId generation agentId operationId =
     bindM (attempt (executeStmt ext (promoteToSending jid clusterId generation agentId operationId)))
       (\<lambda>r. case r of
          Inl e \<Rightarrow> throwM (ServiceUnavailableException ''Mutation dispatch evidence unavailable before send'')
        | Inr n \<Rightarrow>
            if n \<noteq> 1 then
              throwM (ServiceUnavailableException ''Mutation dispatch generation or maintenance state changed'')
            else retM ())"

fun allowedTransitions :: "DispatchPhase \<Rightarrow> DispatchPhase list" where
  "allowedTransitions PREPARED = [SENDING, REJECTED]"
| "allowedTransitions SENDING = [ACKNOWLEDGED, REJECTED, UNCERTAIN]"
| "allowedTransitions _ = []"

definition movePhase :: "string \<Rightarrow> DispatchPhase \<Rightarrow> DispatchPhase \<Rightarrow> statement" where
  "movePhase jid from to now d =
     (let P = (\<lambda>r. di_id r = jid \<and> di_phase r = from) in
      Inr (length (filter P (maintenance_dispatches d)),
           d\<lparr>maintenance_dispatches := update_rows P (\<lambda>r. r\<lparr>di_phase := to\<rparr>)
               (maintenance_dispatches d)\<rparr>))"

definition journal_transition :: "external \<Rightarrow> string \<Rightarrow> DispatchPhase \<Rightarrow> DispatchPhase \<Rightarrow> unit cp" where
  "journal_transition ext jid from to =
     (if to \<notin> set (allowedTransitions from)
      then throwM (PlainError ''Invalid dispatch evidence transition'')
      else bindM (executeStmt ext (movePhase jid from to)) (\<lambda>n.
        if n \<noteq> 1 then throwM (ServiceUnavailableException ''Dispatch evidence state changed or unavailable'')
        else retM ()))"

text \<open>
  \<open>execute\<close> of the journal. The first \<open>try\<close> covers \<open>prepare\<close> and \<open>beginSend\<close>;
  its handler knows the row identifier only when \<open>prepare\<close> returned.
\<close>

definition journal_execute ::
    "external \<Rightarrow> string \<Rightarrow> nat \<Rightarrow> string \<Rightarrow> string \<Rightarrow> 'a cp \<Rightarrow> (failure \<Rightarrow> bool) \<Rightarrow> 'a cp" where
  "journal_execute ext clusterId generation agentId operationId send isDefinite =
     bindM (attempt (journal_prepare ext clusterId generation agentId operationId)) (\<lambda>prepared.
     case prepared of
       Inl e \<Rightarrow>
         if e = DuplicateDispatchEvidence then throwM e
         else throwM (MaintenancePreDispatchRejection MAINTENANCE_UNAVAILABLE)
     | Inr jid \<Rightarrow>
         bindM (attempt (journal_beginSend ext jid clusterId generation agentId operationId)) (\<lambda>begun.
         case begun of
           Inl e \<Rightarrow>
             thenM (attempt (journal_transition ext jid PREPARED REJECTED))
               (throwM (MaintenancePreDispatchRejection MAINTENANCE_UNAVAILABLE))
         | Inr _ \<Rightarrow>
             bindM (attempt send) (\<lambda>sent.
             case sent of
               Inl e \<Rightarrow>
                 thenM (attempt (journal_transition ext jid SENDING
                          (if isDefinite e then REJECTED else UNCERTAIN)))
                   (throwM e)
             | Inr response \<Rightarrow>
                 thenM (journal_transition ext jid SENDING ACKNOWLEDGED) (retM response))))"

section \<open>Scopes\<close>

definition withMutationOperation :: "string \<Rightarrow> 'a cp \<Rightarrow> 'a cp" where
  "withMutationOperation operationId run w =
     (if operationId = [] \<or> length operationId > 64
      then (Inl (PlainError ''Durable operation ID is required for mutation dispatch''), w)
      else case run (w\<lparr>w_operation := Some operationId\<rparr>) of
             (r, w') \<Rightarrow> (r, w'\<lparr>w_operation := w_operation w\<rparr>))"

definition withMutationAdmission :: "string \<Rightarrow> nat \<Rightarrow> 'a cp \<Rightarrow> 'a cp" where
  "withMutationAdmission clusterId generation run w =
     (case run (w\<lparr>w_admission := Some (clusterId, generation)\<rparr>) of
        (r, w') \<Rightarrow> (r, w'\<lparr>w_admission := w_admission w\<rparr>))"

definition withActiveAdmission :: "string \<Rightarrow> string \<Rightarrow> 'a cp \<Rightarrow> 'a cp" where
  "withActiveAdmission aid clusterId run w =
     (case run (w\<lparr>w_active := Some (aid, clusterId)\<rparr>) of
        (r, w') \<Rightarrow> (r, w'\<lparr>w_active := w_active w\<rparr>))"

section \<open>Sending a mutation\<close>

definition sentNow :: "MutationRequest \<Rightarrow> world \<Rightarrow> SentMutation" where
  "sentNow req w = \<lparr>sent_request = req, sent_operation = w_operation w, sent_db = w_db w,
     sent_locks = w_locks w\<rparr>"

definition transport :: "external \<Rightarrow> MutationRequest \<Rightarrow> (nat \<Rightarrow> MutationRequest \<Rightarrow> failure + 'a) \<Rightarrow> 'a cp" where
  "transport ext req send w =
     callExternal ext (\<lambda>n. send n req) (w\<lparr>w_sent := w_sent w @ [sentNow req w]\<rparr>)"

definition mutationRequest ::
    "external \<Rightarrow> MutationRequest \<Rightarrow> (nat \<Rightarrow> MutationRequest \<Rightarrow> failure + 'a) \<Rightarrow> 'a cp" where
  "mutationRequest ext req send =
     bindM (callExternal ext (x_selectMutationAgent ext)) (\<lambda>agentId.
     if \<not> isBoundedIdentifier (x_swarmClusterId ext)
     then throwM (AgentTransportError ''expected cluster is not a bounded identifier'')
     else
       bindM (getsM w_admission) (\<lambda>admission.
       bindM (getsM w_operation) (\<lambda>operationId.
       case admission of
         Some (clusterId, generation) \<Rightarrow>
           (case operationId of
              None \<Rightarrow> throwM (MaintenancePreDispatchRejection MAINTENANCE_UNAVAILABLE)
            | Some oid \<Rightarrow>
                bindM (attempt (callExternal ext (\<lambda>n. x_barrier ext n agentId))) (\<lambda>r.
                case r of
                  Inl e \<Rightarrow> throwM (MaintenancePreDispatchRejection MAINTENANCE_UNAVAILABLE)
                | Inr barrier \<Rightarrow>
                    if br_clusterId barrier \<noteq> x_swarmClusterId ext \<or> br_state barrier \<noteq> ''OPEN''
                       \<or> br_generation barrier \<noteq> show_nat generation
                    then throwM (MaintenancePreDispatchRejection MAINTENANCE_CLOSED)
                    else journal_execute ext clusterId generation agentId oid
                           (transport ext req send) isDeterministicAgentRejection))
       | None \<Rightarrow>
           if x_maintenanceEnforce ext
           then throwM (MaintenancePreDispatchRejection MAINTENANCE_UNAVAILABLE)
           else transport ext req send)))"

definition maintenance_find :: "external \<Rightarrow> string \<Rightarrow> MaintenanceStateRow option cp" where
  "maintenance_find ext clusterId =
     query ext (\<lambda>d. find_row ms_clusterId clusterId (cluster_maintenance_states d))"

definition agentMutation ::
    "external \<Rightarrow> MutationRequest \<Rightarrow> (nat \<Rightarrow> MutationRequest \<Rightarrow> failure + 'a) \<Rightarrow> 'a cp" where
  "agentMutation ext req send =
     thenM (assertRegistered ext (x_clusterId ext))
       (if x_maintenanceEnforce ext then
          bindM (attempt (maintenance_find ext (x_clusterId ext))) (\<lambda>r.
          case r of
            Inl e \<Rightarrow> throwM (MaintenancePreDispatchRejection MAINTENANCE_UNAVAILABLE)
          | Inr row \<Rightarrow>
              (case row of
                 None \<Rightarrow> throwM (MaintenancePreDispatchRejection MAINTENANCE_CLOSED)
               | Some m \<Rightarrow>
                   if ms_state m \<noteq> ''OPEN'' \<or> ms_generation m < 1
                   then throwM (MaintenancePreDispatchRejection MAINTENANCE_CLOSED)
                   else withMutationAdmission (x_clusterId ext) (ms_generation m)
                          (mutationRequest ext req send)))
        else mutationRequest ext req send)"

section \<open>What dispatching may change\<close>

text \<open>
  \<open>same_core\<close>: only the evidence tables of the maintenance subsystem (admissions and
  dispatches) and the manager acknowledgements differ. \<open>quiet\<close>: besides those nothing happened that a dispatch depends on.
\<close>

definition same_core :: "database \<Rightarrow> database \<Rightarrow> bool" where
  "same_core d d' \<longleftrightarrow>
     operations d' = operations d \<and> node_operations d' = node_operations d \<and>
     deployments d' = deployments d \<and> rollback_attempts d' = rollback_attempts d \<and>
     audit_events d' = audit_events d \<and> catalog d' = catalog d \<and>
     cluster_maintenance_states d' = cluster_maintenance_states d \<and>
     maintenance_control_leases d' = maintenance_control_leases d \<and>
     maintenance_evidence_resolutions d' = maintenance_evidence_resolutions d \<and>
     maintenance_agent_barriers d' = maintenance_agent_barriers d"

definition quiet :: "world \<Rightarrow> world \<Rightarrow> bool" where
  "quiet w w' \<longleftrightarrow>
     same_core (w_db w) (w_db w') \<and> w_operation w' = w_operation w \<and>
     w_locks w' = w_locks w \<and> w_sent w' = w_sent w"

lemma history_same_core: "same_core d d' \<Longrightarrow> history_kept d d'"
  by (auto simp: same_core_def same_control_def history_kept_def intro!: evolve_rules control_kept_same)

context step_relation
begin

lemma steps_assertRegistered [step_intros]: "steps R (assertRegistered ext c)"
  unfolding assertRegistered_def registration_find_def by (intro step_intros)

lemma steps_agentRead [step_intros]: "steps R (agentRead ext f)"
  unfolding agentRead_def by (intro step_intros)

lemma steps_agent_reads [step_intros]:
  "steps R (inspectService ext sid)" "steps R (checkServicePlacement ext sid)"
  "steps R (checkServiceCapacity ext sid i)" "steps R (inspectNode ext nid)"
  "steps R (planScaleService ext sid v k)" "steps R (planRestartService ext sid v)"
  "steps R (planUpdateServiceImage ext sid v img)" "steps R (planRollbackService ext sid v)"
  "steps R (planDrainNode ext nid v)" "steps R (planActivateNode ext nid v)"
  "steps R (planNodeLabels ext nid v sl rl)"
  unfolding agent_read_defs by (rule steps_agentRead)+

lemma steps_maintenance_find [step_intros]: "steps R (maintenance_find ext c)"
  unfolding maintenance_find_def by (rule steps_query)

end

locale maintenance_relation = step_relation +
  assumes maintenance: "same_core (w_db w) d \<Longrightarrow> R w (w\<lparr>w_db := d\<rparr>)"
begin

lemma steps_maintenance:
  assumes "\<And>now d n d'. stmt now d = Inr (n, d') \<Longrightarrow> same_core d d'"
  shows "steps R (executeStmt ext stmt)"
  by (rule steps_executeStmt) (blast intro: maintenance assms)

lemma steps_linkAdmission [step_intros]: "steps R (executeStmt ext (linkAdmission aid c oid))"
  by (rule steps_maintenance) (auto simp: linkAdmission_def Let_def same_core_def)

lemma steps_insertDispatch [step_intros]: "steps R (execute ext (insertDispatch row))"
  unfolding execute_def
  by (intro steps_thenM steps_maintenance steps_retM)
     (auto simp: insertDispatch_def same_core_def split: if_splits)

lemma steps_promoteToSending [step_intros]:
  "steps R (executeStmt ext (promoteToSending jid c g a oid))"
  by (rule steps_maintenance) (auto simp: promoteToSending_def Let_def same_core_def)

lemma steps_movePhase [step_intros]: "steps R (executeStmt ext (movePhase jid from to))"
  by (rule steps_maintenance) (auto simp: movePhase_def Let_def same_core_def)

lemma steps_journal_prepare [step_intros]: "steps R (journal_prepare ext c g a oid)"
  unfolding journal_prepare_def
  by (intro step_intros) (auto split: failure.splits intro!: step_intros)

lemma steps_journal_beginSend [step_intros]: "steps R (journal_beginSend ext jid c g a oid)"
  unfolding journal_beginSend_def by (intro step_intros)

lemma steps_journal_transition [step_intros]: "steps R (journal_transition ext jid from to)"
  unfolding journal_transition_def by (intro step_intros)

end

sublocale db_blind_relation \<subseteq> maintenance_relation
  by unfold_locales (rule db_free)

interpretation quietly: maintenance_relation quiet
  by unfold_locales (auto simp: quiet_def same_core_def)

subsection \<open>Evidence of a dispatch\<close>

text \<open>
  The evidence that a mutation must leave before it is sent under enforced maintenance: a
  committed journal row of its operation in phase \<open>SENDING\<close>, at a generation at which the
  cluster is open.
\<close>

definition evidenced :: "string \<Rightarrow> SentMutation \<Rightarrow> bool" where
  "evidenced c s \<longleftrightarrow>
     (\<exists>row \<in> set (maintenance_dispatches (sent_db s)).
        di_clusterId row = c \<and> sent_operation s = Some (di_operationId row) \<and> di_phase row = SENDING \<and>
        maintenanceOpenAt c (di_generation row) (sent_db s))"

definition sanctioned :: "external \<Rightarrow> SentMutation \<Rightarrow> bool" where
  "sanctioned ext s \<longleftrightarrow> (x_maintenanceEnforce ext \<longrightarrow> evidenced (x_clusterId ext) s)"

lemma promoted_row:
  assumes "promoteToSending jid c g a oid now d = Inr (1, d')"
  shows "\<exists>row \<in> set (maintenance_dispatches d'). di_clusterId row = c \<and> di_operationId row = oid \<and>
    di_phase row = SENDING \<and> maintenanceOpenAt c (di_generation row) d'"
proof -
  let ?P = "\<lambda>r. di_id r = jid \<and> di_clusterId r = c \<and> di_agentId r = a \<and> di_operationId r = oid \<and>
     di_phase r = PREPARED \<and> di_generation r = g \<and> maintenanceOpenAt c g d"
  have "length (filter ?P (maintenance_dispatches d)) = 1"
    and d': "d' = d\<lparr>maintenance_dispatches := update_rows ?P (\<lambda>r. r\<lparr>di_phase := SENDING\<rparr>) (maintenance_dispatches d)\<rparr>"
    using assms by (auto simp: promoteToSending_def Let_def)
  then obtain r where r: "r \<in> set (maintenance_dispatches d)" "?P r"
    by (cases "filter ?P (maintenance_dispatches d)") (auto simp: filter_eq_Cons_iff)
  have rows: "maintenance_dispatches d' = update_rows ?P (\<lambda>r. r\<lparr>di_phase := SENDING\<rparr>) (maintenance_dispatches d)"
    by (simp add: d')
  have "(if ?P r then r\<lparr>di_phase := SENDING\<rparr> else r) \<in> set (maintenance_dispatches d')"
    unfolding rows set_update_rows by (rule imageI [OF r(1)])
  then have "r\<lparr>di_phase := SENDING\<rparr> \<in> set (maintenance_dispatches d')"
    unfolding if_P [OF r(2)] .
  moreover have "maintenanceOpenAt c g d'"
    using r(2) by (simp add: d' maintenanceOpenAt_def)
  ultimately show ?thesis using r(2) by (intro bexI [of _ "r\<lparr>di_phase := SENDING\<rparr>"]) simp_all
qed

lemma beginSend_evidence:
  assumes "journal_beginSend ext jid c g a oid w = (Inr u, w')" and "w_operation w = Some oid"
  shows "evidenced c (sentNow req w')"
proof -
  have "executeStmt ext (promoteToSending jid c g a oid) w = (Inr 1, w')"
    using assms(1) by (auto simp: attempt_OK journal_beginSend_def OK_simps split: if_splits)
  then have "promoteToSending jid c g a oid (w_clock w) (w_db w) = Inr (1, w_db w')"
    by (auto simp: executeStmt_def Let_def split: DbOutcome.splits sum.splits prod.splits)
  moreover have "w_operation w' = Some oid"
    using stepsD [OF quietly.steps_journal_beginSend assms(1)] assms(2) by (simp add: quiet_def)
  ultimately show ?thesis
    using promoted_row by (fastforce simp: evidenced_def sentNow_def)
qed

text \<open>
  A relation that also covers the hand-over to transport. \<open>sendable w0 w req\<close> is what the
  sender knows in the world \<open>w\<close> of a run that began in \<open>w0\<close>; it must survive the calls
  between that moment and the hand-over. The hand-over itself is sanctioned by the journal.
\<close>

locale dispatch_relation = maintenance_relation R
  for R :: "world \<Rightarrow> world \<Rightarrow> bool" +
  fixes ext :: external and sendable :: "world \<Rightarrow> world \<Rightarrow> MutationRequest \<Rightarrow> bool"
  assumes sendable_quiet: "sendable w0 w req \<Longrightarrow> quiet w w' \<Longrightarrow> sendable w0 w' req"
    and sent: "R w0 w \<Longrightarrow> sendable w0 w req \<Longrightarrow> sanctioned ext (sentNow req w) \<Longrightarrow>
      R w0 (w\<lparr>w_sent := w_sent w @ [sentNow req w]\<rparr>)"
begin

definition before_send :: "MutationRequest \<Rightarrow> world \<Rightarrow> string option \<Rightarrow> world \<Rightarrow> bool" where
  "before_send req w0 op w \<longleftrightarrow> R w0 w \<and> sendable w0 w req \<and> w_operation w = op"

definition admitted :: "MutationRequest \<Rightarrow> world \<Rightarrow> string option \<Rightarrow> world \<Rightarrow> bool" where
  "admitted req w0 op w \<longleftrightarrow> before_send req w0 op w \<and>
     (x_maintenanceEnforce ext \<longrightarrow> (\<exists>g. w_admission w = Some (x_clusterId ext, g)))"

lemma before_send_quiet: "before_send req w0 op w \<Longrightarrow> R w w' \<Longrightarrow> quiet w w' \<Longrightarrow> before_send req w0 op w'"
  unfolding before_send_def by (auto intro: trans sendable_quiet simp: quiet_def)

lemma hoare_before:
  assumes "steps R m" and "steps quiet m"
  shows "hoare (before_send req w0 op) m (\<lambda>_. before_send req w0 op) (\<lambda>_. R w0)"
proof (rule hoareI)
  fix w x w' assume P: "before_send req w0 op w" and run: "m w = (Inr x, w')"
  show "before_send req w0 op w'"
    by (rule before_send_quiet [OF P stepsD [OF assms(1) run] stepsD [OF assms(2) run]])
next
  fix w e w' assume "before_send req w0 op w" and run: "m w = (Inl e, w')"
  then show "R w0 w'" using trans [OF _ stepsD [OF assms(1) run]] by (simp add: before_send_def)
qed

lemma hoare_after:
  assumes "steps R m"
  shows "hoare (R w0) m (\<lambda>_. R w0) (\<lambda>_. R w0)"
  by (rule hoareI; blast dest: stepsD [OF assms] intro: trans)

lemma hoare_weaken:
  assumes "steps R m"
  shows "hoare (before_send req w0 op) m (\<lambda>_. R w0) (\<lambda>_. R w0)"
  by (rule hoare_pre [OF hoare_after [OF assms]]) (simp add: before_send_def)

lemma hoare_transport:
  "hoare (\<lambda>w. before_send req w0 op w \<and> sanctioned ext (sentNow req w)) (transport ext req send) (\<lambda>_. R w0) (\<lambda>_. R w0)"
proof -
  have "R w0 (snd (transport ext req send w))" if "before_send req w0 op w \<and> sanctioned ext (sentNow req w)" for w
    using that sent trans [OF _ ticked] by (auto simp: before_send_def transport_def callExternal_def)
  then show ?thesis by (rule hoare_fromI)
qed

lemma hoare_beginSend:
  assumes "x_maintenanceEnforce ext \<longrightarrow> c = x_clusterId ext"
  shows "hoare (before_send req w0 (Some oid)) (attempt (journal_beginSend ext jid c g a oid))
     (\<lambda>r. case r of
        Inl _ \<Rightarrow> before_send req w0 (Some oid)
      | Inr _ \<Rightarrow> \<lambda>w. before_send req w0 (Some oid) w \<and> sanctioned ext (sentNow req w)) (\<lambda>_. R w0)"
proof (rule hoareI)
  fix w r w' assume P: "before_send req w0 (Some oid) w" and run: "attempt (journal_beginSend ext jid c g a oid) w = (Inr r, w')"
  then have begun: "journal_beginSend ext jid c g a oid w = (r, w')" by (simp add: attempt_OK)
  have kept: "before_send req w0 (Some oid) w'"
    by (rule before_send_quiet [OF P stepsD [OF steps_journal_beginSend begun]
          stepsD [OF quietly.steps_journal_beginSend begun]])
  have "sanctioned ext (sentNow req w')" if "r = Inr u" for u
    using beginSend_evidence [of ext jid c g a oid w u w' req] begun P assms that
    by (auto simp: before_send_def sanctioned_def)
  with kept show "(case r of
        Inl _ \<Rightarrow> before_send req w0 (Some oid)
      | Inr _ \<Rightarrow> \<lambda>w. before_send req w0 (Some oid) w \<and> sanctioned ext (sentNow req w)) w'"
    by (auto split: sum.splits)
qed (auto simp: attempt_def split: prod.splits)

lemma hoare_journal_execute:
  assumes "x_maintenanceEnforce ext \<longrightarrow> c = x_clusterId ext"
  shows "hoare (before_send req w0 (Some oid)) (journal_execute ext c g a oid (transport ext req send) defn)
    (\<lambda>_. R w0) (\<lambda>_. R w0)"
proof -
  have finish: "hoare (R w0) (case s of
        Inl e \<Rightarrow> thenM (attempt (journal_transition ext jid SENDING (if defn e then REJECTED else UNCERTAIN))) (throwM e)
      | Inr r \<Rightarrow> thenM (journal_transition ext jid SENDING ACKNOWLEDGED) (retM r)) (\<lambda>_. R w0) (\<lambda>_. R w0)" for s jid
    by (rule hoare_after) (intro step_intros)
  have refused: "hoare (before_send req w0 (Some oid)) (thenM (attempt (journal_transition ext jid PREPARED REJECTED))
      (throwM (MaintenancePreDispatchRejection MAINTENANCE_UNAVAILABLE))) (\<lambda>_. R w0) (\<lambda>_. R w0)" for jid
    by (rule hoare_weaken) (intro step_intros)
  have begun: "hoare (case b of
        Inl _ \<Rightarrow> before_send req w0 (Some oid)
      | Inr _ \<Rightarrow> \<lambda>w. before_send req w0 (Some oid) w \<and> sanctioned ext (sentNow req w))
     (case b of
        Inl e \<Rightarrow> thenM (attempt (journal_transition ext jid PREPARED REJECTED)) (throwM (MaintenancePreDispatchRejection MAINTENANCE_UNAVAILABLE))
      | Inr _ \<Rightarrow> bindM (attempt (transport ext req send)) (\<lambda>s. case s of
          Inl e \<Rightarrow> thenM (attempt (journal_transition ext jid SENDING (if defn e then REJECTED else UNCERTAIN))) (throwM e)
        | Inr r \<Rightarrow> thenM (journal_transition ext jid SENDING ACKNOWLEDGED) (retM r)))
     (\<lambda>_. R w0) (\<lambda>_. R w0)" for b :: "failure + unit" and jid
    by (cases b) (simp_all add: refused hoare_bindM [OF hoare_attempt [OF hoare_transport] finish])
  show ?thesis
    unfolding journal_execute_def
    by (rule hoare_bindM [OF hoare_before], (intro step_intros)+)
       (intro hoare_case_sum hoare_if hoare_weaken step_intros hoare_bindM [OF hoare_beginSend [OF assms] begun])
qed

lemma hoare_mutationRequest:
  "hoare (admitted req w0 op) (mutationRequest ext req send) (\<lambda>_. R w0) (\<lambda>_. R w0)"
proof -
  have call: "hoare (admitted req w0 op) (callExternal ext f) (\<lambda>_. admitted req w0 op) (\<lambda>_. R w0)"
    for f :: "nat \<Rightarrow> failure + 'z"
  proof (rule hoareI)
    fix w x w' assume P: "admitted req w0 op w" and run: "callExternal ext f w = (Inr x, w')"
    then have "before_send req w0 op w'"
      using hoare_OK [OF hoare_before [OF steps_callExternal quietly.steps_callExternal], of req w0 op w]
      by (simp add: admitted_def)
    with P run show "admitted req w0 op w'" by (auto simp: admitted_def callExternal_def tick_def)
  next
    fix w e w' assume "admitted req w0 op w" and "callExternal ext f w = (Inl e, w')"
    then show "R w0 w'"
      using hoare_Err [OF hoare_before [OF steps_callExternal quietly.steps_callExternal], of req w0 op w]
      by (simp add: admitted_def)
  qed
  have throw: "hoare (before_send req w0 op) (throwM e) (\<lambda>_. R w0) (\<lambda>_. R w0)" for op e
    by (rule hoare_weaken) (intro step_intros)
  have admission: "hoare (admitted req w0 op) (getsM w_admission)
     (\<lambda>a w. before_send req w0 op w \<and> (x_maintenanceEnforce ext \<longrightarrow> (\<exists>g. a = Some (x_clusterId ext, g)))) (\<lambda>_. R w0)"
    by (rule hoareI) (auto simp: getsM_def admitted_def)
  have operation_id: "hoare (before_send req w0 op) (getsM w_operation) (\<lambda>o' w. before_send req w0 op w \<and> o' = op) (\<lambda>_. R w0)"
    by (rule hoareI) (auto simp: getsM_def before_send_def)
  have plain: "hoare (before_send req w0 op) (transport ext req send) (\<lambda>_. R w0) (\<lambda>_. R w0)" if "\<not> x_maintenanceEnforce ext"
    by (rule hoare_pre [OF hoare_transport]) (simp add: that sanctioned_def)
  show ?thesis
    unfolding mutationRequest_def
  proof (rule hoare_bindM [OF call], rule hoare_if, goal_cases)
    case (1 agentId)
    show ?case by (rule hoare_pre [OF throw [of op]]) (simp add: admitted_def)
  next
    case (2 agentId)
    show ?case
    proof (rule hoare_bindM [OF admission], rule hoare_conj_pre, rule hoare_bindM [OF operation_id],
        rule hoare_conj_pre, rule hoare_case_option, goal_cases)
      case (1 a op')
      then show ?case by (intro hoare_if throw plain) simp_all
    next
      case (2 a op' cg)
      then show ?case
        by (intro hoare_case_prod hoare_case_option throw)
           (rule hoare_bindM [OF hoare_before], (intro step_intros)+,
            auto intro!: hoare_case_sum hoare_if throw hoare_journal_execute)
    qed
  qed
qed

lemma dispatch_related:
  assumes "R w0 w" and "sendable w0 w req"
  shows "R w0 (snd (agentMutation ext req send w))"
proof -
  let ?op = "w_operation w"
  have throw: "hoare (before_send req w0 ?op) (throwM e) (\<lambda>_. R w0) (\<lambda>_. R w0)" for e
    by (rule hoare_weaken) (intro step_intros)
  have adm: "hoare (before_send req w0 ?op) (withMutationAdmission (x_clusterId ext) g (mutationRequest ext req send))
      (\<lambda>_. R w0) (\<lambda>_. R w0)" for g
  proof (rule hoare_fromI)
    fix w1 assume P: "before_send req w0 ?op w1"
    let ?w2 = "w1\<lparr>w_admission := Some (x_clusterId ext, g)\<rparr>"
    obtain r w3 where run: "mutationRequest ext req send ?w2 = (r, w3)" by fastforce
    have "quiet w1 ?w2" by (simp add: quiet_def same_core_def)
    then have "admitted req w0 ?op ?w2"
      using before_send_quiet [OF P admission_scoped] by (simp add: admitted_def)
    then have "R w0 w3"
      using hoare_both [OF hoare_mutationRequest] run by blast
    then show "R w0 (snd (withMutationAdmission (x_clusterId ext) g (mutationRequest ext req send) w1))"
      using trans [OF _ admission_scoped] by (simp add: withMutationAdmission_def run)
  qed
  have plain: "hoare (before_send req w0 ?op) (mutationRequest ext req send) (\<lambda>_. R w0) (\<lambda>_. R w0)"
    if "\<not> x_maintenanceEnforce ext"
    by (rule hoare_pre [OF hoare_mutationRequest]) (simp add: that admitted_def)
  have "hoare (before_send req w0 ?op) (agentMutation ext req send) (\<lambda>_. R w0) (\<lambda>_. R w0)"
    unfolding agentMutation_def thenM_def
    by (rule hoare_bindM [OF hoare_before], (intro step_intros)+, rule hoare_if)
       (intro hoare_bindM [OF hoare_before] hoare_splits throw adm plain step_intros; assumption)+
  moreover have "before_send req w0 ?op w"
    using assms by (simp add: before_send_def)
  ultimately show ?thesis
    by (metis hoare_both prod.collapse)
qed

end

text \<open>Whatever is sent, dispatching changes the tables of the maintenance subsystem only.\<close>

definition core_kept :: "world \<Rightarrow> world \<Rightarrow> bool" where
  "core_kept w w' \<longleftrightarrow> same_core (w_db w) (w_db w')"

interpretation core: dispatch_relation core_kept ext "\<lambda>_ _ _. True" for ext
  by unfold_locales (auto simp: core_kept_def same_core_def)

lemma agentMutation_core: "core_kept w (snd (agentMutation ext req send w))"
  by (rule core.dispatch_related) (simp_all add: core.refl)

lemma withMutationOperation_history:
  "on_db history_kept w (snd (withMutationOperation oid (agentMutation ext req send) w))"
  using agentMutation_core [of "w\<lparr>w_operation := Some oid\<rparr>"] history_same_core
  by (fastforce simp: withMutationOperation_def on_db_def core_kept_def case_prod_beta history.T_refl)

end
