(* ===== verification/Operation_Lock.thy ===== *)
theory Operation_Lock
  imports Dispatch
begin

text \<open>
  Mutation locks: \<^verbatim>\<open>operations/operation-lock.ts\<close> (MySQL named locks, taken in sorted
  order and released in reverse) and \<^verbatim>\<open>clusters/registered-operation-lock.ts\<close>
  (registration check and durable maintenance admission around the callback).
  SHA-256 is the function \<open>x_sha256Hex\<close>.

  The rules say that a callback runs with all of its named locks held and with the database
  unchanged outside the maintenance tables.
\<close>

section \<open>\<open>OperationLock\<close>\<close>

definition resourceLockKey :: "string \<Rightarrow> string \<Rightarrow> string \<Rightarrow> string" where
  "resourceLockKey type clusterId resourceId = type @ [CHR 0x00] @ clusterId @ [CHR 0x00] @ resourceId"

definition namedLockName :: "external \<Rightarrow> string \<Rightarrow> string" where
  "namedLockName ext resourceKey = ''docklane:'' @ take 55 (x_sha256Hex ext resourceKey)"

definition serviceLockName :: "external \<Rightarrow> string \<Rightarrow> string \<Rightarrow> string" where
  "serviceLockName ext clusterId serviceId = namedLockName ext (resourceLockKey ''service'' clusterId serviceId)"

definition nodeLockName :: "external \<Rightarrow> string \<Rightarrow> string \<Rightarrow> string" where
  "nodeLockName ext clusterId nodeId = namedLockName ext (resourceLockKey ''node'' clusterId nodeId)"

text \<open>\<open>SELECT GET_LOCK(?, 2)\<close>. A failed query ends the session, and with it its locks.\<close>

definition getLock :: "external \<Rightarrow> string \<Rightarrow> unit cp" where
  "getLock ext name w =
     (case x_db ext (w_calls w) of
        DbOk \<Rightarrow>
          if x_getLock ext (w_calls w) name
          then (Inr (), (tick ext w)\<lparr>w_locks := name # w_locks w\<rparr>)
          else (Inl (ConflictException ''Another mutation is in progress for an affected resource''), tick ext w)
      | DbFailed m \<Rightarrow> (Inl (DatabaseError m), tick ext w)
      | DbLost m \<Rightarrow> (Inl (DatabaseError m), tick ext w))"

text \<open>The acquisition loop, with the names acquired so far.\<close>

fun acquireLocks ::
    "external \<Rightarrow> string list \<Rightarrow> string list \<Rightarrow> world \<Rightarrow> (failure option \<times> string list) \<times> world" where
  "acquireLocks ext [] acquired w = ((None, acquired), w)"
| "acquireLocks ext (name # names) acquired w =
     (case getLock ext name w of
        (Inl e, w') \<Rightarrow> ((Some e, acquired), w')
      | (Inr _, w') \<Rightarrow> acquireLocks ext names (acquired @ [name]) w')"

text \<open>
  The release loop of the \<open>finally\<close> block: a failing \<open>RELEASE_LOCK\<close> destroys the
  connection, which frees every lock of the session, and ends the loop.
\<close>

fun releaseLocks :: "external \<Rightarrow> string list \<Rightarrow> world \<Rightarrow> world" where
  "releaseLocks ext [] w = w"
| "releaseLocks ext (name # names) w =
     (case x_db ext (w_calls w) of
        DbOk \<Rightarrow> releaseLocks ext names ((tick ext w)\<lparr>w_locks := remove1 name (w_locks w)\<rparr>)
      | _ \<Rightarrow> (tick ext w)\<lparr>w_locks := filter (\<lambda>l. l \<notin> set (name # names)) (w_locks w)\<rparr>)"

definition withResourceLocks :: "external \<Rightarrow> string list \<Rightarrow> 'a cp \<Rightarrow> 'a cp" where
  "withResourceLocks ext resourceKeys fn w =
     (case query ext (\<lambda>_. ()) w of
        (Inl e, w0) \<Rightarrow> (Inl e, w0)
      | (Inr _, w0) \<Rightarrow>
          (case acquireLocks ext (sortedUnique (map (namedLockName ext) resourceKeys)) [] w0 of
             ((Some e, acquired), w1) \<Rightarrow> (Inl e, releaseLocks ext (rev acquired) w1)
           | ((None, acquired), w1) \<Rightarrow>
               (case fn w1 of (r, w2) \<Rightarrow> (r, releaseLocks ext (rev acquired) w2))))"

section \<open>\<open>RegisteredOperationLock\<close>\<close>

definition insertAdmission :: "string \<Rightarrow> string \<Rightarrow> string \<Rightarrow> string \<Rightarrow> string \<Rightarrow> nat \<Rightarrow> statement" where
  "insertAdmission aid owner type resourceId clusterId generation now d =
     (if maintenanceOpenAt clusterId generation d
      then Inr (1, d\<lparr>maintenance_active_admissions := maintenance_active_admissions d @
             [\<lparr>ad_id = aid, ad_clusterId = clusterId, ad_generation = generation, ad_ownerId = owner,
               ad_resourceType = type, ad_resourceId = resourceId, ad_operationId = None\<rparr>]\<rparr>)
      else Inr (0, d))"

definition assertMaintenanceOpen :: "external \<Rightarrow> string \<Rightarrow> string \<Rightarrow> string \<Rightarrow> string option cp" where
  "assertMaintenanceOpen ext clusterId type resourceId =
     (if \<not> x_maintenanceEnforce ext then retM None
      else bindM (attempt (maintenance_find ext clusterId)) (\<lambda>r.
        case r of
          Inl e \<Rightarrow> throwM (ServiceUnavailableException ''Maintenance state unavailable'')
        | Inr row \<Rightarrow>
            (case row of
               None \<Rightarrow> throwM (ConflictException ''Cluster maintenance admission closed'')
             | Some m \<Rightarrow>
                 if ms_state m \<noteq> ''OPEN'' \<or> ms_generation m < 1
                 then throwM (ConflictException ''Cluster maintenance admission closed'')
                 else bindM (randomUUID ext) (\<lambda>aid.
                      bindM (executeStmt ext (insertAdmission aid (x_processInstanceId ext) type
                               resourceId clusterId (ms_generation m))) (\<lambda>n.
                      if n \<noteq> 1 then throwM (ConflictException ''Maintenance admission changed'')
                      else retM (Some aid))))))"

definition releaseAdmission :: "external \<Rightarrow> string option \<Rightarrow> unit cp" where
  "releaseAdmission ext admission =
     (case admission of
        None \<Rightarrow> retM ()
      | Some aid \<Rightarrow> execute ext (\<lambda>now d.
          Inr (length (filter (\<lambda>a. ad_id a = aid) (maintenance_active_admissions d)),
               d\<lparr>maintenance_active_admissions :=
                   filter (\<lambda>a. ad_id a \<noteq> aid) (maintenance_active_admissions d)\<rparr>)))"

definition withAdmission :: "external \<Rightarrow> string \<Rightarrow> string \<Rightarrow> string \<Rightarrow> 'a cp \<Rightarrow> 'a cp" where
  "withAdmission ext clusterId type resourceId fn =
     bindM (assertMaintenanceOpen ext clusterId type resourceId) (\<lambda>admission.
       finallyM (case admission of
                   None \<Rightarrow> fn
                 | Some aid \<Rightarrow> withActiveAdmission aid clusterId fn)
         (releaseAdmission ext admission))"

definition withServiceLock :: "external \<Rightarrow> string \<Rightarrow> string \<Rightarrow> 'a cp \<Rightarrow> 'a cp" where
  "withServiceLock ext clusterId serviceId fn =
     thenM (assertRegistered ext clusterId)
       (withResourceLocks ext [resourceLockKey ''service'' clusterId serviceId]
          (withAdmission ext clusterId ''service'' serviceId fn))"

definition withNodeAndServiceLocks :: "external \<Rightarrow> string \<Rightarrow> string \<Rightarrow> string list \<Rightarrow> 'a cp \<Rightarrow> 'a cp" where
  "withNodeAndServiceLocks ext clusterId nodeId serviceIds fn =
     thenM (assertRegistered ext clusterId)
       (withResourceLocks ext
          (resourceLockKey ''node'' clusterId nodeId # map (resourceLockKey ''service'' clusterId) serviceIds)
          (withAdmission ext clusterId ''node'' nodeId fn))"

definition withServiceRecoveryLock :: "external \<Rightarrow> string \<Rightarrow> string \<Rightarrow> 'a cp \<Rightarrow> 'a cp" where
  "withServiceRecoveryLock ext clusterId serviceId fn =
     thenM (assertRegistered ext clusterId)
       (withResourceLocks ext [resourceLockKey ''service'' clusterId serviceId] fn)"

definition withNodeRecoveryLocks :: "external \<Rightarrow> string \<Rightarrow> string \<Rightarrow> string list \<Rightarrow> 'a cp \<Rightarrow> 'a cp" where
  "withNodeRecoveryLocks ext clusterId nodeId serviceIds fn =
     thenM (assertRegistered ext clusterId)
       (withResourceLocks ext
          (resourceLockKey ''node'' clusterId nodeId # map (resourceLockKey ''service'' clusterId) serviceIds) fn)"

section \<open>Rules for locked callbacks\<close>

lemma acquireLocks_locks:
  assumes "acquireLocks ext names acq w = ((e, acq'), w')"
  shows "\<exists>got. acq' = acq @ got \<and> prefix got names \<and> w_locks w' = rev got @ w_locks w \<and>
           (e = None \<longrightarrow> got = names) \<and> w_db w' = w_db w \<and> w_sent w' = w_sent w"
  using assms
proof (induction names arbitrary: acq w)
  case Nil
  then show ?case by (intro exI [of _ "[]"]) simp
next
  case (Cons name names)
  obtain r w1 where g: "getLock ext name w = (r, w1)" by fastforce
  show ?case
  proof (cases r)
    case (Inl f)
    then show ?thesis
      using Cons.prems g
      by (intro exI [of _ "[]"]) (auto simp: getLock_def tick_def split: DbOutcome.splits if_splits)
  next
    case (Inr u)
    have w1: "w_locks w1 = name # w_locks w" "w_db w1 = w_db w" "w_sent w1 = w_sent w"
      using g Inr by (auto simp: getLock_def tick_def split: DbOutcome.splits if_splits)
    have "acquireLocks ext names (acq @ [name]) w1 = ((e, acq'), w')"
      using Cons.prems g Inr by simp
    from Cons.IH [OF this] obtain got where got: "acq' = (acq @ [name]) @ got" "prefix got names"
      "w_locks w' = rev got @ w_locks w1" "e = None \<longrightarrow> got = names" "w_db w' = w_db w1" "w_sent w' = w_sent w1"
      by blast
    then show ?thesis using w1 by (intro exI [of _ "name # got"]) simp
  qed
qed

lemma releaseLocks_locks:
  assumes "distinct names" and "w_locks w = names @ base" and "set names \<inter> set base = {}"
  shows "w_locks (releaseLocks ext names w) = base"
  using assms
proof (induction names arbitrary: w)
  case (Cons name names)
  show ?case
  proof (cases "x_db ext (w_calls w)")
    case DbOk
    then show ?thesis using Cons by simp
  qed (use Cons.prems in \<open>auto simp: filter_empty_conv intro!: filter_True\<close>)
qed simp

context scoped_relation
begin

lemma acquireLocks_related: "acquireLocks ext names acq w = (r, w') \<Longrightarrow> R w w'"
proof (induction names arbitrary: acq w)
  case Nil
  then show ?case by (simp add: refl)
next
  case (Cons name names)
  obtain b w1 where g: "getLock ext name w = (b, w1)" by fastforce
  have "R w w1"
    using g ticked trans [OF ticked locked]
    by (auto simp: getLock_def split: DbOutcome.splits if_splits)
  then show ?case
    using Cons.prems g Cons.IH trans by (fastforce split: sum.splits)
qed

lemma releaseLocks_related: "R w (releaseLocks ext names w)"
proof (induction names arbitrary: w)
  case Nil
  then show ?case by (simp add: refl)
next
  case (Cons name names)
  have "R w ((tick ext w)\<lparr>w_locks := ls\<rparr>)" for ls
    using trans [OF ticked locked] .
  then show ?case
    using trans [OF _ Cons.IH] by (simp split: DbOutcome.splits)
qed

text \<open>The callback runs with every named lock held, on an unchanged database.\<close>

lemma withResourceLocks_related:
  assumes "\<And>w1. w_db w1 = w_db w \<Longrightarrow> w_sent w1 = w_sent w \<Longrightarrow>
      set (map (namedLockName ext) keys) \<subseteq> set (w_locks w1) \<Longrightarrow> R w1 (snd (fn w1))"
  shows "R w (snd (withResourceLocks ext keys fn w))"
proof -
  let ?names = "sortedUnique (map (namedLockName ext) keys)"
  obtain q w0 where q: "query ext (\<lambda>_. ()) w = (q, w0)" by fastforce
  have w0: "R w w0" by (rule stepsD [OF steps_query q])
  have same0: "w_db w0 = w_db w" "w_sent w0 = w_sent w"
    using q by (auto simp: query_def tick_def split: DbOutcome.splits)
  obtain e acq w1 where a: "acquireLocks ext ?names [] w0 = ((e, acq), w1)"
    by (metis prod.collapse)
  have w1: "R w w1" using trans [OF w0 acquireLocks_related [OF a]] .
  note acquired = acquireLocks_locks [OF a]
  obtain r w2 where f: "fn w1 = (r, w2)" by fastforce
  show ?thesis
  proof (cases q)
    case (Inl f)
    then show ?thesis using q w0 by (simp add: withResourceLocks_def)
  next
    case (Inr u)
    show ?thesis
    proof (cases e)
      case None
      then have "set (map (namedLockName ext) keys) \<subseteq> set (w_locks w1)"
        using acquired by auto
      then have "R w1 w2" using assms [of w1] same0 acquired f by auto
      then have "R w (releaseLocks ext (rev acq) w2)"
        using trans [OF trans [OF w1] releaseLocks_related] by simp
      then show ?thesis
        using q Inr a None f by (simp add: withResourceLocks_def)
    next
      case (Some x)
      then show ?thesis
        using q Inr a trans [OF w1 releaseLocks_related] by (simp add: withResourceLocks_def)
    qed
  qed
qed

lemma steps_withResourceLocks [step_intros]: "steps R fn \<Longrightarrow> steps R (withResourceLocks ext keys fn)"
  using withResourceLocks_related unfolding steps_def by blast

lemma steps_withMutationOperation [step_intros]:
  assumes "steps R m"
  shows "steps R (withMutationOperation oid m)"
proof -
  have "R w ((snd (m (w\<lparr>w_operation := x\<rparr>)))\<lparr>w_operation := y\<rparr>)" for w x y
    using trans [OF trans [OF operation_scoped assms [unfolded steps_def, rule_format]] operation_scoped] .
  then show ?thesis
    by (simp add: steps_def withMutationOperation_def refl case_prod_beta)
qed

lemma steps_withActiveAdmission [step_intros]:
  assumes "steps R m"
  shows "steps R (withActiveAdmission aid c m)"
proof -
  have "R w ((snd (m (w\<lparr>w_active := x\<rparr>)))\<lparr>w_active := y\<rparr>)" for w x y
    using trans [OF trans [OF active_scoped assms [unfolded steps_def, rule_format]] active_scoped] .
  then show ?thesis
    by (simp add: steps_def withActiveAdmission_def case_prod_beta)
qed

end

locale locked_relation = scoped_relation + maintenance_relation
begin

lemma steps_assertMaintenanceOpen [step_intros]: "steps R (assertMaintenanceOpen ext c type rid)"
proof -
  have "steps R (executeStmt ext (insertAdmission aid owner type rid c g))" for aid owner g
    by (rule steps_maintenance) (auto simp: insertAdmission_def same_core_def split: if_splits)
  then show ?thesis
    unfolding assertMaintenanceOpen_def by (intro step_intros)
qed

lemma steps_releaseAdmission [step_intros]: "steps R (releaseAdmission ext admission)"
  unfolding releaseAdmission_def execute_def
  by (intro step_intros steps_maintenance) (auto simp: same_core_def)

lemma steps_withAdmission [step_intros]: "steps R fn \<Longrightarrow> steps R (withAdmission ext c type rid fn)"
  unfolding withAdmission_def by (intro step_intros)

lemma steps_withServiceLock [step_intros]: "steps R fn \<Longrightarrow> steps R (withServiceLock ext c sid fn)"
  unfolding withServiceLock_def by (intro step_intros)

lemma steps_withNodeAndServiceLocks [step_intros]:
  "steps R fn \<Longrightarrow> steps R (withNodeAndServiceLocks ext c nid sids fn)"
  unfolding withNodeAndServiceLocks_def by (intro step_intros)

lemma steps_withServiceRecoveryLock [step_intros]:
  "steps R fn \<Longrightarrow> steps R (withServiceRecoveryLock ext c sid fn)"
  unfolding withServiceRecoveryLock_def by (intro step_intros)

lemma steps_withNodeRecoveryLocks [step_intros]:
  "steps R fn \<Longrightarrow> steps R (withNodeRecoveryLocks ext c nid sids fn)"
  unfolding withNodeRecoveryLocks_def by (intro step_intros)

end

lemma quiet_assertMaintenanceOpen: "steps quiet (assertMaintenanceOpen ext c type rid)"
proof -
  have "steps quiet (executeStmt ext (insertAdmission aid owner type rid c g))" for aid owner g
    by (rule quietly.steps_maintenance) (auto simp: insertAdmission_def same_core_def split: if_splits)
  then show ?thesis
    unfolding assertMaintenanceOpen_def by (intro step_intros)
qed

context locked_relation
begin

lemma withAdmission_related:
  assumes fn: "\<And>w1. same_core (w_db w) (w_db w1) \<Longrightarrow> w_locks w1 = w_locks w \<Longrightarrow> R w1 (snd (fn w1))"
  shows "R w (snd (withAdmission ext c type rid fn w))"
  unfolding withAdmission_def
proof (rule bindM_related)
  show "R w (snd (assertMaintenanceOpen ext c type rid w))"
    using steps_assertMaintenanceOpen unfolding steps_def by blast
next
  fix admission w1
  assume "assertMaintenanceOpen ext c type rid w = (Inr admission, w1)"
  then have q: "quiet w w1" by (rule stepsD [OF quiet_assertMaintenanceOpen])
  have run: "R w1 (snd (fn w1))"
    using q by (intro fn) (simp_all add: quiet_def)
  have scoped: "R w1 (snd (withActiveAdmission aid c fn w1))" for aid
  proof -
    let ?w2 = "w1\<lparr>w_active := Some (aid, c)\<rparr>"
    have "R ?w2 (snd (fn ?w2))" using q by (intro fn) (simp_all add: quiet_def)
    then have "R w1 ((snd (fn ?w2))\<lparr>w_active := w_active w1\<rparr>)"
      using trans [OF trans [OF active_scoped] active_scoped] by blast
    then show ?thesis by (simp add: withActiveAdmission_def case_prod_beta)
  qed
  show "R w1 (snd (finallyM (case admission of None \<Rightarrow> fn | Some aid \<Rightarrow> withActiveAdmission aid c fn)
      (releaseAdmission ext admission) w1))"
    using run scoped by (intro finallyM_related step_intros) (simp split: option.split)
qed

lemma locked_related:
  assumes fn: "\<And>w1. same_core (w_db w) (w_db w1) \<Longrightarrow>
      set (map (namedLockName ext) keys) \<subseteq> set (w_locks w1) \<Longrightarrow> R w1 (snd (fn w1))"
  shows "R w (snd (thenM (assertRegistered ext c)
           (withResourceLocks ext keys (withAdmission ext c type rid fn)) w))"
    and "R w (snd (thenM (assertRegistered ext c) (withResourceLocks ext keys fn) w))"
proof -
  have reg: "R w (snd (assertRegistered ext c w))"
    using steps_assertRegistered unfolding steps_def by blast
  have core: "same_core (w_db w) (w_db w2)"
    if "assertRegistered ext c w = (Inr x, w1)" and "w_db w2 = w_db w1" for x w1 w2
    using stepsD [OF quietly.steps_assertRegistered that(1)] that(2) by (simp add: quiet_def)
  have same_core_trans: "same_core a b \<Longrightarrow> same_core b d \<Longrightarrow> same_core a d" for a b d
    by (simp add: same_core_def)
  show "R w (snd (thenM (assertRegistered ext c)
           (withResourceLocks ext keys (withAdmission ext c type rid fn)) w))"
    unfolding thenM_def
    by (intro bindM_related reg withResourceLocks_related withAdmission_related fn)
       (auto intro: same_core_trans core)
  show "R w (snd (thenM (assertRegistered ext c) (withResourceLocks ext keys fn) w))"
    unfolding thenM_def
    by (intro bindM_related reg withResourceLocks_related fn) (auto intro: core)
qed

text \<open>
  The callback of a lock runs with its named locks held and with unchanged operations, node
  operations, deployments and audit log.
\<close>

lemma withServiceLock_related:
  assumes "\<And>w1. same_core (w_db w) (w_db w1) \<Longrightarrow>
      serviceLockName ext c sid \<in> set (w_locks w1) \<Longrightarrow> R w1 (snd (fn w1))"
  shows "R w (snd (withServiceLock ext c sid fn w))"
  unfolding withServiceLock_def
  by (rule locked_related(1)) (use assms in \<open>simp add: serviceLockName_def\<close>)

lemma withNodeAndServiceLocks_related:
  assumes "\<And>w1. same_core (w_db w) (w_db w1) \<Longrightarrow> nodeLockName ext c nid \<in> set (w_locks w1) \<Longrightarrow>
      (\<forall>sid \<in> set sids. serviceLockName ext c sid \<in> set (w_locks w1)) \<Longrightarrow> R w1 (snd (fn w1))"
  shows "R w (snd (withNodeAndServiceLocks ext c nid sids fn w))"
  unfolding withNodeAndServiceLocks_def
  by (rule locked_related(1)) (use assms in \<open>auto simp: serviceLockName_def nodeLockName_def\<close>)

end

end
