(* ===== verification/Verification.thy ===== *)
theory Verification
  imports Records
begin

text \<open>
  The pure decisions of the control plane: how one observed snapshot of a service or node is
  classified against the recorded target of an operation
  (\<^verbatim>\<open>operations/mutation-verification.ts\<close>,
  \<^verbatim>\<open>operations/node-mutation-verification.ts\<close>) and against a deployment or rollback
  plan (the functions at the end of \<^verbatim>\<open>deployments/deployment.service.ts\<close>).
  The lemmas characterise when a decision is \<open>SUCCESS\<close> and relate the classifiers that
  judge the same snapshot at different moments.
\<close>

section \<open>Service mutations: \<open>classifyMutationSnapshot\<close>\<close>

datatype MutationSnapshotDecision =
    MS_PENDING
  | MS_SUCCESS
  | MS_FAILED string
  | MS_EXTERNAL_CONFLICT string

definition stale_snapshot :: "nat option \<Rightarrow> nat \<Rightarrow> bool" where
  "stale_snapshot resultVersion version =
     (case resultVersion of None \<Rightarrow> False | Some v \<Rightarrow> version < v)"

definition classifyMutationSnapshot ::
    "OperationRecord \<Rightarrow> ServiceDetailResponse \<Rightarrow> MutationSnapshotDecision" where
  "classifyMutationSnapshot operation current =
     (let service = sd_service current; state = s_updateState service in
      if stale_snapshot (o_resultVersion operation) (s_version service) then MS_PENDING
      else if s_specHash service \<noteq> o_targetSpecHash operation then
        MS_EXTERNAL_CONFLICT ''Current service spec no longer matches the recorded mutation target''
      else if state = Some ''paused'' \<or> state = Some ''rollback_started''
              \<or> state = Some ''rollback_completed'' then
        MS_FAILED (''Unexpected update state: '' @ the state)
      else if s_forceUpdate service \<noteq> o_targetForceUpdate operation then MS_PENDING
      else if s_desiredReplicas service \<noteq> s_runningReplicas service then MS_PENDING
      else if o_type operation = SCALE then
        (if Some (s_desiredReplicas service) = o_targetReplicas operation
         then MS_SUCCESS else MS_PENDING)
      else if state \<noteq> Some ''completed'' then MS_PENDING
      else
        (let runningTasks = filter (\<lambda>t. t_state t = ''running'') (sd_tasks current) in
         if length runningTasks \<noteq> s_desiredReplicas service
            \<or> \<not> list_all (\<lambda>t. t_forceUpdate t = o_targetForceUpdate operation) runningTasks
         then MS_PENDING else MS_SUCCESS))"

text \<open>
  What a snapshot must show for a scale or restart to count as converged, in terms of the
  fields of an operation that no later write changes.
\<close>

definition mutation_converged :: "OperationRecord \<Rightarrow> ServiceDetailResponse \<Rightarrow> bool" where
  "mutation_converged operation current \<longleftrightarrow>
     (let service = sd_service current in
      s_specHash service = o_targetSpecHash operation \<and>
      s_forceUpdate service = o_targetForceUpdate operation \<and>
      s_desiredReplicas service = s_runningReplicas service \<and>
      s_updateState service \<notin> {Some ''paused'', Some ''rollback_started'', Some ''rollback_completed''} \<and>
      (o_type operation = SCALE \<longrightarrow> o_targetReplicas operation = Some (s_runningReplicas service)) \<and>
      (o_type operation \<noteq> SCALE \<longrightarrow>
         s_updateState service = Some ''completed'' \<and>
         length (filter (\<lambda>t. t_state t = ''running'') (sd_tasks current)) = s_desiredReplicas service \<and>
         (\<forall>t \<in> set (sd_tasks current). t_state t = ''running'' \<longrightarrow>
            t_forceUpdate t = o_targetForceUpdate operation)))"

lemma classifyMutationSnapshot_SUCCESS_iff:
  "classifyMutationSnapshot operation current = MS_SUCCESS \<longleftrightarrow>
     \<not> stale_snapshot (o_resultVersion operation) (s_version (sd_service current)) \<and>
     mutation_converged operation current"
  by (auto simp: classifyMutationSnapshot_def mutation_converged_def Let_def list_all_iff)

lemma classifyMutationSnapshot_stale:
  "stale_snapshot (o_resultVersion operation) (s_version (sd_service current)) \<Longrightarrow>
   classifyMutationSnapshot operation current = MS_PENDING"
  by (simp add: classifyMutationSnapshot_def Let_def)

section \<open>Node mutations: \<open>classifyNodeMutation\<close>\<close>

datatype NodeMutationDecision = NM_PENDING | NM_SUCCESS | NM_EXTERNAL_CONFLICT string

definition sameLabels :: "labels \<Rightarrow> labels \<Rightarrow> bool" where
  "sameLabels left right =
     (let leftKeys = sort (map fst left); rightKeys = sort (map fst right) in
      length leftKeys = length rightKeys \<and>
      (\<forall>i < length leftKeys. leftKeys ! i = rightKeys ! i \<and>
         map_of left (leftKeys ! i) = map_of right (leftKeys ! i)))"

definition classifyNodeMutation ::
    "NodeOperationRecord \<Rightarrow> NodeDetailResponse \<Rightarrow> NodeMutationDecision" where
  "classifyNodeMutation operation current =
     (let node = ndr_node current in
      if stale_snapshot (n_resultVersion operation) (nd_version node) then NM_PENDING
      else if nd_specHash node \<noteq> n_targetSpecHash operation then
        NM_EXTERNAL_CONFLICT ''Current node spec no longer matches the recorded mutation target''
      else if nd_availability node \<noteq> availability_string (n_targetAvailability operation) then
        NM_PENDING
      else if n_type operation = LABELS then
        (case n_targetLabels operation of
           None \<Rightarrow> NM_EXTERNAL_CONFLICT ''Recorded label mutation target is missing''
         | Some target \<Rightarrow>
             if sameLabels (nd_labels node) target then NM_SUCCESS
             else NM_EXTERNAL_CONFLICT ''Current node labels do not match the recorded target'')
      else if n_type operation = ACTIVATE then NM_SUCCESS
      else if filter (\<lambda>t. 0 < length (t_serviceId t)) (ndr_tasks current) = [] then NM_SUCCESS
      else NM_PENDING)"

text \<open>
  Comparing label sets by their sorted keys is the same as comparing the maps they stand for,
  for the duplicate-free key lists that objects have.
\<close>

theorem sameLabels_iff:
  assumes "distinct (map fst l)" and "distinct (map fst r)"
  shows "sameLabels l r \<longleftrightarrow> map_of l = map_of r"
proof
  assume same: "sameLabels l r"
  have keys: "sort (map fst l) = sort (map fst r)"
    using same by (auto simp: sameLabels_def Let_def list_eq_iff_nth_eq)
  then have dom: "set (map fst l) = set (map fst r)"
    by (metis set_sort)
  show "map_of l = map_of r"
  proof
    fix k
    show "map_of l k = map_of r k"
    proof (cases "k \<in> set (map fst l)")
      case True
      then obtain i where "i < length (sort (map fst l))" "sort (map fst l) ! i = k"
        by (metis in_set_conv_nth set_sort)
      with same show ?thesis by (auto simp: sameLabels_def Let_def)
    next
      case False
      with dom show ?thesis by (metis map_of_eq_None_iff list.set_map)
    qed
  qed
next
  assume eq: "map_of l = map_of r"
  then have "set (map fst l) = set (map fst r)"
    by (metis dom_map_of_conv_image_fst list.set_map)
  with assms have "sort (map fst l) = sort (map fst r)"
    by (metis set_sort sorted_distinct_set_unique sorted_sort distinct_sort)
  with eq show "sameLabels l r"
    by (simp add: sameLabels_def Let_def)
qed

theorem sameLabels_iff_witness:
  "sameLabels [(''zone'', ''a''), (''disk'', ''ssd'')] [(''disk'', ''ssd''), (''zone'', ''a'')] \<longleftrightarrow>
   map_of [(''zone'', ''a''), (''disk'', ''ssd'')] = map_of [(''disk'', ''ssd''), (''zone'', ''a'')]"
  by (rule sameLabels_iff) simp_all

definition node_converged :: "NodeOperationRecord \<Rightarrow> NodeDetailResponse \<Rightarrow> bool" where
  "node_converged operation current \<longleftrightarrow>
     nd_specHash (ndr_node current) = n_targetSpecHash operation \<and>
     nd_availability (ndr_node current) = availability_string (n_targetAvailability operation) \<and>
     (n_type operation = DRAIN \<longrightarrow> (\<forall>t \<in> set (ndr_tasks current). t_serviceId t = [])) \<and>
     (n_type operation = LABELS \<longrightarrow>
        (\<exists>target. n_targetLabels operation = Some target \<and>
           sameLabels (nd_labels (ndr_node current)) target))"

lemma classifyNodeMutation_SUCCESS_iff:
  "classifyNodeMutation operation current = NM_SUCCESS \<longleftrightarrow>
     \<not> stale_snapshot (n_resultVersion operation) (nd_version (ndr_node current)) \<and>
     node_converged operation current"
  by (cases "n_type operation")
     (auto simp: classifyNodeMutation_def node_converged_def Let_def filter_empty_conv
        split: option.splits)

section \<open>Image references\<close>

text \<open>\<open>dockerImageReference\<close>, \<open>digestFromImage\<close> and \<open>imageContainsDigest\<close>.\<close>

definition stripScheme :: "string \<Rightarrow> string" where
  "stripScheme s =
     (if toLowerCase (take 8 s) = ''https://'' then drop 8 s
      else if toLowerCase (take 7 s) = ''http://'' then drop 7 s else s)"

definition stripTrailingSlash :: "string \<Rightarrow> string" where
  "stripTrailingSlash s = (if s \<noteq> [] \<and> last s = CHR ''/'' then butlast s else s)"

definition dockerImageReference :: "string \<Rightarrow> string \<Rightarrow> string" where
  "dockerImageReference repository digest =
     stripTrailingSlash (stripScheme repository) @ ''@'' @ toLowerCase digest"

definition digestFromImage :: "string \<Rightarrow> string option" where
  "digestFromImage ref =
     (let suffix = drop (length ref - 72) ref in
      if length ref \<ge> 72 \<and> take 8 suffix = ''@sha256:'' \<and> list_all isHexDigit (drop 8 suffix)
      then Some (toLowerCase (drop 1 suffix)) else None)"

definition imageContainsDigest :: "string option \<Rightarrow> string \<Rightarrow> bool" where
  "imageContainsDigest ref digest =
     (case ref of
        None \<Rightarrow> False
      | Some i \<Rightarrow> i \<noteq> [] \<and> includesStr (toLowerCase i) (''@'' @ toLowerCase digest))"

text \<open>A digest in the form that releases carry: \<^verbatim>\<open>/^sha256:[a-f0-9]{64}$/i\<close>.\<close>

definition isDigest :: "string \<Rightarrow> bool" where
  "isDigest d = (length d = 71 \<and> toLowerCase (take 7 d) = ''sha256:'' \<and> list_all isHexDigit (drop 7 d))"

lemma toLowerCase_take: "toLowerCase (take n s) = take n (toLowerCase s)"
  by (simp add: toLowerCase_def take_map)

lemma toLowerCase_drop: "toLowerCase (drop n s) = drop n (toLowerCase s)"
  by (simp add: toLowerCase_def drop_map)

lemma digestFromImage_append:
  assumes "isDigest d"
  shows "digestFromImage (pre @ ''@'' @ toLowerCase d) = Some (toLowerCase d)"
proof -
  define l where "l = toLowerCase d"
  have len: "length l = 71" and pre: "take 7 l = ''sha256:''"
    using assms by (simp_all add: isDigest_def l_def toLowerCase_take)
  have hex: "list_all isHexDigit (drop 7 l)"
  proof -
    have "list_all isHexDigit (toLowerCase (drop 7 d))"
      using assms by (simp add: isDigest_def)
    then show ?thesis by (simp add: l_def toLowerCase_drop)
  qed
  have "drop (length (pre @ ''@'' @ l) - 72) (pre @ ''@'' @ l) = ''@'' @ l"
    by (simp add: len)
  moreover have "take 8 (''@'' @ l) = ''@sha256:''"
    using pre by simp
  moreover have "drop 8 (''@'' @ l) = drop 7 l"
    by simp
  moreover have "toLowerCase l = l"
    by (simp add: l_def)
  ultimately show ?thesis
    using hex len by (simp add: digestFromImage_def Let_def flip: l_def)
qed

lemma dockerImageReference_contains:
  "imageContainsDigest (Some (dockerImageReference repository digest)) digest"
proof -
  let ?p = "toLowerCase (stripTrailingSlash (stripScheme repository))"
  have "toLowerCase (dockerImageReference repository digest) = ?p @ (''@'' @ toLowerCase digest) @ []"
    by (simp add: dockerImageReference_def toLowerCase_Cons toLowerChar_def)
  then have "includesStr (toLowerCase (dockerImageReference repository digest)) (''@'' @ toLowerCase digest)"
    unfolding includesStr_iff by blast
  then show ?thesis
    by (simp add: imageContainsDigest_def dockerImageReference_def)
qed


section \<open>Deployment convergence: \<open>classifyDeploymentSnapshot\<close>\<close>

text \<open>
  The tail shared by the deployment and rollback classifiers: every expected replica runs
  exactly one task, on its own slot, with the target digest, force-update counter and runtime
  fingerprint.
\<close>

definition runningTasks :: "TaskSummary list \<Rightarrow> TaskSummary list" where
  "runningTasks tasks = filter (\<lambda>t. t_state t = ''running'' \<and> t_desiredState t = ''running'') tasks"

definition tasksConverged :: "ServiceDetailResponse \<Rightarrow> ServiceMutationPlan \<Rightarrow> string \<Rightarrow> bool" where
  "tasksConverged current plan digest =
     (let running = runningTasks (sd_tasks current); desired = s_desiredReplicas (sd_service current) in
      length running = desired \<and>
      length (remdups (map t_slot running)) = desired \<and>
      list_all (\<lambda>t. 0 < t_slot t \<and> imageContainsDigest (t_image t) digest \<and>
         t_forceUpdate t = p_targetForceUpdate plan \<and>
         Some (t_runtimeSpecHash t) = p_targetRuntimeSpecHash plan) running)"

definition falsy :: "string option \<Rightarrow> bool" where
  "falsy v = (v = None \<or> v = Some [])"

definition classifyDeploymentSnapshot ::
    "ServiceDetailResponse \<Rightarrow> ServiceMutationPlan \<Rightarrow> string \<Rightarrow> bool \<Rightarrow> DeploymentDecision" where
  "classifyDeploymentSnapshot current plan digest noOp =
     (let service = sd_service current;
          updateState = s_updateState service;
          isTarget = (s_specHash service = p_targetSpecHash plan);
          isBefore = (s_specHash service = p_beforeSpecHash plan) in
      if updateState = Some ''rollback_started'' then
        (if \<not> isTarget \<and> \<not> isBefore then DecExternalConflict else DecPending)
      else if updateState = Some ''rollback_paused'' then
        (if \<not> isTarget \<and> \<not> isBefore then DecExternalConflict else DecRollbackPaused)
      else if \<not> isTarget then
        (if updateState = Some ''rollback_completed'' \<or> updateState = Some ''paused''
         then (if isBefore then DecFailed else DecExternalConflict)
         else if s_version service > p_version plan then DecExternalConflict
         else DecPending)
      else if \<not> imageContainsDigest (s_image service) digest then DecPending
      else if updateState = Some ''paused'' then DecFailed
      else if \<not> noOp \<and> updateState = Some ''rollback_completed'' then DecFailed
      else if \<not> noOp \<and> updateState \<noteq> Some ''completed'' then DecPending
      else if s_desiredReplicas service \<noteq> s_runningReplicas service then DecPending
      else if falsy (p_targetRuntimeSpecHash plan) then DecPending
      else if \<not> tasksConverged current plan digest then DecPending
      else DecSuccess)"

definition classifyRollbackSnapshot ::
    "ServiceDetailResponse \<Rightarrow> ServiceMutationPlan \<Rightarrow> string \<Rightarrow> DeploymentDecision" where
  "classifyRollbackSnapshot current plan digest =
     (let service = sd_service current; updateState = s_updateState service in
      if s_specHash service \<noteq> p_targetSpecHash plan then
        (if updateState = Some ''rollback_started'' then DecPending
         else if s_version service > p_version plan then DecExternalConflict
         else DecPending)
      else if \<not> imageContainsDigest (s_image service) digest then DecPending
      else if updateState = Some ''paused'' \<or> updateState = Some ''rollback_paused'' then DecFailed
      else if updateState = Some ''rollback_started'' then DecPending
      else if falsy (p_targetRuntimeSpecHash plan) then DecPending
      else if s_desiredReplicas service \<noteq> s_runningReplicas service then DecPending
      else if \<not> tasksConverged current plan digest then DecPending
      else DecSuccess)"

datatype DeploymentReconciliationDecision =
    TARGET_OBSERVED | WAITING_FOR_MUTATION | ROLLBACK_IN_PROGRESS
  | ROLLBACK_PAUSED | RECON_FAILED | EXTERNAL_CONFLICT

definition classifyDeploymentReconciliationSnapshot ::
    "OperationRecord \<Rightarrow> ServiceDetailResponse \<Rightarrow> DeploymentReconciliationDecision" where
  "classifyDeploymentReconciliationSnapshot operation current =
     (let service = sd_service current;
          updateState = s_updateState service;
          isTarget = (s_specHash service = o_targetSpecHash operation);
          isBefore = (s_specHash service = o_beforeSpecHash operation) in
      if updateState = Some ''rollback_started'' then
        (if isTarget \<or> isBefore then ROLLBACK_IN_PROGRESS else EXTERNAL_CONFLICT)
      else if updateState = Some ''rollback_paused'' then
        (if isTarget \<or> isBefore then ROLLBACK_PAUSED else EXTERNAL_CONFLICT)
      else if isTarget then TARGET_OBSERVED
      else if updateState = Some ''rollback_completed'' \<or> updateState = Some ''paused'' then
        (if isBefore then RECON_FAILED else EXTERNAL_CONFLICT)
      else if s_version service < o_expectedVersion operation \<or>
              (s_version service = o_expectedVersion operation \<and> isBefore)
      then WAITING_FOR_MUTATION
      else EXTERNAL_CONFLICT)"

text \<open>
  The core safety contract of the README for one snapshot: target spec and digest, update in
  terminal success (unless the deployment changes nothing), every expected task on the target.
\<close>

definition deployment_converged ::
    "ServiceDetailResponse \<Rightarrow> ServiceMutationPlan \<Rightarrow> string \<Rightarrow> bool" where
  "deployment_converged current plan digest \<longleftrightarrow>
     (let service = sd_service current; running = runningTasks (sd_tasks current) in
      s_specHash service = p_targetSpecHash plan \<and>
      imageContainsDigest (s_image service) digest \<and>
      s_runningReplicas service = s_desiredReplicas service \<and>
      length running = s_desiredReplicas service \<and>
      distinct (map t_slot running) \<and>
      (\<forall>t \<in> set running. 0 < t_slot t \<and> imageContainsDigest (t_image t) digest \<and>
         t_forceUpdate t = p_targetForceUpdate plan \<and>
         p_targetRuntimeSpecHash plan = Some (t_runtimeSpecHash t)))"

lemma length_remdups_distinct: "length (remdups xs) = length xs \<longleftrightarrow> distinct xs"
  by (metis length_remdups_card_conv card_distinct distinct_card)

lemma tasksConverged_iff:
  "tasksConverged current plan digest \<longleftrightarrow>
     (let running = runningTasks (sd_tasks current) in
      length running = s_desiredReplicas (sd_service current) \<and> distinct (map t_slot running) \<and>
      (\<forall>t \<in> set running. 0 < t_slot t \<and> imageContainsDigest (t_image t) digest \<and>
         t_forceUpdate t = p_targetForceUpdate plan \<and>
         p_targetRuntimeSpecHash plan = Some (t_runtimeSpecHash t)))"
  by (auto simp: tasksConverged_def Let_def list_all_iff simp flip: length_remdups_distinct)

lemma classifyDeploymentSnapshot_SUCCESS_iff:
  "classifyDeploymentSnapshot current plan digest noOp = DecSuccess \<longleftrightarrow>
     deployment_converged current plan digest \<and> \<not> falsy (p_targetRuntimeSpecHash plan) \<and>
     (let state = s_updateState (sd_service current) in
      if noOp then state \<notin> {Some ''rollback_started'', Some ''rollback_paused'', Some ''paused''}
      else state = Some ''completed'')"
  by (auto simp: classifyDeploymentSnapshot_def deployment_converged_def tasksConverged_iff Let_def)

lemma classifyRollbackSnapshot_SUCCESS_iff:
  "classifyRollbackSnapshot current plan digest = DecSuccess \<longleftrightarrow>
     deployment_converged current plan digest \<and> \<not> falsy (p_targetRuntimeSpecHash plan) \<and>
     s_updateState (sd_service current) \<notin>
       {Some ''rollback_started'', Some ''rollback_paused'', Some ''paused''}"
  by (auto simp: classifyRollbackSnapshot_def deployment_converged_def tasksConverged_iff Let_def)

text \<open>The plan that reconciliation rebuilds from a recorded operation.\<close>

definition planOfOperation :: "OperationRecord \<Rightarrow> ServiceMutationPlan" where
  "planOfOperation operation =
     \<lparr>p_serviceId = o_serviceId operation, p_version = o_expectedVersion operation,
      p_beforeSpecHash = o_beforeSpecHash operation, p_targetSpecHash = o_targetSpecHash operation,
      p_targetForceUpdate = o_targetForceUpdate operation,
      p_targetReplicas = o_targetReplicas operation, p_targetImage = o_targetImage operation,
      p_targetTaskSpecHash = o_targetTaskSpecHash operation,
      p_targetRuntimeSpecHash = o_targetRuntimeSpecHash operation\<rparr>"

text \<open>
  What the reconciler decides, expressed through the decision \<open>v\<close> of the verification loop on the
  same snapshot. The two part ways in one case: a foreign spec at exactly the expected version, where
  verification keeps waiting and the reconciler reports a conflict.
\<close>

definition reconciledFrom ::
    "OperationRecord \<Rightarrow> ServiceDetailResponse \<Rightarrow> DeploymentDecision \<Rightarrow> DeploymentReconciliationDecision" where
  "reconciledFrom operation current v =
     (let service = sd_service current in
      if s_specHash service = o_targetSpecHash operation \<and>
         s_updateState service \<notin> {Some ''rollback_started'', Some ''rollback_paused''} then TARGET_OBSERVED
      else (case v of
          DecExternalConflict \<Rightarrow> EXTERNAL_CONFLICT
        | DecRollbackPaused \<Rightarrow> ROLLBACK_PAUSED
        | DecFailed \<Rightarrow> RECON_FAILED
        | DecSuccess \<Rightarrow> TARGET_OBSERVED
        | DecPending \<Rightarrow>
            if s_updateState service = Some ''rollback_started'' then ROLLBACK_IN_PROGRESS
            else if s_version service = o_expectedVersion operation \<and>
              s_specHash service \<noteq> o_beforeSpecHash operation then EXTERNAL_CONFLICT
            else WAITING_FOR_MUTATION))"

text \<open>The decisions of the verification loop that are possible beside a decision of the reconciler.\<close>

fun verificationsFor :: "DeploymentReconciliationDecision \<Rightarrow> DeploymentDecision set" where
  "verificationsFor TARGET_OBSERVED = {DecPending, DecSuccess, DecFailed}"
| "verificationsFor WAITING_FOR_MUTATION = {DecPending}"
| "verificationsFor ROLLBACK_IN_PROGRESS = {DecPending}"
| "verificationsFor ROLLBACK_PAUSED = {DecRollbackPaused}"
| "verificationsFor RECON_FAILED = {DecFailed}"
| "verificationsFor EXTERNAL_CONFLICT = {DecExternalConflict, DecPending}"

text \<open>
  C35. Reconciliation and verification judge the same snapshot consistently. The decision of the
  reconciler is determined by the decision of the verification loop for the plan that is rebuilt from
  the recorded operation: conflict for conflict, a paused rollback for a paused rollback, failure for
  failure, and for a pending verification a rollback in progress or a mutation still awaited. The one
  exception is a foreign spec at exactly the expected version: verification waits and the reconciler
  reports a conflict. Where the target is observed, verification is pending, failed or successful, and
  a successful verification occurs nowhere else.
\<close>

theorem reconciliation_agrees_with_verification:
  "classifyDeploymentReconciliationSnapshot operation current =
     reconciledFrom operation current (classifyDeploymentSnapshot current (planOfOperation operation) digest noOp) \<and>
   classifyDeploymentSnapshot current (planOfOperation operation) digest noOp
     \<in> verificationsFor (classifyDeploymentReconciliationSnapshot operation current)"
  by (auto simp: classifyDeploymentReconciliationSnapshot_def classifyDeploymentSnapshot_def reconciledFrom_def
      planOfOperation_def Let_def)

section \<open>Contracts of the classifiers\<close>

text \<open>
  The decision on one snapshot of a scale or restart is fully determined: success exactly when
  the snapshot is not older than the recorded result and shows the recorded target converged, an
  external conflict exactly when a current snapshot has another spec, and failure exactly when the
  target spec is current but Docker paused or rolled back the update.
\<close>

theorem mutation_snapshot_contract:
  "(classifyMutationSnapshot operation current = MS_SUCCESS \<longleftrightarrow>
      \<not> stale_snapshot (o_resultVersion operation) (s_version (sd_service current)) \<and>
      mutation_converged operation current) \<and>
   ((\<exists>m. classifyMutationSnapshot operation current = MS_EXTERNAL_CONFLICT m) \<longleftrightarrow>
      \<not> stale_snapshot (o_resultVersion operation) (s_version (sd_service current)) \<and>
      s_specHash (sd_service current) \<noteq> o_targetSpecHash operation) \<and>
   ((\<exists>m. classifyMutationSnapshot operation current = MS_FAILED m) \<longleftrightarrow>
      \<not> stale_snapshot (o_resultVersion operation) (s_version (sd_service current)) \<and>
      s_specHash (sd_service current) = o_targetSpecHash operation \<and>
      s_updateState (sd_service current) \<in> {Some ''paused'', Some ''rollback_started'', Some ''rollback_completed''})"
  unfolding classifyMutationSnapshot_SUCCESS_iff
  by (auto simp: classifyMutationSnapshot_def Let_def)

text \<open>
  A deployment snapshot counts as success exactly when the target spec with the release's digest
  runs on every expected slot with the planned runtime fingerprint, and Docker reports the update
  as completed (or, where nothing had to change, as neither paused nor rolling back). A rollback
  needs the same convergence on the restored spec.
\<close>

theorem deployment_snapshot_contract:
  "(classifyDeploymentSnapshot current plan digest noOp = DecSuccess \<longleftrightarrow>
      deployment_converged current plan digest \<and> \<not> falsy (p_targetRuntimeSpecHash plan) \<and>
      (if noOp then s_updateState (sd_service current) \<notin> {Some ''rollback_started'', Some ''rollback_paused'', Some ''paused''}
       else s_updateState (sd_service current) = Some ''completed'')) \<and>
   (classifyRollbackSnapshot current plan digest = DecSuccess \<longleftrightarrow>
      deployment_converged current plan digest \<and> \<not> falsy (p_targetRuntimeSpecHash plan) \<and>
      s_updateState (sd_service current) \<notin> {Some ''rollback_started'', Some ''rollback_paused'', Some ''paused''})"
  unfolding classifyDeploymentSnapshot_SUCCESS_iff classifyRollbackSnapshot_SUCCESS_iff by (simp add: Let_def)

text \<open>
  C36. The image reference built from a repository and a release digest gives the digest back, in
  lower case, whatever the repository looks like, and the service image test recognises it.
\<close>

theorem image_reference_round_trip:
  assumes "isDigest d"
  shows "digestFromImage (dockerImageReference repository d) = Some (toLowerCase d) \<and>
    imageContainsDigest (Some (dockerImageReference repository d)) d"
  using digestFromImage_append [OF assms] dockerImageReference_contains
  by (simp add: dockerImageReference_def)

theorem image_reference_round_trip_witness:
  "digestFromImage (dockerImageReference ''https://registry.example/app/'' (''sha256:'' @ replicate 64 (CHR ''A''))) =
     Some (''sha256:'' @ replicate 64 (CHR ''a''))"
proof -
  have "isDigest (''sha256:'' @ replicate 64 (CHR ''A''))"
    by (simp add: isDigest_def toLowerCase_def toLowerChar_def isHexDigit_def list_all_length)
  moreover have "toLowerCase (''sha256:'' @ replicate 64 (CHR ''A'')) = ''sha256:'' @ replicate 64 (CHR ''a'')"
    by code_simp
  ultimately show ?thesis using image_reference_round_trip by metis
qed

section \<open>Stored specs\<close>

definition readSpecHash :: "json \<Rightarrow> string option" where
  "readSpecHash value =
     (case json_field value ''specHash'' of
        Some (JStr h) \<Rightarrow> if 0 < length h then Some h else None
      | _ \<Rightarrow> None)"

lemma readSpecHash_serviceJson:
  "readSpecHash (serviceJson s) = (if s_specHash s = [] then None else Some (s_specHash s))"
  by (simp add: readSpecHash_def serviceJson_def)

end
