(* ===== verification/Store.thy ===== *)
theory Store
  imports Operation_Lock Verification
begin

text \<open>
  The durable store as a state machine.

  \<open>store_step\<close> is the step relation of the tables of operations: an intent is started, an
  open operation advances to \<open>VERIFYING\<close> or is settled together with an audit event, or
  a step only annotates. \<open>makes ev m\<close> says that a transaction of the source is such a step,
  or leaves the database alone and fails. The first part relates the results of computations
  to the worlds they pass through (\<open>OK_simps\<close>).
\<close>

section \<open>Running statements\<close>

definition only_db :: "world \<Rightarrow> world \<Rightarrow> bool" where
  "only_db w w' \<longleftrightarrow> (\<exists>d n t am. w' = w\<lparr>w_db := d, w_calls := w_calls w + n,
     w_clock := w_clock w + t, w_admission := am\<rparr>)"

lemma only_db_iff:
  "only_db w w' \<longleftrightarrow> w_calls w \<le> w_calls w' \<and> w_clock w \<le> w_clock w' \<and> w_locks w' = w_locks w \<and>
     w_operation w' = w_operation w \<and> w_active w' = w_active w \<and> w_sent w' = w_sent w \<and>
     w_puts w' = w_puts w"
proof
  assume "w_calls w \<le> w_calls w' \<and> w_clock w \<le> w_clock w' \<and> w_locks w' = w_locks w \<and>
     w_operation w' = w_operation w \<and> w_active w' = w_active w \<and> w_sent w' = w_sent w \<and>
     w_puts w' = w_puts w"
  then have "w' = w\<lparr>w_db := w_db w', w_calls := w_calls w + (w_calls w' - w_calls w),
      w_clock := w_clock w + (w_clock w' - w_clock w), w_admission := w_admission w'\<rparr>"
    by simp
  then show "only_db w w'" unfolding only_db_def by blast
qed (auto simp: only_db_def)

interpretation bookkeeping: db_blind_relation only_db
  by unfold_locales (auto simp: only_db_iff)

context step_relation
begin

lemma only_db_related:
  assumes "only_db w w'" and "R w0 (w\<lparr>w_db := w_db w'\<rparr>)"
  shows "R w0 w'"
proof -
  obtain d n t am where w': "w' = w\<lparr>w_db := d, w_calls := w_calls w + n,
      w_clock := w_clock w + t, w_admission := am\<rparr>"
    using assms(1) unfolding only_db_def by blast
  let ?w1 = "w\<lparr>w_db := d\<rparr>"
  have "R w0 ?w1" using assms(2) w' by simp
  then have "R w0 (?w1\<lparr>w_calls := w_calls ?w1 + n, w_clock := w_clock ?w1 + t\<rparr>\<lparr>w_admission := am\<rparr>)"
    using trans [OF trans [OF _ clocked] admission_scoped] by blast
  then show ?thesis using w' by simp
qed

end

text \<open>Computations that only read.\<close>

definition reads_only :: "world \<Rightarrow> world \<Rightarrow> bool" where
  "reads_only w w' \<longleftrightarrow> only_db w w' \<and> w_db w' = w_db w"

interpretation reading: step_relation reads_only
  by unfold_locales (auto simp: reads_only_def only_db_iff)

lemma agentRead_OK:
  assumes "agentRead ext f w = (Inr x, w')"
  shows "\<exists>n. w_calls w \<le> n \<and> n < w_calls w' \<and> f n = Inr x"
proof -
  obtain u w1 where reg: "assertRegistered ext (x_clusterId ext) w = (Inr u, w1)"
    and call: "f (w_calls w1) = Inr x" "w' = tick ext w1"
    using assms unfolding agentRead_def thenM_OK callExternal_OK by blast
  have "w_calls w \<le> w_calls w1"
    using stepsD [OF reading.steps_assertRegistered reg] by (simp add: reads_only_def only_db_iff)
  then show ?thesis using call by (intro exI [of _ "w_calls w1"]) (simp add: tick_def)
qed

lemma rollbackTo_db: "rollbackTo ext d e w = (r, w') \<Longrightarrow> w_db w' = d \<and> (\<exists>e'. r = Inl e')"
  by (auto simp: rollbackTo_def Let_def split: DbOutcome.splits)

text \<open>A transaction either leaves the database alone and fails, or takes effect as a whole.\<close>

lemma inTransaction_db:
  assumes "inTransaction ext body w = (r, w')"
  shows "(w_db w' = w_db w \<and> (\<exists>e. r = Inl e)) \<or>
    (\<exists>x w1 w2. body w1 = (Inr x, w2) \<and> w_db w1 = w_db w \<and> w_db w' = w_db w2 \<and>
       (r = Inr x \<or> (\<exists>e. r = Inl e)))"
proof (cases "x_db ext (w_calls w)")
  case DbOk
  obtain b w2 where body: "body (tick ext w) = (b, w2)" by fastforce
  show ?thesis
  proof (cases b)
    case (Inl e)
    then have "rollbackTo ext (w_db w) e w2 = (r, w')"
      using assms DbOk body by (simp add: inTransaction_def Let_def)
    then show ?thesis by (rule disjI1 [OF rollbackTo_db])
  next
    case (Inr x)
    then have run: "(case x_db ext (w_calls w2) of
          DbOk \<Rightarrow> (Inr x, tick ext w2)
        | DbFailed m \<Rightarrow> rollbackTo ext (w_db w) (DatabaseError m) (tick ext w2)
        | DbLost m \<Rightarrow> rollbackTo ext (w_db w2) (DatabaseError m) (tick ext w2)) = (r, w')"
      using assms DbOk body by (simp add: inTransaction_def Let_def)
    have same: "w_db (tick ext w) = w_db w" by (simp add: tick_def)
    show ?thesis
    proof (cases "x_db ext (w_calls w2)")
      case DbOk2: DbOk
      then have "r = Inr x" "w_db w' = w_db w2" using run by (auto simp: tick_def)
      then show ?thesis using body Inr same by metis
    next
      case (DbFailed m)
      then have "rollbackTo ext (w_db w) (DatabaseError m) (tick ext w2) = (r, w')" using run by simp
      then show ?thesis by (rule disjI1 [OF rollbackTo_db])
    next
      case (DbLost m)
      then have "rollbackTo ext (w_db w2) (DatabaseError m) (tick ext w2) = (r, w')" using run by simp
      then have "w_db w' = w_db w2 \<and> (\<exists>e. r = Inl e)" by (rule rollbackTo_db)
      then show ?thesis using body Inr same by metis
    qed
  qed
qed (use assms in \<open>auto simp: inTransaction_def Let_def tick_def\<close>)

lemma inTransactionUnless_db:
  assumes "inTransactionUnless ext body w = (r, w')"
  shows "(w_db w' = w_db w \<and> (r = Inr None \<or> (\<exists>e. r = Inl e))) \<or>
    (\<exists>x w2. body (tick ext w) = (Inr (Some x), w2) \<and> w_db w' = w_db w2 \<and> (r = Inr (Some x) \<or> (\<exists>e. r = Inl e)))"
  using assms
  by (auto simp: inTransactionUnless_def inTransaction_def rollbackTo_def Let_def tick_def
      split: DbOutcome.splits prod.splits sum.splits option.splits)

section \<open>The store as a state machine\<close>

datatype store_event =
    Noted
  | Started OperationRecord
  | Advanced string
  | Settled string OperationStatus
  | NodeStarted NodeOperationRecord
  | NodeAdvanced string
  | NodeSettled string OperationStatus

text \<open>The parts of the store that every event extends.\<close>

definition logs_kept :: "database \<Rightarrow> database \<Rightarrow> bool" where
  "logs_kept d d' \<longleftrightarrow>
     rows_evolve d_id dep_evolves (deployments d) (deployments d') \<and>
     prefix (audit_events d) (audit_events d') \<and>
     prefix (rollback_attempts d) (rollback_attempts d') \<and> control_kept d d'"

definition newly_audited :: "string \<Rightarrow> database \<Rightarrow> database \<Rightarrow> bool" where
  "newly_audited oid d d' \<longleftrightarrow>
     (\<exists>a \<in> set (drop (length (audit_events d)) (audit_events d')). au_operationId a = oid)"

abbreviation open_op :: "string \<Rightarrow> OperationRecord \<Rightarrow> bool" where
  "open_op oid r \<equiv> o_id r = oid \<and> \<not> status_terminal (o_status r)"

abbreviation open_node_op :: "string \<Rightarrow> NodeOperationRecord \<Rightarrow> bool" where
  "open_node_op oid r \<equiv> n_id r = oid \<and> \<not> status_terminal (n_status r)"

inductive store_step :: "store_event \<Rightarrow> database \<Rightarrow> database \<Rightarrow> bool" where
  noted: "\<lbrakk>logs_kept d d'; node_operations d' = node_operations d;
     operations d' = update_rows P g (operations d);
     \<And>r. op_same_intent r (g r) \<and> op_same_outcome r (g r)\<rbrakk> \<Longrightarrow> store_step Noted d d'"
| started: "\<lbrakk>logs_kept d d'; node_operations d' = node_operations d;
     find_row o_id (o_id r) (operations d) = None; operations d' = operations d @ [r];
     o_status r = RUNNING; newly_audited (o_id r) d d'\<rbrakk> \<Longrightarrow> store_step (Started r) d d'"
| advanced: "\<lbrakk>logs_kept d d'; node_operations d' = node_operations d;
     operations d' = update_rows (open_op oid) g (operations d);
     \<And>r. op_same_intent r (g r) \<and> o_status (g r) = VERIFYING\<rbrakk> \<Longrightarrow> store_step (Advanced oid) d d'"
| settled: "\<lbrakk>logs_kept d d'; node_operations d' = node_operations d;
     operations d' = update_rows (\<lambda>r. open_op oid r \<and> P r) g (operations d);
     \<And>r. op_same_intent r (g r) \<and> o_status (g r) = st;
     newly_audited oid d d'\<rbrakk> \<Longrightarrow> store_step (Settled oid st) d d'"
| node_started: "\<lbrakk>logs_kept d d'; operations d' = operations d;
     find_row n_id (n_id r) (node_operations d) = None; node_operations d' = node_operations d @ [r];
     n_status r = RUNNING; newly_audited (n_id r) d d'\<rbrakk> \<Longrightarrow> store_step (NodeStarted r) d d'"
| node_advanced: "\<lbrakk>logs_kept d d'; operations d' = operations d;
     node_operations d' = update_rows (open_node_op oid) g (node_operations d);
     \<And>r. node_same_intent r (g r) \<and> n_status (g r) = VERIFYING\<rbrakk> \<Longrightarrow> store_step (NodeAdvanced oid) d d'"
| node_settled: "\<lbrakk>logs_kept d d'; operations d' = operations d;
     node_operations d' = update_rows (\<lambda>r. open_node_op oid r \<and> P r) g (node_operations d);
     \<And>r. node_same_intent r (g r) \<and> n_status (g r) = st;
     newly_audited oid d d'\<rbrakk> \<Longrightarrow> store_step (NodeSettled oid st) d d'"

inductive_cases store_step_cases:
  "store_step Noted d d'" "store_step (Started r) d d'" "store_step (Advanced oid) d d'"
  "store_step (Settled oid st) d d'" "store_step (NodeStarted n) d d'"
  "store_step (NodeAdvanced oid) d d'" "store_step (NodeSettled oid st) d d'"

lemma logs_kept_refl [simp]: "logs_kept d d"
  by (simp add: logs_kept_def dep_rows.evolve_refl)

lemma logs_kept_trans: "logs_kept a b \<Longrightarrow> logs_kept b c \<Longrightarrow> logs_kept a c"
  unfolding logs_kept_def by (blast intro: dep_rows.evolve_trans prefix_order.trans control_kept_trans)

lemma store_step_logs: "store_step ev d d' \<Longrightarrow> logs_kept d d'"
  by (induction rule: store_step.induct) auto

lemma store_step_history: "store_step ev d d' \<Longrightarrow> history_kept d d'"
proof (induction rule: store_step.induct)
  case (noted d d' P g)
  then show ?case
    by (auto simp: history_kept_def logs_kept_def op_evolves_def intro!: evolve_rules)
next
  case (started d d' r)
  then show ?case by (auto simp: history_kept_def logs_kept_def intro!: evolve_rules)
next
  case (advanced d d' oid g)
  then show ?case by (auto simp: history_kept_def logs_kept_def op_evolves_def intro!: evolve_rules)
next
  case (settled d d' oid P g st)
  then show ?case by (auto simp: history_kept_def logs_kept_def op_evolves_def intro!: evolve_rules)
next
  case (node_started d d' r)
  then show ?case by (auto simp: history_kept_def logs_kept_def intro!: evolve_rules)
next
  case (node_advanced d d' oid g)
  then show ?case by (auto simp: history_kept_def logs_kept_def node_evolves_def intro!: evolve_rules)
next
  case (node_settled d d' oid P g st)
  then show ?case by (auto simp: history_kept_def logs_kept_def node_evolves_def intro!: evolve_rules)
qed

section \<open>Transactions as store steps\<close>

definition makes :: "store_event set \<Rightarrow> 'a cp \<Rightarrow> bool" where
  "makes E m \<longleftrightarrow> (\<forall>w r w'. m w = (r, w') \<longrightarrow> only_db w w' \<and>
     ((w_db w' = w_db w \<and> (\<exists>e. r = Inl e)) \<or> (\<exists>ev \<in> E. store_step ev (w_db w) (w_db w'))))"

lemma makes_transaction:
  assumes "steps only_db body"
    and "\<And>w x w'. body w = (Inr x, w') \<Longrightarrow> \<exists>ev \<in> E. store_step ev (w_db w) (w_db w')"
  shows "makes E (inTransaction ext body)"
  unfolding makes_def
proof (intro allI impI conjI)
  fix w r w'
  assume run: "inTransaction ext body w = (r, w')"
  show "only_db w w'"
    using bookkeeping.steps_transaction_body [OF assms(1)] run by (rule stepsD)
  show "(w_db w' = w_db w \<and> (\<exists>e. r = Inl e)) \<or> (\<exists>ev \<in> E. store_step ev (w_db w) (w_db w'))"
    using inTransaction_db [OF run] assms(2) by metis
qed

lemma makes_execute:
  assumes "\<And>now d n d'. stmt now d = Inr (n, d') \<Longrightarrow> \<exists>ev \<in> E. store_step ev d d'"
  shows "makes E (execute ext stmt)"
  unfolding makes_def
proof (intro allI impI conjI)
  fix w r w'
  assume run: "execute ext stmt w = (r, w')"
  show "only_db w w'"
    using bookkeeping.steps_any_execute run by (rule stepsD)
  show "(w_db w' = w_db w \<and> (\<exists>e. r = Inl e)) \<or> (\<exists>ev \<in> E. store_step ev (w_db w) (w_db w'))"
    using run assms
    by (auto simp: execute_def thenM_def bindM_def retM_def executeStmt_def Let_def tick_def
        split: DbOutcome.splits sum.splits prod.splits)
qed

lemma makesD:
  "makes E m \<Longrightarrow> m w = (Inr x, w') \<Longrightarrow> only_db w w' \<and> (\<exists>ev \<in> E. store_step ev (w_db w) (w_db w'))"
  unfolding makes_def by blast

text \<open>What a successful statement of the repositories did.\<close>

lemma updateOpenOperation_OK:
  assumes "execute ext (updateOpenOperation oid f) w = (Inr u, w')"
  shows "\<exists>now. w_db w' = (w_db w)\<lparr>operations :=
           update_rows (open_op oid) (\<lambda>r. (f r)\<lparr>o_updatedAt := now\<rparr>) (operations (w_db w))\<rparr>"
  using execute_OK [OF assms] by (auto simp: updateOpenOperation_def Let_def)

lemma updateOpenNodeOperation_OK:
  assumes "execute ext (updateOpenNodeOperation oid f) w = (Inr u, w')"
  shows "\<exists>now. w_db w' = (w_db w)\<lparr>node_operations :=
           update_rows (open_node_op oid) (\<lambda>r. (f r)\<lparr>n_updatedAt := now\<rparr>) (node_operations (w_db w))\<rparr>"
  using execute_OK [OF assms] by (auto simp: updateOpenNodeOperation_def Let_def)

definition op_updated :: "string \<Rightarrow> OperationStatus \<Rightarrow> database \<Rightarrow> database \<Rightarrow> bool" where
  "op_updated oid st d d' \<longleftrightarrow>
     (\<exists>g. (\<forall>r. op_same_intent r (g r) \<and> o_status (g r) = st) \<and>
        d' = d\<lparr>operations := update_rows (open_op oid) g (operations d)\<rparr>)"

definition node_updated :: "string \<Rightarrow> OperationStatus \<Rightarrow> database \<Rightarrow> database \<Rightarrow> bool" where
  "node_updated oid st d d' \<longleftrightarrow>
     (\<exists>g. (\<forall>r. node_same_intent r (g r) \<and> n_status (g r) = st) \<and>
        d' = d\<lparr>node_operations := update_rows (open_node_op oid) g (node_operations d)\<rparr>)"

lemma op_updatedI:
  assumes "execute ext (updateOpenOperation oid f) w = (Inr u, w')"
    and "\<And>r. op_same_intent r (f r) \<and> o_status (f r) = st"
  shows "op_updated oid st (w_db w) (w_db w')"
proof -
  obtain now where now: "w_db w' = (w_db w)\<lparr>operations :=
      update_rows (open_op oid) (\<lambda>r. (f r)\<lparr>o_updatedAt := now\<rparr>) (operations (w_db w))\<rparr>"
    using updateOpenOperation_OK [OF assms(1)] by blast
  moreover have "op_same_intent r ((f r)\<lparr>o_updatedAt := now\<rparr>) \<and> o_status ((f r)\<lparr>o_updatedAt := now\<rparr>) = st" for r
    using assms(2) [of r] by (simp add: op_same_intent_def)
  ultimately show ?thesis
    unfolding op_updated_def by (intro exI [of _ "\<lambda>r. (f r)\<lparr>o_updatedAt := now\<rparr>"]) auto
qed

lemma node_updatedI:
  assumes "execute ext (updateOpenNodeOperation oid f) w = (Inr u, w')"
    and "\<And>r. node_same_intent r (f r) \<and> n_status (f r) = st"
  shows "node_updated oid st (w_db w) (w_db w')"
proof -
  obtain now where now: "w_db w' = (w_db w)\<lparr>node_operations :=
      update_rows (open_node_op oid) (\<lambda>r. (f r)\<lparr>n_updatedAt := now\<rparr>) (node_operations (w_db w))\<rparr>"
    using updateOpenNodeOperation_OK [OF assms(1)] by blast
  moreover have "node_same_intent r ((f r)\<lparr>n_updatedAt := now\<rparr>) \<and> n_status ((f r)\<lparr>n_updatedAt := now\<rparr>) = st" for r
    using assms(2) [of r] by (simp add: node_same_intent_def)
  ultimately show ?thesis
    unfolding node_updated_def by (intro exI [of _ "\<lambda>r. (f r)\<lparr>n_updatedAt := now\<rparr>"]) auto
qed

lemma op_statements_OK:
  "op_markRunning ext oid w = (Inr u, w') \<Longrightarrow> op_updated oid RUNNING (w_db w) (w_db w')"
  "op_markVerifying ext oid v w = (Inr u, w') \<Longrightarrow> op_updated oid VERIFYING (w_db w) (w_db w')"
  "op_markVerificationPending ext oid c m w = (Inr u, w') \<Longrightarrow> op_updated oid VERIFYING (w_db w) (w_db w')"
  "op_markSuccess ext oid v w = (Inr u, w') \<Longrightarrow> op_updated oid SUCCESS (w_db w) (w_db w')"
  "op_markNeedsAttention ext oid c m w = (Inr u, w') \<Longrightarrow> op_updated oid NEEDS_ATTENTION (w_db w) (w_db w')"
  "op_markFailed ext oid c m w = (Inr u, w') \<Longrightarrow> op_updated oid FAILED (w_db w) (w_db w')"
  unfolding operation_stmt_defs by (erule op_updatedI, simp add: op_same_intent_def)+

lemma node_statements_OK:
  "nop_markRunning ext oid w = (Inr u, w') \<Longrightarrow> node_updated oid RUNNING (w_db w) (w_db w')"
  "nop_markVerifying ext oid v w = (Inr u, w') \<Longrightarrow> node_updated oid VERIFYING (w_db w) (w_db w')"
  "nop_markSuccess ext oid v w = (Inr u, w') \<Longrightarrow> node_updated oid SUCCESS (w_db w) (w_db w')"
  "nop_markNeedsAttention ext oid c m w = (Inr u, w') \<Longrightarrow> node_updated oid NEEDS_ATTENTION (w_db w) (w_db w')"
  "nop_markFailed ext oid c m w = (Inr u, w') \<Longrightarrow> node_updated oid FAILED (w_db w) (w_db w')"
  unfolding node_operation_stmt_defs by (erule node_updatedI, simp add: node_same_intent_def)+

lemma op_audit_OK:
  "op_audit ext i w = (Inr u, w') \<Longrightarrow>
   w_db w' = (w_db w)\<lparr>audit_events := audit_events (w_db w) @ [auditRow i]\<rparr>"
  unfolding op_audit_def by (drule execute_OK) auto

lemma op_create_OK:
  assumes "op_create ext i w = (Inr u, w')"
  shows "find_row o_id (oi_id i) (operations (w_db w)) = None \<and>
    (\<exists>now. w_db w' = (w_db w)\<lparr>operations := operations (w_db w) @ [newOperation now i]\<rparr>)"
proof -
  obtain now n d where "insertOperation i now (w_db w) = Inr (n, d)" and d: "w_db w' = d"
    using execute_OK [OF assms [unfolded op_create_def]] by blast
  then show ?thesis unfolding d by (auto simp: insertOperation_def split: if_splits)
qed

lemma nop_create_OK:
  assumes "nop_create ext i w = (Inr u, w')"
  shows "find_row n_id (ni_id i) (node_operations (w_db w)) = None \<and>
    (\<exists>now. w_db w' = (w_db w)\<lparr>node_operations := node_operations (w_db w) @ [newNodeOperation now i]\<rparr>)"
proof -
  obtain now n d where "insertNodeOperation i now (w_db w) = Inr (n, d)" and d: "w_db w' = d"
    using execute_OK [OF assms [unfolded nop_create_def]] by blast
  then show ?thesis unfolding d by (auto simp: insertNodeOperation_def split: if_splits)
qed

definition deps_updated :: "database \<Rightarrow> database \<Rightarrow> bool" where
  "deps_updated d d' \<longleftrightarrow>
     (\<exists>dps ras. d' = d\<lparr>deployments := dps, rollback_attempts := ras\<rparr> \<and>
        rows_evolve d_id dep_evolves (deployments d) dps \<and> prefix (rollback_attempts d) ras)"

lemma deps_updatedI:
  assumes "execute ext (updateDeployment did f) w = (Inr u, w')"
    and "\<And>now r. dep_evolves r (f now r)"
  shows "deps_updated (w_db w) (w_db w')"
proof -
  obtain now where "w_db w' = (w_db w)\<lparr>deployments :=
      update_rows (\<lambda>r. d_id r = did) (f now) (deployments (w_db w))\<rparr>"
    using execute_OK [OF assms(1)] by (auto simp: updateDeployment_def Let_def)
  then have "w_db w' = (w_db w)\<lparr>deployments := update_rows (\<lambda>r. d_id r = did) (f now) (deployments (w_db w)),
      rollback_attempts := rollback_attempts (w_db w)\<rparr>"
    by simp
  moreover have "rows_evolve d_id dep_evolves (deployments (w_db w))
      (update_rows (\<lambda>r. d_id r = did) (f now) (deployments (w_db w)))"
    using assms(2) by (intro dep_rows.evolve_update)
  ultimately show ?thesis unfolding deps_updated_def by blast
qed

lemma dep_statements_OK:
  "dep_markRollingBack ext did oid w = (Inr u, w') \<Longrightarrow> deps_updated (w_db w) (w_db w')"
  "dep_markRollbackVerifying ext did w = (Inr u, w') \<Longrightarrow> deps_updated (w_db w) (w_db w')"
  "dep_markRollbackVerificationPending ext did m w = (Inr u, w') \<Longrightarrow> deps_updated (w_db w) (w_db w')"
  "dep_markRolledBack ext did w = (Inr u, w') \<Longrightarrow> deps_updated (w_db w) (w_db w')"
  "dep_markRollbackFailed ext did m w = (Inr u, w') \<Longrightarrow> deps_updated (w_db w) (w_db w')"
  "dep_markVerifying ext did w = (Inr u, w') \<Longrightarrow> deps_updated (w_db w) (w_db w')"
  "dep_markVerificationPending ext did m w = (Inr u, w') \<Longrightarrow> deps_updated (w_db w) (w_db w')"
  "dep_markSuccess ext did w = (Inr u, w') \<Longrightarrow> deps_updated (w_db w) (w_db w')"
  "dep_markFailed ext did m w = (Inr u, w') \<Longrightarrow> deps_updated (w_db w) (w_db w')"
  "dep_markNeedsAttention ext did m w = (Inr u, w') \<Longrightarrow> deps_updated (w_db w) (w_db w')"
  unfolding deployment_stmt_defs by (erule deps_updatedI, simp add: dep_evolves_def)+

lemma dep_recordRollbackAttempt_OK:
  assumes "dep_recordRollbackAttempt ext did oid w = (Inr u, w')"
  shows "deps_updated (w_db w) (w_db w')"
proof -
  have "w_db w' = (w_db w)\<lparr>deployments := deployments (w_db w),
      rollback_attempts := rollback_attempts (w_db w) @ [(oid, did)]\<rparr>"
    using execute_OK [OF assms [unfolded dep_recordRollbackAttempt_def]] by (auto split: if_splits)
  then show ?thesis
    unfolding deps_updated_def
    by (intro exI conjI) (auto intro: dep_rows.evolve_refl)
qed

lemma dep_create_OK:
  assumes "dep_create ext i w = (Inr dep, w')"
  shows "deps_updated (w_db w) (w_db w')"
proof -
  obtain did w1 w2 u where w1: "randomUUID ext w = (Inr did, w1)"
    and w2: "execute ext (insertDeployment did i) w1 = (Inr u, w2)"
    and w3: "dep_requireWithConnection ext did w2 = (Inr dep, w')"
    using assms unfolding dep_create_def by (auto simp: bindM_OK thenM_OK)
  have db1: "w_db w1 = w_db w" using w1 by (auto simp: randomUUID_def callExternal_def tick_def)
  have db3: "w_db w' = w_db w2"
    using w3 unfolding dep_requireWithConnection_def
    by (auto simp: bindM_OK retM_OK throwM_OK split: option.splits dest!: query_OK)
  obtain now n d where stmt: "insertDeployment did i now (w_db w) = Inr (n, d)" and d: "w_db w2 = d"
    using execute_OK [OF w2] db1 by auto
  have "w_db w2 = (w_db w)\<lparr>deployments := deployments (w_db w) @ [newDeployment now did i],
      rollback_attempts := rollback_attempts (w_db w)\<rparr>"
    using stmt unfolding d by (auto simp: insertDeployment_def split: if_splits)
  then show ?thesis
    unfolding deps_updated_def db3
    by (intro exI conjI) (auto intro: dep_rows.evolve_append)
qed

lemma op_find_OK: "op_findWithConnection ext oid w = (Inr x, w') \<Longrightarrow>
    find_row o_id oid (operations (w_db w)) = x \<and> w_db w' = w_db w"
  unfolding op_findWithConnection_def by (drule query_OK) simp

lemma dep_require_OK: "dep_requireWithConnection ext did w = (Inr x, w') \<Longrightarrow>
    find_row d_id did (deployments (w_db w)) = Some x \<and> w_db w' = w_db w"
  unfolding dep_requireWithConnection_def
  by (auto simp: bindM_OK retM_OK throwM_OK split: option.splits dest!: query_OK)

lemmas statement_OK =
  op_statements_OK node_statements_OK dep_statements_OK op_audit_OK op_create_OK nop_create_OK
  dep_recordRollbackAttempt_OK dep_create_OK op_find_OK dep_require_OK

text \<open>Building store steps from the effects of statements.\<close>

lemma newly_audited_append:
  "audit_events d' = audit_events d @ [a] \<Longrightarrow> au_operationId a = oid \<Longrightarrow> newly_audited oid d d'"
  by (simp add: newly_audited_def)

lemma auditRow_operationId [simp]: "au_operationId (auditRow i) = a_operationId i"
  by (simp add: auditRow_def)

lemma deps_updated_fields:
  assumes "deps_updated d d'"
  shows "operations d' = operations d" "node_operations d' = node_operations d"
    "audit_events d' = audit_events d" "logs_kept d d'"
  using assms by (auto simp: deps_updated_def logs_kept_def)

lemma op_updated_fields:
  assumes "op_updated oid st d d'"
  shows "node_operations d' = node_operations d" "audit_events d' = audit_events d"
    "deployments d' = deployments d" "rollback_attempts d' = rollback_attempts d" "control_kept d d'"
  using assms by (auto simp: op_updated_def)

lemma settled_step:
  assumes op: "op_updated oid st d d1" and mid: "d2 = d1 \<or> deps_updated d1 d2"
    and aud: "d3 = d2\<lparr>audit_events := audit_events d2 @ [a]\<rparr>" and "au_operationId a = oid"
  shows "store_step (Settled oid st) d d3"
proof -
  obtain g where g: "\<forall>r. op_same_intent r (g r) \<and> o_status (g r) = st"
    and d1': "d1 = d\<lparr>operations := update_rows (open_op oid) g (operations d)\<rparr>"
    using op unfolding op_updated_def by blast
  then have d1: "operations d1 = update_rows (open_op oid) g (operations d)" by simp
  have ops: "operations d3 = operations d1" "node_operations d3 = node_operations d1"
    "audit_events d3 = audit_events d1 @ [a]"
    using mid aud deps_updated_fields by auto
  have "logs_kept d d3"
    using mid aud op_updated_fields [OF op]
    by (auto simp: logs_kept_def deps_updated_def dep_rows.evolve_refl)
  then show ?thesis
    using g d1 ops op_updated_fields [OF op] assms(4)
    by (intro store_step.settled [where g = g and P = "\<lambda>_. True"]) (auto intro: newly_audited_append)
qed

lemma advanced_step:
  assumes op: "op_updated oid VERIFYING d d1" and mid: "d2 = d1 \<or> deps_updated d1 d2"
    and aud: "d3 = d2 \<or> d3 = d2\<lparr>audit_events := audit_events d2 @ [a]\<rparr>"
  shows "store_step (Advanced oid) d d3"
proof -
  obtain g where g: "\<forall>r. op_same_intent r (g r) \<and> o_status (g r) = VERIFYING"
    and d1': "d1 = d\<lparr>operations := update_rows (open_op oid) g (operations d)\<rparr>"
    using op unfolding op_updated_def by blast
  then have d1: "operations d1 = update_rows (open_op oid) g (operations d)" by simp
  have ops: "operations d3 = operations d1" "node_operations d3 = node_operations d1"
    using mid aud deps_updated_fields by auto
  have "logs_kept d d3"
    using mid aud op_updated_fields [OF op]
    by (auto simp: logs_kept_def deps_updated_def dep_rows.evolve_refl)
  then show ?thesis
    using g d1 ops op_updated_fields [OF op] by (intro store_step.advanced [where g = g]) auto
qed

lemma node_settled_step:
  assumes op: "node_updated oid st d d1"
    and aud: "d2 = d1\<lparr>audit_events := audit_events d1 @ [a]\<rparr>" and "au_operationId a = oid"
  shows "store_step (NodeSettled oid st) d d2"
proof -
  obtain g where g: "\<forall>r. node_same_intent r (g r) \<and> n_status (g r) = st"
    and d1: "d1 = d\<lparr>node_operations := update_rows (open_node_op oid) g (node_operations d)\<rparr>"
    using op unfolding node_updated_def by blast
  show ?thesis
    by (rule store_step.node_settled [where g = g and P = "\<lambda>_. True"])
       (use g assms(3) in \<open>auto simp: d1 aud logs_kept_def dep_rows.evolve_refl intro: newly_audited_append\<close>)
qed

lemma node_advanced_step:
  assumes "node_updated oid VERIFYING d d'"
  shows "store_step (NodeAdvanced oid) d d'"
proof -
  obtain g where g: "\<forall>r. node_same_intent r (g r) \<and> n_status (g r) = VERIFYING"
    and d': "d' = d\<lparr>node_operations := update_rows (open_node_op oid) g (node_operations d)\<rparr>"
    using assms unfolding node_updated_def by blast
  show ?thesis
    by (rule store_step.node_advanced [where g = g])
       (use g in \<open>auto simp: d' logs_kept_def dep_rows.evolve_refl\<close>)
qed

lemma noted_step: "store_step Noted d (d\<lparr>audit_events := audit_events d @ [a]\<rparr>)"
  by (rule store_step.noted [where P = "\<lambda>_. False" and g = "\<lambda>r. r"])
     (auto simp: logs_kept_def dep_rows.evolve_refl update_rows_def op_same_intent_def op_same_outcome_def)

lemma audit_ids [simp]:
  "a_operationId (serviceAudit oid actor c sid action b j) = oid"
  "a_operationId (nodeAudit oid actor c nid action b j) = oid"
  by (simp_all add: serviceAudit_def nodeAudit_def)

lemma makes_updated:
  assumes "\<And>w x w'. body w = (Inr x, w') \<Longrightarrow> store_step ev (w_db w) (w_db w')" and "steps only_db body"
  shows "makes {ev} (inTransaction ext body)"
  by (rule makes_transaction) (use assms in auto)

lemma settles:
  assumes "\<And>w u w'. mark w = (Inr u, w') \<Longrightarrow> op_updated oid st (w_db w) (w_db w')"
    and "steps only_db mark" and "a_operationId i = oid"
  shows "makes {Settled oid st} (inTransaction ext (thenM mark (op_audit ext i)))"
proof (rule makes_updated)
  fix w x w' assume "thenM mark (op_audit ext i) w = (Inr x, w')"
  then obtain u w1 where "mark w = (Inr u, w1)" and aud: "op_audit ext i w1 = (Inr x, w')"
    unfolding thenM_OK by blast
  then show "store_step (Settled oid st) (w_db w) (w_db w')"
    using assms(1,3) by (intro settled_step [OF _ disjI1 [OF refl] op_audit_OK [OF aud]]) simp_all
next
  show "steps only_db (thenM mark (op_audit ext i))" by (intro assms step_intros)
qed

lemma node_settles:
  assumes "\<And>w u w'. mark w = (Inr u, w') \<Longrightarrow> node_updated oid st (w_db w) (w_db w')"
    and "steps only_db mark" and "a_operationId i = oid"
  shows "makes {NodeSettled oid st} (inTransaction ext (thenM mark (op_audit ext i)))"
proof (rule makes_updated)
  fix w x w' assume "thenM mark (op_audit ext i) w = (Inr x, w')"
  then obtain u w1 where "mark w = (Inr u, w1)" and aud: "op_audit ext i w1 = (Inr x, w')"
    unfolding thenM_OK by blast
  then show "store_step (NodeSettled oid st) (w_db w) (w_db w')"
    using assms(1,3) by (intro node_settled_step [OF _ op_audit_OK [OF aud]]) simp_all
next
  show "steps only_db (thenM mark (op_audit ext i))" by (intro assms step_intros)
qed

lemma update_rows_snoc:
  "(\<And>r. r \<in> set rows \<Longrightarrow> \<not> P r) \<Longrightarrow> P r \<Longrightarrow> update_rows P g (rows @ [r]) = rows @ [g r]"
  by (simp add: update_rows_def map_idI)

lemma started_step:
  assumes new: "find_row o_id oid (operations d) = None" and r: "o_id r = oid" "o_status r = PENDING"
    and d1: "d1 = d\<lparr>operations := operations d @ [r]\<rparr>" and d2: "op_updated oid RUNNING d1 d2"
    and d3: "d3 = d2 \<or> deps_updated d2 d3"
    and d4: "d4 = d3\<lparr>audit_events := audit_events d3 @ [a]\<rparr>" and "au_operationId a = oid"
  shows "\<exists>r'. op_same_intent r r' \<and> o_status r' = RUNNING \<and> store_step (Started r') d d4"
proof -
  obtain g where g: "\<forall>r. op_same_intent r (g r) \<and> o_status (g r) = RUNNING"
    and d2': "d2 = d1\<lparr>operations := update_rows (open_op oid) g (operations d1)\<rparr>"
    using d2 unfolding op_updated_def by blast
  have "operations d2 = operations d @ [g r]"
    using new r by (auto simp: d2' d1 find_row_None intro!: update_rows_snoc)
  then have rows: "operations d4 = operations d @ [g r]" "node_operations d4 = node_operations d"
      "audit_events d4 = audit_events d @ [a]" "logs_kept d d4"
    using d3 by (auto simp: d4 d2' d1 logs_kept_def deps_updated_def dep_rows.evolve_refl)
  have id: "o_id (g r) = oid" using g [rule_format, of r] r by (simp add: op_same_intent_def)
  have "store_step (Started (g r)) d d4"
    by (rule store_step.started)
       (use rows new g id assms(8) in \<open>auto intro: newly_audited_append\<close>)
  then show ?thesis using g by blast
qed

lemma node_started_step:
  assumes new: "find_row n_id oid (node_operations d) = None" and r: "n_id r = oid" "n_status r = PENDING"
    and d1: "d1 = d\<lparr>node_operations := node_operations d @ [r]\<rparr>" and d2: "node_updated oid RUNNING d1 d2"
    and d3: "d3 = d2\<lparr>audit_events := audit_events d2 @ [a]\<rparr>" and "au_operationId a = oid"
  shows "\<exists>r'. node_same_intent r r' \<and> n_status r' = RUNNING \<and> store_step (NodeStarted r') d d3"
proof -
  obtain g where g: "\<forall>r. node_same_intent r (g r) \<and> n_status (g r) = RUNNING"
    and d2': "d2 = d1\<lparr>node_operations := update_rows (open_node_op oid) g (node_operations d1)\<rparr>"
    using d2 unfolding node_updated_def by blast
  have rows: "node_operations d3 = node_operations d @ [g r]"
    using new r by (auto simp: d3 d2' d1 find_row_None intro!: update_rows_snoc)
  have id: "n_id (g r) = oid" using g [rule_format, of r] r by (simp add: node_same_intent_def)
  have "store_step (NodeStarted (g r)) d d3"
    by (rule store_step.node_started)
       (use rows new g id assms(7) in \<open>auto simp: d3 d2' d1 logs_kept_def dep_rows.evolve_refl
          intro: newly_audited_append\<close>)
  then show ?thesis using g by blast
qed

end
