(* ===== verification/Contract.thy ===== *)
theory Contract
  imports Store
begin

text \<open>
  The contract of the services: what may be recorded as success, what may be started, what may
  be dispatched (\<open>step_ok\<close>, \<open>dispatch_ok\<close>), and the locales \<open>recovery_relation\<close> and
  \<open>store_relation\<close> through which services are verified once for all safety relations.
\<close>

section \<open>Observations\<close>

text \<open>
  \<open>shown ext lo hi r\<close>: one of the Agent answers number \<open>lo\<close> to \<open>hi - 1\<close> shows that the
  recorded target of \<open>r\<close> was reached.
\<close>

definition observed ::
    "external \<Rightarrow> nat \<Rightarrow> nat \<Rightarrow> string \<Rightarrow> (ServiceDetailResponse \<Rightarrow> bool) \<Rightarrow> bool" where
  "observed ext lo hi sid P \<longleftrightarrow>
     (\<exists>n cur. lo \<le> n \<and> n < hi \<and> x_inspectService ext n sid = Inr cur \<and> P cur)"

definition placed :: "external \<Rightarrow> nat \<Rightarrow> nat \<Rightarrow> string \<Rightarrow> bool" where
  "placed ext lo hi sid \<longleftrightarrow> (\<exists>n. lo \<le> n \<and> n < hi \<and> x_checkPlacement ext n sid = Inr PlConverged)"

definition deployment_shown ::
    "external \<Rightarrow> nat \<Rightarrow> nat \<Rightarrow> string \<Rightarrow> ServiceMutationPlan \<Rightarrow> string \<Rightarrow> OperationType \<Rightarrow> bool" where
  "deployment_shown ext lo hi sid plan digest type \<longleftrightarrow>
     observed ext lo hi sid (\<lambda>cur.
       if type = DEPLOY then \<exists>noOp. classifyDeploymentSnapshot cur plan digest noOp = DecSuccess
       else classifyRollbackSnapshot cur plan digest = DecSuccess) \<and>
     placed ext lo hi sid"

text \<open>
  The plan of a deployment follows its record: same service, target spec, force-update counter and
  runtime fingerprint, and the image has the digest. (An empty recorded fingerprint, which no
  request creates, stands for a missing one that the backfill statement does not replace.)
\<close>

definition follows :: "ServiceMutationPlan \<Rightarrow> string \<Rightarrow> OperationRecord \<Rightarrow> bool" where
  "follows plan digest r \<longleftrightarrow>
     p_serviceId plan = o_serviceId r \<and> p_targetSpecHash plan = o_targetSpecHash r \<and>
     p_targetForceUpdate plan = o_targetForceUpdate r \<and>
     (p_targetRuntimeSpecHash plan = o_targetRuntimeSpecHash r \<or> o_targetRuntimeSpecHash r = Some []) \<and>
     imageContainsDigest (o_targetImage r) digest"

definition shown :: "external \<Rightarrow> nat \<Rightarrow> nat \<Rightarrow> OperationRecord \<Rightarrow> bool" where
  "shown ext lo hi r \<longleftrightarrow>
     (if o_type r \<in> {DEPLOY, ROLLBACK}
      then \<exists>plan digest. follows plan digest r \<and>
             deployment_shown ext lo hi (o_serviceId r) plan digest (o_type r)
      else observed ext lo hi (o_serviceId r) (mutation_converged r))"

definition node_shown :: "external \<Rightarrow> nat \<Rightarrow> nat \<Rightarrow> NodeOperationRecord \<Rightarrow> bool" where
  "node_shown ext lo hi r \<longleftrightarrow>
     (\<exists>n cur. lo \<le> n \<and> n < hi \<and> x_inspectNode ext n (n_nodeId r) = Inr cur \<and> node_converged r cur) \<and>
     (n_type r = LABELS \<longrightarrow> (\<forall>sid \<in> set (n_affectedServiceIds r). placed ext lo hi sid))"

lemma observed_mono: "observed ext lo hi sid P \<Longrightarrow> lo' \<le> lo \<Longrightarrow> hi \<le> hi' \<Longrightarrow> observed ext lo' hi' sid P"
  unfolding observed_def by (meson le_trans less_le_trans)

lemma placed_mono: "placed ext lo hi sid \<Longrightarrow> lo' \<le> lo \<Longrightarrow> hi \<le> hi' \<Longrightarrow> placed ext lo' hi' sid"
  unfolding placed_def by (meson le_trans less_le_trans)

lemma deployment_shown_mono:
  "deployment_shown ext lo hi sid plan digest type \<Longrightarrow> lo' \<le> lo \<Longrightarrow> hi \<le> hi' \<Longrightarrow>
   deployment_shown ext lo' hi' sid plan digest type"
  unfolding deployment_shown_def using observed_mono placed_mono by blast

lemma shown_mono:
  assumes "shown ext lo hi r" "lo' \<le> lo" "hi \<le> hi'"
  shows "shown ext lo' hi' r"
proof (cases "o_type r \<in> {DEPLOY, ROLLBACK}")
  case True
  then obtain plan digest where "follows plan digest r"
      "deployment_shown ext lo hi (o_serviceId r) plan digest (o_type r)"
    using assms(1) unfolding shown_def by auto
  then show ?thesis
    using deployment_shown_mono assms(2,3) unfolding shown_def if_P [OF True] by blast
next
  case False
  then show ?thesis using assms observed_mono by (auto simp: shown_def)
qed

lemma node_shown_mono:
  assumes "node_shown ext lo hi r" "lo' \<le> lo" "hi \<le> hi'"
  shows "node_shown ext lo' hi' r"
  using assms unfolding node_shown_def by (meson le_trans less_le_trans placed_mono)

text \<open>Observations concern recorded intents only.\<close>

lemma deployment_shown_fingerprint:
  "deployment_shown ext lo hi sid plan digest type \<Longrightarrow> p_targetRuntimeSpecHash plan \<noteq> None"
  unfolding deployment_shown_def observed_def classifyDeploymentSnapshot_SUCCESS_iff
    classifyRollbackSnapshot_SUCCESS_iff falsy_def by (auto split: if_split_asm)

lemma follows_intent:
  "follows plan digest r \<Longrightarrow> op_same_intent r r' \<Longrightarrow> p_targetRuntimeSpecHash plan \<noteq> None \<Longrightarrow>
   follows plan digest r'"
  by (auto simp: follows_def op_same_intent_def)

lemma shown_intent:
  assumes "shown ext lo hi r" and same: "op_same_intent r r'"
  shows "shown ext lo hi r'"
proof -
  have fields: "o_type r' = o_type r" "o_serviceId r' = o_serviceId r" "o_targetImage r' = o_targetImage r"
    using same by (simp_all add: op_same_intent_def)
  have "mutation_converged r' = mutation_converged r"
    using same by (intro ext) (simp add: mutation_converged_def op_same_intent_def)
  then show ?thesis
    using assms(1) deployment_shown_fingerprint follows_intent [OF _ same]
    unfolding shown_def fields by metis
qed

lemma node_shown_intent:
  assumes "node_shown ext lo hi r" and "node_same_intent r r'"
  shows "node_shown ext lo hi r'"
  using assms by (auto simp: node_shown_def node_same_intent_def node_converged_def)

section \<open>Free resources\<close>

text \<open>
  The claims on a service: unfinished operations of the service and unfinished node operations
  that affect it. \<open>exclusive\<close> says that at most one claim exists for each service and at most
  one unfinished operation for each node. \<open>unique_keys\<close> are the primary keys of the tables.
\<close>

definition unique_keys :: "database \<Rightarrow> bool" where
  "unique_keys d \<longleftrightarrow> distinct (map o_id (operations d)) \<and> distinct (map n_id (node_operations d))"

definition exclusive :: "database \<Rightarrow> bool" where
  "exclusive d \<longleftrightarrow>
     unique_keys d \<and>
     (\<forall>c sid. length (nonTerminalForService c sid d) + length (nonTerminalAffectingService c sid d) \<le> 1) \<and>
     (\<forall>c nid. length (nonTerminalForNode c nid d) \<le> 1)"

definition unclaimed :: "string \<Rightarrow> string \<Rightarrow> database \<Rightarrow> bool" where
  "unclaimed c sid d \<longleftrightarrow> nonTerminalForService c sid d = [] \<and> nonTerminalAffectingService c sid d = []"

text \<open>
  Docker resolves an identifier to the object that has it: inspecting a returned identifier
  returns the same one, and a rollback plan is for the service it was asked for.
\<close>

definition canonical_ids :: "external \<Rightarrow> bool" where
  "canonical_ids ext \<longleftrightarrow>
     (\<forall>n m ref a b. x_inspectService ext n ref = Inr a \<longrightarrow>
        x_inspectService ext m (s_id (sd_service a)) = Inr b \<longrightarrow>
        s_id (sd_service b) = s_id (sd_service a)) \<and>
     (\<forall>n m ref a b. x_inspectNode ext n ref = Inr a \<longrightarrow>
        x_inspectNode ext m (nd_id (ndr_node a)) = Inr b \<longrightarrow>
        nd_id (ndr_node b) = nd_id (ndr_node a)) \<and>
     (\<forall>n sid v p. x_planRollback ext n sid v = Inr p \<longrightarrow> p_serviceId p = sid)"

section \<open>Guards of store steps and of dispatch\<close>

fun is_start :: "store_event \<Rightarrow> bool" where
  "is_start (Started r) = True"
| "is_start (NodeStarted r) = True"
| "is_start _ = False"

fun step_ok :: "external \<Rightarrow> world \<Rightarrow> world \<Rightarrow> store_event \<Rightarrow> bool" where
  "step_ok ext w0 w (Settled oid st) =
     (st = SUCCESS \<and> unique_keys (w_db w0) \<longrightarrow> (\<exists>r. find_row o_id oid (operations (w_db w)) = Some r \<and>
        shown ext (w_calls w0) (w_calls w) r))"
| "step_ok ext w0 w (NodeSettled oid st) =
     (st = SUCCESS \<and> unique_keys (w_db w0) \<longrightarrow> (\<exists>r. find_row n_id oid (node_operations (w_db w)) = Some r \<and>
        node_shown ext (w_calls w0) (w_calls w) r))"
| "step_ok ext w0 w (Started r) =
     (canonical_ids ext \<and> exclusive (w_db w0) \<longrightarrow> unclaimed (o_clusterId r) (o_serviceId r) (w_db w))"
| "step_ok ext w0 w (NodeStarted r) =
     (canonical_ids ext \<and> exclusive (w_db w0) \<longrightarrow>
        nonTerminalForNode (n_clusterId r) (n_nodeId r) (w_db w) = [] \<and>
        (\<forall>sid \<in> set (n_affectedServiceIds r). unclaimed (n_clusterId r) sid (w_db w)))"
| "step_ok ext w0 w _ = True"

fun request_target :: "MutationRequest \<Rightarrow> string" where
  "request_target (ScaleService sid v b t k) = sid"
| "request_target (RestartService sid v b t) = sid"
| "request_target (UpdateServiceImage sid v b t img) = sid"
| "request_target (RollbackService sid v b t) = sid"
| "request_target (DrainNode nid v b t sids) = nid"
| "request_target (ActivateNode nid v b t) = nid"
| "request_target (UpdateNodeLabels nid v b t sids ls) = nid"

definition op_intent :: "external \<Rightarrow> OperationRecord \<Rightarrow> string \<Rightarrow> nat \<Rightarrow> string \<Rightarrow> string \<Rightarrow> bool" where
  "op_intent ext r sid v b t \<longleftrightarrow>
     (canonical_ids ext \<longrightarrow> o_serviceId r = sid) \<and> o_expectedVersion r = v \<and>
     o_beforeSpecHash r = b \<and> o_targetSpecHash r = t"

definition node_intent :: "external \<Rightarrow> NodeOperationRecord \<Rightarrow> string \<Rightarrow> nat \<Rightarrow> string \<Rightarrow> string \<Rightarrow> bool" where
  "node_intent ext r nid v b t \<longleftrightarrow>
     (canonical_ids ext \<longrightarrow> n_nodeId r = nid) \<and> n_expectedVersion r = v \<and>
     n_beforeSpecHash r = b \<and> n_targetSpecHash r = t"

fun request_matches :: "external \<Rightarrow> MutationRequest \<Rightarrow> OperationRecord \<Rightarrow> bool" where
  "request_matches ext (ScaleService sid v b t k) r =
     (o_type r = SCALE \<and> op_intent ext r sid v b t \<and> o_targetReplicas r = Some k)"
| "request_matches ext (RestartService sid v b t) r = (o_type r = RESTART \<and> op_intent ext r sid v b t)"
| "request_matches ext (UpdateServiceImage sid v b t img) r =
     (o_type r = DEPLOY \<and> op_intent ext r sid v b t \<and> o_targetImage r = Some img)"
| "request_matches ext (RollbackService sid v b t) r = (o_type r = ROLLBACK \<and> op_intent ext r sid v b t)"
| "request_matches ext _ r = False"

fun node_request_matches :: "external \<Rightarrow> MutationRequest \<Rightarrow> NodeOperationRecord \<Rightarrow> bool" where
  "node_request_matches ext (DrainNode nid v b t sids) r =
     (n_type r = DRAIN \<and> node_intent ext r nid v b t \<and> n_affectedServiceIds r = sids)"
| "node_request_matches ext (ActivateNode nid v b t) r = (n_type r = ACTIVATE \<and> node_intent ext r nid v b t)"
| "node_request_matches ext (UpdateNodeLabels nid v b t sids ls) r =
     (n_type r = LABELS \<and> node_intent ext r nid v b t \<and> n_affectedServiceIds r = sids \<and>
      n_targetLabels r = Some ls)"
| "node_request_matches ext _ r = False"

text \<open>
  What may be handed to transport: a request for a recorded \<open>RUNNING\<close> intent with the same
  target, while the session holds the lock of the service, or the locks of the node and of all
  affected services.
\<close>

definition dispatch_ok :: "external \<Rightarrow> SentMutation \<Rightarrow> bool" where
  "dispatch_ok ext s \<longleftrightarrow>
     (\<exists>oid. sent_operation s = Some oid \<and>
        ((\<exists>r. find_row o_id oid (operations (sent_db s)) = Some r \<and> o_status r = RUNNING \<and>
            request_matches ext (sent_request s) r \<and>
            serviceLockName ext (o_clusterId r) (request_target (sent_request s)) \<in> set (sent_locks s)) \<or>
         (\<exists>r. find_row n_id oid (node_operations (sent_db s)) = Some r \<and> n_status r = RUNNING \<and>
            node_request_matches ext (sent_request s) r \<and>
            nodeLockName ext (n_clusterId r) (request_target (sent_request s)) \<in> set (sent_locks s) \<and>
            (\<forall>sid \<in> set (n_affectedServiceIds r). serviceLockName ext (n_clusterId r) sid \<in> set (sent_locks s)))))"

text \<open>
  The identity of a dispatched mutation: operations and node operations have separate identifier
  spaces. A mutation is \<open>dispatchable\<close> in a run from \<open>w0\<close> when it satisfies
  \<open>dispatch_ok\<close> and its operation was not yet recorded at some earlier moment of the run since
  which nothing was sent.
\<close>

fun is_node_request :: "MutationRequest \<Rightarrow> bool" where
  "is_node_request (DrainNode nid v b t sids) = True"
| "is_node_request (ActivateNode nid v b t) = True"
| "is_node_request (UpdateNodeLabels nid v b t sids ls) = True"
| "is_node_request _ = False"

definition sent_key :: "SentMutation \<Rightarrow> bool \<times> string option" where
  "sent_key s = (is_node_request (sent_request s), sent_operation s)"

definition recorded :: "database \<Rightarrow> (bool \<times> string option) set" where
  "recorded d = (\<lambda>r. (False, Some (o_id r))) ` set (operations d) \<union> (\<lambda>r. (True, Some (n_id r))) ` set (node_operations d)"

definition dispatchable ::
    "external \<Rightarrow> (world \<Rightarrow> world \<Rightarrow> bool) \<Rightarrow> world \<Rightarrow> world \<Rightarrow> MutationRequest \<Rightarrow> bool" where
  "dispatchable ext R w0 w req \<longleftrightarrow>
     dispatch_ok ext (sentNow req w) \<and>
     (\<exists>wp. R w0 wp \<and> w_sent wp = w_sent w \<and> sent_key (sentNow req w) \<notin> recorded (w_db wp))"

lemma recorded_iff:
  "(False, Some oid) \<in> recorded d \<longleftrightarrow> find_row o_id oid (operations d) \<noteq> None"
  "(True, Some oid) \<in> recorded d \<longleftrightarrow> find_row n_id oid (node_operations d) \<noteq> None"
  by (auto simp: recorded_def find_row_None)

lemma matching_kind:
  "request_matches ext req r \<Longrightarrow> \<not> is_node_request req"
  "node_request_matches ext req nr \<Longrightarrow> is_node_request req"
  by (cases req; simp)+

lemma dispatch_ok_recorded:
  assumes "dispatch_ok ext s"
  shows "sent_key s \<in> recorded (sent_db s)"
  using assms matching_kind unfolding dispatch_ok_def sent_key_def
  by (auto simp: recorded_iff)

lemma dispatchable_quiet [intro]:
  assumes "dispatchable ext R w0 w req" and "quiet w w'"
  shows "dispatchable ext R w0 w' req"
proof -
  have "dispatch_ok ext (sentNow req w')" "sent_key (sentNow req w') = sent_key (sentNow req w)"
    using assms by (auto simp: dispatchable_def dispatch_ok_def sent_key_def sentNow_def quiet_def same_core_def)
  then show ?thesis using assms by (simp add: dispatchable_def quiet_def)
qed

section \<open>The locales\<close>

locale recovery_relation = step_relation R for R :: "world \<Rightarrow> world \<Rightarrow> bool" +
  fixes ext :: external
  assumes stored: "R w0 w \<Longrightarrow> store_step ev (w_db w) d \<Longrightarrow> \<not> is_start ev \<Longrightarrow> step_ok ext w0 w ev \<Longrightarrow>
      R w0 (w\<lparr>w_db := d\<rparr>)"
begin

lemma makes_related:
  assumes "makes E m" and "R w0 w" and "\<And>ev. ev \<in> E \<Longrightarrow> \<not> is_start ev \<and> step_ok ext w0 w ev"
  shows "R w0 (snd (m w))"
proof -
  obtain r w' where run: "m w = (r, w')" by fastforce
  then have "only_db w w'" and "w_db w' = w_db w \<or> (\<exists>ev \<in> E. store_step ev (w_db w) (w_db w'))"
    using assms(1) unfolding makes_def by blast+
  then have "R w0 (w\<lparr>w_db := w_db w'\<rparr>)"
    using assms(2,3) stored by auto
  then show ?thesis using run \<open>only_db w w'\<close> only_db_related by simp
qed

lemma steps_makes:
  assumes "makes E m" and "\<And>ev w. ev \<in> E \<Longrightarrow> \<not> is_start ev \<and> step_ok ext w w ev"
  shows "steps R m"
  unfolding steps_def using makes_related [OF assms(1) refl] assms(2) by blast

lemma steps_advances: "makes {Advanced oid} m \<Longrightarrow> steps R m" "makes {NodeAdvanced oid} m \<Longrightarrow> steps R m"
  by (erule steps_makes; simp)+

lemma steps_settles:
  "makes {Settled oid st} m \<Longrightarrow> st \<noteq> SUCCESS \<Longrightarrow> steps R m"
  "makes {NodeSettled oid st} m \<Longrightarrow> st \<noteq> SUCCESS \<Longrightarrow> steps R m"
  by (erule steps_makes; simp)+

lemma steps_notes: "makes {Noted} m \<Longrightarrow> steps R m"
  by (erule steps_makes) simp

end

text \<open>
  A change of an Agent's barrier follows the committed state of the cluster: a manager is opened at
  the generation of a committed \<open>OPEN\<close> state, and blocked at that of \<open>CLOSING\<close> or
  \<open>RECONCILING\<close>.
\<close>

definition put_ok :: "external \<Rightarrow> BarrierPut \<Rightarrow> bool" where
  "put_ok ext p \<longleftrightarrow>
     (\<exists>m. find_row ms_clusterId (x_clusterId ext) (cluster_maintenance_states (bp_db p)) = Some m \<and>
        ms_generation m = bp_generation p \<and>
        (bp_state p = ''OPEN'' \<and> ms_state m = ''OPEN'' \<or>
         bp_state p = ''BLOCKED'' \<and> ms_state m \<in> {''CLOSING'', ''RECONCILING''}))"

locale locked_recovery_relation = recovery_relation + locked_relation +
  assumes put: "bp_db p = w_db w \<Longrightarrow> put_ok ext p \<Longrightarrow> R w (w\<lparr>w_puts := w_puts w @ [p]\<rparr>)"

locale store_relation = locked_recovery_relation R ext + dispatch_relation R ext "dispatchable ext R"
  for R :: "world \<Rightarrow> world \<Rightarrow> bool" and ext :: external +
  assumes start_stored: "R w0 w \<Longrightarrow> store_step ev (w_db w) d \<Longrightarrow> is_start ev \<Longrightarrow> step_ok ext w0 w ev \<Longrightarrow>
      R w0 (w\<lparr>w_db := d\<rparr>)"
begin

lemma start_related:
  assumes "makes E m" and "R w0 w" and "\<And>ev. ev \<in> E \<Longrightarrow> step_ok ext w0 w ev"
  shows "R w0 (snd (m w))"
proof -
  obtain r w' where run: "m w = (r, w')" by fastforce
  then have "only_db w w'" and "w_db w' = w_db w \<or> (\<exists>ev \<in> E. store_step ev (w_db w) (w_db w'))"
    using assms(1) unfolding makes_def by blast+
  moreover have "R w0 (w\<lparr>w_db := d\<rparr>)" if "store_step ev (w_db w) d" "step_ok ext w0 w ev" for ev d
    using stored [OF assms(2) that(1)] start_stored [OF assms(2) that(1)] that(2) by blast
  ultimately have "R w0 (w\<lparr>w_db := w_db w'\<rparr>)"
    using assms(2,3) by auto
  then show ?thesis using run \<open>only_db w w'\<close> only_db_related by simp
qed

text \<open>
  Dispatching a recorded intent under its lock; \<open>wp\<close> is the world before the intent was
  recorded.
\<close>

lemma dispatch_scoped_related:
  assumes "R w0 w" and "dispatchable ext R w0 (w\<lparr>w_operation := Some oid\<rparr>) req"
  shows "R w0 (snd (withMutationOperation oid (agentMutation ext req send) w))"
proof -
  let ?w1 = "w\<lparr>w_operation := Some oid\<rparr>"
  have "R w0 (snd (agentMutation ext req send ?w1))"
    using trans [OF assms(1) operation_scoped] assms(2) by (rule dispatch_related)
  then have "R w0 ((snd (agentMutation ext req send ?w1))\<lparr>w_operation := w_operation w\<rparr>)"
    using trans [OF _ operation_scoped] by blast
  then show ?thesis using assms(1) by (simp add: withMutationOperation_def case_prod_beta)
qed

lemma dispatch_service_related:
  assumes "R w0 w" and wp: "R w0 wp" "w_sent wp = w_sent w" "(False, Some oid) \<notin> recorded (w_db wp)"
    and r: "find_row o_id oid (operations (w_db w)) = Some r" "o_status r = RUNNING"
    and req: "request_matches ext req r"
      "serviceLockName ext (o_clusterId r) (request_target req) \<in> set (w_locks w)"
  shows "R w0 (snd (withMutationOperation oid (agentMutation ext req send) w))"
  using matching_kind(1) [OF req(1)] r req wp
  by (intro dispatch_scoped_related assms(1))
     (auto simp: dispatchable_def dispatch_ok_def sent_key_def sentNow_def)

lemma dispatch_node_related:
  assumes "R w0 w" and wp: "R w0 wp" "w_sent wp = w_sent w" "(True, Some oid) \<notin> recorded (w_db wp)"
    and r: "find_row n_id oid (node_operations (w_db w)) = Some r" "n_status r = RUNNING"
    and req: "node_request_matches ext req r"
      "nodeLockName ext (n_clusterId r) (request_target req) \<in> set (w_locks w)"
      "\<forall>sid \<in> set (n_affectedServiceIds r). serviceLockName ext (n_clusterId r) sid \<in> set (w_locks w)"
  shows "R w0 (snd (withMutationOperation oid (agentMutation ext req send) w))"
  using matching_kind(2) [OF req(1)] r req wp
  by (intro dispatch_scoped_related assms(1))
     (auto simp: dispatchable_def dispatch_ok_def sent_key_def sentNow_def)

end

end
