(* ===== verification/Safety.thy ===== *)
theory Safety
  imports Contract
begin

text \<open>
  The safety relations and their interpretations in the contract locales:
  \<open>history_kept\<close>, \<open>store_move\<^sup>*\<^sup>*\<close>, \<open>audited\<close>, \<open>justified\<close>,
  \<open>keeps_exclusive\<close>, \<open>dispatches_intents\<close> and \<open>sends_once\<close> as \<open>store_relation\<close>, \<open>sends_nothing\<close> and
  \<open>opens_nothing\<close> as \<open>recovery_relation\<close>. \<open>store_step_row\<close> describes what one
  store step does to one row and carries the proofs.
\<close>

section \<open>One row in one step\<close>

lemma find_updated_row:
  assumes "find_row o_id oid (update_rows P g rows) = Some r'" and "\<And>r. op_same_intent r (g r)"
  shows "\<exists>r. find_row o_id oid rows = Some r \<and> r' = (if P r then g r else r)"
proof -
  have "o_id (g r) = o_id r" for r
    using assms(2) [of r] by (simp add: op_same_intent_def)
  then show ?thesis
    using assms(1) by (auto simp: find_row_update)
qed

lemma find_updated_node_row:
  assumes "find_row n_id oid (update_rows P g rows) = Some r'" and "\<And>r. node_same_intent r (g r)"
  shows "\<exists>r. find_row n_id oid rows = Some r \<and> r' = (if P r then g r else r)"
proof -
  have "n_id (g r) = n_id r" for r
    using assms(2) [of r] by (simp add: node_same_intent_def)
  then show ?thesis
    using assms(1) by (auto simp: find_row_update)
qed

lemma same_intent_refl [simp]: "op_same_intent r r" "node_same_intent n n"
  by (auto simp: op_same_intent_def node_same_intent_def)

definition row_step :: "store_event \<Rightarrow> OperationRecord option \<Rightarrow> OperationRecord \<Rightarrow> bool" where
  "row_step ev before r' \<longleftrightarrow>
     (\<exists>r. before = Some r \<and> op_same_intent r r' \<and> o_status r' = o_status r) \<or>
     (before = None \<and> ev = Started r' \<and> o_status r' = RUNNING) \<or>
     (\<exists>r. before = Some r \<and> op_same_intent r r' \<and> \<not> status_terminal (o_status r) \<and>
        ((ev = Advanced (o_id r') \<and> o_status r' = VERIFYING) \<or> ev = Settled (o_id r') (o_status r')))"

definition node_row_step :: "store_event \<Rightarrow> NodeOperationRecord option \<Rightarrow> NodeOperationRecord \<Rightarrow> bool" where
  "node_row_step ev before r' \<longleftrightarrow>
     (\<exists>r. before = Some r \<and> node_same_intent r r' \<and> n_status r' = n_status r) \<or>
     (before = None \<and> ev = NodeStarted r' \<and> n_status r' = RUNNING) \<or>
     (\<exists>r. before = Some r \<and> node_same_intent r r' \<and> \<not> status_terminal (n_status r) \<and>
        ((ev = NodeAdvanced (n_id r') \<and> n_status r' = VERIFYING) \<or> ev = NodeSettled (n_id r') (n_status r')))"

lemma store_step_row:
  assumes "store_step ev d d'" and r': "find_row o_id oid (operations d') = Some r'"
  shows "row_step ev (find_row o_id oid (operations d)) r'"
  using assms
proof (cases rule: store_step.cases)
  case (noted P g)
  have "find_row o_id oid (update_rows P g (operations d)) = Some r'"
    using r' noted by simp
  from find_updated_row [OF this] noted obtain r
    where "find_row o_id oid (operations d) = Some r" "r' = (if P r then g r else r)"
    by blast
  then show ?thesis using noted by (auto simp: row_step_def op_same_outcome_def)
next
  case (started r)
  then have "find_row o_id oid (operations d) = Some r' \<or> (find_row o_id oid (operations d) = None \<and> r' = r)"
    using r' by (simp add: find_row_snoc) blast
  then show ?thesis using started by (auto simp: row_step_def)
next
  case (advanced oid' g)
  have "find_row o_id oid (update_rows (open_op oid') g (operations d)) = Some r'"
    using r' advanced by simp
  from find_updated_row [OF this] advanced obtain r
    where "find_row o_id oid (operations d) = Some r" "r' = (if open_op oid' r then g r else r)"
    by blast
  then show ?thesis using advanced by (auto simp: row_step_def op_same_intent_def)
next
  case (settled oid' P g st)
  have "find_row o_id oid (update_rows (\<lambda>r. open_op oid' r \<and> P r) g (operations d)) = Some r'"
    using r' settled by simp
  from find_updated_row [OF this] settled obtain r
    where "find_row o_id oid (operations d) = Some r" "r' = (if open_op oid' r \<and> P r then g r else r)"
    by blast
  then show ?thesis using settled by (auto simp: row_step_def op_same_intent_def)
qed (auto simp: row_step_def)

lemma store_step_node_row:
  assumes "store_step ev d d'" and r': "find_row n_id oid (node_operations d') = Some r'"
  shows "node_row_step ev (find_row n_id oid (node_operations d)) r'"
  using assms
proof (cases rule: store_step.cases)
  case (node_started r)
  then have "find_row n_id oid (node_operations d) = Some r' \<or> (find_row n_id oid (node_operations d) = None \<and> r' = r)"
    using r' by (simp add: find_row_snoc) blast
  then show ?thesis using node_started by (auto simp: node_row_step_def)
next
  case (node_advanced oid' g)
  have "find_row n_id oid (update_rows (open_node_op oid') g (node_operations d)) = Some r'"
    using r' node_advanced by simp
  from find_updated_node_row [OF this] node_advanced obtain r
    where "find_row n_id oid (node_operations d) = Some r" "r' = (if open_node_op oid' r then g r else r)"
    by blast
  then show ?thesis using node_advanced by (auto simp: node_row_step_def node_same_intent_def)
next
  case (node_settled oid' P g st)
  have "find_row n_id oid (update_rows (\<lambda>r. open_node_op oid' r \<and> P r) g (node_operations d)) = Some r'"
    using r' node_settled by simp
  from find_updated_node_row [OF this] node_settled obtain r
    where "find_row n_id oid (node_operations d) = Some r" "r' = (if open_node_op oid' r \<and> P r then g r else r)"
    by blast
  then show ?thesis using node_settled by (auto simp: node_row_step_def node_same_intent_def)
qed (auto simp: node_row_step_def)

lemma settled_audited: "store_step (Settled oid st) d d' \<Longrightarrow> newly_audited oid d d'"
    "store_step (NodeSettled oid st) d d' \<Longrightarrow> newly_audited oid d d'"
  by (auto elim: store_step_cases)

lemma unique_keys_step:
  assumes "store_step ev d d'" and "unique_keys d"
  shows "unique_keys d'"
  using assms
proof (cases rule: store_step.cases)
  case (noted P g)
  then show ?thesis using assms(2) by (simp add: unique_keys_def map_key_update_rows op_same_intent_def)
next
  case (advanced oid g)
  then show ?thesis using assms(2) by (simp add: unique_keys_def map_key_update_rows op_same_intent_def)
next
  case (settled oid P g st)
  then show ?thesis using assms(2) by (simp add: unique_keys_def map_key_update_rows op_same_intent_def)
next
  case (node_advanced oid g)
  then show ?thesis using assms(2) by (simp add: unique_keys_def map_key_update_rows node_same_intent_def)
next
  case (node_settled oid P g st)
  then show ?thesis using assms(2) by (simp add: unique_keys_def map_key_update_rows node_same_intent_def)
qed (auto simp: unique_keys_def find_row_None)

section \<open>History\<close>

interpretation hist: store_relation "on_db history_kept" ext for ext
proof unfold_locales
  fix w :: world and d assume "same_core (w_db w) d"
  then show "on_db history_kept w (w\<lparr>w_db := d\<rparr>)" by (simp add: on_db_def history_same_core)
next
  fix w0 w ev d assume "on_db history_kept w0 w" "store_step ev (w_db w) d"
  then show "on_db history_kept w0 (w\<lparr>w_db := d\<rparr>)"
    unfolding on_db_def using history.T_trans store_step_history by auto
  then show "on_db history_kept w0 (w\<lparr>w_db := d\<rparr>)" .
qed (auto simp: on_db_def history.T_refl)

section \<open>The abstract store\<close>

text \<open>
  The abstract specification of the tables: a run is a sequence of store steps, interleaved with
  changes of the tables of the maintenance subsystem.
\<close>

definition store_move :: "database \<Rightarrow> database \<Rightarrow> bool" where
  "store_move d d' \<longleftrightarrow> (\<exists>ev. store_step ev d d') \<or> same_core d d'"

interpretation refining: store_relation "on_db store_move\<^sup>*\<^sup>*" ext for ext
proof unfold_locales
  fix w :: world and d assume "same_core (w_db w) d"
  then show "on_db store_move\<^sup>*\<^sup>* w (w\<lparr>w_db := d\<rparr>)" by (auto simp: on_db_def store_move_def)
next
  fix w0 w ev d assume "on_db store_move\<^sup>*\<^sup>* w0 w" "store_step ev (w_db w) d"
  then show "on_db store_move\<^sup>*\<^sup>* w0 (w\<lparr>w_db := d\<rparr>)"
    unfolding on_db_def using rtranclp.rtrancl_into_rtrancl [of store_move] store_move_def by simp metis
  then show "on_db store_move\<^sup>*\<^sup>* w0 (w\<lparr>w_db := d\<rparr>)" .
qed (auto simp: on_db_def)

section \<open>Audit\<close>

definition settled_status :: "OperationStatus \<Rightarrow> bool" where
  "settled_status s = (s \<in> {SUCCESS, FAILED, NEEDS_ATTENTION})"

text \<open>Whatever became settled in between left an audit event for its operation.\<close>

definition audited :: "database \<Rightarrow> database \<Rightarrow> bool" where
  "audited d d' \<longleftrightarrow>
     prefix (audit_events d) (audit_events d') \<and>
     (\<forall>oid r'. find_row o_id oid (operations d') = Some r' \<longrightarrow> settled_status (o_status r') \<longrightarrow>
        (\<exists>r. find_row o_id oid (operations d) = Some r \<and> o_status r = o_status r') \<or> newly_audited oid d d') \<and>
     (\<forall>oid r'. find_row n_id oid (node_operations d') = Some r' \<longrightarrow> settled_status (n_status r') \<longrightarrow>
        (\<exists>r. find_row n_id oid (node_operations d) = Some r \<and> n_status r = n_status r') \<or> newly_audited oid d d')"

lemma newly_audited_left:
  assumes "newly_audited oid a b" and "prefix (audit_events b) (audit_events c)"
  shows "newly_audited oid a c"
  using assms by (auto simp: newly_audited_def prefix_def)

lemma newly_audited_right:
  assumes "prefix (audit_events a) (audit_events b)" and "newly_audited oid b c"
  shows "newly_audited oid a c"
proof -
  have "length (audit_events a) \<le> length (audit_events b)" using assms(1) by (rule prefix_length_le)
  then have "set (drop (length (audit_events b)) (audit_events c)) \<subseteq> set (drop (length (audit_events a)) (audit_events c))"
    by (rule set_drop_subset_set_drop)
  then show ?thesis using assms(2) by (auto simp: newly_audited_def)
qed

lemma audited_trans:
  assumes "audited a b" and "audited b c"
  shows "audited a c"
proof -
  have pre: "prefix (audit_events a) (audit_events b)" "prefix (audit_events b) (audit_events c)"
    using assms by (simp_all add: audited_def)
  note carry = newly_audited_left [OF _ pre(2)] newly_audited_right [OF pre(1)]
  have ops: "(\<exists>r. find_row o_id oid (operations a) = Some r \<and> o_status r = o_status r') \<or> newly_audited oid a c"
    if "find_row o_id oid (operations c) = Some r'" "settled_status (o_status r')" for oid r'
    using that assms carry unfolding audited_def by metis
  have nodes: "(\<exists>r. find_row n_id oid (node_operations a) = Some r \<and> n_status r = n_status r') \<or> newly_audited oid a c"
    if "find_row n_id oid (node_operations c) = Some r'" "settled_status (n_status r')" for oid r'
    using that assms carry unfolding audited_def by metis
  show ?thesis
    unfolding audited_def using ops nodes prefix_order.trans [OF pre] by blast
qed

lemma audited_step:
  assumes step: "store_step ev d d'"
  shows "audited d d'"
proof -
  have "(\<exists>r. find_row o_id oid (operations d) = Some r \<and> o_status r = o_status r') \<or> newly_audited oid d d'"
    if "find_row o_id oid (operations d') = Some r'" "settled_status (o_status r')" for oid r'
  proof -
    have "o_id r' = oid" using find_row_Some [OF that(1)] by simp
    then show ?thesis
      using store_step_row [OF step that(1)] step that(2) settled_audited
      by (auto simp: row_step_def settled_status_def)
  qed
  moreover have "(\<exists>r. find_row n_id oid (node_operations d) = Some r \<and> n_status r = n_status r') \<or> newly_audited oid d d'"
    if "find_row n_id oid (node_operations d') = Some r'" "settled_status (n_status r')" for oid r'
  proof -
    have "n_id r' = oid" using find_row_Some [OF that(1)] by simp
    then show ?thesis
      using store_step_node_row [OF step that(1)] step that(2) settled_audited
      by (auto simp: node_row_step_def settled_status_def)
  qed
  ultimately show ?thesis
    using store_step_logs [OF step] by (simp add: audited_def logs_kept_def)
qed

interpretation audits: db_relation audited
proof unfold_locales
  show "audited d d" for d by (simp add: audited_def)
qed (rule audited_trans)

interpretation audit_trail: store_relation "on_db audited" ext for ext
proof unfold_locales
  fix w :: world and d assume "same_core (w_db w) d"
  then show "on_db audited w (w\<lparr>w_db := d\<rparr>)" by (simp add: on_db_def audited_def same_core_def)
next
  fix w0 w ev d assume "on_db audited w0 w" "store_step ev (w_db w) d"
  then show "on_db audited w0 (w\<lparr>w_db := d\<rparr>)"
    unfolding on_db_def using audited_trans audited_step by auto
  then show "on_db audited w0 (w\<lparr>w_db := d\<rparr>)" .
qed (auto simp: on_db_def audits.T_refl)

section \<open>Observed successes\<close>

text \<open>
  Whatever became \<open>SUCCESS\<close> between two worlds was shown by an observation made in between
  (the tables having their primary keys).
\<close>

definition justified :: "external \<Rightarrow> world \<Rightarrow> world \<Rightarrow> bool" where
  "justified ext w w' \<longleftrightarrow>
     w_calls w \<le> w_calls w' \<and> history_kept (w_db w) (w_db w') \<and>
     (unique_keys (w_db w) \<longrightarrow> unique_keys (w_db w') \<and>
       (\<forall>oid r'. find_row o_id oid (operations (w_db w')) = Some r' \<longrightarrow> o_status r' = SUCCESS \<longrightarrow>
          (\<exists>r. find_row o_id oid (operations (w_db w)) = Some r \<and> o_status r = SUCCESS) \<or>
          shown ext (w_calls w) (w_calls w') r') \<and>
       (\<forall>oid r'. find_row n_id oid (node_operations (w_db w')) = Some r' \<longrightarrow> n_status r' = SUCCESS \<longrightarrow>
          (\<exists>r. find_row n_id oid (node_operations (w_db w)) = Some r \<and> n_status r = SUCCESS) \<or>
          node_shown ext (w_calls w) (w_calls w') r'))"

lemma justified_op:
  assumes "justified ext w w'" and "unique_keys (w_db w)"
    and "find_row o_id oid (operations (w_db w')) = Some r'" and "o_status r' = SUCCESS"
  shows "(\<exists>r. find_row o_id oid (operations (w_db w)) = Some r \<and> o_status r = SUCCESS) \<or>
    shown ext (w_calls w) (w_calls w') r'"
  using assms unfolding justified_def by blast

lemma justified_node:
  assumes "justified ext w w'" and "unique_keys (w_db w)"
    and "find_row n_id oid (node_operations (w_db w')) = Some r'" and "n_status r' = SUCCESS"
  shows "(\<exists>r. find_row n_id oid (node_operations (w_db w)) = Some r \<and> n_status r = SUCCESS) \<or>
    node_shown ext (w_calls w) (w_calls w') r'"
  using assms unfolding justified_def by blast

lemma history_op_row:
  assumes "history_kept d d'" and "find_row o_id oid (operations d) = Some r"
    and "find_row o_id oid (operations d') = Some r'"
  shows "op_same_intent r r'"
  using assms unfolding history_kept_def rows_evolve_def op_evolves_def by fastforce

lemma history_node_row:
  assumes "history_kept d d'" and "find_row n_id oid (node_operations d) = Some r"
    and "find_row n_id oid (node_operations d') = Some r'"
  shows "node_same_intent r r'"
  using assms unfolding history_kept_def rows_evolve_def node_evolves_def by fastforce

lemma justified_trans:
  assumes ab: "justified ext a b" and bc: "justified ext b c"
  shows "justified ext a c"
proof -
  have calls: "w_calls a \<le> w_calls b" "w_calls b \<le> w_calls c"
    and hist: "history_kept (w_db a) (w_db b)" "history_kept (w_db b) (w_db c)"
    and keys: "unique_keys (w_db a) \<Longrightarrow> unique_keys (w_db b)" "unique_keys (w_db b) \<Longrightarrow> unique_keys (w_db c)"
    using assms by (simp_all add: justified_def)
  have "(\<exists>r. find_row o_id oid (operations (w_db a)) = Some r \<and> o_status r = SUCCESS) \<or>
      shown ext (w_calls a) (w_calls c) r3"
    if u: "unique_keys (w_db a)"
      and r3: "find_row o_id oid (operations (w_db c)) = Some r3" "o_status r3 = SUCCESS" for oid r3
    using justified_op [OF bc keys(1) [OF u] r3]
  proof
    assume "shown ext (w_calls b) (w_calls c) r3"
    then show ?thesis using calls shown_mono by blast
  next
    assume "\<exists>r. find_row o_id oid (operations (w_db b)) = Some r \<and> o_status r = SUCCESS"
    then obtain r2 where r2: "find_row o_id oid (operations (w_db b)) = Some r2" "o_status r2 = SUCCESS"
      by blast
    from justified_op [OF ab u r2] show ?thesis
      using shown_mono [OF _ order_refl calls(2)] shown_intent [OF _ history_op_row [OF hist(2) r2(1) r3(1)]]
      by blast
  qed
  moreover have "(\<exists>r. find_row n_id oid (node_operations (w_db a)) = Some r \<and> n_status r = SUCCESS) \<or>
      node_shown ext (w_calls a) (w_calls c) r3"
    if u: "unique_keys (w_db a)"
      and r3: "find_row n_id oid (node_operations (w_db c)) = Some r3" "n_status r3 = SUCCESS" for oid r3
    using justified_node [OF bc keys(1) [OF u] r3]
  proof
    assume "node_shown ext (w_calls b) (w_calls c) r3"
    then show ?thesis using calls node_shown_mono by blast
  next
    assume "\<exists>r. find_row n_id oid (node_operations (w_db b)) = Some r \<and> n_status r = SUCCESS"
    then obtain r2 where r2: "find_row n_id oid (node_operations (w_db b)) = Some r2" "n_status r2 = SUCCESS"
      by blast
    from justified_node [OF ab u r2] show ?thesis
      using node_shown_mono [OF _ order_refl calls(2)]
        node_shown_intent [OF _ history_node_row [OF hist(2) r2(1) r3(1)]]
      by blast
  qed
  ultimately show ?thesis
    using calls keys history.T_trans [OF hist] unfolding justified_def by auto
qed

lemma justified_same_db:
  "operations (w_db w') = operations (w_db w) \<Longrightarrow> node_operations (w_db w') = node_operations (w_db w) \<Longrightarrow>
   history_kept (w_db w) (w_db w') \<Longrightarrow> w_calls w \<le> w_calls w' \<Longrightarrow> justified ext w w'"
  by (simp add: justified_def unique_keys_def)

lemma justified_step:
  assumes R: "justified ext w0 w" and step: "store_step ev (w_db w) d" and ok: "step_ok ext w0 w ev"
  shows "justified ext w0 (w\<lparr>w_db := d\<rparr>)"
proof -
  have "(\<exists>r. find_row o_id oid (operations (w_db w0)) = Some r \<and> o_status r = SUCCESS) \<or>
      shown ext (w_calls w0) (w_calls w) r'"
    if u: "unique_keys (w_db w0)"
      and r': "find_row o_id oid (operations d) = Some r'" "o_status r' = SUCCESS" for oid r'
  proof -
    have id: "o_id r' = oid" using find_row_Some [OF r'(1)] by simp
    consider r where "find_row o_id oid (operations (w_db w)) = Some r" "op_same_intent r r'" "o_status r = SUCCESS"
      | r where "find_row o_id oid (operations (w_db w)) = Some r" "op_same_intent r r'" "ev = Settled oid SUCCESS"
      using store_step_row [OF step r'(1)] r'(2) id by (auto simp: row_step_def)
    then show ?thesis
    proof cases
      case 1
      then show ?thesis using justified_op [OF R u 1(1,3)] shown_intent by blast
    next
      case 2
      then show ?thesis using ok u shown_intent by auto
    qed
  qed
  moreover have "(\<exists>r. find_row n_id oid (node_operations (w_db w0)) = Some r \<and> n_status r = SUCCESS) \<or>
      node_shown ext (w_calls w0) (w_calls w) r'"
    if u: "unique_keys (w_db w0)"
      and r': "find_row n_id oid (node_operations d) = Some r'" "n_status r' = SUCCESS" for oid r'
  proof -
    have id: "n_id r' = oid" using find_row_Some [OF r'(1)] by simp
    consider r where "find_row n_id oid (node_operations (w_db w)) = Some r" "node_same_intent r r'" "n_status r = SUCCESS"
      | r where "find_row n_id oid (node_operations (w_db w)) = Some r" "node_same_intent r r'" "ev = NodeSettled oid SUCCESS"
      using store_step_node_row [OF step r'(1)] r'(2) id by (auto simp: node_row_step_def)
    then show ?thesis
    proof cases
      case 1
      then show ?thesis using justified_node [OF R u 1(1,3)] node_shown_intent by blast
    next
      case 2
      then show ?thesis using ok u node_shown_intent by auto
    qed
  qed
  ultimately show ?thesis
    using R history.T_trans [OF _ store_step_history [OF step]] unique_keys_step [OF step]
    unfolding justified_def by simp
qed

interpretation success: store_relation "justified ext" ext for ext
proof unfold_locales
  fix w :: world and d assume "same_core (w_db w) d"
  then show "justified ext w (w\<lparr>w_db := d\<rparr>)"
    by (intro justified_same_db) (auto simp: same_core_def history_same_core)
next
  fix a b c assume "justified ext a b" "justified ext b c"
  then show "justified ext a c" by (rule justified_trans)
next
  fix w0 w ev d assume "justified ext w0 w" "store_step ev (w_db w) d" "step_ok ext w0 w ev"
  then show "justified ext w0 (w\<lparr>w_db := d\<rparr>)" by (rule justified_step)
  then show "justified ext w0 (w\<lparr>w_db := d\<rparr>)" .
qed (auto intro!: justified_same_db simp: history.T_refl simp: justified_def)

section \<open>Exclusive operations\<close>

text \<open>\<open>opens_nothing\<close>: the same rows, and what was finished stays finished.\<close>

definition op_closes :: "OperationRecord \<Rightarrow> OperationRecord \<Rightarrow> bool" where
  "op_closes r r' \<longleftrightarrow> op_same_intent r r' \<and> (status_terminal (o_status r) \<longrightarrow> status_terminal (o_status r'))"

definition node_closes :: "NodeOperationRecord \<Rightarrow> NodeOperationRecord \<Rightarrow> bool" where
  "node_closes r r' \<longleftrightarrow> node_same_intent r r' \<and> (status_terminal (n_status r) \<longrightarrow> status_terminal (n_status r'))"

definition opens_nothing :: "database \<Rightarrow> database \<Rightarrow> bool" where
  "opens_nothing d d' \<longleftrightarrow>
     list_all2 op_closes (operations d) (operations d') \<and>
     list_all2 node_closes (node_operations d) (node_operations d')"

lemma closes_refl [simp]: "op_closes r r" "node_closes n n"
  by (simp_all add: op_closes_def node_closes_def)

lemma closes_trans: "op_closes a b \<Longrightarrow> op_closes b c \<Longrightarrow> op_closes a c"
    "node_closes x y \<Longrightarrow> node_closes y z \<Longrightarrow> node_closes x z"
  by (auto simp: op_closes_def node_closes_def op_same_intent_def node_same_intent_def)

interpretation openings: db_relation opens_nothing
proof unfold_locales
  show "opens_nothing d d" for d by (simp add: opens_nothing_def list_all2_refl)
  have ops: "list_all2 op_closes xs zs" if "list_all2 op_closes xs ys" "list_all2 op_closes ys zs" for xs ys zs
    by (rule list_all2_trans [OF closes_trans(1) that])
  have nodes: "list_all2 node_closes xs zs" if "list_all2 node_closes xs ys" "list_all2 node_closes ys zs" for xs ys zs
    by (rule list_all2_trans [OF closes_trans(2) that])
  show "opens_nothing a c" if "opens_nothing a b" "opens_nothing b c" for a b c
    using that ops nodes unfolding opens_nothing_def by fast
qed

lemma list_all2_update_rows:
  "(\<And>r. P r \<Longrightarrow> Q r (g r)) \<Longrightarrow> (\<And>r. Q r r) \<Longrightarrow> list_all2 Q rows (update_rows P g rows)"
  by (auto simp: update_rows_def list_all2_conv_all_nth)

lemma opens_nothing_step:
  assumes "store_step ev d d'" and "\<not> is_start ev"
  shows "opens_nothing d d'"
  using assms
proof (cases rule: store_step.cases)
  case (noted P g)
  then show ?thesis
    unfolding opens_nothing_def
    by (auto simp: list_all2_refl op_closes_def op_same_outcome_def intro!: list_all2_update_rows)
next
  case (advanced oid g)
  then show ?thesis
    unfolding opens_nothing_def by (auto simp: list_all2_refl op_closes_def intro!: list_all2_update_rows)
next
  case (settled oid P g st)
  then show ?thesis
    unfolding opens_nothing_def by (auto simp: list_all2_refl op_closes_def intro!: list_all2_update_rows)
next
  case (node_advanced oid g)
  then show ?thesis
    unfolding opens_nothing_def by (auto simp: list_all2_refl node_closes_def intro!: list_all2_update_rows)
next
  case (node_settled oid P g st)
  then show ?thesis
    unfolding opens_nothing_def by (auto simp: list_all2_refl node_closes_def intro!: list_all2_update_rows)
qed auto

interpretation closing: locked_recovery_relation "on_db opens_nothing" ext for ext
proof unfold_locales
  fix w :: world and d assume "same_core (w_db w) d"
  then show "on_db opens_nothing w (w\<lparr>w_db := d\<rparr>)"
    by (simp add: on_db_def opens_nothing_def same_core_def list_all2_refl)
next
  fix w0 w ev d assume "on_db opens_nothing w0 w" "store_step ev (w_db w) d" "\<not> is_start ev"
  then show "on_db opens_nothing w0 (w\<lparr>w_db := d\<rparr>)"
    unfolding on_db_def using openings.T_trans opens_nothing_step by auto
qed (simp add: on_db_def openings.T_refl)

lemma filter_shrinks:
  assumes "list_all2 Q xs ys" and "\<And>x y. Q x y \<Longrightarrow> P y \<Longrightarrow> P x"
  shows "length (filter P ys) \<le> length (filter P xs)"
  using assms(1)
proof (induction rule: list_all2_induct)
  case (Cons x xs y ys)
  then show ?case using assms(2) [of x y] by auto
qed simp

lemma claims_shrink:
  assumes "opens_nothing d d'"
  shows "length (nonTerminalForService c sid d') \<le> length (nonTerminalForService c sid d)"
    and "length (nonTerminalAffectingService c sid d') \<le> length (nonTerminalAffectingService c sid d)"
    and "length (nonTerminalForNode c nid d') \<le> length (nonTerminalForNode c nid d)"
    and "map o_id (operations d') = map o_id (operations d)"
    and "map n_id (node_operations d') = map n_id (node_operations d)"
proof -
  have ops: "list_all2 op_closes (operations d) (operations d')"
    and nodes: "list_all2 node_closes (node_operations d) (node_operations d')"
    using assms by (simp_all add: opens_nothing_def)
  show "length (nonTerminalForService c sid d') \<le> length (nonTerminalForService c sid d)"
    unfolding nonTerminalForService_def
    by (rule filter_shrinks [OF ops]) (auto simp: op_closes_def op_same_intent_def)
  show "length (nonTerminalAffectingService c sid d') \<le> length (nonTerminalAffectingService c sid d)"
    unfolding nonTerminalAffectingService_def
    by (rule filter_shrinks [OF nodes]) (auto simp: node_closes_def node_same_intent_def)
  show "length (nonTerminalForNode c nid d') \<le> length (nonTerminalForNode c nid d)"
    unfolding nonTerminalForNode_def
    by (rule filter_shrinks [OF nodes]) (auto simp: node_closes_def node_same_intent_def)
  show "map o_id (operations d') = map o_id (operations d)"
    using ops by (induction rule: list_all2_induct) (auto simp: op_closes_def op_same_intent_def)
  show "map n_id (node_operations d') = map n_id (node_operations d)"
    using nodes by (induction rule: list_all2_induct) (auto simp: node_closes_def node_same_intent_def)
qed

lemma exclusive_shrinks:
  assumes "exclusive d" and "opens_nothing d d'"
  shows "exclusive d'"
  unfolding exclusive_def unique_keys_def claims_shrink(4,5) [OF assms(2)]
proof (intro conjI allI)
  show "distinct (map o_id (operations d))" "distinct (map n_id (node_operations d))"
    using assms(1) by (simp_all add: exclusive_def unique_keys_def)
  show "length (nonTerminalForService c sid d') + length (nonTerminalAffectingService c sid d') \<le> 1" for c sid
    using assms(1) claims_shrink(1,2) [OF assms(2), of c sid] unfolding exclusive_def
    by (meson add_mono le_trans)
  show "length (nonTerminalForNode c nid d') \<le> 1" for c nid
    using assms(1) claims_shrink(3) [OF assms(2), of c nid] unfolding exclusive_def
    by (meson le_trans)
qed

definition keeps_exclusive :: "external \<Rightarrow> database \<Rightarrow> database \<Rightarrow> bool" where
  "keeps_exclusive ext d d' \<longleftrightarrow> (canonical_ids ext \<and> exclusive d \<longrightarrow> exclusive d')"

lemma exclusive_started:
  assumes "exclusive d" and step: "store_step (Started r) d d'"
    and free: "unclaimed (o_clusterId r) (o_serviceId r) d"
  shows "exclusive d'"
proof -
  have rows: "operations d' = operations d @ [r]" "node_operations d' = node_operations d"
    and new: "find_row o_id (o_id r) (operations d) = None"
    using step by (auto elim: store_step_cases)
  have "distinct (map o_id (operations d @ [r]))"
    using assms(1) new by (auto simp: exclusive_def unique_keys_def find_row_None)
  moreover have "length (nonTerminalForService c sid d') + length (nonTerminalAffectingService c sid d') \<le> 1" for c sid
    using assms(1) free
    by (cases "c = o_clusterId r \<and> sid = o_serviceId r")
       (auto simp: exclusive_def unclaimed_def nonTerminalForService_def nonTerminalAffectingService_def rows)
  ultimately show ?thesis
    using assms(1) by (simp add: exclusive_def unique_keys_def nonTerminalForNode_def rows)
qed

lemma exclusive_node_started:
  assumes "exclusive d" and step: "store_step (NodeStarted r) d d'"
    and free: "nonTerminalForNode (n_clusterId r) (n_nodeId r) d = []"
      "\<forall>sid \<in> set (n_affectedServiceIds r). unclaimed (n_clusterId r) sid d"
  shows "exclusive d'"
proof -
  have rows: "node_operations d' = node_operations d @ [r]" "operations d' = operations d"
    and new: "find_row n_id (n_id r) (node_operations d) = None"
    using step by (auto elim: store_step_cases)
  have "distinct (map n_id (node_operations d @ [r]))"
    using assms(1) new by (auto simp: exclusive_def unique_keys_def find_row_None)
  moreover have "length (nonTerminalForService c sid d') + length (nonTerminalAffectingService c sid d') \<le> 1" for c sid
    using assms(1) free(2)
    by (cases "c = n_clusterId r \<and> sid \<in> set (n_affectedServiceIds r)")
       (auto simp: exclusive_def unclaimed_def nonTerminalForService_def nonTerminalAffectingService_def rows)
  moreover have "length (nonTerminalForNode c nid d') \<le> 1" for c nid
    using assms(1) free(1)
    by (cases "c = n_clusterId r \<and> nid = n_nodeId r")
       (auto simp: exclusive_def nonTerminalForNode_def rows)
  ultimately show ?thesis
    using assms(1) by (simp add: exclusive_def unique_keys_def rows)
qed

interpretation exclusion: store_relation "on_db (keeps_exclusive ext)" ext for ext
proof unfold_locales
  fix w :: world and d assume "same_core (w_db w) d"
  then show "on_db (keeps_exclusive ext) w (w\<lparr>w_db := d\<rparr>)"
    by (simp add: on_db_def keeps_exclusive_def same_core_def exclusive_def unique_keys_def nonTerminalForService_def
        nonTerminalAffectingService_def nonTerminalForNode_def)
next
  fix w0 w ev d
  assume "on_db (keeps_exclusive ext) w0 w" and "store_step ev (w_db w) d" and "\<not> is_start ev"
  then show "on_db (keeps_exclusive ext) w0 (w\<lparr>w_db := d\<rparr>)"
    unfolding on_db_def keeps_exclusive_def using exclusive_shrinks opens_nothing_step by auto
next
  fix w0 w ev d
  assume R: "on_db (keeps_exclusive ext) w0 w" and step: "store_step ev (w_db w) d" and "is_start ev"
    and ok: "step_ok ext w0 w ev"
  have "exclusive d" if c: "canonical_ids ext \<and> exclusive (w_db w0)"
  proof -
    have ex: "exclusive (w_db w)" using R c by (simp add: on_db_def keeps_exclusive_def)
    show ?thesis
    proof (cases ev)
      case (Started r)
      then show ?thesis using exclusive_started [OF ex step [unfolded Started]] ok c by simp
    next
      case (NodeStarted r)
      then show ?thesis using exclusive_node_started [OF ex step [unfolded NodeStarted]] ok c by simp
    qed (use \<open>is_start ev\<close> in auto)
  qed
  then show "on_db (keeps_exclusive ext) w0 (w\<lparr>w_db := d\<rparr>)"
    by (simp add: on_db_def keeps_exclusive_def)
qed (auto simp: on_db_def keeps_exclusive_def)

section \<open>Dispatch\<close>

definition sends_nothing :: "world \<Rightarrow> world \<Rightarrow> bool" where
  "sends_nothing w w' \<longleftrightarrow> w_sent w' = w_sent w"

interpretation silent: db_blind_relation sends_nothing
  by unfold_locales (auto simp: sends_nothing_def)

interpretation silence: locked_recovery_relation sends_nothing ext for ext
  by unfold_locales (auto simp: sends_nothing_def)

text \<open>
  Every mutation handed to transport is a recorded intent under its locks, and sanctioned by the
  dispatch journal.
\<close>

definition dispatches_intents :: "external \<Rightarrow> world \<Rightarrow> world \<Rightarrow> bool" where
  "dispatches_intents ext w w' \<longleftrightarrow>
     (\<exists>new. w_sent w' = w_sent w @ new \<and> list_all (\<lambda>s. dispatch_ok ext s \<and> sanctioned ext s) new)"

lemma dispatches_intents_trans:
  assumes "dispatches_intents ext a b" and "dispatches_intents ext b c"
  shows "dispatches_intents ext a c"
proof -
  obtain xs ys where "w_sent b = w_sent a @ xs" "w_sent c = w_sent b @ ys"
      "list_all (\<lambda>s. dispatch_ok ext s \<and> sanctioned ext s) xs" "list_all (\<lambda>s. dispatch_ok ext s \<and> sanctioned ext s) ys"
    using assms unfolding dispatches_intents_def by blast
  then show ?thesis
    unfolding dispatches_intents_def by (intro exI [of _ "xs @ ys"]) simp
qed

lemma dispatches_intents_same: "w_sent w' = w_sent w \<Longrightarrow> dispatches_intents ext w w'"
  by (simp add: dispatches_intents_def)

interpretation dispatching: store_relation "dispatches_intents ext" ext for ext
proof unfold_locales
  fix a b c assume "dispatches_intents ext a b" "dispatches_intents ext b c"
  then show "dispatches_intents ext a c" by (rule dispatches_intents_trans)
next
  fix w0 w req w'
  show "dispatchable ext (dispatches_intents ext) w0 w req \<Longrightarrow> quiet w w' \<Longrightarrow>
      dispatchable ext (dispatches_intents ext) w0 w' req"
    by (rule dispatchable_quiet)
next
  fix req w0 and w :: world
  assume R: "dispatches_intents ext w0 w" and "dispatchable ext (dispatches_intents ext) w0 w req"
    and "sanctioned ext (sentNow req w)"
  then have "dispatches_intents ext w (w\<lparr>w_sent := w_sent w @ [sentNow req w]\<rparr>)"
    by (simp add: dispatches_intents_def dispatchable_def)
  with R show "dispatches_intents ext w0 (w\<lparr>w_sent := w_sent w @ [sentNow req w]\<rparr>)"
    by (rule dispatches_intents_trans)
qed (auto simp: dispatches_intents_def)

text \<open>No operation is dispatched twice, and none that was recorded before the run.\<close>

definition sends_once :: "world \<Rightarrow> world \<Rightarrow> bool" where
  "sends_once w w' \<longleftrightarrow>
     recorded (w_db w) \<subseteq> recorded (w_db w') \<and>
     (\<exists>new. w_sent w' = w_sent w @ new \<and> distinct (map sent_key new) \<and>
        set (map sent_key new) \<inter> recorded (w_db w) = {} \<and> set (map sent_key new) \<subseteq> recorded (w_db w'))"

lemma sends_once_trans:
  assumes "sends_once a b" and "sends_once b c"
  shows "sends_once a c"
proof -
  obtain xs where xs: "w_sent b = w_sent a @ xs" "distinct (map sent_key xs)"
      "set (map sent_key xs) \<inter> recorded (w_db a) = {}" "set (map sent_key xs) \<subseteq> recorded (w_db b)"
    using assms(1) unfolding sends_once_def by blast
  obtain ys where ys: "w_sent c = w_sent b @ ys" "distinct (map sent_key ys)"
      "set (map sent_key ys) \<inter> recorded (w_db b) = {}" "set (map sent_key ys) \<subseteq> recorded (w_db c)"
    using assms(2) unfolding sends_once_def by blast
  have "recorded (w_db a) \<subseteq> recorded (w_db b)" "recorded (w_db b) \<subseteq> recorded (w_db c)"
    using assms unfolding sends_once_def by blast+
  then show ?thesis
    unfolding sends_once_def using xs ys
    by (intro conjI exI [of _ "xs @ ys"]) (simp_all, blast+)
qed

lemma sends_once_sent:
  assumes R: "sends_once w0 w" and "dispatchable ext sends_once w0 w req"
  shows "sends_once w0 (w\<lparr>w_sent := w_sent w @ [sentNow req w]\<rparr>)"
proof -
  let ?s = "sentNow req w"
  obtain wp where wp: "sends_once w0 wp" "w_sent wp = w_sent w" "sent_key ?s \<notin> recorded (w_db wp)"
    using assms(2) unfolding dispatchable_def by blast
  have new: "sent_key ?s \<in> recorded (w_db w)"
    using dispatch_ok_recorded assms(2) by (fastforce simp: dispatchable_def sentNow_def)
  obtain xs where xs: "w_sent w = w_sent w0 @ xs" "distinct (map sent_key xs)"
      "set (map sent_key xs) \<inter> recorded (w_db w0) = {}" "set (map sent_key xs) \<subseteq> recorded (w_db w)"
    using R unfolding sends_once_def by blast
  have "set (map sent_key xs) \<subseteq> recorded (w_db wp)" "recorded (w_db w0) \<subseteq> recorded (w_db wp)"
    using wp(1,2) xs(1) unfolding sends_once_def by auto
  then have "sent_key ?s \<notin> set (map sent_key xs)" "sent_key ?s \<notin> recorded (w_db w0)"
    using wp(3) by blast+
  then show ?thesis
    using R xs new unfolding sends_once_def by (intro conjI exI [of _ "xs @ [?s]"]) auto
qed

lemma rows_evolve_keys:
  assumes "rows_evolve key E rows rows'"
  shows "key ` set rows \<subseteq> key ` set rows'"
proof
  fix k assume "k \<in> key ` set rows"
  then have "find_row key k rows \<noteq> None" by (auto simp: find_row_None)
  then obtain r' where "find_row key k rows' = Some r'"
    using assms unfolding rows_evolve_def by blast
  then show "k \<in> key ` set rows'" using find_row_Some by force
qed

lemma recorded_keys:
  "recorded d = (\<lambda>k. (False, Some k)) ` o_id ` set (operations d) \<union> (\<lambda>k. (True, Some k)) ` n_id ` set (node_operations d)"
  by (simp add: recorded_def image_image)

lemma recorded_step:
  assumes "store_step ev d d'"
  shows "recorded d \<subseteq> recorded d'"
proof -
  have "o_id ` set (operations d) \<subseteq> o_id ` set (operations d')"
      "n_id ` set (node_operations d) \<subseteq> n_id ` set (node_operations d')"
    using store_step_history [OF assms] rows_evolve_keys unfolding history_kept_def by blast+
  then show ?thesis unfolding recorded_keys by (meson Un_mono image_mono)
qed

interpretation once: store_relation sends_once ext for ext
proof unfold_locales
  fix a b c assume "sends_once a b" "sends_once b c"
  then show "sends_once a c" by (rule sends_once_trans)
next
  fix w0 w req w'
  show "dispatchable ext sends_once w0 w req \<Longrightarrow> quiet w w' \<Longrightarrow> dispatchable ext sends_once w0 w' req"
    by (rule dispatchable_quiet)
next
  fix req w0 and w :: world
  assume "sends_once w0 w" "dispatchable ext sends_once w0 w req"
  then show "sends_once w0 (w\<lparr>w_sent := w_sent w @ [sentNow req w]\<rparr>)" by (rule sends_once_sent)
next
  fix w0 w ev d assume "sends_once w0 w" "store_step ev (w_db w) d"
  then show "sends_once w0 (w\<lparr>w_db := d\<rparr>)"
    using recorded_step unfolding sends_once_def by fastforce
  then show "sends_once w0 (w\<lparr>w_db := d\<rparr>)" .
next
  fix w :: world and d assume "same_core (w_db w) d"
  then have "recorded d = recorded (w_db w)" by (simp add: same_core_def recorded_def)
  then show "sends_once w (w\<lparr>w_db := d\<rparr>)" by (simp add: sends_once_def)
qed (simp_all add: sends_once_def)

definition same_locks :: "world \<Rightarrow> world \<Rightarrow> bool" where
  "same_locks w w' \<longleftrightarrow> w_locks w' = w_locks w"

text \<open>Every change of a barrier follows the committed state.\<close>

definition puts_follow :: "external \<Rightarrow> world \<Rightarrow> world \<Rightarrow> bool" where
  "puts_follow ext w w' \<longleftrightarrow> (\<exists>new. w_puts w' = w_puts w @ new \<and> list_all (put_ok ext) new)"

lemma puts_follow_same: "w_puts w' = w_puts w \<Longrightarrow> puts_follow ext w w'"
  by (simp add: puts_follow_def)

lemma puts_follow_trans:
  assumes "puts_follow ext a b" and "puts_follow ext b c"
  shows "puts_follow ext a c"
proof -
  obtain xs ys where "w_puts b = w_puts a @ xs" "w_puts c = w_puts b @ ys"
      "list_all (put_ok ext) xs" "list_all (put_ok ext) ys"
    using assms by (auto simp: puts_follow_def)
  then show ?thesis by (simp add: puts_follow_def)
qed

interpretation fencing: store_relation "puts_follow ext" ext for ext
proof unfold_locales
  fix a b c assume "puts_follow ext a b" "puts_follow ext b c"
  then show "puts_follow ext a c" by (rule puts_follow_trans)
next
  fix w0 w req w'
  show "dispatchable ext (puts_follow ext) w0 w req \<Longrightarrow> quiet w w' \<Longrightarrow> dispatchable ext (puts_follow ext) w0 w' req"
    by (rule dispatchable_quiet)
qed (auto simp: puts_follow_def)

interpretation lock_keeping: db_blind_relation same_locks
  by unfold_locales (auto simp: same_locks_def)

interpretation lock_recovery: recovery_relation same_locks ext for ext
  by unfold_locales (simp add: same_locks_def)

end
