(* ===== verification/Maintenance.thy ===== *)
theory Maintenance
  imports Safety
begin

text \<open>
  Cluster maintenance: the fencing lease of the coordinators
  (\<^verbatim>\<open>clusters/maintenance-control-lease.ts\<close>), the state machine
  \<open>OPEN\<close>, \<open>CLOSING\<close>, \<open>CLOSED\<close>, \<open>RECONCILING\<close> with its guarded transitions
  (\<^verbatim>\<open>clusters/cluster-maintenance.repository.ts\<close>), the count of unresolved dispatches
  (\<^verbatim>\<open>clusters/maintenance-dispatch-evidence.ts\<close>), the calls to single managers of
  \<^verbatim>\<open>agent/http-agent.client.ts\<close> and the barrier over all managers
  (\<^verbatim>\<open>clusters/maintenance-manager-barrier.ts\<close>).

  A generation and a fencing token are \<open>BIGINT UNSIGNED\<close> columns: a statement that would exceed
  \<open>MAX_GENERATION\<close> is rejected by the database. \<open>UTC_TIMESTAMP\<close> is the clock of the world,
  in milliseconds.
  The second part shows that every method keeps the relations of the contract
  (\<open>locked_recovery_relation\<close>): a transition is a \<open>Noted\<close> step of the store.
\<close>

section \<open>The control lease\<close>

definition MAX_GENERATION :: nat where
  "MAX_GENERATION = 18446744073709551615"

record MaintenanceLease =
  ml_clusterId :: string
  ml_holderId :: string
  ml_token :: nat

text \<open>The foreign keys of the maintenance tables refer to the state row of the cluster.\<close>

definition maintained :: "string \<Rightarrow> database \<Rightarrow> bool" where
  "maintained clusterId d \<longleftrightarrow> (\<exists>m \<in> set (cluster_maintenance_states d). ms_clusterId m = clusterId)"

definition renewLease :: "string \<Rightarrow> string \<Rightarrow> nat \<Rightarrow> nat \<Rightarrow> statement" where
  "renewLease clusterId holderId token ttlSeconds now d =
     (let P = (\<lambda>r. cl_clusterId r = clusterId) in
      if token > MAX_GENERATION then Inl (DatabaseError ''Out of range value for column fence_token'')
      else Inr (length (filter P (maintenance_control_leases d)),
        d\<lparr>maintenance_control_leases := update_rows P
            (\<lambda>r. r\<lparr>cl_holderId := holderId, cl_fenceToken := token, cl_expiresAt := now + ttlSeconds * 1000\<rparr>)
            (maintenance_control_leases d)\<rparr>))"

definition insertLease :: "string \<Rightarrow> string \<Rightarrow> nat \<Rightarrow> statement" where
  "insertLease clusterId holderId ttlSeconds now d =
     (if \<not> maintained clusterId d then Inl (DatabaseError ''Cannot add or update a child row'')
      else if \<exists>r \<in> set (maintenance_control_leases d). cl_clusterId r = clusterId
      then Inl (DuplicateEntry ''Duplicate entry for maintenance_control_leases'')
      else Inr (1, d\<lparr>maintenance_control_leases := maintenance_control_leases d @
             [\<lparr>cl_clusterId = clusterId, cl_holderId = holderId, cl_fenceToken = 1,
               cl_expiresAt = now + ttlSeconds * 1000\<rparr>]\<rparr>))"

definition lease_acquire :: "external \<Rightarrow> string \<Rightarrow> nat \<Rightarrow> MaintenanceLease cp" where
  "lease_acquire ext clusterId ttlSeconds =
     (if ttlSeconds < 5 \<or> ttlSeconds > 300 then throwM (ConflictException ''Invalid maintenance lease TTL'')
      else bindM (randomUUID ext) (\<lambda>holderId.
        inTransaction ext
          (bindM (queryAt ext (\<lambda>now d. map_option (\<lambda>r. (cl_fenceToken r, cl_expiresAt r \<le> now))
                    (find_row cl_clusterId clusterId (maintenance_control_leases d)))) (\<lambda>row.
           case row of
             Some (fenceToken, expired) \<Rightarrow>
               if \<not> expired
               then throwM (ConflictException ''Another Control Plane holds the maintenance lease'')
               else thenM (execute ext (renewLease clusterId holderId (fenceToken + 1) ttlSeconds))
                      (retM \<lparr>ml_clusterId = clusterId, ml_holderId = holderId, ml_token = fenceToken + 1\<rparr>)
           | None \<Rightarrow>
               thenM (execute ext (insertLease clusterId holderId ttlSeconds))
                 (retM \<lparr>ml_clusterId = clusterId, ml_holderId = holderId, ml_token = 1\<rparr>)))))"

definition lease_row :: "MaintenanceLease \<Rightarrow> LeaseRow \<Rightarrow> bool" where
  "lease_row lease r \<longleftrightarrow> cl_clusterId r = ml_clusterId lease \<and> cl_holderId r = ml_holderId lease \<and>
     cl_fenceToken r = ml_token lease"

definition owns :: "MaintenanceLease \<Rightarrow> nat \<Rightarrow> database \<Rightarrow> bool" where
  "owns lease now d =
     (length (filter (\<lambda>r. lease_row lease r \<and> now < cl_expiresAt r) (maintenance_control_leases d)) = 1)"

definition lease_assertOwner :: "external \<Rightarrow> MaintenanceLease \<Rightarrow> unit cp" where
  "lease_assertOwner ext lease =
     bindM (queryAt ext (owns lease)) (\<lambda>valid.
     if \<not> valid then throwM (ConflictException ''Maintenance lease is expired or fenced'') else retM ())"

definition expireLease :: "MaintenanceLease \<Rightarrow> statement" where
  "expireLease lease now d =
     Inr (length (filter (lease_row lease) (maintenance_control_leases d)),
       d\<lparr>maintenance_control_leases := update_rows (lease_row lease) (\<lambda>r. r\<lparr>cl_expiresAt := now\<rparr>)
           (maintenance_control_leases d)\<rparr>)"

definition lease_release :: "external \<Rightarrow> MaintenanceLease \<Rightarrow> unit cp" where
  "lease_release ext lease =
     bindM (executeStmt ext (expireLease lease)) (\<lambda>n.
     if n \<noteq> 1 then throwM (ConflictException ''Maintenance lease ownership lost'') else retM ())"

section \<open>The maintenance repository\<close>

definition STATES :: "string list" where
  "STATES = [''OPEN'', ''CLOSING'', ''CLOSED'', ''RECONCILING'']"

definition requireRecord :: "external \<Rightarrow> string \<Rightarrow> MaintenanceStateRow cp" where
  "requireRecord ext clusterId =
     bindM (attempt (maintenance_find ext clusterId)) (\<lambda>r.
     case r of
       Inl e \<Rightarrow> throwM (ServiceUnavailableException ''Cluster maintenance state cannot be verified'')
     | Inr found \<Rightarrow>
         (case found of
            None \<Rightarrow> throwM (ServiceUnavailableException ''Cluster maintenance state is missing or invalid'')
          | Some row \<Rightarrow>
              if ms_state row \<notin> set STATES
              then throwM (ServiceUnavailableException ''Cluster maintenance state is missing or invalid'')
              else if ms_generation row < 1
              then throwM (ConflictException ''Cluster maintenance generation is invalid'')
              else retM row))"

definition clusterAudit :: "string \<Rightarrow> string \<Rightarrow> string \<Rightarrow> string \<Rightarrow> json \<Rightarrow> AuditEventInput" where
  "clusterAudit eventId actorId clusterId action after =
     \<lparr>a_operationId = eventId, a_actorId = actorId, a_clusterId = clusterId, a_serviceId = clusterId,
      a_resourceType = Some ''cluster'', a_resourceId = Some clusterId, a_action = action,
      a_beforeJson = None, a_afterJson = Some after\<rparr>"

definition auditCluster :: "external \<Rightarrow> string \<Rightarrow> string \<Rightarrow> string \<Rightarrow> json \<Rightarrow> unit cp" where
  "auditCluster ext actorId clusterId action after =
     bindM (randomUUID ext) (\<lambda>eventId. op_audit ext (clusterAudit eventId actorId clusterId action after))"

definition boundedReason :: "string \<Rightarrow> bool" where
  "boundedReason reason = (trim reason \<noteq> [] \<and> length reason \<le> 1024)"

definition insertState :: "string \<Rightarrow> string \<Rightarrow> string \<Rightarrow> statement" where
  "insertState clusterId actorId reason now d =
     (if maintained clusterId d then Inl (DuplicateEntry ''Duplicate entry for cluster_maintenance_states'')
      else Inr (1, d\<lparr>cluster_maintenance_states := cluster_maintenance_states d @
             [\<lparr>ms_clusterId = clusterId, ms_state = ''OPEN'', ms_generation = 1, ms_ownerId = actorId,
               ms_reason = reason, ms_changedBy = actorId, ms_changedAt = now\<rparr>]\<rparr>))"

definition initializeOpen :: "external \<Rightarrow> string \<Rightarrow> string \<Rightarrow> string \<Rightarrow> MaintenanceStateRow cp" where
  "initializeOpen ext clusterId actorId reason =
     (if trim actorId = [] \<or> \<not> boundedReason reason
      then throwM (ConflictException ''Maintenance initializer requires actor and bounded reason'')
      else thenM (inTransaction ext
        (bindM (query ext (\<lambda>d. find_row cg_clusterId clusterId (cluster_registrations d))) (\<lambda>registered.
         if registered = None
         then throwM (ConflictException ''Cluster registration is required before maintenance initialization'')
         else bindM (query ext (maintained clusterId)) (\<lambda>existing.
           whenM (\<not> existing)
             (thenM (execute ext (insertState clusterId actorId reason))
                (auditCluster ext actorId clusterId ''CLUSTER_MAINTENANCE_INITIALIZED''
                   (JObj [(''state'', JStr ''OPEN''), (''generation'', JStr ''1''), (''reason'', JStr reason)])))))))
        (requireRecord ext clusterId))"

text \<open>\<open>UPDATE ... SET state = ?, generation = generation + 1 ... WHERE cluster_id = ? AND state = ? AND generation = ?\<close>.\<close>

definition moveState :: "string \<Rightarrow> string \<Rightarrow> nat \<Rightarrow> string \<Rightarrow> string \<Rightarrow> string \<Rightarrow> statement" where
  "moveState clusterId from generation to actorId reason now d =
     (let P = (\<lambda>m. ms_clusterId m = clusterId \<and> ms_state m = from \<and> ms_generation m = generation) in
      if (\<exists>m \<in> set (cluster_maintenance_states d). P m) \<and> generation + 1 > MAX_GENERATION
      then Inl (DatabaseError ''BIGINT UNSIGNED value is out of range'')
      else Inr (length (filter P (cluster_maintenance_states d)),
        d\<lparr>cluster_maintenance_states := update_rows P
            (\<lambda>m. m\<lparr>ms_state := to, ms_generation := ms_generation m + 1, ms_ownerId := actorId,
                    ms_reason := reason, ms_changedBy := actorId, ms_changedAt := now\<rparr>)
            (cluster_maintenance_states d)\<rparr>))"

fun allowedTargets :: "string \<Rightarrow> string list" where
  "allowedTargets expectedState =
     (if expectedState = ''OPEN'' then [''CLOSING''] else if expectedState = ''CLOSING'' then [''CLOSED'']
      else if expectedState = ''CLOSED'' then [''RECONCILING''] else if expectedState = ''RECONCILING'' then [''OPEN'']
      else [])"

definition compareAndSetState ::
    "external \<Rightarrow> string \<Rightarrow> string \<Rightarrow> nat \<Rightarrow> string \<Rightarrow> string \<Rightarrow> string \<Rightarrow> bool cp" where
  "compareAndSetState ext clusterId expectedState expectedGeneration targetState actorId reason =
     (if targetState \<notin> set (allowedTargets expectedState) \<or> expectedGeneration < 1
         \<or> trim actorId = [] \<or> \<not> boundedReason reason
      then throwM (ConflictException ''Invalid maintenance state transition'')
      else bindM (executeStmt ext (moveState clusterId expectedState expectedGeneration targetState actorId reason))
        (\<lambda>n. retM (n = 1)))"

definition requestClosing :: "external \<Rightarrow> string \<Rightarrow> nat \<Rightarrow> string \<Rightarrow> string \<Rightarrow> bool cp" where
  "requestClosing ext clusterId generation actorId reason =
     (if generation < 1 \<or> trim actorId = [] \<or> \<not> boundedReason reason
      then throwM (ConflictException ''Invalid maintenance close request'')
      else bindM (inTransactionUnless ext
        (bindM (executeStmt ext (moveState clusterId ''OPEN'' generation ''CLOSING'' actorId reason)) (\<lambda>n.
         if n \<noteq> 1 then retM None
         else thenM (auditCluster ext actorId clusterId ''CLUSTER_MAINTENANCE_CLOSING''
                (JObj [(''previousState'', JStr ''OPEN''), (''state'', JStr ''CLOSING''),
                       (''generation'', JStr (show_nat (generation + 1))), (''reason'', JStr reason)]))
                (retM (Some ())))))
        (\<lambda>r. retM (r \<noteq> None)))"

subsection \<open>Unresolved work\<close>

definition resolved :: "string \<Rightarrow> EvidenceType \<Rightarrow> string \<Rightarrow> database \<Rightarrow> bool" where
  "resolved clusterId type evidenceId d \<longleftrightarrow>
     (\<exists>r \<in> set (maintenance_evidence_resolutions d).
        er_clusterId r = clusterId \<and> er_type r = type \<and> er_evidenceId r = evidenceId)"

definition unresolvedOperations :: "string \<Rightarrow> database \<Rightarrow> nat" where
  "unresolvedOperations clusterId d =
     length (filter (\<lambda>r. o_clusterId r = clusterId \<and> nonTerminal (o_status r)) (operations d)) +
     length (filter (\<lambda>r. n_clusterId r = clusterId \<and> nonTerminal (n_status r)) (node_operations d))"

definition openAdmissions :: "string \<Rightarrow> database \<Rightarrow> AdmissionRow list" where
  "openAdmissions clusterId d =
     filter (\<lambda>a. ad_clusterId a = clusterId \<and> \<not> resolved (ad_clusterId a) ADMISSION (ad_id a) d)
       (maintenance_active_admissions d)"

definition openDispatches :: "string \<Rightarrow> database \<Rightarrow> DispatchRow list" where
  "openDispatches clusterId d =
     filter (\<lambda>r. di_clusterId r = clusterId \<and> di_phase r \<in> {PREPARED, SENDING, UNCERTAIN} \<and>
               \<not> resolved (di_clusterId r) DISPATCH (di_id r) d)
       (maintenance_dispatches d)"

definition countOrUnavailable :: "external \<Rightarrow> string \<Rightarrow> (database \<Rightarrow> nat) \<Rightarrow> nat cp" where
  "countOrUnavailable ext message count =
     bindM (attempt (query ext count)) (\<lambda>r.
     case r of Inl e \<Rightarrow> throwM (ServiceUnavailableException message) | Inr n \<Rightarrow> retM n)"

definition countUnresolvedOperations :: "external \<Rightarrow> string \<Rightarrow> nat cp" where
  "countUnresolvedOperations ext clusterId =
     countOrUnavailable ext ''Unresolved operation state cannot be verified'' (unresolvedOperations clusterId)"

definition countActiveAdmissions :: "external \<Rightarrow> string \<Rightarrow> nat cp" where
  "countActiveAdmissions ext clusterId =
     countOrUnavailable ext ''In-flight admission evidence unavailable'' (\<lambda>d. length (openAdmissions clusterId d))"

definition countUnresolved :: "external \<Rightarrow> string \<Rightarrow> nat cp" where
  "countUnresolved ext clusterId =
     countOrUnavailable ext ''Dispatch evidence unavailable'' (\<lambda>d. length (openDispatches clusterId d))"

definition requireOpen :: "external \<Rightarrow> string \<Rightarrow> MaintenanceStateRow cp" where
  "requireOpen ext clusterId =
     bindM (requireRecord ext clusterId) (\<lambda>record.
     if ms_state record \<noteq> ''OPEN''
     then throwM (ConflictException ''Cluster is in maintenance; mutation is blocked'') else retM record)"

subsection \<open>Guarded transitions\<close>

definition drained :: "string \<Rightarrow> database \<Rightarrow> bool" where
  "drained clusterId d \<longleftrightarrow>
     openAdmissions clusterId d = [] \<and> unresolvedOperations clusterId d = 0 \<and> openDispatches clusterId d = []"

definition acknowledgements :: "string \<Rightarrow> database \<Rightarrow> BarrierRow list" where
  "acknowledgements clusterId d =
     sort_key ab_agentId (filter (\<lambda>b. ab_clusterId b = clusterId) (maintenance_agent_barriers d))"

definition acknowledgedBy :: "string list \<Rightarrow> nat \<Rightarrow> BarrierRow list \<Rightarrow> bool" where
  "acknowledgedBy expectedIds generation acks \<longleftrightarrow>
     length acks = length expectedIds \<and>
     list_all2 (\<lambda>ack e. ab_agentId ack = e \<and> ab_generation ack = generation \<and> ab_state ack = ''ACKNOWLEDGED'')
       acks expectedIds"

text \<open>The state row selected \<open>FOR UPDATE\<close>, if it has the expected state and generation.\<close>

definition stateIs :: "string \<Rightarrow> string list \<Rightarrow> nat \<Rightarrow> database \<Rightarrow> bool" where
  "stateIs clusterId states generation d \<longleftrightarrow>
     (case find_row ms_clusterId clusterId (cluster_maintenance_states d) of
        None \<Rightarrow> False
      | Some m \<Rightarrow> ms_state m \<in> set states \<and> ms_generation m = generation)"

definition requireDrained :: "external \<Rightarrow> string \<Rightarrow> nat \<Rightarrow> string list \<Rightarrow> string \<Rightarrow> string \<Rightarrow> unit cp" where
  "requireDrained ext clusterId generation expected unresolvedMessage ackMessage =
     bindM (query ext (drained clusterId)) (\<lambda>ok.
     if \<not> ok then throwM (ConflictException unresolvedMessage)
     else bindM (query ext (acknowledgements clusterId)) (\<lambda>acks.
       if \<not> acknowledgedBy expected generation acks then throwM (ConflictException ackMessage) else retM ()))"

definition commitClosed ::
    "external \<Rightarrow> string \<Rightarrow> nat \<Rightarrow> string \<Rightarrow> string \<Rightarrow> string list \<Rightarrow> MaintenanceLease option \<Rightarrow> bool cp" where
  "commitClosed ext clusterId generation actorId reason expectedAgentIds leaseOption =
     (if generation < 1 \<or> trim actorId = [] \<or> trim reason = [] \<or> expectedAgentIds = []
         \<or> \<not> distinct expectedAgentIds \<or> length reason > 1024
      then throwM (ConflictException ''Invalid maintenance closure evidence'')
      else case leaseOption of
        None \<Rightarrow> throwM (ConflictException ''Maintenance closure requires current Control Plane lease'')
      | Some lease \<Rightarrow>
          if ml_clusterId lease \<noteq> clusterId
          then throwM (ConflictException ''Maintenance closure requires current Control Plane lease'')
          else bindM (inTransactionUnless ext
            (thenM (lease_assertOwner ext lease)
            (bindM (query ext (stateIs clusterId [''CLOSING''] generation)) (\<lambda>current.
             if \<not> current then retM None
             else
               (let expected = sort expectedAgentIds in
                thenM (requireDrained ext clusterId generation expected
                         ''Maintenance has unresolved admission, operation or dispatch''
                         ''Complete manager barrier acknowledgement is missing'')
                (bindM (executeStmt ext (moveState clusterId ''CLOSING'' generation ''CLOSED'' actorId reason)) (\<lambda>n.
                 if n \<noteq> 1 then throwM (ConflictException ''Maintenance generation changed'')
                 else thenM (auditCluster ext actorId clusterId ''CLUSTER_MAINTENANCE_CLOSED''
                        (JObj [(''generation'', JStr (show_nat (generation + 1))), (''reason'', JStr reason),
                               (''managerIds'', JArr (map JStr expected))]))
                        (retM (Some ())))))))))
            (\<lambda>r. retM (r \<noteq> None)))"

definition commitRecoveryTransition ::
    "external \<Rightarrow> string \<Rightarrow> nat \<Rightarrow> string \<Rightarrow> string \<Rightarrow> string \<Rightarrow> MaintenanceLease \<Rightarrow> string list \<Rightarrow> bool cp" where
  "commitRecoveryTransition ext clusterId generation actorId reason from lease expectedAgentIds =
     (let to = (if from = ''CLOSED'' then ''RECONCILING'' else ''OPEN'') in
      if ml_clusterId lease \<noteq> clusterId \<or> generation < 1 \<or> trim actorId = [] \<or> \<not> boundedReason reason
      then throwM (ConflictException ''Invalid maintenance recovery ownership'')
      else if to = ''OPEN'' \<and> (expectedAgentIds = [] \<or> \<not> distinct expectedAgentIds)
      then throwM (ConflictException ''Recovery requires all manager acknowledgements'')
      else bindM (inTransactionUnless ext
        (thenM (lease_assertOwner ext lease)
        (bindM (query ext (stateIs clusterId [from] generation)) (\<lambda>current.
         if \<not> current then retM None
         else
           thenM (whenM (to = ''OPEN'')
                   (requireDrained ext clusterId generation (sort expectedAgentIds)
                      ''Reconciliation has unresolved mutation evidence''
                      ''Reconciliation manager barrier ACK mismatch''))
           (bindM (executeStmt ext (moveState clusterId from generation to actorId reason)) (\<lambda>n.
            if n \<noteq> 1 then throwM (ConflictException ''Maintenance recovery changed'')
            else thenM (auditCluster ext actorId clusterId
                     (if to = ''OPEN'' then ''CLUSTER_MAINTENANCE_OPEN'' else ''CLUSTER_MAINTENANCE_RECONCILING'')
                     (JObj [(''from'', JStr from), (''to'', JStr to),
                            (''generation'', JStr (show_nat (generation + 1))), (''reason'', JStr reason)]))
                   (retM (Some ()))))))))
        (\<lambda>r. retM (r \<noteq> None)))"

section \<open>Single managers\<close>

text \<open>
  The roster check of \<open>inspectConfiguredManagers\<close>: every configured Agent reports the same
  managers, as many as there are Agents, and is one of them. \<open>roster\<close> is what the Agents before
  reported. Requests to a given Agent are answers of the environment; there is no failover.
\<close>

fun inspectManagers ::
    "external \<Rightarrow> string \<Rightarrow> nat \<Rightarrow> string list \<Rightarrow> string list option \<Rightarrow> (string \<times> string) list \<Rightarrow>
     (string \<times> string) list cp" where
  "inspectManagers ext clusterId expected [] roster targets =
     (if length (remdups (map snd targets)) \<noteq> expected
      then throwM (PlainError ''Duplicate manager Agent node identities'') else retM targets)"
| "inspectManagers ext clusterId expected (agentId # rest) roster targets =
     bindM (callExternal ext (\<lambda>n. x_agentIdentity ext n agentId)) (\<lambda>identity.
     bindM (callExternal ext (\<lambda>n. x_agentCluster ext n agentId)) (\<lambda>cluster.
     let nodes = sort (map nd_id (filter nd_manager (cv_nodes cluster))) in
     if ai_clusterId identity \<noteq> clusterId \<or> \<not> ai_manager identity \<or> cv_id cluster \<noteq> clusterId
        \<or> \<not> cv_managersAvailable cluster \<or> cv_managersTotal cluster \<noteq> expected
        \<or> length nodes \<noteq> expected \<or> length (remdups nodes) \<noteq> expected \<or> ai_nodeId identity \<notin> set nodes
     then throwM (PlainError ''Manager Agent identity or Swarm manager membership mismatch'')
     else if roster \<noteq> None \<and> roster \<noteq> Some nodes
     then throwM (PlainError ''Swarm manager roster changed between Agent observations'')
     else inspectManagers ext clusterId expected rest (Some nodes) (targets @ [(agentId, ai_nodeId identity)])))"

definition inspectConfiguredManagers :: "external \<Rightarrow> string \<Rightarrow> (string \<times> string) list cp" where
  "inspectConfiguredManagers ext clusterId =
     (if \<not> isBoundedIdentifier clusterId
      then throwM (PlainError ''A fixed Swarm cluster ID is required for manager barriers'')
      else inspectManagers ext clusterId (length (x_agents ext)) (x_agents ext) None [])"

definition barrierMatches :: "string \<Rightarrow> string \<Rightarrow> nat \<Rightarrow> string \<Rightarrow> BarrierResponse \<Rightarrow> bool" where
  "barrierMatches clusterId nodeId generation state response \<longleftrightarrow>
     br_clusterId response = clusterId \<and> br_nodeId response = nodeId \<and>
     br_generation response = show_nat generation \<and> br_state response = state"

text \<open>\<open>PUT /v1/maintenance/barrier\<close>, recorded in \<open>w_puts\<close>.\<close>

definition putBarrier :: "external \<Rightarrow> string \<Rightarrow> string \<Rightarrow> nat \<Rightarrow> string \<Rightarrow> BarrierResponse cp" where
  "putBarrier ext agentId clusterId generation state w =
     callExternal ext (\<lambda>n. x_putBarrier ext n agentId clusterId (show_nat generation) state)
       (w\<lparr>w_puts := w_puts w @ [\<lparr>bp_agentId = agentId, bp_generation = generation, bp_state = state, bp_db = w_db w\<rparr>]\<rparr>)"

definition blockConfiguredManager :: "external \<Rightarrow> string \<Rightarrow> string \<Rightarrow> string \<Rightarrow> nat \<Rightarrow> unit cp" where
  "blockConfiguredManager ext agentId nodeId clusterId generation =
     (if agentId \<notin> set (x_agents ext)
      then throwM (PlainError ''Manager Agent is absent from configured membership'')
      else bindM (putBarrier ext agentId clusterId generation ''BLOCKED'') (\<lambda>response.
        if \<not> barrierMatches clusterId nodeId generation ''BLOCKED'' response
        then throwM (PlainError ''Manager barrier acknowledgement does not match target'') else retM ()))"

definition openConfiguredManager :: "external \<Rightarrow> string \<Rightarrow> string \<Rightarrow> string \<Rightarrow> nat \<Rightarrow> unit cp" where
  "openConfiguredManager ext agentId nodeId clusterId generation =
     (if agentId \<notin> set (x_agents ext) then throwM (PlainError ''Unknown manager Agent during recovery'')
      else bindM (putBarrier ext agentId clusterId generation ''OPEN'') (\<lambda>response.
        if \<not> barrierMatches clusterId nodeId generation ''OPEN'' response
        then throwM (PlainError ''Manager reopen acknowledgement mismatch'') else retM ()))"

definition inspectManagerBarrier :: "external \<Rightarrow> string \<Rightarrow> string \<Rightarrow> string \<Rightarrow> nat \<Rightarrow> string \<Rightarrow> unit cp" where
  "inspectManagerBarrier ext agentId nodeId clusterId generation desiredState =
     (if agentId \<notin> set (x_agents ext) then throwM (PlainError ''Unknown manager Agent'')
      else bindM (callExternal ext (\<lambda>n. x_barrier ext n agentId)) (\<lambda>response.
        if \<not> barrierMatches clusterId nodeId generation desiredState response
        then throwM (PlainError ''Manager barrier state mismatches expected recovery generation'') else retM ()))"

section \<open>All managers\<close>

definition inspectAll :: "external \<Rightarrow> string \<Rightarrow> nat \<Rightarrow> string \<Rightarrow> (string \<times> string) list \<Rightarrow> unit cp" where
  "inspectAll ext swarmClusterId generation desiredState targets =
     forEachM (\<lambda>(agentId, nodeId). inspectManagerBarrier ext agentId nodeId swarmClusterId generation desiredState) targets"

definition requireRoster :: "external \<Rightarrow> string \<Rightarrow> (string \<times> string) list \<Rightarrow> string \<Rightarrow> unit cp" where
  "requireRoster ext swarmClusterId targets message =
     bindM (inspectConfiguredManagers ext swarmClusterId) (\<lambda>fresh.
     if fresh \<noteq> targets then throwM (ConflictException message) else retM ())"

definition openAll :: "external \<Rightarrow> string \<Rightarrow> string \<Rightarrow> nat \<Rightarrow> string list cp" where
  "openAll ext clusterId swarmClusterId generation =
     bindM (requireRecord ext clusterId) (\<lambda>state.
     if ms_state state \<noteq> ''OPEN'' \<or> ms_generation state \<noteq> generation \<or> x_managerClusterId ext \<noteq> Some swarmClusterId
     then throwM (ConflictException ''Recovery requires committed OPEN generation'')
     else bindM (inspectConfiguredManagers ext swarmClusterId) (\<lambda>targets.
       if length targets \<noteq> length (x_agents ext)
       then throwM (ConflictException ''Incomplete manager membership for resume'')
       else
         thenM (forEachM (\<lambda>(agentId, nodeId). openConfiguredManager ext agentId nodeId swarmClusterId generation) targets)
         (thenM (requireRoster ext swarmClusterId targets ''Manager roster changed during resume'')
         (thenM (inspectAll ext swarmClusterId generation ''OPEN'' targets)
         (thenM (requireRoster ext swarmClusterId targets ''Manager roster changed during final resume verification'')
         (bindM (requireRecord ext clusterId) (\<lambda>latest.
          if ms_state latest \<noteq> ''OPEN'' \<or> ms_generation latest \<noteq> generation
          then throwM (ConflictException ''Recovery generation changed while reopening managers'')
          else retM (sort (map fst targets)))))))))"

definition acknowledge :: "string \<Rightarrow> string \<Rightarrow> nat \<Rightarrow> statement" where
  "acknowledge clusterId agentId generation now d =
     (let P = (\<lambda>b. ab_clusterId b = clusterId \<and> ab_agentId b = agentId) in
      if generation > MAX_GENERATION then Inl (DatabaseError ''Out of range value for column generation'')
      else if \<exists>b \<in> set (maintenance_agent_barriers d). P b
      then Inr (2, d\<lparr>maintenance_agent_barriers := update_rows P
             (\<lambda>b. b\<lparr>ab_generation := generation, ab_state := ''ACKNOWLEDGED''\<rparr>) (maintenance_agent_barriers d)\<rparr>)
      else if \<not> maintained clusterId d then Inl (DatabaseError ''Cannot add or update a child row'')
      else Inr (1, d\<lparr>maintenance_agent_barriers := maintenance_agent_barriers d @
             [\<lparr>ab_clusterId = clusterId, ab_agentId = agentId, ab_generation = generation, ab_state = ''ACKNOWLEDGED''\<rparr>]\<rparr>))"

definition blockAll :: "external \<Rightarrow> string \<Rightarrow> string \<Rightarrow> nat \<Rightarrow> string list cp" where
  "blockAll ext clusterId swarmClusterId generation =
     bindM (requireRecord ext clusterId) (\<lambda>state.
     if ms_state state \<notin> {''CLOSING'', ''RECONCILING''} \<or> ms_generation state \<noteq> generation
        \<or> x_managerClusterId ext \<noteq> Some swarmClusterId
     then throwM (ConflictException ''Maintenance generation or registered Swarm mismatch'')
     else bindM (inspectConfiguredManagers ext swarmClusterId) (\<lambda>targets.
       if length targets \<noteq> length (x_agents ext) then throwM (ConflictException ''Incomplete manager membership'')
       else
         thenM (forEachM (\<lambda>(agentId, nodeId).
                  thenM (blockConfiguredManager ext agentId nodeId swarmClusterId generation)
                    (execute ext (acknowledge clusterId agentId generation))) targets)
         (thenM (requireRoster ext swarmClusterId targets ''Manager membership changed during barrier'')
         (thenM (inspectAll ext swarmClusterId generation ''BLOCKED'' targets)
         (thenM (requireRoster ext swarmClusterId targets ''Manager roster changed during final block verification'')
         (bindM (requireRecord ext clusterId) (\<lambda>latest.
          if ms_state latest \<noteq> ms_state state \<or> ms_generation latest \<noteq> generation
          then throwM (ConflictException ''Maintenance generation changed during barrier'')
          else bindM (query ext (acknowledgements clusterId)) (\<lambda>rows.
            let expectedIds = sort (map fst targets) in
            if \<not> acknowledgedBy expectedIds generation rows
            then throwM (ConflictException ''Missing or stale manager barrier acknowledgement'')
            else retM expectedIds))))))))"

section \<open>What maintenance changes\<close>

text \<open>
  \<open>control_step\<close>: the tables of operations and deployments are unchanged, the audit log is
  extended, and the control tables evolve as they may.
\<close>

definition control_step :: "database \<Rightarrow> database \<Rightarrow> bool" where
  "control_step d d' \<longleftrightarrow>
     operations d' = operations d \<and> node_operations d' = node_operations d \<and>
     deployments d' = deployments d \<and> rollback_attempts d' = rollback_attempts d \<and>
     prefix (audit_events d) (audit_events d') \<and> control_kept d d'"

interpretation controlling: db_relation control_step
  by unfold_locales (auto simp: control_step_def intro: control_kept_trans prefix_order.trans)

lemma control_step_noted: "control_step d d' \<Longrightarrow> store_step Noted d d'"
  by (rule store_step.noted [where P = "\<lambda>_. False" and g = "\<lambda>r. r"])
     (auto simp: control_step_def logs_kept_def update_rows_def dep_rows.evolve_refl op_same_intent_def op_same_outcome_def)

context recovery_relation
begin

lemma steps_control:
  assumes "steps (on_db control_step) m" and "steps only_db m"
  shows "steps R m"
proof (rule stepsI)
  fix w r w' assume run: "m w = (r, w')"
  have "store_step Noted (w_db w) (w_db w')"
    using stepsD [OF assms(1) run] by (simp add: on_db_def control_step_noted)
  then have "R w (w\<lparr>w_db := w_db w'\<rparr>)"
    by (rule stored [OF refl]) simp_all
  with stepsD [OF assms(2) run] show "R w w'" by (rule only_db_related)
qed

end

subsection \<open>Statements\<close>

lemma barrier_keys_update [simp]:
  "barrier_keys (d\<lparr>cluster_maintenance_states := x1\<rparr>) = barrier_keys d"
  "barrier_keys (d\<lparr>maintenance_control_leases := x2\<rparr>) = barrier_keys d"
  "barrier_keys (d\<lparr>maintenance_evidence_resolutions := x3\<rparr>) = barrier_keys d"
  by (simp_all add: barrier_keys_def)

lemma nextState_allowed: "to \<in> set (allowedTargets from) \<Longrightarrow> to = nextState from"
  by (auto simp: nextState_def split: if_splits)

lemma moveState_control:
  assumes "moveState c from g to actor reason now d = Inr (n, d')" and "to = nextState from"
  shows "control_step d d'"
proof -
  let ?P = "\<lambda>m. ms_clusterId m = c \<and> ms_state m = from \<and> ms_generation m = g"
  let ?f = "\<lambda>m. m\<lparr>ms_state := to, ms_generation := ms_generation m + 1, ms_ownerId := actor,
                    ms_reason := reason, ms_changedBy := actor, ms_changedAt := now\<rparr>"
  have d': "d' = d\<lparr>cluster_maintenance_states := update_rows ?P ?f (cluster_maintenance_states d)\<rparr>"
    and bound: "\<forall>m \<in> set (cluster_maintenance_states d). ?P m \<longrightarrow> g + 1 \<le> MAX_GENERATION"
    using assms(1) by (auto simp: moveState_def Let_def split: if_splits)
  have "ms_evolves m (?f m)" if "?P m" for m
    using that assms(2) by (simp add: ms_evolves_def)
  then have rows: "rows_evolve ms_clusterId ms_evolves (cluster_maintenance_states d) (cluster_maintenance_states d')"
    unfolding d' using ms_rows.evolve_update [of ?P ?f] by simp
  have "state_ok (?f m)" if "?P m" "state_ok m" "m \<in> set (cluster_maintenance_states d)" for m
  proof -
    have "ms_generation m \<noteq> 0" using that(2) by (simp add: state_ok_def)
    then obtain k where k: "ms_generation m = Suc k" using not0_implies_Suc by blast
    then have "from = (nextState ^^ k) ''OPEN''" "g = Suc k"
      using that(1,2) by (simp_all add: state_ok_def)
    then show ?thesis
      using that bound assms(2) by (auto simp: state_ok_def MAX_GENERATION_def)
  qed
  then have "control_ok d \<longrightarrow> control_ok d'"
    unfolding d' by (auto simp: control_ok_def map_key_update_rows list_all_iff set_update_rows)
  then show ?thesis
    using rows by (simp add: control_step_def control_kept_def d' lease_rows.evolve_refl)
qed

lemma insertState_control:
  assumes "insertState c actor reason now d = Inr (n, d')"
  shows "control_step d d'"
  using assms
  by (auto simp: insertState_def maintained_def control_step_def control_kept_def control_ok_def state_ok_def
      ms_rows.evolve_append lease_rows.evolve_refl split: if_splits)

lemma insertLease_control:
  assumes "insertLease c holder ttl now d = Inr (n, d')"
  shows "control_step d d'"
  using assms
  by (auto simp: insertLease_def control_step_def control_kept_def control_ok_def
      ms_rows.evolve_refl lease_rows.evolve_append split: if_splits)

lemma expireLease_control:
  assumes "expireLease lease now d = Inr (n, d')"
  shows "control_step d d'"
proof -
  have d': "d' = d\<lparr>maintenance_control_leases := update_rows (lease_row lease) (\<lambda>r. r\<lparr>cl_expiresAt := now\<rparr>)
      (maintenance_control_leases d)\<rparr>"
    using assms by (simp add: expireLease_def)
  have "lease_evolves r (r\<lparr>cl_expiresAt := now\<rparr>)" for r by (simp add: lease_evolves_def)
  then show ?thesis
    by (auto simp: d' control_step_def control_kept_def control_ok_def map_key_update_rows
        ms_rows.evolve_refl intro!: lease_rows.evolve_update)
qed

lemma renewLease_control:
  assumes "renewLease c holder (tok + 1) ttl now d = Inr (n, d')"
    and "find_row cl_clusterId c (maintenance_control_leases d) = Some r" and "cl_fenceToken r = tok"
  shows "control_step d d'"
proof -
  let ?f = "\<lambda>r. r\<lparr>cl_holderId := holder, cl_fenceToken := tok + 1, cl_expiresAt := now + ttl * 1000\<rparr>"
  have d': "d' = d\<lparr>maintenance_control_leases := update_rows (\<lambda>r. cl_clusterId r = c) ?f (maintenance_control_leases d)\<rparr>"
    using assms(1) by (auto simp: renewLease_def Let_def split: if_splits)
  have "\<exists>b. find_row cl_clusterId k (maintenance_control_leases d') = Some b \<and> lease_evolves a b"
    if "find_row cl_clusterId k (maintenance_control_leases d) = Some a" for k a
    using that find_row_Some [OF that] assms(2,3)
    by (cases "k = c") (auto simp: d' find_row_update lease_evolves_def)
  then have "rows_evolve cl_clusterId lease_evolves (maintenance_control_leases d) (maintenance_control_leases d')"
    by (simp add: rows_evolve_def)
  then show ?thesis
    by (auto simp: d' control_step_def control_kept_def control_ok_def map_key_update_rows ms_rows.evolve_refl)
qed

lemma acknowledge_control:
  assumes "acknowledge c a g now d = Inr (n, d')"
  shows "control_step d d'"
proof -
  have others: "d' = d\<lparr>maintenance_agent_barriers := maintenance_agent_barriers d'\<rparr>"
    using assms by (auto simp: acknowledge_def Let_def split: if_splits)
  have "barrier_keys d \<subseteq> barrier_keys d'"
    using assms unfolding barrier_keys_def set_map [symmetric]
    by (auto simp: acknowledge_def map_key_update_rows Let_def simp del: set_map split: if_splits)
  then show ?thesis
    by (subst others) (auto simp: control_step_def control_kept_def control_ok_def barrier_keys_def ms_rows.evolve_refl lease_rows.evolve_refl)
qed

subsection \<open>Methods\<close>

lemma control_op_audit [step_intros]: "steps (on_db control_step) (op_audit ext i)"
  unfolding op_audit_def by (rule controlling.steps_write) (auto simp: control_step_def)

lemma control_auditCluster [step_intros]: "steps (on_db control_step) (auditCluster ext actor c action j)"
  unfolding auditCluster_def by (intro step_intros)

lemma control_statements [step_intros]:
  "to = nextState from \<Longrightarrow> steps (on_db control_step) (executeStmt ext (moveState c from g to actor reason))"
  "steps (on_db control_step) (execute ext (insertState c actor reason))"
  "steps (on_db control_step) (execute ext (insertLease c holder ttl))"
  "steps (on_db control_step) (executeStmt ext (expireLease lease))"
  "steps (on_db control_step) (execute ext (acknowledge c a g))"
  by (rule controlling.steps_write controlling.steps_writeStmt; erule moveState_control insertState_control
      insertLease_control expireLease_control acknowledge_control; simp)+

context step_relation
begin

lemma steps_maintenance_reads [step_intros]:
  "steps R (requireRecord ext c)" "steps R (countUnresolvedOperations ext c)"
  "steps R (countActiveAdmissions ext c)" "steps R (countUnresolved ext c)" "steps R (requireOpen ext c)"
  "steps R (lease_assertOwner ext lease)" "steps R (requireDrained ext c g expected m1 m2)"
  unfolding requireRecord_def countUnresolvedOperations_def countActiveAdmissions_def countUnresolved_def
    countOrUnavailable_def requireOpen_def lease_assertOwner_def requireDrained_def
  by (intro step_intros)+

lemma steps_inspectManagers [step_intros]: "steps R (inspectManagers ext c expected agents roster targets)"
  by (induction agents arbitrary: roster targets) (auto simp: Let_def intro!: step_intros)

lemma steps_inspectConfiguredManagers [step_intros]: "steps R (inspectConfiguredManagers ext c)"
  unfolding inspectConfiguredManagers_def by (intro step_intros)

lemma steps_inspectAll [step_intros]: "steps R (inspectAll ext c g st targets)"
  unfolding inspectAll_def inspectManagerBarrier_def
  by (rule steps_forEachM) (auto simp: case_prod_beta intro!: step_intros)

lemma steps_requireRoster [step_intros]: "steps R (requireRoster ext c targets m)"
  unfolding requireRoster_def by (intro step_intros)

end

lemma control_lease_acquire [step_intros]: "steps (on_db control_step) (lease_acquire ext c ttl)"
  unfolding lease_acquire_def
proof (intro controlling.steps_if controlling.steps_throwM controlling.steps_bindM controlling.steps_randomUUID
    controlling.steps_db_transaction, goal_cases)
  case (1 holder w lease w')
  then obtain row w1 where q: "queryAt ext (\<lambda>now d. map_option (\<lambda>r. (cl_fenceToken r, cl_expiresAt r \<le> now))
        (find_row cl_clusterId c (maintenance_control_leases d))) w = (Inr row, w1)"
    and k: "(case row of
        Some (fenceToken, expired) \<Rightarrow>
          if \<not> expired then throwM (ConflictException ''Another Control Plane holds the maintenance lease'')
          else thenM (execute ext (renewLease c holder (fenceToken + 1) ttl))
                 (retM \<lparr>ml_clusterId = c, ml_holderId = holder, ml_token = fenceToken + 1\<rparr>)
      | None \<Rightarrow> thenM (execute ext (insertLease c holder ttl))
          (retM \<lparr>ml_clusterId = c, ml_holderId = holder, ml_token = 1\<rparr>)) w1 = (Inr lease, w')"
    unfolding bindM_OK by blast
  have row: "row = map_option (\<lambda>r. (cl_fenceToken r, cl_expiresAt r \<le> w_clock w))
      (find_row cl_clusterId c (maintenance_control_leases (w_db w)))" and w1: "w_db w1 = w_db w"
    using query_OK [OF q [unfolded queryAt_def]] by auto
  show ?case
  proof (cases "find_row cl_clusterId c (maintenance_control_leases (w_db w))")
    case None
    then show ?thesis
      using k w1 row by (auto simp: OK_simps dest!: execute_OK intro: insertLease_control)
  next
    case (Some r)
    then show ?thesis
      using k w1 row by (auto simp: OK_simps dest!: execute_OK intro: renewLease_control)
  qed
qed

lemma control_methods [step_intros]:
  "steps (on_db control_step) (lease_release ext lease)"
  "steps (on_db control_step) (initializeOpen ext c actor reason)"
  "steps (on_db control_step) (compareAndSetState ext c from g to actor reason)"
  "steps (on_db control_step) (requestClosing ext c g actor reason)"
  "steps (on_db control_step) (commitClosed ext c g actor reason ids leaseOption)"
  unfolding lease_release_def initializeOpen_def compareAndSetState_def requestClosing_def commitClosed_def Let_def
  by (intro step_intros nextState_allowed; simp add: nextState_def)+

lemma control_commitRecoveryTransition [step_intros]:
  "from \<in> {''CLOSED'', ''RECONCILING''} \<Longrightarrow>
   steps (on_db control_step) (commitRecoveryTransition ext c g actor reason from lease ids)"
  unfolding commitRecoveryTransition_def Let_def
  by (intro step_intros) (auto simp: nextState_def)

section \<open>Every method keeps the contract\<close>

lemma only_db_methods [step_intros]:
  "steps only_db (lease_acquire ext c ttl)" "steps only_db (lease_release ext lease)"
  "steps only_db (initializeOpen ext c actor reason)" "steps only_db (compareAndSetState ext c from g to actor reason)"
  "steps only_db (requestClosing ext c g actor reason)"
  "steps only_db (commitClosed ext c g actor reason ids leaseOption)"
  "steps only_db (commitRecoveryTransition ext c g actor reason from lease ids)"
  unfolding lease_acquire_def lease_release_def initializeOpen_def compareAndSetState_def requestClosing_def
    commitClosed_def commitRecoveryTransition_def auditCluster_def Let_def
  by (intro step_intros)+

context recovery_relation
begin

lemma steps_maintenance_writes [step_intros]:
  "steps R (lease_acquire ext c ttl)" "steps R (lease_release ext lease)"
  "steps R (initializeOpen ext c actor reason)" "steps R (compareAndSetState ext c from g to actor reason)"
  "steps R (requestClosing ext c g actor reason)" "steps R (commitClosed ext c g actor reason ids leaseOption)"
  "from \<in> {''CLOSED'', ''RECONCILING''} \<Longrightarrow>
     steps R (commitRecoveryTransition ext c g actor reason from lease ids)"
  "steps R (execute ext (acknowledge c a g))"
  by (rule steps_control; intro step_intros; simp)+

end

interpretation keeping: db_relation "\<lambda>d d'. G d \<longrightarrow> G d'" for G
  by unfold_locales auto

lemma requireRecord_OK:
  assumes "requireRecord ext c w = (Inr m, w')"
  shows "find_row ms_clusterId c (cluster_maintenance_states (w_db w)) = Some m \<and> w_db w' = w_db w"
  using assms unfolding requireRecord_def maintenance_find_def
  by (auto simp: OK_simps dest!: query_OK split: if_splits)

text \<open>Computations that keep the relation and a property \<open>G\<close> of the database, as long as it holds.\<close>

context locked_recovery_relation
begin

definition guarded :: "(database \<Rightarrow> bool) \<Rightarrow> 'a cp \<Rightarrow> bool" where
  "guarded G m \<longleftrightarrow> (\<forall>w. G (w_db w) \<longrightarrow> R w (snd (m w)) \<and> G (w_db (snd (m w))))"

lemma guarded_bindM:
  assumes "guarded G m" and "\<And>x. guarded G (f x)"
  shows "guarded G (bindM m f)"
  unfolding guarded_def
proof (intro allI impI)
  fix w :: world assume G: "G (w_db w)"
  obtain r w1 where m: "m w = (r, w1)" by fastforce
  have w1: "R w w1" "G (w_db w1)" using assms(1) G m by (auto simp: guarded_def)
  show "R w (snd (bindM m f w)) \<and> G (w_db (snd (bindM m f w)))"
  proof (cases r)
    case (Inr x)
    then show ?thesis
      using assms(2) [of x] w1 trans m by (auto simp: guarded_def bindM_def)
  qed (use m w1 in \<open>simp add: bindM_def\<close>)
qed

lemma guarded_thenM: "guarded G m \<Longrightarrow> guarded G k \<Longrightarrow> guarded G (thenM m k)"
  unfolding thenM_def by (rule guarded_bindM)

lemma guarded_forEachM: "(\<And>x. guarded G (f x)) \<Longrightarrow> guarded G (forEachM f xs)"
proof (induction xs)
  case Nil
  then show ?case by (simp add: guarded_def retM_def refl)
qed (simp add: guarded_thenM)

lemma guarded_if: "guarded G m \<Longrightarrow> guarded G k \<Longrightarrow> guarded G (if b then m else k)"
  by simp

lemma guarded_steps: "steps R m \<Longrightarrow> steps (on_db (\<lambda>d d'. G d \<longrightarrow> G d')) m \<Longrightarrow> guarded G m"
  by (auto simp: guarded_def steps_def on_db_def)

lemma guarded_related: "guarded G m \<Longrightarrow> G (w_db w) \<Longrightarrow> R w (snd (m w))"
  by (simp add: guarded_def)

lemmas guarded_intros = guarded_bindM guarded_thenM guarded_forEachM guarded_if

lemma guarded_putBarrier:
  assumes "\<And>d. G d \<Longrightarrow> put_ok ext \<lparr>bp_agentId = a, bp_generation = g, bp_state = st, bp_db = d\<rparr>"
  shows "guarded G (putBarrier ext a s g st)"
proof -
  have "R w (snd (putBarrier ext a s g st w)) \<and> G (w_db (snd (putBarrier ext a s g st w)))" if "G (w_db w)" for w :: world
    using trans [OF put ticked] assms [OF that] that
    by (auto simp: putBarrier_def callExternal_def tick_def)
  then show ?thesis by (simp add: guarded_def)
qed

text \<open>The computations of a barrier that do not change an Agent read only.\<close>

lemma guarded_reads:
  "guarded G (requireRoster ext s targets m)" "guarded G (inspectAll ext s g st targets)"
  "guarded G (inspectConfiguredManagers ext s)" "guarded G (requireRecord ext c)"
  "guarded G (query ext q)" "guarded G (throwM e)" "guarded G (retM x)"
  by (rule guarded_steps; intro step_intros)+

lemma guarded_managers:
  "guarded (stateIs (x_clusterId ext) [''OPEN''] g) (openConfiguredManager ext a nid s g)"
  "guarded (stateIs (x_clusterId ext) [''CLOSING'', ''RECONCILING''] g) (blockConfiguredManager ext a nid s g)"
  unfolding openConfiguredManager_def blockConfiguredManager_def
  by (intro guarded_intros guarded_reads guarded_putBarrier; simp add: stateIs_def put_ok_def split: option.splits)+

lemma keeps_acknowledge:
  "steps (on_db (\<lambda>d d'. stateIs c sts g d \<longrightarrow> stateIs c sts g d')) (execute ext (acknowledge c' a g'))"
  by (rule keeping.steps_write) (auto simp: acknowledge_def stateIs_def Let_def split: if_splits)

lemma steps_openAll [step_intros]: "steps R (openAll ext (x_clusterId ext) s g)"
  unfolding openAll_def steps_def
proof (intro allI bindM_related, goal_cases)
  case (1 w)
  show ?case by (rule steps_at [OF steps_maintenance_reads(1)])
next
  case (2 w state w1)
  note rec = requireRecord_OK [OF 2]
  show ?case
  proof (cases "ms_state state \<noteq> ''OPEN'' \<or> ms_generation state \<noteq> g \<or> x_managerClusterId ext \<noteq> Some s")
    case False
    then have "stateIs (x_clusterId ext) [''OPEN''] g (w_db w1)" using rec by (simp add: stateIs_def)
    then show ?thesis
      unfolding if_not_P [OF False]
      by (rule guarded_related [rotated])
         (intro guarded_intros guarded_reads; simp add: case_prod_beta guarded_managers)
  qed (simp add: throwM_def refl)
qed

lemma steps_blockAll [step_intros]: "steps R (blockAll ext (x_clusterId ext) s g)"
  unfolding blockAll_def steps_def Let_def
proof (intro allI bindM_related, goal_cases)
  case (1 w)
  show ?case by (rule steps_at [OF steps_maintenance_reads(1)])
next
  case (2 w state w1)
  note rec = requireRecord_OK [OF 2]
  have ack: "guarded (stateIs (x_clusterId ext) sts g') (execute ext (acknowledge c a g''))" for sts g' c a g''
    by (rule guarded_steps [OF steps_maintenance_writes(8) keeps_acknowledge])
  show ?case
  proof (cases "ms_state state \<notin> {''CLOSING'', ''RECONCILING''} \<or> ms_generation state \<noteq> g \<or> x_managerClusterId ext \<noteq> Some s")
    case False
    then have "stateIs (x_clusterId ext) [''CLOSING'', ''RECONCILING''] g (w_db w1)"
      using rec by (auto simp: stateIs_def)
    then show ?thesis
      unfolding if_not_P [OF False]
      by (rule guarded_related [rotated])
         (intro guarded_intros guarded_reads; simp add: case_prod_beta guarded_managers guarded_thenM ack)
  qed (simp add: throwM_def refl)
qed

end

end
