(* ===== verification/Mutation_Service.thy ===== *)
theory Mutation_Service
  imports Safety
begin

text \<open>
  \<^verbatim>\<open>capacity/capacity.service.ts\<close> and \<^verbatim>\<open>operations/mutation.service.ts\<close>: scale and
  restart of a service, the verification loop, reconciliation of unfinished operations and
  recovery at start-up. Every private method of the source is a definition; logging is left out.

  \<open>lockedServiceMutation\<close> is the callback that \<open>scale\<close> and \<open>restart\<close> run under the
  service lock. The source writes it twice; here the parts in which the two copies differ (type,
  planning call, capacity request, mutation request) are arguments.
\<close>

section \<open>Capacity\<close>

definition capacity_callAgent :: "external \<Rightarrow> string \<Rightarrow> CapacityCheckRequest \<Rightarrow> CapacityCheckResponse cp" where
  "capacity_callAgent ext serviceId input =
     catchM (checkServiceCapacity ext serviceId input) (\<lambda>e.
       case agent_request_error e of
         Some (st, b) \<Rightarrow>
           if st = 409 then throwM (ConflictException ''Service changed before capacity check'')
           else throwM (BadGatewayException ''Agent capacity check failed'')
       | None \<Rightarrow> throwM (BadGatewayException ''Agent capacity check failed''))"

definition assertAvailable :: "external \<Rightarrow> string \<Rightarrow> CapacityCheckRequest \<Rightarrow> CapacityCheckResponse cp" where
  "assertAvailable ext serviceId input =
     bindM (capacity_callAgent ext serviceId input) (\<lambda>result.
       if cc_status result = INSUFFICIENT then throwM (CapacityConflict result) else retM result)"

definition assertCluster :: "external \<Rightarrow> string \<Rightarrow> unit cp" where
  "assertCluster ext clusterId =
     (if clusterId \<noteq> x_clusterId ext then throwM (NotFoundException ''Cluster not found'') else retM ())"

definition capacity_check ::
    "external \<Rightarrow> string \<Rightarrow> string \<Rightarrow> CapacityCheckRequest \<Rightarrow> CapacityCheckResponse cp" where
  "capacity_check ext clusterId serviceId input =
     thenM (assertCluster ext clusterId) (capacity_callAgent ext serviceId input)"

section \<open>Helpers of the mutation service\<close>

fun operationTypeName :: "OperationType \<Rightarrow> string" where
  "operationTypeName SCALE = ''SCALE''"
| "operationTypeName RESTART = ''RESTART''"
| "operationTypeName DEPLOY = ''DEPLOY''"
| "operationTypeName ROLLBACK = ''ROLLBACK''"

fun operationStatusName :: "OperationStatus \<Rightarrow> string" where
  "operationStatusName PENDING = ''PENDING''"
| "operationStatusName RUNNING = ''RUNNING''"
| "operationStatusName VERIFYING = ''VERIFYING''"
| "operationStatusName SUCCESS = ''SUCCESS''"
| "operationStatusName FAILED = ''FAILED''"
| "operationStatusName NEEDS_ATTENTION = ''NEEDS_ATTENTION''"

definition isTerminal :: "OperationRecord \<Rightarrow> bool" where
  "isTerminal operation = (o_status operation = SUCCESS \<or> o_status operation = FAILED)"

lemma isTerminal_iff [simp]: "isTerminal r \<longleftrightarrow> status_terminal (o_status r)"
  by (simp add: isTerminal_def status_terminal_def)

definition mapAgentError :: "failure \<Rightarrow> failure" where
  "mapAgentError e =
     (case agent_request_error e of
        Some (st, b) \<Rightarrow>
          if st = 409 then ConflictException ''Agent rejected stale service state''
          else if st = 400 then BadGatewayException ''Agent rejected mutation request''
          else BadGatewayException ''Agent mutation failed''
      | None \<Rightarrow> BadGatewayException ''Agent mutation failed'')"

definition mapPlanningError :: "failure \<Rightarrow> failure" where
  "mapPlanningError e =
     (case agent_request_error e of
        Some (st, b) \<Rightarrow>
          if st = 409 then ConflictException ''Service changed before mutation planning''
          else if st = 400 then BadGatewayException ''Agent rejected mutation planning''
          else BadGatewayException ''Agent mutation planning failed''
      | None \<Rightarrow> e)"

definition assertIdempotent ::
    "OperationRecord \<Rightarrow> OperationType \<Rightarrow> string \<Rightarrow> string \<Rightarrow> string \<Rightarrow> nat \<Rightarrow> nat option \<Rightarrow> unit cp" where
  "assertIdempotent existing type clusterId serviceId actorId expectedVersion targetReplicas =
     (if o_type existing \<noteq> type \<or> o_clusterId existing \<noteq> clusterId
         \<or> o_serviceId existing \<noteq> serviceId \<or> o_actorId existing \<noteq> actorId
         \<or> o_expectedVersion existing \<noteq> expectedVersion
         \<or> o_targetReplicas existing \<noteq> targetReplicas
      then throwM (ConflictException ''operationId was already used for a different mutation'')
      else retM ())"

definition assertPlanMatchesCurrent :: "ServiceMutationPlan \<Rightarrow> ServiceDetailResponse \<Rightarrow> unit cp" where
  "assertPlanMatchesCurrent plan current =
     (if s_id (sd_service current) \<noteq> p_serviceId plan
         \<or> s_version (sd_service current) \<noteq> p_version plan
         \<or> s_specHash (sd_service current) \<noteq> p_beforeSpecHash plan
      then throwM (ConflictException ''Service changed between resolution and mutation planning'')
      else retM ())"

definition assertAcceptedMatchesPlan :: "ServiceMutationResponse \<Rightarrow> ServiceMutationPlan \<Rightarrow> unit cp" where
  "assertAcceptedMatchesPlan accepted plan =
     (if r_serviceId accepted \<noteq> p_serviceId plan
         \<or> r_targetSpecHash accepted \<noteq> p_targetSpecHash plan
         \<or> r_targetForceUpdate accepted \<noteq> p_targetForceUpdate plan
      then throwM (ConflictException ''Agent mutation response does not match the recorded target'')
      else retM ())"

definition requireOperation :: "external \<Rightarrow> string \<Rightarrow> OperationRecord cp" where
  "requireOperation ext oid =
     bindM (op_findWithConnection ext oid) (\<lambda>row.
       case row of
         None \<Rightarrow> throwM (PlainError ''Operation disappeared after persistence'')
       | Some operation \<Rightarrow> retM operation)"

section \<open>Transactions\<close>

definition persistIntent ::
    "external \<Rightarrow> string \<Rightarrow> string \<Rightarrow> ServiceMutationPlan \<Rightarrow> OperationType \<Rightarrow> string \<Rightarrow>
     nat option \<Rightarrow> ServiceDetailResponse \<Rightarrow> unit cp" where
  "persistIntent ext operationId clusterId plan type actorId targetReplicas before =
     inTransaction ext
       (thenM (op_create ext
          \<lparr>oi_id = operationId, oi_clusterId = clusterId, oi_serviceId = p_serviceId plan,
           oi_type = type, oi_actorId = actorId, oi_expectedVersion = p_version plan,
           oi_beforeSpecHash = p_beforeSpecHash plan, oi_targetSpecHash = p_targetSpecHash plan,
           oi_targetForceUpdate = p_targetForceUpdate plan, oi_targetReplicas = targetReplicas,
           oi_targetImage = None, oi_targetTaskSpecHash = None, oi_targetRuntimeSpecHash = None\<rparr>)
       (thenM (op_markRunning ext operationId)
          (op_audit ext (serviceAudit operationId actorId clusterId (p_serviceId plan)
             (operationTypeName type @ ''_STARTED'') (Some (serviceJson (sd_service before)))
             (Some (JObj ([(''targetSpecHash'', JStr (p_targetSpecHash plan)),
                           (''targetForceUpdate'', jnat (p_targetForceUpdate plan))]
                          @ opt_field ''targetReplicas'' jnat targetReplicas)))))))"

definition markVerifying :: "external \<Rightarrow> string \<Rightarrow> ServiceMutationResponse \<Rightarrow> unit cp" where
  "markVerifying ext operationId accepted =
     inTransaction ext (op_markVerifying ext operationId (r_version accepted))"

text \<open>
  The errors that reach \<open>markAgentRejected\<close> are Agent request errors
  (\<open>deterministic_is_agent_error\<close>), so the default of the \<open>case\<close> is never taken.
\<close>

definition rejectionCode :: "failure \<Rightarrow> string" where
  "rejectionCode e =
     (case e of
        MaintenancePreDispatchRejection c \<Rightarrow> ''MAINTENANCE_DISPATCH_REJECTED''
      | AgentRequestError st b \<Rightarrow>
          if st = 409 then ''AGENT_VERSION_CONFLICT'' else ''AGENT_MUTATION_REJECTED''
      | _ \<Rightarrow> ''AGENT_MUTATION_REJECTED'')"

definition rejectionParts :: "failure \<Rightarrow> nat \<times> ErrorBody" where
  "rejectionParts e =
     (case agent_request_error e of
        Some p \<Rightarrow> p
      | None \<Rightarrow> (0, \<lparr>body_text = [], body_json = None\<rparr>))"

definition markAgentRejected ::
    "external \<Rightarrow> string \<Rightarrow> string \<Rightarrow> string \<Rightarrow> string \<Rightarrow> failure \<Rightarrow> unit cp" where
  "markAgentRejected ext operationId actorId clusterId serviceId e =
     (let (st, b) = rejectionParts e in
      inTransaction ext
        (thenM (op_markFailed ext operationId (rejectionCode e) (body_text b))
          (op_audit ext (serviceAudit operationId actorId clusterId serviceId ''MUTATION_REJECTED''
             None (Some (rejectionJson st b))))))"

definition operationAudit ::
    "OperationRecord \<Rightarrow> string \<Rightarrow> json option \<Rightarrow> AuditEventInput" where
  "operationAudit operation action afterJson =
     serviceAudit (o_id operation) (o_actorId operation) (o_clusterId operation)
       (o_serviceId operation) action None afterJson"

definition markNeedsAttention ::
    "external \<Rightarrow> OperationRecord \<Rightarrow> string \<Rightarrow> string \<Rightarrow> json option \<Rightarrow> unit cp" where
  "markNeedsAttention ext operation code message current =
     inTransaction ext
       (thenM (op_markNeedsAttention ext (o_id operation) code message)
         (op_audit ext (operationAudit operation ''MUTATION_NEEDS_ATTENTION''
            (Some (case current of None \<Rightarrow> codeMessageJson code message | Some j \<Rightarrow> j)))))"

definition auditOperation :: "external \<Rightarrow> OperationRecord \<Rightarrow> string \<Rightarrow> json option \<Rightarrow> unit cp" where
  "auditOperation ext operation action afterJson =
     inTransaction ext (op_audit ext (operationAudit operation action afterJson))"

section \<open>Verification\<close>

definition VERIFY_TIMEOUT_MS :: nat where "VERIFY_TIMEOUT_MS = 30000"

definition VERIFY_INTERVAL_MS :: nat where "VERIFY_INTERVAL_MS = 500"

datatype VerificationResult =
    V_SUCCESS ServiceDetailResponse
  | V_FAILED ServiceDetailResponse string
  | V_EXTERNAL_CONFLICT ServiceDetailResponse string
  | V_UNCERTAIN "ServiceDetailResponse option" string

definition verifyStep ::
    "external \<Rightarrow> OperationRecord \<Rightarrow> ServiceDetailResponse option \<times> string option \<Rightarrow>
     (ServiceDetailResponse option \<times> string option, VerificationResult) loop_step cp" where
  "verifyStep ext operation s =
     bindM (attempt (inspectService ext (o_serviceId operation))) (\<lambda>r.
     case r of
       Inl e \<Rightarrow> retM (Continue (fst s, Some (errorMessage e)))
     | Inr current \<Rightarrow>
         retM (case classifyMutationSnapshot operation current of
                 MS_EXTERNAL_CONFLICT m \<Rightarrow> Break (V_EXTERNAL_CONFLICT current m)
               | MS_FAILED m \<Rightarrow> Break (V_FAILED current m)
               | MS_SUCCESS \<Rightarrow> Break (V_SUCCESS current)
               | MS_PENDING \<Rightarrow> Continue (Some current, None)))"

definition verifyMutation :: "external \<Rightarrow> OperationRecord \<Rightarrow> VerificationResult cp" where
  "verifyMutation ext operation =
     bindM (poll ext VERIFY_TIMEOUT_MS VERIFY_INTERVAL_MS (verifyStep ext operation) (None, None))
       (\<lambda>r. case r of
          Inr result \<Rightarrow> retM result
        | Inl (lastSeen, lastError) \<Rightarrow>
            retM (V_UNCERTAIN lastSeen
              (if \<not> falsy lastError
               then ''Verification timed out after Agent errors: '' @ the lastError
               else ''Service mutation was accepted but convergence was not confirmed'')))"

definition completeVerification :: "external \<Rightarrow> OperationRecord \<Rightarrow> VerificationResult \<Rightarrow> unit cp" where
  "completeVerification ext operation verification =
     inTransaction ext
       (case verification of
          V_SUCCESS current \<Rightarrow>
            thenM (op_markSuccess ext (o_id operation) (s_version (sd_service current)))
              (op_audit ext (operationAudit operation ''MUTATION_SUCCEEDED''
                 (Some (serviceJson (sd_service current)))))
        | V_FAILED current message \<Rightarrow>
            thenM (op_markFailed ext (o_id operation) ''CONVERGENCE_FAILED'' message)
              (op_audit ext (operationAudit operation ''MUTATION_CONVERGENCE_FAILED''
                 (Some (serviceJson (sd_service current)))))
        | V_EXTERNAL_CONFLICT current message \<Rightarrow>
            thenM (op_markNeedsAttention ext (o_id operation) ''EXTERNAL_SERVICE_CONFLICT'' message)
              (op_audit ext (operationAudit operation ''MUTATION_NEEDS_ATTENTION''
                 (Some (serviceJson (sd_service current)))))
        | V_UNCERTAIN current message \<Rightarrow>
            thenM (op_markNeedsAttention ext (o_id operation) ''VERIFICATION_UNCERTAIN'' message)
              (op_audit ext (operationAudit operation ''MUTATION_NEEDS_ATTENTION''
                 (map_option (\<lambda>c. serviceJson (sd_service c)) current))))"

definition verifyAndCompleteLocked :: "external \<Rightarrow> OperationRecord \<Rightarrow> OperationRecord cp" where
  "verifyAndCompleteLocked ext operation =
     bindM (verifyMutation ext operation) (\<lambda>verification.
     thenM (completeVerification ext operation verification)
       (requireOperation ext (o_id operation)))"

section \<open>Reconciliation\<close>

definition reconcileLocked :: "external \<Rightarrow> OperationRecord \<Rightarrow> OperationRecord cp" where
  "reconcileLocked ext operation =
     (if o_beforeSpecHash operation = [] \<or> o_targetSpecHash operation = [] then
        thenM (markNeedsAttention ext operation ''LEGACY_OPERATION_MISSING_TARGET''
                 ''Operation predates service fingerprint tracking and cannot be reconciled automatically'' None)
          (requireOperation ext (o_id operation))
      else
        bindM (attempt (inspectService ext (o_serviceId operation))) (\<lambda>r.
        case r of
          Inl e \<Rightarrow>
            thenM (markNeedsAttention ext operation ''RECONCILIATION_UNAVAILABLE''
                     (''Unable to inspect service during reconciliation: '' @ errorMessage e) None)
              (requireOperation ext (o_id operation))
        | Inr current \<Rightarrow>
            if s_specHash (sd_service current) = o_targetSpecHash operation then
              thenM
                (if o_status operation \<noteq> VERIFYING then
                   thenM (markVerifying ext (o_id operation)
                            \<lparr>r_serviceId = o_serviceId operation, r_version = s_version (sd_service current),
                             r_targetSpecHash = o_targetSpecHash operation,
                             r_targetForceUpdate = o_targetForceUpdate operation\<rparr>)
                     (auditOperation ext operation ''MUTATION_RECONCILED''
                        (Some (JObj [(''version'', jnat (s_version (sd_service current))),
                                     (''specHash'', JStr (s_specHash (sd_service current)))])))
                 else retM ())
                (bindM (requireOperation ext (o_id operation)) (\<lambda>refreshed.
                   verifyAndCompleteLocked ext refreshed))
            else if s_version (sd_service current) = o_expectedVersion operation
                    \<and> s_specHash (sd_service current) = o_beforeSpecHash operation then
              thenM (markNeedsAttention ext operation ''MUTATION_NOT_OBSERVED''
                       ''Mutation outcome is uncertain and the target spec was not observed'' None)
                (requireOperation ext (o_id operation))
            else
              thenM (markNeedsAttention ext operation ''EXTERNAL_SERVICE_CONFLICT''
                       ''Service spec changed outside the recorded Docklane mutation''
                       (Some (serviceJson (sd_service current))))
                (requireOperation ext (o_id operation))))"

definition resolvePriorServiceOperation :: "external \<Rightarrow> string \<Rightarrow> string \<Rightarrow> unit cp" where
  "resolvePriorServiceOperation ext clusterId serviceId =
     bindM (op_findNonTerminalForService ext clusterId serviceId) (\<lambda>found.
     case found of
       None \<Rightarrow> retM ()
     | Some prior \<Rightarrow>
         if o_type prior = DEPLOY \<or> o_type prior = ROLLBACK then
           throwM (ConflictException (''Service has unresolved '' @ toLowerCase (operationTypeName (o_type prior))
             @ '' '' @ o_id prior @ '' ('' @ operationStatusName (o_status prior) @ '')''))
         else
           bindM (reconcileLocked ext prior) (\<lambda>reconciled.
           if \<not> isTerminal reconciled then
             throwM (ConflictException (''Service has unresolved operation '' @ o_id reconciled
               @ '' ('' @ operationStatusName (o_status reconciled) @ '')''))
           else retM ()))"

definition assertNoNodeOperationConflict :: "external \<Rightarrow> string \<Rightarrow> string \<Rightarrow> unit cp" where
  "assertNoNodeOperationConflict ext clusterId serviceId =
     bindM (nop_findNonTerminalAffectingService ext clusterId serviceId) (\<lambda>found.
     case found of
       None \<Rightarrow> retM ()
     | Some nodeOperation \<Rightarrow>
         throwM (ConflictException (''Service is affected by unresolved node operation ''
           @ n_id nodeOperation @ '' ('' @ operationStatusName (n_status nodeOperation) @ '')'')))"

section \<open>Scale and restart\<close>

text \<open>
  Dispatch and what follows it. The \<open>try\<close> block covers the send, the comparison of the answer
  with the plan and \<open>markVerifying\<close>.
\<close>

definition dispatchServiceMutation ::
    "external \<Rightarrow> string \<Rightarrow> string \<Rightarrow> string \<Rightarrow> string \<Rightarrow> ServiceMutationPlan \<Rightarrow> MutationRequest \<Rightarrow>
     OperationRecord cp" where
  "dispatchServiceMutation ext operationId actorId clusterId serviceId plan req =
     bindM (attempt
       (bindM (withMutationOperation operationId (agentMutation ext req (x_sendService ext))) (\<lambda>accepted.
        thenM (assertAcceptedMatchesPlan accepted plan)
          (markVerifying ext operationId accepted)))) (\<lambda>outcome.
     case outcome of
       Inl e \<Rightarrow>
         if isDeterministicAgentRejection e then
           thenM (markAgentRejected ext operationId actorId clusterId serviceId e)
             (throwM (mapAgentError e))
         else bindM (requireOperation ext operationId) (reconcileLocked ext)
     | Inr _ \<Rightarrow> bindM (requireOperation ext operationId) (verifyAndCompleteLocked ext))"

text \<open>Everything between the idempotency check and the durable intent.\<close>

definition prepareServiceMutation ::
    "external \<Rightarrow> string \<Rightarrow> string \<Rightarrow> ServiceMutationPlan cp \<Rightarrow>
     (ServiceMutationPlan \<Rightarrow> ServiceDetailResponse \<Rightarrow> CapacityCheckRequest) \<Rightarrow>
     (ServiceMutationPlan \<times> ServiceDetailResponse) cp" where
  "prepareServiceMutation ext clusterId serviceId planning capacityRequest =
     thenM (resolvePriorServiceOperation ext clusterId serviceId)
    (thenM (assertNoNodeOperationConflict ext clusterId serviceId)
    (bindM (catchM planning (\<lambda>e. throwM (mapPlanningError e))) (\<lambda>plan.
     bindM (inspectService ext serviceId) (\<lambda>before.
     thenM (assertPlanMatchesCurrent plan before)
    (thenM (assertAvailable ext serviceId (capacityRequest plan before))
       (retM (plan, before)))))))"

definition lockedServiceMutation ::
    "external \<Rightarrow> string \<Rightarrow> string \<Rightarrow> string \<Rightarrow> string \<Rightarrow> OperationType \<Rightarrow> nat \<Rightarrow> nat option \<Rightarrow>
     ServiceMutationPlan cp \<Rightarrow>
     (ServiceMutationPlan \<Rightarrow> ServiceDetailResponse \<Rightarrow> CapacityCheckRequest) \<Rightarrow>
     (ServiceMutationPlan \<Rightarrow> MutationRequest) \<Rightarrow> OperationRecord cp" where
  "lockedServiceMutation ext clusterId serviceId operationId actorId type expectedVersion
       targetReplicas planning capacityRequest request =
     bindM (op_findWithConnection ext operationId) (\<lambda>found.
     case found of
       Some existing \<Rightarrow>
         thenM (assertIdempotent existing type clusterId serviceId actorId expectedVersion targetReplicas)
           (if isTerminal existing then retM existing else reconcileLocked ext existing)
     | None \<Rightarrow>
         bindM (prepareServiceMutation ext clusterId serviceId planning capacityRequest) (\<lambda>(plan, before).
         thenM (persistIntent ext operationId clusterId plan type actorId targetReplicas before)
           (dispatchServiceMutation ext operationId actorId clusterId serviceId plan (request plan))))"

definition scale ::
    "external \<Rightarrow> string \<Rightarrow> string \<Rightarrow> ScaleServiceRequest \<Rightarrow> Principal \<Rightarrow> OperationRecord cp" where
  "scale ext clusterId requestedServiceId input actor =
     thenM (assertCluster ext clusterId)
    (bindM (inspectService ext requestedServiceId) (\<lambda>resolved.
     let serviceId = s_id (sd_service resolved) in
     withServiceLock ext clusterId serviceId
       (lockedServiceMutation ext clusterId serviceId (sr_operationId input) (pr_actorId actor)
          SCALE (sr_expectedVersion input) (Some (sr_replicas input))
          (planScaleService ext serviceId (sr_expectedVersion input) (sr_replicas input))
          (\<lambda>plan before. \<lparr>cr_expectedVersion = p_version plan,
             cr_targetReplicas = sr_replicas input, cr_includeUpdateOverlap = False\<rparr>)
          (\<lambda>plan. ScaleService serviceId (p_version plan) (p_beforeSpecHash plan)
             (p_targetSpecHash plan) (sr_replicas input)))))"

definition restart ::
    "external \<Rightarrow> string \<Rightarrow> string \<Rightarrow> RestartServiceRequest \<Rightarrow> Principal \<Rightarrow> OperationRecord cp" where
  "restart ext clusterId requestedServiceId input actor =
     thenM (assertCluster ext clusterId)
    (bindM (inspectService ext requestedServiceId) (\<lambda>resolved.
     let serviceId = s_id (sd_service resolved) in
     withServiceLock ext clusterId serviceId
       (lockedServiceMutation ext clusterId serviceId (rr_operationId input) (pr_actorId actor)
          RESTART (rr_expectedVersion input) None
          (planRestartService ext serviceId (rr_expectedVersion input))
          (\<lambda>plan before. \<lparr>cr_expectedVersion = p_version plan,
             cr_targetReplicas = s_desiredReplicas (sd_service before), cr_includeUpdateOverlap = True\<rparr>)
          (\<lambda>plan. RestartService serviceId (p_version plan) (p_beforeSpecHash plan)
             (p_targetSpecHash plan)))))"

section \<open>Lookup and recovery at start-up\<close>

definition mutation_operation :: "external \<Rightarrow> string \<Rightarrow> string \<Rightarrow> OperationRecord cp" where
  "mutation_operation ext clusterId operationId =
     thenM (assertCluster ext clusterId)
    (bindM (op_find ext operationId) (\<lambda>found.
     case found of
       None \<Rightarrow> throwM (NotFoundException ''Operation not found'')
     | Some op \<Rightarrow>
         if o_clusterId op \<noteq> clusterId then throwM (NotFoundException ''Operation not found'')
         else retM op))"

definition recoverOperation :: "external \<Rightarrow> OperationRecord \<Rightarrow> unit cp" where
  "recoverOperation ext op =
     (if o_type op = DEPLOY \<or> o_type op = ROLLBACK then retM ()
      else thenM (attempt
        (withServiceRecoveryLock ext (o_clusterId op) (o_serviceId op)
          (bindM (op_findWithConnection ext (o_id op)) (\<lambda>found.
           case found of
             None \<Rightarrow> retM ()
           | Some current \<Rightarrow>
               if isTerminal current then retM ()
               else thenM (reconcileLocked ext current) (retM ())))))
        (retM ()))"

definition onApplicationBootstrap :: "external \<Rightarrow> unit cp" where
  "onApplicationBootstrap ext =
     bindM (op_listNonTerminal ext) (forEachM (recoverOperation ext))"

section \<open>Transactions are store steps\<close>

lemma operationAudit_id [simp]: "a_operationId (operationAudit op action j) = o_id op"
  by (simp add: operationAudit_def)

lemma makes_markVerifying: "makes {Advanced oid} (markVerifying ext oid acc)"
  unfolding markVerifying_def
  by (rule makes_updated)
     (auto intro: advanced_step [OF _ disjI1 [OF refl] disjI1 [OF refl]] statement_OK step_intros)

lemma makes_markAgentRejected: "makes {Settled oid FAILED} (markAgentRejected ext oid actor c sid e)"
  unfolding markAgentRejected_def
  by (auto split: prod.split intro!: settles statement_OK step_intros)

lemma makes_markNeedsAttention:
  "makes {Settled (o_id op) NEEDS_ATTENTION} (markNeedsAttention ext op code m cur)"
  unfolding markNeedsAttention_def by (auto intro!: settles statement_OK step_intros)

lemma makes_auditOperation: "makes {Noted} (auditOperation ext op action j)"
  unfolding auditOperation_def
  by (rule makes_updated) (auto dest!: op_audit_OK intro: noted_step step_intros)

fun verificationStatus :: "VerificationResult \<Rightarrow> OperationStatus" where
  "verificationStatus (V_SUCCESS cur) = SUCCESS"
| "verificationStatus (V_FAILED cur m) = FAILED"
| "verificationStatus (V_EXTERNAL_CONFLICT cur m) = NEEDS_ATTENTION"
| "verificationStatus (V_UNCERTAIN cur m) = NEEDS_ATTENTION"

lemma makes_completeVerification:
  "makes {Settled (o_id op) (verificationStatus v)} (completeVerification ext op v)"
  unfolding completeVerification_def
  by (cases v) (auto intro!: settles statement_OK step_intros)

text \<open>The row that \<open>persistIntent\<close> adds.\<close>

definition intended ::
    "string \<Rightarrow> string \<Rightarrow> ServiceMutationPlan \<Rightarrow> OperationType \<Rightarrow> string \<Rightarrow> nat option \<Rightarrow> OperationRecord \<Rightarrow> bool" where
  "intended oid c plan type actor replicas r \<longleftrightarrow>
     o_id r = oid \<and> o_clusterId r = c \<and> o_serviceId r = p_serviceId plan \<and> o_type r = type \<and>
     o_actorId r = actor \<and> o_expectedVersion r = p_version plan \<and>
     o_beforeSpecHash r = p_beforeSpecHash plan \<and> o_targetSpecHash r = p_targetSpecHash plan \<and>
     o_targetForceUpdate r = p_targetForceUpdate plan \<and> o_targetReplicas r = replicas \<and>
     o_status r = RUNNING"

lemma makes_persistIntent:
  "makes {Started r | r. intended oid c plan type actor replicas r}
     (persistIntent ext oid c plan type actor replicas before)"
  unfolding persistIntent_def
proof (rule makes_transaction, goal_cases)
  case 1
  show ?case by (intro step_intros)
next
  case (2 w x w')
  then obtain w1 w2 u v where create: "op_create ext
          \<lparr>oi_id = oid, oi_clusterId = c, oi_serviceId = p_serviceId plan,
           oi_type = type, oi_actorId = actor, oi_expectedVersion = p_version plan,
           oi_beforeSpecHash = p_beforeSpecHash plan, oi_targetSpecHash = p_targetSpecHash plan,
           oi_targetForceUpdate = p_targetForceUpdate plan, oi_targetReplicas = replicas,
           oi_targetImage = None, oi_targetTaskSpecHash = None, oi_targetRuntimeSpecHash = None\<rparr> w = (Inr u, w1)"
    and run: "op_markRunning ext oid w1 = (Inr v, w2)"
    and aud: "\<exists>i. a_operationId i = oid \<and> op_audit ext i w2 = (Inr x, w')"
    unfolding thenM_OK by (metis audit_ids(1))
  from op_create_OK [OF create] obtain r where new: "find_row o_id oid (operations (w_db w)) = None"
    and w1: "w_db w1 = (w_db w)\<lparr>operations := operations (w_db w) @ [r]\<rparr>"
    and r: "o_status r = PENDING \<and>
      intended oid c plan type actor replicas (r\<lparr>o_status := RUNNING\<rparr>)"
    by (auto simp: newOperation_def intended_def)
  from aud obtain i where i: "a_operationId i = oid" "op_audit ext i w2 = (Inr x, w')" by blast
  obtain r' where "op_same_intent r r'" "o_status r' = RUNNING" and step: "store_step (Started r') (w_db w) (w_db w')"
    using started_step [OF new _ _ w1 op_statements_OK(1) [OF run] disjI1 [OF refl] op_audit_OK [OF i(2)]] r i
    by (auto simp: intended_def)
  then have "intended oid c plan type actor replicas r'"
    using r by (simp add: intended_def op_same_intent_def)
  then show ?case using step by blast
qed

section \<open>Reads\<close>

context step_relation
begin

lemma steps_capacity [step_intros]:
  "steps R (capacity_callAgent ext sid i)" "steps R (assertAvailable ext sid i)"
proof -
  show call: "steps R (capacity_callAgent ext sid i)"
    unfolding capacity_callAgent_def by (intro step_intros)
  show "steps R (assertAvailable ext sid i)"
    unfolding assertAvailable_def by (intro step_intros call)
qed

lemma steps_assertCluster [step_intros]: "steps R (assertCluster ext c)"
  unfolding assertCluster_def by (intro step_intros)

lemma steps_assertIdempotent [step_intros]: "steps R (assertIdempotent op type c sid actor v k)"
  unfolding assertIdempotent_def by (intro step_intros)

lemma steps_assertPlanMatchesCurrent [step_intros]: "steps R (assertPlanMatchesCurrent plan cur)"
  unfolding assertPlanMatchesCurrent_def by (intro step_intros)

lemma steps_assertAcceptedMatchesPlan [step_intros]: "steps R (assertAcceptedMatchesPlan acc plan)"
  unfolding assertAcceptedMatchesPlan_def by (intro step_intros)

lemma steps_assertNoNodeOperationConflict [step_intros]:
  "steps R (assertNoNodeOperationConflict ext c sid)"
  unfolding assertNoNodeOperationConflict_def by (intro step_intros)

lemma steps_requireOperation [step_intros]: "steps R (requireOperation ext oid)"
  unfolding requireOperation_def by (intro step_intros)

lemma steps_mutation_operation [step_intros]: "steps R (mutation_operation ext c oid)"
  unfolding mutation_operation_def by (intro step_intros)

lemma steps_verifyMutation [step_intros]: "steps R (verifyMutation ext op)"
  unfolding verifyMutation_def verifyStep_def by (intro step_intros)

end

lemma requireOperation_OK:
  assumes "requireOperation ext oid w = (Inr op, w')"
  shows "find_row o_id oid (operations (w_db w)) = Some op \<and> w_db w' = w_db w \<and> o_id op = oid"
proof -
  have "op_findWithConnection ext oid w = (Inr (Some op), w')"
    using assms unfolding requireOperation_def by (auto simp: OK_simps)
  from op_find_OK [OF this] show ?thesis by (auto dest: find_row_Some)
qed

lemma inspectService_OK:
  "inspectService ext sid w = (Inr x, w') \<Longrightarrow>
   \<exists>n. w_calls w \<le> n \<and> n < w_calls w' \<and> x_inspectService ext n sid = Inr x"
  unfolding inspectService_def by (rule agentRead_OK)

text \<open>A verification that reports success has seen it.\<close>

lemma verifyMutation_SUCCESS:
  assumes "verifyMutation ext op w = (Inr (V_SUCCESS cur), w')"
  shows "observed ext (w_calls w) (w_calls w') (o_serviceId op) (mutation_converged op)"
proof -
  have steps: "steps reads_only (verifyStep ext op s)" for s
    unfolding verifyStep_def by (intro step_intros)
  have "poll ext VERIFY_TIMEOUT_MS VERIFY_INTERVAL_MS (verifyStep ext op) (None, None) w
      = (Inr (Inr (V_SUCCESS cur)), w')"
    using assms unfolding verifyMutation_def by (auto simp: OK_simps)
  from reading.poll_Break [OF steps this] obtain s1 w1 where "reads_only w w1"
    and step: "verifyStep ext op s1 w1 = (Inr (Break (V_SUCCESS cur)), w')"
    by blast
  then have calls: "w_calls w \<le> w_calls w1" by (simp add: reads_only_def only_db_iff)
  have "inspectService ext (o_serviceId op) w1 = (Inr cur, w')"
    and "classifyMutationSnapshot op cur = MS_SUCCESS"
    using step unfolding verifyStep_def
    by (auto simp: OK_simps split: MutationSnapshotDecision.split_asm)
       (metis MutationSnapshotDecision.exhaust)+
  then show ?thesis
    using inspectService_OK calls classifyMutationSnapshot_SUCCESS_iff
    unfolding observed_def by (meson le_trans)
qed

section \<open>Recovery\<close>

text \<open>
  The rows that this service completes: scale and restart operations.
\<close>

definition mutation_row :: "string \<Rightarrow> database \<Rightarrow> bool" where
  "mutation_row oid d \<longleftrightarrow>
     (\<exists>r. find_row o_id oid (operations d) = Some r \<and> o_type r \<in> {SCALE, RESTART})"

lemma mutation_row_history: "mutation_row oid d \<Longrightarrow> history_kept d d' \<Longrightarrow> mutation_row oid d'"
  unfolding mutation_row_def history_kept_def rows_evolve_def op_evolves_def op_same_intent_def by metis

lemma shown_mutation:
  "o_type op \<in> {SCALE, RESTART} \<Longrightarrow> shown ext lo hi op \<longleftrightarrow> observed ext lo hi (o_serviceId op) (mutation_converged op)"
  by (auto simp: shown_def)

context recovery_relation
begin

lemma steps_mutation_transactions [step_intros]:
  "steps R (markVerifying ext oid acc)" "steps R (markAgentRejected ext oid actor c sid e)"
  "steps R (markNeedsAttention ext op code m cur)" "steps R (auditOperation ext op action j)"
  by (rule steps_advances(1) [OF makes_markVerifying] steps_settles(1) [OF makes_markAgentRejected]
      steps_settles(1) [OF makes_markNeedsAttention] steps_notes [OF makes_auditOperation]; simp)+

lemma verifyAndCompleteLocked_related:
  assumes op: "find_row o_id (o_id op) (operations (w_db w)) = Some op"
    and type: "unique_keys (w_db w) \<Longrightarrow> o_type op \<in> {SCALE, RESTART}"
  shows "R w (snd (verifyAndCompleteLocked ext op w))"
  unfolding verifyAndCompleteLocked_def thenM_def
proof (intro bindM_from steps_from [OF steps_requireOperation])
  show "R w (snd (verifyMutation ext op w))" by (rule steps_at [OF steps_verifyMutation])
next
  fix v w1 assume run: "verifyMutation ext op w = (Inr v, w1)" and R1: "R w w1"
  have "reads_only w w1" by (rule stepsD [OF reading.steps_verifyMutation run])
  then have db: "w_db w1 = w_db w" and calls: "w_calls w \<le> w_calls w1"
    by (simp_all add: reads_only_def only_db_iff)
  show "R w (snd (completeVerification ext op v w1))"
  proof (rule makes_related [OF makes_completeVerification R1], safe)
    assume "is_start (Settled (o_id op) (verificationStatus v))"
    then show False by simp
  next
    have "\<exists>r. find_row o_id (o_id op) (operations (w_db w1)) = Some r \<and> shown ext (w_calls w) (w_calls w1) r"
      if "verificationStatus v = SUCCESS" "unique_keys (w_db w)"
    proof -
      obtain cur where "v = V_SUCCESS cur" using \<open>verificationStatus v = SUCCESS\<close> by (cases v) auto
      then have "shown ext (w_calls w) (w_calls w1) op"
        using verifyMutation_SUCCESS run shown_mutation [OF type [OF that(2)]] by blast
      then show ?thesis using op db by auto
    qed
    then show "step_ok ext w w1 (Settled (o_id op) (verificationStatus v))" by simp
  qed
qed

end

context recovery_relation
begin

lemma requireAndVerify_related:
  assumes "unique_keys (w_db w) \<Longrightarrow> mutation_row oid (w_db w)"
  shows "R w (snd (bindM (requireOperation ext oid) (verifyAndCompleteLocked ext) w))"
proof (rule bindM_related [OF steps_at [OF steps_requireOperation]])
  fix op w1 assume "requireOperation ext oid w = (Inr op, w1)"
  from requireOperation_OK [OF this] assms
  show "R w1 (snd (verifyAndCompleteLocked ext op w1))"
    by (intro verifyAndCompleteLocked_related) (auto simp: mutation_row_def)
qed

lemma reconcileLocked_related:
  assumes row: "unique_keys (w_db w) \<Longrightarrow> mutation_row (o_id op) (w_db w)"
  shows "R w (snd (reconcileLocked ext op w))"
proof -
  have pending: "steps R (thenM (markNeedsAttention ext op code m cur) (requireOperation ext (o_id op)))"
    for code m cur by (intro step_intros)
  let ?adv = "\<lambda>acc j. thenM (markVerifying ext (o_id op) acc) (auditOperation ext op ''MUTATION_RECONCILED'' j)"
  have kept: "unique_keys (w_db w2) \<Longrightarrow> mutation_row (o_id op) (w_db w2)"
    if "on_db opens_nothing w w2" "on_db history_kept w w2" for w2
  proof -
    assume "unique_keys (w_db w2)"
    then have "unique_keys (w_db w)"
      using claims_shrink(4,5) [of "w_db w" "w_db w2"] that(1) by (simp add: on_db_def unique_keys_def)
    then show ?thesis using row mutation_row_history that(2) by (auto simp: on_db_def)
  qed
  have tail: "R w1 (snd (thenM (if b then ?adv acc j else retM ())
      (bindM (requireOperation ext (o_id op)) (verifyAndCompleteLocked ext)) w1))"
    if w1: "w_db w1 = w_db w" for w1 b acc j
    unfolding thenM_def [of "if b then _ else _"]
  proof (rule bindM_related)
    show "R w1 (snd ((if b then ?adv acc j else retM ()) w1))" by (rule steps_at) (intro step_intros)
  next
    fix u w2 assume run: "(if b then ?adv acc j else retM ()) w1 = (Inr u, w2)"
    have "steps (on_db opens_nothing) (if b then ?adv acc j else retM ())"
      and "steps (on_db history_kept) (if b then ?adv acc j else retM ())"
      by (intro step_intros)+
    then have "on_db opens_nothing w1 w2" "on_db history_kept w1 w2"
      using run unfolding steps_def by (metis snd_conv)+
    then have "on_db opens_nothing w w2" "on_db history_kept w w2"
      using w1 by (simp_all add: on_db_def)
    then show "R w2 (snd (bindM (requireOperation ext (o_id op)) (verifyAndCompleteLocked ext) w2))"
      by (intro requireAndVerify_related kept)
  qed
  show ?thesis
  proof (cases "o_beforeSpecHash op = [] \<or> o_targetSpecHash op = []")
    case True
    then show ?thesis unfolding reconcileLocked_def using steps_at [OF pending] by simp
  next
    case False
    then show ?thesis
      unfolding reconcileLocked_def if_not_P [OF False]
    proof (intro bindM_related steps_at [OF steps_attempt] step_intros, goal_cases)
      case (1 r w1)
      have "reads_only w w1"
        by (rule stepsD [OF reading.steps_attempt [OF reading.steps_agent_reads(1)] 1(2)])
      then have "w_db w1 = w_db w" by (simp add: reads_only_def)
      then show ?case using tail steps_at [OF pending] by (auto split: sum.split)
    qed
  qed
qed

end

lemma reconcileLocked_OK:
  assumes "reconcileLocked ext op w = (Inr r, w')"
  shows "find_row o_id (o_id op) (operations (w_db w')) = Some r"
proof -
  have req: "find_row o_id oid (operations (w_db w2)) = Some x"
    if "requireOperation ext oid w1 = (Inr x, w2)" for oid w1 x w2
    using requireOperation_OK [OF that] by simp
  have ver: "find_row o_id (o_id x) (operations (w_db w2)) = Some r'"
    if "verifyAndCompleteLocked ext x w1 = (Inr r', w2)" for x w1 r' w2
    using that req unfolding verifyAndCompleteLocked_def by (auto simp: OK_simps)
  have both: "find_row o_id oid (operations (w_db w3)) = Some r'"
    if "requireOperation ext oid w1 = (Inr x, w2)" "verifyAndCompleteLocked ext x w2 = (Inr r', w3)"
    for oid w1 x w2 r' w3
    using requireOperation_OK [OF that(1)] ver [OF that(2)] by simp
  show ?thesis
    using assms unfolding reconcileLocked_def
    by (auto simp: OK_simps intro: req both)
qed

lemma unique_op_row:
  "unique_keys d \<Longrightarrow> r \<in> set (operations d) \<Longrightarrow> find_row o_id (o_id r) (operations d) = Some r"
  unfolding unique_keys_def by (rule find_row_unique) simp_all

lemma priorQuery_OK:
  assumes "op_findNonTerminalForService ext c sid w = (Inr found, w')"
  shows "w_db w' = w_db w" and "found = None \<longleftrightarrow> nonTerminalForService c sid (w_db w) = []"
    and "found = Some prior \<Longrightarrow> prior \<in> set (nonTerminalForService c sid (w_db w))"
  using query_OK [OF assms [unfolded op_findNonTerminalForService_def]]
  by (auto dest: oldest_Some)

context recovery_relation
begin

lemma steps_resolvePriorServiceOperation [step_intros]:
  "steps R (resolvePriorServiceOperation ext c sid)"
  unfolding steps_def resolvePriorServiceOperation_def
proof (intro allI bindM_related steps_at [OF steps_repository_queries(4)])
  fix w found w1 assume run: "op_findNonTerminalForService ext c sid w = (Inr found, w1)"
  have "R w1 (snd (bindM (reconcileLocked ext prior) (\<lambda>reconciled.
           if \<not> isTerminal reconciled then throwM (e reconciled) else retM ()) w1))"
    if "found = Some prior" "\<not> (o_type prior = DEPLOY \<or> o_type prior = ROLLBACK)" for prior e
  proof (intro bindM_related reconcileLocked_related steps_at [OF steps_if] step_intros)
    assume "unique_keys (w_db w1)"
    then have "find_row o_id (o_id prior) (operations (w_db w1)) = Some prior"
      using priorQuery_OK [OF run] that(1) by (intro unique_op_row) (auto simp: nonTerminalForService_def)
    then show "mutation_row (o_id prior) (w_db w1)"
      using that(2) by (cases "o_type prior") (auto simp: mutation_row_def)
  qed
  then show "R w1 (snd ((case found of None \<Rightarrow> retM ()
     | Some prior \<Rightarrow>
         if o_type prior = DEPLOY \<or> o_type prior = ROLLBACK then
           throwM (ConflictException (''Service has unresolved '' @ toLowerCase (operationTypeName (o_type prior))
             @ '' '' @ o_id prior @ '' ('' @ operationStatusName (o_status prior) @ '')''))
         else
           bindM (reconcileLocked ext prior) (\<lambda>reconciled.
           if \<not> isTerminal reconciled then
             throwM (ConflictException (''Service has unresolved operation '' @ o_id reconciled
               @ '' ('' @ operationStatusName (o_status reconciled) @ '')''))
           else retM ())) w1))"
    by (auto simp: throwM_def retM_def refl split: option.split)
qed

end

text \<open>Once prior operations are resolved, the service has no unfinished operation.\<close>

lemma closed_claim:
  assumes closes: "opens_nothing d d'" and "exclusive d"
    and prior: "prior \<in> set (nonTerminalForService c sid d)"
    and r: "find_row o_id (o_id prior) (operations d') = Some r" "status_terminal (o_status r)"
  shows "nonTerminalForService c sid d' = []"
proof (rule ccontr)
  assume "nonTerminalForService c sid d' \<noteq> []"
  then obtain r2 where r2: "r2 \<in> set (nonTerminalForService c sid d')" by (meson list.set_sel(1))
  then obtain i where i: "i < length (operations d')" "operations d' ! i = r2"
    by (auto simp: nonTerminalForService_def in_set_conv_nth)
  have "op_closes (operations d ! i) r2" "i < length (operations d)"
    using closes i by (auto simp: opens_nothing_def list_all2_conv_all_nth)
  then have "operations d ! i \<in> set (nonTerminalForService c sid d)" "o_id r2 = o_id (operations d ! i)"
    using r2 by (auto simp: nonTerminalForService_def op_closes_def op_same_intent_def)
  moreover have "x = prior" if "x \<in> set (nonTerminalForService c sid d)" for x
  proof -
    have "length (nonTerminalForService c sid d) \<le> 1"
      using \<open>exclusive d\<close> unfolding exclusive_def by (meson add_leD1)
    then show ?thesis using that prior by (cases "nonTerminalForService c sid d") auto
  qed
  ultimately have id: "o_id r2 = o_id prior" by metis
  have "unique_keys d'" using exclusive_shrinks [OF \<open>exclusive d\<close> closes] by (simp add: exclusive_def)
  then have "find_row o_id (o_id r2) (operations d') = Some r2"
    using r2 by (intro unique_op_row) (auto simp: nonTerminalForService_def)
  then show False using r id r2 by (auto simp: nonTerminalForService_def)
qed

lemma resolvePriorServiceOperation_OK:
  assumes run: "resolvePriorServiceOperation ext c sid w = (Inr u, w')" and "exclusive (w_db w)"
  shows "nonTerminalForService c sid (w_db w') = []"
proof -
  obtain found w1 where find: "op_findNonTerminalForService ext c sid w = (Inr found, w1)"
    and cont: "found = None \<and> w' = w1 \<or>
      (\<exists>prior r. found = Some prior \<and> reconcileLocked ext prior w1 = (Inr r, w') \<and> isTerminal r)"
    using run unfolding resolvePriorServiceOperation_def by (auto simp: OK_simps)
  show ?thesis
    using cont
  proof
    assume "found = None \<and> w' = w1"
    then show ?thesis using priorQuery_OK [OF find] by simp
  next
    assume "\<exists>prior r. found = Some prior \<and> reconcileLocked ext prior w1 = (Inr r, w') \<and> isTerminal r"
    then obtain prior r where prior: "found = Some prior" and rec: "reconcileLocked ext prior w1 = (Inr r, w')"
      and "isTerminal r"
      by blast
    have "on_db opens_nothing w w'"
      by (rule stepsD [OF closing.steps_resolvePriorServiceOperation run])
    then show ?thesis
      using closed_claim [OF _ assms(2) priorQuery_OK(3) [OF find prior] reconcileLocked_OK [OF rec]]
        \<open>isTerminal r\<close> by (simp add: on_db_def)
  qed
qed

lemma assertNoNodeOperationConflict_OK:
  assumes "assertNoNodeOperationConflict ext c sid w = (Inr u, w')"
  shows "nonTerminalAffectingService c sid (w_db w') = [] \<and> w_db w' = w_db w"
proof -
  have "nop_findNonTerminalAffectingService ext c sid w = (Inr None, w')"
    using assms unfolding assertNoNodeOperationConflict_def by (auto simp: OK_simps)
  from query_OK [OF this [unfolded nop_findNonTerminalAffectingService_def]] show ?thesis
    by (metis oldest_None)
qed

section \<open>Handlers\<close>

context recovery_relation
begin

lemma steps_prepareServiceMutation [step_intros]:
  "steps R planning \<Longrightarrow> steps R (prepareServiceMutation ext c sid planning req)"
  unfolding prepareServiceMutation_def by (intro step_intros)

end

lemma prepareServiceMutation_OK:
  assumes run: "prepareServiceMutation ext c sid planning req w = (Inr (plan, before), w')"
    and planning: "steps reads_only planning"
  shows "exclusive (w_db w) \<Longrightarrow> unclaimed c sid (w_db w')"
    and "\<exists>n. x_inspectService ext n sid = Inr before" and "p_serviceId plan = s_id (sd_service before)"
proof -
  obtain w1 w2 w3 w4 w5 w6 u v a b where
      prior: "resolvePriorServiceOperation ext c sid w = (Inr u, w1)"
    and node: "assertNoNodeOperationConflict ext c sid w1 = (Inr v, w2)"
    and plan: "catchM planning (\<lambda>e. throwM (mapPlanningError e)) w2 = (Inr plan, w3)"
    and insp: "inspectService ext sid w3 = (Inr before, w4)"
    and mtch: "assertPlanMatchesCurrent plan before w4 = (Inr a, w5)"
    and cap: "assertAvailable ext sid (req plan before) w5 = (Inr b, w')"
    using run unfolding prepareServiceMutation_def by (auto simp: OK_simps)
  have "steps reads_only (catchM planning (\<lambda>e. throwM (mapPlanningError e)))"
    by (intro step_intros planning)
  then have "reads_only w2 w3" using plan by (rule stepsD)
  moreover have "reads_only w3 w4" by (rule stepsD [OF reading.steps_agent_reads(1) insp])
  moreover have "reads_only w4 w5" by (rule stepsD [OF reading.steps_assertPlanMatchesCurrent mtch])
  moreover have "reads_only w5 w'" by (rule stepsD [OF reading.steps_capacity(2) cap])
  ultimately have "w_db w' = w_db w2" by (simp add: reads_only_def)
  then show "unclaimed c sid (w_db w')" if "exclusive (w_db w)"
    using resolvePriorServiceOperation_OK [OF prior that] assertNoNodeOperationConflict_OK [OF node]
    by (auto simp: unclaimed_def)
  show "\<exists>n. x_inspectService ext n sid = Inr before" using inspectService_OK [OF insp] by blast
  show "p_serviceId plan = s_id (sd_service before)"
    using mtch by (simp add: assertPlanMatchesCurrent_def throwM_def split: if_splits)
qed

lemma intended_row:
  assumes "persistIntent ext oid c plan type actor k before w = (Inr u, w')"
  shows "\<exists>r. find_row o_id oid (operations (w_db w')) = Some r \<and> intended oid c plan type actor k r"
    and "w_locks w' = w_locks w" and "w_sent w = w_sent w'" and "(False, Some oid) \<notin> recorded (w_db w)"
proof -
  obtain r where "intended oid c plan type actor k r" "store_step (Started r) (w_db w) (w_db w')" "only_db w w'"
    using makesD [OF makes_persistIntent assms] by blast
  then show "\<exists>r. find_row o_id oid (operations (w_db w')) = Some r \<and> intended oid c plan type actor k r"
    and "w_locks w' = w_locks w" and "w_sent w = w_sent w'" and "(False, Some oid) \<notin> recorded (w_db w)"
    by (auto simp: find_row_snoc intended_def only_db_iff recorded_iff elim!: store_step_cases)
qed

context store_relation
begin

lemma dispatchServiceMutation_related:
  assumes "R w0 w" and wp: "R w0 wp" "w_sent wp = w_sent w" "(False, Some oid) \<notin> recorded (w_db wp)"
    and r: "find_row o_id oid (operations (w_db w)) = Some r" "intended oid c plan type actor k r"
    and req: "request_matches ext req r" and type: "type \<in> {SCALE, RESTART}"
    and lock: "serviceLockName ext c (request_target req) \<in> set (w_locks w)"
  shows "R w0 (snd (dispatchServiceMutation ext oid actor c sid plan req w))"
proof -
  let ?send = "bindM (withMutationOperation oid (agentMutation ext req (x_sendService ext))) (\<lambda>accepted.
        thenM (assertAcceptedMatchesPlan accepted plan) (markVerifying ext oid accepted))"
  have sent: "R w0 (snd (?send w))"
    using assms by (intro bindM_from dispatch_service_related [OF assms(1) wp r(1)] steps_from step_intros)
       (auto simp: intended_def)
  have kept: "mutation_row oid (w_db w1)" if "snd (?send w) = w1" for w1
  proof -
    have "on_db history_kept w (snd (?send w))"
      by (intro history.bindM_related withMutationOperation_history history.steps_at step_intros)
    then have "history_kept (w_db w) (w_db w1)" using that by (simp add: on_db_def)
    moreover have "mutation_row oid (w_db w)" using r type by (auto simp: mutation_row_def intended_def)
    ultimately show ?thesis by (rule mutation_row_history [rotated])
  qed
  show ?thesis
    unfolding dispatchServiceMutation_def
  proof (intro bindM_from, goal_cases)
    case 1
    show ?case using sent by simp
  next
    case (2 outcome w1)
    then have row: "mutation_row oid (w_db w1)" using kept by (simp add: attempt_OK)
    have "R w1 (snd (bindM (requireOperation ext oid) (reconcileLocked ext) w1))"
    proof (intro bindM_related steps_at [OF steps_requireOperation] reconcileLocked_related)
      fix op w2 assume "requireOperation ext oid w1 = (Inr op, w2)"
      then show "mutation_row (o_id op) (w_db w2)" using row requireOperation_OK by auto
    qed
    moreover have "R w1 (snd (thenM (markAgentRejected ext oid actor c sid e) (throwM (mapAgentError e)) w1))" for e
      by (rule steps_at) (intro step_intros)
    moreover have "R w1 (snd (bindM (requireOperation ext oid) (verifyAndCompleteLocked ext) w1))"
      using row by (intro requireAndVerify_related)
    ultimately show ?case using trans [OF 2(2)] by (auto split: sum.split)
  qed
qed

lemma lockedServiceMutation_related:
  assumes type: "type \<in> {SCALE, RESTART}"
    and planning: "steps reads_only planning" "steps same_locks planning" "steps R planning"
    and sid: "\<exists>n ref res. x_inspectService ext n ref = Inr res \<and> sid = s_id (sd_service res)"
    and lock: "serviceLockName ext c sid \<in> set (w_locks w)"
    and req: "\<And>plan. request_target (request plan) = sid"
      "\<And>plan r. intended oid c plan type actor k r \<Longrightarrow> (canonical_ids ext \<Longrightarrow> p_serviceId plan = sid) \<Longrightarrow>
         request_matches ext (request plan) r"
  shows "R w (snd (lockedServiceMutation ext c sid oid actor type v k planning capacity request w))"
  unfolding lockedServiceMutation_def
proof (intro bindM_from steps_at [OF steps_repository_queries(2)], goal_cases)
  case (1 found w1)
  note find = op_find_OK [OF 1(1)]
  have locks: "w_locks w1 = w_locks w"
    using stepsD [OF lock_keeping.steps_repository_queries(2) 1(1)] by (simp add: same_locks_def)
  show ?case
  proof (cases found)
    case (Some existing)
    have "R w1 (snd (thenM (assertIdempotent existing type c sid actor v k)
        (if isTerminal existing then retM existing else reconcileLocked ext existing) w1))"
      unfolding thenM_def
    proof (rule bindM_related [OF steps_at [OF steps_assertIdempotent]])
      fix u w2 assume idem: "assertIdempotent existing type c sid actor v k w1 = (Inr u, w2)"
      then have "w2 = w1" "o_type existing = type"
        by (auto simp: assertIdempotent_def throwM_def retM_def split: if_splits)
      moreover have row: "find_row o_id oid (operations (w_db w1)) = Some existing" using find Some by simp
      ultimately have "mutation_row (o_id existing) (w_db w2)"
        using type find_row_Some [OF row] by (auto simp: mutation_row_def)
      then show "R w2 (snd ((if isTerminal existing then retM existing else reconcileLocked ext existing) w2))"
        using reconcileLocked_related steps_at [OF steps_retM] by auto
    qed
    then show ?thesis using Some trans [OF 1(2)] by simp
  next
    case None
    let ?prep = "prepareServiceMutation ext c sid planning capacity"
    have "R w1 (snd (bindM ?prep (\<lambda>(plan, before).
        thenM (persistIntent ext oid c plan type actor k before)
          (dispatchServiceMutation ext oid actor c sid plan (request plan))) w1))"
    proof (rule bindM_from [OF steps_at [OF steps_prepareServiceMutation [OF planning(3)]]], clarify)
      fix plan before w2
      assume prep: "?prep w1 = (Inr (plan, before), w2)" and R2: "R w1 w2"
      have locks2: "w_locks w2 = w_locks w1"
        using stepsD [OF lock_recovery.steps_prepareServiceMutation [OF planning(2)] prep]
        by (simp add: same_locks_def)
      note prepared = prepareServiceMutation_OK [OF prep planning(1)]
      have canonical: "p_serviceId plan = sid" if "canonical_ids ext"
        using that sid prepared(2,3) unfolding canonical_ids_def by metis
      have start: "R w1 (snd (persistIntent ext oid c plan type actor k before w2))"
        using prepared(1) canonical
        by (intro start_related [OF makes_persistIntent R2]) (auto simp: intended_def)
      show "R w1 (snd (thenM (persistIntent ext oid c plan type actor k before)
          (dispatchServiceMutation ext oid actor c sid plan (request plan)) w2))"
        unfolding thenM_def
      proof (rule bindM_from, rule start)
        fix u w3 assume pers: "persistIntent ext oid c plan type actor k before w2 = (Inr u, w3)" and R3: "R w1 w3"
        obtain r where "find_row o_id oid (operations (w_db w3)) = Some r" "intended oid c plan type actor k r"
          using intended_row(1) [OF pers] by blast
        then show "R w1 (snd (dispatchServiceMutation ext oid actor c sid plan (request plan) w3))"
          using type req canonical lock locks locks2 intended_row(2) [OF pers]
          by (intro dispatchServiceMutation_related [OF R3 R2] intended_row(3,4) [OF pers]) auto
      qed
    qed
    then show ?thesis using None trans [OF 1(2)] by simp
  qed
qed

lemma steps_scale: "steps R (scale ext c ref i actor)"
  unfolding steps_def scale_def thenM_def Let_def
proof (intro allI bindM_related steps_at [OF steps_assertCluster] steps_at [OF steps_agent_reads(1)]
    withServiceLock_related lockedServiceMutation_related, goal_cases)
  case (5 w u w1 res w2 w3)
  then show ?case using inspectService_OK by blast
qed (auto simp: intended_def op_intent_def intro: step_intros)

lemma steps_restart: "steps R (restart ext c ref i actor)"
  unfolding steps_def restart_def thenM_def Let_def
proof (intro allI bindM_related steps_at [OF steps_assertCluster] steps_at [OF steps_agent_reads(1)]
    withServiceLock_related lockedServiceMutation_related, goal_cases)
  case (5 w u w1 res w2 w3)
  then show ?case using inspectService_OK by blast
qed (auto simp: intended_def op_intent_def intro: step_intros)

end

section \<open>Start-up\<close>

context locked_recovery_relation
begin

lemma recoverOperation_related:
  assumes "o_type op \<in> {SCALE, RESTART} \<Longrightarrow> unique_keys (w_db w) \<Longrightarrow> mutation_row (o_id op) (w_db w)"
  shows "R w (snd (recoverOperation ext op w))"
proof (cases "o_type op = DEPLOY \<or> o_type op = ROLLBACK")
  case True
  then show ?thesis by (auto simp: recoverOperation_def retM_def refl)
next
  case False
  then have type: "o_type op \<in> {SCALE, RESTART}" by (cases "o_type op") auto
  let ?body = "bindM (op_findWithConnection ext (o_id op)) (\<lambda>found.
       case found of None \<Rightarrow> retM ()
       | Some current \<Rightarrow> if isTerminal current then retM () else thenM (reconcileLocked ext current) (retM ()))"
  have "R w1 (snd (?body w1))" if "same_core (w_db w) (w_db w1)" for w1
  proof (rule bindM_related [OF steps_at [OF steps_repository_queries(2)]])
    fix found w2 assume find: "op_findWithConnection ext (o_id op) w1 = (Inr found, w2)"
    have "R w2 (snd (thenM (reconcileLocked ext current) (retM ()) w2))" if "found = Some current" for current
      unfolding thenM_def
    proof (intro bindM_related reconcileLocked_related steps_at [OF steps_retM])
      assume "unique_keys (w_db w2)"
      moreover have row: "find_row o_id (o_id op) (operations (w_db w1)) = Some current"
        using op_find_OK [OF find] that by simp
      ultimately show "mutation_row (o_id current) (w_db w2)"
        using assms [OF type] op_find_OK [OF find] \<open>same_core (w_db w) (w_db w1)\<close> find_row_Some [OF row]
        by (auto simp: unique_keys_def same_core_def mutation_row_def)
    qed
    then show "R w2 (snd ((case found of None \<Rightarrow> retM ()
       | Some current \<Rightarrow> if isTerminal current then retM () else thenM (reconcileLocked ext current) (retM ())) w2))"
      using steps_at [OF steps_retM] by (auto split: option.split)
  qed
  then have "R w (snd (withServiceRecoveryLock ext (o_clusterId op) (o_serviceId op) ?body w))"
    unfolding withServiceRecoveryLock_def by (intro locked_related(2)) blast
  then show ?thesis
    unfolding recoverOperation_def if_not_P [OF False] thenM_def [of "attempt _"]
    by (intro bindM_related steps_at [OF steps_retM]) (simp only: attempt_snd)
qed

end

definition recoverable :: "OperationRecord list \<Rightarrow> database \<Rightarrow> bool" where
  "recoverable ops d \<longleftrightarrow>
     (\<forall>op \<in> set ops. o_type op \<in> {SCALE, RESTART} \<longrightarrow> unique_keys d \<longrightarrow> mutation_row (o_id op) d)"

lemma recoverable_kept:
  assumes "recoverable ops d" and "opens_nothing d d'" and "history_kept d d'"
  shows "recoverable ops d'"
  using assms claims_shrink(4,5) [OF assms(2)] mutation_row_history
  unfolding recoverable_def unique_keys_def by metis

context locked_recovery_relation
begin

lemma recoverAll_related:
  assumes "recoverable ops (w_db w)"
  shows "R w (snd (forEachM (recoverOperation ext) ops w))"
  using assms
proof (induction ops arbitrary: w)
  case Nil
  then show ?case using steps_at [OF steps_retM] by simp
next
  case (Cons op ops)
  have op: "o_type op \<in> {SCALE, RESTART} \<Longrightarrow> unique_keys (w_db w) \<Longrightarrow> mutation_row (o_id op) (w_db w)"
    using Cons.prems by (auto simp: recoverable_def)
  show ?case
    unfolding forEachM.simps thenM_def
  proof (intro bindM_related Cons.IH recoverOperation_related op)
    fix u w1 assume run: "recoverOperation ext op w = (Inr u, w1)"
    have "on_db opens_nothing w w1" "on_db history_kept w w1"
      using closing.recoverOperation_related [OF op] hist.recoverOperation_related [OF op] run
      by (metis snd_conv)+
    then show "recoverable ops (w_db w1)"
      using Cons.prems recoverable_kept unfolding on_db_def recoverable_def by (metis list.set_intros(2))
  qed
qed

lemma steps_onApplicationBootstrap: "steps R (onApplicationBootstrap ext)"
  unfolding steps_def onApplicationBootstrap_def
proof (intro allI bindM_related steps_at [OF steps_repository_queries(3)] recoverAll_related)
  fix w ops w1 assume "op_listNonTerminal ext w = (Inr ops, w1)"
  from query_OK [OF this [unfolded op_listNonTerminal_def]]
  have "set ops \<subseteq> set (operations (w_db w1))" by auto
  then show "recoverable ops (w_db w1)"
    using unique_op_row unfolding recoverable_def mutation_row_def by blast
qed

end

end
