(* ===== verification/Node_Mutation_Service.thy ===== *)
theory Node_Mutation_Service
  imports Mutation_Service
begin

text \<open>
  \<^verbatim>\<open>operations/node-mutation.service.ts\<close>: drain, activate and label changes of a node, with
  the locks of all affected services, verification, reconciliation and recovery at start-up.
  A request carries the label patch; only \<open>LABELS\<close> looks at it.
\<close>

section \<open>Helpers\<close>

fun nodeOperationTypeName :: "NodeOperationType \<Rightarrow> string" where
  "nodeOperationTypeName DRAIN = ''DRAIN''"
| "nodeOperationTypeName ACTIVATE = ''ACTIVATE''"
| "nodeOperationTypeName LABELS = ''LABELS''"

definition node_isTerminal :: "NodeOperationRecord \<Rightarrow> bool" where
  "node_isTerminal operation = (n_status operation = SUCCESS \<or> n_status operation = FAILED)"

lemma node_isTerminal_iff [simp]: "node_isTerminal r \<longleftrightarrow> status_terminal (n_status r)"
  by (simp add: node_isTerminal_def status_terminal_def)

definition node_mapAgentError :: "failure \<Rightarrow> failure" where
  "node_mapAgentError e =
     (case agent_request_error e of
        Some (st, b) \<Rightarrow>
          if st = 409 then ConflictException ''Agent rejected stale node state''
          else BadGatewayException ''Agent rejected node mutation request''
      | None \<Rightarrow> BadGatewayException ''Agent rejected node mutation request'')"

definition node_mapPlanningError :: "failure \<Rightarrow> failure" where
  "node_mapPlanningError e =
     (case agent_request_error e of
        Some (st, b) \<Rightarrow>
          if st = 409 then ConflictException ''Node changed before mutation planning''
          else BadGatewayException ''Agent node mutation planning failed''
      | None \<Rightarrow> e)"

definition sameLabelPatch :: "LabelPatch option \<Rightarrow> LabelPatch option \<Rightarrow> bool" where
  "sameLabelPatch left right =
     (case (left, right) of
        (Some l, Some r) \<Rightarrow>
          (let leftKeys = sort (map fst (lp_set l)); rightKeys = sort (map fst (lp_set r)) in
           sameStrings leftKeys rightKeys \<and>
           list_all (\<lambda>key. map_of (lp_set l) key = map_of (lp_set r) key) leftKeys \<and>
           sameStrings (sort (lp_remove l)) (sort (lp_remove r)))
      | (None, None) \<Rightarrow> True
      | _ \<Rightarrow> False)"

definition requestedPatch :: "NodeOperationType \<Rightarrow> NodeMutationRequest \<Rightarrow> LabelPatch option" where
  "requestedPatch type input =
     (if type = LABELS then Some \<lparr>lp_set = nq_set input, lp_remove = sort (nq_remove input)\<rparr> else None)"

definition node_assertIdempotent ::
    "NodeOperationRecord \<Rightarrow> string \<Rightarrow> string \<Rightarrow> NodeOperationType \<Rightarrow> string \<Rightarrow> nat \<Rightarrow> LabelPatch option \<Rightarrow> unit cp" where
  "node_assertIdempotent existing clusterId nodeId type actorId expectedVersion labelPatch =
     (if n_clusterId existing \<noteq> clusterId \<or> n_nodeId existing \<noteq> nodeId \<or> n_type existing \<noteq> type
         \<or> n_actorId existing \<noteq> actorId \<or> n_expectedVersion existing \<noteq> expectedVersion
         \<or> \<not> sameLabelPatch (n_labelPatch existing) labelPatch
      then throwM (ConflictException ''operationId was already used for a different node mutation'')
      else retM ())"

definition assertPlanMatchesLockedNode ::
    "NodeMutationPlan \<Rightarrow> NodeDetailResponse \<Rightarrow> string list \<Rightarrow> unit cp" where
  "assertPlanMatchesLockedNode plan locked lockedServices =
     (if np_nodeId plan \<noteq> nd_id (ndr_node locked) \<or> np_version plan \<noteq> nd_version (ndr_node locked)
         \<or> np_beforeSpecHash plan \<noteq> nd_specHash (ndr_node locked)
         \<or> \<not> sameStrings (sortedUnique (np_affectedServiceIds plan)) lockedServices
      then throwM (ConflictException ''Node changed between lock acquisition and mutation planning'')
      else retM ())"

definition node_assertAcceptedMatchesPlan :: "NodeMutationResponse \<Rightarrow> NodeMutationPlan \<Rightarrow> unit cp" where
  "node_assertAcceptedMatchesPlan accepted plan =
     (if nr_nodeId accepted \<noteq> np_nodeId plan \<or> nr_targetSpecHash accepted \<noteq> np_targetSpecHash plan
         \<or> nr_targetAvailability accepted \<noteq> np_targetAvailability plan
      then throwM (ConflictException ''Agent node mutation response does not match the recorded target'')
      else retM ())"

definition node_requireOperation :: "external \<Rightarrow> string \<Rightarrow> NodeOperationRecord cp" where
  "node_requireOperation ext oid =
     bindM (nop_findWithConnection ext oid) (\<lambda>row.
       case row of
         None \<Rightarrow> throwM (PlainError ''Node operation disappeared after persistence'')
       | Some operation \<Rightarrow> retM operation)"

definition node_plan :: "external \<Rightarrow> NodeOperationType \<Rightarrow> string \<Rightarrow> nat \<Rightarrow> NodeMutationRequest \<Rightarrow> NodeMutationPlan cp" where
  "node_plan ext type nodeId expectedVersion input =
     (case type of
        DRAIN \<Rightarrow> planDrainNode ext nodeId expectedVersion
      | ACTIVATE \<Rightarrow> planActivateNode ext nodeId expectedVersion
      | LABELS \<Rightarrow> planNodeLabels ext nodeId expectedVersion (nq_set input) (nq_remove input))"

definition node_execute :: "external \<Rightarrow> NodeOperationType \<Rightarrow> string \<Rightarrow> NodeMutationPlan \<Rightarrow> NodeMutationResponse cp" where
  "node_execute ext type nodeId plan =
     (case type of
        DRAIN \<Rightarrow>
          agentMutation ext (DrainNode nodeId (np_version plan) (np_beforeSpecHash plan)
            (np_targetSpecHash plan) (np_affectedServiceIds plan)) (x_sendNode ext)
      | ACTIVATE \<Rightarrow>
          agentMutation ext (ActivateNode nodeId (np_version plan) (np_beforeSpecHash plan)
            (np_targetSpecHash plan)) (x_sendNode ext)
      | LABELS \<Rightarrow>
          (case np_targetLabels plan of
             None \<Rightarrow> throwM (PlainError ''Planned target labels are missing'')
           | Some targetLabels \<Rightarrow>
               agentMutation ext (UpdateNodeLabels nodeId (np_version plan) (np_beforeSpecHash plan)
                 (np_targetSpecHash plan) (np_affectedServiceIds plan) targetLabels) (x_sendNode ext)))"

section \<open>Transactions\<close>

definition labelPatchJson :: "LabelPatch \<Rightarrow> json" where
  "labelPatchJson p = JObj [(''set'', labelsJson (lp_set p)), (''remove'', JArr (map JStr (lp_remove p)))]"

definition node_persistIntent ::
    "external \<Rightarrow> string \<Rightarrow> string \<Rightarrow> NodeOperationType \<Rightarrow> string \<Rightarrow> NodeMutationPlan \<Rightarrow>
     NodeDetailResponse \<Rightarrow> LabelPatch option \<Rightarrow> unit cp" where
  "node_persistIntent ext operationId clusterId type actorId plan before labelPatch =
     inTransaction ext
       (thenM (nop_create ext
          \<lparr>ni_id = operationId, ni_clusterId = clusterId, ni_nodeId = np_nodeId plan, ni_type = type,
           ni_actorId = actorId, ni_expectedVersion = np_version plan,
           ni_beforeSpecHash = np_beforeSpecHash plan, ni_targetSpecHash = np_targetSpecHash plan,
           ni_targetAvailability = np_targetAvailability plan,
           ni_affectedServiceIds = np_affectedServiceIds plan,
           ni_targetLabels = np_targetLabels plan, ni_labelPatch = labelPatch\<rparr>)
       (thenM (nop_markRunning ext operationId)
          (op_audit ext (nodeAudit operationId actorId clusterId (np_nodeId plan)
             (''NODE_'' @ nodeOperationTypeName type @ ''_STARTED'') (Some (nodeJson (ndr_node before)))
             (Some (JObj ([(''targetSpecHash'', JStr (np_targetSpecHash plan)),
                           (''targetAvailability'', JStr (availability_string (np_targetAvailability plan))),
                           (''affectedServiceIds'', JArr (map JStr (np_affectedServiceIds plan)))]
                          @ opt_field ''targetLabels'' labelsJson (np_targetLabels plan)
                          @ [(''labelPatch'', nullable labelPatchJson labelPatch)])))))))"

definition node_rejectionCode :: "failure \<Rightarrow> string" where
  "node_rejectionCode e =
     (case e of
        MaintenancePreDispatchRejection c \<Rightarrow> ''MAINTENANCE_DISPATCH_REJECTED''
      | AgentRequestError st b \<Rightarrow>
          if st = 409 then ''NODE_VERSION_CONFLICT'' else ''NODE_MUTATION_REJECTED''
      | _ \<Rightarrow> ''NODE_MUTATION_REJECTED'')"

definition node_markRejected ::
    "external \<Rightarrow> string \<Rightarrow> string \<Rightarrow> string \<Rightarrow> string \<Rightarrow> failure \<Rightarrow> unit cp" where
  "node_markRejected ext operationId actorId clusterId nodeId e =
     (let (st, b) = rejectionParts e in
      inTransaction ext
        (thenM (nop_markFailed ext operationId (node_rejectionCode e) (body_text b))
          (op_audit ext (nodeAudit operationId actorId clusterId nodeId ''NODE_MUTATION_REJECTED''
             None (Some (rejectionJson st b))))))"

definition nodeOperationAudit :: "NodeOperationRecord \<Rightarrow> string \<Rightarrow> json option \<Rightarrow> AuditEventInput" where
  "nodeOperationAudit operation action afterJson =
     nodeAudit (n_id operation) (n_actorId operation) (n_clusterId operation) (n_nodeId operation)
       action None afterJson"

definition node_markNeedsAttention ::
    "external \<Rightarrow> NodeOperationRecord \<Rightarrow> string \<Rightarrow> string \<Rightarrow> json option \<Rightarrow> unit cp" where
  "node_markNeedsAttention ext operation code message current =
     inTransaction ext
       (thenM (nop_markNeedsAttention ext (n_id operation) code message)
         (op_audit ext (nodeOperationAudit operation ''NODE_MUTATION_NEEDS_ATTENTION''
            (Some (case current of None \<Rightarrow> codeMessageJson code message | Some j \<Rightarrow> j)))))"

definition node_completeSuccess :: "external \<Rightarrow> NodeOperationRecord \<Rightarrow> NodeDetailResponse \<Rightarrow> unit cp" where
  "node_completeSuccess ext operation current =
     inTransaction ext
       (thenM (nop_markSuccess ext (n_id operation) (nd_version (ndr_node current)))
         (op_audit ext (nodeOperationAudit operation
            (''NODE_'' @ nodeOperationTypeName (n_type operation) @ ''_SUCCEEDED'')
            (Some (JObj [(''node'', nodeJson (ndr_node current)),
                         (''remainingTasks'', JArr (map taskJson (ndr_tasks current)))])))))"

section \<open>Verification and reconciliation\<close>

fun affectedServicesConverged :: "external \<Rightarrow> string list \<Rightarrow> bool cp" where
  "affectedServicesConverged ext [] = retM True"
| "affectedServicesConverged ext (serviceId # serviceIds) =
     bindM (checkServicePlacement ext serviceId) (\<lambda>status.
       if status \<noteq> PlConverged then retM False else affectedServicesConverged ext serviceIds)"

text \<open>
  The part of the loop body after the inspection, inside the same \<open>try\<close>: it tells whether
  the loop is left.
\<close>

definition node_settleSnapshot :: "external \<Rightarrow> NodeOperationRecord \<Rightarrow> NodeDetailResponse \<Rightarrow> bool cp" where
  "node_settleSnapshot ext operation current =
     (case classifyNodeMutation operation current of
        NM_SUCCESS \<Rightarrow>
          bindM (if n_type operation = LABELS
                 then affectedServicesConverged ext (n_affectedServiceIds operation)
                 else retM True) (\<lambda>converged.
          if \<not> converged then retM False
          else thenM (node_completeSuccess ext operation current) (retM True))
      | NM_EXTERNAL_CONFLICT message \<Rightarrow>
          thenM (node_markNeedsAttention ext operation ''EXTERNAL_NODE_CONFLICT'' message
                   (Some (nodeJson (ndr_node current)))) (retM True)
      | NM_PENDING \<Rightarrow> retM False)"

definition node_verifyStep ::
    "external \<Rightarrow> NodeOperationRecord \<Rightarrow> NodeDetailResponse option \<times> string option \<Rightarrow>
     (NodeDetailResponse option \<times> string option, unit) loop_step cp" where
  "node_verifyStep ext operation s =
     bindM (attempt (inspectNode ext (n_nodeId operation))) (\<lambda>r.
     case r of
       Inl e \<Rightarrow> retM (Continue (fst s, Some (errorMessage e)))
     | Inr current \<Rightarrow>
         bindM (attempt (node_settleSnapshot ext operation current)) (\<lambda>settled.
         case settled of
           Inl e \<Rightarrow> retM (Continue (Some current, Some (errorMessage e)))
         | Inr left \<Rightarrow> retM (if left then Break () else Continue (Some current, None))))"

definition node_verifyAndCompleteLocked :: "external \<Rightarrow> NodeOperationRecord \<Rightarrow> NodeOperationRecord cp" where
  "node_verifyAndCompleteLocked ext operation =
     bindM (poll ext VERIFY_TIMEOUT_MS VERIFY_INTERVAL_MS (node_verifyStep ext operation) (None, None)) (\<lambda>r.
     case r of
       Inr _ \<Rightarrow> node_requireOperation ext (n_id operation)
     | Inl (lastSeen, lastError) \<Rightarrow>
         thenM (node_markNeedsAttention ext operation ''NODE_VERIFICATION_UNCERTAIN''
                  (if \<not> falsy lastError
                   then ''Node verification timed out after Agent errors: '' @ the lastError
                   else ''Node mutation was accepted but convergence was not confirmed'')
                  (map_option (\<lambda>c. nodeJson (ndr_node c)) lastSeen))
           (node_requireOperation ext (n_id operation)))"

definition node_reconcileLocked :: "external \<Rightarrow> NodeOperationRecord \<Rightarrow> NodeOperationRecord cp" where
  "node_reconcileLocked ext operation =
     bindM (attempt (inspectNode ext (n_nodeId operation))) (\<lambda>r.
     case r of
       Inl e \<Rightarrow>
         thenM (node_markNeedsAttention ext operation ''NODE_RECONCILIATION_UNAVAILABLE''
                  (''Unable to inspect node: '' @ errorMessage e) None)
           (node_requireOperation ext (n_id operation))
     | Inr current \<Rightarrow>
         if nd_specHash (ndr_node current) = n_targetSpecHash operation then
           thenM (if n_status operation \<noteq> VERIFYING
                  then nop_markVerifying ext (n_id operation) (nd_version (ndr_node current))
                  else retM ())
             (bindM (node_requireOperation ext (n_id operation)) (node_verifyAndCompleteLocked ext))
         else if nd_version (ndr_node current) = n_expectedVersion operation
                 \<and> nd_specHash (ndr_node current) = n_beforeSpecHash operation then
           thenM (node_markNeedsAttention ext operation ''NODE_MUTATION_NOT_OBSERVED''
                    ''Node mutation outcome is uncertain and target state was not observed'' None)
             (node_requireOperation ext (n_id operation))
         else
           thenM (node_markNeedsAttention ext operation ''EXTERNAL_NODE_CONFLICT''
                    ''Node spec changed outside the recorded Docklane mutation''
                    (Some (nodeJson (ndr_node current))))
             (node_requireOperation ext (n_id operation)))"

section \<open>The mutation\<close>

definition resolvePriorNodeOperation :: "external \<Rightarrow> string \<Rightarrow> string \<Rightarrow> unit cp" where
  "resolvePriorNodeOperation ext clusterId nodeId =
     bindM (nop_findNonTerminalForNodeWithConnection ext clusterId nodeId) (\<lambda>found.
     case found of
       None \<Rightarrow> retM ()
     | Some prior \<Rightarrow>
         bindM (node_reconcileLocked ext prior) (\<lambda>reconciled.
         if \<not> node_isTerminal reconciled then
           throwM (ConflictException (''Node has unresolved operation '' @ n_id reconciled
             @ '' ('' @ operationStatusName (n_status reconciled) @ '')''))
         else retM ()))"

definition assertServiceFree :: "external \<Rightarrow> string \<Rightarrow> string \<Rightarrow> unit cp" where
  "assertServiceFree ext clusterId serviceId =
     bindM (op_findNonTerminalForService ext clusterId serviceId) (\<lambda>serviceOperation.
     case serviceOperation of
       Some op \<Rightarrow>
         throwM (ConflictException (''Service '' @ serviceId @ '' has unresolved operation '' @ o_id op))
     | None \<Rightarrow>
         bindM (nop_findNonTerminalAffectingService ext clusterId serviceId) (\<lambda>nodeOperation.
         case nodeOperation of
           Some nop \<Rightarrow>
             throwM (ConflictException (''Service '' @ serviceId @ '' is affected by unresolved node operation ''
               @ n_id nop @ '' on node '' @ n_nodeId nop))
         | None \<Rightarrow> retM ()))"

text \<open>
  The services affected according to the locked node: planned first for \<open>LABELS\<close>, the
  services with tasks on the node otherwise.
\<close>

definition lockedImpact ::
    "external \<Rightarrow> NodeOperationType \<Rightarrow> string \<Rightarrow> NodeMutationRequest \<Rightarrow> NodeDetailResponse \<Rightarrow>
     (NodeMutationPlan option \<times> string list) cp" where
  "lockedImpact ext type nodeId input lockedNode =
     (if type = LABELS then
        bindM (catchM (node_plan ext type nodeId (nq_expectedVersion input) input)
                 (\<lambda>e. throwM (node_mapPlanningError e))) (\<lambda>plan.
          retM (Some plan, sortedUnique (np_affectedServiceIds plan)))
      else retM (None, sortedUnique (ndr_serviceIds lockedNode)))"

definition planIfNeeded ::
    "external \<Rightarrow> NodeOperationType \<Rightarrow> string \<Rightarrow> NodeMutationRequest \<Rightarrow> NodeMutationPlan option \<Rightarrow>
     NodeMutationPlan cp" where
  "planIfNeeded ext type nodeId input planned =
     (case planned of
        Some plan \<Rightarrow> retM plan
      | None \<Rightarrow> catchM (node_plan ext type nodeId (nq_expectedVersion input) input)
                  (\<lambda>e. throwM (node_mapPlanningError e)))"

text \<open>Everything between the idempotency check and the durable intent.\<close>

definition prepareNodeMutation ::
    "external \<Rightarrow> string \<Rightarrow> string \<Rightarrow> NodeOperationType \<Rightarrow> NodeMutationRequest \<Rightarrow> string list \<Rightarrow>
     (NodeMutationPlan \<times> NodeDetailResponse) cp" where
  "prepareNodeMutation ext clusterId nodeId type input initiallyAffected =
     thenM (resolvePriorNodeOperation ext clusterId nodeId)
    (bindM (inspectNode ext nodeId) (\<lambda>lockedNode.
     bindM (lockedImpact ext type nodeId input lockedNode) (\<lambda>(planned, lockedServices).
     if \<not> sameStrings initiallyAffected lockedServices then
       throwM (ConflictException
         (if type = LABELS
          then ''Node label impact set changed while acquiring mutation locks; retry the operation''
          else ''Node task set changed while acquiring mutation locks; retry the operation''))
     else
       thenM (forEachM (assertServiceFree ext clusterId) lockedServices)
      (bindM (planIfNeeded ext type nodeId input planned) (\<lambda>plan.
       thenM (assertPlanMatchesLockedNode plan lockedNode lockedServices)
         (retM (plan, lockedNode)))))))"

definition dispatchNodeMutation ::
    "external \<Rightarrow> string \<Rightarrow> string \<Rightarrow> string \<Rightarrow> string \<Rightarrow> NodeOperationType \<Rightarrow> NodeMutationPlan \<Rightarrow>
     NodeOperationRecord cp" where
  "dispatchNodeMutation ext operationId actorId clusterId nodeId type plan =
     bindM (attempt
       (bindM (withMutationOperation operationId (node_execute ext type nodeId plan)) (\<lambda>accepted.
        thenM (node_assertAcceptedMatchesPlan accepted plan)
          (nop_markVerifying ext operationId (nr_version accepted))))) (\<lambda>outcome.
     case outcome of
       Inl e \<Rightarrow>
         if isDeterministicAgentRejection e then
           thenM (node_markRejected ext operationId actorId clusterId nodeId e)
             (throwM (node_mapAgentError e))
         else bindM (node_requireOperation ext operationId) (node_reconcileLocked ext)
     | Inr _ \<Rightarrow> bindM (node_requireOperation ext operationId) (node_verifyAndCompleteLocked ext))"

definition lockedNodeMutation ::
    "external \<Rightarrow> string \<Rightarrow> string \<Rightarrow> NodeOperationType \<Rightarrow> NodeMutationRequest \<Rightarrow> string \<Rightarrow>
     string list \<Rightarrow> NodeOperationRecord cp" where
  "lockedNodeMutation ext clusterId nodeId type input actorId initiallyAffected =
     bindM (nop_findWithConnection ext (nq_operationId input)) (\<lambda>found.
     case found of
       Some existing \<Rightarrow>
         thenM (node_assertIdempotent existing clusterId nodeId type actorId (nq_expectedVersion input)
                  (requestedPatch type input))
           (if node_isTerminal existing then retM existing else node_reconcileLocked ext existing)
     | None \<Rightarrow>
         bindM (prepareNodeMutation ext clusterId nodeId type input initiallyAffected) (\<lambda>(plan, lockedNode).
         thenM (node_persistIntent ext (nq_operationId input) clusterId type actorId plan lockedNode
                  (requestedPatch type input))
           (if np_beforeSpecHash plan = np_targetSpecHash plan
            then bindM (node_requireOperation ext (nq_operationId input)) (node_verifyAndCompleteLocked ext)
            else dispatchNodeMutation ext (nq_operationId input) actorId clusterId nodeId type plan)))"

text \<open>The services whose locks are taken, found before locking.\<close>

definition initialImpact ::
    "external \<Rightarrow> NodeOperationType \<Rightarrow> NodeMutationRequest \<Rightarrow> NodeDetailResponse \<Rightarrow>
     NodeOperationRecord option \<Rightarrow> (NodeOperationRecord option \<times> string list) cp" where
  "initialImpact ext type input initial existing =
     (let nodeId = nd_id (ndr_node initial) in
      if type = LABELS \<and> existing = None then
        bindM (attempt (node_plan ext type nodeId (nq_expectedVersion input) input)) (\<lambda>r.
        case r of
          Inr plan \<Rightarrow> retM (None, sortedUnique (np_affectedServiceIds plan))
        | Inl e \<Rightarrow>
            bindM (nop_find ext (nq_operationId input)) (\<lambda>raced.
            case raced of
              None \<Rightarrow> throwM (node_mapPlanningError e)
            | Some racedExisting \<Rightarrow>
                retM (Some racedExisting,
                  if n_nodeId racedExisting = nodeId
                  then sortedUnique (n_affectedServiceIds racedExisting) else [])))
      else
        retM (existing,
          if type = LABELS
          then sortedUnique (case existing of None \<Rightarrow> [] | Some e \<Rightarrow> n_affectedServiceIds e)
          else sortedUnique (ndr_serviceIds initial)))"

definition mutate ::
    "external \<Rightarrow> string \<Rightarrow> string \<Rightarrow> NodeMutationRequest \<Rightarrow> Principal \<Rightarrow> NodeOperationType \<Rightarrow>
     NodeOperationRecord cp" where
  "mutate ext clusterId nodeRef input actor type =
     thenM (assertCluster ext clusterId)
    (bindM (inspectNode ext nodeRef) (\<lambda>initial.
     let nodeId = nd_id (ndr_node initial) in
     bindM (nop_find ext (nq_operationId input)) (\<lambda>found.
     bindM (initialImpact ext type input initial found) (\<lambda>(existingBeforeLock, initiallyAffected).
     bindM (nop_findNonTerminalForNode ext clusterId nodeId) (\<lambda>priorBeforeLock.
     let lockServiceIds = sortedUnique (initiallyAffected
           @ (case existingBeforeLock of
                None \<Rightarrow> []
              | Some e \<Rightarrow> if n_nodeId e = nodeId then n_affectedServiceIds e else [])
           @ (case priorBeforeLock of None \<Rightarrow> [] | Some p \<Rightarrow> n_affectedServiceIds p)) in
     withNodeAndServiceLocks ext clusterId nodeId lockServiceIds
       (lockedNodeMutation ext clusterId nodeId type input (pr_actorId actor) initiallyAffected))))))"

definition drain :: "external \<Rightarrow> string \<Rightarrow> string \<Rightarrow> NodeMutationRequest \<Rightarrow> Principal \<Rightarrow> NodeOperationRecord cp" where
  "drain ext clusterId nodeRef input actor = mutate ext clusterId nodeRef input actor DRAIN"

definition activate :: "external \<Rightarrow> string \<Rightarrow> string \<Rightarrow> NodeMutationRequest \<Rightarrow> Principal \<Rightarrow> NodeOperationRecord cp" where
  "activate ext clusterId nodeRef input actor = mutate ext clusterId nodeRef input actor ACTIVATE"

definition labels_of_node :: "external \<Rightarrow> string \<Rightarrow> string \<Rightarrow> NodeMutationRequest \<Rightarrow> Principal \<Rightarrow> NodeOperationRecord cp" where
  "labels_of_node ext clusterId nodeRef input actor = mutate ext clusterId nodeRef input actor LABELS"

definition node_operation :: "external \<Rightarrow> string \<Rightarrow> string \<Rightarrow> NodeOperationRecord cp" where
  "node_operation ext clusterId operationId =
     thenM (assertCluster ext clusterId)
    (bindM (nop_find ext operationId) (\<lambda>found.
     case found of
       None \<Rightarrow> throwM (NotFoundException ''Node operation not found'')
     | Some op \<Rightarrow>
         if n_clusterId op \<noteq> clusterId then throwM (NotFoundException ''Node operation not found'')
         else retM op))"

definition recoverNodeOperation :: "external \<Rightarrow> NodeOperationRecord \<Rightarrow> unit cp" where
  "recoverNodeOperation ext op =
     thenM (attempt
       (withNodeRecoveryLocks ext (n_clusterId op) (n_nodeId op) (n_affectedServiceIds op)
         (bindM (nop_findWithConnection ext (n_id op)) (\<lambda>found.
          case found of
            None \<Rightarrow> retM ()
          | Some current \<Rightarrow>
              if node_isTerminal current then retM ()
              else thenM (node_reconcileLocked ext current) (retM ())))))
       (retM ())"

definition node_onApplicationBootstrap :: "external \<Rightarrow> unit cp" where
  "node_onApplicationBootstrap ext =
     bindM (nop_listNonTerminal ext) (forEachM (recoverNodeOperation ext))"

section \<open>Transactions are store steps\<close>

lemma nodeOperationAudit_id [simp]: "a_operationId (nodeOperationAudit op action j) = n_id op"
  by (simp add: nodeOperationAudit_def)

lemma makes_node_markRejected: "makes {NodeSettled oid FAILED} (node_markRejected ext oid actor c nid e)"
  unfolding node_markRejected_def
  by (auto split: prod.split intro!: node_settles statement_OK step_intros)

lemma makes_node_markNeedsAttention:
  "makes {NodeSettled (n_id op) NEEDS_ATTENTION} (node_markNeedsAttention ext op code m cur)"
  unfolding node_markNeedsAttention_def by (auto intro!: node_settles statement_OK step_intros)

lemma makes_node_completeSuccess:
  "makes {NodeSettled (n_id op) SUCCESS} (node_completeSuccess ext op cur)"
  unfolding node_completeSuccess_def by (auto intro!: node_settles statement_OK step_intros)

lemma makes_nop_markVerifying: "makes {NodeAdvanced oid} (nop_markVerifying ext oid v)"
proof -
  have "\<exists>ev \<in> {NodeAdvanced oid}. store_step ev d d'"
    if "updateOpenNodeOperation oid (\<lambda>r. r\<lparr>n_status := VERIFYING, n_resultVersion := Some v,
        n_errorCode := None, n_errorMessage := None\<rparr>) now d = Inr (n, d')" for now d n d'
  proof -
    have "node_updated oid VERIFYING d d'"
      unfolding node_updated_def
      by (rule exI [of _ "\<lambda>r. r\<lparr>n_status := VERIFYING, n_resultVersion := Some v,
            n_errorCode := None, n_errorMessage := None, n_updatedAt := now\<rparr>"])
         (use that in \<open>auto simp: updateOpenNodeOperation_def Let_def node_same_intent_def\<close>)
    then show ?thesis by (blast intro: node_advanced_step)
  qed
  then show ?thesis unfolding nop_markVerifying_def by (rule makes_execute)
qed

definition node_intended ::
    "string \<Rightarrow> string \<Rightarrow> NodeOperationType \<Rightarrow> NodeMutationPlan \<Rightarrow> NodeOperationRecord \<Rightarrow> bool" where
  "node_intended oid c type plan r \<longleftrightarrow>
     n_id r = oid \<and> n_clusterId r = c \<and> n_nodeId r = np_nodeId plan \<and> n_type r = type \<and>
     n_expectedVersion r = np_version plan \<and> n_beforeSpecHash r = np_beforeSpecHash plan \<and>
     n_targetSpecHash r = np_targetSpecHash plan \<and> n_affectedServiceIds r = np_affectedServiceIds plan \<and>
     n_targetLabels r = np_targetLabels plan \<and> n_status r = RUNNING"

lemma makes_node_persistIntent:
  "makes {NodeStarted r | r. node_intended oid c type plan r}
     (node_persistIntent ext oid c type actor plan before patch)"
  unfolding node_persistIntent_def
proof (rule makes_transaction, goal_cases)
  case 1
  show ?case by (intro step_intros)
next
  case (2 w x w')
  then obtain w1 w2 u v i where create: "nop_create ext
          \<lparr>ni_id = oid, ni_clusterId = c, ni_nodeId = np_nodeId plan, ni_type = type,
           ni_actorId = actor, ni_expectedVersion = np_version plan,
           ni_beforeSpecHash = np_beforeSpecHash plan, ni_targetSpecHash = np_targetSpecHash plan,
           ni_targetAvailability = np_targetAvailability plan,
           ni_affectedServiceIds = np_affectedServiceIds plan,
           ni_targetLabels = np_targetLabels plan, ni_labelPatch = patch\<rparr> w = (Inr u, w1)"
    and run: "nop_markRunning ext oid w1 = (Inr v, w2)"
    and i: "a_operationId i = oid" "op_audit ext i w2 = (Inr x, w')"
    unfolding thenM_OK by (metis audit_ids(2))
  from nop_create_OK [OF create] obtain r where new: "find_row n_id oid (node_operations (w_db w)) = None"
    and w1: "w_db w1 = (w_db w)\<lparr>node_operations := node_operations (w_db w) @ [r]\<rparr>"
    and r: "n_status r = PENDING \<and> node_intended oid c type plan (r\<lparr>n_status := RUNNING\<rparr>)"
    by (auto simp: newNodeOperation_def node_intended_def)
  obtain r' where "node_same_intent r r'" "n_status r' = RUNNING"
    and step: "store_step (NodeStarted r') (w_db w) (w_db w')"
    using node_started_step [OF new _ _ w1 node_statements_OK(1) [OF run] op_audit_OK [OF i(2)]] r i
    by (auto simp: node_intended_def)
  then have "node_intended oid c type plan r'"
    using r by (simp add: node_intended_def node_same_intent_def)
  then show ?case using step by blast
qed

section \<open>Reads\<close>

context step_relation
begin

lemma steps_node_assertIdempotent [step_intros]:
  "steps R (node_assertIdempotent op c nid type actor v patch)"
  unfolding node_assertIdempotent_def by (intro step_intros)

lemma steps_assertPlanMatchesLockedNode [step_intros]: "steps R (assertPlanMatchesLockedNode plan cur sids)"
  unfolding assertPlanMatchesLockedNode_def by (intro step_intros)

lemma steps_node_assertAcceptedMatchesPlan [step_intros]: "steps R (node_assertAcceptedMatchesPlan acc plan)"
  unfolding node_assertAcceptedMatchesPlan_def by (intro step_intros)

lemma steps_node_requireOperation [step_intros]: "steps R (node_requireOperation ext oid)"
  unfolding node_requireOperation_def by (intro step_intros)

lemma steps_node_plan [step_intros]: "steps R (node_plan ext type nid v i)"
  unfolding node_plan_def by (cases type) (simp_all add: steps_agent_reads)

lemma steps_affectedServicesConverged [step_intros]: "steps R (affectedServicesConverged ext sids)"
proof (induction sids)
  case (Cons sid sids)
  then show ?case unfolding affectedServicesConverged.simps by (intro step_intros)
qed (simp add: steps_retM)

lemma steps_assertServiceFree [step_intros]: "steps R (assertServiceFree ext c sid)"
  unfolding assertServiceFree_def by (intro step_intros)

lemma steps_lockedImpact [step_intros]: "steps R (lockedImpact ext type nid i cur)"
  unfolding lockedImpact_def by (intro step_intros)

lemma steps_planIfNeeded [step_intros]: "steps R (planIfNeeded ext type nid i planned)"
  unfolding planIfNeeded_def by (intro step_intros)

lemma steps_initialImpact [step_intros]: "steps R (initialImpact ext type i initial ex)"
  unfolding initialImpact_def by (intro step_intros)

lemma steps_node_operation [step_intros]: "steps R (node_operation ext c oid)"
  unfolding node_operation_def by (intro step_intros)

end

lemma nop_find_OK: "nop_findWithConnection ext oid w = (Inr x, w') \<Longrightarrow>
    find_row n_id oid (node_operations (w_db w)) = x \<and> w_db w' = w_db w"
  unfolding nop_findWithConnection_def by (drule query_OK) simp

lemma node_requireOperation_OK:
  assumes "node_requireOperation ext oid w = (Inr op, w')"
  shows "find_row n_id oid (node_operations (w_db w)) = Some op \<and> w_db w' = w_db w \<and> n_id op = oid"
proof -
  have "nop_findWithConnection ext oid w = (Inr (Some op), w')"
    using assms unfolding node_requireOperation_def by (auto simp: OK_simps)
  from nop_find_OK [OF this] show ?thesis by (auto dest: find_row_Some)
qed

lemma affectedServicesConverged_OK:
  assumes "affectedServicesConverged ext sids w = (Inr True, w')"
  shows "\<forall>sid \<in> set sids. placed ext (w_calls w) (w_calls w') sid"
  using assms
proof (induction sids arbitrary: w)
  case (Cons sid sids)
  then obtain w1 where chk: "checkServicePlacement ext sid w = (Inr PlConverged, w1)"
    and rest: "affectedServicesConverged ext sids w1 = (Inr True, w')"
    by (auto simp: OK_simps)
  have "w_calls w \<le> w_calls w1" "w_calls w1 \<le> w_calls w'"
    using stepsD [OF reading.steps_agent_reads(2) chk] stepsD [OF reading.steps_affectedServicesConverged rest]
    by (simp_all add: reads_only_def only_db_iff)
  moreover have "placed ext (w_calls w) (w_calls w1) sid"
    using agentRead_OK [OF chk [unfolded checkServicePlacement_def]] by (auto simp: placed_def)
  ultimately show ?case using Cons.IH [OF rest] placed_mono by (metis order_refl set_ConsD)
qed simp

section \<open>Recovery\<close>

definition node_row :: "NodeOperationRecord \<Rightarrow> database \<Rightarrow> bool" where
  "node_row op d \<longleftrightarrow>
     (\<exists>r. find_row n_id (n_id op) (node_operations d) = Some r \<and> node_same_intent op r)"

lemma node_row_history:
  assumes "node_row op d" and "history_kept d d'"
  shows "node_row op d'"
proof -
  obtain r where r: "find_row n_id (n_id op) (node_operations d) = Some r" "node_same_intent op r"
    using assms(1) unfolding node_row_def by blast
  then obtain r' where "find_row n_id (n_id op) (node_operations d') = Some r'" "node_evolves r r'"
    using assms(2) unfolding history_kept_def rows_evolve_def by blast
  then show ?thesis
    using r(2) by (auto simp: node_row_def node_evolves_def node_same_intent_def)
qed

lemma node_rowI: "find_row n_id oid (node_operations d) = Some op \<Longrightarrow> node_row op d"
  using find_row_Some [of n_id oid "node_operations d" op] by (simp add: node_row_def)

context recovery_relation
begin

lemma steps_node_transactions [step_intros]:
  "steps R (node_markRejected ext oid actor c nid e)" "steps R (node_markNeedsAttention ext op code m cur)"
  "steps R (nop_markVerifying ext oid v)"
  by (rule steps_settles(2) [OF makes_node_markRejected] steps_settles(2) [OF makes_node_markNeedsAttention]
      steps_advances(2) [OF makes_nop_markVerifying]; simp)+

lemma node_settleSnapshot_related:
  assumes R1: "R w w1" and row: "unique_keys (w_db w) \<Longrightarrow> node_row op (w_db w1)" and calls: "w_calls w \<le> w_calls w1"
    and seen: "\<exists>n. w_calls w \<le> n \<and> n < w_calls w1 \<and> x_inspectNode ext n (n_nodeId op) = Inr cur"
  shows "R w (snd (node_settleSnapshot ext op cur w1))"
proof (cases "classifyNodeMutation op cur")
  case NM_PENDING
  then show ?thesis using R1 by (simp add: node_settleSnapshot_def retM_def)
next
  case (NM_EXTERNAL_CONFLICT m)
  have "R w (snd (thenM (node_markNeedsAttention ext op code m j) (retM True) w1))" for code j
    by (rule steps_from [OF _ R1]) (intro step_intros)
  then show ?thesis using NM_EXTERNAL_CONFLICT by (simp add: node_settleSnapshot_def)
next
  case NM_SUCCESS
  let ?check = "if n_type op = LABELS then affectedServicesConverged ext (n_affectedServiceIds op) else retM True"
  have check: "steps K ?check" if "step_relation K" for K
    by (simp add: step_relation.steps_affectedServicesConverged [OF that] step_relation.steps_retM [OF that])
  have "R w (snd (bindM ?check (\<lambda>converged. if \<not> converged then retM False
      else thenM (node_completeSuccess ext op cur) (retM True)) w1))"
  proof (intro bindM_from)
    show "R w (snd (?check w1))"
      by (rule steps_from [OF check R1]) (rule step_relation_axioms)
  next
    fix converged w2 assume run: "?check w1 = (Inr converged, w2)" and R2: "R w w2"
    have "reads_only w1 w2"
      using check [OF reading.step_relation_axioms] run unfolding steps_def by (metis snd_conv)
    then have db: "w_db w2 = w_db w1" and calls2: "w_calls w1 \<le> w_calls w2"
      by (simp_all add: reads_only_def only_db_iff)
    have "node_shown ext (w_calls w) (w_calls w2) op" if converged
    proof -
      have "placed ext (w_calls w) (w_calls w2) sid" if "n_type op = LABELS" "sid \<in> set (n_affectedServiceIds op)" for sid
        using affectedServicesConverged_OK [of ext "n_affectedServiceIds op" w1 w2] run that \<open>converged\<close>
          placed_mono calls by auto
      moreover have "node_converged op cur" using NM_SUCCESS by (simp add: classifyNodeMutation_SUCCESS_iff)
      ultimately show ?thesis
        using seen calls2 unfolding node_shown_def by (meson less_le_trans)
    qed
    then have ok: "step_ok ext w w2 (NodeSettled (n_id op) SUCCESS)" if converged
      using that row db node_shown_intent by (auto simp: node_row_def)
    have "R w (snd (thenM (node_completeSuccess ext op cur) (retM True) w2))" if converged
      unfolding thenM_def using ok [OF that]
      by (intro bindM_from steps_from [OF steps_retM] makes_related [OF makes_node_completeSuccess R2]) auto
    then show "R w (snd ((if \<not> converged then retM False
        else thenM (node_completeSuccess ext op cur) (retM True)) w2))"
      using steps_from [OF steps_retM R2] by auto
  qed
  then show ?thesis using NM_SUCCESS by (simp add: node_settleSnapshot_def)
qed

lemma node_verifyStep_related:
  assumes row: "unique_keys (w_db w) \<Longrightarrow> node_row op (w_db w)"
  shows "R w (snd (node_verifyStep ext op s w))"
  unfolding node_verifyStep_def
proof (intro bindM_from, goal_cases)
  case 1
  show ?case by (rule steps_at) (intro step_intros)
next
  case (2 r w1)
  then have insp: "inspectNode ext (n_nodeId op) w = (r, w1)" by (simp add: attempt_OK)
  have "reads_only w w1" by (rule stepsD [OF reading.steps_agent_reads(4) insp])
  then have db: "w_db w1 = w_db w" and calls: "w_calls w \<le> w_calls w1"
    by (simp_all add: reads_only_def only_db_iff)
  have ret: "R w (snd (retM x w'))" if "R w w'" for x w' using that by (simp add: retM_def)
  have settle: "R w (snd (bindM (attempt (node_settleSnapshot ext op cur)) (\<lambda>settled.
         case settled of Inl e \<Rightarrow> retM (f e) | Inr left \<Rightarrow> retM (g left)) w1))"
    if "r = Inr cur" for cur f g
    using that insp row db calls ret
    by (intro bindM_from)
       (auto intro!: node_settleSnapshot_related [OF 2(2)] dest!: agentRead_OK simp: inspectNode_def split: sum.split)
  show ?case
  proof (cases r)
    case (Inl e)
    then show ?thesis using ret 2 by simp
  next
    case (Inr cur)
    show ?thesis unfolding Inr sum.case by (rule settle [OF Inr])
  qed
qed

end

definition node_tracked :: "NodeOperationRecord \<Rightarrow> database \<Rightarrow> bool" where
  "node_tracked op d \<longleftrightarrow> (unique_keys d \<longrightarrow> node_row op d)"

lemma node_tracked_kept:
  assumes "node_tracked op d" and "opens_nothing d d'" and "history_kept d d'"
  shows "node_tracked op d'"
  using assms claims_shrink(4,5) [OF assms(2)] node_row_history
  unfolding node_tracked_def unique_keys_def by metis

lemma node_tracked_same: "node_tracked op d \<Longrightarrow> n_id op' = n_id op \<Longrightarrow>
    find_row n_id (n_id op) (node_operations d) = Some op' \<Longrightarrow> node_tracked op' d"
  by (auto simp: node_tracked_def node_row_def)

context recovery_relation
begin

lemma node_verifyAndCompleteLocked_related:
  assumes row: "node_tracked op (w_db w)"
  shows "R w (snd (node_verifyAndCompleteLocked ext op w))"
proof -
  let ?body = "node_verifyStep ext op"
  have body: "R w (snd (?body s w)) \<and> node_tracked op (w_db (snd (?body s w)))"
    if "node_tracked op (w_db w)" for s w
  proof
    have row: "unique_keys (w_db w) \<Longrightarrow> node_row op (w_db w)" using that by (simp add: node_tracked_def)
    show "R w (snd (?body s w))" by (rule node_verifyStep_related [OF row])
    show "node_tracked op (w_db (snd (?body s w)))"
      using node_tracked_kept [OF that] closing.node_verifyStep_related [OF row] hist.node_verifyStep_related [OF row]
      by (simp add: on_db_def)
  qed
  have tail: "steps R (thenM (node_markNeedsAttention ext op c m j) (node_requireOperation ext (n_id op)))" for c m j
    by (intro step_intros)
  show ?thesis
    unfolding node_verifyAndCompleteLocked_def
  proof (rule bindM_related)
    show "R w (snd (poll ext VERIFY_TIMEOUT_MS VERIFY_INTERVAL_MS ?body (None, None) w))"
      using poll_invariant [where I = "\<lambda>w. node_tracked op (w_db w)", OF body _ row]
      by (simp add: sleepW_def)
  qed (auto intro: steps_at [OF tail] steps_at [OF steps_node_requireOperation] split: sum.split prod.split)
qed

lemma node_requireAndVerify_related:
  "R w (snd (bindM (node_requireOperation ext oid) (node_verifyAndCompleteLocked ext) w))"
proof (rule bindM_related [OF steps_at [OF steps_node_requireOperation]])
  fix op w1 assume "node_requireOperation ext oid w = (Inr op, w1)"
  from node_requireOperation_OK [OF this]
  show "R w1 (snd (node_verifyAndCompleteLocked ext op w1))"
    by (intro node_verifyAndCompleteLocked_related) (auto simp: node_tracked_def intro: node_rowI)
qed

lemma steps_node_requireAndVerify [step_intros]:
  "steps R (bindM (node_requireOperation ext oid) (node_verifyAndCompleteLocked ext))"
  unfolding steps_def by (rule allI) (rule node_requireAndVerify_related)

lemma steps_node_reconcileLocked [step_intros]: "steps R (node_reconcileLocked ext op)"
  unfolding node_reconcileLocked_def by (intro step_intros)

lemma steps_resolvePriorNodeOperation [step_intros]: "steps R (resolvePriorNodeOperation ext c nid)"
  unfolding resolvePriorNodeOperation_def by (intro step_intros)

lemma steps_prepareNodeMutation [step_intros]: "steps R (prepareNodeMutation ext c nid type i aff)"
  unfolding prepareNodeMutation_def by (intro step_intros)

end

lemma node_reconcileLocked_OK:
  assumes "node_reconcileLocked ext op w = (Inr r, w')"
  shows "find_row n_id (n_id op) (node_operations (w_db w')) = Some r"
proof -
  have req: "find_row n_id oid (node_operations (w_db w2)) = Some x"
    if "node_requireOperation ext oid w1 = (Inr x, w2)" for oid w1 x w2
    using node_requireOperation_OK [OF that] by simp
  have ver: "find_row n_id (n_id x) (node_operations (w_db w2)) = Some r'"
    if "node_verifyAndCompleteLocked ext x w1 = (Inr r', w2)" for x w1 r' w2
    using that req unfolding node_verifyAndCompleteLocked_def by (auto simp: OK_simps)
  have both: "find_row n_id oid (node_operations (w_db w3)) = Some r'"
    if "node_requireOperation ext oid w1 = (Inr x, w2)" "node_verifyAndCompleteLocked ext x w2 = (Inr r', w3)"
    for oid w1 x w2 r' w3
    using node_requireOperation_OK [OF that(1)] ver [OF that(2)] by simp
  show ?thesis
    using assms unfolding node_reconcileLocked_def
    by (auto simp: OK_simps intro: req both)
qed

lemma unique_node_row:
  "unique_keys d \<Longrightarrow> r \<in> set (node_operations d) \<Longrightarrow> find_row n_id (n_id r) (node_operations d) = Some r"
  unfolding unique_keys_def by (rule find_row_unique) simp_all

lemma closed_node_claim:
  assumes closes: "opens_nothing d d'" and "exclusive d"
    and prior: "prior \<in> set (nonTerminalForNode c nid d)"
    and r: "find_row n_id (n_id prior) (node_operations d') = Some r" "status_terminal (n_status r)"
  shows "nonTerminalForNode c nid d' = []"
proof (rule ccontr)
  assume "nonTerminalForNode c nid d' \<noteq> []"
  then obtain r2 where r2: "r2 \<in> set (nonTerminalForNode c nid d')" by (meson list.set_sel(1))
  then obtain i where i: "i < length (node_operations d')" "node_operations d' ! i = r2"
    by (auto simp: nonTerminalForNode_def in_set_conv_nth)
  have "node_closes (node_operations d ! i) r2" "i < length (node_operations d)"
    using closes i by (auto simp: opens_nothing_def list_all2_conv_all_nth)
  then have "node_operations d ! i \<in> set (nonTerminalForNode c nid d)" "n_id r2 = n_id (node_operations d ! i)"
    using r2 by (auto simp: nonTerminalForNode_def node_closes_def node_same_intent_def)
  moreover have "x = prior" if "x \<in> set (nonTerminalForNode c nid d)" for x
  proof -
    have "length (nonTerminalForNode c nid d) \<le> 1"
      using \<open>exclusive d\<close> unfolding exclusive_def by blast
    then show ?thesis using that prior by (cases "nonTerminalForNode c nid d") auto
  qed
  ultimately have id: "n_id r2 = n_id prior" by metis
  have "unique_keys d'" using exclusive_shrinks [OF \<open>exclusive d\<close> closes] by (simp add: exclusive_def)
  then have "find_row n_id (n_id r2) (node_operations d') = Some r2"
    using r2 by (intro unique_node_row) (auto simp: nonTerminalForNode_def)
  then show False using r id r2 by (auto simp: nonTerminalForNode_def)
qed

lemma resolvePriorNodeOperation_OK:
  assumes run: "resolvePriorNodeOperation ext c nid w = (Inr u, w')" and "exclusive (w_db w)"
  shows "nonTerminalForNode c nid (w_db w') = []"
proof -
  obtain found w1 where find: "nop_findNonTerminalForNodeWithConnection ext c nid w = (Inr found, w1)"
    and cont: "found = None \<and> w' = w1 \<or>
      (\<exists>prior r. found = Some prior \<and> node_reconcileLocked ext prior w1 = (Inr r, w') \<and> node_isTerminal r)"
    using run unfolding resolvePriorNodeOperation_def by (auto simp: OK_simps)
  note q = query_OK [OF find [unfolded nop_findNonTerminalForNodeWithConnection_def]]
  show ?thesis
    using cont
  proof
    assume "found = None \<and> w' = w1"
    then show ?thesis using q by (metis oldest_None)
  next
    assume "\<exists>prior r. found = Some prior \<and> node_reconcileLocked ext prior w1 = (Inr r, w') \<and> node_isTerminal r"
    then obtain prior r where prior: "found = Some prior"
      and rec: "node_reconcileLocked ext prior w1 = (Inr r, w')" and "node_isTerminal r"
      by blast
    have "prior \<in> set (nonTerminalForNode c nid (w_db w))" using q prior oldest_Some by metis
    moreover have "on_db opens_nothing w w'"
      by (rule stepsD [OF closing.steps_resolvePriorNodeOperation run])
    ultimately show ?thesis
      using closed_node_claim [OF _ assms(2) _ node_reconcileLocked_OK [OF rec]]
        \<open>node_isTerminal r\<close> by (simp add: on_db_def)
  qed
qed

lemma assertServiceFree_OK:
  assumes "assertServiceFree ext c sid w = (Inr u, w')"
  shows "unclaimed c sid (w_db w) \<and> w_db w' = w_db w"
proof -
  obtain w1 where "op_findNonTerminalForService ext c sid w = (Inr None, w1)"
    and "nop_findNonTerminalAffectingService ext c sid w1 = (Inr None, w')"
    using assms unfolding assertServiceFree_def by (auto simp: OK_simps)
  then show ?thesis
    unfolding unclaimed_def op_findNonTerminalForService_def nop_findNonTerminalAffectingService_def
    by (metis query_OK oldest_None)
qed

lemma assertServicesFree_OK:
  assumes "forEachM (assertServiceFree ext c) sids w = (Inr u, w')"
  shows "(\<forall>sid \<in> set sids. unclaimed c sid (w_db w)) \<and> w_db w' = w_db w"
  using assms
proof (induction sids arbitrary: w)
  case (Cons sid sids)
  then obtain v w1 where "assertServiceFree ext c sid w = (Inr v, w1)"
    and rest: "forEachM (assertServiceFree ext c) sids w1 = (Inr u, w')"
    by (auto simp: OK_simps)
  then show ?case using assertServiceFree_OK Cons.IH [OF rest] by fastforce
qed (simp add: retM_OK)

lemma prepareNodeMutation_OK:
  assumes "prepareNodeMutation ext c nid type i aff w = (Inr (plan, locked), w')"
  shows "exclusive (w_db w) \<Longrightarrow> nonTerminalForNode c nid (w_db w') = []"
    and "\<forall>sid \<in> set (np_affectedServiceIds plan). unclaimed c sid (w_db w')"
    and "set (np_affectedServiceIds plan) = set aff"
    and "\<exists>n. x_inspectNode ext n nid = Inr locked" and "np_nodeId plan = nd_id (ndr_node locked)"
proof -
  obtain w1 w2 w3 w4 w5 u v a planned services where
      prior: "resolvePriorNodeOperation ext c nid w = (Inr u, w1)"
    and insp: "inspectNode ext nid w1 = (Inr locked, w2)"
    and first: "lockedImpact ext type nid i locked w2 = (Inr (planned, services), w3)"
    and same: "sameStrings aff services"
    and free: "forEachM (assertServiceFree ext c) services w3 = (Inr v, w4)"
    and plan: "planIfNeeded ext type nid i planned w4 = (Inr plan, w5)"
    and mtch: "assertPlanMatchesLockedNode plan locked services w5 = (Inr a, w')"
    using assms unfolding prepareNodeMutation_def
    by (auto simp: OK_simps)
  have db3: "w_db w3 = w_db w2"
    using stepsD [OF reading.steps_lockedImpact first] by (simp add: reads_only_def)
  have db5: "w_db w5 = w_db w4"
    using stepsD [OF reading.steps_planIfNeeded plan] by (simp add: reads_only_def)
  have db2: "w_db w2 = w_db w1"
    using stepsD [OF reading.steps_agent_reads(4) insp] by (simp add: reads_only_def)
  have m: "w' = w5" "np_nodeId plan = nd_id (ndr_node locked)" "sortedUnique (np_affectedServiceIds plan) = services"
    using mtch by (auto simp: assertPlanMatchesLockedNode_def throwM_def retM_def split: if_splits)
  have sets: "set (np_affectedServiceIds plan) = set services" using m(3) by (metis sortedUnique_set)
  show "nonTerminalForNode c nid (w_db w') = []" if "exclusive (w_db w)"
    using resolvePriorNodeOperation_OK [OF prior that] assertServicesFree_OK [OF free] db2 db3 db5 m(1) by simp
  show "\<forall>sid \<in> set (np_affectedServiceIds plan). unclaimed c sid (w_db w')"
    using assertServicesFree_OK [OF free] sets db5 m(1) by simp
  show "set (np_affectedServiceIds plan) = set aff" using sets same by simp
  show "\<exists>n. x_inspectNode ext n nid = Inr locked"
    using agentRead_OK [OF insp [unfolded inspectNode_def]] by blast
  show "np_nodeId plan = nd_id (ndr_node locked)" by (rule m(2))
qed

section \<open>Handlers\<close>

lemma node_intended_row:
  assumes "node_persistIntent ext oid c type actor plan before patch w = (Inr u, w')"
  shows "\<exists>r. find_row n_id oid (node_operations (w_db w')) = Some r \<and> node_intended oid c type plan r"
    and "w_locks w' = w_locks w" and "w_sent w = w_sent w'" and "(True, Some oid) \<notin> recorded (w_db w)"
proof -
  obtain r where "node_intended oid c type plan r" "store_step (NodeStarted r) (w_db w) (w_db w')" "only_db w w'"
    using makesD [OF makes_node_persistIntent assms] by blast
  then show "\<exists>r. find_row n_id oid (node_operations (w_db w')) = Some r \<and> node_intended oid c type plan r"
    and "w_locks w' = w_locks w" and "w_sent w = w_sent w'" and "(True, Some oid) \<notin> recorded (w_db w)"
    by (auto simp: find_row_snoc node_intended_def only_db_iff recorded_iff elim!: store_step_cases)
qed

context store_relation
begin

lemma node_execute_related:
  assumes "R w0 w" and wp: "R w0 wp" "w_sent wp = w_sent w" "(True, Some oid) \<notin> recorded (w_db wp)"
    and r: "find_row n_id oid (node_operations (w_db w)) = Some r" "node_intended oid c type plan r"
    and canonical: "canonical_ids ext \<Longrightarrow> np_nodeId plan = nid"
    and locks: "nodeLockName ext c nid \<in> set (w_locks w)"
      "\<forall>sid \<in> set (np_affectedServiceIds plan). serviceLockName ext c sid \<in> set (w_locks w)"
  shows "R w0 (snd (withMutationOperation oid (node_execute ext type nid plan) w))"
proof -
  have dispatch: "R w0 (snd (withMutationOperation oid (agentMutation ext req (x_sendNode ext)) w))"
    if "node_request_matches ext req r" "request_target req = nid" for req
    using r locks that by (intro dispatch_node_related [OF assms(1) wp r(1)]) (auto simp: node_intended_def)
  have intent: "node_intent ext r nid (np_version plan) (np_beforeSpecHash plan) (np_targetSpecHash plan)"
    using r(2) canonical by (auto simp: node_intent_def node_intended_def)
  show ?thesis
  proof (cases type)
    case DRAIN
    then show ?thesis using dispatch intent r(2) by (simp add: node_execute_def node_intended_def)
  next
    case ACTIVATE
    then show ?thesis using dispatch intent r(2) by (simp add: node_execute_def node_intended_def)
  next
    case LABELS
    have "R w0 (snd (withMutationOperation oid (throwM e) w))" for e
      using assms(1) by (intro steps_from step_intros)
    then show ?thesis
      using LABELS dispatch intent r(2)
      by (cases "np_targetLabels plan") (simp_all add: node_execute_def node_intended_def)
  qed
qed

lemma dispatchNodeMutation_related:
  assumes "R w0 w" and wp: "R w0 wp" "w_sent wp = w_sent w" "(True, Some oid) \<notin> recorded (w_db wp)"
    and "find_row n_id oid (node_operations (w_db w)) = Some r" "node_intended oid c type plan r"
    and "canonical_ids ext \<Longrightarrow> np_nodeId plan = nid"
    and "nodeLockName ext c nid \<in> set (w_locks w)"
    and "\<forall>sid \<in> set (np_affectedServiceIds plan). serviceLockName ext c sid \<in> set (w_locks w)"
  shows "R w0 (snd (dispatchNodeMutation ext oid actor c nid type plan w))"
proof -
  have outcome: "steps R (case outcome of
       Inl e \<Rightarrow>
         if isDeterministicAgentRejection e then
           thenM (node_markRejected ext oid actor c nid e) (throwM (node_mapAgentError e))
         else bindM (node_requireOperation ext oid) (node_reconcileLocked ext)
     | Inr _ \<Rightarrow> bindM (node_requireOperation ext oid) (node_verifyAndCompleteLocked ext))" for outcome
    by (intro step_intros)
  have "R w0 (snd (attempt (bindM (withMutationOperation oid (node_execute ext type nid plan)) (\<lambda>accepted.
        thenM (node_assertAcceptedMatchesPlan accepted plan)
          (nop_markVerifying ext oid (nr_version accepted)))) w))"
    using assms by (simp only: attempt_snd) (intro bindM_from node_execute_related [OF assms(1) wp] steps_from step_intros)
  then show ?thesis
    unfolding dispatchNodeMutation_def by (rule bindM_from) (rule steps_from [OF outcome])
qed

lemma lockedNodeMutation_related:
  assumes nid: "\<exists>n ref res. x_inspectNode ext n ref = Inr res \<and> nid = nd_id (ndr_node res)"
    and lock: "nodeLockName ext c nid \<in> set (w_locks w)"
      "\<forall>sid \<in> set aff. serviceLockName ext c sid \<in> set (w_locks w)"
  shows "R w (snd (lockedNodeMutation ext c nid type i actor aff w))"
  unfolding lockedNodeMutation_def
proof (intro bindM_from steps_at [OF steps_repository_queries(6)], goal_cases)
  case (1 found w1)
  have locks: "w_locks w1 = w_locks w"
    using stepsD [OF lock_keeping.steps_repository_queries(6) 1(1)] by (simp add: same_locks_def)
  show ?case
  proof (cases found)
    case (Some existing)
    have "steps R (thenM (node_assertIdempotent existing c nid type actor (nq_expectedVersion i) (requestedPatch type i))
        (if node_isTerminal existing then retM existing else node_reconcileLocked ext existing))"
      by (intro step_intros)
    from steps_from [OF this 1(2)] show ?thesis unfolding Some option.case .
  next
    case None
    let ?oid = "nq_operationId i"
    let ?prep = "prepareNodeMutation ext c nid type i aff"
    have "R w1 (snd (bindM ?prep (\<lambda>(plan, locked).
        thenM (node_persistIntent ext ?oid c type actor plan locked (requestedPatch type i))
          (if np_beforeSpecHash plan = np_targetSpecHash plan
           then bindM (node_requireOperation ext ?oid) (node_verifyAndCompleteLocked ext)
           else dispatchNodeMutation ext ?oid actor c nid type plan)) w1))"
    proof (rule bindM_from [OF steps_at [OF steps_prepareNodeMutation]], clarify)
      fix plan locked w2
      assume prep: "?prep w1 = (Inr (plan, locked), w2)" and R2: "R w1 w2"
      have locks2: "w_locks w2 = w_locks w1"
        using stepsD [OF lock_recovery.steps_prepareNodeMutation prep] by (simp add: same_locks_def)
      note prepared = prepareNodeMutation_OK [OF prep]
      have canonical: "np_nodeId plan = nid" if "canonical_ids ext"
        using that nid prepared(4,5) unfolding canonical_ids_def by metis
      have start: "R w1 (snd (node_persistIntent ext ?oid c type actor plan locked (requestedPatch type i) w2))"
        using prepared(1,2) canonical
        by (intro start_related [OF makes_node_persistIntent R2]) (auto simp: node_intended_def)
      show "R w1 (snd (thenM (node_persistIntent ext ?oid c type actor plan locked (requestedPatch type i))
          (if np_beforeSpecHash plan = np_targetSpecHash plan
           then bindM (node_requireOperation ext ?oid) (node_verifyAndCompleteLocked ext)
           else dispatchNodeMutation ext ?oid actor c nid type plan) w2))"
        unfolding thenM_def
      proof (rule bindM_from, rule start)
        fix u w3
        assume pers: "node_persistIntent ext ?oid c type actor plan locked (requestedPatch type i) w2 = (Inr u, w3)"
          and R3: "R w1 w3"
        obtain r where "find_row n_id ?oid (node_operations (w_db w3)) = Some r" "node_intended ?oid c type plan r"
          using node_intended_row(1) [OF pers] by blast
        then have "R w1 (snd (dispatchNodeMutation ext ?oid actor c nid type plan w3))"
          using canonical lock locks locks2 node_intended_row(2) [OF pers] prepared(3)
          by (intro dispatchNodeMutation_related [OF R3 R2] node_intended_row(3,4) [OF pers]) auto
        then show "R w1 (snd ((if np_beforeSpecHash plan = np_targetSpecHash plan
           then bindM (node_requireOperation ext ?oid) (node_verifyAndCompleteLocked ext)
           else dispatchNodeMutation ext ?oid actor c nid type plan) w3))"
          using trans [OF R3] node_requireAndVerify_related by simp
      qed
    qed
    then show ?thesis using None trans [OF 1(2)] by simp
  qed
qed

lemma steps_mutate: "steps R (mutate ext c ref i actor type)"
  unfolding steps_def mutate_def thenM_def Let_def
proof (intro allI bindM_related steps_at [OF steps_assertCluster] steps_at [OF steps_agent_reads(4)]
    steps_at [OF steps_repository_queries(5)] steps_at [OF steps_initialImpact], goal_cases)
  case (1 w u w1 initial w2 found w3 pair w4)
  obtain ex aff where pair: "pair = (ex, aff)" by fastforce
  have nid: "\<exists>n ref res. x_inspectNode ext n ref = Inr res \<and> nd_id (ndr_node initial) = nd_id (ndr_node res)"
    using agentRead_OK [OF 1(2) [unfolded inspectNode_def]] by blast
  show ?case
    unfolding pair prod.case
    by (intro bindM_related steps_at [OF steps_repository_queries(9)] withNodeAndServiceLocks_related
        lockedNodeMutation_related nid) auto
qed

end

section \<open>Start-up\<close>

context locked_recovery_relation
begin

lemma steps_recoverNodeOperation [step_intros]: "steps R (recoverNodeOperation ext op)"
  unfolding recoverNodeOperation_def by (intro step_intros)

lemma steps_node_onApplicationBootstrap: "steps R (node_onApplicationBootstrap ext)"
  unfolding node_onApplicationBootstrap_def by (intro step_intros)

end

end
