(* ===== verification/Evidence_Recovery.thy ===== *)
theory Evidence_Recovery
  imports Maintenance Node_Mutation_Service
begin

text \<open>
  Manual resolution of dispatch and admission evidence
  (\<^verbatim>\<open>clusters/maintenance-evidence-recovery.ts\<close>). An administrator may close an unresolved
  dispatch or admission while the cluster is \<open>CLOSING\<close> or \<open>RECONCILING\<close>: the operation behind
  a dispatch must be finished, or it must be one whose mutation was never observed and whose
  resource still has the recorded version and spec hash, in which case it is marked \<open>FAILED\<close>.
  Resolution, operation, deployment and audit events commit together; the evidence rows stay.

  A row of the two operation tables is an element of \<open>OperationRecord + NodeOperationRecord\<close>, as the
  \<open>UNION ALL\<close> queries return it.
\<close>

section \<open>Resources\<close>

datatype LockedResource = LockedService string | LockedNode string "string list"

record ResolveEvidenceInput =
  ri_clusterId :: string
  ri_generation :: nat
  ri_type :: EvidenceType
  ri_evidenceId :: string
  ri_actorId :: string
  ri_reason :: string
  ri_observation :: string
  ri_lease :: MaintenanceLease
  ri_observedUnchanged :: "(nat \<times> string) option"
  ri_observeResource :: "(nat \<times> string) cp option"

type_synonym evidence_operation = "OperationRecord + NodeOperationRecord"

definition affectedServices :: "string list \<Rightarrow> string list cp" where
  "affectedServices ids =
     (if [] \<in> set ids then throwM (ConflictException ''Invalid affected services in recorded node operation'')
      else retM (sortedUnique ids))"

definition evidence_list :: "external \<Rightarrow> string \<Rightarrow> (DispatchRow list \<times> AdmissionRow list) cp" where
  "evidence_list ext clusterId =
     bindM (query ext (openDispatches clusterId)) (\<lambda>dispatch.
     bindM (query ext (openAdmissions clusterId)) (\<lambda>admissions.
     retM (dispatch, admissions)))"

text \<open>The operations of a dispatch: the join of \<open>resolve\<close>, and the selection inside the transaction.\<close>

definition dispatchOperations :: "string \<Rightarrow> string \<Rightarrow> database \<Rightarrow> evidence_operation list" where
  "dispatchOperations evidenceId clusterId d =
     (let ds = filter (\<lambda>x. di_id x = evidenceId \<and> di_clusterId x = clusterId) (maintenance_dispatches d) in
      [Inl r. x \<leftarrow> ds, r \<leftarrow> operations d, o_id r = di_operationId x \<and> o_clusterId r = di_clusterId x] @
      [Inr r. x \<leftarrow> ds, r \<leftarrow> node_operations d, n_id r = di_operationId x \<and> n_clusterId r = di_clusterId x])"

definition recordedOperations :: "string \<Rightarrow> string \<Rightarrow> database \<Rightarrow> evidence_operation list" where
  "recordedOperations evidenceId clusterId d =
     (case find_row di_id evidenceId (maintenance_dispatches d) of
        None \<Rightarrow> []
      | Some x \<Rightarrow>
          [Inl r. r \<leftarrow> operations d, o_id r = di_operationId x \<and> o_clusterId r = clusterId] @
          [Inr r. r \<leftarrow> node_operations d, n_id r = di_operationId x \<and> n_clusterId r = clusterId])"

fun sameResource :: "LockedResource option \<Rightarrow> evidence_operation \<Rightarrow> bool cp" where
  "sameResource (Some (LockedService sid)) (Inl r) = retM (o_serviceId r = sid)"
| "sameResource (Some (LockedNode nid ids)) (Inr r) =
     (if n_nodeId r \<noteq> nid then retM False
      else bindM (affectedServices (n_affectedServiceIds r)) (\<lambda>xs. retM (xs = ids)))"
| "sameResource _ _ = retM False"

section \<open>Operations that were never observed\<close>

fun manualRecovery :: "evidence_operation \<Rightarrow> bool" where
  "manualRecovery (Inr r) =
     (n_status r = NEEDS_ATTENTION \<and> n_errorCode r = Some ''NODE_MUTATION_NOT_OBSERVED'')"
| "manualRecovery (Inl r) =
     ((o_type r \<in> {SCALE, RESTART} \<and> o_status r = NEEDS_ATTENTION \<and> o_errorCode r = Some ''MUTATION_NOT_OBSERVED'') \<or>
      (o_type r = DEPLOY \<and> o_status r = NEEDS_ATTENTION \<and> o_errorCode r = Some ''DEPLOYMENT_MUTATION_NOT_OBSERVED'') \<or>
      (o_type r = ROLLBACK \<and> o_status r = VERIFYING \<and> o_errorCode r = Some ''ROLLBACK_STILL_IN_PROGRESS''))"

fun eo_id :: "evidence_operation \<Rightarrow> string" where
  "eo_id (Inl r) = o_id r" | "eo_id (Inr r) = n_id r"

fun eo_resourceId :: "evidence_operation \<Rightarrow> string" where
  "eo_resourceId (Inl r) = o_serviceId r" | "eo_resourceId (Inr r) = n_nodeId r"

fun eo_resourceType :: "evidence_operation \<Rightarrow> string" where
  "eo_resourceType (Inl r) = ''service''" | "eo_resourceType (Inr r) = ''node''"

fun eo_type :: "evidence_operation \<Rightarrow> string" where
  "eo_type (Inl r) = operationTypeName (o_type r)" | "eo_type (Inr r) = nodeOperationTypeName (n_type r)"

fun eo_status :: "evidence_operation \<Rightarrow> OperationStatus" where
  "eo_status (Inl r) = o_status r" | "eo_status (Inr r) = n_status r"

fun eo_errorCode :: "evidence_operation \<Rightarrow> string option" where
  "eo_errorCode (Inl r) = o_errorCode r" | "eo_errorCode (Inr r) = n_errorCode r"

fun eo_fingerprint :: "evidence_operation \<Rightarrow> nat \<times> string" where
  "eo_fingerprint (Inl r) = (o_expectedVersion r, o_beforeSpecHash r)"
| "eo_fingerprint (Inr r) = (n_expectedVersion r, n_beforeSpecHash r)"

text \<open>
  \<open>UPDATE operations SET status = 'FAILED' ... WHERE id = ? AND cluster_id = ? AND status = ? AND error_code = ? ...\<close>,
  and the same for node operations.
\<close>

fun failOperation :: "string \<Rightarrow> string \<Rightarrow> evidence_operation \<Rightarrow> statement" where
  "failOperation clusterId reason (Inl r0) now d =
     (let P = (\<lambda>r. o_id r = o_id r0 \<and> o_clusterId r = clusterId \<and> o_status r = o_status r0 \<and>
                o_errorCode r = o_errorCode r0 \<and> o_errorCode r \<noteq> None \<and>
                o_expectedVersion r = o_expectedVersion r0 \<and> o_beforeSpecHash r = o_beforeSpecHash r0) in
      Inr (length (filter P (operations d)),
        d\<lparr>operations := update_rows P
            (\<lambda>r. r\<lparr>o_status := FAILED, o_errorCode := Some ''MANUAL_MUTATION_NOT_OBSERVED'',
                    o_errorMessage := Some reason, o_updatedAt := now\<rparr>) (operations d)\<rparr>))"
| "failOperation clusterId reason (Inr r0) now d =
     (let P = (\<lambda>r. n_id r = n_id r0 \<and> n_clusterId r = clusterId \<and> n_status r = n_status r0 \<and>
                n_errorCode r = n_errorCode r0 \<and> n_errorCode r \<noteq> None \<and>
                n_expectedVersion r = n_expectedVersion r0 \<and> n_beforeSpecHash r = n_beforeSpecHash r0) in
      Inr (length (filter P (node_operations d)),
        d\<lparr>node_operations := update_rows P
            (\<lambda>r. r\<lparr>n_status := FAILED, n_errorCode := Some ''MANUAL_MUTATION_NOT_OBSERVED'',
                    n_errorMessage := Some reason, n_updatedAt := now\<rparr>) (node_operations d)\<rparr>))"

definition linkedDeployments :: "bool \<Rightarrow> string \<Rightarrow> database \<Rightarrow> (DeploymentRecord \<times> DeploymentTargetRecord) list" where
  "linkedDeployments rollback oid d =
     [(dep, t). dep \<leftarrow> (if rollback
                 then [dep. (aop, did) \<leftarrow> rollback_attempts d, aop = oid, dep \<leftarrow> deployments d, d_id dep = did]
                 else [dep. dep \<leftarrow> deployments d, d_operationId dep = oid]),
       t \<leftarrow> deployment_targets d, dt_id t = d_deploymentTargetId dep]"

definition linkedCurrent :: "bool \<Rightarrow> string \<Rightarrow> OperationRecord \<Rightarrow> DeploymentRecord \<Rightarrow> DeploymentTargetRecord \<Rightarrow> bool" where
  "linkedCurrent rollback clusterId r dep t \<longleftrightarrow>
     dt_clusterId t = clusterId \<and> dt_dockerServiceId t = o_serviceId r \<and>
     (if rollback then d_rollbackOperationId dep = Some (o_id r) \<and> d_status dep = ROLLBACK_VERIFYING
      else d_operationId dep = o_id r \<and> d_status dep = D_NEEDS_ATTENTION \<and> d_rollbackOperationId dep = None)"

text \<open>The deployment linked to a deploy or rollback operation, checked to be current.\<close>

fun linkedDeployment :: "external \<Rightarrow> string \<Rightarrow> evidence_operation \<Rightarrow> DeploymentRecord option cp" where
  "linkedDeployment ext clusterId (Inr r) = retM None"
| "linkedDeployment ext clusterId (Inl r) =
     (if o_type r \<notin> {DEPLOY, ROLLBACK} then retM None
      else bindM (query ext (linkedDeployments (o_type r = ROLLBACK) (o_id r))) (\<lambda>linked.
        case linked of
          [(dep, t)] \<Rightarrow>
            if linkedCurrent (o_type r = ROLLBACK) clusterId r dep t then retM (Some dep)
            else throwM (ConflictException ''Deployment or rollback record changed before manual recovery'')
        | _ \<Rightarrow> throwM (ConflictException ''Deployment or rollback record changed before manual recovery'')))"

definition failDeployment :: "bool \<Rightarrow> string \<Rightarrow> DeploymentRecord \<Rightarrow> string \<Rightarrow> statement" where
  "failDeployment rollback oid dep0 reason now d =
     (let P = (\<lambda>dep. d_id dep = d_id dep0 \<and> d_status dep = d_status dep0 \<and>
                (if rollback then d_rollbackOperationId dep = Some oid else d_operationId dep = oid)) in
      Inr (length (filter P (deployments d)),
        d\<lparr>deployments := update_rows P
            (\<lambda>dep. dep\<lparr>d_status := D_FAILED, d_reason := Some reason, d_finishedAt := Some now\<rparr>) (deployments d)\<rparr>))"

fun deploymentStatusName :: "DeploymentStatus \<Rightarrow> string" where
  "deploymentStatusName DEPLOYING = ''DEPLOYING''"
| "deploymentStatusName D_VERIFYING = ''VERIFYING''"
| "deploymentStatusName D_SUCCESS = ''SUCCESS''"
| "deploymentStatusName D_FAILED = ''FAILED''"
| "deploymentStatusName ROLLING_BACK = ''ROLLING_BACK''"
| "deploymentStatusName ROLLBACK_VERIFYING = ''ROLLBACK_VERIFYING''"
| "deploymentStatusName ROLLED_BACK = ''ROLLED_BACK''"
| "deploymentStatusName ROLLBACK_FAILED = ''ROLLBACK_FAILED''"
| "deploymentStatusName D_NEEDS_ATTENTION = ''NEEDS_ATTENTION''"

definition outcomeFields :: "evidence_operation \<Rightarrow> nat \<times> string \<Rightarrow> DeploymentRecord option \<Rightarrow> (string \<times> json) list" where
  "outcomeFields eo unchanged deployment =
     [(''operationId'', JStr (eo_id eo)), (''operationType'', JStr (eo_type eo)),
      (''resourceType'', JStr (eo_resourceType eo)), (''resourceId'', JStr (eo_resourceId eo)),
      (''previousStatus'', JStr (operationStatusName (eo_status eo))),
      (''previousErrorCode'', nullable JStr (eo_errorCode eo)), (''result'', JStr ''NOT_OBSERVED''),
      (''version'', jnat (fst unchanged)), (''specHash'', JStr (snd unchanged)),
      (''deploymentId'', nullable (\<lambda>dep. JStr (d_id dep)) deployment),
      (''previousDeploymentStatus'', nullable (\<lambda>dep. JStr (deploymentStatusName (d_status dep))) deployment)]"

definition MAX_SAFE_INTEGER :: nat where
  "MAX_SAFE_INTEGER = 9007199254740991"

definition failLinkedDeployment ::
    "external \<Rightarrow> ResolveEvidenceInput \<Rightarrow> evidence_operation \<Rightarrow> DeploymentRecord option \<Rightarrow> unit cp" where
  "failLinkedDeployment ext i eo deployment =
     (case deployment of
        None \<Rightarrow> retM ()
      | Some dep \<Rightarrow>
          bindM (executeStmt ext (failDeployment (eo_type eo = ''ROLLBACK'') (eo_id eo) dep (ri_reason i))) (\<lambda>n.
          if n \<noteq> 1 then throwM (ConflictException ''Deployment changed while resolving'') else retM ()))"

definition manualAudit :: "ResolveEvidenceInput \<Rightarrow> evidence_operation \<Rightarrow> (string \<times> json) list \<Rightarrow> AuditEventInput" where
  "manualAudit i eo outcome =
     \<lparr>a_operationId = eo_id eo, a_actorId = ri_actorId i, a_clusterId = ri_clusterId i,
      a_serviceId = eo_resourceId eo, a_resourceType = Some (eo_resourceType eo),
      a_resourceId = Some (eo_resourceId eo), a_action = ''MUTATION_MANUALLY_RECONCILED'', a_beforeJson = None,
      a_afterJson = Some (JObj (outcome @
        [(''observation'', JStr (ri_observation i)), (''reason'', JStr (ri_reason i))]))\<rparr>"

text \<open>The branch \<open>if (manualRecovery)\<close>: the outcome that is recorded with the resolution.\<close>

definition recoverManually :: "external \<Rightarrow> ResolveEvidenceInput \<Rightarrow> evidence_operation \<Rightarrow> (string \<times> json) list cp" where
  "recoverManually ext i eo =
     (case ri_observedUnchanged i of
        None \<Rightarrow> throwM (ConflictException ''Manual resolution requires verified unchanged resource fingerprint'')
      | Some unchanged \<Rightarrow>
          if fst unchanged > MAX_SAFE_INTEGER \<or> unchanged \<noteq> eo_fingerprint eo
          then throwM (ConflictException ''Manual resolution requires verified unchanged resource fingerprint'')
          else
            bindM (linkedDeployment ext (ri_clusterId i) eo) (\<lambda>deployment.
            bindM (executeStmt ext (failOperation (ri_clusterId i) (ri_reason i) eo)) (\<lambda>n.
            if n \<noteq> 1 then throwM (ConflictException ''Operation changed while resolving'')
            else
              (let outcome = outcomeFields eo unchanged deployment in
               thenM (failLinkedDeployment ext i eo deployment)
               (thenM (op_audit ext (manualAudit i eo outcome)) (retM outcome))))))"

section \<open>The transaction\<close>

definition insertResolution :: "ResolutionRow \<Rightarrow> statement" where
  "insertResolution row now d =
     (if \<not> maintained (er_clusterId row) d then Inl (DatabaseError ''Cannot add or update a child row'')
      else if resolved (er_clusterId row) (er_type row) (er_evidenceId row) d
              \<or> (\<exists>r \<in> set (maintenance_evidence_resolutions d). er_id r = er_id row)
      then Inl (DuplicateEntry ''Duplicate entry for maintenance_evidence_resolutions'')
      else Inr (1, d\<lparr>maintenance_evidence_resolutions := maintenance_evidence_resolutions d @ [row]\<rparr>))"

definition evidenceExists :: "ResolveEvidenceInput \<Rightarrow> database \<Rightarrow> bool" where
  "evidenceExists i d =
     (case ri_type i of
        DISPATCH \<Rightarrow> \<exists>x \<in> set (maintenance_dispatches d). di_id x = ri_evidenceId i \<and> di_clusterId x = ri_clusterId i
      | ADMISSION \<Rightarrow> \<exists>a \<in> set (maintenance_active_admissions d). ad_id a = ri_evidenceId i \<and> ad_clusterId a = ri_clusterId i)"

definition resolveDispatch ::
    "external \<Rightarrow> ResolveEvidenceInput \<Rightarrow> LockedResource option \<Rightarrow> (string \<times> json) list cp" where
  "resolveDispatch ext i lockedResource =
     bindM (query ext (recordedOperations (ri_evidenceId i) (ri_clusterId i))) (\<lambda>records.
     case records of
       [eo] \<Rightarrow>
         bindM (sameResource lockedResource eo) (\<lambda>same.
         if \<not> same then throwM (ConflictException ''Dispatch resource changed before recovery lock'')
         else if manualRecovery eo then recoverManually ext i eo
         else if \<not> status_terminal (eo_status eo)
         then throwM (ConflictException ''Dispatch operation requires terminal outcome or supported unchanged-state recovery'')
         else retM [])
     | _ \<Rightarrow> throwM (ConflictException ''Dispatch operation missing''))"

fun evidenceTypeName :: "EvidenceType \<Rightarrow> string" where
  "evidenceTypeName DISPATCH = ''DISPATCH''" | "evidenceTypeName ADMISSION = ''ADMISSION''"

definition recordResolution :: "external \<Rightarrow> ResolveEvidenceInput \<Rightarrow> (string \<times> json) list \<Rightarrow> unit cp" where
  "recordResolution ext i outcome =
     bindM (randomUUID ext) (\<lambda>resolutionId.
     thenM (execute ext (insertResolution
       \<lparr>er_id = resolutionId, er_clusterId = ri_clusterId i, er_type = ri_type i, er_evidenceId = ri_evidenceId i,
        er_actorId = ri_actorId i, er_reason = ri_reason i,
        er_json = JObj ([(''observation'', JStr (ri_observation i)),
                         (''generation'', JStr (show_nat (ri_generation i)))] @ outcome)\<rparr>))
     (auditCluster ext (ri_actorId i) (ri_clusterId i) ''CLUSTER_MAINTENANCE_EVIDENCE_RESOLVED''
       (JObj ([(''resolutionId'', JStr resolutionId), (''type'', JStr (evidenceTypeName (ri_type i))),
               (''evidenceId'', JStr (ri_evidenceId i)), (''observation'', JStr (ri_observation i)),
               (''reason'', JStr (ri_reason i))] @ outcome))))"

definition resolveWithinTransaction ::
    "external \<Rightarrow> ResolveEvidenceInput \<Rightarrow> LockedResource option \<Rightarrow> unit cp" where
  "resolveWithinTransaction ext i lockedResource =
     inTransaction ext
       (thenM (lease_assertOwner ext (ri_lease i))
       (bindM (query ext (stateIs (ri_clusterId i) [''CLOSING'', ''RECONCILING''] (ri_generation i))) (\<lambda>current.
        if \<not> current then throwM (ConflictException ''Maintenance recovery generation changed'')
        else bindM (query ext (evidenceExists i)) (\<lambda>evidence.
          if \<not> evidence then throwM (ConflictException ''Evidence not found'')
          else bindM (if ri_type i = DISPATCH then resolveDispatch ext i lockedResource else retM []) (\<lambda>outcome.
            recordResolution ext i outcome)))))"

definition observing :: "ResolveEvidenceInput \<Rightarrow> (ResolveEvidenceInput \<Rightarrow> unit cp) \<Rightarrow> unit cp" where
  "observing i run =
     (case ri_observeResource i of
        None \<Rightarrow> run i
      | Some observe \<Rightarrow> bindM observe (\<lambda>unchanged. run (i\<lparr>ri_observedUnchanged := Some unchanged\<rparr>)))"

definition evidence_resolve :: "external \<Rightarrow> ResolveEvidenceInput \<Rightarrow> unit cp" where
  "evidence_resolve ext i =
     bindM (requireRecord ext (ri_clusterId i)) (\<lambda>record.
     if ms_state record \<notin> {''CLOSING'', ''RECONCILING''} \<or> trim (ri_reason i) = [] \<or> trim (ri_observation i) = []
        \<or> length (ri_reason i) > 1024 \<or> length (ri_observation i) > 4096
     then throwM (ConflictException ''Recovery requires maintenance and substantive evidence'')
     else case ri_type i of
       DISPATCH \<Rightarrow>
         bindM (query ext (dispatchOperations (ri_evidenceId i) (ri_clusterId i))) (\<lambda>rows.
         case rows of
           [eo] \<Rightarrow>
             if eo_resourceId eo = [] then throwM (ConflictException ''Dispatch operation identity is ambiguous'')
             else (case eo of
               Inl r \<Rightarrow>
                 withServiceRecoveryLock ext (ri_clusterId i) (o_serviceId r)
                   (observing i (\<lambda>j. resolveWithinTransaction ext j (Some (LockedService (o_serviceId r)))))
             | Inr r \<Rightarrow>
                 bindM (affectedServices (n_affectedServiceIds r)) (\<lambda>ids.
                 withNodeRecoveryLocks ext (ri_clusterId i) (n_nodeId r) ids
                   (observing i (\<lambda>j. resolveWithinTransaction ext j (Some (LockedNode (n_nodeId r) ids))))))
         | _ \<Rightarrow> throwM (ConflictException ''Dispatch operation identity is ambiguous''))
     | ADMISSION \<Rightarrow> resolveWithinTransaction ext i None)"

section \<open>The contract\<close>

context step_relation
begin

lemma steps_affectedServices [step_intros]: "steps R (affectedServices ids)"
  unfolding affectedServices_def by (intro step_intros)

lemma steps_sameResource [step_intros]: "steps R (sameResource locked eo)"
  by (cases "(locked, eo)" rule: sameResource.cases) (auto intro!: step_intros)

lemma steps_linkedDeployment [step_intros]: "steps R (linkedDeployment ext c eo)"
  by (cases eo) (auto intro!: step_intros split: list.splits)

lemma steps_evidence_list [step_intros]: "steps R (evidence_list ext c)"
  unfolding evidence_list_def by (intro step_intros)

lemma steps_observing:
  "(\<And>observe. ri_observeResource i = Some observe \<Longrightarrow> steps R observe) \<Longrightarrow> (\<And>j. steps R (run j)) \<Longrightarrow> steps R (observing i run)"
  unfolding observing_def by (intro step_intros) auto

end

lemma only_db_resolveDispatch [step_intros]: "steps only_db (resolveDispatch ext i locked)"
  unfolding resolveDispatch_def recoverManually_def failLinkedDeployment_def Let_def
  by (intro step_intros) (auto split: list.splits intro!: step_intros)

lemma control_insertResolution [step_intros]:
  "steps (on_db control_step) (execute ext (insertResolution row))"
  by (rule controlling.steps_write)
     (auto simp: insertResolution_def control_step_def control_kept_def control_ok_def resolved_def
       ms_rows.evolve_refl lease_rows.evolve_refl split: if_splits)

lemma control_recordResolution [step_intros]: "steps (on_db control_step) (recordResolution ext i outcome)"
  unfolding recordResolution_def by (intro step_intros)

lemma only_db_recordResolution [step_intros]: "steps only_db (recordResolution ext i outcome)"
  unfolding recordResolution_def auditCluster_def by (intro step_intros)

text \<open>A settling step followed by changes of the control tables and the audit log is one settling step.\<close>

lemma settled_then_control:
  assumes "control_step b c"
  shows "store_step (Settled oid st) a b \<Longrightarrow> store_step (Settled oid st) a c"
    and "store_step (NodeSettled oid st) a b \<Longrightarrow> store_step (NodeSettled oid st) a c"
proof -
  have logs: "logs_kept b c" using store_step_logs [OF control_step_noted [OF assms]] .
  have rows: "operations c = operations b" "node_operations c = node_operations b"
      "prefix (audit_events b) (audit_events c)"
    using assms by (simp_all add: control_step_def)
  show "store_step (Settled oid st) a c" if "store_step (Settled oid st) a b"
    using that
  proof (cases rule: store_step.cases)
    case (settled P g)
    then show ?thesis
      using rows logs logs_kept_trans newly_audited_left by (intro store_step.settled [where P = P and g = g]) auto
  qed
  show "store_step (NodeSettled oid st) a c" if "store_step (NodeSettled oid st) a b"
    using that
  proof (cases rule: store_step.cases)
    case (node_settled P g)
    then show ?thesis
      using rows logs logs_kept_trans newly_audited_left by (intro store_step.node_settled [where P = P and g = g]) auto
  qed
qed

lemma case_single_OK:
  "(case xs of [x] \<Rightarrow> f x | _ \<Rightarrow> throwM e) w = (Inr y, w') \<longleftrightarrow> (\<exists>x. xs = [x] \<and> f x w = (Inr y, w'))"
  by (cases xs rule: remdups_adj.cases) (auto simp: throwM_OK)

definition settles_failed :: "evidence_operation \<Rightarrow> store_event" where
  "settles_failed eo = (case eo of Inl r \<Rightarrow> Settled (o_id r) FAILED | Inr r \<Rightarrow> NodeSettled (n_id r) FAILED)"

lemma failDeployment_OK:
  assumes "executeStmt ext (failDeployment rb oid dep reason) w = (Inr n, w')"
  shows "deps_updated (w_db w) (w_db w')"
proof -
  let ?P = "\<lambda>x. d_id x = d_id dep \<and> d_status x = d_status dep \<and>
      (if rb then d_rollbackOperationId x = Some oid else d_operationId x = oid)"
  let ?f = "\<lambda>now x. x\<lparr>d_status := D_FAILED, d_reason := Some reason, d_finishedAt := Some now\<rparr>"
  obtain now where "failDeployment rb oid dep reason now (w_db w) = Inr (n, w_db w')"
    using executeStmt_OK [OF assms] by blast
  then have "w_db w' = (w_db w)\<lparr>deployments := update_rows ?P (?f now) (deployments (w_db w))\<rparr>"
    by (simp add: failDeployment_def Let_def)
  moreover have "rows_evolve d_id dep_evolves (deployments (w_db w)) (update_rows ?P (?f now) (deployments (w_db w)))"
    by (rule dep_rows.evolve_update) (simp add: dep_evolves_def)
  ultimately show ?thesis unfolding deps_updated_def by (intro exI conjI) auto
qed

lemma settled_where_step:
  assumes "failOperation c reason eo now d = Inr (n, d1)" and "manualRecovery eo"
    and mid: "d2 = d1 \<or> deps_updated d1 d2"
    and aud: "d3 = d2\<lparr>audit_events := audit_events d2 @ [auditRow a]\<rparr>" and id: "a_operationId a = eo_id eo"
  shows "store_step (settles_failed eo) d d3"
proof -
  have logs: "logs_kept d d3" if "deployments d1 = deployments d" "rollback_attempts d1 = rollback_attempts d"
      "audit_events d1 = audit_events d" "control_kept d d1"
    using mid aud that by (auto simp: logs_kept_def deps_updated_def dep_rows.evolve_refl)
  have rows: "operations d3 = operations d1" "node_operations d3 = node_operations d1"
      "audit_events d3 = audit_events d1 @ [auditRow a]"
    using mid aud deps_updated_fields by auto
  show ?thesis
  proof (cases eo)
    case (Inl r0)
    let ?P = "\<lambda>r. o_id r = o_id r0 \<and> o_clusterId r = c \<and> o_status r = o_status r0 \<and>
        o_errorCode r = o_errorCode r0 \<and> o_errorCode r \<noteq> None \<and>
        o_expectedVersion r = o_expectedVersion r0 \<and> o_beforeSpecHash r = o_beforeSpecHash r0"
    let ?g = "\<lambda>r. r\<lparr>o_status := FAILED, o_errorCode := Some ''MANUAL_MUTATION_NOT_OBSERVED'',
        o_errorMessage := Some reason, o_updatedAt := now\<rparr>"
    have d1: "d1 = d\<lparr>operations := update_rows ?P ?g (operations d)\<rparr>"
      using assms(1) Inl by (simp add: Let_def)
    have "?P = (\<lambda>r. open_op (o_id r0) r \<and> ?P r)"
      using assms(2) Inl by (auto simp: fun_eq_iff)
    then have "operations d3 = update_rows (\<lambda>r. open_op (o_id r0) r \<and> ?P r) ?g (operations d)"
      using rows d1 by simp
    then have "store_step (Settled (o_id r0) FAILED) d d3"
      using logs rows d1 id Inl
      by (intro store_step.settled [where P = ?P and g = ?g]) (auto simp: op_same_intent_def intro: newly_audited_append)
    then show ?thesis using Inl by (simp add: settles_failed_def)
  next
    case (Inr r0)
    let ?P = "\<lambda>r. n_id r = n_id r0 \<and> n_clusterId r = c \<and> n_status r = n_status r0 \<and>
        n_errorCode r = n_errorCode r0 \<and> n_errorCode r \<noteq> None \<and>
        n_expectedVersion r = n_expectedVersion r0 \<and> n_beforeSpecHash r = n_beforeSpecHash r0"
    let ?g = "\<lambda>r. r\<lparr>n_status := FAILED, n_errorCode := Some ''MANUAL_MUTATION_NOT_OBSERVED'',
        n_errorMessage := Some reason, n_updatedAt := now\<rparr>"
    have d1: "d1 = d\<lparr>node_operations := update_rows ?P ?g (node_operations d)\<rparr>"
      using assms(1) Inr by (simp add: Let_def)
    have "?P = (\<lambda>r. open_node_op (n_id r0) r \<and> ?P r)"
      using assms(2) Inr by (auto simp: fun_eq_iff)
    then have "node_operations d3 = update_rows (\<lambda>r. open_node_op (n_id r0) r \<and> ?P r) ?g (node_operations d)"
      using rows d1 by simp
    then have "store_step (NodeSettled (n_id r0) FAILED) d d3"
      using logs rows d1 id Inr
      by (intro store_step.node_settled [where P = ?P and g = ?g]) (auto simp: node_same_intent_def intro: newly_audited_append)
    then show ?thesis using Inr by (simp add: settles_failed_def)
  qed
qed

lemma recoverManually_OK:
  assumes "recoverManually ext i eo w = (Inr outcome, w')" and "manualRecovery eo"
  shows "store_step (settles_failed eo) (w_db w) (w_db w')"
proof -
  obtain unchanged deployment n w1 w2 u w3 v where
      w1: "linkedDeployment ext (ri_clusterId i) eo w = (Inr deployment, w1)"
    and w2: "executeStmt ext (failOperation (ri_clusterId i) (ri_reason i) eo) w1 = (Inr n, w2)"
    and w3: "failLinkedDeployment ext i eo deployment w2 = (Inr u, w3)"
    and w': "op_audit ext (manualAudit i eo (outcomeFields eo unchanged deployment)) w3 = (Inr v, w')"
    using assms(1) unfolding recoverManually_def Let_def case_option_OK if_OK bindM_OK thenM_OK
    by (elim exE conjE disjE) (auto simp: throwM_OK retM_OK)
  have db1: "w_db w1 = w_db w" using stepsD [OF reading.steps_linkedDeployment w1] by (simp add: reads_only_def)
  obtain now where stmt: "failOperation (ri_clusterId i) (ri_reason i) eo now (w_db w) = Inr (n, w_db w2)"
    using executeStmt_OK [OF w2] db1 by auto
  have deps: "w_db w3 = w_db w2 \<or> deps_updated (w_db w2) (w_db w3)"
    using w3 failDeployment_OK [of ext _ _ _ _ w2] unfolding failLinkedDeployment_def
    by (auto simp: OK_simps)
  show ?thesis
    using settled_where_step [OF stmt assms(2) deps op_audit_OK [OF w']] by (simp add: manualAudit_def)
qed

lemma resolveDispatch_OK:
  assumes "resolveDispatch ext i locked w = (Inr outcome, w')"
  shows "w_db w' = w_db w \<or> (\<exists>eo. store_step (settles_failed eo) (w_db w) (w_db w'))"
proof -
  obtain eo same w1 w2 where w1: "query ext (recordedOperations (ri_evidenceId i) (ri_clusterId i)) w = (Inr [eo], w1)"
    and w2: "sameResource locked eo w1 = (Inr same, w2)"
    and rest: "(if manualRecovery eo then recoverManually ext i eo
      else if \<not> status_terminal (eo_status eo)
        then throwM (ConflictException ''Dispatch operation requires terminal outcome or supported unchanged-state recovery'')
        else retM []) w2 = (Inr outcome, w')"
    using assms unfolding resolveDispatch_def by (auto simp: OK_simps case_single_OK split: if_splits)
  have "w_db w2 = w_db w"
    using query_OK [OF w1] stepsD [OF reading.steps_sameResource w2] by (simp add: reads_only_def)
  then show ?thesis
    using rest recoverManually_OK [of ext i eo w2 outcome w'] by (auto simp: OK_simps split: if_splits)
qed

lemma makes_resolveWithinTransaction:
  "makes ({Noted} \<union> range settles_failed) (resolveWithinTransaction ext i locked)"
  unfolding resolveWithinTransaction_def
proof (rule makes_transaction, goal_cases)
  case 1
  show ?case by (intro step_intros)
next
  case (2 w x w')
  then obtain outcome w1 w2 where "w_db w1 = w_db w"
    and out: "(if ri_type i = DISPATCH then resolveDispatch ext i locked else retM []) w1 = (Inr outcome, w2)"
    and rec: "recordResolution ext i outcome w2 = (Inr x, w')"
    by (auto simp: OK_simps lease_assertOwner_def queryAt_def dest!: query_OK split: if_splits)
  have ctl: "control_step (w_db w2) (w_db w')"
    using stepsD [OF control_recordResolution rec] by (simp add: on_db_def)
  have "w_db w2 = w_db w1 \<or> (\<exists>eo. store_step (settles_failed eo) (w_db w1) (w_db w2))"
    using out resolveDispatch_OK [of ext i locked w1 outcome w2] by (auto simp: OK_simps split: if_splits)
  then consider "w_db w2 = w_db w" | eo where "store_step (settles_failed eo) (w_db w) (w_db w2)"
    using \<open>w_db w1 = w_db w\<close> by auto
  then show ?case
  proof cases
    case 1
    then show ?thesis using control_step_noted [OF ctl] by auto
  next
    case (2 eo)
    then have "store_step (settles_failed eo) (w_db w) (w_db w')"
      using settled_then_control [OF ctl] by (auto simp: settles_failed_def split: sum.splits)
    then show ?thesis by blast
  qed
qed

context recovery_relation
begin

lemma steps_resolveWithinTransaction [step_intros]: "steps R (resolveWithinTransaction ext i locked)"
  by (rule steps_makes [OF makes_resolveWithinTransaction]) (auto simp: settles_failed_def split: sum.splits)

end

context locked_recovery_relation
begin

lemma steps_evidence_resolve:
  assumes "\<And>observe. ri_observeResource i = Some observe \<Longrightarrow> steps R observe"
  shows "steps R (evidence_resolve ext i)"
  unfolding evidence_resolve_def
  by (intro step_intros) (auto split: list.splits sum.splits EvidenceType.splits intro!: step_intros steps_observing assms)

end

end
