(* ===== verification/Maintenance_Api.thy ===== *)
theory Maintenance_Api
  imports Evidence_Recovery
begin

text \<open>
  The administrative controllers of maintenance: \<^verbatim>\<open>clusters/cluster-maintenance.controller.ts\<close>,
  \<^verbatim>\<open>clusters/maintenance-initialize.controller.ts\<close>,
  \<^verbatim>\<open>clusters/maintenance-close.controller.ts\<close>,
  \<^verbatim>\<open>clusters/maintenance-recovery.controller.ts\<close> and
  \<^verbatim>\<open>clusters/maintenance-evidence.controller.ts\<close>. Their bodies are checked by hand, not by the schema
  library, so the checks are part of the model; a generation arrives as a decimal string. Every handler
  repeats the scope check of the guard.
\<close>

section \<open>Request bodies\<close>

definition isDecimalDigit :: "char \<Rightarrow> bool" where
  "isDecimalDigit c = (let n = (of_char c :: nat) in 48 \<le> n \<and> n \<le> 57)"

text \<open>\<open>/^[1-9][0-9]{0,19}$/\<close> and \<open>BigInt\<close> of such a string.\<close>

fun isGeneration :: "string \<Rightarrow> bool" where
  "isGeneration [] = False"
| "isGeneration (c # cs) = (isDecimalDigit c \<and> c \<noteq> CHR ''0'' \<and> length cs \<le> 19 \<and> list_all isDecimalDigit cs)"

definition bigInt :: "string \<Rightarrow> nat" where
  "bigInt s = foldl (\<lambda>n c. 10 * n + (of_char c - 48)) 0 s"

definition isEvidenceId :: "string \<Rightarrow> bool" where
  "isEvidenceId s = (length s = 36 \<and> list_all (\<lambda>c. isHexDigit c \<or> c = CHR ''-'') s)"

text \<open>\<open>!payload || typeof payload !== 'object' || Array.isArray(payload)\<close>.\<close>

definition objectBody :: "string \<Rightarrow> json \<Rightarrow> json cp" where
  "objectBody message payload = (case payload of JObj fs \<Rightarrow> retM payload | _ \<Rightarrow> throwM (BadRequestException message))"

definition generationBody :: "string \<Rightarrow> json \<Rightarrow> (nat \<times> string) cp" where
  "generationBody message body =
     (case (json_field body ''generation'', json_field body ''reason'') of
        (Some (JStr g), Some (JStr reason)) \<Rightarrow>
          if isGeneration g \<and> boundedReason reason then retM (bigInt g, reason)
          else throwM (BadRequestException message)
      | _ \<Rightarrow> throwM (BadRequestException message))"

definition requireScopedAdmin :: "external \<Rightarrow> string \<Rightarrow> string \<Rightarrow> Principal \<Rightarrow> unit cp" where
  "requireScopedAdmin ext message clusterId actor =
     (if pr_role actor \<noteq> ADMIN \<or> (''*'' \<notin> set (pr_clusters actor) \<and> clusterId \<notin> set (pr_clusters actor))
      then throwM (ForbiddenException message)
      else if clusterId \<noteq> x_clusterId ext then throwM (NotFoundException ''Cluster not found'')
      else retM ())"

text \<open>
  \<open>process.env.DOCKLANE_MAINTENANCE_ENFORCE !== '1' || mode !== 'enforce' || !expectedSwarmClusterId\<close>;
  the result is the expected Swarm identifier.
\<close>

definition requireEnforcement :: "external \<Rightarrow> string \<Rightarrow> string cp" where
  "requireEnforcement ext message =
     (case x_expectedSwarmClusterId ext of
        Some (c # swarmId) \<Rightarrow>
          if x_maintenanceEnforce ext \<and> x_registrationEnforce ext then retM (c # swarmId)
          else throwM (ConflictException message)
      | _ \<Rightarrow> throwM (ConflictException message))"

section \<open>Reading and closing\<close>

datatype MaintenanceReply =
    RecordReply MaintenanceStateRow
  | ReadinessReply string string nat nat nat nat bool bool bool
  | TransitionReply string string nat
  | ManagersReadyReply string string nat "string list option"
  | EvidenceReply "DispatchRow list" "AdmissionRow list"
  | ResolvedReply string

definition maintenance_get :: "external \<Rightarrow> string \<Rightarrow> Principal \<Rightarrow> MaintenanceReply cp" where
  "maintenance_get ext clusterId actor =
     thenM (requireScopedAdmin ext ''Maintenance read requires scoped ADMIN'' clusterId actor)
     (thenM (assertRegistered ext clusterId)
     (bindM (requireRecord ext clusterId) (\<lambda>record. retM (RecordReply record))))"

definition maintenance_requestClosing :: "external \<Rightarrow> string \<Rightarrow> Principal \<Rightarrow> json \<Rightarrow> MaintenanceReply cp" where
  "maintenance_requestClosing ext clusterId actor payload =
     thenM (requireScopedAdmin ext ''Maintenance close requires scoped ADMIN'' clusterId actor)
     (bindM (objectBody ''Invalid maintenance request'' payload) (\<lambda>body.
      bindM (generationBody ''Invalid maintenance generation or reason'' body) (\<lambda>(generation, reason).
      thenM (assertRegistered ext clusterId)
      (bindM (requestClosing ext clusterId generation (pr_actorId actor) reason) (\<lambda>result.
       if \<not> result then throwM (ConflictException ''Maintenance state changed; refresh and retry'')
       else maintenance_get ext clusterId actor)))))"

definition maintenance_readiness :: "external \<Rightarrow> string \<Rightarrow> Principal \<Rightarrow> MaintenanceReply cp" where
  "maintenance_readiness ext clusterId actor =
     thenM (requireScopedAdmin ext ''Maintenance readiness requires scoped ADMIN'' clusterId actor)
     (thenM (assertRegistered ext clusterId)
     (bindM (requireRecord ext clusterId) (\<lambda>record.
      bindM (countUnresolvedOperations ext clusterId) (\<lambda>unresolved.
      bindM (countUnresolved ext clusterId) (\<lambda>unresolvedDispatches.
      bindM (countActiveAdmissions ext clusterId) (\<lambda>activeAdmissions.
      retM (ReadinessReply clusterId (ms_state record) (ms_generation record) unresolved unresolvedDispatches
              activeAdmissions False False False)))))))"

section \<open>Initialization\<close>

definition maintenance_initialize :: "external \<Rightarrow> string \<Rightarrow> Principal \<Rightarrow> json \<Rightarrow> MaintenanceReply cp" where
  "maintenance_initialize ext clusterId actor payload =
     thenM (requireScopedAdmin ext ''Maintenance initialization requires scoped ADMIN'' clusterId actor)
     (case x_expectedSwarmClusterId ext of
        Some (c # expected) \<Rightarrow>
          if \<not> x_registrationEnforce ext
          then throwM (ConflictException ''Fixed real Swarm registration enforcement is required'')
          else (case json_field payload ''reason'' of
            Some (JStr reason) \<Rightarrow>
              if \<not> boundedReason reason
              then throwM (BadRequestException ''A bounded initialization reason is required'')
              else
                thenM (assertRegistered ext clusterId)
                (bindM (callExternal ext (x_identity ext)) (\<lambda>actual.
                 if \<not> ai_manager actual \<or> ai_clusterId actual \<noteq> c # expected \<or> ai_nodeId actual = []
                 then throwM (ConflictException ''Current Docker Swarm differs from registered cluster'')
                 else bindM (initializeOpen ext clusterId (pr_actorId actor) reason) (\<lambda>record.
                   retM (RecordReply record))))
          | _ \<Rightarrow> throwM (BadRequestException ''A bounded initialization reason is required''))
      | _ \<Rightarrow> throwM (ConflictException ''Fixed real Swarm registration enforcement is required''))"

section \<open>Transitions under the lease\<close>

text \<open>\<open>const lease = await acquire(clusterId, 30); try { ... } finally { try { await release(lease) } catch {} }\<close>.\<close>

definition withLease :: "external \<Rightarrow> string \<Rightarrow> (MaintenanceLease \<Rightarrow> 'a cp) \<Rightarrow> 'a cp" where
  "withLease ext clusterId run =
     bindM (lease_acquire ext clusterId 30) (\<lambda>lease.
     finallyM (run lease) (thenM (attempt (lease_release ext lease)) (retM ())))"

definition maintenance_confirmClosed :: "external \<Rightarrow> string \<Rightarrow> Principal \<Rightarrow> json \<Rightarrow> MaintenanceReply cp" where
  "maintenance_confirmClosed ext clusterId actor payload =
     thenM (requireScopedAdmin ext ''Maintenance closure requires scoped ADMIN'' clusterId actor)
     (bindM (requireEnforcement ext ''Maintenance enforcement and fixed registration are required'') (\<lambda>swarmId.
      bindM (objectBody ''Invalid closure request'' payload) (\<lambda>body.
      bindM (generationBody ''A bounded reason and decimal generation are required'' body) (\<lambda>(generation, reason).
      if generation > MAX_GENERATION
      then throwM (BadRequestException ''Maintenance generation exceeds MySQL BIGINT range'')
      else
        thenM (assertRegistered ext clusterId)
        (withLease ext clusterId (\<lambda>lease.
          bindM (blockAll ext clusterId swarmId generation) (\<lambda>blocked.
          bindM (commitClosed ext clusterId generation (pr_actorId actor) reason blocked (Some lease)) (\<lambda>updated.
          if \<not> updated then throwM (ConflictException ''Maintenance closure generation changed'')
          else retM (TransitionReply clusterId ''CLOSED'' (generation + 1))))))))))"

definition recovery_check :: "external \<Rightarrow> string \<Rightarrow> Principal \<Rightarrow> json \<Rightarrow> (nat \<times> string \<times> string) cp" where
  "recovery_check ext clusterId actor payload =
     thenM (requireScopedAdmin ext ''Maintenance recovery requires scoped ADMIN'' clusterId actor)
     (bindM (requireEnforcement ext ''Enforced cluster registration and maintenance required'') (\<lambda>swarmId.
      bindM (objectBody ''Invalid recovery request'' payload) (\<lambda>body.
      bindM (generationBody ''Generation and bounded reason are required'' body) (\<lambda>(generation, reason).
      if generation \<ge> MAX_GENERATION then throwM (BadRequestException ''Maintenance generation cannot increment'')
      else thenM (assertRegistered ext clusterId) (retM (generation, reason, swarmId))))))"

definition beginReconciliation :: "external \<Rightarrow> string \<Rightarrow> Principal \<Rightarrow> json \<Rightarrow> MaintenanceReply cp" where
  "beginReconciliation ext clusterId actor payload =
     bindM (recovery_check ext clusterId actor payload) (\<lambda>(generation, reason, swarmId).
     withLease ext clusterId (\<lambda>lease.
       bindM (commitRecoveryTransition ext clusterId generation (pr_actorId actor) reason ''CLOSED'' lease [])
         (\<lambda>updated.
          if \<not> updated then throwM (ConflictException ''Maintenance recovery generation changed'')
          else retM (TransitionReply clusterId ''RECONCILING'' (generation + 1)))))"

definition completeReconciliation :: "external \<Rightarrow> string \<Rightarrow> Principal \<Rightarrow> json \<Rightarrow> MaintenanceReply cp" where
  "completeReconciliation ext clusterId actor payload =
     bindM (recovery_check ext clusterId actor payload) (\<lambda>(generation, reason, swarmId).
     withLease ext clusterId (\<lambda>lease.
       bindM (blockAll ext clusterId swarmId generation) (\<lambda>blocked.
       bindM (commitRecoveryTransition ext clusterId generation (pr_actorId actor) reason ''RECONCILING'' lease blocked)
         (\<lambda>updated.
          if \<not> updated then throwM (ConflictException ''Maintenance recovery generation changed'')
          else
            thenM (openAll ext clusterId swarmId (generation + 1))
              (retM (ManagersReadyReply clusterId ''OPEN'' (generation + 1) None))))))"

definition resumeManagers :: "external \<Rightarrow> string \<Rightarrow> Principal \<Rightarrow> json \<Rightarrow> MaintenanceReply cp" where
  "resumeManagers ext clusterId actor payload =
     bindM (recovery_check ext clusterId actor payload) (\<lambda>(generation, reason, swarmId).
     withLease ext clusterId (\<lambda>lease.
       bindM (openAll ext clusterId swarmId generation) (\<lambda>opened.
       retM (ManagersReadyReply clusterId ''OPEN'' generation (Some opened)))))"

section \<open>Evidence\<close>

definition evidence_authorize :: "external \<Rightarrow> string \<Rightarrow> Principal \<Rightarrow> string cp" where
  "evidence_authorize ext clusterId actor =
     thenM (requireScopedAdmin ext ''Scoped ADMIN recovery required'' clusterId actor)
     (bindM (requireEnforcement ext ''Maintenance and registered Swarm enforcement required'') (\<lambda>swarmId.
      thenM (assertRegistered ext clusterId) (retM swarmId)))"

definition maintenance_evidence :: "external \<Rightarrow> string \<Rightarrow> Principal \<Rightarrow> MaintenanceReply cp" where
  "maintenance_evidence ext clusterId actor =
     thenM (evidence_authorize ext clusterId actor)
     (bindM (evidence_list ext clusterId) (\<lambda>(dispatch, admissions). retM (EvidenceReply dispatch admissions)))"

definition evidenceBody :: "json \<Rightarrow> (EvidenceType \<times> string \<times> nat \<times> string \<times> string) cp" where
  "evidenceBody input =
     (case (json_field input ''type'', json_field input ''evidenceId'', json_field input ''observation'') of
        (Some (JStr type), Some (JStr evidenceId), Some (JStr observation)) \<Rightarrow>
          if type \<notin> {''ADMISSION'', ''DISPATCH''} \<or> \<not> isEvidenceId evidenceId
             \<or> trim observation = [] \<or> length observation > 4096
          then throwM (BadRequestException ''Malformed maintenance recovery proof'')
          else bindM (generationBody ''Malformed maintenance recovery proof'' input) (\<lambda>(generation, reason).
            retM (if type = ''DISPATCH'' then DISPATCH else ADMISSION, evidenceId, generation, reason, observation))
      | _ \<Rightarrow> throwM (BadRequestException ''Malformed maintenance recovery proof''))"

text \<open>The closure \<open>observeResource\<close>: the current version and spec hash of the dispatched resource.\<close>

definition observeResource :: "external \<Rightarrow> string \<Rightarrow> string \<Rightarrow> (nat \<times> string) cp" where
  "observeResource ext clusterId evidenceId =
     bindM (query ext (dispatchOperations evidenceId clusterId)) (\<lambda>rows.
     case rows of
       [eo] \<Rightarrow>
         (case eo of
            Inl r \<Rightarrow> bindM (inspectService ext (o_serviceId r)) (\<lambda>actual.
              retM (s_version (sd_service actual), s_specHash (sd_service actual)))
          | Inr r \<Rightarrow> bindM (inspectNode ext (n_nodeId r)) (\<lambda>actual.
              retM (nd_version (ndr_node actual), nd_specHash (ndr_node actual))))
     | _ \<Rightarrow> throwM (ConflictException ''Dispatch operation identity is ambiguous''))"

definition maintenance_resolve :: "external \<Rightarrow> string \<Rightarrow> Principal \<Rightarrow> json \<Rightarrow> MaintenanceReply cp" where
  "maintenance_resolve ext clusterId actor payload =
     bindM (evidence_authorize ext clusterId actor) (\<lambda>swarmId.
     bindM (objectBody ''Recovery evidence required'' payload) (\<lambda>body.
     bindM (evidenceBody body) (\<lambda>(type, evidenceId, generation, reason, observation).
     if generation > MAX_GENERATION then throwM (BadRequestException ''Generation too large'')
     else withLease ext clusterId (\<lambda>lease.
       bindM (requireRecord ext clusterId) (\<lambda>current.
       if ms_state current \<notin> {''CLOSING'', ''RECONCILING''} \<or> ms_generation current \<noteq> generation
       then throwM (ConflictException ''Recovery requires current blocked maintenance generation'')
       else
         thenM (blockAll ext clusterId swarmId generation)
         (thenM (evidence_resolve ext
            \<lparr>ri_clusterId = clusterId, ri_generation = generation, ri_type = type, ri_evidenceId = evidenceId,
             ri_actorId = pr_actorId actor, ri_reason = reason, ri_observation = observation, ri_lease = lease,
             ri_observedUnchanged = None,
             ri_observeResource =
               (if type = DISPATCH then Some (observeResource ext clusterId evidenceId) else None)\<rparr>)
           (retM (ResolvedReply evidenceId))))))))"

section \<open>The contract\<close>

context step_relation
begin

lemma steps_request_checks [step_intros]:
  "steps R (objectBody m payload)" "steps R (generationBody m payload)"
  "steps R (requireScopedAdmin ext m c actor)" "steps R (requireEnforcement ext m)"
  unfolding objectBody_def generationBody_def requireScopedAdmin_def requireEnforcement_def
  by (auto split: json.splits option.splits list.splits intro!: step_intros)

lemma steps_request_inputs [step_intros]:
  "steps R (recovery_check ext c actor payload)" "steps R (evidence_authorize ext c actor)"
  "steps R (evidenceBody payload)" "steps R (observeResource ext c evidenceId)"
  unfolding recovery_check_def evidence_authorize_def evidenceBody_def observeResource_def
  by (intro step_intros; auto split: json.splits option.splits list.splits sum.splits intro!: step_intros)+

lemma steps_maintenance_views [step_intros]:
  "steps R (maintenance_get ext c actor)" "steps R (maintenance_readiness ext c actor)"
  "steps R (maintenance_evidence ext c actor)"
  unfolding maintenance_get_def maintenance_readiness_def maintenance_evidence_def
  by (intro step_intros)+

end

text \<open>Requests for another cluster are refused at once.\<close>

lemma throwM_bind: "bindM (throwM e) f = throwM e" "thenM (throwM e) k = throwM e"
  by (simp_all add: fun_eq_iff thenM_def bindM_def throwM_def)

lemma requireScopedAdmin_foreign:
  "c \<noteq> x_clusterId ext \<Longrightarrow> requireScopedAdmin ext m c actor =
     throwM (if pr_role actor \<noteq> ADMIN \<or> (''*'' \<notin> set (pr_clusters actor) \<and> c \<notin> set (pr_clusters actor))
       then ForbiddenException m else NotFoundException ''Cluster not found'')"
  by (simp add: requireScopedAdmin_def)

lemmas maintenance_handler_defs =
  maintenance_requestClosing_def maintenance_initialize_def maintenance_confirmClosed_def recovery_check_def
  beginReconciliation_def completeReconciliation_def resumeManagers_def evidence_authorize_def maintenance_resolve_def

lemma foreign_cluster:
  assumes "c \<noteq> x_clusterId ext"
  shows "\<exists>e. maintenance_requestClosing ext c actor payload = throwM e"
    and "\<exists>e. maintenance_initialize ext c actor payload = throwM e"
    and "\<exists>e. maintenance_confirmClosed ext c actor payload = throwM e"
    and "\<exists>e. beginReconciliation ext c actor payload = throwM e"
    and "\<exists>e. completeReconciliation ext c actor payload = throwM e"
    and "\<exists>e. resumeManagers ext c actor payload = throwM e"
    and "\<exists>e. maintenance_resolve ext c actor payload = throwM e"
  unfolding maintenance_handler_defs requireScopedAdmin_foreign [OF assms] throwM_bind by blast+

context recovery_relation
begin

lemma steps_withLease [step_intros]: "(\<And>lease. steps R (run lease)) \<Longrightarrow> steps R (withLease ext c run)"
  unfolding withLease_def by (intro step_intros)

end

context locked_recovery_relation
begin

text \<open>The handlers for the configured cluster.\<close>

lemma steps_local_handlers:
  assumes c: "c = x_clusterId ext"
  shows "steps R (maintenance_requestClosing ext c actor payload)"
    and "steps R (maintenance_initialize ext c actor payload)"
    and "steps R (maintenance_confirmClosed ext c actor payload)"
    and "steps R (beginReconciliation ext c actor payload)"
    and "steps R (completeReconciliation ext c actor payload)"
    and "steps R (resumeManagers ext c actor payload)"
    and "steps R (maintenance_resolve ext c actor payload)"
proof -
  have observe: "steps R obs" if "(if type = DISPATCH then Some (observeResource ext c eid) else None) = Some obs" for type eid obs
    using that by (auto split: if_splits intro: steps_request_inputs)
  show "steps R (maintenance_initialize ext c actor payload)"
    unfolding maintenance_initialize_def
    by (intro step_intros; auto split: option.splits list.splits json.splits intro!: step_intros)
  show "steps R (maintenance_resolve ext c actor payload)"
    unfolding maintenance_resolve_def c
    by (intro step_intros; auto simp: c [symmetric] intro!: steps_evidence_resolve observe)
  show "steps R (maintenance_requestClosing ext c actor payload)" "steps R (maintenance_confirmClosed ext c actor payload)"
    "steps R (beginReconciliation ext c actor payload)" "steps R (completeReconciliation ext c actor payload)"
    "steps R (resumeManagers ext c actor payload)"
    unfolding maintenance_requestClosing_def maintenance_confirmClosed_def beginReconciliation_def
      completeReconciliation_def resumeManagers_def c
    by (intro step_intros; simp)+
qed

lemma steps_maintenance_handlers:
  "steps R (maintenance_requestClosing ext c actor payload)"
  "steps R (maintenance_initialize ext c actor payload)"
  "steps R (maintenance_confirmClosed ext c actor payload)"
  "steps R (beginReconciliation ext c actor payload)"
  "steps R (completeReconciliation ext c actor payload)"
  "steps R (resumeManagers ext c actor payload)"
  "steps R (maintenance_resolve ext c actor payload)"
  by (cases "c = x_clusterId ext"; metis steps_local_handlers foreign_cluster [of c ext actor payload] steps_throwM)+

end

end
