(* ===== verification/Catalog.thy ===== *)
theory Catalog
  imports Maintenance_Api
begin

text \<open>
  What the components around the catalogue share: statements that append to its tables or change a
  bootstrap token (\<open>catalog_write\<close>), the rendering of dates, duplicate-key errors, and
  \<^verbatim>\<open>audit/audit.repository.ts\<close>. A run of such statements and of audit insertions keeps
  every contract relation of the process (\<open>steps_catalog\<close>).
\<close>

section \<open>Dates\<close>

text \<open>
  \<open>toISOString\<close> of a time in milliseconds since 1970, for years up to 9999. The date of a day
  number is computed in eras of 400 years that begin on the first of March.
\<close>

definition civil :: "nat \<Rightarrow> nat \<times> nat \<times> nat" where
  "civil days =
     (let z = days + 719468; era = z div 146097; doe = z mod 146097;
          yoe = (doe - doe div 1460 + doe div 36524 - doe div 146096) div 365;
          doy = doe - (365 * yoe + yoe div 4 - yoe div 100);
          mp = (5 * doy + 2) div 153;
          day = doy - (153 * mp + 2) div 5 + 1;
          month = (if mp < 10 then mp + 3 else mp - 9)
      in (yoe + era * 400 + (if month \<le> 2 then 1 else 0), month, day))"

definition padded :: "nat \<Rightarrow> nat \<Rightarrow> string" where
  "padded width n = replicate (width - length (show_nat n)) (CHR ''0'') @ show_nat n"

definition toISOString :: "nat \<Rightarrow> string" where
  "toISOString t =
     (case civil (t div 86400000) of (year, month, day) \<Rightarrow>
        let ms = t mod 86400000 in
        padded 4 year @ ''-'' @ padded 2 month @ ''-'' @ padded 2 day @ ''T'' @
        padded 2 (ms div 3600000) @ '':'' @ padded 2 (ms div 60000 mod 60) @ '':'' @
        padded 2 (ms div 1000 mod 60) @ ''.'' @ padded 3 (ms mod 1000) @ ''Z'')"

section \<open>Audit\<close>

record DomainAuditEvent =
  da_eventId :: string
  da_actorId :: string
  da_clusterId :: string
  da_resourceType :: string
  da_resourceId :: string
  da_action :: string
  da_beforeJson :: "json option"
  da_afterJson :: "json option"

definition domainAuditRow :: "DomainAuditEvent \<Rightarrow> AuditRow" where
  "domainAuditRow i =
     \<lparr>au_operationId = da_eventId i, au_actorId = da_actorId i, au_clusterId = da_clusterId i,
      au_serviceId = da_resourceId i, au_resourceType = da_resourceType i, au_resourceId = da_resourceId i,
      au_action = da_action i, au_beforeJson = da_beforeJson i, au_afterJson = da_afterJson i\<rparr>"

definition audit_record :: "external \<Rightarrow> DomainAuditEvent \<Rightarrow> unit cp" where
  "audit_record ext i =
     execute ext (\<lambda>now d. Inr (1, d\<lparr>audit_events := audit_events d @ [domainAuditRow i]\<rparr>))"

fun isDuplicateKey :: "failure \<Rightarrow> bool" where
  "isDuplicateKey (DuplicateEntry _) = True"
| "isDuplicateKey _ = False"

section \<open>Statements on the catalogue\<close>

definition outside_catalog :: "database \<Rightarrow> database \<Rightarrow> bool" where
  "outside_catalog d d' \<longleftrightarrow>
     operations d' = operations d \<and> node_operations d' = node_operations d \<and>
     deployments d' = deployments d \<and> rollback_attempts d' = rollback_attempts d \<and>
     audit_events d' = audit_events d \<and>
     cluster_maintenance_states d' = cluster_maintenance_states d \<and>
     maintenance_active_admissions d' = maintenance_active_admissions d \<and>
     maintenance_dispatches d' = maintenance_dispatches d \<and>
     maintenance_agent_barriers d' = maintenance_agent_barriers d \<and>
     maintenance_control_leases d' = maintenance_control_leases d \<and>
     maintenance_evidence_resolutions d' = maintenance_evidence_resolutions d"

definition catalog_write :: "database \<Rightarrow> database \<Rightarrow> bool" where
  "catalog_write d d' \<longleftrightarrow>
     outside_catalog d d' \<and> catalog_kept (catalog d) (catalog d') \<and>
     (catalog_ok (catalog d) \<longrightarrow> catalog_ok (catalog d'))"

lemma catalog_write_control: "catalog_write d d' \<Longrightarrow> control_step d d'"
  by (auto simp: catalog_write_def outside_catalog_def control_step_def control_kept_def control_ok_def
      barrier_keys_def ms_rows.evolve_refl lease_rows.evolve_refl)

lemma control_catalog_write:
  assumes "\<And>now d n d'. stmt now d = Inr (n, d') \<Longrightarrow> catalog_write d d'"
  shows "steps (on_db control_step) (execute ext stmt)"
  by (rule controlling.steps_write) (rule catalog_write_control, rule assms)

lemma control_audit_record [step_intros]: "steps (on_db control_step) (audit_record ext i)"
  unfolding audit_record_def by (rule controlling.steps_write) (auto simp: control_step_def)

lemma only_db_audit_record [step_intros]: "steps only_db (audit_record ext i)"
  unfolding audit_record_def by (intro step_intros)

text \<open>Rows of the catalogue stay where they are.\<close>

lemma find_row_prefix: "prefix xs ys \<Longrightarrow> find_row key k xs = Some r \<Longrightarrow> find_row key k ys = Some r"
  by (auto simp: prefix_def find_row_append)

lemma control_kept_catalog: "control_kept d d' \<Longrightarrow> catalog_kept (catalog d) (catalog d')"
  by (simp add: control_kept_def)

lemma control_kept_registration:
  "control_kept d d' \<Longrightarrow> find_row cg_clusterId c (cluster_registrations d) = Some r \<Longrightarrow>
     find_row cg_clusterId c (cluster_registrations d') = Some r"
  using control_kept_catalog [of d d'] by (auto simp: catalog_def intro: find_row_prefix)

lemma control_kept_release:
  "control_kept d d' \<Longrightarrow> find_row rl_id k (releases d) = Some r \<Longrightarrow> find_row rl_id k (releases d') = Some r"
  using control_kept_catalog [of d d'] by (auto simp: catalog_def intro: find_row_prefix)

lemma control_kept_token:
  "control_kept d d' \<Longrightarrow> find_row bt_id k (bootstrap_tokens d) = Some r \<Longrightarrow>
     \<exists>r'. find_row bt_id k (bootstrap_tokens d') = Some r' \<and> bt_evolves r r'"
  using control_kept_catalog [of d d'] by (auto simp: catalog_def rows_evolve_def)

end
