(* ===== verification/Registration.thy ===== *)
theory Registration
  imports Catalog
begin

text \<open>
  The registration of the cluster: \<^verbatim>\<open>clusters/cluster-registration.types.ts\<close>,
  \<^verbatim>\<open>clusters/cluster-registration.repository.ts\<close>,
  \<^verbatim>\<open>clusters/cluster-registration.service.ts\<close>,
  \<^verbatim>\<open>clusters/cluster-registration.controller.ts\<close> with its request schema, and the settings of
  \<^verbatim>\<open>clusters/cluster-binding.policy.ts\<close>. A registration binds the logical cluster to the Swarm
  that the operator has configured, after a manager of this Swarm has identified itself; it is never
  changed afterwards.
\<close>

section \<open>Types\<close>

record RegisterClusterRequest =
  rg_swarmClusterId :: string
  rg_displayName :: string

definition isControlChar :: "char \<Rightarrow> bool" where
  "isControlChar c = (let n = (of_char c :: nat) in n \<le> 31 \<or> n = 127)"

definition isDisplayName :: "string \<Rightarrow> bool" where
  "isDisplayName s =
     (0 < length s \<and> length s \<le> 128 \<and> trim s = s \<and> \<not> list_ex isControlChar s)"

definition matchesRegistration :: "RegistrationRow \<Rightarrow> string \<Rightarrow> RegisterClusterRequest \<Rightarrow> bool" where
  "matchesRegistration row clusterId i =
     (cg_clusterId row = clusterId \<and> cg_swarmClusterId row = rg_swarmClusterId i
      \<and> cg_displayName row = rg_displayName i)"

text \<open>The strict schema of the request body.\<close>

definition RegisterClusterRequestSchema :: "json \<Rightarrow> RegisterClusterRequest option" where
  "RegisterClusterRequestSchema body =
     (case body of
        JObj fs \<Rightarrow>
          if set (map fst fs) \<subseteq> {''swarmClusterId'', ''displayName''} then
            (case (map_of fs ''swarmClusterId'', map_of fs ''displayName'') of
               (Some (JStr swarmId), Some (JStr name)) \<Rightarrow>
                 if isBoundedIdentifier swarmId \<and> isDisplayName name
                 then Some \<lparr>rg_swarmClusterId = swarmId, rg_displayName = name\<rparr> else None
             | _ \<Rightarrow> None)
          else None
      | _ \<Rightarrow> None)"

section \<open>Repository\<close>

text \<open>\<open>JSON.stringify(record)\<close>, where \<open>mapRegistration\<close> has rendered the date.\<close>

definition registrationJson :: "RegistrationRow \<Rightarrow> json" where
  "registrationJson r = JObj
     [(''id'', JStr (cg_id r)), (''clusterId'', JStr (cg_clusterId r)),
      (''swarmClusterId'', JStr (cg_swarmClusterId r)), (''displayName'', JStr (cg_displayName r)),
      (''registeredBy'', JStr (cg_registeredBy r)), (''verifiedNodeId'', JStr (cg_verifiedNodeId r)),
      (''createdAt'', JStr (toISOString (cg_createdAt r)))]"

text \<open>The table has the primary key \<open>cluster_id\<close> and unique keys on \<open>id\<close> and \<open>swarm_cluster_id\<close>.\<close>

definition insertRegistration ::
    "string \<Rightarrow> string \<Rightarrow> RegisterClusterRequest \<Rightarrow> string \<Rightarrow> string \<Rightarrow> statement" where
  "insertRegistration rid clusterId i registeredBy verifiedNodeId now d =
     (if \<exists>r \<in> set (cluster_registrations d). cg_id r = rid \<or> cg_clusterId r = clusterId
           \<or> cg_swarmClusterId r = rg_swarmClusterId i
      then Inl (DuplicateEntry ''Duplicate entry for cluster_registrations'')
      else Inr (1, d\<lparr>cluster_registrations := cluster_registrations d @
             [\<lparr>cg_id = rid, cg_clusterId = clusterId, cg_swarmClusterId = rg_swarmClusterId i,
               cg_displayName = rg_displayName i, cg_registeredBy = registeredBy,
               cg_verifiedNodeId = verifiedNodeId, cg_createdAt = now\<rparr>]\<rparr>))"

definition registrationAudit :: "RegistrationRow \<Rightarrow> AuditEventInput" where
  "registrationAudit r =
     \<lparr>a_operationId = cg_id r, a_actorId = cg_registeredBy r, a_clusterId = cg_clusterId r,
      a_serviceId = cg_clusterId r, a_resourceType = Some ''cluster'', a_resourceId = Some (cg_clusterId r),
      a_action = ''CLUSTER_REGISTERED'', a_beforeJson = None, a_afterJson = Some (registrationJson r)\<rparr>"

text \<open>
  Of the statements in the transaction only the insertion of the registration can report a
  duplicate key, so the flag \<open>duplicateInsert\<close> is the kind of the error.
\<close>

definition registration_register ::
    "external \<Rightarrow> string \<Rightarrow> RegisterClusterRequest \<Rightarrow> string \<Rightarrow> string \<Rightarrow> RegistrationRow cp" where
  "registration_register ext clusterId i registeredBy verifiedNodeId =
     bindM (randomUUID ext) (\<lambda>rid.
     bindM (attempt (inTransaction ext
       (thenM (execute ext (insertRegistration rid clusterId i registeredBy verifiedNodeId))
       (bindM (registration_find ext clusterId) (\<lambda>found.
        case found of
          None \<Rightarrow> throwM (PlainError ''Cluster registration disappeared after insertion'')
        | Some record \<Rightarrow> thenM (op_audit ext (registrationAudit record)) (retM record))))))
     (\<lambda>r. case r of
        Inr record \<Rightarrow> retM record
      | Inl e \<Rightarrow>
          if isDuplicateKey e then
            bindM (registration_find ext clusterId) (\<lambda>existing.
            case existing of
              Some record \<Rightarrow>
                if matchesRegistration record clusterId i then retM record
                else throwM (ConflictException ''Cluster or Swarm identity is already registered'')
            | None \<Rightarrow> throwM (ConflictException ''Cluster or Swarm identity is already registered''))
          else throwM e))"

section \<open>Service\<close>

definition registration_assertAccess :: "external \<Rightarrow> string \<Rightarrow> Principal \<Rightarrow> unit cp" where
  "registration_assertAccess ext clusterId actor =
     (if pr_role actor \<noteq> ADMIN \<or> (''*'' \<notin> set (pr_clusters actor) \<and> clusterId \<notin> set (pr_clusters actor))
      then throwM (ForbiddenException ''Cluster registration requires a scoped ADMIN'')
      else if clusterId \<noteq> x_clusterId ext then throwM (NotFoundException ''Cluster not found'')
      else if \<not> isBoundedIdentifier clusterId
      then throwM (BadRequestException ''Cluster registration requires a bounded logical identifier'')
      else retM ())"

text \<open>The schema of \<open>identity()\<close> has checked the component already.\<close>

definition registration_serviceRegister ::
    "external \<Rightarrow> string \<Rightarrow> RegisterClusterRequest \<Rightarrow> Principal \<Rightarrow> RegistrationRow cp" where
  "registration_serviceRegister ext clusterId i actor =
     thenM (registration_assertAccess ext clusterId actor)
     (if \<not> isBoundedIdentifier (rg_swarmClusterId i) \<or> \<not> isDisplayName (rg_displayName i)
      then throwM (BadRequestException ''Invalid cluster registration request'')
      else if x_managerClusterId ext = None \<or> x_managerClusterId ext \<noteq> Some (rg_swarmClusterId i)
      then throwM (ConflictException ''Registration requires the explicitly configured Swarm cluster ID'')
      else bindM (registration_find ext clusterId) (\<lambda>found.
        case found of
          Some existing \<Rightarrow>
            if \<not> matchesRegistration existing clusterId i
            then throwM (ConflictException ''Cluster is already registered with different immutable metadata'')
            else retM existing
        | None \<Rightarrow>
            bindM (attempt (callExternal ext (x_identity ext))) (\<lambda>r.
            case r of
              Inl _ \<Rightarrow> throwM (BadGatewayException ''Unable to verify the configured manager identity'')
            | Inr identity \<Rightarrow>
                if \<not> ai_manager identity \<or> \<not> isBoundedIdentifier (ai_nodeId identity)
                then throwM (BadGatewayException ''Agent did not provide a valid manager identity'')
                else if Some (ai_clusterId identity) \<noteq> x_managerClusterId ext
                then throwM (ConflictException ''Current Agent cluster does not match the registration target'')
                else registration_register ext clusterId i (pr_actorId actor) (ai_nodeId identity))))"

record ClusterRegistrationView =
  crv_registration :: RegistrationRow
  crv_configuredSwarmClusterId :: "string option"
  crv_matchesConfiguration :: bool

definition registration_get :: "external \<Rightarrow> string \<Rightarrow> Principal \<Rightarrow> ClusterRegistrationView cp" where
  "registration_get ext clusterId actor =
     thenM (registration_assertAccess ext clusterId actor)
     (bindM (registration_find ext clusterId) (\<lambda>found.
      case found of
        None \<Rightarrow> throwM (NotFoundException ''Cluster registration not found'')
      | Some registration \<Rightarrow>
          retM \<lparr>crv_registration = registration, crv_configuredSwarmClusterId = x_managerClusterId ext,
            crv_matchesConfiguration = (Some (cg_swarmClusterId registration) = x_managerClusterId ext)\<rparr>))"

section \<open>Controller\<close>

definition registration_put :: "external \<Rightarrow> string \<Rightarrow> Principal \<Rightarrow> json \<Rightarrow> RegistrationRow cp" where
  "registration_put ext clusterId actor body =
     (case RegisterClusterRequestSchema body of
        None \<Rightarrow> throwM (BadRequestException ''Invalid cluster registration request'')
      | Some i \<Rightarrow> registration_serviceRegister ext clusterId i actor)"

section \<open>Settings of the binding policy\<close>

record ClusterBindingSettings =
  cbs_enforce :: bool
  cbs_logicalClusterId :: string
  cbs_expectedSwarmClusterId :: "string option"

text \<open>The arguments are the three environment variables; an error is its message.\<close>

definition loadClusterBindingSettings ::
    "string option \<Rightarrow> string option \<Rightarrow> string option \<Rightarrow> string + ClusterBindingSettings" where
  "loadClusterBindingSettings envMode envClusterId envExpected =
     (let mode = (case envMode of None \<Rightarrow> ''compat'' | Some m \<Rightarrow> m);
          logicalClusterId = (case envClusterId of None \<Rightarrow> ''default'' | Some c \<Rightarrow> c) in
      if mode \<noteq> ''compat'' \<and> mode \<noteq> ''enforce''
      then Inl ''DOCKLANE_CLUSTER_REGISTRATION_MODE must be compat or enforce''
      else if \<not> isBoundedIdentifier logicalClusterId
      then Inl ''DOCKLANE_CLUSTER_ID must be a bounded identifier''
      else if mode = ''enforce'' \<and> (case envExpected of None \<Rightarrow> True | Some c \<Rightarrow> \<not> isBoundedIdentifier c)
      then Inl ''Registration enforcement requires a fixed Swarm cluster ID''
      else Inr \<lparr>cbs_enforce = (mode = ''enforce''), cbs_logicalClusterId = logicalClusterId,
                cbs_expectedSwarmClusterId = envExpected\<rparr>)"

lemma enforced_settings_fix_the_cluster:
  "loadClusterBindingSettings m c e = Inr settings \<Longrightarrow> cbs_enforce settings \<Longrightarrow>
     \<exists>swarmId. cbs_expectedSwarmClusterId settings = Some swarmId \<and> isBoundedIdentifier swarmId"
  by (auto simp: loadClusterBindingSettings_def Let_def split: option.splits if_splits)

section \<open>What registration changes\<close>

lemma insertRegistration_writes:
  assumes "insertRegistration rid c i by_whom node now d = Inr (n, d')"
  shows "catalog_write d d'"
  using assms
  by (auto simp: insertRegistration_def catalog_write_def outside_catalog_def catalog_def bt_rows.evolve_refl
      split: if_splits) blast

lemma control_insertRegistration [step_intros]:
  "steps (on_db control_step) (execute ext (insertRegistration rid c i by_whom node))"
  by (rule control_catalog_write) (rule insertRegistration_writes)

lemma control_register: "steps (on_db control_step) (registration_register ext c i by_whom node)"
  unfolding registration_register_def registration_find_def by (intro step_intros)

lemma only_db_register: "steps only_db (registration_register ext c i by_whom node)"
  unfolding registration_register_def registration_find_def by (intro step_intros)

context step_relation
begin

lemma steps_registration_reads [step_intros]:
  "steps R (registration_find ext c)" "steps R (registration_assertAccess ext c actor)"
  "steps R (registration_get ext c actor)"
  unfolding registration_find_def registration_get_def registration_assertAccess_def
  by (intro step_intros)+

end

context recovery_relation
begin

lemma steps_registration_put [step_intros]: "steps R (registration_put ext c actor body)"
  unfolding registration_put_def registration_serviceRegister_def
  by (intro step_intros steps_control [OF control_register only_db_register])

end

end
