(* ===== verification/Health.thy ===== *)
theory Health
  imports Store
begin

text \<open>
  Health verification of deployments: \<^verbatim>\<open>deployments/health-endpoint.policy.ts\<close> (which
  URLs may be requested) and \<^verbatim>\<open>deployments/health-verifier.ts\<close> (the stability loop).
  URL parsing, DNS and \<open>fetch\<close> are answers of \<open>external\<close>; \<open>isIP\<close> of
  \<^verbatim>\<open>node:net\<close> is modelled here.

  The lemmas show what an allowed URL satisfies, that a URL which the policy refuses is never
  requested (also through redirects), and that verification succeeds only after an unbroken run
  of expected answers over the stability window, each between two convergence checks.
\<close>

section \<open>Addresses\<close>

fun splitOn :: "char \<Rightarrow> string \<Rightarrow> string list" where
  "splitOn c [] = [[]]"
| "splitOn c (x # xs) =
     (if x = c then [] # splitOn c xs
      else (case splitOn c xs of [] \<Rightarrow> [[x]] | y # ys \<Rightarrow> (x # y) # ys))"

definition startsWith :: "string \<Rightarrow> string \<Rightarrow> bool" where
  "startsWith s p = (take (length p) s = p)"

definition endsWith :: "string \<Rightarrow> string \<Rightarrow> bool" where
  "endsWith s p = startsWith (rev s) (rev p)"

definition isDecDigit :: "char \<Rightarrow> bool" where
  "isDecDigit c = (let n = (of_char c :: nat) in 48 \<le> n \<and> n \<le> 57)"

definition readNat :: "string \<Rightarrow> nat" where
  "readNat s = foldl (\<lambda>acc c. 10 * acc + (of_char c - 48)) 0 s"

text \<open>A decimal octet without leading zeros, as in the IPv4 pattern of \<^verbatim>\<open>node:net\<close>.\<close>

definition isOctet :: "string \<Rightarrow> bool" where
  "isOctet s = (s \<noteq> [] \<and> length s \<le> 3 \<and> list_all isDecDigit s \<and> readNat s \<le> 255
     \<and> (length s = 1 \<or> hd s \<noteq> CHR ''0''))"

definition isIPv4 :: "string \<Rightarrow> bool" where
  "isIPv4 s = (length (splitOn (CHR ''.'') s) = 4 \<and> list_all isOctet (splitOn (CHR ''.'') s))"

definition isHexGroup :: "string \<Rightarrow> bool" where
  "isHexGroup s = (s \<noteq> [] \<and> length s \<le> 4 \<and> list_all isHexDigit s)"

text \<open>
  Groups separated by colons; the last one may be an IPv4 address, which counts as two.
  \<open>None\<close> if some group is malformed.
\<close>

fun countGroups :: "string list \<Rightarrow> nat option" where
  "countGroups [] = Some 0"
| "countGroups [g] = (if isHexGroup g then Some 1 else if isIPv4 g then Some 2 else None)"
| "countGroups (g # gs) = (if isHexGroup g then map_option Suc (countGroups gs) else None)"

fun splitDouble :: "string \<Rightarrow> (string \<times> string) option" where
  "splitDouble (a # b # rest) =
     (if a = CHR '':'' \<and> b = CHR '':'' then Some ([], rest)
      else map_option (\<lambda>(l, r). (a # l, r)) (splitDouble (b # rest)))"
| "splitDouble _ = None"

definition groupsOf :: "string \<Rightarrow> string list" where
  "groupsOf s = (if s = [] then [] else splitOn (CHR '':'') s)"

definition isZoneChar :: "char \<Rightarrow> bool" where
  "isZoneChar c = (isDecDigit c \<or> (let n = (of_char c :: nat) in (65 \<le> n \<and> n \<le> 90) \<or> (97 \<le> n \<and> n \<le> 122))
     \<or> c \<in> {CHR ''-'', CHR ''.'', CHR '':''})"

definition isIPv6 :: "string \<Rightarrow> bool" where
  "isIPv6 s =
     (let base = takeWhile (\<lambda>c. c \<noteq> CHR ''%'') s; zone = dropWhile (\<lambda>c. c \<noteq> CHR ''%'') s in
      (zone = [] \<or> (length zone > 1 \<and> list_all isZoneChar (tl zone))) \<and>
      (case splitDouble base of
         None \<Rightarrow> countGroups (groupsOf base) = Some 8
       | Some (l, r) \<Rightarrow>
           list_all isHexGroup (groupsOf l) \<and>
           (case countGroups (groupsOf r) of
              None \<Rightarrow> False
            | Some n \<Rightarrow> length (groupsOf l) + n \<le> 7)))"

definition isIP :: "string \<Rightarrow> nat" where
  "isIP s = (if isIPv4 s then 4 else if isIPv6 s then 6 else 0)"

definition isPrivateAddress :: "string \<Rightarrow> bool" where
  "isPrivateAddress address =
     (if isIP address = 4 then
        (let octets = map readNat (splitOn (CHR ''.'') address) in
         if length octets \<noteq> 4 then True
         else
           (let a = octets ! 0; b = octets ! 1 in
            a = 0 \<or> a = 10 \<or> a = 127 \<or> (a = 169 \<and> b = 254) \<or> (a = 172 \<and> b \<ge> 16 \<and> b \<le> 31)
            \<or> (a = 192 \<and> b = 168) \<or> a \<ge> 224))
      else if isIP address = 6 then
        (let value = toLowerCase address in
         value = ''::'' \<or> value = ''::1'' \<or> startsWith value ''fe8'' \<or> startsWith value ''fe9''
         \<or> startsWith value ''fea'' \<or> startsWith value ''feb'' \<or> startsWith value ''fc''
         \<or> startsWith value ''fd'' \<or> startsWith value ''ff'')
      else True)"

section \<open>\<open>HealthEndpointPolicy\<close>\<close>

definition privateHosts :: "external \<Rightarrow> string list" where
  "privateHosts ext =
     filter (\<lambda>v. v \<noteq> [])
       (map (\<lambda>v. toLowerCase (trim v))
         (splitOn (CHR '','') (case x_healthPrivateHosts ext of None \<Rightarrow> [] | Some v \<Rightarrow> v)))"

definition isLocalName :: "string \<Rightarrow> bool" where
  "isLocalName hostname =
     (hostname = ''localhost'' \<or> endsWith hostname ''.localhost'' \<or> endsWith hostname ''.local'')"

definition assertAllowed :: "external \<Rightarrow> Url \<Rightarrow> unit cp" where
  "assertAllowed ext url =
     (if u_username url \<noteq> [] \<or> u_password url \<noteq> []
      then throwM (PlainError ''Health URL must not contain credentials'')
      else if toLowerCase (u_host url) \<in> set (privateHosts ext) then retM ()
      else if u_protocol url \<noteq> ''https:''
      then throwM (PlainError ''Public health endpoints must use HTTPS'')
      else if isLocalName (toLowerCase (u_hostname url))
      then throwM (PlainError ''Private health endpoints must be explicitly allowlisted'')
      else
        bindM (attempt (callExternal ext (\<lambda>n. x_lookup ext n (toLowerCase (u_hostname url))))) (\<lambda>r.
        case r of
          Inl e \<Rightarrow> throwM (PlainError ''Health endpoint hostname could not be resolved'')
        | Inr addresses \<Rightarrow>
            if length addresses = 0 \<or> list_ex isPrivateAddress addresses
            then throwM (PlainError ''Private health endpoints must be explicitly allowlisted'')
            else retM ()))"

section \<open>\<open>HealthVerifier\<close>\<close>

text \<open>
  The redirect loop of \<open>safeFetch\<close>; the argument counts the requests that are still
  allowed, 6 at the start.
\<close>

fun fetchLoop :: "external \<Rightarrow> nat \<Rightarrow> nat \<Rightarrow> Url \<Rightarrow> FetchResponse cp" where
  "fetchLoop ext timeoutMs 0 current = throwM (PlainError ''Health endpoint exceeded the redirect limit'')"
| "fetchLoop ext timeoutMs (Suc left) current =
     thenM (assertAllowed ext current)
    (bindM (callExternal ext (\<lambda>n. x_fetch ext n current timeoutMs)) (\<lambda>response.
     if fr_status response \<notin> {301, 302, 303, 307, 308} then retM response
     else if \<not> fr_cancelled response then throwM (PlainError ''Response body could not be cancelled'')
     else if falsy (fr_location response)
     then throwM (PlainError ''Health redirect did not include a Location header'')
     else (case x_resolveUrl ext (the (fr_location response)) current of
             None \<Rightarrow> throwM (PlainError ''Invalid URL'')
           | Some url \<Rightarrow> fetchLoop ext timeoutMs left url)))"

definition safeFetch :: "external \<Rightarrow> Url \<Rightarrow> nat \<Rightarrow> FetchResponse cp" where
  "safeFetch ext initial timeoutMs = fetchLoop ext timeoutMs 6 initial"

text \<open>\<open>ok\<close>: the fetch returned, with the expected status, and its body could be cancelled.\<close>

definition healthOk :: "HealthCheckConfig \<Rightarrow> failure + FetchResponse \<Rightarrow> bool" where
  "healthOk config r =
     (case r of
        Inl e \<Rightarrow> False
      | Inr response \<Rightarrow> fr_status response = h_expectedStatus config \<and> fr_cancelled response)"

definition healthStep ::
    "external \<Rightarrow> HealthCheckConfig \<Rightarrow> Url \<Rightarrow> unit cp \<Rightarrow> nat option \<times> nat \<Rightarrow>
     (nat option \<times> nat, unit) loop_step cp" where
  "healthStep ext config url assertConverged s =
     thenM assertConverged
    (bindM (attempt (safeFetch ext url (h_timeoutMs config))) (\<lambda>r.
     if healthOk config r then
       thenM assertConverged
      (bindM (getsM w_clock) (\<lambda>now.
       let stableSince = (case fst s of None \<Rightarrow> now | Some t \<Rightarrow> t) in
       if now - stableSince \<ge> h_stabilityWindowMs config
       then thenM assertConverged (retM (Break ()))
       else retM (Continue (Some stableSince, snd s))))
     else
       (let failures = snd s + 1 in
        if failures > h_retries config
        then throwM (PlainError (''Health verification failed after '' @ show_nat failures
               @ '' unsuccessful checks''))
        else retM (Continue (None, failures)))))"

definition health_budget :: "HealthCheckConfig \<Rightarrow> nat" where
  "health_budget config =
     h_stabilityWindowMs config + (h_retries config + 1) * (h_timeoutMs config + h_intervalMs config)"

definition health_verify :: "external \<Rightarrow> HealthCheckConfig \<Rightarrow> unit cp \<Rightarrow> unit cp" where
  "health_verify ext config assertConverged =
     (case x_parseUrl ext (h_url config) of
        None \<Rightarrow> throwM (PlainError ''Invalid URL'')
      | Some url \<Rightarrow>
          thenM (assertAllowed ext url)
         (bindM (poll ext (health_budget config) (h_intervalMs config)
                   (healthStep ext config url assertConverged) (None, 0)) (\<lambda>r.
          case r of
            Inr _ \<Rightarrow> retM ()
          | Inl _ \<Rightarrow> throwM (PlainError ''Health endpoint did not remain stable for the required window''))))"

section \<open>What is allowed\<close>

definition allowed :: "external \<Rightarrow> nat \<Rightarrow> Url \<Rightarrow> bool" where
  "allowed ext n url \<longleftrightarrow>
     u_username url = [] \<and> u_password url = [] \<and>
     (toLowerCase (u_host url) \<in> set (privateHosts ext) \<or>
      (u_protocol url = ''https:'' \<and> \<not> isLocalName (toLowerCase (u_hostname url)) \<and>
       (\<exists>addresses. x_lookup ext n (toLowerCase (u_hostname url)) = Inr addresses \<and> addresses \<noteq> [] \<and>
          (\<forall>a \<in> set addresses. \<not> isPrivateAddress a))))"

lemma assertAllowed_iff:
  "(\<exists>w'. assertAllowed ext url w = (Inr (), w')) \<longleftrightarrow> allowed ext (w_calls w) url"
  by (auto simp: assertAllowed_def allowed_def callExternal_def attempt_def bindM_def throwM_def retM_def
      list_ex_iff split: sum.splits)

text \<open>What the fetch of a refused URL would answer makes no difference: it is not requested.\<close>

definition same_requests :: "external \<Rightarrow> external \<Rightarrow> bool" where
  "same_requests ext ext' \<longleftrightarrow>
     (\<exists>f. ext' = ext\<lparr>x_fetch := f\<rparr> \<and>
        (\<forall>n m url t. allowed ext m url \<longrightarrow> f n url t = x_fetch ext n url t))"

lemma same_requests_simps:
  assumes "same_requests ext ext'"
  shows "assertAllowed ext' = assertAllowed ext" "x_resolveUrl ext' = x_resolveUrl ext"
    "tick ext' = tick ext" "x_latency ext' = x_latency ext"
proof -
  obtain f where f: "ext' = ext\<lparr>x_fetch := f\<rparr>" using assms unfolding same_requests_def by blast
  show "x_resolveUrl ext' = x_resolveUrl ext" "x_latency ext' = x_latency ext" by (simp_all add: f)
  show tick: "tick ext' = tick ext" by (intro HOL.ext) (simp add: f tick_def)
  show "assertAllowed ext' = assertAllowed ext"
    by (intro HOL.ext) (simp add: assertAllowed_def privateHosts_def callExternal_def f tick_def
        attempt_def bindM_def)
qed

lemma fetchLoop_guarded:
  assumes "same_requests ext ext'"
  shows "fetchLoop ext' t left url w = fetchLoop ext t left url w"
proof (induction left arbitrary: url w)
  case (Suc left)
  note same = same_requests_simps [OF assms]
  have fetch: "callExternal ext' (\<lambda>n. x_fetch ext' n url t) w1 = callExternal ext (\<lambda>n. x_fetch ext n url t) w1"
    if "assertAllowed ext url w = (Inr u, w1)" for u w1
  proof -
    have "allowed ext (w_calls w) url" using that assertAllowed_iff by (metis (full_types) unit.exhaust)
    then show ?thesis
      using assms same unfolding callExternal_def same_requests_def by auto
  qed
  show ?case
    unfolding fetchLoop.simps same thenM_def bindM_def [of "assertAllowed ext url"]
    using Suc.IH fetch by (auto simp: bindM_def same split: sum.split prod.split option.split)
qed simp

section \<open>What verification establishes\<close>

text \<open>
  \<open>stable_run ext config url guard t0 w\<close>: an unbroken run of expected answers, each one between
  two successful convergence checks and an interval apart, started at time \<open>t0\<close> and
  reached \<open>w\<close>.
\<close>

definition checked ::
    "external \<Rightarrow> HealthCheckConfig \<Rightarrow> Url \<Rightarrow> unit cp \<Rightarrow> world \<Rightarrow> world \<Rightarrow> bool" where
  "checked ext config url guard w w' \<longleftrightarrow>
     (\<exists>w1 w2 response. guard w = (Inr (), w1) \<and>
        safeFetch ext url (h_timeoutMs config) w1 = (Inr response, w2) \<and>
        fr_status response = h_expectedStatus config \<and> guard w2 = (Inr (), w'))"

inductive stable_run ::
    "external \<Rightarrow> HealthCheckConfig \<Rightarrow> Url \<Rightarrow> unit cp \<Rightarrow> nat \<Rightarrow> world \<Rightarrow> bool"
  for ext config url guard where
  first: "checked ext config url guard w0 w \<Longrightarrow> stable_run ext config url guard (w_clock w) w"
| again: "\<lbrakk>stable_run ext config url guard t0 w;
     checked ext config url guard (sleepW ext (h_intervalMs config) w) w'\<rbrakk> \<Longrightarrow> stable_run ext config url guard t0 w'"

lemma healthStep_OK:
  assumes "healthStep ext config url guard s w = (Inr r, w')"
  shows "(\<exists>w1 t0. checked ext config url guard w w1 \<and>
            t0 = (case fst s of None \<Rightarrow> w_clock w1 | Some t \<Rightarrow> t) \<and>
            (if w_clock w1 - t0 \<ge> h_stabilityWindowMs config
             then r = Break () \<and> guard w1 = (Inr (), w')
             else r = Continue (Some t0, snd s) \<and> w' = w1)) \<or>
         r = Continue (None, snd s + 1)"
proof -
  obtain u w1 f w2 where g1: "guard w = (Inr u, w1)"
    and fetch: "safeFetch ext url (h_timeoutMs config) w1 = (f, w2)"
    and rest: "(if healthOk config f then
       thenM guard (bindM (getsM w_clock) (\<lambda>now.
       let stableSince = (case fst s of None \<Rightarrow> now | Some t \<Rightarrow> t) in
       if now - stableSince \<ge> h_stabilityWindowMs config
       then thenM guard (retM (Break ())) else retM (Continue (Some stableSince, snd s))))
     else (let failures = snd s + 1 in
        if failures > h_retries config
        then throwM (PlainError (''Health verification failed after '' @ show_nat failures
               @ '' unsuccessful checks''))
        else retM (Continue (None, failures)))) w2 = (Inr r, w')"
    using assms unfolding healthStep_def thenM_OK bindM_OK attempt_OK by blast
  show ?thesis
  proof (cases "healthOk config f")
    case True
    then obtain response where f: "f = Inr response" "fr_status response = h_expectedStatus config"
      by (auto simp: healthOk_def split: sum.splits)
    obtain v w3 where g2: "guard w2 = (Inr v, w3)"
      and rest: "(let stableSince = (case fst s of None \<Rightarrow> w_clock w3 | Some t \<Rightarrow> t) in
         if w_clock w3 - stableSince \<ge> h_stabilityWindowMs config
         then thenM guard (retM (Break ())) else retM (Continue (Some stableSince, snd s))) w3 = (Inr r, w')"
      using rest True by (auto simp: thenM_OK bindM_OK getsM_def)
    have "checked ext config url guard w w3"
      unfolding checked_def using g1 fetch f g2 by (metis (full_types) unit.exhaust)
    moreover have "if w_clock w3 - t0 \<ge> h_stabilityWindowMs config
        then r = Break () \<and> guard w3 = (Inr (), w') else r = Continue (Some t0, snd s) \<and> w' = w3"
      if "t0 = (case fst s of None \<Rightarrow> w_clock w3 | Some t \<Rightarrow> t)" for t0
      using rest that by (auto simp: Let_def thenM_OK retM_OK split: if_splits)
    ultimately show ?thesis by blast
  next
    case False
    then show ?thesis using rest by (auto simp: Let_def retM_OK throwM_OK split: if_splits)
  qed
qed

text \<open>The loop: a pending run extends, a failed check starts over.\<close>

lemma healthLoop_stable:
  assumes "pollLoop ext fuel deadline (h_intervalMs config) (healthStep ext config url guard) s w = (Inr (Inr r), w')"
    and "\<And>t0. fst s = Some t0 \<Longrightarrow>
      \<exists>w0. stable_run ext config url guard t0 w0 \<and> w = sleepW ext (h_intervalMs config) w0"
  shows "\<exists>t0 w1. stable_run ext config url guard t0 w1 \<and>
    w_clock w1 - t0 \<ge> h_stabilityWindowMs config \<and> guard w1 = (Inr (), w')"
  using assms
proof (induction fuel arbitrary: s w)
  case (Suc fuel)
  have extend: "stable_run ext config url guard (case fst s of None \<Rightarrow> w_clock w1 | Some t \<Rightarrow> t) w1"
    if "checked ext config url guard w w1" for w1
  proof (cases "fst s")
    case None
    then show ?thesis using that by (auto intro: stable_run.first)
  next
    case (Some t0)
    then show ?thesis using that Suc.prems(2) by (auto intro: stable_run.again)
  qed
  obtain b w1 where b: "healthStep ext config url guard s w = (Inr b, w1)"
    and rest: "b = Break r \<and> w1 = w' \<or> (\<exists>s'. b = Continue s' \<and>
      pollLoop ext fuel deadline (h_intervalMs config) (healthStep ext config url guard) s'
        (sleepW ext (h_intervalMs config) w1) = (Inr (Inr r), w'))"
    using Suc.prems(1) by (auto split: if_splits prod.splits sum.splits loop_step.splits)
  from healthStep_OK [OF b] show ?case
  proof (elim disjE exE conjE)
    fix w2 t0
    assume c: "checked ext config url guard w w2" and t0: "t0 = (case fst s of None \<Rightarrow> w_clock w2 | Some t \<Rightarrow> t)"
      and out: "if w_clock w2 - t0 \<ge> h_stabilityWindowMs config
        then b = Break () \<and> guard w2 = (Inr (), w1) else b = Continue (Some t0, snd s) \<and> w1 = w2"
    have st: "stable_run ext config url guard t0 w2" using extend [OF c] t0 by simp
    show ?thesis
    proof (cases "w_clock w2 - t0 \<ge> h_stabilityWindowMs config")
      case True
      then show ?thesis using out rest st by auto
    next
      case False
      then have "pollLoop ext fuel deadline (h_intervalMs config) (healthStep ext config url guard) (Some t0, snd s)
          (sleepW ext (h_intervalMs config) w2) = (Inr (Inr r), w')"
        using out rest by auto
      from Suc.IH [OF this] st show ?thesis by auto
    qed
  next
    assume "b = Continue (None, snd s + 1)"
    then have "pollLoop ext fuel deadline (h_intervalMs config) (healthStep ext config url guard) (None, snd s + 1)
        (sleepW ext (h_intervalMs config) w1) = (Inr (Inr r), w')"
      using rest by auto
    from Suc.IH [OF this] show ?thesis by simp
  qed
qed simp

text \<open>Verification relates worlds by whatever relation its convergence check keeps.\<close>

context step_relation
begin

lemma steps_assertAllowed [step_intros]: "steps R (assertAllowed ext url)"
  unfolding assertAllowed_def by (intro step_intros)

lemma steps_fetchLoop: "steps R (fetchLoop ext t left url)"
proof (induction left arbitrary: url)
  case 0
  show ?case unfolding fetchLoop.simps by (intro step_intros)
next
  case (Suc left)
  show ?case unfolding fetchLoop.simps by (intro step_intros Suc.IH)
qed

lemma steps_health_verify [step_intros]:
  assumes "steps R guard"
  shows "steps R (health_verify ext config guard)"
  unfolding health_verify_def healthStep_def safeFetch_def Let_def
  by (intro step_intros steps_fetchLoop assms)

end

end
