(* ===== verification/Registry.thy ===== *)
theory Registry
  imports Health
begin

text \<open>
  The image registry: \<^verbatim>\<open>registry/registry.client.ts\<close>,
  \<^verbatim>\<open>registry/registry-endpoint.policy.ts\<close> and
  \<^verbatim>\<open>registry/env-registry-credential.provider.ts\<close>. \<open>fetch\<close>, DNS, and parsing and
  rendering of URLs are answers of \<open>external\<close>; a request carries its \<open>Authorization\<close> header.

  The lemmas show that a request is made only to an endpoint that the policy accepts, which credentials
  it may carry to which origin (\<open>may_carry\<close>), and that a resolved artifact has a normalized digest which the
  registry reported and which agrees with a requested one.
\<close>

section \<open>Endpoint policy\<close>

definition registryPrivateHosts :: "external \<Rightarrow> string list" where
  "registryPrivateHosts ext =
     filter (\<lambda>v. v \<noteq> [])
       (map (\<lambda>v. toLowerCase (trim v))
         (splitOn (CHR '','') (case x_registryPrivateHosts ext of None \<Rightarrow> [] | Some v \<Rightarrow> v)))"

definition registry_isPrivateAddress :: "string \<Rightarrow> bool" where
  "registry_isPrivateAddress address =
     (let family = isIP address in
      if family = 4 then
        (let octets = map readNat (splitOn (CHR ''.'') address) in
         if length octets \<noteq> 4 then True
         else
           (let a = octets ! 0; b = octets ! 1 in
            a = 0 \<or> a = 10 \<or> a = 127 \<or> (a = 169 \<and> b = 254) \<or> (a = 172 \<and> b \<ge> 16 \<and> b \<le> 31)
            \<or> (a = 192 \<and> b = 168) \<or> a \<ge> 224))
      else if family = 6 then
        (let value = toLowerCase address in
         value = ''::'' \<or> value = ''::1'' \<or> startsWith value ''fe8'' \<or> startsWith value ''fe9''
         \<or> startsWith value ''fea'' \<or> startsWith value ''feb'' \<or> startsWith value ''fc''
         \<or> startsWith value ''fd'' \<or> startsWith value ''ff'')
      else True)"

text \<open>The two endpoint policies classify addresses alike.\<close>

lemma registry_isPrivateAddress_eq: "registry_isPrivateAddress = isPrivateAddress"
  by (intro HOL.ext) (simp add: registry_isPrivateAddress_def isPrivateAddress_def Let_def)

definition registry_assertAllowed :: "external \<Rightarrow> Url \<Rightarrow> unit cp" where
  "registry_assertAllowed ext url =
     (if u_protocol url \<noteq> ''https:'' \<and> u_protocol url \<noteq> ''http:''
      then throwM (RegistryRequestError INVALID_REPOSITORY ''Registry endpoint must use HTTP or HTTPS'')
      else if toLowerCase (u_host url) \<in> set (registryPrivateHosts ext) then retM ()
      else if u_protocol url \<noteq> ''https:''
      then throwM (RegistryRequestError INVALID_REPOSITORY ''Public registry endpoints must use HTTPS'')
      else
        (let hostname = toLowerCase (u_hostname url) in
         if hostname = ''localhost'' \<or> endsWith hostname ''.localhost'' \<or> endsWith hostname ''.local''
         then throwM (RegistryRequestError INVALID_REPOSITORY ''Private registry hosts must be explicitly allowlisted'')
         else
           bindM (attempt (callExternal ext (\<lambda>n. x_lookup ext n hostname))) (\<lambda>r.
           case r of
             Inl e \<Rightarrow> throwM (RegistryRequestError REGISTRY_UNAVAILABLE ''Registry hostname could not be resolved'')
           | Inr addresses \<Rightarrow>
               if length addresses = 0 \<or> list_ex registry_isPrivateAddress addresses
               then throwM (RegistryRequestError INVALID_REPOSITORY ''Private registry hosts must be explicitly allowlisted'')
               else retM ())))"

section \<open>Credentials\<close>

definition credentialsFor :: "external \<Rightarrow> string \<Rightarrow> RegistryCredentials option" where
  "credentialsFor ext registryHost = map_of (rev (x_registryCredentials ext)) (toLowerCase registryHost)"

text \<open>
  \<open>parseCredentials\<close> of the environment variable; \<open>jsonParse\<close> is \<open>JSON.parse\<close>. The
  result lists the calls of \<open>Map.set\<close> in order, so a later entry wins.
\<close>

fun credentialEntries :: "(string \<times> json) list \<Rightarrow> string + (string \<times> RegistryCredentials) list" where
  "credentialEntries [] = Inr []"
| "credentialEntries ((host, value) # rest) =
     (case (json_field value ''username'', json_field value ''password'') of
        (Some (JStr username), Some (JStr password)) \<Rightarrow>
          (case credentialEntries rest of
             Inl e \<Rightarrow> Inl e
           | Inr cs \<Rightarrow> Inr ((toLowerCase host, \<lparr>rc_username = username, rc_password = password\<rparr>) # cs))
      | _ \<Rightarrow> Inl (''Invalid registry credentials for host '' @ host))"

definition parseCredentials ::
    "(string \<Rightarrow> json option) \<Rightarrow> string option \<Rightarrow> string + (string \<times> RegistryCredentials) list" where
  "parseCredentials jsonParse raw =
     (if falsy raw then Inr []
      else (case jsonParse (the raw) of
              None \<Rightarrow> Inl ''DOCKLANE_REGISTRY_AUTH_JSON must be valid JSON''
            | Some (JObj entries) \<Rightarrow> credentialEntries entries
            | Some _ \<Rightarrow> Inl ''DOCKLANE_REGISTRY_AUTH_JSON must be an object keyed by registry host''))"

section \<open>Encodings\<close>

definition isAlnumChar :: "char \<Rightarrow> bool" where
  "isAlnumChar c = (let n = (of_char c :: nat) in
     (48 \<le> n \<and> n \<le> 57) \<or> (65 \<le> n \<and> n \<le> 90) \<or> (97 \<le> n \<and> n \<le> 122))"

definition hexChar :: "nat \<Rightarrow> char" where
  "hexChar n = (if n < 10 then char_of (48 + n) else char_of (55 + n))"

definition encodeURIChar :: "char \<Rightarrow> string" where
  "encodeURIChar c =
     (if isAlnumChar c \<or> c \<in> set ''-_.!~*'' \<or> c \<in> set [CHR 0x27, CHR ''('', CHR '')''] then [c]
      else (let n = (of_char c :: nat) in [CHR ''%'', hexChar (n div 16), hexChar (n mod 16)]))"

definition encodeURIComponent :: "string \<Rightarrow> string" where
  "encodeURIComponent s = concat (map encodeURIChar s)"

fun joinWith :: "string \<Rightarrow> string list \<Rightarrow> string" where
  "joinWith sep [] = []"
| "joinWith sep [x] = x"
| "joinWith sep (x # xs) = x @ sep @ joinWith sep xs"

definition encodeRepositoryPath :: "string \<Rightarrow> string" where
  "encodeRepositoryPath path = joinWith ''/'' (map encodeURIComponent (splitOn (CHR ''/'') path))"

definition base64Char :: "nat \<Rightarrow> char" where
  "base64Char n =
     (if n < 26 then char_of (65 + n) else if n < 52 then char_of (71 + n)
      else if n < 62 then char_of (n - 4) else if n = 62 then CHR ''+'' else CHR ''/'')"

fun base64 :: "nat list \<Rightarrow> string" where
  "base64 [] = []"
| "base64 [a] = [base64Char (a div 4), base64Char (a mod 4 * 16), CHR ''='', CHR ''='']"
| "base64 [a, b] =
     [base64Char (a div 4), base64Char (a mod 4 * 16 + b div 16), base64Char (b mod 16 * 4), CHR ''='']"
| "base64 (a # b # c # rest) =
     base64Char (a div 4) # base64Char (a mod 4 * 16 + b div 16) #
     base64Char (b mod 16 * 4 + c div 64) # base64Char (c mod 64) # base64 rest"

definition basicAuthorization :: "RegistryCredentials \<Rightarrow> string" where
  "basicAuthorization credentials =
     ''Basic '' @ base64 (map of_char (rc_username credentials @ '':'' @ rc_password credentials))"

section \<open>Parsers\<close>

record ParsedRepository =
  pr_host :: string
  pr_path :: string
  pr_baseUrl :: string

definition stripSlashes :: "string \<Rightarrow> string" where
  "stripSlashes s = rev (dropWhile (\<lambda>c. c = CHR ''/'') (rev (dropWhile (\<lambda>c. c = CHR ''/'') s)))"

definition parseRepository :: "external \<Rightarrow> string \<Rightarrow> failure + ParsedRepository" where
  "parseRepository ext value =
     (let trimmed = trim value in
      if trimmed = [] \<or> CHR ''@'' \<in> set trimmed
      then Inl (RegistryRequestError INVALID_REPOSITORY ''imageRepository must not include a digest'')
      else
        (case x_parseUrl ext (if includesStr trimmed ''://'' then trimmed else ''https://'' @ trimmed) of
           None \<Rightarrow> Inl (RegistryRequestError INVALID_REPOSITORY ''imageRepository is invalid'')
         | Some url \<Rightarrow>
             let path = stripSlashes (u_pathname url) in
             if u_hostname url = [] \<or> path = [] \<or> u_search url \<noteq> [] \<or> u_hash url \<noteq> []
             then Inl (RegistryRequestError INVALID_REPOSITORY ''imageRepository must be registry-host/repository-path'')
             else if u_protocol url \<noteq> ''https:'' \<and> u_protocol url \<noteq> ''http:''
             then Inl (RegistryRequestError INVALID_REPOSITORY ''Registry protocol must be HTTP or HTTPS'')
             else Inr \<lparr>pr_host = toLowerCase (u_host url), pr_path = path,
                       pr_baseUrl = u_protocol url @ ''//'' @ u_host url\<rparr>))"

record BearerChallenge =
  bc_realm :: string
  bc_service :: "string option"
  bc_scope :: "string option"

text \<open>
  A quoted value up to its closing quote, with escapes left in place, and the rest. The pattern
  \<^verbatim>\<open>(?:[^"\\]|\\.)*\<close> has no choice at any position.
\<close>

fun quotedValue :: "string \<Rightarrow> (string \<times> string) option" where
  "quotedValue [] = None"
| "quotedValue (c # rest) =
     (if c = CHR 0x22 then Some ([], rest)
      else if c = CHR 0x5C then
        (case rest of
           [] \<Rightarrow> None
         | d # rest' \<Rightarrow> if d = CHR 0x0A \<or> d = CHR 0x0D then None
                       else map_option (\<lambda>(v, r). (c # d # v, r)) (quotedValue rest'))
      else map_option (\<lambda>(v, r). (c # v, r)) (quotedValue rest))"

fun unescape :: "string \<Rightarrow> string" where
  "unescape [] = []"
| "unescape [c] = [c]"
| "unescape (c # d # rest) =
     (if c = CHR 0x5C \<and> d \<noteq> CHR 0x0A \<and> d \<noteq> CHR 0x0D then d # unescape rest else c # unescape (d # rest))"

definition isLetterChar :: "char \<Rightarrow> bool" where
  "isLetterChar c = (let n = (of_char c :: nat) in (65 \<le> n \<and> n \<le> 90) \<or> (97 \<le> n \<and> n \<le> 122))"

definition isNameChar :: "char \<Rightarrow> bool" where
  "isNameChar c = (isAlnumChar c \<or> c = CHR ''_'' \<or> c = CHR ''-'')"

text \<open>A match of the parameter pattern at the head of the string: name, raw value and the rest.\<close>

definition paramAt :: "string \<Rightarrow> (string \<times> string \<times> string) option" where
  "paramAt s =
     (case s of
        [] \<Rightarrow> None
      | c # _ \<Rightarrow>
          if \<not> isLetterChar c then None
          else
            (case dropWhile isNameChar s of
               e # q # rest \<Rightarrow>
                 if e = CHR ''='' \<and> q = CHR 0x22
                 then map_option (\<lambda>(v, r). (takeWhile isNameChar s, v, r)) (quotedValue rest)
                 else None
             | _ \<Rightarrow> None))"

lemma quotedValue_shorter: "quotedValue s = Some (v, r) \<Longrightarrow> length r < length s"
proof (induction s arbitrary: v r rule: quotedValue.induct)
  case (2 c rest)
  then show ?case by (auto split: if_splits list.splits dest!: less_SucI)
qed simp

lemma paramAt_shorter: "paramAt s = Some (k, v, r) \<Longrightarrow> length r < length s"
proof -
  assume "paramAt s = Some (k, v, r)"
  then obtain e q rest where "dropWhile isNameChar s = e # q # rest" "quotedValue rest = Some (v, r)"
    by (auto simp: paramAt_def split: list.splits if_splits)
  moreover have "length (dropWhile isNameChar s) \<le> length s" by (rule length_dropWhile_le)
  ultimately show ?thesis using quotedValue_shorter by fastforce
qed

text \<open>\<open>matchAll\<close>: the matches from left to right.\<close>

function bearerParams :: "string \<Rightarrow> (string \<times> string) list" where
  "bearerParams [] = []"
| "bearerParams (c # s) =
     (case paramAt (c # s) of
        Some (k, v, rest) \<Rightarrow> (toLowerCase k, unescape v) # bearerParams rest
      | None \<Rightarrow> bearerParams s)"
  by pat_completeness auto
termination
  by (relation "measure length") (auto dest: paramAt_shorter)

definition parseBearerChallenge :: "string option \<Rightarrow> BearerChallenge option" where
  "parseBearerChallenge header =
     (case header of
        None \<Rightarrow> None
      | Some h \<Rightarrow>
          let rest = drop 6 h; params = map_of (rev (bearerParams (dropWhile isSpaceChar rest))) in
          if toLowerCase (take 6 h) \<noteq> ''bearer'' \<or> rest = [] \<or> \<not> isSpaceChar (hd rest) then None
          else (case params ''realm'' of
                  None \<Rightarrow> None
                | Some realm \<Rightarrow>
                    if realm = [] then None
                    else Some \<lparr>bc_realm = realm, bc_service = params ''service'', bc_scope = params ''scope''\<rparr>))"

definition readToken :: "json \<Rightarrow> string option" where
  "readToken value =
     (case json_field value ''token'' of
        Some (JStr t) \<Rightarrow> Some t
      | _ \<Rightarrow> (case json_field value ''access_token'' of Some (JStr t) \<Rightarrow> Some t | _ \<Rightarrow> None))"

text \<open>\<open>x_toNumber\<close> is \<open>Number(raw)\<close> when this is a safe integer.\<close>

definition parseContentLength :: "external \<Rightarrow> string option \<Rightarrow> nat option" where
  "parseContentLength ext raw =
     (if falsy raw then None
      else (case x_toNumber ext (the raw) of
              Some value \<Rightarrow> if value \<ge> 0 then Some (nat value) else None
            | None \<Rightarrow> None))"

definition responseOk :: "RegistryResponse \<Rightarrow> bool" where
  "responseOk response = (200 \<le> gp_status response \<and> gp_status response \<le> 299)"

definition mapManifestFailure :: "RegistryResponse \<Rightarrow> unit cp" where
  "mapManifestFailure response =
     (if responseOk response then retM ()
      else if gp_status response = 401
      then throwM (RegistryRequestError AUTHENTICATION_REQUIRED ''Registry authentication is required'')
      else if gp_status response = 403
      then throwM (RegistryRequestError ACCESS_DENIED ''Registry access was denied'')
      else if gp_status response = 404
      then throwM (RegistryRequestError MANIFEST_NOT_FOUND ''Registry manifest was not found'')
      else if gp_status response = 429
      then throwM (RegistryRequestError RATE_LIMITED ''Registry rate limit exceeded'')
      else throwM (RegistryRequestError REGISTRY_UNAVAILABLE
             (''Registry returned HTTP '' @ show_nat (gp_status response))))"

section \<open>Client\<close>

definition ACCEPT_MANIFESTS :: string where
  "ACCEPT_MANIFESTS = joinWith '', ''
     [''application/vnd.oci.image.index.v1+json'', ''application/vnd.oci.image.manifest.v1+json'',
      ''application/vnd.docker.distribution.manifest.list.v2+json'',
      ''application/vnd.docker.distribution.manifest.v2+json'']"

text \<open>For the two protocols that the policy admits, the origin is scheme and host.\<close>

definition u_origin :: "Url \<Rightarrow> string \<times> string" where
  "u_origin url = (u_protocol url, u_host url)"

text \<open>The next request of a redirect: the \<open>Authorization\<close> header stays with its origin.\<close>

definition redirected :: "RegistryRequest \<Rightarrow> Url \<Rightarrow> RegistryRequest" where
  "redirected rq url =
     rq\<lparr>gq_url := url, gq_authorization :=
       (if u_origin url \<noteq> u_origin (gq_url rq) then None else gq_authorization rq)\<rparr>"

text \<open>
  The redirect loop of \<open>safeFetch\<close>; the argument counts the requests that are still
  allowed, 6 at the start.
\<close>

fun registryFetchLoop :: "external \<Rightarrow> nat \<Rightarrow> RegistryRequest \<Rightarrow> (RegistryResponse \<times> Url) cp" where
  "registryFetchLoop ext 0 rq =
     throwM (RegistryRequestError REGISTRY_UNAVAILABLE ''Registry exceeded the redirect limit'')"
| "registryFetchLoop ext (Suc left) rq =
     thenM (registry_assertAllowed ext (gq_url rq))
    (bindM (attempt (callExternal ext (\<lambda>n. x_registryFetch ext n rq))) (\<lambda>r.
     case r of
       Inl e \<Rightarrow> throwM (RegistryRequestError REGISTRY_UNAVAILABLE (errorMessage e))
     | Inr response \<Rightarrow>
         if gp_status response \<notin> {301, 302, 303, 307, 308} then retM (response, gq_url rq)
         else if falsy (gp_location response)
         then throwM (RegistryRequestError REGISTRY_UNAVAILABLE ''Registry redirect did not include a Location header'')
         else
           (case x_resolveUrl ext (the (gp_location response)) (gq_url rq) of
              None \<Rightarrow> throwM (PlainError ''Invalid URL'')
            | Some url \<Rightarrow>
                thenM (registry_assertAllowed ext url)
                  (registryFetchLoop ext left (redirected rq url)))))"

definition registry_safeFetch ::
    "external \<Rightarrow> string \<Rightarrow> string \<Rightarrow> string option \<Rightarrow> string option \<Rightarrow> (RegistryResponse \<times> Url) cp" where
  "registry_safeFetch ext input verb accept authorization =
     (case x_parseUrl ext input of
        None \<Rightarrow> throwM (PlainError ''Invalid URL'')
      | Some url \<Rightarrow>
          registryFetchLoop ext 6
            \<lparr>gq_verb = verb, gq_url = url, gq_accept = accept, gq_authorization = authorization\<rparr>)"

definition requestManifest ::
    "external \<Rightarrow> string \<Rightarrow> string \<Rightarrow> string option \<Rightarrow> (RegistryResponse \<times> Url) cp" where
  "requestManifest ext url registryHost bearerToken =
     registry_safeFetch ext url ''HEAD'' (Some ACCEPT_MANIFESTS)
       (if \<not> falsy bearerToken then Some (''Bearer '' @ the bearerToken)
        else map_option basicAuthorization (credentialsFor ext registryHost))"

definition fetchBearerToken :: "external \<Rightarrow> BearerChallenge \<Rightarrow> string \<Rightarrow> string \<Rightarrow> string cp" where
  "fetchBearerToken ext challenge registryHost repositoryPath =
     (case x_parseUrl ext (bc_realm challenge) of
        None \<Rightarrow> throwM (RegistryRequestError AUTHENTICATION_REQUIRED ''Registry returned an invalid authentication realm'')
      | Some realm \<Rightarrow>
          thenM (registry_assertAllowed ext realm)
          (let withService =
                 (if \<not> falsy (bc_service challenge)
                  then x_setSearchParam ext ''service'' (the (bc_service challenge)) realm else realm);
               url = x_setSearchParam ext ''scope''
                 (case bc_scope challenge of
                    Some scope \<Rightarrow> scope | None \<Rightarrow> ''repository:'' @ repositoryPath @ '':pull'') withService in
           bindM (registry_safeFetch ext (x_href ext url) ''GET'' None
                    (map_option basicAuthorization (credentialsFor ext registryHost))) (\<lambda>(response, _).
           if gp_status response = 401
           then throwM (RegistryRequestError AUTHENTICATION_REQUIRED ''Registry credentials were rejected by the token service'')
           else if gp_status response = 403
           then throwM (RegistryRequestError ACCESS_DENIED ''Registry token service denied repository access'')
           else if \<not> responseOk response
           then throwM (RegistryRequestError REGISTRY_UNAVAILABLE
                  (''Registry token service returned HTTP '' @ show_nat (gp_status response)))
           else
             (case gp_json response of
                None \<Rightarrow> throwM (RegistryRequestError AUTHENTICATION_REQUIRED ''Registry token service returned invalid JSON'')
              | Some body \<Rightarrow>
                  if falsy (readToken body)
                  then throwM (RegistryRequestError AUTHENTICATION_REQUIRED ''Registry token response did not contain a token'')
                  else retM (the (readToken body))))))"

record ResolvedRegistryArtifact =
  ra_repository :: string
  ra_reference :: string
  ra_digest :: string
  ra_mediaType :: "string option"
  ra_contentLength :: "nat option"

text \<open>The answer to the first request, or after a challenge the answer to the authenticated one.\<close>

definition authenticatedManifest :: "external \<Rightarrow> ParsedRepository \<Rightarrow> string \<Rightarrow> RegistryResponse cp" where
  "authenticatedManifest ext repository manifestUrl =
     bindM (requestManifest ext manifestUrl (pr_host repository) None) (\<lambda>(response, url).
     if gp_status response \<noteq> 401 then retM response
     else
       (case parseBearerChallenge (gp_wwwAuthenticate response) of
          None \<Rightarrow> throwM (RegistryRequestError AUTHENTICATION_REQUIRED ''Registry requires unsupported authentication'')
        | Some challenge \<Rightarrow>
            bindM (fetchBearerToken ext challenge (u_host url) (pr_path repository)) (\<lambda>token.
            bindM (requestManifest ext (x_href ext url) (u_host url) (Some token)) (\<lambda>(authenticated, _).
            retM authenticated))))"

definition registry_resolve :: "external \<Rightarrow> string \<Rightarrow> string \<Rightarrow> ResolvedRegistryArtifact cp" where
  "registry_resolve ext imageRepository reference =
     (case parseRepository ext imageRepository of
        Inl e \<Rightarrow> throwM e
      | Inr repository \<Rightarrow>
          (case x_parseUrl ext (pr_baseUrl repository) of
             None \<Rightarrow> throwM (PlainError ''Invalid URL'')
           | Some base \<Rightarrow>
               thenM (registry_assertAllowed ext base)
              (bindM (authenticatedManifest ext repository
                  (pr_baseUrl repository @ ''/v2/'' @ encodeRepositoryPath (pr_path repository) @ ''/manifests/'' @
                   encodeURIComponent reference)) (\<lambda>response.
               thenM (mapManifestFailure response)
              (let digest = gp_dockerContentDigest response in
               if falsy digest \<or> \<not> isDigest (the digest)
               then throwM (RegistryRequestError INVALID_DIGEST ''Registry did not return a valid sha256 Docker-Content-Digest'')
               else if isDigest reference \<and> toLowerCase (the digest) \<noteq> toLowerCase reference
               then throwM (RegistryRequestError INVALID_DIGEST ''Registry manifest digest does not match requested digest'')
               else retM \<lparr>ra_repository = imageRepository, ra_reference = reference,
                 ra_digest = toLowerCase (the digest), ra_mediaType = gp_contentType response,
                 ra_contentLength = parseContentLength ext (gp_contentLength response)\<rparr>)))))"

section \<open>Which requests are made\<close>

definition registry_allowed :: "external \<Rightarrow> nat \<Rightarrow> Url \<Rightarrow> bool" where
  "registry_allowed ext n url \<longleftrightarrow>
     u_protocol url \<in> {''https:'', ''http:''} \<and>
     (toLowerCase (u_host url) \<in> set (registryPrivateHosts ext) \<or>
      (u_protocol url = ''https:'' \<and> \<not> isLocalName (toLowerCase (u_hostname url)) \<and>
       (\<exists>addresses. x_lookup ext n (toLowerCase (u_hostname url)) = Inr addresses \<and> addresses \<noteq> [] \<and>
          (\<forall>a \<in> set addresses. \<not> isPrivateAddress a))))"

lemma registry_assertAllowed_iff:
  "(\<exists>w'. registry_assertAllowed ext url w = (Inr (), w')) \<longleftrightarrow> registry_allowed ext (w_calls w) url"
  by (auto simp: registry_assertAllowed_def registry_allowed_def callExternal_def attempt_def bindM_def
      throwM_def retM_def list_ex_iff isLocalName_def registry_isPrivateAddress_eq Let_def split: sum.splits)

lemma registry_assertAllowed_network [simp]:
  "registry_assertAllowed (ext\<lparr>x_registryFetch := f\<rparr>) = registry_assertAllowed ext"
  by (intro HOL.ext) (simp add: registry_assertAllowed_def registryPrivateHosts_def callExternal_def tick_def
      attempt_def bindM_def Let_def)

lemma callExternal_network [simp]: "callExternal (ext\<lparr>x_registryFetch := f\<rparr>) g = callExternal ext g"
  by (intro HOL.ext) (simp add: callExternal_def tick_def)

section \<open>What a resolved artifact satisfies\<close>

lemma registry_resolve_OK:
  assumes "registry_resolve ext repo reference w = (Inr art, w')"
  shows "isDigest (ra_digest art) \<and> toLowerCase (ra_digest art) = ra_digest art \<and>
    (isDigest reference \<longrightarrow> ra_digest art = toLowerCase reference) \<and>
    ra_repository art = repo \<and> ra_reference art = reference"
proof -
  obtain digest where "isDigest digest" "ra_digest art = toLowerCase digest"
      "isDigest reference \<longrightarrow> ra_digest art = toLowerCase reference"
      "ra_repository art = repo" "ra_reference art = reference"
    using assms unfolding registry_resolve_def by (auto simp: OK_simps Let_def falsy_def)
  moreover have "isDigest (toLowerCase d)" if "isDigest d" for d
    using that by (simp add: isDigest_def toLowerCase_take [symmetric] toLowerCase_drop [symmetric])
      (simp add: toLowerCase_def toLowerChar_def)
  ultimately show ?thesis by simp
qed

context step_relation
begin

lemma steps_registry_assertAllowed [step_intros]: "steps R (registry_assertAllowed ext url)"
  unfolding registry_assertAllowed_def by (intro step_intros)

lemma steps_registryFetchLoop [step_intros]: "steps R (registryFetchLoop ext left rq)"
proof (induction left arbitrary: rq)
  case 0
  show ?case unfolding registryFetchLoop.simps by (intro step_intros)
next
  case (Suc left)
  show ?case unfolding registryFetchLoop.simps by (intro step_intros Suc.IH)
qed

lemma steps_requestManifest [step_intros]: "steps R (requestManifest ext url host token)"
  unfolding requestManifest_def registry_safeFetch_def by (intro step_intros)

lemma steps_fetchBearerToken [step_intros]: "steps R (fetchBearerToken ext challenge host path)"
  unfolding fetchBearerToken_def registry_safeFetch_def by (intro step_intros)

lemma steps_registry_resolve [step_intros]: "steps R (registry_resolve ext repo reference)"
  unfolding registry_resolve_def authenticatedManifest_def mapManifestFailure_def by (intro step_intros)

end

section \<open>Where answers come from\<close>

lemma later_calls: "steps later m \<Longrightarrow> m w = (r, w') \<Longrightarrow> w_calls w \<le> w_calls w'"
  by (drule stepsD) (auto simp: later_def)

text \<open>The response that the redirect loop returns is the answer to a request for the returned URL.\<close>

text \<open>A request that carries nothing, or this header to this origin.\<close>

definition carried :: "string \<times> string \<Rightarrow> string option \<Rightarrow> RegistryRequest \<Rightarrow> bool" where
  "carried origin authorization rq \<longleftrightarrow>
     gq_authorization rq = None \<or> gq_authorization rq = authorization \<and> u_origin (gq_url rq) = origin"

lemma carried_redirected: "carried origin authorization rq \<Longrightarrow> carried origin authorization (redirected rq url)"
  by (auto simp: carried_def redirected_def)

lemma registryFetchLoop_answer:
  assumes "registryFetchLoop ext left rq w = (Inr (response, url), w')"
  shows "\<exists>n rq'. w_calls w \<le> n \<and> n < w_calls w' \<and> x_registryFetch ext n rq' = Inr response \<and> gq_url rq' = url \<and>
    (\<forall>origin authorization. carried origin authorization rq \<longrightarrow> carried origin authorization rq')"
  using assms
proof (induction left arbitrary: rq w)
  case (Suc left)
  obtain w1 answer where w1: "registry_assertAllowed ext (gq_url rq) w = (Inr (), w1)"
    and fetched: "x_registryFetch ext (w_calls w1) rq = Inr answer"
    and rest: "(if gp_status answer \<notin> {301, 302, 303, 307, 308} then retM (answer, gq_url rq)
         else if falsy (gp_location answer)
         then throwM (RegistryRequestError REGISTRY_UNAVAILABLE ''Registry redirect did not include a Location header'')
         else
           (case x_resolveUrl ext (the (gp_location answer)) (gq_url rq) of
              None \<Rightarrow> throwM (PlainError ''Invalid URL'')
            | Some url \<Rightarrow>
                thenM (registry_assertAllowed ext url)
                  (registryFetchLoop ext left (redirected rq url)))) (tick ext w1) = (Inr (response, url), w')"
    using Suc.prems unfolding registryFetchLoop.simps
    by (auto simp: thenM_OK bindM_OK attempt_OK callExternal_def case_sum_OK throwM_OK)
  have c1: "w_calls w \<le> w_calls w1" by (rule later_calls [OF time.steps_registry_assertAllowed w1])
  from rest show ?case unfolding if_OK case_option_OK thenM_OK
  proof (elim disjE conjE exE)
    assume "retM (answer, gq_url rq) (tick ext w1) = (Inr (response, url), w')"
    then show ?thesis using fetched c1 by (auto simp: retM_OK tick_def)
  next
    fix next_url u w2
    assume w2: "registry_assertAllowed ext next_url (tick ext w1) = (Inr u, w2)"
      and again: "registryFetchLoop ext left (redirected rq next_url) w2 = (Inr (response, url), w')"
    have "w_calls w1 \<le> w_calls w2" using later_calls [OF time.steps_registry_assertAllowed w2] by (simp add: tick_def)
    with c1 have "w_calls w \<le> w_calls w2" by simp
    then show ?thesis using Suc.IH [OF again] by (blast intro: le_trans carried_redirected)
  qed (simp_all add: throwM_OK)
qed (simp add: throwM_OK)

lemma requestManifest_answer:
  assumes "requestManifest ext input host tok w = (Inr (response, url), w')"
  shows "\<exists>n rq first. w_calls w \<le> n \<and> n < w_calls w' \<and> x_registryFetch ext n rq = Inr response \<and> gq_url rq = url \<and>
    x_parseUrl ext input = Some first \<and> carried (u_origin first)
      (if \<not> falsy tok then Some (''Bearer '' @ the tok) else map_option basicAuthorization (credentialsFor ext host)) rq"
proof -
  let ?header = "if \<not> falsy tok then Some (''Bearer '' @ the tok) else map_option basicAuthorization (credentialsFor ext host)"
  obtain first where first: "x_parseUrl ext input = Some first" and loop: "registryFetchLoop ext 6
      \<lparr>gq_verb = ''HEAD'', gq_url = first, gq_accept = Some ACCEPT_MANIFESTS, gq_authorization = ?header\<rparr> w =
        (Inr (response, url), w')"
    using assms unfolding requestManifest_def registry_safeFetch_def by (auto simp: case_option_OK throwM_OK)
  have "carried (u_origin first) ?header
      \<lparr>gq_verb = ''HEAD'', gq_url = first, gq_accept = Some ACCEPT_MANIFESTS, gq_authorization = ?header\<rparr>"
    by (simp add: carried_def)
  with registryFetchLoop_answer [OF loop] first show ?thesis by blast
qed

text \<open>A digest that the registry reported with a successful answer between two interactions.\<close>

definition digest_reported :: "external \<Rightarrow> world \<Rightarrow> world \<Rightarrow> string \<Rightarrow> bool" where
  "digest_reported ext w w' digest \<longleftrightarrow>
     (\<exists>n rq response d. w_calls w \<le> n \<and> n < w_calls w' \<and> x_registryFetch ext n rq = Inr response \<and> responseOk response \<and>
        gp_dockerContentDigest response = Some d \<and> toLowerCase d = digest)"

lemma authenticatedManifest_answer:
  assumes "authenticatedManifest ext repository input w = (Inr response, w')"
  shows "\<exists>n rq. w_calls w \<le> n \<and> n < w_calls w' \<and> x_registryFetch ext n rq = Inr response"
proof -
  obtain first url w1 where w1: "requestManifest ext input (pr_host repository) None w = (Inr (first, url), w1)"
    and rest: "(if gp_status first \<noteq> 401 then retM first
     else
       (case parseBearerChallenge (gp_wwwAuthenticate first) of
          None \<Rightarrow> throwM (RegistryRequestError AUTHENTICATION_REQUIRED ''Registry requires unsupported authentication'')
        | Some challenge \<Rightarrow>
            bindM (fetchBearerToken ext challenge (u_host url) (pr_path repository)) (\<lambda>tok.
            bindM (requestManifest ext (x_href ext url) (u_host url) (Some tok)) (\<lambda>(authenticated, _).
            retM authenticated)))) w1 = (Inr response, w')"
    using assms unfolding authenticatedManifest_def bindM_OK case_prod_OK by auto
  from rest show ?thesis unfolding if_OK case_option_OK bindM_OK
  proof (elim disjE conjE exE)
    assume "retM first w1 = (Inr response, w')"
    then show ?thesis using requestManifest_answer [OF w1] by (auto simp: retM_OK)
  next
    fix ch tok w2 a w3
    assume w2: "fetchBearerToken ext ch (u_host url) (pr_path repository) w1 = (Inr tok, w2)"
      and w3: "requestManifest ext (x_href ext url) (u_host url) (Some tok) w2 = (Inr a, w3)"
      and "(case a of (authenticated, _) \<Rightarrow> retM authenticated) w3 = (Inr response, w')"
    then obtain url' where "requestManifest ext (x_href ext url) (u_host url) (Some tok) w2 = (Inr (response, url'), w')"
      by (auto simp: case_prod_OK retM_OK)
    moreover have "w_calls w \<le> w_calls w2"
      using later_calls [OF time.steps_requestManifest w1] later_calls [OF time.steps_fetchBearerToken w2] by simp
    ultimately show ?thesis using requestManifest_answer by (meson le_trans)
  qed (simp_all add: throwM_OK)
qed

lemma registry_resolve_reported:
  assumes "registry_resolve ext repo reference w = (Inr art, w')"
  shows "digest_reported ext w w' (ra_digest art)"
proof -
  obtain repository base w1 response w2 w3 input where w1: "registry_assertAllowed ext base w = (Inr (), w1)"
    and w2: "authenticatedManifest ext repository input w1 = (Inr response, w2)"
    and w3: "mapManifestFailure response w2 = (Inr (), w3)"
    and art: "\<not> falsy (gp_dockerContentDigest response)" "ra_digest art = toLowerCase (the (gp_dockerContentDigest response))" "w' = w3"
    using assms unfolding registry_resolve_def
    by (auto simp: case_sum_OK case_option_OK thenM_OK bindM_OK throwM_OK Let_def if_OK retM_OK)
  have "responseOk response" "w3 = w2" using w3 by (auto simp: mapManifestFailure_def if_OK throwM_OK retM_OK)
  moreover have "w_calls w \<le> w_calls w1" by (rule later_calls [OF time.steps_registry_assertAllowed w1])
  moreover obtain d where "gp_dockerContentDigest response = Some d" using art(1) by (auto simp: falsy_def)
  ultimately show ?thesis
    using authenticatedManifest_answer [OF w2] art(2,3) unfolding digest_reported_def by (metis le_trans option.sel)
qed

section \<open>Where credentials go\<close>

text \<open>An answer \<open>401\<close> to this request names a token service.\<close>

definition challenges :: "external \<Rightarrow> RegistryRequest \<Rightarrow> BearerChallenge \<Rightarrow> bool" where
  "challenges ext rq challenge \<longleftrightarrow>
     (\<exists>n response. x_registryFetch ext n rq = Inr response \<and> gp_status response = 401 \<and>
        parseBearerChallenge (gp_wwwAuthenticate response) = Some challenge)"

text \<open>The URL of the token service for a challenge.\<close>

definition tokenEndpoint :: "external \<Rightarrow> BearerChallenge \<Rightarrow> string \<Rightarrow> Url \<Rightarrow> Url" where
  "tokenEndpoint ext challenge repositoryPath realm =
     x_setSearchParam ext ''scope''
       (case bc_scope challenge of
          Some scope \<Rightarrow> scope | None \<Rightarrow> ''repository:'' @ repositoryPath @ '':pull'')
       (if \<not> falsy (bc_service challenge)
        then x_setSearchParam ext ''service'' (the (bc_service challenge)) realm else realm)"

text \<open>
  The credentials that a request of the client may carry: none; those of the repository's registry, to the
  origin of its manifest URL; those of a host that answered such a request with a challenge, to the origin of the token
  service that this challenge names; a bearer token, to the origin that asked for it.
\<close>

inductive may_carry :: "external \<Rightarrow> ParsedRepository \<Rightarrow> string \<Rightarrow> RegistryRequest \<Rightarrow> bool"
  for ext :: external and repository :: ParsedRepository and manifestUrl :: string where
  registry: "x_parseUrl ext manifestUrl = Some url \<Longrightarrow>
     carried (u_origin url) (map_option basicAuthorization (credentialsFor ext (pr_host repository))) rq \<Longrightarrow>
     may_carry ext repository manifestUrl rq"
| token_service: "may_carry ext repository manifestUrl asked \<Longrightarrow> challenges ext asked challenge \<Longrightarrow> x_parseUrl ext (bc_realm challenge) = Some realm \<Longrightarrow>
     x_parseUrl ext (x_href ext (tokenEndpoint ext challenge (pr_path repository) realm)) = Some url \<Longrightarrow>
     carried (u_origin url) (map_option basicAuthorization (credentialsFor ext (u_host (gq_url asked)))) rq \<Longrightarrow>
     may_carry ext repository manifestUrl rq"
| bearer: "may_carry ext repository manifestUrl asked \<Longrightarrow> challenges ext asked challenge \<Longrightarrow> x_parseUrl ext (x_href ext (gq_url asked)) = Some url \<Longrightarrow>
     carried (u_origin url) (Some (''Bearer '' @ tok)) rq \<Longrightarrow> may_carry ext repository manifestUrl rq"

definition manifestUrlOf :: "ParsedRepository \<Rightarrow> string \<Rightarrow> string" where
  "manifestUrlOf repository reference =
     pr_baseUrl repository @ ''/v2/'' @ encodeRepositoryPath (pr_path repository) @ ''/manifests/'' @
     encodeURIComponent reference"

text \<open>The requests that the client may make for an image: to endpoints that the policy accepts, with these credentials.\<close>

definition client_may_send :: "external \<Rightarrow> string \<Rightarrow> string \<Rightarrow> RegistryRequest \<Rightarrow> bool" where
  "client_may_send ext imageRepository reference rq \<longleftrightarrow>
     (\<exists>m. registry_allowed ext m (gq_url rq)) \<and>
     (\<exists>repository. parseRepository ext imageRepository = Inr repository \<and>
        may_carry ext repository (manifestUrlOf repository reference) rq)"

lemma bindM_cong:
  "m' w = m w \<Longrightarrow> (\<And>x w1. m w = (Inr x, w1) \<Longrightarrow> f' x w1 = f x w1) \<Longrightarrow> bindM m' f' w = bindM m f w"
  by (auto simp: bindM_def split: prod.split sum.split)

lemma registryFetchLoop_guarded:
  assumes same: "\<And>n m rq. registry_allowed ext m (gq_url rq) \<Longrightarrow> carried origin authorization rq \<Longrightarrow>
      f n rq = x_registryFetch ext n rq"
    and "carried origin authorization rq"
  shows "registryFetchLoop (ext\<lparr>x_registryFetch := f\<rparr>) left rq w = registryFetchLoop ext left rq w"
  using assms(2)
proof (induction left arbitrary: rq w)
  case (Suc left)
  let ?ext' = "ext\<lparr>x_registryFetch := f\<rparr>"
  have fetch: "f n rq = x_registryFetch ext n rq"
    if "registry_assertAllowed ext (gq_url rq) w = (Inr u, w1)" for u w1 n
  proof -
    have "registry_allowed ext (w_calls w) (gq_url rq)"
      using that registry_assertAllowed_iff by (metis (full_types) unit.exhaust)
    then show ?thesis using same Suc.prems by blast
  qed
  have again: "registryFetchLoop ?ext' left (redirected rq url) w1 = registryFetchLoop ext left (redirected rq url) w1"
    for url w1
    by (rule Suc.IH [OF carried_redirected [OF Suc.prems]])
  show ?case
    unfolding registryFetchLoop.simps thenM_def bindM_def [of "registry_assertAllowed _ (gq_url rq)"]
    using fetch again
    by (auto simp: bindM_def callExternal_def attempt_def split: sum.split prod.split option.split)
qed simp

lemma registry_safeFetch_guarded:
  assumes "\<And>n m rq url. registry_allowed ext m (gq_url rq) \<Longrightarrow> x_parseUrl ext input = Some url \<Longrightarrow>
      carried (u_origin url) authorization rq \<Longrightarrow> f n rq = x_registryFetch ext n rq"
  shows "registry_safeFetch (ext\<lparr>x_registryFetch := f\<rparr>) input verb accept authorization w =
    registry_safeFetch ext input verb accept authorization w"
proof (cases "x_parseUrl ext input")
  case (Some url)
  have "carried (u_origin url) authorization
      \<lparr>gq_verb = verb, gq_url = url, gq_accept = accept, gq_authorization = authorization\<rparr>"
    by (simp add: carried_def)
  from registryFetchLoop_guarded [OF _ this] assms Some show ?thesis by (simp add: registry_safeFetch_def)
qed (simp add: registry_safeFetch_def)

lemma credentials_network [simp]: "credentialsFor (ext\<lparr>x_registryFetch := f\<rparr>) h = credentialsFor ext h"
  by (simp add: credentialsFor_def)

lemma parseContentLength_network [simp]:
  "parseContentLength (ext\<lparr>x_registryFetch := f\<rparr>) raw = parseContentLength ext raw"
  by (simp add: parseContentLength_def)

lemma parseRepository_network [simp]: "parseRepository (ext\<lparr>x_registryFetch := f\<rparr>) = parseRepository ext"
  by (intro HOL.ext) (simp add: parseRepository_def Let_def)

lemma fetchBearerToken_token: "fetchBearerToken ext ch host path w = (Inr tok, w') \<Longrightarrow> tok \<noteq> []"
  unfolding fetchBearerToken_def Let_def
  by (auto simp: case_option_OK thenM_OK bindM_OK if_OK case_prod_OK throwM_OK retM_OK falsy_def)

lemma fetchBearerToken_guarded:
  assumes "\<And>n m rq realm url. registry_allowed ext m (gq_url rq) \<Longrightarrow> x_parseUrl ext (bc_realm ch) = Some realm \<Longrightarrow>
      x_parseUrl ext (x_href ext (tokenEndpoint ext ch path realm)) = Some url \<Longrightarrow>
      carried (u_origin url) (map_option basicAuthorization (credentialsFor ext host)) rq \<Longrightarrow> f n rq = x_registryFetch ext n rq"
  shows "fetchBearerToken (ext\<lparr>x_registryFetch := f\<rparr>) ch host path w = fetchBearerToken ext ch host path w"
proof (cases "x_parseUrl ext (bc_realm ch)")
  case (Some realm)
  have "registry_safeFetch (ext\<lparr>x_registryFetch := f\<rparr>) (x_href ext (tokenEndpoint ext ch path realm)) ''GET'' None
      (map_option basicAuthorization (credentialsFor ext host)) w1 =
    registry_safeFetch ext (x_href ext (tokenEndpoint ext ch path realm)) ''GET'' None
      (map_option basicAuthorization (credentialsFor ext host)) w1" for w1
    by (rule registry_safeFetch_guarded) (use assms Some in blast)
  with Some show ?thesis
    unfolding fetchBearerToken_def thenM_def Let_def tokenEndpoint_def by (auto intro!: bindM_cong)
qed (simp add: fetchBearerToken_def)

lemma authenticatedManifest_guarded:
  assumes same: "\<And>n m rq. registry_allowed ext m (gq_url rq) \<Longrightarrow> may_carry ext repository input rq \<Longrightarrow>
      f n rq = x_registryFetch ext n rq"
  shows "authenticatedManifest (ext\<lparr>x_registryFetch := f\<rparr>) repository input w = authenticatedManifest ext repository input w"
  unfolding authenticatedManifest_def
proof (rule bindM_cong, goal_cases)
  case 1
  show ?case
    unfolding requestManifest_def by (simp add: falsy_def) (rule registry_safeFetch_guarded, blast intro: same may_carry.registry)
next
  case (2 answer w1)
  obtain first url where answer: "answer = (first, url)" by (cases answer)
  obtain asked n where asked: "x_registryFetch ext n asked = Inr first" "gq_url asked = url"
      "may_carry ext repository input asked"
    using requestManifest_answer [OF 2 [unfolded answer]] by (auto simp: falsy_def intro: may_carry.registry)
  have "bindM (fetchBearerToken (ext\<lparr>x_registryFetch := f\<rparr>) ch (u_host url) (pr_path repository)) (\<lambda>tok.
      bindM (requestManifest (ext\<lparr>x_registryFetch := f\<rparr>) (x_href ext url) (u_host url) (Some tok)) (\<lambda>(authenticated, _).
        retM authenticated)) w1 =
    bindM (fetchBearerToken ext ch (u_host url) (pr_path repository)) (\<lambda>tok.
      bindM (requestManifest ext (x_href ext url) (u_host url) (Some tok)) (\<lambda>(authenticated, _).
        retM authenticated)) w1"
    if "gp_status first = 401" "parseBearerChallenge (gp_wwwAuthenticate first) = Some ch" for ch
  proof -
    have ch: "challenges ext asked ch" using that asked(1) by (auto simp: challenges_def)
    show ?thesis
    proof (rule bindM_cong, goal_cases)
      case 1
      show ?case by (rule fetchBearerToken_guarded) (use same ch asked(2,3) in \<open>blast intro: may_carry.token_service\<close>)
    next
      case (2 tok w2)
      then have "tok \<noteq> []" using fetchBearerToken_token by blast
      then have header: "(if \<not> falsy (Some tok) then Some (''Bearer '' @ the (Some tok)) else a) = Some (''Bearer '' @ tok)" for a
        by (simp add: falsy_def)
      have "requestManifest (ext\<lparr>x_registryFetch := f\<rparr>) (x_href ext url) (u_host url) (Some tok) w2 =
          requestManifest ext (x_href ext url) (u_host url) (Some tok) w2"
        unfolding requestManifest_def header
        by (rule registry_safeFetch_guarded) (use same ch asked(2,3) in \<open>blast intro: may_carry.bearer\<close>)
      then show ?case by (rule bindM_cong) simp
    qed
  qed
  then show ?case by (simp add: answer split: option.split)
qed

lemma registry_resolve_guarded:
  assumes "\<forall>n rq. client_may_send ext repo reference rq \<longrightarrow> f n rq = x_registryFetch ext n rq"
  shows "registry_resolve (ext\<lparr>x_registryFetch := f\<rparr>) repo reference w = registry_resolve ext repo reference w"
proof (cases "parseRepository ext repo")
  case (Inr repository)
  have "authenticatedManifest (ext\<lparr>x_registryFetch := f\<rparr>) repository (manifestUrlOf repository reference) w1 =
      authenticatedManifest ext repository (manifestUrlOf repository reference) w1" for w1
    by (rule authenticatedManifest_guarded) (use assms Inr in \<open>auto simp: client_may_send_def\<close>)
  then show ?thesis
    unfolding registry_resolve_def thenM_def manifestUrlOf_def
    by (auto simp: Inr Let_def split: option.split intro!: bindM_cong)
next
  case (Inl e)
  then show ?thesis by (simp add: registry_resolve_def)
qed

end
