(* ===== verification/Agent_Schemas.thy ===== *)
theory Agent_Schemas
  imports Effects "HOL-Library.Monad_Syntax"
begin

text \<open>
  The schemas with which the control plane validates what an Agent answers
  (\<^verbatim>\<open>agent/read-model.ts\<close>, \<^verbatim>\<open>agent/placement-model.ts\<close>,
  \<^verbatim>\<open>agent/capacity-model.ts\<close> and the barrier schema of
  \<^verbatim>\<open>agent/http-agent.client.ts\<close>). A schema is a partial function from a parsed JSON
  value to the record of the data model: \<open>None\<close> is a validation error, unknown keys are
  stripped, and a missing key is \<open>undefined\<close>. The last section shows that the JSON
  renderings of the data model are read back unchanged.
\<close>

section \<open>Schema combinators\<close>

type_synonym 'a schema = "json \<Rightarrow> 'a option"

fun z_string :: "string schema" where
  "z_string (JStr s) = Some s"
| "z_string _ = None"

text \<open>\<open>z.string().min(1)\<close>.\<close>

definition z_string1 :: "string schema" where
  "z_string1 j = do { s \<leftarrow> z_string j; if s = [] then None else Some s }"

fun z_boolean :: "bool schema" where
  "z_boolean (JBool b) = Some b"
| "z_boolean _ = None"

text \<open>\<open>z.number().int()\<close> accepts the safe integers, \<open>nonnegative()\<close> those from \<open>0\<close>.\<close>

definition SAFE_INTEGER_BOUND :: int where
  "SAFE_INTEGER_BOUND = 9007199254740991"

fun z_int :: "int schema" where
  "z_int (JNum n) = (if \<bar>n\<bar> \<le> SAFE_INTEGER_BOUND then Some n else None)"
| "z_int _ = None"

definition z_nat :: "nat schema" where
  "z_nat j = do { n \<leftarrow> z_int j; if n < 0 then None else Some (nat n) }"

definition z_literal :: "json \<Rightarrow> unit schema" where
  "z_literal l j = (if j = l then Some () else None)"

text \<open>\<open>z.enum\<close> with the constructors that the strings stand for.\<close>

definition z_enum :: "(string \<times> 'a) list \<Rightarrow> 'a schema" where
  "z_enum choices j = do { s \<leftarrow> z_string j; map_of choices s }"

fun z_elements :: "'a schema \<Rightarrow> json list \<Rightarrow> 'a list option" where
  "z_elements sch [] = Some []"
| "z_elements sch (j # js) = do { x \<leftarrow> sch j; xs \<leftarrow> z_elements sch js; Some (x # xs) }"

fun z_array :: "'a schema \<Rightarrow> 'a list schema" where
  "z_array sch (JArr js) = z_elements sch js"
| "z_array sch _ = None"

fun z_entries :: "'a schema \<Rightarrow> (string \<times> json) list \<Rightarrow> (string \<times> 'a) list option" where
  "z_entries sch [] = Some []"
| "z_entries sch ((k, j) # fs) = do { x \<leftarrow> sch j; xs \<leftarrow> z_entries sch fs; Some ((k, x) # xs) }"

fun z_record :: "'a schema \<Rightarrow> (string \<times> 'a) list schema" where
  "z_record sch (JObj fs) = z_entries sch fs"
| "z_record sch _ = None"

text \<open>The property \<open>k\<close> of an object schema, required and \<open>optional()\<close>.\<close>

definition z_field :: "json \<Rightarrow> string \<Rightarrow> 'a schema \<Rightarrow> 'a option" where
  "z_field j k sch = do { v \<leftarrow> json_field j k; sch v }"

fun z_optional :: "json \<Rightarrow> string \<Rightarrow> 'a schema \<Rightarrow> 'a option option" where
  "z_optional (JObj fs) k sch =
     (case map_of fs k of None \<Rightarrow> Some None | Some v \<Rightarrow> map_option Some (sch v))"
| "z_optional _ k sch = None"

section \<open>Schemas of the read model\<close>

definition HealthResponseSchema :: "unit schema" where
  "HealthResponseSchema j = do {
     z_field j ''status'' (z_literal (JStr ''ok''));
     z_field j ''component'' (z_literal (JStr ''docklane-agent'')) }"

definition AgentIdentityResponseSchema :: "AgentIdentityResponse schema" where
  "AgentIdentityResponseSchema j = do {
     z_field j ''component'' (z_literal (JStr ''docklane-agent''));
     clusterId \<leftarrow> z_field j ''clusterId'' z_string1;
     nodeId \<leftarrow> z_field j ''nodeId'' z_string1;
     hostname \<leftarrow> z_field j ''hostname'' z_string1;
     z_field j ''manager'' (z_literal (JBool True));
     leader \<leftarrow> z_field j ''leader'' z_boolean;
     Some \<lparr>ai_clusterId = clusterId, ai_nodeId = nodeId, ai_hostname = hostname,
       ai_manager = True, ai_leader = leader\<rparr> }"

definition NodeSummarySchema :: "NodeSummary schema" where
  "NodeSummarySchema j = do {
     id \<leftarrow> z_field j ''id'' z_string;
     version \<leftarrow> z_field j ''version'' z_nat;
     specHash \<leftarrow> z_field j ''specHash'' z_string1;
     hostname \<leftarrow> z_field j ''hostname'' z_string;
     address \<leftarrow> z_field j ''address'' z_string;
     role \<leftarrow> z_field j ''role'' z_string;
     availability \<leftarrow> z_field j ''availability'' z_string;
     state \<leftarrow> z_field j ''state'' z_string;
     message \<leftarrow> z_optional j ''message'' z_string;
     manager \<leftarrow> z_field j ''manager'' z_boolean;
     leader \<leftarrow> z_field j ''leader'' z_boolean;
     reachability \<leftarrow> z_optional j ''reachability'' z_string;
     engineVersion \<leftarrow> z_optional j ''engineVersion'' z_string;
     nanoCpus \<leftarrow> z_field j ''nanoCpus'' z_int;
     memoryBytes \<leftarrow> z_field j ''memoryBytes'' z_int;
     labels \<leftarrow> z_field j ''labels'' (z_record z_string);
     Some \<lparr>nd_id = id, nd_version = version, nd_specHash = specHash, nd_hostname = hostname,
       nd_address = address, nd_role = role, nd_availability = availability, nd_state = state,
       nd_message = message, nd_manager = manager, nd_leader = leader,
       nd_reachability = reachability, nd_engineVersion = engineVersion,
       nd_nanoCpus = nanoCpus, nd_memoryBytes = memoryBytes, nd_labels = labels\<rparr> }"

definition ClusterResponseSchema :: "ClusterResponse schema" where
  "ClusterResponseSchema j = do {
     cluster \<leftarrow> json_field j ''cluster'';
     id \<leftarrow> z_field cluster ''id'' z_string;
     z_field cluster ''dockerVersion'' z_string;
     z_field cluster ''apiVersion'' z_string;
     z_field cluster ''createdAt'' z_string;
     z_field cluster ''updatedAt'' z_string;
     managers \<leftarrow> json_field cluster ''managers'';
     total \<leftarrow> z_field managers ''total'' z_nat;
     reachable \<leftarrow> z_field managers ''reachable'' z_nat;
     required \<leftarrow> z_field managers ''required'' z_nat;
     available \<leftarrow> z_field managers ''available'' z_boolean;
     leaderCount \<leftarrow> z_field managers ''leaderCount'' z_nat;
     nodes \<leftarrow> z_field j ''nodes'' (z_array NodeSummarySchema);
     Some \<lparr>cv_id = id, cv_managersTotal = total, cv_managersReachable = reachable,
       cv_managersRequired = required, cv_managersAvailable = available,
       cv_leaderCount = leaderCount, cv_nodes = nodes\<rparr> }"

definition ServiceSummarySchema :: "ServiceSummary schema" where
  "ServiceSummarySchema j = do {
     id \<leftarrow> z_field j ''id'' z_string;
     name \<leftarrow> z_field j ''name'' z_string;
     version \<leftarrow> z_field j ''version'' z_nat;
     specHash \<leftarrow> z_field j ''specHash'' z_string1;
     forceUpdate \<leftarrow> z_field j ''forceUpdate'' z_nat;
     taskSpecHash \<leftarrow> z_optional j ''taskSpecHash'' z_string1;
     runtimeSpecHash \<leftarrow> z_optional j ''runtimeSpecHash'' z_string1;
     image \<leftarrow> z_optional j ''image'' z_string;
     mode \<leftarrow> z_field j ''mode'' z_string;
     desiredReplicas \<leftarrow> z_field j ''desiredReplicas'' z_nat;
     runningReplicas \<leftarrow> z_field j ''runningReplicas'' z_nat;
     updateState \<leftarrow> z_optional j ''updateState'' z_string;
     updateMessage \<leftarrow> z_optional j ''updateMessage'' z_string;
     createdAt \<leftarrow> z_field j ''createdAt'' z_string;
     updatedAt \<leftarrow> z_field j ''updatedAt'' z_string;
     Some \<lparr>s_id = id, s_name = name, s_version = version, s_specHash = specHash,
       s_forceUpdate = forceUpdate, s_taskSpecHash = taskSpecHash,
       s_runtimeSpecHash = runtimeSpecHash, s_image = image, s_mode = mode,
       s_desiredReplicas = desiredReplicas, s_runningReplicas = runningReplicas,
       s_updateState = updateState, s_updateMessage = updateMessage,
       s_createdAt = createdAt, s_updatedAt = updatedAt\<rparr> }"

definition TaskSummarySchema :: "TaskSummary schema" where
  "TaskSummarySchema j = do {
     id \<leftarrow> z_field j ''id'' z_string;
     serviceId \<leftarrow> z_field j ''serviceId'' z_string;
     specHash \<leftarrow> z_field j ''specHash'' z_string1;
     runtimeSpecHash \<leftarrow> z_field j ''runtimeSpecHash'' z_string1;
     slot \<leftarrow> z_field j ''slot'' z_int;
     nodeId \<leftarrow> z_optional j ''nodeId'' z_string;
     desiredState \<leftarrow> z_field j ''desiredState'' z_string;
     state \<leftarrow> z_field j ''state'' z_string;
     forceUpdate \<leftarrow> z_field j ''forceUpdate'' z_nat;
     message \<leftarrow> z_optional j ''message'' z_string;
     error \<leftarrow> z_optional j ''error'' z_string;
     containerId \<leftarrow> z_optional j ''containerId'' z_string;
     image \<leftarrow> z_optional j ''image'' z_string;
     timestamp \<leftarrow> z_field j ''timestamp'' z_string;
     Some \<lparr>t_id = id, t_serviceId = serviceId, t_specHash = specHash,
       t_runtimeSpecHash = runtimeSpecHash, t_slot = slot, t_nodeId = nodeId,
       t_desiredState = desiredState, t_state = state, t_forceUpdate = forceUpdate,
       t_message = message, t_error = error, t_containerId = containerId,
       t_image = image, t_timestamp = timestamp\<rparr> }"

definition ServiceDetailResponseSchema :: "ServiceDetailResponse schema" where
  "ServiceDetailResponseSchema j = do {
     service \<leftarrow> z_field j ''service'' ServiceSummarySchema;
     tasks \<leftarrow> z_field j ''tasks'' (z_array TaskSummarySchema);
     Some \<lparr>sd_service = service, sd_tasks = tasks\<rparr> }"

definition ServiceMutationPlanSchema :: "ServiceMutationPlan schema" where
  "ServiceMutationPlanSchema j = do {
     serviceId \<leftarrow> z_field j ''serviceId'' z_string;
     version \<leftarrow> z_field j ''version'' z_nat;
     beforeSpecHash \<leftarrow> z_field j ''beforeSpecHash'' z_string1;
     targetSpecHash \<leftarrow> z_field j ''targetSpecHash'' z_string1;
     targetForceUpdate \<leftarrow> z_field j ''targetForceUpdate'' z_nat;
     targetReplicas \<leftarrow> z_optional j ''targetReplicas'' z_nat;
     targetImage \<leftarrow> z_optional j ''targetImage'' z_string;
     targetTaskSpecHash \<leftarrow> z_optional j ''targetTaskSpecHash'' z_string;
     targetRuntimeSpecHash \<leftarrow> z_optional j ''targetRuntimeSpecHash'' z_string;
     Some \<lparr>p_serviceId = serviceId, p_version = version, p_beforeSpecHash = beforeSpecHash,
       p_targetSpecHash = targetSpecHash, p_targetForceUpdate = targetForceUpdate,
       p_targetReplicas = targetReplicas, p_targetImage = targetImage,
       p_targetTaskSpecHash = targetTaskSpecHash,
       p_targetRuntimeSpecHash = targetRuntimeSpecHash\<rparr> }"

text \<open>\<open>extend\<close> makes three of the optional properties required.\<close>

definition ServiceImageMutationPlanSchema :: "ServiceMutationPlan schema" where
  "ServiceImageMutationPlanSchema j = do {
     plan \<leftarrow> ServiceMutationPlanSchema j;
     targetImage \<leftarrow> z_field j ''targetImage'' z_string;
     targetTaskSpecHash \<leftarrow> z_field j ''targetTaskSpecHash'' z_string1;
     targetRuntimeSpecHash \<leftarrow> z_field j ''targetRuntimeSpecHash'' z_string1;
     Some (plan\<lparr>p_targetImage := Some targetImage, p_targetTaskSpecHash := Some targetTaskSpecHash,
       p_targetRuntimeSpecHash := Some targetRuntimeSpecHash\<rparr>) }"

definition ServiceMutationResponseSchema :: "ServiceMutationResponse schema" where
  "ServiceMutationResponseSchema j = do {
     serviceId \<leftarrow> z_field j ''serviceId'' z_string;
     version \<leftarrow> z_field j ''version'' z_nat;
     targetSpecHash \<leftarrow> z_field j ''targetSpecHash'' z_string1;
     targetForceUpdate \<leftarrow> z_field j ''targetForceUpdate'' z_nat;
     z_optional j ''warnings'' (z_array z_string);
     Some \<lparr>r_serviceId = serviceId, r_version = version, r_targetSpecHash = targetSpecHash,
       r_targetForceUpdate = targetForceUpdate\<rparr> }"

definition NodeDetailResponseSchema :: "NodeDetailResponse schema" where
  "NodeDetailResponseSchema j = do {
     node \<leftarrow> z_field j ''node'' NodeSummarySchema;
     tasks \<leftarrow> z_field j ''tasks'' (z_array TaskSummarySchema);
     serviceIds \<leftarrow> z_field j ''serviceIds'' (z_array z_string);
     Some \<lparr>ndr_node = node, ndr_tasks = tasks, ndr_serviceIds = serviceIds\<rparr> }"

definition NodeMutationPlanSchema :: "NodeMutationPlan schema" where
  "NodeMutationPlanSchema j = do {
     nodeId \<leftarrow> z_field j ''nodeId'' z_string;
     version \<leftarrow> z_field j ''version'' z_nat;
     beforeSpecHash \<leftarrow> z_field j ''beforeSpecHash'' z_string1;
     targetSpecHash \<leftarrow> z_field j ''targetSpecHash'' z_string1;
     targetAvailability \<leftarrow> z_field j ''targetAvailability''
       (z_enum [(''drain'', AvDrain), (''active'', AvActive), (''pause'', AvPause)]);
     affectedServiceIds \<leftarrow> z_field j ''affectedServiceIds'' (z_array z_string);
     targetLabels \<leftarrow> z_optional j ''targetLabels'' (z_record z_string);
     Some \<lparr>np_nodeId = nodeId, np_version = version, np_beforeSpecHash = beforeSpecHash,
       np_targetSpecHash = targetSpecHash, np_targetAvailability = targetAvailability,
       np_affectedServiceIds = affectedServiceIds, np_targetLabels = targetLabels\<rparr> }"

definition NodeLabelMutationPlanSchema :: "NodeMutationPlan schema" where
  "NodeLabelMutationPlanSchema j = do {
     plan \<leftarrow> NodeMutationPlanSchema j;
     targetLabels \<leftarrow> z_field j ''targetLabels'' (z_record z_string);
     Some (plan\<lparr>np_targetLabels := Some targetLabels\<rparr>) }"

definition NodeMutationResponseSchema :: "NodeMutationResponse schema" where
  "NodeMutationResponseSchema j = do {
     nodeId \<leftarrow> z_field j ''nodeId'' z_string;
     version \<leftarrow> z_field j ''version'' z_nat;
     targetSpecHash \<leftarrow> z_field j ''targetSpecHash'' z_string1;
     targetAvailability \<leftarrow> z_field j ''targetAvailability''
       (z_enum [(''drain'', AvDrain), (''active'', AvActive)]);
     Some \<lparr>nr_nodeId = nodeId, nr_version = version, nr_targetSpecHash = targetSpecHash,
       nr_targetAvailability = targetAvailability\<rparr> }"

section \<open>Placement, capacity and barrier schemas\<close>

definition PlacementViolationSchema :: "unit schema" where
  "PlacementViolationSchema j = do {
     z_field j ''taskId'' z_string; z_field j ''nodeId'' z_string; z_field j ''reason'' z_string;
     Some () }"

text \<open>Of a placement response the services only read the status.\<close>

definition ServicePlacementResponseSchema :: "PlacementStatus schema" where
  "ServicePlacementResponseSchema j = do {
     z_field j ''serviceId'' z_string;
     status \<leftarrow> z_field j ''status''
       (z_enum [(''CONVERGED'', PlConverged), (''PENDING'', PlPending), (''UNKNOWN'', PlUnknown)]);
     z_field j ''desiredReplicas'' z_nat;
     z_field j ''runningReplicas'' z_nat;
     z_field j ''reasons'' (z_array z_string);
     z_field j ''unsupportedConstraints'' (z_array z_string);
     z_field j ''violations'' (z_array PlacementViolationSchema);
     Some status }"

definition CapacityResourceSchema :: "(nat \<times> nat) schema" where
  "CapacityResourceSchema j = do {
     nanoCpus \<leftarrow> z_field j ''nanoCpus'' z_nat;
     memoryBytes \<leftarrow> z_field j ''memoryBytes'' z_nat;
     Some (nanoCpus, memoryBytes) }"

definition CapacityNodeSchema :: "CapacityNode schema" where
  "CapacityNodeSchema j = do {
     nodeId \<leftarrow> z_field j ''nodeId'' z_string;
     hostname \<leftarrow> z_field j ''hostname'' z_string;
     availableNanoCpus \<leftarrow> z_field j ''availableNanoCpus'' z_nat;
     availableMemoryBytes \<leftarrow> z_field j ''availableMemoryBytes'' z_nat;
     existingServiceTasks \<leftarrow> z_field j ''existingServiceTasks'' z_nat;
     maxAdditionalReplicas \<leftarrow> z_field j ''maxAdditionalReplicas'' z_nat;
     Some \<lparr>cn_nodeId = nodeId, cn_hostname = hostname, cn_availableNanoCpus = availableNanoCpus,
       cn_availableMemoryBytes = availableMemoryBytes,
       cn_existingServiceTasks = existingServiceTasks,
       cn_maxAdditionalReplicas = maxAdditionalReplicas\<rparr> }"

definition CapacityCheckResponseSchema :: "CapacityCheckResponse schema" where
  "CapacityCheckResponseSchema j = do {
     serviceId \<leftarrow> z_field j ''serviceId'' z_string;
     status \<leftarrow> z_field j ''status'' (z_enum
       [(''SUFFICIENT'', SUFFICIENT), (''INSUFFICIENT'', INSUFFICIENT), (''UNKNOWN'', CapUnknown)]);
     currentReplicas \<leftarrow> z_field j ''currentReplicas'' z_nat;
     targetReplicas \<leftarrow> z_field j ''targetReplicas'' z_nat;
     updateOverlapReplicas \<leftarrow> z_field j ''updateOverlapReplicas'' z_nat;
     requiredAdditionalReplicas \<leftarrow> z_field j ''requiredAdditionalReplicas'' z_nat;
     schedulableAdditionalReplicas \<leftarrow> z_field j ''schedulableAdditionalReplicas'' z_nat;
     unplacedReplicas \<leftarrow> z_field j ''unplacedReplicas'' z_nat;
     eligibleNodeCount \<leftarrow> z_field j ''eligibleNodeCount'' z_nat;
     reservation \<leftarrow> z_field j ''reservation'' CapacityResourceSchema;
     reasons \<leftarrow> z_field j ''reasons'' (z_array z_string);
     unsupportedConstraints \<leftarrow> z_field j ''unsupportedConstraints'' (z_array z_string);
     nodes \<leftarrow> z_field j ''nodes'' (z_array CapacityNodeSchema);
     Some \<lparr>cc_serviceId = serviceId, cc_status = status, cc_currentReplicas = currentReplicas,
       cc_targetReplicas = targetReplicas, cc_updateOverlapReplicas = updateOverlapReplicas,
       cc_requiredAdditionalReplicas = requiredAdditionalReplicas,
       cc_schedulableAdditionalReplicas = schedulableAdditionalReplicas,
       cc_unplacedReplicas = unplacedReplicas, cc_eligibleNodeCount = eligibleNodeCount,
       cc_reservation = reservation, cc_reasons = reasons,
       cc_unsupportedConstraints = unsupportedConstraints, cc_nodes = nodes\<rparr> }"

definition BarrierSchema :: "BarrierResponse schema" where
  "BarrierSchema j = do {
     clusterId \<leftarrow> z_field j ''clusterId'' z_string;
     nodeId \<leftarrow> z_field j ''nodeId'' z_string;
     generation \<leftarrow> z_field j ''generation'' z_string;
     state \<leftarrow> z_field j ''state'' (z_enum [(''OPEN'', ''OPEN''), (''BLOCKED'', ''BLOCKED'')]);
     Some \<lparr>br_clusterId = clusterId, br_nodeId = nodeId, br_generation = generation,
       br_state = state\<rparr> }"

section \<open>Rendering and reading back\<close>

definition safe_nat :: "nat \<Rightarrow> bool" where
  "safe_nat n \<longleftrightarrow> int n \<le> SAFE_INTEGER_BOUND"

lemma z_string1_JStr [simp]: "z_string1 (JStr s) = (if s = [] then None else Some s)"
  by (simp add: z_string1_def)

lemma z_nat_jnat [simp]: "safe_nat n \<Longrightarrow> z_nat (jnat n) = Some n"
  by (simp add: z_nat_def jnat_def safe_nat_def)

lemma z_field_JObj [simp]:
  "z_field (JObj fs) k sch = (case map_of fs k of None \<Rightarrow> None | Some v \<Rightarrow> sch v)"
  by (simp add: z_field_def split: option.splits)

lemma map_of_opt_field [simp]:
  "k' \<noteq> k \<Longrightarrow> map_of (opt_field k f v @ fs) k' = map_of fs k'"
  "map_of fs k = None \<Longrightarrow> map_of (opt_field k f v @ fs) k = map_option f v"
  by (simp_all add: opt_field_def split: option.splits)

lemma optional_rendered:
  "(case map_option JStr v of None \<Rightarrow> Some None | Some u \<Rightarrow> map_option Some (z_string u)) = Some v"
  "v \<noteq> Some [] \<Longrightarrow>
   (case map_option JStr v of None \<Rightarrow> Some None | Some u \<Rightarrow> map_option Some (z_string1 u)) = Some v"
  by (cases v; simp)+

lemma z_elements_map:
  assumes "\<And>x. x \<in> set xs \<Longrightarrow> sch (r x) = Some x"
  shows "z_elements sch (map r xs) = Some xs"
  using assms by (induction xs) auto

lemma z_entries_labels [simp]: "z_entries z_string (map (\<lambda>(k, v). (k, JStr v)) ls) = Some ls"
  by (induction ls) auto

definition service_wf :: "ServiceSummary \<Rightarrow> bool" where
  "service_wf s \<longleftrightarrow>
     s_specHash s \<noteq> [] \<and> s_taskSpecHash s \<noteq> Some [] \<and> s_runtimeSpecHash s \<noteq> Some [] \<and>
     safe_nat (s_version s) \<and> safe_nat (s_forceUpdate s) \<and>
     safe_nat (s_desiredReplicas s) \<and> safe_nat (s_runningReplicas s)"

definition task_wf :: "TaskSummary \<Rightarrow> bool" where
  "task_wf t \<longleftrightarrow>
     t_specHash t \<noteq> [] \<and> t_runtimeSpecHash t \<noteq> [] \<and>
     \<bar>t_slot t\<bar> \<le> SAFE_INTEGER_BOUND \<and> safe_nat (t_forceUpdate t)"

definition node_wf :: "NodeSummary \<Rightarrow> bool" where
  "node_wf n \<longleftrightarrow>
     nd_specHash n \<noteq> [] \<and> safe_nat (nd_version n) \<and>
     \<bar>nd_nanoCpus n\<bar> \<le> SAFE_INTEGER_BOUND \<and> \<bar>nd_memoryBytes n\<bar> \<le> SAFE_INTEGER_BOUND"

lemma service_round_trip: "service_wf s \<Longrightarrow> ServiceSummarySchema (serviceJson s) = Some s"
  by (simp add: ServiceSummarySchema_def serviceJson_def service_wf_def optional_rendered
      del: case_map_option map_of_append)

lemma task_round_trip: "task_wf t \<Longrightarrow> TaskSummarySchema (taskJson t) = Some t"
  by (simp add: TaskSummarySchema_def taskJson_def task_wf_def optional_rendered
      del: case_map_option map_of_append)

lemma node_round_trip: "node_wf n \<Longrightarrow> NodeSummarySchema (nodeJson n) = Some n"
  by (simp add: NodeSummarySchema_def nodeJson_def node_wf_def labelsJson_def optional_rendered
      del: case_map_option map_of_append)

text \<open>What the schemas guarantee of an accepted answer.\<close>

lemma identity_is_a_manager:
  assumes "AgentIdentityResponseSchema j = Some i"
  shows "ai_manager i \<and> ai_clusterId i \<noteq> [] \<and> ai_nodeId i \<noteq> []"
  using assms
  by (auto simp: AgentIdentityResponseSchema_def z_field_def z_string1_def
      split: bind_splits if_splits)

end
