(* ===== verification/Request_Schemas.thy ===== *)
theory Request_Schemas
  imports Agent_Schemas
begin

text \<open>
  The schemas of request bodies: \<^verbatim>\<open>operations/mutation.dto.ts\<close>,
  \<^verbatim>\<open>operations/node-mutation.dto.ts\<close> and \<^verbatim>\<open>deployments/deployment.dto.ts\<close>, and the
  combinators that the schemas of the other controllers use. A schema is a partial function from a
  parsed JSON value; \<open>None\<close> is a validation error. The formats \<open>uuid()\<close> and \<open>url()\<close> belong to
  the schema library and are the argument \<open>zod\<close>, the parser of URLs is an argument too.

  The lemmas state what an accepted request satisfies.
\<close>

section \<open>Combinators\<close>

record Zod =
  zod_uuid :: "string \<Rightarrow> bool"
  zod_url :: "string \<Rightarrow> bool"
  zod_parseUrl :: "string \<Rightarrow> Url option"

definition z_check :: "('a \<Rightarrow> bool) \<Rightarrow> 'a schema \<Rightarrow> 'a schema" where
  "z_check P sch j = do { x \<leftarrow> sch j; if P x then Some x else None }"

definition z_bounded :: "nat \<Rightarrow> nat \<Rightarrow> string schema" where
  "z_bounded lo hi = z_check (\<lambda>s. lo \<le> length s \<and> length s \<le> hi) z_string"

text \<open>\<open>z.string().trim().min(lo).max(hi)\<close>.\<close>

definition z_trimmed :: "nat \<Rightarrow> nat \<Rightarrow> string schema" where
  "z_trimmed lo hi = z_check (\<lambda>s. lo \<le> length s \<and> length s \<le> hi) (\<lambda>j. map_option trim (z_string j))"

definition z_range :: "nat \<Rightarrow> nat \<Rightarrow> nat schema" where
  "z_range lo hi = z_check (\<lambda>n. lo \<le> n \<and> n \<le> hi) z_nat"

text \<open>\<open>default(v)\<close> for a missing property, \<open>nullable().optional()\<close>, and \<open>strict()\<close>.\<close>

definition z_default :: "json \<Rightarrow> string \<Rightarrow> 'a \<Rightarrow> 'a schema \<Rightarrow> 'a option" where
  "z_default j k v sch = map_option (\<lambda>x. case x of None \<Rightarrow> v | Some y \<Rightarrow> y) (z_optional j k sch)"

fun z_nullable :: "'a schema \<Rightarrow> 'a option schema" where
  "z_nullable sch JNull = Some None"
| "z_nullable sch j = map_option Some (sch j)"

definition z_nullish :: "json \<Rightarrow> string \<Rightarrow> 'a schema \<Rightarrow> 'a option option" where
  "z_nullish j k sch = z_default j k None (z_nullable sch)"

fun z_keys :: "string list \<Rightarrow> json \<Rightarrow> bool" where
  "z_keys ks (JObj fs) = list_all (\<lambda>f. fst f \<in> set ks) fs"
| "z_keys ks _ = False"

definition z_recordOf :: "(string \<Rightarrow> bool) \<Rightarrow> 'a schema \<Rightarrow> (string \<times> 'a) list schema" where
  "z_recordOf P sch = z_check (list_all (\<lambda>e. P (fst e))) (z_record sch)"

section \<open>Mutations of services and nodes\<close>

definition OperationIdSchema :: "Zod \<Rightarrow> string schema" where
  "OperationIdSchema zod = z_check (zod_uuid zod) z_string"

definition ScaleServiceRequestSchema :: "Zod \<Rightarrow> ScaleServiceRequest schema" where
  "ScaleServiceRequestSchema zod j = do {
     operationId \<leftarrow> z_field j ''operationId'' (OperationIdSchema zod);
     expectedVersion \<leftarrow> z_field j ''expectedVersion'' z_nat;
     replicas \<leftarrow> z_field j ''replicas'' (z_range 0 1000);
     Some \<lparr>sr_operationId = operationId, sr_expectedVersion = expectedVersion, sr_replicas = replicas\<rparr> }"

definition RestartServiceRequestSchema :: "Zod \<Rightarrow> RestartServiceRequest schema" where
  "RestartServiceRequestSchema zod j = do {
     operationId \<leftarrow> z_field j ''operationId'' (OperationIdSchema zod);
     expectedVersion \<leftarrow> z_field j ''expectedVersion'' z_nat;
     Some \<lparr>rr_operationId = operationId, rr_expectedVersion = expectedVersion\<rparr> }"

definition NodeMutationRequestSchema :: "Zod \<Rightarrow> NodeMutationRequest schema" where
  "NodeMutationRequestSchema zod j = do {
     operationId \<leftarrow> z_field j ''operationId'' (OperationIdSchema zod);
     expectedVersion \<leftarrow> z_field j ''expectedVersion'' z_nat;
     Some \<lparr>nq_operationId = operationId, nq_expectedVersion = expectedVersion, nq_set = [], nq_remove = []\<rparr> }"

definition isLabelKey :: "string \<Rightarrow> bool" where
  "isLabelKey k = (1 \<le> length k \<and> length k \<le> 128)"

text \<open>The refinement of the labels request: some change, and no key both set and removed.\<close>

definition labelChangesOk :: "NodeMutationRequest \<Rightarrow> bool" where
  "labelChangesOk r =
     (\<not> (nq_set r = [] \<and> nq_remove r = []) \<and> list_all (\<lambda>e. fst e \<notin> set (nq_remove r)) (nq_set r))"

definition NodeLabelsRequestSchema :: "Zod \<Rightarrow> NodeMutationRequest schema" where
  "NodeLabelsRequestSchema zod j = do {
     operationId \<leftarrow> z_field j ''operationId'' (OperationIdSchema zod);
     expectedVersion \<leftarrow> z_field j ''expectedVersion'' z_nat;
     setLabels \<leftarrow> z_default j ''set'' [] (z_recordOf isLabelKey (z_bounded 0 4096));
     removed \<leftarrow> z_default j ''remove'' []
       (z_check (\<lambda>ks. length ks \<le> 100) (z_array (z_check isLabelKey z_string)));
     let r = \<lparr>nq_operationId = operationId, nq_expectedVersion = expectedVersion, nq_set = setLabels,
       nq_remove = removed\<rparr>;
     if labelChangesOk r then Some r else None }"

definition CapacityCheckRequestSchema :: "CapacityCheckRequest schema" where
  "CapacityCheckRequestSchema j = do {
     expectedVersion \<leftarrow> z_field j ''expectedVersion'' z_nat;
     targetReplicas \<leftarrow> z_field j ''targetReplicas'' z_nat;
     includeUpdateOverlap \<leftarrow> z_default j ''includeUpdateOverlap'' False z_boolean;
     Some \<lparr>cr_expectedVersion = expectedVersion, cr_targetReplicas = targetReplicas,
       cr_includeUpdateOverlap = includeUpdateOverlap\<rparr> }"

section \<open>Deployments\<close>

definition HealthSchema :: "Zod \<Rightarrow> HealthCheckConfig schema" where
  "HealthSchema zod j = do {
     url \<leftarrow> z_field j ''url'' (z_check (\<lambda>v. zod_url zod v \<and>
       (case zod_parseUrl zod v of Some u \<Rightarrow> u_protocol u \<in> {''http:'', ''https:''} | None \<Rightarrow> False)) z_string);
     intervalMs \<leftarrow> z_default j ''intervalMs'' 500 (z_range 100 10000);
     timeoutMs \<leftarrow> z_default j ''timeoutMs'' 2000 (z_range 100 10000);
     retries \<leftarrow> z_default j ''retries'' 3 (z_range 0 20);
     stabilityWindowMs \<leftarrow> z_default j ''stabilityWindowMs'' 3000 (z_range 500 30000);
     expectedStatus \<leftarrow> z_default j ''expectedStatus'' 200 (z_range 100 599);
     Some \<lparr>h_url = url, h_intervalMs = intervalMs, h_timeoutMs = timeoutMs, h_retries = retries,
       h_stabilityWindowMs = stabilityWindowMs, h_expectedStatus = expectedStatus\<rparr> }"

definition DeployRequestSchema :: "Zod \<Rightarrow> DeployRequest schema" where
  "DeployRequestSchema zod j = do {
     operationId \<leftarrow> z_field j ''operationId'' (z_trimmed 1 64);
     releaseId \<leftarrow> z_field j ''releaseId'' (z_trimmed 1 64);
     health \<leftarrow> z_field j ''health'' (HealthSchema zod);
     Some \<lparr>dq_operationId = operationId, dq_releaseId = releaseId, dq_health = health\<rparr> }"

definition RollbackRequestSchema :: "string schema" where
  "RollbackRequestSchema j = z_field j ''operationId'' (z_trimmed 1 64)"

section \<open>What an accepted request satisfies\<close>

lemma z_check_Some: "z_check P sch j = Some x \<longleftrightarrow> sch j = Some x \<and> P x"
  by (auto simp: z_check_def split: bind_splits if_splits)

lemma z_field_Some: "z_field j k sch = Some x \<longleftrightarrow> (\<exists>v. json_field j k = Some v \<and> sch v = Some x)"
  by (auto simp: z_field_def split: bind_splits)

lemma z_default_Some:
  assumes "z_default j k v (z_check P sch) = Some x" and "P v"
  shows "P x"
  using assms by (cases j) (auto simp: z_default_def z_check_Some split: option.splits)

lemma z_nullable_Some: "z_nullable sch v = Some (Some x) \<Longrightarrow> sch v = Some x"
  by (cases v) auto

lemma z_nullish_Some:
  assumes "z_nullish j k sch = Some (Some x)"
  shows "\<exists>v. sch v = Some x"
  using assms by (cases j) (auto simp: z_nullish_def z_default_def split: option.splits dest: z_nullable_Some)

lemmas schema_facts = z_check_Some z_field_Some z_bounded_def z_trimmed_def z_range_def OperationIdSchema_def

text \<open>The intervals and bounds that the polling loops and the capacity check rely on.\<close>

definition health_ok :: "HealthCheckConfig \<Rightarrow> bool" where
  "health_ok h \<longleftrightarrow> 100 \<le> h_intervalMs h \<and> h_intervalMs h \<le> 10000 \<and> 100 \<le> h_timeoutMs h \<and> h_timeoutMs h \<le> 10000 \<and>
     h_retries h \<le> 20 \<and> 500 \<le> h_stabilityWindowMs h \<and> h_stabilityWindowMs h \<le> 30000 \<and>
     100 \<le> h_expectedStatus h \<and> h_expectedStatus h \<le> 599"

lemma z_default_range:
  "z_default j k v (z_range lo hi) = Some n \<Longrightarrow> lo \<le> v \<Longrightarrow> v \<le> hi \<Longrightarrow> lo \<le> n \<and> n \<le> hi"
  unfolding z_range_def by (drule z_default_Some) auto

lemma HealthSchema_ok:
  assumes "HealthSchema zod j = Some h"
  shows "health_ok h"
proof -
  obtain url i t r sw st where "z_default j ''intervalMs'' 500 (z_range 100 10000) = Some i"
      "z_default j ''timeoutMs'' 2000 (z_range 100 10000) = Some t"
      "z_default j ''retries'' 3 (z_range 0 20) = Some r"
      "z_default j ''stabilityWindowMs'' 3000 (z_range 500 30000) = Some sw"
      "z_default j ''expectedStatus'' 200 (z_range 100 599) = Some st"
      and h: "h = \<lparr>h_url = url, h_intervalMs = i, h_timeoutMs = t, h_retries = r, h_stabilityWindowMs = sw,
        h_expectedStatus = st\<rparr>"
    using assms unfolding HealthSchema_def bind_eq_Some_conv option.inject by blast
  from this(1-5) [THEN z_default_range] show ?thesis by (simp add: h health_ok_def)
qed

lemma ScaleServiceRequestSchema_ok:
  "ScaleServiceRequestSchema zod j = Some r \<Longrightarrow> zod_uuid zod (sr_operationId r) \<and> sr_replicas r \<le> 1000"
  by (auto simp: ScaleServiceRequestSchema_def schema_facts split: bind_splits)

lemma NodeLabelsRequestSchema_ok:
  assumes "NodeLabelsRequestSchema zod j = Some r"
  shows "zod_uuid zod (nq_operationId r) \<and> labelChangesOk r \<and> length (nq_remove r) \<le> 100 \<and>
    list_all (\<lambda>e. isLabelKey (fst e)) (nq_set r)"
  using assms unfolding NodeLabelsRequestSchema_def z_recordOf_def
  by (auto simp: schema_facts Let_def split: bind_splits if_splits dest!: z_default_Some)

end
