(* ===== verification/Deployment_Service.thy ===== *)
theory Deployment_Service
  imports Mutation_Service Health
begin

text \<open>
  \<^verbatim>\<open>deployments/deployment.service.ts\<close>: deploy, historical redeploy and rollback, their
  verification loops with health checks, reconciliation of unfinished deployments and the
  background reconciler. Every private method of the source is a definition; logging is left out.
  Long methods are split at their natural seams (everything before the durable intent, dispatch and
  what follows it, one iteration of a loop).

  The proofs cover the whole service in the locales \<open>recovery_relation\<close> and
  \<open>store_relation\<close>: each transaction is a store step, and a success is recorded only after a
  converged snapshot with converged placement of the plan that \<open>follows\<close> the record.
\<close>

section \<open>Lookups of releases and targets\<close>

definition findDeploymentTarget :: "external \<Rightarrow> string \<Rightarrow> DeploymentTargetRecord option cp" where
  "findDeploymentTarget ext targetId =
     query ext (\<lambda>d. find_row dt_id targetId (deployment_targets d))"

definition findRelease :: "external \<Rightarrow> string \<Rightarrow> ReleaseRecord option cp" where
  "findRelease ext releaseId = query ext (\<lambda>d. find_row rl_id releaseId (releases d))"

section \<open>Helpers\<close>

definition deployment_mapAgentError :: "failure \<Rightarrow> string \<Rightarrow> failure" where
  "deployment_mapAgentError e fallback =
     (case agent_request_error e of
        Some (st, b) \<Rightarrow>
          if st = 409 then ConflictException ''Service changed during deployment''
          else BadGatewayException (fallback @ '': Agent returned HTTP '' @ show_nat st)
      | None \<Rightarrow> BadGatewayException (fallback @ '': '' @ errorMessage e))"

text \<open>\<open>try { ... } catch (error) { throw mapAgentError(error, fallback); }\<close>.\<close>

definition orAgentError :: "'a cp \<Rightarrow> string \<Rightarrow> 'a cp" where
  "orAgentError m fallback = catchM m (\<lambda>e. throwM (deployment_mapAgentError e fallback))"

definition deployment_assertPlanMatchesCurrent ::
    "ServiceMutationPlan \<Rightarrow> ServiceDetailResponse \<Rightarrow> string \<Rightarrow> unit cp" where
  "deployment_assertPlanMatchesCurrent plan current targetImage =
     (if p_serviceId plan \<noteq> s_id (sd_service current)
         \<or> p_version plan \<noteq> s_version (sd_service current)
         \<or> p_beforeSpecHash plan \<noteq> s_specHash (sd_service current)
         \<or> p_targetImage plan \<noteq> Some targetImage
         \<or> falsy (p_targetTaskSpecHash plan) \<or> falsy (p_targetRuntimeSpecHash plan)
      then throwM (ConflictException ''Service changed between deployment inspection and planning'')
      else retM ())"

definition sameHealthConfig :: "HealthCheckConfig \<Rightarrow> HealthCheckConfig \<Rightarrow> bool" where
  "sameHealthConfig left right =
     (h_url left = h_url right \<and> h_intervalMs left = h_intervalMs right
      \<and> h_timeoutMs left = h_timeoutMs right \<and> h_retries left = h_retries right
      \<and> h_stabilityWindowMs left = h_stabilityWindowMs right
      \<and> h_expectedStatus left = h_expectedStatus right)"

definition rollbackAttemptResult :: "DeploymentRecord \<Rightarrow> OperationRecord \<Rightarrow> DeploymentRecord cp" where
  "rollbackAttemptResult deployment operation =
     (if o_type operation \<noteq> ROLLBACK \<or> (o_status operation \<noteq> FAILED \<and> o_status operation \<noteq> SUCCESS)
      then throwM (ConflictException ''Rollback attempt is not terminal'')
      else if d_rollbackOperationId deployment = Some (o_id operation) then retM deployment
      else retM (deployment\<lparr>d_rollbackOperationId := Some (o_id operation),
             d_status := (if o_status operation = FAILED then D_FAILED else ROLLED_BACK),
             d_reason := (if o_status operation = FAILED then o_errorMessage operation else None)\<rparr>))"

definition deployment_requireOperation :: "external \<Rightarrow> string \<Rightarrow> OperationRecord cp" where
  "deployment_requireOperation ext oid =
     bindM (op_findWithConnection ext oid) (\<lambda>row.
       case row of
         None \<Rightarrow> throwM (PlainError ''Deployment operation disappeared after persistence'')
       | Some operation \<Rightarrow> retM operation)"

definition deployment_assertIdempotent :: "OperationRecord \<Rightarrow> string \<Rightarrow> string \<Rightarrow> unit cp" where
  "deployment_assertIdempotent operation actorId serviceId =
     (if o_type operation \<noteq> DEPLOY \<or> o_actorId operation \<noteq> actorId \<or> o_serviceId operation \<noteq> serviceId
      then throwM (ConflictException ''operationId was already used for a different mutation'')
      else retM ())"

definition assertRollbackIdempotent :: "OperationRecord \<Rightarrow> string \<Rightarrow> string \<Rightarrow> unit cp" where
  "assertRollbackIdempotent operation actorId serviceId =
     (if o_type operation \<noteq> ROLLBACK \<or> o_actorId operation \<noteq> actorId \<or> o_serviceId operation \<noteq> serviceId
      then throwM (ConflictException ''operationId was already used for a different mutation'')
      else retM ())"

definition imageOrEmpty :: "string option \<Rightarrow> string" where
  "imageOrEmpty ref = (case ref of None \<Rightarrow> [] | Some i \<Rightarrow> i)"

definition buildObservedRollbackPlan ::
    "DeploymentRecord \<Rightarrow> string \<Rightarrow> ServiceDetailResponse \<Rightarrow> ServiceMutationPlan cp" where
  "buildObservedRollbackPlan deployment previousDigest current =
     (let service = sd_service current in
      case (readSpecHash (d_beforeSpec deployment), readSpecHash (d_targetSpec deployment)) of
        (Some rollbackSpecHash, Some failedSpecHash) \<Rightarrow>
          if s_specHash service \<noteq> rollbackSpecHash
             \<or> digestFromImage (imageOrEmpty (s_image service)) \<noteq> Some (toLowerCase previousDigest)
             \<or> falsy (s_taskSpecHash service) \<or> falsy (s_runtimeSpecHash service)
          then throwM (ConflictException
                 ''Observed Swarm rollback target does not match the recorded previous deployment spec'')
          else retM \<lparr>p_serviceId = s_id service, p_version = s_version service,
                 p_beforeSpecHash = failedSpecHash, p_targetSpecHash = rollbackSpecHash,
                 p_targetForceUpdate = s_forceUpdate service,
                 p_targetReplicas = Some (s_desiredReplicas service),
                 p_targetImage = Some (imageOrEmpty (s_image service)),
                 p_targetTaskSpecHash = s_taskSpecHash service,
                 p_targetRuntimeSpecHash = s_runtimeSpecHash service\<rparr>
      | _ \<Rightarrow> throwM (ConflictException
                 ''Observed Swarm rollback target does not match the recorded previous deployment spec''))"

definition assertRollbackOwnership ::
    "DeploymentRecord \<Rightarrow> string \<Rightarrow> ServiceMutationPlan \<Rightarrow> ServiceDetailResponse \<Rightarrow> unit cp" where
  "assertRollbackOwnership deployment previousDigest plan current =
     (case (readSpecHash (d_beforeSpec deployment), readSpecHash (d_targetSpec deployment)) of
        (Some previousSpecHash, Some failedSpecHash) \<Rightarrow>
          if s_specHash (sd_service current) \<noteq> failedSpecHash
             \<or> p_beforeSpecHash plan \<noteq> failedSpecHash \<or> p_targetSpecHash plan \<noteq> previousSpecHash
             \<or> digestFromImage (imageOrEmpty (p_targetImage plan)) \<noteq> Some (toLowerCase previousDigest)
             \<or> falsy (p_targetTaskSpecHash plan) \<or> falsy (p_targetRuntimeSpecHash plan)
          then throwM (ConflictException
                 ''Swarm rollback ownership does not match the failed deployment transition'')
          else retM ()
      | _ \<Rightarrow> throwM (ConflictException
                 ''Swarm rollback ownership does not match the failed deployment transition''))"

section \<open>Transactions\<close>

text \<open>
  The end of most transactions: read the operation back, or fail with \<open>missing\<close>, and audit.
\<close>

definition auditOf :: "external \<Rightarrow> string \<Rightarrow> string \<Rightarrow> string \<Rightarrow> json \<Rightarrow> unit cp" where
  "auditOf ext oid missing action afterJson =
     bindM (op_findWithConnection ext oid) (\<lambda>row.
     case row of
       None \<Rightarrow> throwM (PlainError missing)
     | Some operation \<Rightarrow>
         op_audit ext (serviceAudit oid (o_actorId operation) (o_clusterId operation)
           (o_serviceId operation) action None (Some afterJson)))"

definition attention :: "external \<Rightarrow> string \<Rightarrow> string \<Rightarrow> string \<Rightarrow> string \<Rightarrow> unit cp" where
  "attention ext did oid code message =
     inTransaction ext
       (thenM (op_markNeedsAttention ext oid code message)
       (thenM (dep_markNeedsAttention ext did message)
         (auditOf ext oid ''Deployment operation disappeared'' ''DEPLOY_NEEDS_ATTENTION''
            (codeMessageJson code message))))"

definition fail :: "external \<Rightarrow> string \<Rightarrow> string \<Rightarrow> string \<Rightarrow> string \<Rightarrow> unit cp" where
  "fail ext did oid code message =
     inTransaction ext
       (thenM (op_markFailed ext oid code message)
       (thenM (dep_markFailed ext did message)
         (auditOf ext oid ''Deployment operation disappeared'' ''DEPLOY_FAILED''
            (codeMessageJson code message))))"

definition markVerificationPending :: "external \<Rightarrow> string \<Rightarrow> string \<Rightarrow> string \<Rightarrow> string \<Rightarrow> unit cp" where
  "markVerificationPending ext did oid code message =
     inTransaction ext
       (thenM (op_markVerificationPending ext oid code message)
       (thenM (dep_markVerificationPending ext did message)
         (auditOf ext oid ''Deployment operation disappeared'' ''DEPLOY_VERIFICATION_PENDING''
            (codeMessageJson code message))))"

definition markRollbackVerificationPending ::
    "external \<Rightarrow> string \<Rightarrow> string \<Rightarrow> string \<Rightarrow> string \<Rightarrow> unit cp" where
  "markRollbackVerificationPending ext did oid code message =
     inTransaction ext
       (thenM (op_markVerificationPending ext oid code message)
       (thenM (dep_markRollbackVerificationPending ext did message)
         (auditOf ext oid ''Rollback operation disappeared'' ''ROLLBACK_VERIFICATION_PENDING''
            (codeMessageJson code message))))"

definition rollbackRejected :: "external \<Rightarrow> string \<Rightarrow> string \<Rightarrow> failure \<Rightarrow> unit cp" where
  "rollbackRejected ext did oid e =
     (let (st, b) = rejectionParts e in
      inTransaction ext
        (thenM (op_markFailed ext oid ''ROLLBACK_REJECTED'' (body_text b))
        (thenM (dep_markFailed ext did (body_text b))
          (auditOf ext oid ''Deployment operation disappeared after persistence'' ''ROLLBACK_REJECTED''
             (rejectionJson st b)))))"

definition rollbackFailed :: "external \<Rightarrow> string \<Rightarrow> string \<Rightarrow> string \<Rightarrow> string \<Rightarrow> unit cp" where
  "rollbackFailed ext did oid code message =
     inTransaction ext
       (thenM (op_markNeedsAttention ext oid code message)
       (thenM (dep_markRollbackFailed ext did message)
         (auditOf ext oid ''Rollback operation disappeared'' ''ROLLBACK_FAILED''
            (codeMessageJson code message))))"

definition rollbackAttention :: "external \<Rightarrow> string \<Rightarrow> string \<Rightarrow> string \<Rightarrow> string \<Rightarrow> unit cp" where
  "rollbackAttention ext did oid code message =
     inTransaction ext
       (thenM (op_markNeedsAttention ext oid code message)
       (thenM (dep_markNeedsAttention ext did message)
         (auditOf ext oid ''Rollback operation disappeared'' ''ROLLBACK_NEEDS_ATTENTION''
            (codeMessageJson code message))))"

definition deployment_markVerifying :: "external \<Rightarrow> string \<Rightarrow> string \<Rightarrow> nat \<Rightarrow> unit cp" where
  "deployment_markVerifying ext did oid resultVersion =
     inTransaction ext
       (thenM (op_markVerifying ext oid resultVersion) (dep_markVerifying ext did))"

definition markRollbackVerifying :: "external \<Rightarrow> string \<Rightarrow> string \<Rightarrow> nat \<Rightarrow> unit cp" where
  "markRollbackVerifying ext did oid resultVersion =
     inTransaction ext
       (thenM (op_markVerifying ext oid resultVersion) (dep_markRollbackVerifying ext did))"

definition successAction :: "DeploymentKind \<Rightarrow> bool \<Rightarrow> string" where
  "successAction kind noOp =
     (if kind = HISTORICAL_REDEPLOY
      then (if noOp then ''HISTORICAL_REDEPLOY_NO_OP_SUCCEEDED'' else ''HISTORICAL_REDEPLOY_SUCCEEDED'')
      else (if noOp then ''DEPLOY_NO_OP_SUCCEEDED'' else ''DEPLOY_SUCCEEDED''))"

definition completeDeployment :: "external \<Rightarrow> string \<Rightarrow> string \<Rightarrow> bool \<Rightarrow> ServiceDetailResponse \<Rightarrow> unit cp" where
  "completeDeployment ext did oid noOp finalCurrent =
     inTransaction ext
       (thenM (op_markSuccess ext oid (s_version (sd_service finalCurrent)))
       (thenM (dep_markSuccess ext did)
       (bindM (op_findWithConnection ext oid) (\<lambda>row.
        case row of
          None \<Rightarrow> throwM (PlainError ''Deployment operation disappeared'')
        | Some operation \<Rightarrow>
            bindM (dep_requireWithConnection ext did) (\<lambda>persisted.
            op_audit ext (serviceAudit oid (o_actorId operation) (o_clusterId operation)
              (o_serviceId operation) (successAction (d_kind persisted) noOp) None
              (Some (serviceJson (sd_service finalCurrent)))))))))"

definition completeRollback :: "external \<Rightarrow> string \<Rightarrow> string \<Rightarrow> ServiceDetailResponse \<Rightarrow> unit cp" where
  "completeRollback ext did oid finalCurrent =
     inTransaction ext
       (thenM (op_markSuccess ext oid (s_version (sd_service finalCurrent)))
       (thenM (dep_markRolledBack ext did)
         (auditOf ext oid ''Rollback operation disappeared'' ''ROLLBACK_SUCCEEDED''
            (serviceJson (sd_service finalCurrent)))))"

definition startAction :: "DeploymentKind \<Rightarrow> bool \<Rightarrow> string" where
  "startAction kind noOp =
     (if kind = HISTORICAL_REDEPLOY
      then (if noOp then ''HISTORICAL_REDEPLOY_NO_OP_STARTED'' else ''HISTORICAL_REDEPLOY_STARTED'')
      else (if noOp then ''DEPLOY_NO_OP_STARTED'' else ''DEPLOY_STARTED''))"

definition targetSpecJson :: "ServiceMutationPlan \<Rightarrow> ServiceDetailResponse \<Rightarrow> string \<Rightarrow> json" where
  "targetSpecJson plan before targetImage =
     JObj ([(''specHash'', JStr (p_targetSpecHash plan)), (''image'', JStr targetImage),
            (''desiredReplicas'', jnat (s_desiredReplicas (sd_service before)))]
       @ opt_field ''taskSpecHash'' JStr (p_targetTaskSpecHash plan)
       @ opt_field ''runtimeSpecHash'' JStr (p_targetRuntimeSpecHash plan))"

definition deployment_persistIntent ::
    "external \<Rightarrow> string \<Rightarrow> string \<Rightarrow> string \<Rightarrow> DeployRequest \<Rightarrow> Principal \<Rightarrow> ServiceMutationPlan \<Rightarrow>
     ServiceDetailResponse \<Rightarrow> string \<Rightarrow> bool \<Rightarrow> DeploymentKind \<Rightarrow> string option \<Rightarrow> DeploymentRecord cp" where
  "deployment_persistIntent ext clusterId targetId releaseId input actor plan before targetImage noOp
       kind sourceDeploymentId =
     inTransaction ext
       (bindM (dep_latestSuccessfulReleaseId ext targetId) (\<lambda>previousReleaseId.
        thenM (op_create ext
          \<lparr>oi_id = dq_operationId input, oi_clusterId = clusterId, oi_serviceId = p_serviceId plan,
           oi_type = DEPLOY, oi_actorId = pr_actorId actor, oi_expectedVersion = p_version plan,
           oi_beforeSpecHash = p_beforeSpecHash plan, oi_targetSpecHash = p_targetSpecHash plan,
           oi_targetForceUpdate = p_targetForceUpdate plan,
           oi_targetReplicas = Some (s_desiredReplicas (sd_service before)),
           oi_targetImage = Some targetImage, oi_targetTaskSpecHash = p_targetTaskSpecHash plan,
           oi_targetRuntimeSpecHash = p_targetRuntimeSpecHash plan\<rparr>)
       (thenM (op_markRunning ext (dq_operationId input))
       (bindM (dep_create ext
          \<lparr>dpi_kind = kind, dpi_sourceDeploymentId = sourceDeploymentId, dpi_releaseId = releaseId,
           dpi_previousReleaseId = previousReleaseId, dpi_deploymentTargetId = targetId,
           dpi_operationId = dq_operationId input,
           dpi_status = (if noOp then D_VERIFYING else DEPLOYING), dpi_noOp = noOp,
           dpi_beforeSpec = serviceJson (sd_service before),
           dpi_targetSpec = targetSpecJson plan before targetImage,
           dpi_health = dq_health input, dpi_expectedServiceVersion = p_version plan,
           dpi_createdBy = pr_actorId actor\<rparr>) (\<lambda>deployment.
        thenM (op_audit ext
          \<lparr>a_operationId = dq_operationId input, a_actorId = pr_actorId actor, a_clusterId = clusterId,
           a_serviceId = p_serviceId plan, a_resourceType = Some ''service'',
           a_resourceId = Some (p_serviceId plan), a_action = startAction kind noOp,
           a_beforeJson = Some (serviceJson (sd_service before)),
           a_afterJson = Some (d_targetSpec deployment)\<rparr>)
          (retM deployment))))))"

definition persistRollbackIntent ::
    "external \<Rightarrow> string \<Rightarrow> DeploymentRecord \<Rightarrow> Principal \<Rightarrow> string \<Rightarrow> ServiceMutationPlan \<Rightarrow>
     ServiceDetailResponse \<Rightarrow> unit cp" where
  "persistRollbackIntent ext clusterId deployment actor oid plan before =
     inTransaction ext
       (thenM (op_create ext
          \<lparr>oi_id = oid, oi_clusterId = clusterId, oi_serviceId = p_serviceId plan,
           oi_type = ROLLBACK, oi_actorId = pr_actorId actor, oi_expectedVersion = p_version plan,
           oi_beforeSpecHash = p_beforeSpecHash plan, oi_targetSpecHash = p_targetSpecHash plan,
           oi_targetForceUpdate = p_targetForceUpdate plan, oi_targetReplicas = p_targetReplicas plan,
           oi_targetImage = p_targetImage plan, oi_targetTaskSpecHash = p_targetTaskSpecHash plan,
           oi_targetRuntimeSpecHash = p_targetRuntimeSpecHash plan\<rparr>)
       (thenM (op_markRunning ext oid)
       (thenM (dep_recordRollbackAttempt ext (d_id deployment) oid)
       (thenM (dep_markRollingBack ext (d_id deployment) oid)
         (op_audit ext (serviceAudit oid (pr_actorId actor) clusterId (p_serviceId plan)
            ''ROLLBACK_STARTED'' (Some (serviceJson (sd_service before)))
            (Some (JObj ([(''targetSpecHash'', JStr (p_targetSpecHash plan))]
               @ opt_field ''targetImage'' JStr (p_targetImage plan)
               @ opt_field ''targetTaskSpecHash'' JStr (p_targetTaskSpecHash plan))))))))))"

section \<open>Convergence\<close>

definition RECONCILE_OBSERVATION_MS :: nat where "RECONCILE_OBSERVATION_MS = 10000"

definition placementDecision :: "external \<Rightarrow> string \<Rightarrow> DeploymentDecision cp" where
  "placementDecision ext serviceId =
     bindM (attempt (checkServicePlacement ext serviceId)) (\<lambda>r.
       retM (case r of
               Inr status \<Rightarrow> if status = PlConverged then DecSuccess else DecPending
             | Inl e \<Rightarrow> DecPending))"

definition classifyDeploymentConvergence ::
    "external \<Rightarrow> ServiceDetailResponse \<Rightarrow> ServiceMutationPlan \<Rightarrow> string \<Rightarrow> bool \<Rightarrow> DeploymentDecision cp" where
  "classifyDeploymentConvergence ext current plan digest noOp =
     (let decision = classifyDeploymentSnapshot current plan digest noOp in
      if decision \<noteq> DecSuccess then retM decision else placementDecision ext (p_serviceId plan))"

definition classifyRollbackConvergence ::
    "external \<Rightarrow> ServiceDetailResponse \<Rightarrow> ServiceMutationPlan \<Rightarrow> string \<Rightarrow> DeploymentDecision cp" where
  "classifyRollbackConvergence ext current plan digest =
     (let decision = classifyRollbackSnapshot current plan digest in
      if decision \<noteq> DecSuccess then retM decision else placementDecision ext (p_serviceId plan))"

text \<open>The convergence checks that are handed to the health verifier.\<close>

definition deploymentGuard :: "external \<Rightarrow> ServiceMutationPlan \<Rightarrow> string \<Rightarrow> bool \<Rightarrow> unit cp" where
  "deploymentGuard ext plan digest noOp =
     bindM (attempt (inspectService ext (p_serviceId plan))) (\<lambda>r.
     case r of
       Inl e \<Rightarrow> throwM (DeploymentConvergenceGuardError None (errorMessage e))
     | Inr guarded \<Rightarrow>
         bindM (classifyDeploymentConvergence ext guarded plan digest noOp) (\<lambda>decision.
         if decision \<noteq> DecSuccess
         then throwM (DeploymentConvergenceGuardError (Some decision)
                ''Deployment convergence changed during health verification'')
         else retM ()))"

definition rollbackGuard :: "external \<Rightarrow> ServiceMutationPlan \<Rightarrow> string \<Rightarrow> unit cp" where
  "rollbackGuard ext plan digest =
     bindM (attempt (inspectService ext (p_serviceId plan))) (\<lambda>r.
     case r of
       Inl e \<Rightarrow> throwM (RollbackConvergenceGuardError None (errorMessage e))
     | Inr guarded \<Rightarrow>
         bindM (classifyRollbackConvergence ext guarded plan digest) (\<lambda>decision.
         if decision \<noteq> DecSuccess
         then throwM (RollbackConvergenceGuardError (Some decision)
                ''Rollback convergence changed during recovery health verification'')
         else retM ()))"

section \<open>Verification of a deployment\<close>

text \<open>
  \<open>await this.attention(...); return this.deployments.requireWithConnection(...)\<close> and the like
  inside a loop.
\<close>

definition concludeWith :: "external \<Rightarrow> string \<Rightarrow> unit cp \<Rightarrow> ('s, DeploymentRecord) loop_step cp" where
  "concludeWith ext did m =
     thenM m (bindM (dep_requireWithConnection ext did) (\<lambda>d. retM (Break d)))"

text \<open>One iteration after a failed health verification.\<close>

definition deploymentHealthError ::
    "external \<Rightarrow> string \<Rightarrow> string \<Rightarrow> failure \<Rightarrow> (string option, DeploymentRecord) loop_step cp" where
  "deploymentHealthError ext did oid e =
     (case e of
        DeploymentConvergenceGuardError decision message \<Rightarrow>
          (case decision of
             Some DecExternalConflict \<Rightarrow>
               concludeWith ext did (attention ext did oid ''EXTERNAL_SERVICE_CONFLICT''
                 ''Service changed during the health stability window'')
           | Some DecRollbackPaused \<Rightarrow>
               concludeWith ext did (attention ext did oid ''SWARM_ROLLBACK_PAUSED''
                 ''Swarm automatic rollback paused during health verification'')
           | Some DecFailed \<Rightarrow>
               concludeWith ext did (fail ext did oid ''CONVERGENCE_FAILED''
                 ''Swarm update entered a terminal failed state during health verification'')
           | None \<Rightarrow> retM (Continue (Some message))
           | Some _ \<Rightarrow> retM (Continue None))
      | _ \<Rightarrow> concludeWith ext did (fail ext did oid ''HEALTH_VERIFICATION_FAILED'' (errorMessage e)))"

text \<open>One iteration after a passed health verification.\<close>

definition deploymentFinalCheck ::
    "external \<Rightarrow> string \<Rightarrow> string \<Rightarrow> ServiceMutationPlan \<Rightarrow> string \<Rightarrow> bool \<Rightarrow>
     (string option, DeploymentRecord) loop_step cp" where
  "deploymentFinalCheck ext did oid plan digest noOp =
     bindM (attempt (inspectService ext (p_serviceId plan))) (\<lambda>r.
     case r of
       Inl e \<Rightarrow> retM (Continue (Some (errorMessage e)))
     | Inr finalCurrent \<Rightarrow>
         bindM (classifyDeploymentConvergence ext finalCurrent plan digest noOp) (\<lambda>finalDecision.
         case finalDecision of
           DecPending \<Rightarrow> retM (Continue None)
         | DecRollbackPaused \<Rightarrow>
             concludeWith ext did (attention ext did oid ''SWARM_ROLLBACK_PAUSED''
               ''Swarm automatic rollback paused before deployment success persistence'')
         | DecFailed \<Rightarrow>
             concludeWith ext did (fail ext did oid ''CONVERGENCE_FAILED''
               ''Swarm update changed to a terminal failed state before success persistence'')
         | DecExternalConflict \<Rightarrow>
             concludeWith ext did (attention ext did oid ''EXTERNAL_SERVICE_CONFLICT''
               ''Service changed before deployment success could be persisted'')
         | DecSuccess \<Rightarrow>
             concludeWith ext did (completeDeployment ext did oid noOp finalCurrent)))"

definition deploymentVerifyStep ::
    "external \<Rightarrow> string \<Rightarrow> string \<Rightarrow> ServiceMutationPlan \<Rightarrow> string \<Rightarrow> bool \<Rightarrow> HealthCheckConfig \<Rightarrow>
     string option \<Rightarrow> (string option, DeploymentRecord) loop_step cp" where
  "deploymentVerifyStep ext did oid plan digest noOp health lastError =
     bindM (attempt (inspectService ext (p_serviceId plan))) (\<lambda>r.
     case r of
       Inl e \<Rightarrow> retM (Continue (Some (errorMessage e)))
     | Inr current \<Rightarrow>
         bindM (classifyDeploymentConvergence ext current plan digest noOp) (\<lambda>decision.
         case decision of
           DecRollbackPaused \<Rightarrow>
             concludeWith ext did (attention ext did oid ''SWARM_ROLLBACK_PAUSED''
               ''Swarm automatic rollback is paused and requires operator attention'')
         | DecFailed \<Rightarrow>
             concludeWith ext did (fail ext did oid ''CONVERGENCE_FAILED''
               ''Swarm update entered a terminal failed or rollback state'')
         | DecExternalConflict \<Rightarrow>
             concludeWith ext did (attention ext did oid ''EXTERNAL_SERVICE_CONFLICT''
               ''Current service spec diverged from the deployment target'')
         | DecPending \<Rightarrow> retM (Continue None)
         | DecSuccess \<Rightarrow>
             bindM (attempt (health_verify ext health (deploymentGuard ext plan digest noOp))) (\<lambda>verified.
             case verified of
               Inl e \<Rightarrow> deploymentHealthError ext did oid e
             | Inr _ \<Rightarrow> deploymentFinalCheck ext did oid plan digest noOp)))"

definition verifyAndComplete ::
    "external \<Rightarrow> string \<Rightarrow> string \<Rightarrow> ServiceMutationPlan \<Rightarrow> string \<Rightarrow> bool \<Rightarrow> HealthCheckConfig \<Rightarrow>
     DeploymentRecord cp" where
  "verifyAndComplete ext did oid plan digest noOp health =
     bindM (poll ext VERIFY_TIMEOUT_MS VERIFY_INTERVAL_MS
              (deploymentVerifyStep ext did oid plan digest noOp health) None) (\<lambda>r.
     case r of
       Inr deployment \<Rightarrow> retM deployment
     | Inl lastError \<Rightarrow>
         thenM
           (if \<not> falsy lastError
            then attention ext did oid ''DEPLOYMENT_VERIFICATION_UNAVAILABLE''
                   (''Deployment verification timed out after Agent errors: '' @ the lastError)
            else markVerificationPending ext did oid ''DEPLOYMENT_OBSERVATION_TIMEOUT''
                   ''Deployment is still converging after the synchronous observation window; mutation protection remains active'')
           (dep_requireWithConnection ext did))"

section \<open>Verification of a rollback\<close>

definition rollbackHealthError ::
    "external \<Rightarrow> string \<Rightarrow> string \<Rightarrow> failure \<Rightarrow> (string option, DeploymentRecord) loop_step cp" where
  "rollbackHealthError ext did oid e =
     (case e of
        RollbackConvergenceGuardError decision message \<Rightarrow>
          (case decision of
             Some DecFailed \<Rightarrow>
               concludeWith ext did (rollbackFailed ext did oid ''ROLLBACK_FAILED''
                 ''Rollback became unhealthy during recovery verification'')
           | Some DecExternalConflict \<Rightarrow>
               concludeWith ext did (rollbackAttention ext did oid ''ROLLBACK_EXTERNAL_CONFLICT''
                 ''Service changed during rollback recovery health verification'')
           | None \<Rightarrow> retM (Continue (Some message))
           | Some _ \<Rightarrow> retM (Continue None))
      | _ \<Rightarrow> concludeWith ext did (rollbackFailed ext did oid ''ROLLBACK_HEALTH_FAILED'' (errorMessage e)))"

definition rollbackFinalCheck ::
    "external \<Rightarrow> string \<Rightarrow> string \<Rightarrow> ServiceMutationPlan \<Rightarrow> string \<Rightarrow>
     (string option, DeploymentRecord) loop_step cp" where
  "rollbackFinalCheck ext did oid plan digest =
     bindM (attempt (inspectService ext (p_serviceId plan))) (\<lambda>r.
     case r of
       Inl e \<Rightarrow> retM (Continue (Some (errorMessage e)))
     | Inr finalCurrent \<Rightarrow>
         bindM (classifyRollbackConvergence ext finalCurrent plan digest) (\<lambda>finalDecision.
         case finalDecision of
           DecPending \<Rightarrow> retM (Continue None)
         | DecFailed \<Rightarrow>
             concludeWith ext did (rollbackFailed ext did oid ''ROLLBACK_FAILED''
               ''Rollback changed to a terminal failed state before persistence'')
         | DecExternalConflict \<Rightarrow>
             concludeWith ext did (rollbackAttention ext did oid ''ROLLBACK_EXTERNAL_CONFLICT''
               ''Service changed before rollback success could be persisted'')
         | _ \<Rightarrow> concludeWith ext did (completeRollback ext did oid finalCurrent)))"

definition rollbackVerifyStep ::
    "external \<Rightarrow> string \<Rightarrow> string \<Rightarrow> ServiceMutationPlan \<Rightarrow> string \<Rightarrow> HealthCheckConfig \<Rightarrow>
     string option \<Rightarrow> (string option, DeploymentRecord) loop_step cp" where
  "rollbackVerifyStep ext did oid plan digest health lastError =
     bindM (attempt (inspectService ext (p_serviceId plan))) (\<lambda>r.
     case r of
       Inl e \<Rightarrow> retM (Continue (Some (errorMessage e)))
     | Inr current \<Rightarrow>
         bindM (classifyRollbackConvergence ext current plan digest) (\<lambda>decision.
         case decision of
           DecFailed \<Rightarrow>
             concludeWith ext did (rollbackFailed ext did oid ''ROLLBACK_FAILED''
               ''Swarm rollback entered a terminal failed state'')
         | DecExternalConflict \<Rightarrow>
             concludeWith ext did (rollbackAttention ext did oid ''ROLLBACK_EXTERNAL_CONFLICT''
               ''Service changed outside the recorded rollback target'')
         | DecSuccess \<Rightarrow>
             bindM (attempt (health_verify ext health (rollbackGuard ext plan digest))) (\<lambda>verified.
             case verified of
               Inl e \<Rightarrow> rollbackHealthError ext did oid e
             | Inr _ \<Rightarrow> rollbackFinalCheck ext did oid plan digest)
         | _ \<Rightarrow> retM (Continue None)))"

definition verifyRollbackAndComplete ::
    "external \<Rightarrow> string \<Rightarrow> string \<Rightarrow> ServiceMutationPlan \<Rightarrow> string \<Rightarrow> HealthCheckConfig \<Rightarrow>
     DeploymentRecord cp" where
  "verifyRollbackAndComplete ext did oid plan digest health =
     bindM (poll ext VERIFY_TIMEOUT_MS VERIFY_INTERVAL_MS
              (rollbackVerifyStep ext did oid plan digest health) None) (\<lambda>r.
     case r of
       Inr deployment \<Rightarrow> retM deployment
     | Inl lastError \<Rightarrow>
         thenM
           (if \<not> falsy lastError
            then rollbackAttention ext did oid ''ROLLBACK_VERIFICATION_UNAVAILABLE''
                   (''Rollback verification timed out after Agent errors: '' @ the lastError)
            else markRollbackVerificationPending ext did oid ''ROLLBACK_OBSERVATION_TIMEOUT''
                   ''Rollback is still converging after the synchronous observation window'')
           (dep_requireWithConnection ext did))"

section \<open>Reconciliation\<close>

definition legacyIntentHasExternalConflict :: "external \<Rightarrow> OperationRecord \<Rightarrow> bool cp" where
  "legacyIntentHasExternalConflict ext operation =
     (if \<not> falsy (o_targetRuntimeSpecHash operation) \<or> o_beforeSpecHash operation = []
         \<or> o_targetSpecHash operation = []
      then retM False
      else bindM (attempt (inspectService ext (o_serviceId operation))) (\<lambda>r.
        retM (case r of
                Inl e \<Rightarrow> False
              | Inr current \<Rightarrow>
                  s_specHash (sd_service current) \<noteq> o_beforeSpecHash operation
                  \<and> s_specHash (sd_service current) \<noteq> o_targetSpecHash operation)))"

text \<open>
  The fingerprint of the agent's plan, if the plan has the recorded target; the outer
  \<open>None\<close> is the early \<open>return null\<close> after an Agent error.
\<close>

definition plannedFingerprint :: "OperationRecord \<Rightarrow> failure + ServiceMutationPlan \<Rightarrow> string option option" where
  "plannedFingerprint operation r =
     (case r of
        Inl e \<Rightarrow> None
      | Inr plan \<Rightarrow>
          Some (if p_targetSpecHash plan = o_targetSpecHash operation
                   \<and> p_targetTaskSpecHash plan = o_targetTaskSpecHash operation
                then p_targetRuntimeSpecHash plan else None))"

definition legacyFingerprint :: "external \<Rightarrow> OperationRecord \<Rightarrow> ServiceDetailResponse \<Rightarrow> string option option cp" where
  "legacyFingerprint ext operation current =
     (let service = sd_service current in
      if s_specHash service = o_targetSpecHash operation \<and> \<not> falsy (s_runtimeSpecHash service)
      then retM (Some (s_runtimeSpecHash service))
      else if o_type operation = DEPLOY then
        bindM (attempt (planUpdateServiceImage ext (o_serviceId operation) (s_version service)
                 (the (o_targetImage operation)))) (\<lambda>r. retM (plannedFingerprint operation r))
      else if o_type operation = ROLLBACK then
        bindM (attempt (planRollbackService ext (o_serviceId operation) (s_version service)))
          (\<lambda>r. retM (plannedFingerprint operation r))
      else retM (Some None))"

definition hydrateLegacyRuntimeFingerprint :: "external \<Rightarrow> OperationRecord \<Rightarrow> OperationRecord option cp" where
  "hydrateLegacyRuntimeFingerprint ext operation =
     (if \<not> falsy (o_targetRuntimeSpecHash operation) then retM (Some operation)
      else if o_targetSpecHash operation = [] \<or> falsy (o_targetTaskSpecHash operation)
              \<or> falsy (o_targetImage operation)
      then retM None
      else bindM (attempt (inspectService ext (o_serviceId operation))) (\<lambda>r.
        case r of
          Inl e \<Rightarrow> retM None
        | Inr current \<Rightarrow>
            bindM (legacyFingerprint ext operation current) (\<lambda>found.
            case found of
              None \<Rightarrow> retM None
            | Some runtimeSpecHash \<Rightarrow>
                if falsy runtimeSpecHash then retM None
                else thenM (op_backfillTargetRuntimeSpecHash ext (o_id operation) (the runtimeSpecHash))
                       (retM (Some (operation\<lparr>o_targetRuntimeSpecHash := runtimeSpecHash\<rparr>))))))"

text \<open>The recorded target is complete except for the runtime fingerprint.\<close>

definition legacyTarget :: "OperationType \<Rightarrow> OperationRecord \<Rightarrow> bool" where
  "legacyTarget type operation =
     (o_type operation = type \<and> o_beforeSpecHash operation \<noteq> [] \<and> o_targetSpecHash operation \<noteq> []
      \<and> \<not> falsy (o_targetImage operation) \<and> \<not> falsy (o_targetTaskSpecHash operation)
      \<and> falsy (o_targetRuntimeSpecHash operation))"

definition completeTarget :: "OperationType \<Rightarrow> OperationRecord \<Rightarrow> bool" where
  "completeTarget type operation =
     (o_type operation = type \<and> o_beforeSpecHash operation \<noteq> [] \<and> o_targetSpecHash operation \<noteq> []
      \<and> \<not> falsy (o_targetImage operation) \<and> \<not> falsy (o_targetTaskSpecHash operation)
      \<and> \<not> falsy (o_targetRuntimeSpecHash operation))"

definition updateStateName :: "ServiceDetailResponse \<Rightarrow> string" where
  "updateStateName current =
     (case s_updateState (sd_service current) of None \<Rightarrow> ''undefined'' | Some st \<Rightarrow> st)"

text \<open>
  One iteration of the observation loop of \<open>reconcileLocked\<close>; the loop state is
  \<open>(lastError, observedService, rollbackInProgress)\<close>.
\<close>

definition reconcileStep ::
    "external \<Rightarrow> OperationRecord \<Rightarrow> OperationRecord \<Rightarrow> DeploymentRecord \<Rightarrow> string \<Rightarrow>
     string option \<times> bool \<times> bool \<Rightarrow> (string option \<times> bool \<times> bool, DeploymentRecord) loop_step cp" where
  "reconcileStep ext operation compatible deployment digest s =
     (let did = d_id deployment; (lastError, observedService, rollbackInProgress) = s in
      bindM (attempt (inspectService ext (o_serviceId compatible))) (\<lambda>r.
      case r of
        Inl e \<Rightarrow> retM (Continue (Some (errorMessage e), observedService, rollbackInProgress))
      | Inr current \<Rightarrow>
          (case classifyDeploymentReconciliationSnapshot operation current of
             ROLLBACK_IN_PROGRESS \<Rightarrow> retM (Continue (None, True, True))
           | ROLLBACK_PAUSED \<Rightarrow>
               concludeWith ext did (attention ext did (o_id compatible) ''SWARM_ROLLBACK_PAUSED''
                 ''Swarm automatic rollback is paused and requires operator attention'')
           | RECON_FAILED \<Rightarrow>
               concludeWith ext did (fail ext did (o_id compatible) ''CONVERGENCE_FAILED''
                 (''Swarm update entered '' @ updateStateName current))
           | TARGET_OBSERVED \<Rightarrow>
               thenM
                 (if o_status compatible \<noteq> VERIFYING \<or> d_status deployment \<noteq> D_VERIFYING
                  then deployment_markVerifying ext did (o_id compatible) (s_version (sd_service current))
                  else retM ())
                 (bindM (verifyAndComplete ext did (o_id compatible) (planOfOperation compatible) digest
                    (d_noOp deployment) (d_health deployment)) (\<lambda>d. retM (Break d)))
           | WAITING_FOR_MUTATION \<Rightarrow> retM (Continue (None, True, rollbackInProgress))
           | EXTERNAL_CONFLICT \<Rightarrow>
               concludeWith ext did (attention ext did (o_id operation) ''EXTERNAL_SERVICE_CONFLICT''
                 ''Service changed outside the recorded deployment target''))))"

text \<open>After the observation window.\<close>

definition reconcileTimeout ::
    "external \<Rightarrow> OperationRecord \<Rightarrow> DeploymentRecord \<Rightarrow> string option \<Rightarrow>
     string option \<times> bool \<times> bool \<Rightarrow> DeploymentRecord cp" where
  "reconcileTimeout ext operation deployment initialError s =
     (let did = d_id deployment; oid = o_id operation;
          (lastError, observedService, rollbackInProgress) = s in
      thenM
        (if rollbackInProgress then
           markVerificationPending ext did oid ''SWARM_ROLLBACK_IN_PROGRESS''
             ''Swarm rollback is still in progress; mutation protection remains active''
         else if \<not> observedService \<and> \<not> falsy lastError then
           attention ext did oid ''DEPLOYMENT_RECONCILIATION_UNAVAILABLE''
             (''Unable to inspect deployment outcome: '' @ the lastError)
         else
           attention ext did oid ''DEPLOYMENT_MUTATION_NOT_OBSERVED''
             (if \<not> falsy initialError
              then ''Agent response was lost and the deployment target was not observed: '' @ the initialError
              else ''Persisted deployment intent exists but the target service spec was not observed''))
        (dep_requireWithConnection ext did))"

text \<open>\<open>await this.attention(...); return this.deployments.requireWithConnection(...)\<close>.\<close>

definition giveUp :: "external \<Rightarrow> string \<Rightarrow> unit cp \<Rightarrow> DeploymentRecord cp" where
  "giveUp ext did m = thenM m (dep_requireWithConnection ext did)"

definition deployment_reconcileLocked ::
    "external \<Rightarrow> OperationRecord \<Rightarrow> DeploymentRecord \<Rightarrow> string option \<Rightarrow> DeploymentRecord cp" where
  "deployment_reconcileLocked ext operation deployment initialError =
     (let did = d_id deployment; oid = o_id operation in
      bindM (legacyIntentHasExternalConflict ext operation) (\<lambda>conflict.
      if conflict then
        giveUp ext did (attention ext did oid ''EXTERNAL_SERVICE_CONFLICT''
          ''Service changed outside the recorded legacy deployment transition'')
      else
        bindM (hydrateLegacyRuntimeFingerprint ext operation) (\<lambda>hydrated.
        case hydrated of
          None \<Rightarrow>
            if legacyTarget DEPLOY operation then
              giveUp ext did (markVerificationPending ext did oid ''LEGACY_RUNTIME_FINGERPRINT_PENDING''
                ''Legacy deployment intent runtime fingerprint could not be reconstructed yet; reconciliation will retry'')
            else
              giveUp ext did (attention ext did oid ''DEPLOYMENT_MISSING_TARGET''
                ''Deployment intent is missing the persisted target needed for reconciliation'')
        | Some compatible \<Rightarrow>
            if \<not> completeTarget DEPLOY compatible then
              giveUp ext did (attention ext did oid ''DEPLOYMENT_MISSING_TARGET''
                ''Deployment intent is missing the persisted target needed for reconciliation'')
            else
              (case digestFromImage (the (o_targetImage compatible)) of
                 None \<Rightarrow>
                   giveUp ext did (attention ext did oid ''DEPLOYMENT_INVALID_TARGET_IMAGE''
                     ''Persisted deployment target image is not digest-pinned'')
               | Some digest \<Rightarrow>
                   bindM (poll ext RECONCILE_OBSERVATION_MS VERIFY_INTERVAL_MS
                     (reconcileStep ext operation compatible deployment digest)
                     (initialError, False, False)) (\<lambda>r.
                   case r of
                     Inr d \<Rightarrow> retM d
                   | Inl s \<Rightarrow> reconcileTimeout ext operation deployment initialError s)))))"

definition rollbackReconcileStep ::
    "external \<Rightarrow> OperationRecord \<Rightarrow> DeploymentRecord \<Rightarrow> string \<Rightarrow>
     string option \<Rightarrow> (string option, DeploymentRecord) loop_step cp" where
  "rollbackReconcileStep ext compatible deployment digest lastError =
     (let did = d_id deployment; plan = planOfOperation compatible in
      bindM (attempt (inspectService ext (o_serviceId compatible))) (\<lambda>r.
      case r of
        Inl e \<Rightarrow> retM (Continue (Some (errorMessage e)))
      | Inr current \<Rightarrow>
          bindM (classifyRollbackConvergence ext current plan digest) (\<lambda>decision.
          case decision of
            DecSuccess \<Rightarrow>
              thenM
                (if o_status compatible \<noteq> VERIFYING \<or> d_status deployment \<noteq> ROLLBACK_VERIFYING
                 then markRollbackVerifying ext did (o_id compatible) (s_version (sd_service current))
                 else retM ())
                (bindM (verifyRollbackAndComplete ext did (o_id compatible) plan digest
                   (d_health deployment)) (\<lambda>d. retM (Break d)))
          | DecFailed \<Rightarrow>
              concludeWith ext did (rollbackFailed ext did (o_id compatible) ''ROLLBACK_FAILED''
                (''Swarm rollback entered '' @ updateStateName current))
          | DecExternalConflict \<Rightarrow>
              concludeWith ext did (rollbackAttention ext did (o_id compatible) ''ROLLBACK_EXTERNAL_CONFLICT''
                ''Service changed outside the recorded rollback target'')
          | _ \<Rightarrow> retM (Continue None))))"

definition rollbackReconcileTimeout ::
    "external \<Rightarrow> OperationRecord \<Rightarrow> DeploymentRecord \<Rightarrow> string option \<Rightarrow> string option \<Rightarrow> DeploymentRecord cp" where
  "rollbackReconcileTimeout ext operation deployment initialError lastError =
     (let did = d_id deployment; oid = o_id operation in
      thenM
        (if \<not> falsy lastError then
           rollbackAttention ext did oid ''ROLLBACK_RECONCILIATION_UNAVAILABLE''
             (''Unable to inspect rollback outcome: '' @ the lastError)
         else
           markRollbackVerificationPending ext did oid ''ROLLBACK_STILL_IN_PROGRESS''
             (if \<not> falsy initialError
              then ''Rollback response was lost and convergence is still in progress: '' @ the initialError
              else ''Rollback is still in progress''))
        (dep_requireWithConnection ext did))"

definition reconcileRollbackLocked ::
    "external \<Rightarrow> OperationRecord \<Rightarrow> DeploymentRecord \<Rightarrow> string option \<Rightarrow> DeploymentRecord cp" where
  "reconcileRollbackLocked ext operation deployment initialError =
     (let did = d_id deployment; oid = o_id operation in
      bindM (legacyIntentHasExternalConflict ext operation) (\<lambda>conflict.
      if conflict then
        giveUp ext did (rollbackAttention ext did oid ''ROLLBACK_EXTERNAL_CONFLICT''
          ''Service changed outside the recorded legacy rollback transition'')
      else
        bindM (hydrateLegacyRuntimeFingerprint ext operation) (\<lambda>hydrated.
        case hydrated of
          None \<Rightarrow>
            if legacyTarget ROLLBACK operation then
              giveUp ext did (markRollbackVerificationPending ext did oid ''LEGACY_RUNTIME_FINGERPRINT_PENDING''
                ''Legacy rollback intent runtime fingerprint could not be reconstructed yet; reconciliation will retry'')
            else
              giveUp ext did (rollbackAttention ext did oid ''ROLLBACK_MISSING_TARGET''
                ''Rollback intent is missing the persisted target needed for reconciliation'')
        | Some compatible \<Rightarrow>
            if \<not> completeTarget ROLLBACK compatible then
              giveUp ext did (rollbackAttention ext did oid ''ROLLBACK_MISSING_TARGET''
                ''Rollback intent is missing the persisted target needed for reconciliation'')
            else
              (case digestFromImage (the (o_targetImage compatible)) of
                 None \<Rightarrow>
                   giveUp ext did (rollbackAttention ext did oid ''ROLLBACK_INVALID_TARGET_IMAGE''
                     ''Persisted rollback image is not digest-pinned'')
               | Some digest \<Rightarrow>
                   bindM (poll ext RECONCILE_OBSERVATION_MS VERIFY_INTERVAL_MS
                     (rollbackReconcileStep ext compatible deployment digest) initialError) (\<lambda>r.
                   case r of
                     Inr d \<Rightarrow> retM d
                   | Inl lastError \<Rightarrow>
                       rollbackReconcileTimeout ext operation deployment initialError lastError)))))"

section \<open>Deploy\<close>

definition findTerminalDeploymentRetry ::
    "external \<Rightarrow> string \<Rightarrow> string \<Rightarrow> DeployRequest \<Rightarrow> Principal \<Rightarrow> DeploymentKind \<Rightarrow> DeploymentRecord option cp" where
  "findTerminalDeploymentRetry ext clusterId targetId input actor kind =
     bindM (op_find ext (dq_operationId input)) (\<lambda>found.
     case found of
       None \<Rightarrow> retM None
     | Some operation \<Rightarrow>
         if o_status operation \<noteq> SUCCESS \<and> o_status operation \<noteq> FAILED then retM None
         else
           bindM (dep_findByOperation ext (dq_operationId input)) (\<lambda>row.
           case row of
             None \<Rightarrow> throwM (ConflictException ''operationId was already used for a different deployment'')
           | Some deployment \<Rightarrow>
               if o_type operation \<noteq> DEPLOY \<or> o_clusterId operation \<noteq> clusterId
                  \<or> o_actorId operation \<noteq> pr_actorId actor
                  \<or> d_deploymentTargetId deployment \<noteq> targetId
                  \<or> d_releaseId deployment \<noteq> dq_releaseId input
                  \<or> d_createdBy deployment \<noteq> pr_actorId actor \<or> d_kind deployment \<noteq> kind
                  \<or> \<not> sameHealthConfig (d_health deployment) (dq_health input)
               then throwM (ConflictException ''operationId was already used for a different deployment'')
               else retM (Some deployment)))"

text \<open>The checks on a deployment that already exists for the operation.\<close>

definition assertSameDeployment ::
    "DeploymentRecord \<Rightarrow> string \<Rightarrow> DeployRequest \<Rightarrow> Principal \<Rightarrow> DeploymentKind \<Rightarrow> string option option \<Rightarrow> unit cp" where
  "assertSameDeployment deployment targetId input actor kind sourceDeploymentId =
     (if d_releaseId deployment \<noteq> dq_releaseId input \<or> d_deploymentTargetId deployment \<noteq> targetId
         \<or> d_createdBy deployment \<noteq> pr_actorId actor \<or> d_kind deployment \<noteq> kind
         \<or> (sourceDeploymentId \<noteq> None \<and> d_sourceDeploymentId deployment \<noteq> the sourceDeploymentId)
         \<or> \<not> sameHealthConfig (d_health deployment) (dq_health input)
      then throwM (ConflictException ''operationId was already used for a different deployment'')
      else retM ())"

text \<open>The conflict checks of \<open>deployRelease\<close> and \<open>rollback\<close>.\<close>

definition assertServiceUnclaimed :: "external \<Rightarrow> string \<Rightarrow> string \<Rightarrow> unit cp" where
  "assertServiceUnclaimed ext clusterId serviceId =
     bindM (op_findNonTerminalForService ext clusterId serviceId) (\<lambda>prior.
     case prior of
       Some p \<Rightarrow> throwM (ConflictException (''Service has unresolved operation '' @ o_id p
                  @ '' ('' @ operationStatusName (o_status p) @ '')''))
     | None \<Rightarrow>
         bindM (nop_findNonTerminalAffectingService ext clusterId serviceId) (\<lambda>nodeConflict.
         case nodeConflict of
           Some n \<Rightarrow> throwM (ConflictException (''Service is affected by unresolved node operation '' @ n_id n))
         | None \<Rightarrow> retM ()))"

definition selectSource ::
    "external \<Rightarrow> string \<Rightarrow> string \<Rightarrow> DeploymentKind \<Rightarrow> string option option \<Rightarrow> string option cp" where
  "selectSource ext targetId releaseId kind sourceDeploymentId =
     (if kind = HISTORICAL_REDEPLOY \<and> sourceDeploymentId = None then
        bindM (dep_findLatestSuccessfulForReleaseWithConnection ext targetId releaseId) (\<lambda>source.
        case source of
          None \<Rightarrow> throwM (ConflictException
            ''Historical redeploy requires a previously successful deployment of the release on this target'')
        | Some src \<Rightarrow> retM (Some (d_id src)))
      else retM (case sourceDeploymentId of None \<Rightarrow> None | Some v \<Rightarrow> v))"

text \<open>Everything between the idempotency check and the durable intent.\<close>

definition prepareDeployment ::
    "external \<Rightarrow> string \<Rightarrow> string \<Rightarrow> DeploymentTargetRecord \<Rightarrow> ReleaseRecord \<Rightarrow> DeployRequest \<Rightarrow>
     DeploymentKind \<Rightarrow> string option option \<Rightarrow>
     (string option \<times> ServiceMutationPlan \<times> ServiceDetailResponse) cp" where
  "prepareDeployment ext clusterId targetId target release input kind sourceDeploymentId =
     bindM (selectSource ext targetId (dq_releaseId input) kind sourceDeploymentId) (\<lambda>source.
     thenM (assertServiceUnclaimed ext clusterId (dt_dockerServiceId target))
    (bindM (orAgentError (inspectService ext (dt_dockerServiceId target)) ''Deployment target lookup failed'')
       (\<lambda>resolved.
     if s_id (sd_service resolved) \<noteq> dt_dockerServiceId target \<or> s_mode (sd_service resolved) \<noteq> ''replicated''
     then throwM (ConflictException
            ''Deployment target no longer resolves to the expected replicated service'')
     else
       bindM (orAgentError (inspectService ext (dt_dockerServiceId target))
                ''Deployment precondition lookup failed'') (\<lambda>before.
       let targetImage = dockerImageReference (rl_imageRepository release) (rl_imageDigest release) in
       bindM (orAgentError (planUpdateServiceImage ext (dt_dockerServiceId target)
                (s_version (sd_service before)) targetImage) ''Deployment planning failed'') (\<lambda>plan.
       thenM (deployment_assertPlanMatchesCurrent plan before targetImage)
      (thenM
         (if p_beforeSpecHash plan \<noteq> p_targetSpecHash plan
          then thenM (assertAvailable ext (dt_dockerServiceId target)
                 \<lparr>cr_expectedVersion = p_version plan,
                  cr_targetReplicas = s_desiredReplicas (sd_service before),
                  cr_includeUpdateOverlap = True\<rparr>) (retM ())
          else retM ())
         (retM (source, plan, before))))))))"

text \<open>Dispatch and what follows it.\<close>

definition dispatchDeployment ::
    "external \<Rightarrow> DeploymentTargetRecord \<Rightarrow> ReleaseRecord \<Rightarrow> DeployRequest \<Rightarrow> ServiceMutationPlan \<Rightarrow>
     DeploymentRecord \<Rightarrow> DeploymentRecord cp" where
  "dispatchDeployment ext target release input plan deployment =
     (let oid = dq_operationId input; did = d_id deployment;
          targetImage = dockerImageReference (rl_imageRepository release) (rl_imageDigest release) in
      bindM (attempt (withMutationOperation oid (agentMutation ext
        (UpdateServiceImage (dt_dockerServiceId target) (p_version plan) (p_beforeSpecHash plan)
           (p_targetSpecHash plan) targetImage) (x_sendService ext)))) (\<lambda>outcome.
      case outcome of
        Inl e \<Rightarrow>
          if isDeterministicAgentRejection e then
            thenM (fail ext did oid ''AGENT_MUTATION_REJECTED'' (body_text (snd (rejectionParts e))))
              (throwM (deployment_mapAgentError e ''Deployment mutation failed''))
          else
            bindM (deployment_requireOperation ext oid) (\<lambda>operation.
            deployment_reconcileLocked ext operation deployment (Some (errorMessage e)))
      | Inr accepted \<Rightarrow>
          if r_serviceId accepted \<noteq> p_serviceId plan \<or> r_targetSpecHash accepted \<noteq> p_targetSpecHash plan
          then giveUp ext did (attention ext did oid ''AGENT_RESPONSE_MISMATCH''
                 ''Agent response did not match deployment plan'')
          else
            thenM (deployment_markVerifying ext did oid (r_version accepted))
              (verifyAndComplete ext did oid plan (rl_imageDigest release) False (dq_health input))))"

definition lockedDeploy ::
    "external \<Rightarrow> string \<Rightarrow> string \<Rightarrow> DeploymentTargetRecord \<Rightarrow> ReleaseRecord \<Rightarrow> DeployRequest \<Rightarrow> Principal \<Rightarrow>
     DeploymentKind \<Rightarrow> string option option \<Rightarrow> DeploymentRecord cp" where
  "lockedDeploy ext clusterId targetId target release input actor kind sourceDeploymentId =
     bindM (op_findWithConnection ext (dq_operationId input)) (\<lambda>found.
     case found of
       Some existing \<Rightarrow>
         thenM (deployment_assertIdempotent existing (pr_actorId actor) (dt_dockerServiceId target))
        (bindM (dep_findByOperationWithConnection ext (dq_operationId input)) (\<lambda>row.
         case row of
           None \<Rightarrow> throwM (ConflictException ''Deployment operation exists without deployment record'')
         | Some deployment \<Rightarrow>
             thenM (assertSameDeployment deployment targetId input actor kind sourceDeploymentId)
               (if o_status existing = SUCCESS \<or> o_status existing = FAILED then retM deployment
                else deployment_reconcileLocked ext existing deployment None)))
     | None \<Rightarrow>
         bindM (prepareDeployment ext clusterId targetId target release input kind sourceDeploymentId)
           (\<lambda>(source, plan, before).
         let targetImage = dockerImageReference (rl_imageRepository release) (rl_imageDigest release);
             noOp = (p_beforeSpecHash plan = p_targetSpecHash plan) in
         bindM (deployment_persistIntent ext clusterId targetId (rl_id release) input actor plan before
                  targetImage noOp kind source) (\<lambda>deployment.
         if noOp then
           thenM (deployment_markVerifying ext (d_id deployment) (dq_operationId input)
                    (s_version (sd_service before)))
             (verifyAndComplete ext (d_id deployment) (dq_operationId input) plan (rl_imageDigest release)
                True (dq_health input))
         else dispatchDeployment ext target release input plan deployment)))"

definition deployRelease ::
    "external \<Rightarrow> string \<Rightarrow> string \<Rightarrow> DeployRequest \<Rightarrow> Principal \<Rightarrow> DeploymentKind \<Rightarrow>
     string option option \<Rightarrow> DeploymentRecord cp" where
  "deployRelease ext clusterId targetId input actor kind sourceDeploymentId =
     bindM (findDeploymentTarget ext targetId) (\<lambda>foundTarget.
     case foundTarget of
       None \<Rightarrow> throwM (NotFoundException ''Deployment target not found'')
     | Some target \<Rightarrow>
         if dt_clusterId target \<noteq> clusterId then throwM (NotFoundException ''Deployment target not found'')
         else
           bindM (findRelease ext (dq_releaseId input)) (\<lambda>foundRelease.
           case foundRelease of
             None \<Rightarrow> throwM (NotFoundException ''Release not found for deployment target'')
           | Some release \<Rightarrow>
               if rl_applicationId release \<noteq> dt_applicationId target
               then throwM (NotFoundException ''Release not found for deployment target'')
               else withServiceLock ext clusterId (dt_dockerServiceId target)
                      (lockedDeploy ext clusterId targetId target release input actor kind sourceDeploymentId)))"

definition deploy ::
    "external \<Rightarrow> string \<Rightarrow> string \<Rightarrow> DeployRequest \<Rightarrow> Principal \<Rightarrow> DeploymentRecord cp" where
  "deploy ext clusterId targetId input actor =
     bindM (findTerminalDeploymentRetry ext clusterId targetId input actor KIND_DEPLOY) (\<lambda>terminal.
     case terminal of
       Some deployment \<Rightarrow> retM deployment
     | None \<Rightarrow> deployRelease ext clusterId targetId input actor KIND_DEPLOY (Some None))"

definition historicalRedeploy ::
    "external \<Rightarrow> string \<Rightarrow> string \<Rightarrow> DeployRequest \<Rightarrow> Principal \<Rightarrow> DeploymentRecord cp" where
  "historicalRedeploy ext clusterId targetId input actor =
     bindM (findDeploymentTarget ext targetId) (\<lambda>foundTarget.
     case foundTarget of
       None \<Rightarrow> throwM (NotFoundException ''Deployment target not found'')
     | Some target \<Rightarrow>
         if dt_clusterId target \<noteq> clusterId then throwM (NotFoundException ''Deployment target not found'')
         else
           bindM (findRelease ext (dq_releaseId input)) (\<lambda>foundRelease.
           case foundRelease of
             None \<Rightarrow> throwM (NotFoundException ''Release not found for deployment target'')
           | Some release \<Rightarrow>
               if rl_applicationId release \<noteq> dt_applicationId target
               then throwM (NotFoundException ''Release not found for deployment target'')
               else
                 bindM (findTerminalDeploymentRetry ext clusterId targetId input actor HISTORICAL_REDEPLOY)
                   (\<lambda>terminal.
                 case terminal of
                   Some deployment \<Rightarrow> retM deployment
                 | None \<Rightarrow> deployRelease ext clusterId targetId input actor HISTORICAL_REDEPLOY None)))"

section \<open>Rollback\<close>

definition findTerminalRollbackRetry ::
    "external \<Rightarrow> string \<Rightarrow> DeploymentRecord \<Rightarrow> string \<Rightarrow> Principal \<Rightarrow> string \<Rightarrow> DeploymentRecord option cp" where
  "findTerminalRollbackRetry ext clusterId deployment oid actor serviceId =
     bindM (op_find ext oid) (\<lambda>found.
     case found of
       None \<Rightarrow> retM None
     | Some operation \<Rightarrow>
         if o_status operation \<noteq> SUCCESS \<and> o_status operation \<noteq> FAILED then retM None
         else
           bindM (dep_find ext (d_id deployment)) (\<lambda>latest.
           bindM (dep_findByRollbackOperation ext oid) (\<lambda>historical.
           case (latest, historical) of
             (Some latestDeployment, Some historicalDeployment) \<Rightarrow>
               if o_type operation \<noteq> ROLLBACK \<or> o_clusterId operation \<noteq> clusterId
                  \<or> o_actorId operation \<noteq> pr_actorId actor \<or> o_serviceId operation \<noteq> serviceId
                  \<or> d_id historicalDeployment \<noteq> d_id deployment
               then throwM (ConflictException ''operationId was already used for a different rollback'')
               else bindM (rollbackAttemptResult latestDeployment operation) (\<lambda>d. retM (Some d))
           | _ \<Rightarrow> throwM (ConflictException ''operationId was already used for a different rollback''))))"

text \<open>
  The plan of a rollback: the one Swarm already executes, or the Agent's, checked for ownership
  and capacity.
\<close>

definition planRollback ::
    "external \<Rightarrow> DeploymentRecord \<Rightarrow> string \<Rightarrow> string \<Rightarrow> ServiceDetailResponse \<Rightarrow> ServiceMutationPlan cp" where
  "planRollback ext deployment previousDigest serviceId current =
     (if s_updateState (sd_service current) = Some ''rollback_started''
         \<or> s_updateState (sd_service current) = Some ''rollback_completed''
      then buildObservedRollbackPlan deployment previousDigest current
      else
        bindM (orAgentError (planRollbackService ext serviceId (s_version (sd_service current)))
                 ''Rollback planning failed'') (\<lambda>plan.
        thenM (assertRollbackOwnership deployment previousDigest plan current)
       (thenM (assertAvailable ext serviceId
          \<lparr>cr_expectedVersion = p_version plan,
           cr_targetReplicas = (case p_targetReplicas plan of
              None \<Rightarrow> s_desiredReplicas (sd_service current) | Some k \<Rightarrow> k),
           cr_includeUpdateOverlap = True\<rparr>)
          (retM plan))))"

definition dispatchRollback ::
    "external \<Rightarrow> string \<Rightarrow> DeploymentRecord \<Rightarrow> string \<Rightarrow> string \<Rightarrow> ServiceMutationPlan \<Rightarrow> DeploymentRecord cp" where
  "dispatchRollback ext serviceId deployment previousDigest oid plan =
     (let did = d_id deployment in
      bindM (attempt (withMutationOperation oid (agentMutation ext
        (RollbackService serviceId (p_version plan) (p_beforeSpecHash plan) (p_targetSpecHash plan))
        (x_sendService ext)))) (\<lambda>outcome.
      case outcome of
        Inl e \<Rightarrow>
          if isDeterministicAgentRejection e then
            thenM (rollbackRejected ext did oid e)
              (throwM (deployment_mapAgentError e ''Rollback mutation failed''))
          else
            bindM (deployment_requireOperation ext oid) (\<lambda>operation.
            reconcileRollbackLocked ext operation deployment (Some (errorMessage e)))
      | Inr accepted \<Rightarrow>
          if r_serviceId accepted \<noteq> p_serviceId plan \<or> r_targetSpecHash accepted \<noteq> p_targetSpecHash plan
             \<or> r_targetForceUpdate accepted \<noteq> p_targetForceUpdate plan
          then giveUp ext did (rollbackAttention ext did oid ''ROLLBACK_AGENT_RESPONSE_MISMATCH''
                 ''Agent rollback response did not match the recorded rollback target'')
          else
            thenM (markRollbackVerifying ext did oid (r_version accepted))
              (verifyRollbackAndComplete ext did oid plan previousDigest (d_health deployment))))"

definition lockedRollback ::
    "external \<Rightarrow> string \<Rightarrow> string \<Rightarrow> DeploymentRecord \<Rightarrow> string \<Rightarrow> string \<Rightarrow> Principal \<Rightarrow> DeploymentRecord cp" where
  "lockedRollback ext clusterId serviceId deployment previousDigest oid actor =
     bindM (op_findWithConnection ext oid) (\<lambda>found.
     case found of
       Some existing \<Rightarrow>
         thenM (assertRollbackIdempotent existing (pr_actorId actor) serviceId)
        (bindM (dep_findByRollbackOperationWithConnection ext oid) (\<lambda>row.
         case row of
           None \<Rightarrow> throwM (ConflictException ''operationId was already used for a different rollback'')
         | Some existingDeployment \<Rightarrow>
             if d_id existingDeployment \<noteq> d_id deployment
             then throwM (ConflictException ''operationId was already used for a different rollback'')
             else if o_status existing = SUCCESS \<or> o_status existing = FAILED
             then rollbackAttemptResult existingDeployment existing
             else reconcileRollbackLocked ext existing existingDeployment None))
     | None \<Rightarrow>
         thenM (assertServiceUnclaimed ext clusterId serviceId)
        (bindM (orAgentError (inspectService ext serviceId) ''Rollback precondition lookup failed'') (\<lambda>current.
         bindM (planRollback ext deployment previousDigest serviceId current) (\<lambda>plan.
         thenM (persistRollbackIntent ext clusterId deployment actor oid plan current)
           (if s_updateState (sd_service current) = Some ''rollback_started''
               \<or> s_updateState (sd_service current) = Some ''rollback_completed''
               \<or> s_specHash (sd_service current) = p_targetSpecHash plan
            then bindM (deployment_requireOperation ext oid) (\<lambda>operation.
                 reconcileRollbackLocked ext operation deployment None)
            else dispatchRollback ext serviceId deployment previousDigest oid plan)))))"

definition rollbackAdmitted ::
    "external \<Rightarrow> string \<Rightarrow> DeploymentTargetRecord \<Rightarrow> DeploymentRecord \<Rightarrow> string \<Rightarrow> string \<Rightarrow> Principal \<Rightarrow>
     DeploymentRecord cp" where
  "rollbackAdmitted ext clusterId target deployment previousDigest oid actor =
     bindM (dep_findByRollbackOperation ext oid) (\<lambda>attempt.
     if map_option d_id attempt \<noteq> Some (d_id deployment) \<and> d_status deployment \<noteq> D_FAILED
     then throwM (ConflictException ''Only FAILED deployments can be rolled back manually'')
     else
       bindM (orAgentError (inspectService ext (dt_dockerServiceId target)) ''Rollback target lookup failed'')
         (\<lambda>resolved.
       if s_id (sd_service resolved) \<noteq> dt_dockerServiceId target
          \<or> s_mode (sd_service resolved) \<noteq> ''replicated''
       then throwM (ConflictException
              ''Rollback target no longer resolves to the expected replicated service'')
       else withServiceLock ext clusterId (dt_dockerServiceId target)
              (lockedRollback ext clusterId (dt_dockerServiceId target) deployment previousDigest oid actor)))"

definition rollback ::
    "external \<Rightarrow> string \<Rightarrow> string \<Rightarrow> string \<Rightarrow> Principal \<Rightarrow> DeploymentRecord cp" where
  "rollback ext clusterId deploymentId oid actor =
     bindM (dep_find ext deploymentId) (\<lambda>found.
     case found of
       None \<Rightarrow> throwM (NotFoundException ''Deployment not found'')
     | Some deployment \<Rightarrow>
         bindM (findDeploymentTarget ext (d_deploymentTargetId deployment)) (\<lambda>foundTarget.
         case foundTarget of
           None \<Rightarrow> throwM (NotFoundException ''Deployment not found'')
         | Some target \<Rightarrow>
             if dt_clusterId target \<noteq> clusterId then throwM (NotFoundException ''Deployment not found'')
             else if falsy (d_previousReleaseId deployment)
             then throwM (ConflictException ''Deployment does not have a previous release to roll back to'')
             else
               bindM (findRelease ext (the (d_previousReleaseId deployment))) (\<lambda>foundRelease.
               case foundRelease of
                 None \<Rightarrow> throwM (ConflictException ''Previous release is not valid for the deployment target'')
               | Some previousRelease \<Rightarrow>
                   if rl_applicationId previousRelease \<noteq> dt_applicationId target
                   then throwM (ConflictException ''Previous release is not valid for the deployment target'')
                   else
                     bindM (findTerminalRollbackRetry ext clusterId deployment oid actor
                              (dt_dockerServiceId target)) (\<lambda>terminal.
                     case terminal of
                       Some d \<Rightarrow> retM d
                     | None \<Rightarrow> rollbackAdmitted ext clusterId target deployment
                                 (rl_imageDigest previousRelease) oid actor))))"

section \<open>Views and the background reconciler\<close>

definition deployment_history :: "external \<Rightarrow> string \<Rightarrow> string \<Rightarrow> DeploymentRecord list cp" where
  "deployment_history ext clusterId targetId =
     bindM (findDeploymentTarget ext targetId) (\<lambda>found.
     case found of
       None \<Rightarrow> throwM (NotFoundException ''Deployment target not found'')
     | Some target \<Rightarrow>
         if dt_clusterId target \<noteq> clusterId then throwM (NotFoundException ''Deployment target not found'')
         else dep_listForTarget ext targetId)"

definition deployment_view :: "external \<Rightarrow> string \<Rightarrow> string \<Rightarrow> DeploymentRecord cp" where
  "deployment_view ext clusterId did =
     bindM (dep_find ext did) (\<lambda>found.
     case found of
       None \<Rightarrow> throwM (NotFoundException ''Deployment not found'')
     | Some deployment \<Rightarrow>
         bindM (findDeploymentTarget ext (d_deploymentTargetId deployment)) (\<lambda>foundTarget.
         case foundTarget of
           None \<Rightarrow> throwM (NotFoundException ''Deployment not found'')
         | Some target \<Rightarrow>
             if dt_clusterId target \<noteq> clusterId then throwM (NotFoundException ''Deployment not found'')
             else retM deployment))"

definition ofCluster :: "string \<Rightarrow> OperationRecord option \<Rightarrow> OperationRecord option" where
  "ofCluster clusterId found =
     (case found of
        Some operation \<Rightarrow> if o_clusterId operation = clusterId then Some operation else None
      | None \<Rightarrow> None)"

definition deployment_status ::
    "external \<Rightarrow> string \<Rightarrow> string \<Rightarrow>
     (DeploymentRecord \<times> OperationRecord option \<times> OperationRecord option) cp" where
  "deployment_status ext clusterId did =
     bindM (deployment_view ext clusterId did) (\<lambda>deployment.
     bindM (op_find ext (d_operationId deployment)) (\<lambda>foundOperation.
     bindM (if falsy (d_rollbackOperationId deployment) then retM None
            else op_find ext (the (d_rollbackOperationId deployment))) (\<lambda>foundRollback.
     retM (deployment, ofCluster clusterId foundOperation, ofCluster clusterId foundRollback))))"

definition isDeploymentType :: "OperationRecord \<Rightarrow> bool" where
  "isDeploymentType operation = (o_type operation = DEPLOY \<or> o_type operation = ROLLBACK)"

definition reconcileDeploymentOperation :: "external \<Rightarrow> OperationRecord \<Rightarrow> unit cp" where
  "reconcileDeploymentOperation ext operation =
     thenM (attempt (withServiceRecoveryLock ext (o_clusterId operation) (o_serviceId operation)
       (bindM (op_findWithConnection ext (o_id operation)) (\<lambda>found.
        case found of
          None \<Rightarrow> retM ()
        | Some current \<Rightarrow>
            if \<not> isDeploymentType current \<or> o_status current = SUCCESS \<or> o_status current = FAILED
               \<or> o_status current = NEEDS_ATTENTION
            then retM ()
            else
              bindM (if o_type current = ROLLBACK
                     then dep_findByRollbackOperationWithConnection ext (o_id current)
                     else dep_findByOperationWithConnection ext (o_id current)) (\<lambda>row.
              case row of
                None \<Rightarrow> retM ()
              | Some deployment \<Rightarrow>
                  thenM (if o_type current = ROLLBACK
                         then reconcileRollbackLocked ext current deployment None
                         else deployment_reconcileLocked ext current deployment None) (retM ()))))))
       (retM ())"

text \<open>The argument \<open>reconciliationRunning\<close> is the flag of the service object at entry.\<close>

definition reconcilePendingDeployments :: "external \<Rightarrow> bool \<Rightarrow> unit cp" where
  "reconcilePendingDeployments ext reconciliationRunning =
     (if reconciliationRunning then retM ()
      else
        bindM (op_listNonTerminal ext) (\<lambda>listed.
        forEachM (reconcileDeploymentOperation ext)
          (filter (\<lambda>operation. isDeploymentType operation \<and> o_status operation \<noteq> NEEDS_ATTENTION) listed)))"

definition deployment_onApplicationBootstrap :: "external \<Rightarrow> unit cp" where
  "deployment_onApplicationBootstrap ext = reconcilePendingDeployments ext False"

end
