(* ===== verification/Releases.thy ===== *)
theory Releases
  imports Catalog Registry Request_Schemas Deployment_Service
begin

text \<open>
  Applications, deployment targets and releases: \<^verbatim>\<open>releases/release.repository.ts\<close>,
  \<^verbatim>\<open>releases/release.service.ts\<close>, the schemas of \<^verbatim>\<open>releases/release.dto.ts\<close> and the
  handlers of \<^verbatim>\<open>releases/release.controller.ts\<close>. A release pins the image digest that the
  registry reports; applications, targets and releases are appended together with an audit event and
  never change.
\<close>

section \<open>Requests\<close>

record CreateApplicationRequest =
  ca_name :: string
  ca_description :: "string option"

record CreateDeploymentTargetRequest =
  ct_environment :: string
  ct_dockerServiceId :: string
  ct_serviceName :: string

record CreateReleaseRequest =
  cr_version :: string
  cr_imageRepository :: string
  cr_imageTag :: "string option"
  cr_imageDigest :: "string option"
  cr_gitCommit :: "string option"
  cr_buildNumber :: "string option"

definition CreateApplicationRequestSchema :: "CreateApplicationRequest schema" where
  "CreateApplicationRequestSchema j = do {
     name \<leftarrow> z_field j ''name'' (z_trimmed 1 255);
     description \<leftarrow> z_nullish j ''description'' (z_trimmed 0 2000);
     Some \<lparr>ca_name = name, ca_description = description\<rparr> }"

text \<open>The routing mode has the single value \<open>INGRESS\<close>.\<close>

definition CreateDeploymentTargetRequestSchema :: "CreateDeploymentTargetRequest schema" where
  "CreateDeploymentTargetRequestSchema j = do {
     environment \<leftarrow> z_field j ''environment'' (z_trimmed 1 255);
     dockerServiceId \<leftarrow> z_field j ''dockerServiceId'' (z_trimmed 1 255);
     serviceName \<leftarrow> z_field j ''serviceName'' (z_trimmed 1 255);
     z_default j ''routingMode'' () (z_literal (JStr ''INGRESS''));
     Some \<lparr>ct_environment = environment, ct_dockerServiceId = dockerServiceId, ct_serviceName = serviceName\<rparr> }"

definition CreateReleaseRequestSchema :: "CreateReleaseRequest schema" where
  "CreateReleaseRequestSchema j = do {
     version \<leftarrow> z_field j ''version'' (z_trimmed 1 255);
     imageRepository \<leftarrow> z_field j ''imageRepository'' (z_trimmed 1 512);
     imageTag \<leftarrow> z_nullish j ''imageTag'' (z_trimmed 1 255);
     imageDigest \<leftarrow> z_nullish j ''imageDigest'' (z_check isDigest z_string);
     gitCommit \<leftarrow> z_nullish j ''gitCommit'' (z_trimmed 1 128);
     buildNumber \<leftarrow> z_nullish j ''buildNumber'' (z_trimmed 1 128);
     if \<not> falsy imageTag \<or> \<not> falsy imageDigest
     then Some \<lparr>cr_version = version, cr_imageRepository = imageRepository, cr_imageTag = imageTag,
       cr_imageDigest = imageDigest, cr_gitCommit = gitCommit, cr_buildNumber = buildNumber\<rparr>
     else None }"

lemma CreateReleaseRequestSchema_digest:
  assumes "CreateReleaseRequestSchema j = Some i" and "cr_imageDigest i = Some d"
  shows "isDigest d"
proof -
  have "z_nullish j ''imageDigest'' (z_check isDigest z_string) = Some (cr_imageDigest i)"
    using assms(1) unfolding CreateReleaseRequestSchema_def bind_eq_Some_conv by (auto split: if_splits)
  then show ?thesis using assms(2) by (auto dest!: z_nullish_Some simp: z_check_Some)
qed

section \<open>Repository\<close>

definition applicationJson :: "ApplicationRecord \<Rightarrow> json" where
  "applicationJson a = JObj
     [(''id'', JStr (ap_id a)), (''name'', JStr (ap_name a)), (''description'', nullable JStr (ap_description a)),
      (''createdAt'', JStr (toISOString (ap_createdAt a))), (''updatedAt'', JStr (toISOString (ap_updatedAt a)))]"

definition targetJson :: "DeploymentTargetRecord \<Rightarrow> json" where
  "targetJson t = JObj
     [(''id'', JStr (dt_id t)), (''applicationId'', JStr (dt_applicationId t)), (''clusterId'', JStr (dt_clusterId t)),
      (''environment'', JStr (dt_environment t)), (''dockerServiceId'', JStr (dt_dockerServiceId t)),
      (''serviceName'', JStr (dt_serviceName t)), (''routingMode'', JStr ''INGRESS''),
      (''createdAt'', JStr (toISOString (dt_createdAt t))), (''updatedAt'', JStr (toISOString (dt_updatedAt t)))]"

definition releaseJson :: "ReleaseRecord \<Rightarrow> json" where
  "releaseJson r = JObj
     [(''id'', JStr (rl_id r)), (''applicationId'', JStr (rl_applicationId r)), (''version'', JStr (rl_version r)),
      (''imageRepository'', JStr (rl_imageRepository r)), (''imageTag'', nullable JStr (rl_imageTag r)),
      (''imageDigest'', JStr (rl_imageDigest r)), (''gitCommit'', nullable JStr (rl_gitCommit r)),
      (''buildNumber'', nullable JStr (rl_buildNumber r)), (''createdBy'', JStr (rl_createdBy r)),
      (''createdAt'', JStr (toISOString (rl_createdAt r)))]"

definition insertApplication :: "string \<Rightarrow> CreateApplicationRequest \<Rightarrow> statement" where
  "insertApplication aid i now d =
     (if \<exists>a \<in> set (applications d). ap_id a = aid \<or> ap_name a = ca_name i
      then Inl (DuplicateEntry ''Duplicate entry for applications'')
      else Inr (1, d\<lparr>applications := applications d @
        [\<lparr>ap_id = aid, ap_name = ca_name i, ap_description = ca_description i, ap_createdAt = now,
          ap_updatedAt = now\<rparr>]\<rparr>))"

text \<open>The foreign key on the application is checked after the unique keys.\<close>

definition insertTarget :: "string \<Rightarrow> string \<Rightarrow> string \<Rightarrow> CreateDeploymentTargetRequest \<Rightarrow> statement" where
  "insertTarget tid applicationId clusterId i now d =
     (if \<exists>t \<in> set (deployment_targets d). dt_id t = tid
           \<or> (dt_clusterId t = clusterId \<and> dt_dockerServiceId t = ct_dockerServiceId i)
           \<or> (dt_applicationId t = applicationId \<and> dt_environment t = ct_environment i)
      then Inl (DuplicateEntry ''Duplicate entry for deployment_targets'')
      else if find_row ap_id applicationId (applications d) = None
      then Inl (DatabaseError ''Cannot add or update a child row: a foreign key constraint fails'')
      else Inr (1, d\<lparr>deployment_targets := deployment_targets d @
        [\<lparr>dt_id = tid, dt_applicationId = applicationId, dt_clusterId = clusterId,
          dt_environment = ct_environment i, dt_dockerServiceId = ct_dockerServiceId i,
          dt_serviceName = ct_serviceName i, dt_createdAt = now, dt_updatedAt = now\<rparr>]\<rparr>))"

definition insertRelease :: "string \<Rightarrow> string \<Rightarrow> CreateReleaseRequest \<Rightarrow> string \<Rightarrow> string \<Rightarrow> statement" where
  "insertRelease rid applicationId i imageDigest createdBy now d =
     (if \<exists>r \<in> set (releases d). rl_id r = rid \<or> (rl_applicationId r = applicationId \<and> rl_version r = cr_version i)
      then Inl (DuplicateEntry ''Duplicate entry for releases'')
      else if find_row ap_id applicationId (applications d) = None
      then Inl (DatabaseError ''Cannot add or update a child row: a foreign key constraint fails'')
      else Inr (1, d\<lparr>releases := releases d @
        [\<lparr>rl_id = rid, rl_applicationId = applicationId, rl_version = cr_version i,
          rl_imageRepository = cr_imageRepository i, rl_imageTag = cr_imageTag i,
          rl_imageDigest = toLowerCase imageDigest, rl_gitCommit = cr_gitCommit i,
          rl_buildNumber = cr_buildNumber i, rl_createdBy = createdBy, rl_createdAt = now\<rparr>]\<rparr>))"

definition requireApplicationWithConnection :: "external \<Rightarrow> string \<Rightarrow> ApplicationRecord cp" where
  "requireApplicationWithConnection ext aid =
     bindM (query ext (\<lambda>d. find_row ap_id aid (applications d))) (\<lambda>found.
     case found of
       None \<Rightarrow> throwM (PlainError ''Application disappeared after insert'') | Some a \<Rightarrow> retM a)"

definition requireDeploymentTargetWithConnection :: "external \<Rightarrow> string \<Rightarrow> DeploymentTargetRecord cp" where
  "requireDeploymentTargetWithConnection ext tid =
     bindM (query ext (\<lambda>d. find_row dt_id tid (deployment_targets d))) (\<lambda>found.
     case found of
       None \<Rightarrow> throwM (PlainError ''Deployment target disappeared after insert'') | Some t \<Rightarrow> retM t)"

definition requireReleaseWithConnection :: "external \<Rightarrow> string \<Rightarrow> ReleaseRecord cp" where
  "requireReleaseWithConnection ext rid =
     bindM (query ext (\<lambda>d. find_row rl_id rid (releases d))) (\<lambda>found.
     case found of
       None \<Rightarrow> throwM (PlainError ''Release disappeared after insert'') | Some r \<Rightarrow> retM r)"

text \<open>The audit event of a new row.\<close>

definition creationAudit ::
    "external \<Rightarrow> string \<Rightarrow> string \<Rightarrow> string \<Rightarrow> string \<Rightarrow> string \<Rightarrow> json \<Rightarrow> unit cp" where
  "creationAudit ext actorId clusterId resourceType resourceId action created =
     bindM (randomUUID ext) (\<lambda>eventId.
     audit_record ext
       \<lparr>da_eventId = eventId, da_actorId = actorId, da_clusterId = clusterId, da_resourceType = resourceType,
        da_resourceId = resourceId, da_action = action, da_beforeJson = None, da_afterJson = Some created\<rparr>)"

definition repository_createApplication ::
    "external \<Rightarrow> CreateApplicationRequest \<Rightarrow> string \<Rightarrow> ApplicationRecord cp" where
  "repository_createApplication ext i actorId =
     bindM (randomUUID ext) (\<lambda>aid.
     inTransaction ext
       (thenM (execute ext (insertApplication aid i))
       (bindM (requireApplicationWithConnection ext aid) (\<lambda>created.
        thenM (creationAudit ext actorId ''global'' ''application'' aid ''APPLICATION_CREATED'' (applicationJson created))
        (retM created)))))"

definition listApplications :: "external \<Rightarrow> ApplicationRecord list cp" where
  "listApplications ext = query ext (\<lambda>d. sort_key ap_name (applications d))"

definition findApplication :: "external \<Rightarrow> string \<Rightarrow> ApplicationRecord option cp" where
  "findApplication ext aid = query ext (\<lambda>d. find_row ap_id aid (applications d))"

definition createDeploymentTarget ::
    "external \<Rightarrow> string \<Rightarrow> string \<Rightarrow> CreateDeploymentTargetRequest \<Rightarrow> string \<Rightarrow> DeploymentTargetRecord cp" where
  "createDeploymentTarget ext applicationId clusterId i actorId =
     bindM (randomUUID ext) (\<lambda>tid.
     inTransaction ext
       (thenM (execute ext (insertTarget tid applicationId clusterId i))
       (bindM (requireDeploymentTargetWithConnection ext tid) (\<lambda>created.
        thenM (creationAudit ext actorId clusterId ''deployment_target'' tid ''DEPLOYMENT_TARGET_CREATED''
                (targetJson created))
        (retM created)))))"

definition listDeploymentTargets :: "external \<Rightarrow> string \<Rightarrow> string \<Rightarrow> DeploymentTargetRecord list cp" where
  "listDeploymentTargets ext applicationId clusterId =
     query ext (\<lambda>d. sort_key dt_environment
       (filter (\<lambda>t. dt_applicationId t = applicationId \<and> dt_clusterId t = clusterId) (deployment_targets d)))"

definition repository_createRelease ::
    "external \<Rightarrow> string \<Rightarrow> CreateReleaseRequest \<Rightarrow> string \<Rightarrow> string \<Rightarrow> ReleaseRecord cp" where
  "repository_createRelease ext applicationId i imageDigest createdBy =
     bindM (randomUUID ext) (\<lambda>rid.
     inTransaction ext
       (thenM (execute ext (insertRelease rid applicationId i imageDigest createdBy))
       (bindM (requireReleaseWithConnection ext rid) (\<lambda>created.
        thenM (creationAudit ext createdBy ''global'' ''release'' rid ''RELEASE_CREATED'' (releaseJson created))
        (retM created)))))"

definition listReleases :: "external \<Rightarrow> string \<Rightarrow> ReleaseRecord list cp" where
  "listReleases ext applicationId =
     query ext (\<lambda>d. rev (sort_key rl_createdAt (filter (\<lambda>r. rl_applicationId r = applicationId) (releases d))))"

section \<open>Service\<close>

definition mapDuplicate :: "failure \<Rightarrow> string \<Rightarrow> failure" where
  "mapDuplicate e message = (if isDuplicateKey e then ConflictException message else e)"

fun mapRegistryError :: "failure \<Rightarrow> failure" where
  "mapRegistryError (RegistryRequestError code message) =
     (if code = MANIFEST_NOT_FOUND then NotFoundException message
      else if code = INVALID_REPOSITORY \<or> code = INVALID_DIGEST then BadRequestException message
      else BadGatewayException message)"
| "mapRegistryError e = e"

definition mapAgentLookupError :: "failure \<Rightarrow> failure" where
  "mapAgentLookupError e =
     (case agent_request_error e of
        Some (st, b) \<Rightarrow>
          if st = 404 then NotFoundException ''Swarm service not found''
          else BadGatewayException (''Agent service lookup failed with HTTP '' @ show_nat st)
      | None \<Rightarrow> BadGatewayException ''Agent service lookup failed'')"

definition requireApplication :: "external \<Rightarrow> string \<Rightarrow> ApplicationRecord cp" where
  "requireApplication ext aid =
     bindM (findApplication ext aid) (\<lambda>found.
     case found of None \<Rightarrow> throwM (NotFoundException ''Application not found'') | Some a \<Rightarrow> retM a)"

definition release_createApplication ::
    "external \<Rightarrow> CreateApplicationRequest \<Rightarrow> Principal \<Rightarrow> ApplicationRecord cp" where
  "release_createApplication ext i actor =
     catchM (repository_createApplication ext i (pr_actorId actor))
       (\<lambda>e. throwM (mapDuplicate e ''Application name already exists''))"

definition release_targets :: "external \<Rightarrow> string \<Rightarrow> string \<Rightarrow> DeploymentTargetRecord list cp" where
  "release_targets ext clusterId applicationId =
     thenM (assertCluster ext clusterId)
     (thenM (requireApplication ext applicationId)
     (listDeploymentTargets ext applicationId clusterId))"

definition release_createTarget ::
    "external \<Rightarrow> string \<Rightarrow> string \<Rightarrow> CreateDeploymentTargetRequest \<Rightarrow> Principal \<Rightarrow> DeploymentTargetRecord cp" where
  "release_createTarget ext clusterId applicationId i actor =
     thenM (assertCluster ext clusterId)
     (thenM (requireApplication ext applicationId)
     (bindM (catchM (inspectService ext (ct_dockerServiceId i)) (\<lambda>e. throwM (mapAgentLookupError e))) (\<lambda>service.
      if s_mode (sd_service service) \<noteq> ''replicated''
      then throwM (BadRequestException
             (''DeploymentTarget only supports replicated services; got '' @ s_mode (sd_service service)))
      else
        catchM (createDeploymentTarget ext applicationId clusterId
                 (i\<lparr>ct_dockerServiceId := s_id (sd_service service), ct_serviceName := s_name (sd_service service)\<rparr>)
                 (pr_actorId actor))
          (\<lambda>e. throwM (mapDuplicate e ''Deployment target already exists for the service or environment'')))))"

definition release_releases :: "external \<Rightarrow> string \<Rightarrow> ReleaseRecord list cp" where
  "release_releases ext applicationId =
     thenM (requireApplication ext applicationId) (listReleases ext applicationId)"

definition release_createRelease ::
    "external \<Rightarrow> string \<Rightarrow> CreateReleaseRequest \<Rightarrow> Principal \<Rightarrow> ReleaseRecord cp" where
  "release_createRelease ext applicationId i actor =
     thenM (requireApplication ext applicationId)
     (let reference = (case cr_imageDigest i of Some digest \<Rightarrow> Some digest | None \<Rightarrow> cr_imageTag i) in
      if falsy reference then throwM (BadRequestException ''Release image reference is required'')
      else
        bindM (catchM (registry_resolve ext (cr_imageRepository i) (the reference))
                (\<lambda>e. throwM (mapRegistryError e))) (\<lambda>artifact.
        if \<not> falsy (cr_imageDigest i) \<and> toLowerCase (ra_digest artifact) \<noteq> toLowerCase (the (cr_imageDigest i))
        then throwM (BadRequestException ''Registry digest does not match requested imageDigest'')
        else
          catchM (repository_createRelease ext applicationId i (ra_digest artifact) (pr_actorId actor))
            (\<lambda>e. throwM (mapDuplicate e ''Release version already exists''))))"

section \<open>What the repository changes\<close>

lemma insertApplication_writes: "insertApplication aid i now d = Inr (n, d') \<Longrightarrow> catalog_write d d'"
  by (auto simp: insertApplication_def catalog_write_def outside_catalog_def catalog_def bt_rows.evolve_refl
      split: if_splits) blast

lemma insertTarget_writes: "insertTarget tid a c i now d = Inr (n, d') \<Longrightarrow> catalog_write d d'"
  by (auto simp: insertTarget_def catalog_write_def outside_catalog_def catalog_def bt_rows.evolve_refl
      split: if_splits) blast+

lemma insertRelease_writes: "insertRelease rid a i dg c now d = Inr (n, d') \<Longrightarrow> catalog_write d d'"
  by (auto simp: insertRelease_def catalog_write_def outside_catalog_def catalog_def bt_rows.evolve_refl
      split: if_splits) blast+

lemma control_release_inserts [step_intros]:
  "steps (on_db control_step) (execute ext (insertApplication aid i))"
  "steps (on_db control_step) (execute ext (insertTarget aid b c ti))"
  "steps (on_db control_step) (execute ext (insertRelease aid b ri dg c))"
  by (rule control_catalog_write; rule insertApplication_writes insertTarget_writes insertRelease_writes; assumption)+

lemmas release_repository_defs =
  repository_createApplication_def createDeploymentTarget_def repository_createRelease_def creationAudit_def
  requireApplicationWithConnection_def requireDeploymentTargetWithConnection_def requireReleaseWithConnection_def

lemma control_release_repository:
  "steps (on_db control_step) (repository_createApplication ext i actor)"
  "steps (on_db control_step) (createDeploymentTarget ext a c ti actor)"
  "steps (on_db control_step) (repository_createRelease ext a ri dg actor)"
  unfolding release_repository_defs by (intro step_intros)+

lemma only_db_release_repository:
  "steps only_db (repository_createApplication ext i actor)"
  "steps only_db (createDeploymentTarget ext a c ti actor)"
  "steps only_db (repository_createRelease ext a ri dg actor)"
  unfolding release_repository_defs by (intro step_intros)+

context step_relation
begin

lemma steps_release_reads [step_intros]:
  "steps R (listApplications ext)" "steps R (requireApplication ext a)" "steps R (release_releases ext a)"
  "steps R (release_targets ext c a)"
  unfolding listApplications_def requireApplication_def findApplication_def release_releases_def
    listReleases_def release_targets_def listDeploymentTargets_def assertCluster_def
  by (intro step_intros)+

end

context recovery_relation
begin

lemma steps_release_services [step_intros]:
  "steps R (release_createApplication ext i actor)"
  "steps R (release_createTarget ext c a ti actor)"
  "steps R (release_createRelease ext a ri actor)"
  unfolding release_createApplication_def release_createTarget_def release_createRelease_def assertCluster_def
  by (intro step_intros steps_control [OF control_release_repository(1) only_db_release_repository(1)]
      steps_control [OF control_release_repository(2) only_db_release_repository(2)]
      steps_control [OF control_release_repository(3) only_db_release_repository(3)])+

end

end
