(* ===== verification/Bootstrap.thy ===== *)
theory Bootstrap
  imports Catalog Request_Schemas
begin

text \<open>
  The bootstrap of nodes: \<^verbatim>\<open>bootstrap/bootstrap.repository.ts\<close>,
  \<^verbatim>\<open>bootstrap/bootstrap.service.ts\<close>, \<^verbatim>\<open>bootstrap/swarm-join-credential.provider.ts\<close>,
  the schemas of \<^verbatim>\<open>bootstrap/bootstrap.dto.ts\<close> and the handlers of
  \<^verbatim>\<open>bootstrap/bootstrap.controller.ts\<close>. An ADMIN issues a token; a joining node claims it
  once to learn the join credentials, and completes it once the Agent shows the node in the cluster
  with the role and labels that the token was issued for.

  The lemmas show that each statement keeps the life cycle of a token: its scope never changes, its
  claim is taken at most once, and it is bound to at most one node.
\<close>

section \<open>Types and schemas\<close>

definition nodeRoleName :: "BootstrapNodeRole \<Rightarrow> string" where
  "nodeRoleName r = (case r of BrManager \<Rightarrow> ''manager'' | BrWorker \<Rightarrow> ''worker'')"

record BootstrapTokenRecord =
  tr_id :: string
  tr_clusterId :: string
  tr_nodeRole :: BootstrapNodeRole
  tr_labels :: labels
  tr_createdBy :: string
  tr_expiresAt :: string
  tr_usedAt :: "string option"
  tr_claimId :: "string option"
  tr_createdAt :: string

definition mapRow :: "BootstrapTokenRow \<Rightarrow> BootstrapTokenRecord" where
  "mapRow row =
     \<lparr>tr_id = bt_id row, tr_clusterId = bt_clusterId row, tr_nodeRole = bt_nodeRole row,
      tr_labels = bt_labels row, tr_createdBy = bt_createdBy row, tr_expiresAt = toISOString (bt_expiresAt row),
      tr_usedAt = map_option toISOString (bt_usedAt row), tr_claimId = bt_claimId row,
      tr_createdAt = toISOString (bt_createdAt row)\<rparr>"

record CreateBootstrapTokenRequest =
  cb_nodeRole :: BootstrapNodeRole
  cb_labels :: labels
  cb_ttlSeconds :: nat

record BootstrapClaimRequest =
  bq_token :: string
  bq_claimId :: string

record BootstrapCompleteRequest =
  bp_token :: string
  bp_claimId :: string
  bp_nodeId :: string

definition CreateBootstrapTokenRequestSchema :: "CreateBootstrapTokenRequest schema" where
  "CreateBootstrapTokenRequestSchema j = do {
     nodeRole \<leftarrow> z_field j ''nodeRole'' (z_enum [(''manager'', BrManager), (''worker'', BrWorker)]);
     labels \<leftarrow> z_default j ''labels'' [] (z_record (z_bounded 0 256));
     ttlSeconds \<leftarrow> z_default j ''ttlSeconds'' 600 (z_range 30 3600);
     if z_keys [''nodeRole'', ''labels'', ''ttlSeconds''] j
     then Some \<lparr>cb_nodeRole = nodeRole, cb_labels = labels, cb_ttlSeconds = ttlSeconds\<rparr> else None }"

definition BootstrapClaimRequestSchema :: "Zod \<Rightarrow> BootstrapClaimRequest schema" where
  "BootstrapClaimRequestSchema zod j = do {
     tok \<leftarrow> z_field j ''token'' (z_bounded 32 256);
     claimId \<leftarrow> z_field j ''claimId'' (z_check (zod_uuid zod) z_string);
     if z_keys [''token'', ''claimId''] j then Some \<lparr>bq_token = tok, bq_claimId = claimId\<rparr> else None }"

definition BootstrapCompleteRequestSchema :: "Zod \<Rightarrow> BootstrapCompleteRequest schema" where
  "BootstrapCompleteRequestSchema zod j = do {
     tok \<leftarrow> z_field j ''token'' (z_bounded 32 256);
     claimId \<leftarrow> z_field j ''claimId'' (z_check (zod_uuid zod) z_string);
     nodeId \<leftarrow> z_field j ''nodeId'' (z_bounded 1 128);
     if z_keys [''token'', ''claimId'', ''nodeId''] j
     then Some \<lparr>bp_token = tok, bp_claimId = claimId, bp_nodeId = nodeId\<rparr> else None }"

section \<open>Join credentials\<close>

definition SwarmJoinEntrySchema :: "SwarmJoinEntry schema" where
  "SwarmJoinEntrySchema j = do {
     clusterId \<leftarrow> z_field j ''clusterId'' z_string1;
     remoteAddr \<leftarrow> z_field j ''remoteAddr'' (z_check (\<lambda>s. 3 \<le> length s) z_string);
     managerToken \<leftarrow> z_field j ''managerToken'' (z_check (\<lambda>s. 20 \<le> length s) z_string);
     workerToken \<leftarrow> z_field j ''workerToken'' (z_check (\<lambda>s. 20 \<le> length s) z_string);
     if z_keys [''clusterId'', ''remoteAddr'', ''managerToken'', ''workerToken''] j
     then Some \<lparr>sj_clusterId = clusterId, sj_remoteAddr = remoteAddr, sj_managerToken = managerToken,
       sj_workerToken = workerToken\<rparr> else None }"

text \<open>The loop of the constructor: the entries seen so far, refused at the first duplicate.\<close>

fun addJoinEntries :: "SwarmJoinEntry list \<Rightarrow> SwarmJoinEntry list \<Rightarrow> string + SwarmJoinEntry list" where
  "addJoinEntries seen [] = Inr seen"
| "addJoinEntries seen (e # es) =
     (if list_ex (\<lambda>s. sj_clusterId s = sj_clusterId e) seen
      then Inl (''DOCKLANE_SWARM_JOIN_JSON contains duplicate clusterId '' @ sj_clusterId e)
      else addJoinEntries (seen @ [e]) es)"

definition loadSwarmJoin :: "(string \<Rightarrow> json option) \<Rightarrow> string option \<Rightarrow> string + SwarmJoinEntry list" where
  "loadSwarmJoin jsonParse raw =
     (case jsonParse (case raw of None \<Rightarrow> ''[]'' | Some r \<Rightarrow> r) of
        None \<Rightarrow> Inl ''DOCKLANE_SWARM_JOIN_JSON must be valid JSON''
      | Some parsed \<Rightarrow>
          (case z_array SwarmJoinEntrySchema parsed of
             None \<Rightarrow> Inl ''Invalid DOCKLANE_SWARM_JOIN_JSON''
           | Some entries \<Rightarrow> addJoinEntries [] entries))"

record SwarmJoinCredential =
  sc_remoteAddr :: string
  sc_joinToken :: string

definition joinCredentials :: "external \<Rightarrow> string \<Rightarrow> BootstrapNodeRole \<Rightarrow> SwarmJoinCredential option" where
  "joinCredentials ext clusterId role =
     map_option (\<lambda>e. \<lparr>sc_remoteAddr = sj_remoteAddr e,
         sc_joinToken = (if role = BrManager then sj_managerToken e else sj_workerToken e)\<rparr>)
       (find_row sj_clusterId clusterId (x_swarmJoin ext))"

section \<open>Repository\<close>

record NewToken =
  nt_id :: string
  nt_tokenHash :: string
  nt_clusterId :: string
  nt_nodeRole :: BootstrapNodeRole
  nt_labels :: labels
  nt_createdBy :: string
  nt_ttlSeconds :: nat

definition insertToken :: "NewToken \<Rightarrow> statement" where
  "insertToken i now d =
     (if \<exists>t \<in> set (bootstrap_tokens d). bt_id t = nt_id i \<or> bt_tokenHash t = nt_tokenHash i
      then Inl (DuplicateEntry ''Duplicate entry for bootstrap_tokens'')
      else Inr (1, d\<lparr>bootstrap_tokens := bootstrap_tokens d @
        [\<lparr>bt_id = nt_id i, bt_tokenHash = nt_tokenHash i, bt_clusterId = nt_clusterId i, bt_nodeRole = nt_nodeRole i,
          bt_labels = nt_labels i, bt_createdBy = nt_createdBy i, bt_expiresAt = now + 1000 * nt_ttlSeconds i,
          bt_usedAt = None, bt_claimId = None, bt_completedNodeId = None, bt_createdAt = now\<rparr>]\<rparr>))"

definition updateTokens :: "(BootstrapTokenRow \<Rightarrow> bool) \<Rightarrow> (nat \<Rightarrow> BootstrapTokenRow \<Rightarrow> BootstrapTokenRow) \<Rightarrow> statement" where
  "updateTokens P f now d =
     Inr (length (filter P (bootstrap_tokens d)),
       d\<lparr>bootstrap_tokens := update_rows P (f now) (bootstrap_tokens d)\<rparr>)"

definition claimToken :: "string \<Rightarrow> string \<Rightarrow> statement" where
  "claimToken tokenId claimId =
     updateTokens (\<lambda>t. bt_id t = tokenId \<and> bt_usedAt t = None)
       (\<lambda>now t. t\<lparr>bt_usedAt := Some now, bt_claimId := Some claimId\<rparr>)"

definition bindToken :: "string \<Rightarrow> string \<Rightarrow> statement" where
  "bindToken tokenId nodeId =
     updateTokens (\<lambda>t. bt_id t = tokenId \<and> bt_completedNodeId t = None)
       (\<lambda>now t. t\<lparr>bt_completedNodeId := Some nodeId\<rparr>)"

definition insertAuditOnce :: "external \<Rightarrow> string \<Rightarrow> string \<Rightarrow> string \<Rightarrow> string \<Rightarrow> json \<Rightarrow> unit cp" where
  "insertAuditOnce ext tokenId actorId clusterId action afterJson =
     bindM (query ext (\<lambda>d. list_ex (\<lambda>a. au_operationId a = tokenId \<and> au_action a = action) (audit_events d))) (\<lambda>existing.
     if existing then retM ()
     else execute ext (\<lambda>now d. Inr (1, d\<lparr>audit_events := audit_events d @
       [\<lparr>au_operationId = tokenId, au_actorId = actorId, au_clusterId = clusterId, au_serviceId = tokenId,
         au_resourceType = ''bootstrap_token'', au_resourceId = tokenId, au_action = action,
         au_beforeJson = None, au_afterJson = Some afterJson\<rparr>]\<rparr>)))"

definition issuedJson :: "BootstrapTokenRecord \<Rightarrow> json" where
  "issuedJson r = JObj [(''nodeRole'', JStr (nodeRoleName (tr_nodeRole r))), (''labels'', labelsJson (tr_labels r)),
     (''expiresAt'', JStr (tr_expiresAt r))]"

definition claimedJson :: "string \<Rightarrow> BootstrapTokenRecord \<Rightarrow> json" where
  "claimedJson claimId r = JObj [(''claimId'', JStr claimId), (''nodeRole'', JStr (nodeRoleName (tr_nodeRole r))),
     (''labels'', labelsJson (tr_labels r)), (''claimedAt'', nullable JStr (tr_usedAt r))]"

definition bootstrap_create :: "external \<Rightarrow> NewToken \<Rightarrow> BootstrapTokenRecord cp" where
  "bootstrap_create ext i =
     inTransaction ext
       (thenM (execute ext (insertToken i))
       (bindM (query ext (\<lambda>d. find_row bt_id (nt_id i) (bootstrap_tokens d))) (\<lambda>found.
        case found of
          None \<Rightarrow> throwM (PlainError ''Bootstrap token disappeared after insert'')
        | Some row \<Rightarrow>
            thenM (insertAuditOnce ext (bt_id row) (nt_createdBy i) (bt_clusterId row) ''BOOTSTRAP_TOKEN_ISSUED''
                    (issuedJson (mapRow row)))
            (retM (mapRow row)))))"

definition findClaimableByHash :: "external \<Rightarrow> string \<Rightarrow> string \<Rightarrow> BootstrapTokenRecord option cp" where
  "findClaimableByHash ext hash claimId =
     queryAt ext (\<lambda>now d. map_option mapRow (find (\<lambda>t. bt_tokenHash t = hash \<and> now < bt_expiresAt t
       \<and> (bt_usedAt t = None \<or> bt_claimId t = Some claimId)) (bootstrap_tokens d)))"

definition claimAudit :: "external \<Rightarrow> string \<Rightarrow> BootstrapTokenRow \<Rightarrow> unit cp" where
  "claimAudit ext claimId row =
     insertAuditOnce ext (bt_id row) (''bootstrap:'' @ bt_id row) (bt_clusterId row) ''BOOTSTRAP_TOKEN_CLAIMED''
       (claimedJson claimId (mapRow row))"

text \<open>\<open>None\<close> is the early exit \<open>await connection.rollback(); return null;\<close>.\<close>

definition consume :: "external \<Rightarrow> string \<Rightarrow> string \<Rightarrow> (BootstrapTokenRecord \<times> bool) option cp" where
  "consume ext hash claimId =
     inTransactionUnless ext
       (bindM (queryAt ext (\<lambda>now d. find (\<lambda>t. bt_tokenHash t = hash \<and> now < bt_expiresAt t) (bootstrap_tokens d)))
       (\<lambda>found.
        case found of
          None \<Rightarrow> retM None
        | Some current \<Rightarrow>
            if bt_usedAt current \<noteq> None then
              (if bt_claimId current \<noteq> Some claimId then retM None
               else thenM (claimAudit ext claimId current) (retM (Some (mapRow current, True))))
            else
              thenM (execute ext (claimToken (bt_id current) claimId))
              (bindM (query ext (\<lambda>d. find_row bt_tokenHash hash (bootstrap_tokens d))) (\<lambda>refreshed.
               case refreshed of
                 None \<Rightarrow> throwM (PlainError ''Consumed bootstrap token state is inconsistent'')
               | Some row \<Rightarrow>
                   if bt_usedAt row = None \<or> bt_claimId row \<noteq> Some claimId
                   then throwM (PlainError ''Consumed bootstrap token state is inconsistent'')
                   else thenM (claimAudit ext claimId row) (retM (Some (mapRow row, False)))))))"

datatype CompletionBinding = BOUND | REPLAY | CONFLICT | INACTIVE

text \<open>The body of the transaction; \<open>None\<close> is its early exit with \<open>INACTIVE\<close>.\<close>

definition bindLocked :: "external \<Rightarrow> string \<Rightarrow> string \<Rightarrow> string \<Rightarrow> CompletionBinding option cp" where
  "bindLocked ext tokenId claimId nodeId =
     bindM (queryAt ext (\<lambda>now d. find (\<lambda>t. bt_id t = tokenId \<and> now < bt_expiresAt t) (bootstrap_tokens d)))
     (\<lambda>found.
      case found of
        None \<Rightarrow> retM None
      | Some current \<Rightarrow>
          if bt_usedAt current = None \<or> bt_claimId current \<noteq> Some claimId then retM None
          else if bt_completedNodeId current \<noteq> None
          then retM (Some (if bt_completedNodeId current = Some nodeId then REPLAY else CONFLICT))
          else thenM (execute ext (bindToken tokenId nodeId)) (retM (Some BOUND)))"

definition bindCompletionNode :: "external \<Rightarrow> string \<Rightarrow> string \<Rightarrow> string \<Rightarrow> CompletionBinding cp" where
  "bindCompletionNode ext tokenId claimId nodeId =
     bindM (inTransactionUnless ext (bindLocked ext tokenId claimId nodeId))
       (\<lambda>r. retM (case r of None \<Rightarrow> INACTIVE | Some b \<Rightarrow> b))"

definition completedJson :: "BootstrapTokenRecord \<Rightarrow> NodeSummary \<Rightarrow> string \<Rightarrow> json" where
  "completedJson r node verifiedAt = JObj
     [(''claimId'', nullable JStr (tr_claimId r)), (''nodeId'', JStr (nd_id node)), (''hostname'', JStr (nd_hostname node)),
      (''role'', JStr (nd_role node)), (''labels'', labelsJson (nd_labels node)), (''verifiedAt'', JStr verifiedAt)]"

definition recordCompletionAudit :: "external \<Rightarrow> BootstrapTokenRecord \<Rightarrow> NodeSummary \<Rightarrow> string \<Rightarrow> unit cp" where
  "recordCompletionAudit ext record node verifiedAt =
     inTransaction ext
       (bindM (query ext (\<lambda>d. find_row bt_id (tr_id record) (bootstrap_tokens d))) (\<lambda>locked.
        if (case locked of
              None \<Rightarrow> True
            | Some row \<Rightarrow> bt_claimId row \<noteq> tr_claimId record \<or> bt_usedAt row = None
                          \<or> bt_completedNodeId row \<noteq> Some (nd_id node))
        then throwM (PlainError ''Bootstrap token state changed before completion audit'')
        else insertAuditOnce ext (tr_id record) (''bootstrap:'' @ tr_id record) (tr_clusterId record)
               ''BOOTSTRAP_COMPLETED'' (completedJson record node verifiedAt)))"

section \<open>Service\<close>

definition TOKEN_PREFIX :: string where
  "TOKEN_PREFIX = ''docklane_bootstrap_''"

definition tokenHash :: "external \<Rightarrow> string \<Rightarrow> string" where
  "tokenHash ext tok = x_sha256Hex ext tok"

definition requireSwarmJoinCredentials :: "external \<Rightarrow> string \<Rightarrow> BootstrapNodeRole \<Rightarrow> SwarmJoinCredential cp" where
  "requireSwarmJoinCredentials ext clusterId role =
     (case joinCredentials ext clusterId role of
        None \<Rightarrow> throwM (ServiceUnavailableException
                  (''Swarm join credentials are not configured for cluster '' @ clusterId))
      | Some credentials \<Rightarrow> retM credentials)"

definition bootstrap_issue ::
    "external \<Rightarrow> string \<Rightarrow> CreateBootstrapTokenRequest \<Rightarrow> Principal \<Rightarrow> (BootstrapTokenRecord \<times> string) cp" where
  "bootstrap_issue ext clusterId i actor =
     thenM (assertCluster ext clusterId)
     (thenM (assertRegistered ext clusterId)
     (thenM (requireSwarmJoinCredentials ext clusterId (cb_nodeRole i))
     (bindM (callExternal ext (\<lambda>n. Inr (TOKEN_PREFIX @ x_randomToken ext n))) (\<lambda>tok.
      bindM (randomUUID ext) (\<lambda>tid.
      bindM (bootstrap_create ext \<lparr>nt_id = tid, nt_tokenHash = tokenHash ext tok, nt_clusterId = clusterId,
               nt_nodeRole = cb_nodeRole i, nt_labels = cb_labels i, nt_createdBy = pr_actorId actor,
               nt_ttlSeconds = cb_ttlSeconds i\<rparr>) (\<lambda>record.
      retM (record, tok)))))))"

record BootstrapClaimResponse =
  bcr_tokenId :: string
  bcr_clusterId :: string
  bcr_nodeRole :: BootstrapNodeRole
  bcr_labels :: labels
  bcr_expiresAt :: string
  bcr_claimedAt :: string
  bcr_claimId :: string
  bcr_replayed :: bool
  bcr_swarmJoin :: SwarmJoinCredential

definition bootstrap_claim :: "external \<Rightarrow> BootstrapClaimRequest \<Rightarrow> BootstrapClaimResponse cp" where
  "bootstrap_claim ext i =
     (let hash = tokenHash ext (bq_token i) in
      bindM (findClaimableByHash ext hash (bq_claimId i)) (\<lambda>found.
      case found of
        None \<Rightarrow> throwM (UnauthorizedException ''Invalid, expired, or already used bootstrap token'')
      | Some pending \<Rightarrow>
          thenM (assertCluster ext (tr_clusterId pending))
          (thenM (assertRegistered ext (tr_clusterId pending))
          (bindM (requireSwarmJoinCredentials ext (tr_clusterId pending) (tr_nodeRole pending)) (\<lambda>swarmJoin.
           bindM (consume ext hash (bq_claimId i)) (\<lambda>consumed.
           case consumed of
             None \<Rightarrow> throwM (UnauthorizedException ''Invalid, expired, or claimed by another bootstrap request'')
           | Some (record, replayed) \<Rightarrow>
               (case tr_usedAt record of
                  None \<Rightarrow> throwM (PlainError ''Consumed bootstrap claim is missing usedAt'')
                | Some claimedAt \<Rightarrow>
                    retM \<lparr>bcr_tokenId = tr_id record, bcr_clusterId = tr_clusterId record,
                      bcr_nodeRole = tr_nodeRole record, bcr_labels = tr_labels record,
                      bcr_expiresAt = tr_expiresAt record, bcr_claimedAt = claimedAt, bcr_claimId = bq_claimId i,
                      bcr_replayed = replayed, bcr_swarmJoin = swarmJoin\<rparr>)))))))"

definition assertNodeMatchesBootstrapScope :: "BootstrapTokenRecord \<Rightarrow> NodeSummary \<Rightarrow> unit cp" where
  "assertNodeMatchesBootstrapScope record node =
     (if nd_state node \<noteq> ''ready'' \<or> nd_availability node \<noteq> ''active''
         \<or> nd_role node \<noteq> nodeRoleName (tr_nodeRole record) \<or> nd_manager node \<noteq> (tr_nodeRole record = BrManager)
      then throwM (ConflictException ''Joined node state or role does not match bootstrap scope'')
      else retM ())"

text \<open>The version that the label operation of this token already expects, if it has been started.\<close>

definition expectedLabelVersion :: "external \<Rightarrow> BootstrapTokenRecord \<Rightarrow> NodeDetailResponse \<Rightarrow> nat cp" where
  "expectedLabelVersion ext record joined =
     bindM (attempt (node_operation ext (tr_clusterId record) (tr_id record))) (\<lambda>r.
     case r of
       Inr existing \<Rightarrow> retM (n_expectedVersion existing)
     | Inl e \<Rightarrow> (case e of NotFoundException _ \<Rightarrow> retM (nd_version (ndr_node joined)) | _ \<Rightarrow> throwM e))"

definition applyBootstrapLabels ::
    "external \<Rightarrow> BootstrapTokenRecord \<Rightarrow> NodeDetailResponse \<Rightarrow> NodeDetailResponse cp" where
  "applyBootstrapLabels ext record joined =
     (if tr_labels record = [] then retM joined
      else
        bindM (expectedLabelVersion ext record joined) (\<lambda>expectedVersion.
        bindM (labels_of_node ext (tr_clusterId record) (nd_id (ndr_node joined))
                 \<lparr>nq_operationId = tr_id record, nq_expectedVersion = expectedVersion, nq_set = tr_labels record,
                  nq_remove = []\<rparr>
                 \<lparr>pr_actorId = ''bootstrap:'' @ tr_id record, pr_role = ADMIN,
                  pr_clusters = [tr_clusterId record]\<rparr>) (\<lambda>operation.
        if n_status operation \<noteq> SUCCESS
        then throwM (ConflictException (''Bootstrap node labels did not converge: '' @ operationStatusName (n_status operation)))
        else
          bindM (attempt (inspectNode ext (nd_id (ndr_node joined)))) (\<lambda>r.
          case r of
            Inl e \<Rightarrow> throwM (BadGatewayException ''Joined node labels could not be verified through the cluster Agent'')
          | Inr verified \<Rightarrow>
              thenM (assertNodeMatchesBootstrapScope record (ndr_node verified))
              (if list_all (\<lambda>(k, v). map_of (nd_labels (ndr_node verified)) k = Some v) (tr_labels record)
               then retM verified
               else throwM (ConflictException ''Joined node labels do not match bootstrap scope''))))))"

text \<open>The response shows six fields of the node.\<close>

record BootstrapCompleteResponse =
  bo_tokenId :: string
  bo_claimId :: string
  bo_clusterId :: string
  bo_nodeRole :: BootstrapNodeRole
  bo_labels :: labels
  bo_node :: NodeSummary
  bo_verifiedAt :: string

definition bootstrap_complete :: "external \<Rightarrow> BootstrapCompleteRequest \<Rightarrow> BootstrapCompleteResponse cp" where
  "bootstrap_complete ext i =
     bindM (findClaimableByHash ext (tokenHash ext (bp_token i)) (bp_claimId i)) (\<lambda>found.
     case found of
       None \<Rightarrow> throwM (UnauthorizedException ''Bootstrap claim is not active for this claimId'')
     | Some record \<Rightarrow>
         if tr_usedAt record = None \<or> tr_claimId record \<noteq> Some (bp_claimId i)
         then throwM (UnauthorizedException ''Bootstrap claim is not active for this claimId'')
         else
           thenM (assertCluster ext (tr_clusterId record))
           (thenM (assertRegistered ext (tr_clusterId record))
           (bindM (attempt (inspectNode ext (bp_nodeId i))) (\<lambda>r.
            case r of
              Inl e \<Rightarrow> throwM (BadGatewayException ''Joined node could not be verified through the cluster Agent'')
            | Inr joined \<Rightarrow>
                thenM (assertNodeMatchesBootstrapScope record (ndr_node joined))
                (bindM (bindCompletionNode ext (tr_id record) (bp_claimId i) (nd_id (ndr_node joined))) (\<lambda>binding.
                 if binding = INACTIVE
                 then throwM (UnauthorizedException ''Bootstrap claim is not active for this claimId'')
                 else if binding = CONFLICT
                 then throwM (ConflictException ''Bootstrap claim is already bound to a different node'')
                 else
                   bindM (applyBootstrapLabels ext record joined) (\<lambda>verified.
                   bindM (getsM (\<lambda>w. toISOString (w_clock w))) (\<lambda>verifiedAt.
                   thenM (recordCompletionAudit ext record (ndr_node verified) verifiedAt)
                   (retM \<lparr>bo_tokenId = tr_id record, bo_claimId = bp_claimId i, bo_clusterId = tr_clusterId record,
                      bo_nodeRole = tr_nodeRole record, bo_labels = tr_labels record, bo_node = ndr_node verified,
                      bo_verifiedAt = verifiedAt\<rparr>)))))))))"

section \<open>The life cycle of tokens\<close>

lemma insertToken_writes: "insertToken i now d = Inr (n, d') \<Longrightarrow> catalog_write d d'"
  by (auto simp: insertToken_def catalog_write_def outside_catalog_def catalog_def bt_ok_def
      split: if_splits intro: bt_rows.evolve_append) blast+

lemma updateTokens_writes:
  assumes "updateTokens P f now d = Inr (n, d')"
    and "\<And>t. P t \<Longrightarrow> bt_evolves t (f now t)"
    and "\<And>t. catalog_ok (catalog d) \<Longrightarrow> t \<in> set (bootstrap_tokens d) \<Longrightarrow> P t \<Longrightarrow> bt_ok t \<Longrightarrow> bt_ok (f now t)"
  shows "catalog_write d d'"
proof -
  let ?g = "\<lambda>t. if P t then f now t else t"
  have d': "d' = d\<lparr>bootstrap_tokens := map ?g (bootstrap_tokens d)\<rparr>"
    using assms(1) by (simp add: updateTokens_def update_rows_def)
  have keys: "bt_id (?g t) = bt_id t" "bt_tokenHash (?g t) = bt_tokenHash t" for t
    using assms(2) [of t] by (auto simp: bt_evolves_def)
  have "map bt_id (map ?g ts) = map bt_id ts" "map bt_tokenHash (map ?g ts) = map bt_tokenHash ts" for ts
    by (simp_all add: keys)
  moreover have "catalog_ok (catalog d) \<Longrightarrow> list_all bt_ok (map ?g (bootstrap_tokens d))"
    using assms(3) by (auto simp: list_all_iff catalog_def)
  moreover have "rows_evolve bt_id bt_evolves (bootstrap_tokens d) (map ?g (bootstrap_tokens d))"
    using bt_rows.evolve_update [of P "f now"] assms(2) by (simp add: update_rows_def)
  ultimately show ?thesis
    unfolding catalog_write_def outside_catalog_def d' by (auto simp: catalog_def simp del: map_map list.map_comp)
qed

lemma claimToken_writes: "claimToken tid c now d = Inr (n, d') \<Longrightarrow> catalog_write d d'"
  unfolding claimToken_def by (erule updateTokens_writes) (auto simp: bt_evolves_def bt_ok_def)

text \<open>A token that the transaction has seen in use stays well formed when it is bound.\<close>

lemma bindToken_writes:
  assumes "bindToken tid node now d = Inr (n, d')"
    and seen: "find (\<lambda>t. bt_id t = tid \<and> t0 < bt_expiresAt t) (bootstrap_tokens d) = Some cur" "bt_usedAt cur \<noteq> None"
  shows "catalog_write d d'"
  using assms(1) unfolding bindToken_def
proof (rule updateTokens_writes)
  fix t assume "catalog_ok (catalog d)" "t \<in> set (bootstrap_tokens d)" and P: "bt_id t = tid \<and> bt_completedNodeId t = None"
    and "bt_ok t"
  moreover have "cur \<in> set (bootstrap_tokens d)" "bt_id cur = tid"
    using seen(1) by (auto simp: find_Some_iff)
  ultimately have "t = cur" by (auto simp: catalog_def distinct_map inj_on_def)
  then show "bt_ok (t\<lparr>bt_completedNodeId := Some node\<rparr>)" using seen(2) \<open>bt_ok t\<close> by (simp add: bt_ok_def)
qed (auto simp: bt_evolves_def)

lemma control_token_statements [step_intros]:
  "steps (on_db control_step) (execute ext (insertToken i))"
  "steps (on_db control_step) (execute ext (claimToken tid c))"
  by (rule control_catalog_write; rule insertToken_writes claimToken_writes; assumption)+

lemma control_insertAuditOnce [step_intros]:
  "steps (on_db control_step) (insertAuditOnce ext tid actor c action j)"
proof -
  have "steps (on_db control_step) (execute ext (\<lambda>now d. Inr (1, d\<lparr>audit_events := audit_events d @ [row]\<rparr>)))" for row
    by (rule controlling.steps_write) (auto simp: control_step_def)
  then show ?thesis unfolding insertAuditOnce_def by (intro step_intros)
qed

lemma queryAt_OK: "queryAt ext q w = (Inr x, w') \<Longrightarrow> x = q (w_clock w) (w_db w) \<and> w_db w' = w_db w"
  unfolding queryAt_def by (rule query_OK)

lemma control_bindLocked: "steps (on_db control_step) (bindLocked ext tid c node)"
proof -
  have bound: "on_db control_step w (snd (thenM (execute ext (bindToken tid node)) (retM (Some BOUND)) w))"
    if "find (\<lambda>t. bt_id t = tid \<and> since_time < bt_expiresAt t) (bootstrap_tokens (w_db w)) = Some cur" "bt_usedAt cur \<noteq> None"
    for w since_time cur
  proof -
    have "on_db control_step w (snd (execute ext (bindToken tid node) w))"
      using catalog_write_control [OF bindToken_writes [OF _ that]] controlling.T_refl
      by (auto simp: on_db_def execute_def executeStmt_def thenM_def bindM_def retM_def tick_def Let_def
          split: DbOutcome.split sum.split)
    then show ?thesis by (auto simp: thenM_def bindM_def retM_def split: prod.splits sum.splits)
  qed
  show ?thesis
    unfolding bindLocked_def steps_def
  proof (intro allI controlling.bindM_related)
    fix w x w' assume "queryAt ext (\<lambda>now d. find (\<lambda>t. bt_id t = tid \<and> now < bt_expiresAt t) (bootstrap_tokens d)) w = (Inr x, w')"
    then have "x = find (\<lambda>t. bt_id t = tid \<and> w_clock w < bt_expiresAt t) (bootstrap_tokens (w_db w'))"
      by (auto dest!: queryAt_OK)
    then show "on_db control_step w' (snd ((case x of None \<Rightarrow> retM None
        | Some current \<Rightarrow>
            if bt_usedAt current = None \<or> bt_claimId current \<noteq> Some c then retM None
            else if bt_completedNodeId current \<noteq> None
            then retM (Some (if bt_completedNodeId current = Some node then REPLAY else CONFLICT))
            else thenM (execute ext (bindToken tid node)) (retM (Some BOUND))) w'))"
      using bound [where w = w' and since_time = "w_clock w"]
      by (auto simp: retM_def on_db_def controlling.T_refl split: option.split)
  qed (rule controlling.steps_at, intro step_intros)
qed

lemma control_bootstrap_repository:
  "steps (on_db control_step) (bootstrap_create ext i)"
  "steps (on_db control_step) (consume ext h c)"
  "steps (on_db control_step) (bindCompletionNode ext tid c node)"
  "steps (on_db control_step) (recordCompletionAudit ext r n at)"
  unfolding bootstrap_create_def consume_def claimAudit_def bindCompletionNode_def recordCompletionAudit_def
  by (intro step_intros control_bindLocked)+

lemma only_db_bootstrap_repository:
  "steps only_db (bootstrap_create ext i)"
  "steps only_db (consume ext h c)"
  "steps only_db (bindCompletionNode ext tid c node)"
  "steps only_db (recordCompletionAudit ext r n at)"
  unfolding bootstrap_create_def consume_def claimAudit_def bindCompletionNode_def bindLocked_def
    recordCompletionAudit_def insertAuditOnce_def
  by (intro step_intros)+

context step_relation
begin

lemma steps_bootstrap_reads [step_intros]:
  "steps R (findClaimableByHash ext h c)" "steps R (requireSwarmJoinCredentials ext c role)"
  "steps R (assertNodeMatchesBootstrapScope r n)" "steps R (expectedLabelVersion ext r o')"
  unfolding findClaimableByHash_def requireSwarmJoinCredentials_def assertNodeMatchesBootstrapScope_def
    expectedLabelVersion_def
     apply (intro step_intros)+
  subgoal for x e by (cases e) (simp_all add: step_intros)
  done

end

context recovery_relation
begin

lemma steps_bootstrap_repository [step_intros]:
  "steps R (bootstrap_create ext i)" "steps R (consume ext h c)" "steps R (bindCompletionNode ext tid c node)"
  "steps R (recordCompletionAudit ext r n at)"
  by (rule steps_control [OF control_bootstrap_repository(1) only_db_bootstrap_repository(1)]
      steps_control [OF control_bootstrap_repository(2) only_db_bootstrap_repository(2)]
      steps_control [OF control_bootstrap_repository(3) only_db_bootstrap_repository(3)]
      steps_control [OF control_bootstrap_repository(4) only_db_bootstrap_repository(4)])+

lemma steps_bootstrap_issue [step_intros]: "steps R (bootstrap_issue ext c i actor)"
  unfolding bootstrap_issue_def assertCluster_def by (intro step_intros)

lemma steps_bootstrap_claim [step_intros]: "steps R (bootstrap_claim ext i)"
  unfolding bootstrap_claim_def assertCluster_def by (intro step_intros)

end

context store_relation
begin

lemma steps_bootstrap_complete [step_intros]: "steps R (bootstrap_complete ext i)"
  unfolding bootstrap_complete_def applyBootstrapLabels_def labels_of_node_def assertCluster_def
  by (intro step_intros steps_mutate)

end

end
