(* ===== verification/Reads.thy ===== *)
theory Reads
  imports Mutation_Service
begin

text \<open>
  \<^verbatim>\<open>read/read.service.ts\<close>: the views of the cluster, its nodes, services and tasks. Each one
  checks the cluster and passes on what the registered Agent client answers.
\<close>

definition inspectCluster :: "external \<Rightarrow> ClusterResponse cp" where
  "inspectCluster ext = agentRead ext (x_inspectCluster ext)"

definition listServices :: "external \<Rightarrow> ServiceSummary list cp" where
  "listServices ext = agentRead ext (x_listServices ext)"

definition listServiceTasks :: "external \<Rightarrow> string \<Rightarrow> TaskSummary list cp" where
  "listServiceTasks ext serviceId = agentRead ext (\<lambda>n. x_listServiceTasks ext n serviceId)"

definition read_cluster :: "external \<Rightarrow> string \<Rightarrow> ClusterResponse cp" where
  "read_cluster ext clusterId = thenM (assertCluster ext clusterId) (inspectCluster ext)"

definition read_node :: "external \<Rightarrow> string \<Rightarrow> string \<Rightarrow> NodeDetailResponse cp" where
  "read_node ext clusterId nodeId = thenM (assertCluster ext clusterId) (inspectNode ext nodeId)"

definition read_services :: "external \<Rightarrow> string \<Rightarrow> ServiceSummary list cp" where
  "read_services ext clusterId = thenM (assertCluster ext clusterId) (listServices ext)"

definition read_service :: "external \<Rightarrow> string \<Rightarrow> string \<Rightarrow> ServiceDetailResponse cp" where
  "read_service ext clusterId serviceId = thenM (assertCluster ext clusterId) (inspectService ext serviceId)"

definition read_tasks :: "external \<Rightarrow> string \<Rightarrow> string \<Rightarrow> TaskSummary list cp" where
  "read_tasks ext clusterId serviceId = thenM (assertCluster ext clusterId) (listServiceTasks ext serviceId)"

context step_relation
begin

lemma steps_reads [step_intros]:
  "steps R (read_cluster ext c)" "steps R (read_node ext c nid)" "steps R (read_services ext c)"
  "steps R (read_service ext c sid)" "steps R (read_tasks ext c sid)"
  unfolding read_cluster_def read_node_def read_services_def read_service_def read_tasks_def
    inspectCluster_def listServices_def listServiceTasks_def agentRead_def
  by (intro step_intros)+

end

end
