(* ===== verification/Deployment_Safety.thy ===== *)
theory Deployment_Safety
  imports Deployment_Service
begin

text \<open>
  The deployment service satisfies the contract of the services: every transaction is a store step,
  reads are reads, the verification loops record a success only for the plan that
  \<open>follows\<close> the record and was observed converged, and the handlers start and dispatch
  under the service lock on an unclaimed service.
\<close>

section \<open>Transactions are store steps\<close>

lemma auditOf_OK:
  assumes "auditOf ext oid missing action j w = (Inr u, w')"
  shows "\<exists>a. au_operationId a = oid \<and> w_db w' = (w_db w)\<lparr>audit_events := audit_events (w_db w) @ [a]\<rparr>"
proof -
  obtain op w1 where find: "op_findWithConnection ext oid w = (Inr (Some op), w1)"
    and aud: "op_audit ext (serviceAudit oid (o_actorId op) (o_clusterId op) (o_serviceId op) action None (Some j)) w1
      = (Inr u, w')"
    using assms unfolding auditOf_def by (auto simp: OK_simps)
  show ?thesis
    using op_find_OK [OF find] op_audit_OK [OF aud]
    by (metis auditRow_operationId audit_ids(1))
qed

lemma steps_auditOf [step_intros]: "steps only_db (auditOf ext oid missing action j)"
  unfolding auditOf_def by (intro step_intros)

lemma settles_deployment:
  assumes "\<And>w u w'. mark w = (Inr u, w') \<Longrightarrow> op_updated oid st (w_db w) (w_db w')"
    and "\<And>w u w'. depMark w = (Inr u, w') \<Longrightarrow> deps_updated (w_db w) (w_db w')"
    and "steps only_db mark" "steps only_db depMark"
  shows "makes {Settled oid st} (inTransaction ext (thenM mark (thenM depMark (auditOf ext oid missing action j))))"
proof (rule makes_updated)
  fix w x w' assume "thenM mark (thenM depMark (auditOf ext oid missing action j)) w = (Inr x, w')"
  then obtain u w1 v w2 where m: "mark w = (Inr u, w1)" and d: "depMark w1 = (Inr v, w2)"
    and aud: "auditOf ext oid missing action j w2 = (Inr x, w')"
    unfolding thenM_OK by blast
  from auditOf_OK [OF aud] show "store_step (Settled oid st) (w_db w) (w_db w')"
    using settled_step [OF assms(1) [OF m] disjI2 [OF assms(2) [OF d]]] by blast
next
  show "steps only_db (thenM mark (thenM depMark (auditOf ext oid missing action j)))"
    by (intro assms step_intros)
qed

lemma advances_deployment:
  assumes "\<And>w u w'. mark w = (Inr u, w') \<Longrightarrow> op_updated oid VERIFYING (w_db w) (w_db w')"
    and "\<And>w u w'. depMark w = (Inr u, w') \<Longrightarrow> deps_updated (w_db w) (w_db w')"
    and "steps only_db mark" "steps only_db depMark"
  shows "makes {Advanced oid} (inTransaction ext (thenM mark (thenM depMark (auditOf ext oid missing action j))))"
    and "makes {Advanced oid} (inTransaction ext (thenM mark depMark))"
proof -
  show "makes {Advanced oid} (inTransaction ext (thenM mark (thenM depMark (auditOf ext oid missing action j))))"
  proof (rule makes_updated)
    fix w x w' assume "thenM mark (thenM depMark (auditOf ext oid missing action j)) w = (Inr x, w')"
    then obtain u w1 v w2 where m: "mark w = (Inr u, w1)" and d: "depMark w1 = (Inr v, w2)"
      and aud: "auditOf ext oid missing action j w2 = (Inr x, w')"
      unfolding thenM_OK by blast
    from auditOf_OK [OF aud] show "store_step (Advanced oid) (w_db w) (w_db w')"
      using advanced_step [OF assms(1) [OF m] disjI2 [OF assms(2) [OF d]]] by blast
  qed (intro assms step_intros)
  show "makes {Advanced oid} (inTransaction ext (thenM mark depMark))"
  proof (rule makes_updated)
    fix w x w' assume "thenM mark depMark w = (Inr x, w')"
    then obtain u w1 where m: "mark w = (Inr u, w1)" and d: "depMark w1 = (Inr x, w')"
      unfolding thenM_OK by blast
    show "store_step (Advanced oid) (w_db w) (w_db w')"
      by (rule advanced_step [OF assms(1) [OF m] disjI2 [OF assms(2) [OF d]] disjI1 [OF refl]])
  qed (intro assms step_intros)
qed

lemma makes_settling:
  "makes {Settled oid NEEDS_ATTENTION} (attention ext did oid code m)"
  "makes {Settled oid NEEDS_ATTENTION} (rollbackAttention ext did oid code m)"
  "makes {Settled oid NEEDS_ATTENTION} (rollbackFailed ext did oid code m)"
  "makes {Settled oid FAILED} (fail ext did oid code m)"
  "makes {Settled oid FAILED} (rollbackRejected ext did oid e)"
  "makes {Settled oid SUCCESS} (completeRollback ext did oid cur)"
  unfolding attention_def rollbackAttention_def rollbackFailed_def fail_def rollbackRejected_def
    completeRollback_def case_prod_beta Let_def
  by (rule settles_deployment; (erule op_statements_OK | erule dep_statements_OK | intro step_intros))+

lemma makes_advancing:
  "makes {Advanced oid} (markVerificationPending ext did oid code m)"
  "makes {Advanced oid} (markRollbackVerificationPending ext did oid code m)"
  "makes {Advanced oid} (deployment_markVerifying ext did oid v)"
  "makes {Advanced oid} (markRollbackVerifying ext did oid v)"
  unfolding markVerificationPending_def markRollbackVerificationPending_def deployment_markVerifying_def
    markRollbackVerifying_def
  by ((rule advances_deployment(1) | rule advances_deployment(2));
      (erule op_statements_OK | erule dep_statements_OK | intro step_intros))+

lemma makes_completeDeployment: "makes {Settled oid SUCCESS} (completeDeployment ext did oid noOp cur)"
  unfolding completeDeployment_def
proof (rule makes_updated, goal_cases)
  case (1 w x w')
  then obtain u w1 v w2 op w3 dep w4 where m: "op_markSuccess ext oid (s_version (sd_service cur)) w = (Inr u, w1)"
    and d: "dep_markSuccess ext did w1 = (Inr v, w2)"
    and find: "op_findWithConnection ext oid w2 = (Inr (Some op), w3)"
    and dep: "dep_requireWithConnection ext did w3 = (Inr dep, w4)"
    and aud: "op_audit ext (serviceAudit oid (o_actorId op) (o_clusterId op) (o_serviceId op)
      (successAction (d_kind dep) noOp) None (Some (serviceJson (sd_service cur)))) w4 = (Inr x, w')"
    by (auto simp: OK_simps)
  note same = op_find_OK [OF find] dep_require_OK [OF dep]
  show ?case
    using op_audit_OK [OF aud] same
    by (intro settled_step [OF op_statements_OK(4) [OF m] disjI2 [OF dep_statements_OK(8) [OF d]]]) auto
qed (intro step_intros)

lemma makes_backfill: "makes {Noted} (op_backfillTargetRuntimeSpecHash ext oid h)"
  unfolding op_backfillTargetRuntimeSpecHash_def
proof (rule makes_execute)
  fix now n and d d' :: database
  let ?P = "\<lambda>r. o_id r = oid \<and> o_targetRuntimeSpecHash r = None"
  let ?g = "\<lambda>r. if o_targetRuntimeSpecHash r = None
      then r\<lparr>o_targetRuntimeSpecHash := Some h, o_updatedAt := now\<rparr> else r"
  assume "(let P = ?P in Inr (length (filter P (operations d)), d\<lparr>operations := update_rows P
      (\<lambda>r. r\<lparr>o_targetRuntimeSpecHash := Some h, o_updatedAt := now\<rparr>) (operations d)\<rparr>)) = Inr (n, d')"
  then have "d' = d\<lparr>operations := update_rows ?P ?g (operations d)\<rparr>"
    by (auto simp: Let_def update_rows_def)
  then have "store_step Noted d d'"
    by (intro store_step.noted [where P = ?P and g = ?g])
       (auto simp: logs_kept_def dep_rows.evolve_refl op_same_intent_def op_same_outcome_def)
  then show "\<exists>ev \<in> {Noted}. store_step ev d d'" by simp
qed

text \<open>The rows that the intents add.\<close>

definition deploy_intended ::
    "OperationType \<Rightarrow> string \<Rightarrow> string \<Rightarrow> ServiceMutationPlan \<Rightarrow> string option \<Rightarrow> OperationRecord \<Rightarrow> bool" where
  "deploy_intended type oid c plan ref r \<longleftrightarrow>
     o_id r = oid \<and> o_clusterId r = c \<and> o_serviceId r = p_serviceId plan \<and> o_type r = type \<and>
     o_expectedVersion r = p_version plan \<and> o_beforeSpecHash r = p_beforeSpecHash plan \<and>
     o_targetSpecHash r = p_targetSpecHash plan \<and> o_targetForceUpdate r = p_targetForceUpdate plan \<and>
     o_targetImage r = ref \<and> o_targetRuntimeSpecHash r = p_targetRuntimeSpecHash plan \<and>
     o_status r = RUNNING"

lemma deploy_started:
  assumes create: "op_create ext i w = (Inr u, w1)" and run: "op_markRunning ext oid w1 = (Inr v, w2)"
    and deps: "deps_updated (w_db w2) d3"
    and aud: "d4 = d3\<lparr>audit_events := audit_events d3 @ [a]\<rparr>" "au_operationId a = oid"
    and intent: "oi_id i = oid" "oi_clusterId i = c" "oi_serviceId i = p_serviceId plan" "oi_type i = type"
      "oi_expectedVersion i = p_version plan" "oi_beforeSpecHash i = p_beforeSpecHash plan"
      "oi_targetSpecHash i = p_targetSpecHash plan" "oi_targetForceUpdate i = p_targetForceUpdate plan"
      "oi_targetImage i = ref" "oi_targetRuntimeSpecHash i = p_targetRuntimeSpecHash plan"
    and runtime: "p_targetRuntimeSpecHash plan \<noteq> None"
  shows "\<exists>r. deploy_intended type oid c plan ref r \<and> store_step (Started r) (w_db w) d4"
proof -
  obtain r where new: "find_row o_id oid (operations (w_db w)) = None"
    and w1: "w_db w1 = (w_db w)\<lparr>operations := operations (w_db w) @ [r]\<rparr>"
    and r: "o_status r = PENDING" "deploy_intended type oid c plan ref (r\<lparr>o_status := RUNNING\<rparr>)"
    using op_create_OK [OF create] intent by (auto simp: newOperation_def deploy_intended_def)
  obtain r' where "op_same_intent r r'" "o_status r' = RUNNING" and step: "store_step (Started r') (w_db w) d4"
    using started_step [OF new _ _ w1 op_statements_OK(1) [OF run] disjI2 [OF deps] aud] r
    by (auto simp: deploy_intended_def)
  then have "deploy_intended type oid c plan ref r'"
    using r runtime by (auto simp: deploy_intended_def op_same_intent_def)
  then show ?thesis using step by blast
qed

lemma deps_updated_trans: "deps_updated a b \<Longrightarrow> deps_updated b c \<Longrightarrow> deps_updated a c"
proof -
  assume ab: "deps_updated a b" and bc: "deps_updated b c"
  obtain p q p' q' where b: "b = a\<lparr>deployments := p, rollback_attempts := q\<rparr>"
      "rows_evolve d_id dep_evolves (deployments a) p" "prefix (rollback_attempts a) q"
    and c: "c = b\<lparr>deployments := p', rollback_attempts := q'\<rparr>"
      "rows_evolve d_id dep_evolves (deployments b) p'" "prefix (rollback_attempts b) q'"
    using ab bc unfolding deps_updated_def by blast
  then show "deps_updated a c"
    unfolding deps_updated_def using dep_rows.evolve_trans prefix_order.trans
    by (intro exI [of _ p'] exI [of _ q']) fastforce
qed

lemma makes_deployment_persistIntent:
  assumes "p_targetRuntimeSpecHash plan \<noteq> None"
  shows "makes {Started r | r. deploy_intended DEPLOY (dq_operationId input) c plan (Some ref) r}
    (deployment_persistIntent ext c targetId releaseId input actor plan before ref noOp kind source)"
  unfolding deployment_persistIntent_def
proof (rule makes_transaction, goal_cases)
  case 1
  show ?case by (intro step_intros)
next
  case (2 w x w')
  then obtain prev w0 i u w1 v w2 di w3 a z where q: "dep_latestSuccessfulReleaseId ext targetId w = (Inr prev, w0)"
    and create: "op_create ext i w0 = (Inr u, w1)"
    and run: "op_markRunning ext (dq_operationId input) w1 = (Inr v, w2)"
    and dep: "dep_create ext di w2 = (Inr x, w3)" and aud: "op_audit ext a w3 = (Inr z, w')"
    and a: "a_operationId a = dq_operationId input"
    and i: "i = \<lparr>oi_id = dq_operationId input, oi_clusterId = c, oi_serviceId = p_serviceId plan,
           oi_type = DEPLOY, oi_actorId = pr_actorId actor, oi_expectedVersion = p_version plan,
           oi_beforeSpecHash = p_beforeSpecHash plan, oi_targetSpecHash = p_targetSpecHash plan,
           oi_targetForceUpdate = p_targetForceUpdate plan,
           oi_targetReplicas = Some (s_desiredReplicas (sd_service before)),
           oi_targetImage = Some ref, oi_targetTaskSpecHash = p_targetTaskSpecHash plan,
           oi_targetRuntimeSpecHash = p_targetRuntimeSpecHash plan\<rparr>"
    by (auto simp: OK_simps)
  have "w_db w0 = w_db w" using query_OK [OF q [unfolded dep_latestSuccessfulReleaseId_def]] by simp
  then show ?case
    using deploy_started [OF create run dep_create_OK [OF dep] op_audit_OK [OF aud], of c plan DEPLOY "Some ref"]
      a i assms by auto
qed

lemma makes_persistRollbackIntent:
  assumes "p_targetRuntimeSpecHash plan \<noteq> None"
  shows "makes {Started r | r. deploy_intended ROLLBACK oid c plan (p_targetImage plan) r}
    (persistRollbackIntent ext c deployment actor oid plan before)"
  unfolding persistRollbackIntent_def
proof (rule makes_transaction, goal_cases)
  case 1
  show ?case by (intro step_intros)
next
  case (2 w x w')
  then obtain i u w1 v w2 y w3 z w4 a where create: "op_create ext i w = (Inr u, w1)"
    and run: "op_markRunning ext oid w1 = (Inr v, w2)"
    and rec: "dep_recordRollbackAttempt ext (d_id deployment) oid w2 = (Inr y, w3)"
    and roll: "dep_markRollingBack ext (d_id deployment) oid w3 = (Inr z, w4)"
    and aud: "op_audit ext a w4 = (Inr x, w')" and a: "a_operationId a = oid"
    and i: "i = \<lparr>oi_id = oid, oi_clusterId = c, oi_serviceId = p_serviceId plan,
           oi_type = ROLLBACK, oi_actorId = pr_actorId actor, oi_expectedVersion = p_version plan,
           oi_beforeSpecHash = p_beforeSpecHash plan, oi_targetSpecHash = p_targetSpecHash plan,
           oi_targetForceUpdate = p_targetForceUpdate plan, oi_targetReplicas = p_targetReplicas plan,
           oi_targetImage = p_targetImage plan, oi_targetTaskSpecHash = p_targetTaskSpecHash plan,
           oi_targetRuntimeSpecHash = p_targetRuntimeSpecHash plan\<rparr>"
    by (auto simp: OK_simps)
  note deps = deps_updated_trans [OF dep_recordRollbackAttempt_OK [OF rec] dep_statements_OK(1) [OF roll]]
  show ?case
    using deploy_started [OF create run deps op_audit_OK [OF aud], of c plan ROLLBACK "p_targetImage plan"]
      a i assms by auto
qed

section \<open>Reads\<close>

context step_relation
begin

lemma steps_deployment_lookups [step_intros]:
  "steps R (findDeploymentTarget ext tid)" "steps R (findRelease ext rid)"
  "steps R (deployment_requireOperation ext oid)"
  unfolding findDeploymentTarget_def findRelease_def deployment_requireOperation_def by (intro step_intros)+

lemma steps_orAgentError [step_intros]: "steps R m \<Longrightarrow> steps R (orAgentError m fallback)"
  unfolding orAgentError_def by (intro step_intros)

lemma steps_deployment_asserts [step_intros]:
  "steps R (deployment_assertPlanMatchesCurrent plan cur ref)"
  "steps R (deployment_assertIdempotent op actor sid)" "steps R (assertRollbackIdempotent op actor sid)"
  "steps R (assertSameDeployment dep tid input pr kind source)"
  "steps R (rollbackAttemptResult dep op)"
  unfolding deployment_assertPlanMatchesCurrent_def deployment_assertIdempotent_def
    assertRollbackIdempotent_def assertSameDeployment_def rollbackAttemptResult_def
  by (intro step_intros)+

lemma steps_rollback_plans [step_intros]:
  "steps R (buildObservedRollbackPlan dep digest cur)" "steps R (assertRollbackOwnership dep digest plan cur)"
  unfolding buildObservedRollbackPlan_def assertRollbackOwnership_def Let_def
  by (auto split: option.split prod.split intro!: step_intros)

lemma steps_convergence [step_intros]:
  "steps R (placementDecision ext sid)" "steps R (classifyDeploymentConvergence ext cur plan digest noOp)"
  "steps R (classifyRollbackConvergence ext cur plan digest)"
proof -
  show p: "steps R (placementDecision ext sid)" for sid
    unfolding placementDecision_def by (intro step_intros)
  show "steps R (classifyDeploymentConvergence ext cur plan digest noOp)"
    "steps R (classifyRollbackConvergence ext cur plan digest)"
    unfolding classifyDeploymentConvergence_def classifyRollbackConvergence_def Let_def
    by (intro step_intros p)+
qed

lemma steps_guards [step_intros]:
  "steps R (deploymentGuard ext plan digest noOp)" "steps R (rollbackGuard ext plan digest)"
  unfolding deploymentGuard_def rollbackGuard_def by (intro step_intros)+

lemma steps_legacy [step_intros]:
  "steps R (legacyIntentHasExternalConflict ext op)" "steps R (legacyFingerprint ext op cur)"
  unfolding legacyIntentHasExternalConflict_def legacyFingerprint_def Let_def by (intro step_intros)+

lemma steps_deployment_views [step_intros]:
  "steps R (findTerminalDeploymentRetry ext c tid input pr kind)"
  "steps R (findTerminalRollbackRetry ext c dep oid pr sid)"
  "steps R (assertServiceUnclaimed ext c sid)" "steps R (selectSource ext tid rid kind source)"
  unfolding findTerminalDeploymentRetry_def findTerminalRollbackRetry_def assertServiceUnclaimed_def
    selectSource_def
  by (auto split: option.split prod.split intro!: step_intros)

end

text \<open>What a successful decision has seen.\<close>

lemma placementDecision_SUCCESS:
  assumes "placementDecision ext sid w = (Inr DecSuccess, w')"
  shows "placed ext (w_calls w) (w_calls w') sid"
proof -
  obtain r where r: "checkServicePlacement ext sid w = (r, w')"
    and "(case r of Inr status \<Rightarrow> if status = PlConverged then DecSuccess else DecPending
       | Inl e \<Rightarrow> DecPending) = DecSuccess"
    using assms unfolding placementDecision_def bindM_OK attempt_OK retM_OK by metis
  then have "checkServicePlacement ext sid w = (Inr PlConverged, w')"
    by (cases r) (simp_all split: if_splits)
  from agentRead_OK [OF this [unfolded checkServicePlacement_def]] show ?thesis
    unfolding placed_def by blast
qed

lemma deployment_SUCCESS:
  assumes "inspectService ext (p_serviceId plan) w = (Inr cur, w1)"
    and "classifyDeploymentConvergence ext cur plan digest noOp w1 = (Inr DecSuccess, w')"
  shows "deployment_shown ext (w_calls w) (w_calls w') (p_serviceId plan) plan digest DEPLOY"
proof -
  have snap: "classifyDeploymentSnapshot cur plan digest noOp = DecSuccess"
    and place: "placementDecision ext (p_serviceId plan) w1 = (Inr DecSuccess, w')"
    using assms(2) unfolding classifyDeploymentConvergence_def Let_def by (auto simp: OK_simps)
  have "w_calls w \<le> w_calls w1" "w_calls w1 \<le> w_calls w'"
    using stepsD [OF reading.steps_agent_reads(1) assms(1)] stepsD [OF reading.steps_convergence(1) place]
    by (simp_all add: reads_only_def only_db_iff)
  then show ?thesis
    using inspectService_OK [OF assms(1)] snap placed_mono [OF placementDecision_SUCCESS [OF place]]
    unfolding deployment_shown_def observed_def by (auto intro: less_le_trans)
qed

lemma classifyRollbackSnapshot_not_paused: "classifyRollbackSnapshot cur plan digest \<noteq> DecRollbackPaused"
  by (simp add: classifyRollbackSnapshot_def Let_def)

lemma rollback_SUCCESS:
  assumes "inspectService ext (p_serviceId plan) w = (Inr cur, w1)"
    and "classifyRollbackConvergence ext cur plan digest w1 = (Inr decision, w')"
    and "decision = DecSuccess \<or> decision = DecRollbackPaused"
  shows "deployment_shown ext (w_calls w) (w_calls w') (p_serviceId plan) plan digest ROLLBACK"
proof -
  have decided: "classifyRollbackSnapshot cur plan digest = DecSuccess \<and>
      placementDecision ext (p_serviceId plan) w1 = (Inr decision, w')"
    using assms(2,3) classifyRollbackSnapshot_not_paused unfolding classifyRollbackConvergence_def Let_def
    by (auto simp: OK_simps)
  then have snap: "classifyRollbackSnapshot cur plan digest = DecSuccess"
    and place: "placementDecision ext (p_serviceId plan) w1 = (Inr DecSuccess, w')"
    using assms(3) by (auto simp: placementDecision_def OK_simps split: sum.splits if_splits)
  have "w_calls w \<le> w_calls w1" "w_calls w1 \<le> w_calls w'"
    using stepsD [OF reading.steps_agent_reads(1) assms(1)] stepsD [OF reading.steps_convergence(1) place]
    by (simp_all add: reads_only_def only_db_iff)
  then show ?thesis
    using inspectService_OK [OF assms(1)] snap placed_mono [OF placementDecision_SUCCESS [OF place]]
    unfolding deployment_shown_def observed_def by (auto intro: less_le_trans)
qed

section \<open>Verification loops\<close>

definition deploy_tracked ::
    "OperationType \<Rightarrow> string \<Rightarrow> ServiceMutationPlan \<Rightarrow> string \<Rightarrow> database \<Rightarrow> bool" where
  "deploy_tracked type oid plan digest d \<longleftrightarrow>
     p_targetRuntimeSpecHash plan \<noteq> None \<and>
     (\<exists>r. find_row o_id oid (operations d) = Some r \<and> o_type r = type \<and> follows plan digest r)"

lemma history_keeps_row:
  assumes "history_kept d d'" and "find_row o_id oid (operations d) = Some r"
  shows "\<exists>r'. find_row o_id oid (operations d') = Some r' \<and> op_same_intent r r'"
  using assms unfolding history_kept_def rows_evolve_def op_evolves_def by metis

lemma deploy_tracked_kept:
  assumes "deploy_tracked type oid plan digest d" and "history_kept d d'"
  shows "deploy_tracked type oid plan digest d'"
proof -
  obtain r where r: "find_row o_id oid (operations d) = Some r" "o_type r = type" "follows plan digest r"
      "p_targetRuntimeSpecHash plan \<noteq> None"
    using assms(1) unfolding deploy_tracked_def by blast
  then obtain r' where "find_row o_id oid (operations d') = Some r'" "op_same_intent r r'"
    using history_keeps_row [OF assms(2)] by blast
  then show ?thesis
    using r follows_intent by (auto simp: deploy_tracked_def op_same_intent_def)
qed

context recovery_relation
begin

lemma steps_deployment_transactions [step_intros]:
  "steps R (attention ext did oid code m)" "steps R (rollbackAttention ext did oid code m)"
  "steps R (rollbackFailed ext did oid code m)" "steps R (fail ext did oid code m)"
  "steps R (rollbackRejected ext did oid e)"
  "steps R (markVerificationPending ext did oid code m)"
  "steps R (markRollbackVerificationPending ext did oid code m)"
  "steps R (deployment_markVerifying ext did oid v)" "steps R (markRollbackVerifying ext did oid v)"
  "steps R (op_backfillTargetRuntimeSpecHash ext oid h)"
  by (rule steps_settles(1) [OF makes_settling(1)] steps_settles(1) [OF makes_settling(2)]
      steps_settles(1) [OF makes_settling(3)] steps_settles(1) [OF makes_settling(4)]
      steps_settles(1) [OF makes_settling(5)] steps_advances(1) [OF makes_advancing(1)]
      steps_advances(1) [OF makes_advancing(2)] steps_advances(1) [OF makes_advancing(3)]
      steps_advances(1) [OF makes_advancing(4)] steps_notes [OF makes_backfill]; simp)+

lemma steps_concludeWith [step_intros]: "steps R m \<Longrightarrow> steps R (concludeWith ext did m)"
  unfolding concludeWith_def by (intro step_intros)

lemma steps_giveUp [step_intros]: "steps R m \<Longrightarrow> steps R (giveUp ext did m)"
  unfolding giveUp_def by (intro step_intros)

lemma steps_healthErrors [step_intros]:
  "steps R (deploymentHealthError ext did oid e)" "steps R (rollbackHealthError ext did oid e)"
  unfolding deploymentHealthError_def rollbackHealthError_def
  by (auto split: failure.split option.split DeploymentDecision.split intro!: step_intros)

lemma concludeWith_success:
  assumes tracked: "deploy_tracked type oid plan digest (w_db w)" and type: "type \<in> {DEPLOY, ROLLBACK}"
    and seen: "deployment_shown ext (w_calls w) (w_calls w1) (p_serviceId plan) plan digest type"
    and R1: "R w w1" and same: "w_db w1 = w_db w" and m: "makes {Settled oid SUCCESS} m"
  shows "R w (snd (concludeWith ext did m w1))"
  unfolding concludeWith_def thenM_def
proof (rule bindM_from)
  obtain r where "find_row o_id oid (operations (w_db w)) = Some r" "o_type r = type" "follows plan digest r"
    using tracked unfolding deploy_tracked_def by blast
  then have "\<exists>r. find_row o_id oid (operations (w_db w1)) = Some r \<and> shown ext (w_calls w) (w_calls w1) r"
    using seen type same unfolding shown_def follows_def by (intro exI [of _ r]) (auto simp: follows_def)
  then show "R w (snd (m w1))"
    by (intro makes_related [OF m R1]) auto
next
  fix u w2 assume "R w w2"
  moreover have "steps R (bindM (dep_requireWithConnection ext did) (\<lambda>d. retM (Break d)))"
    by (intro step_intros)
  ultimately show "R w (snd (bindM (dep_requireWithConnection ext did) (\<lambda>d. retM (Break d)) w2))"
    by (rule steps_from [rotated])
qed

lemma deploymentFinalCheck_related:
  assumes tracked: "deploy_tracked DEPLOY oid plan digest (w_db w)"
  shows "R w (snd (deploymentFinalCheck ext did oid plan digest noOp w))"
  unfolding deploymentFinalCheck_def
proof (intro bindM_from steps_at [OF steps_attempt] step_intros, goal_cases)
  case (1 r w1)
  then have ins: "inspectService ext (p_serviceId plan) w = (r, w1)" by (simp add: attempt_OK)
  show ?case
  proof (cases r)
    case (Inl e)
    then show ?thesis using steps_from [OF steps_retM 1(2)] by simp
  next
    case (Inr cur)
    show ?thesis
      unfolding Inr sum.case
    proof (rule bindM_from, rule steps_from [OF steps_convergence(2) 1(2)], goal_cases)
      case (1 d w2)
      have db: "w_db w1 = w_db w" "w_db w2 = w_db w1"
        using stepsD [OF reading.steps_agent_reads(1)] ins Inr stepsD [OF reading.steps_convergence(2) 1(1)]
        by (force simp: reads_only_def)+
      show ?case
      proof (cases "d = DecSuccess")
        case True
        then show ?thesis
          using deployment_SUCCESS [OF ins [unfolded Inr] 1(1) [unfolded True]] 1(2) tracked db
          by (simp add: concludeWith_success [OF _ _ _ _ _ makes_completeDeployment])
      next
        case False
        then show ?thesis
          by (cases d) (simp_all, (intro steps_from [OF _ 1(2)] step_intros)+)
      qed
    qed
  qed
qed

lemma rollbackFinalCheck_related:
  assumes tracked: "deploy_tracked ROLLBACK oid plan digest (w_db w)"
  shows "R w (snd (rollbackFinalCheck ext did oid plan digest w))"
  unfolding rollbackFinalCheck_def
proof (intro bindM_from steps_at [OF steps_attempt] step_intros, goal_cases)
  case (1 r w1)
  then have ins: "inspectService ext (p_serviceId plan) w = (r, w1)" by (simp add: attempt_OK)
  show ?case
  proof (cases r)
    case (Inl e)
    then show ?thesis using steps_from [OF steps_retM 1(2)] by simp
  next
    case (Inr cur)
    show ?thesis
      unfolding Inr sum.case
    proof (rule bindM_from, rule steps_from [OF steps_convergence(3) 1(2)], goal_cases)
      case (1 d w2)
      have db: "w_db w1 = w_db w" "w_db w2 = w_db w1"
        using stepsD [OF reading.steps_agent_reads(1)] ins Inr stepsD [OF reading.steps_convergence(3) 1(1)]
        by (force simp: reads_only_def)+
      show ?case
      proof (cases "d = DecSuccess \<or> d = DecRollbackPaused")
        case True
        then have "R w (snd (concludeWith ext did (completeRollback ext did oid cur) w2))"
          using rollback_SUCCESS [OF ins [unfolded Inr] 1(1) True] 1(2) tracked db
          by (simp add: concludeWith_success [OF _ _ _ _ _ makes_settling(6)])
        then show ?thesis using True by auto
      next
        case False
        then show ?thesis
          by (cases d) (simp_all, (intro steps_from [OF _ 1(2)] step_intros)+)
      qed
    qed
  qed
qed

text \<open>One iteration: everything before the final check only reads.\<close>

lemma deploymentVerifyStep_related:
  assumes tracked: "deploy_tracked DEPLOY oid plan digest (w_db w)"
  shows "R w (snd (deploymentVerifyStep ext did oid plan digest noOp health lastError w))"
  unfolding deploymentVerifyStep_def
proof (intro bindM_from steps_at [OF steps_attempt] step_intros, goal_cases)
  case (1 r w1)
  have db1: "w_db w1 = w_db w"
    using stepsD [OF reading.steps_attempt [OF reading.steps_agent_reads(1)] 1(1)] by (simp add: reads_only_def)
  show ?case
  proof (cases r)
    case (Inl e)
    then show ?thesis using steps_from [OF steps_retM 1(2)] by simp
  next
    case (Inr cur)
    show ?thesis
      unfolding Inr sum.case
    proof (rule bindM_from, rule steps_from [OF steps_convergence(2) 1(2)], goal_cases)
      case (1 d w2)
      have db2: "w_db w2 = w_db w"
        using stepsD [OF reading.steps_convergence(2) 1(1)] db1 by (simp add: reads_only_def)
      show ?case
      proof (cases "d = DecSuccess")
        case True
        show ?thesis
          unfolding True DeploymentDecision.case
        proof (rule bindM_from, rule steps_from [OF steps_attempt [OF steps_health_verify [OF steps_guards(1)]] 1(2)],
            goal_cases)
          case (1 verified w3)
          have "w_db w3 = w_db w"
            using stepsD [OF reading.steps_attempt [OF reading.steps_health_verify [OF reading.steps_guards(1)]] 1(1)]
              db2 by (simp add: reads_only_def)
          then have "R w (snd (deploymentFinalCheck ext did oid plan digest noOp w3))"
            using deploymentFinalCheck_related [of oid plan digest w3] tracked trans [OF 1(2)] by simp
          then show ?case
            using steps_from [OF steps_healthErrors(1) 1(2)] by (simp split: sum.split)
        qed
      next
        case False
        then show ?thesis
          by (cases d) (simp_all, (intro steps_from [OF _ 1(2)] step_intros)+)
      qed
    qed
  qed
qed

lemma rollbackVerifyStep_related:
  assumes tracked: "deploy_tracked ROLLBACK oid plan digest (w_db w)"
  shows "R w (snd (rollbackVerifyStep ext did oid plan digest health lastError w))"
  unfolding rollbackVerifyStep_def
proof (intro bindM_from steps_at [OF steps_attempt] step_intros, goal_cases)
  case (1 r w1)
  have db1: "w_db w1 = w_db w"
    using stepsD [OF reading.steps_attempt [OF reading.steps_agent_reads(1)] 1(1)] by (simp add: reads_only_def)
  show ?case
  proof (cases r)
    case (Inl e)
    then show ?thesis using steps_from [OF steps_retM 1(2)] by simp
  next
    case (Inr cur)
    show ?thesis
      unfolding Inr sum.case
    proof (rule bindM_from, rule steps_from [OF steps_convergence(3) 1(2)], goal_cases)
      case (1 d w2)
      have db2: "w_db w2 = w_db w"
        using stepsD [OF reading.steps_convergence(3) 1(1)] db1 by (simp add: reads_only_def)
      show ?case
      proof (cases "d = DecSuccess")
        case True
        show ?thesis
          unfolding True DeploymentDecision.case
        proof (rule bindM_from, rule steps_from [OF steps_attempt [OF steps_health_verify [OF steps_guards(2)]] 1(2)],
            goal_cases)
          case (1 verified w3)
          have "w_db w3 = w_db w"
            using stepsD [OF reading.steps_attempt [OF reading.steps_health_verify [OF reading.steps_guards(2)]] 1(1)]
              db2 by (simp add: reads_only_def)
          then have "R w (snd (rollbackFinalCheck ext did oid plan digest w3))"
            using rollbackFinalCheck_related [of oid plan digest w3] tracked trans [OF 1(2)] by simp
          then show ?case
            using steps_from [OF steps_healthErrors(2) 1(2)] by (simp split: sum.split)
        qed
      next
        case False
        then show ?thesis
          by (cases d) (simp_all, (intro steps_from [OF _ 1(2)] step_intros)+)
      qed
    qed
  qed
qed

end

context recovery_relation
begin

text \<open>Loops over a step that is covered while its operation is tracked.\<close>

lemma poll_tracked:
  assumes tracked: "deploy_tracked type oid plan digest (w_db w)"
    and step: "\<And>s w. deploy_tracked type oid plan digest (w_db w) \<Longrightarrow> R w (snd (body s w))"
    and kept: "\<And>s w. deploy_tracked type oid plan digest (w_db w) \<Longrightarrow> on_db history_kept w (snd (body s w))"
    and finish: "\<And>s. steps R (after s)"
  shows "R w (snd (bindM (poll ext timeout interval body s)
    (\<lambda>r. case r of Inr d \<Rightarrow> retM d | Inl s \<Rightarrow> after s) w))"
proof -
  have "R w (snd (poll ext timeout interval body s w)) \<and>
      deploy_tracked type oid plan digest (w_db (snd (poll ext timeout interval body s w)))"
  proof (rule poll_invariant)
    fix s and w :: world assume "deploy_tracked type oid plan digest (w_db w)"
    then show "R w (snd (body s w)) \<and> deploy_tracked type oid plan digest (w_db (snd (body s w)))"
      using step kept deploy_tracked_kept unfolding on_db_def by blast
  qed (use tracked in \<open>simp_all add: sleepW_def\<close>)
  then show ?thesis
    by (intro bindM_related) (auto intro: steps_at [OF finish] steps_at [OF steps_retM] split: sum.split)
qed

lemma verifyAndComplete_related:
  assumes "deploy_tracked DEPLOY oid plan digest (w_db w)"
  shows "R w (snd (verifyAndComplete ext did oid plan digest noOp health w))"
  unfolding verifyAndComplete_def
  using assms
proof (rule poll_tracked)
  fix s and w :: world assume t: "deploy_tracked DEPLOY oid plan digest (w_db w)"
  show "R w (snd (deploymentVerifyStep ext did oid plan digest noOp health s w))"
    by (rule deploymentVerifyStep_related [OF t])
  show "on_db history_kept w (snd (deploymentVerifyStep ext did oid plan digest noOp health s w))"
    by (rule hist.deploymentVerifyStep_related [OF t])
qed (intro step_intros)

lemma verifyRollbackAndComplete_related:
  assumes "deploy_tracked ROLLBACK oid plan digest (w_db w)"
  shows "R w (snd (verifyRollbackAndComplete ext did oid plan digest health w))"
  unfolding verifyRollbackAndComplete_def
  using assms
proof (rule poll_tracked)
  fix s and w :: world assume t: "deploy_tracked ROLLBACK oid plan digest (w_db w)"
  show "R w (snd (rollbackVerifyStep ext did oid plan digest health s w))"
    by (rule rollbackVerifyStep_related [OF t])
  show "on_db history_kept w (snd (rollbackVerifyStep ext did oid plan digest health s w))"
    by (rule hist.rollbackVerifyStep_related [OF t])
qed (intro step_intros)

end

section \<open>Reconciliation\<close>

lemma backfill_row:
  assumes "op_backfillTargetRuntimeSpecHash ext oid h w = (Inr u, w')"
    and r: "find_row o_id oid (operations (w_db w)) = Some r"
  shows "\<exists>r'. find_row o_id oid (operations (w_db w')) = Some r' \<and> op_same_intent r r' \<and>
    (o_targetRuntimeSpecHash r = None \<longrightarrow> o_targetRuntimeSpecHash r' = Some h)"
proof -
  obtain now where "operations (w_db w') = update_rows (\<lambda>r. o_id r = oid \<and> o_targetRuntimeSpecHash r = None)
      (\<lambda>r. r\<lparr>o_targetRuntimeSpecHash := Some h, o_updatedAt := now\<rparr>) (operations (w_db w))"
    using execute_OK [OF assms(1) [unfolded op_backfillTargetRuntimeSpecHash_def]] by (auto simp: Let_def)
  moreover have "o_id r = oid" using find_row_Some [OF r] by simp
  ultimately show ?thesis
    using r by (auto simp: find_row_update op_same_intent_def)
qed

lemma digestFromImage_contains:
  assumes "digestFromImage ref = Some digest"
  shows "imageContainsDigest (Some ref) digest"
proof -
  let ?suffix = "drop (length ref - 72) ref"
  have len: "length ref \<ge> 72" and at: "take 8 ?suffix = ''@sha256:''" and d: "digest = toLowerCase (drop 1 ?suffix)"
    using assms by (auto simp: digestFromImage_def Let_def split: if_splits)
  have ne: "?suffix \<noteq> []" using at by auto
  then have "hd ?suffix = CHR ''@''" using at by (cases ?suffix) auto
  then have "?suffix = ''@'' @ drop 1 ?suffix" using ne by (cases ?suffix) auto
  then have "toLowerCase ?suffix = ''@'' @ toLowerCase digest"
    using d toLowerCase_append [of "''@''" "drop 1 ?suffix"] by (simp add: toLowerCase_Cons toLowerChar_def)
  moreover have "toLowerCase ref = toLowerCase (take (length ref - 72) ref) @ toLowerCase ?suffix"
    by (metis append_take_drop_id toLowerCase_append)
  ultimately have "includesStr (toLowerCase ref) (''@'' @ toLowerCase digest)"
    unfolding includesStr_iff by (metis append.right_neutral)
  then show ?thesis using len by (auto simp: imageContainsDigest_def)
qed

lemma hydrate_OK:
  assumes run: "hydrateLegacyRuntimeFingerprint ext op w = (Inr (Some c), w')"
  shows "c = op \<and> w' = w \<and> \<not> falsy (o_targetRuntimeSpecHash op) \<or>
    falsy (o_targetRuntimeSpecHash op) \<and> (\<exists>h w1 u. c = op\<lparr>o_targetRuntimeSpecHash := Some h\<rparr> \<and>
      w_db w1 = w_db w \<and> op_backfillTargetRuntimeSpecHash ext (o_id op) h w1 = (Inr u, w'))"
proof (cases "falsy (o_targetRuntimeSpecHash op)")
  case False
  then show ?thesis using run by (simp add: hydrateLegacyRuntimeFingerprint_def retM_OK)
next
  case True
  obtain r w1 where ins: "inspectService ext (o_serviceId op) w = (r, w1)"
    and rest: "(case r of Inl e \<Rightarrow> retM None | Inr current \<Rightarrow>
            bindM (legacyFingerprint ext op current) (\<lambda>found.
            case found of None \<Rightarrow> retM None
            | Some runtimeSpecHash \<Rightarrow>
                if falsy runtimeSpecHash then retM None
                else thenM (op_backfillTargetRuntimeSpecHash ext (o_id op) (the runtimeSpecHash))
                       (retM (Some (op\<lparr>o_targetRuntimeSpecHash := runtimeSpecHash\<rparr>))))) w1 = (Inr (Some c), w')"
    using run True unfolding hydrateLegacyRuntimeFingerprint_def
    by (simp add: bindM_OK attempt_OK retM_OK split: if_splits) blast
  obtain cur where cur: "r = Inr cur" using rest by (cases r) (auto simp: retM_OK)
  obtain found w2 where leg: "legacyFingerprint ext op cur w1 = (Inr found, w2)"
    and rest: "(case found of None \<Rightarrow> retM None
            | Some runtimeSpecHash \<Rightarrow>
                if falsy runtimeSpecHash then retM None
                else thenM (op_backfillTargetRuntimeSpecHash ext (o_id op) (the runtimeSpecHash))
                       (retM (Some (op\<lparr>o_targetRuntimeSpecHash := runtimeSpecHash\<rparr>)))) w2 = (Inr (Some c), w')"
    using rest unfolding cur sum.case bindM_OK by blast
  obtain h where h: "found = Some (Some h)"
    using rest by (cases found) (auto simp: retM_OK falsy_def split: if_splits)
  have "w_db w2 = w_db w"
    using stepsD [OF reading.steps_agent_reads(1) ins] stepsD [OF reading.steps_legacy(2) leg]
    by (simp add: reads_only_def)
  moreover obtain u where "op_backfillTargetRuntimeSpecHash ext (o_id op) h w2 = (Inr u, w')"
      "c = op\<lparr>o_targetRuntimeSpecHash := Some h\<rparr>"
    using rest unfolding h option.case by (auto simp: thenM_OK retM_OK split: if_splits)
  ultimately show ?thesis using True by blast
qed

text \<open>A hydrated operation is followed by its rebuilt plan.\<close>

lemma hydrate_tracked:
  assumes run: "hydrateLegacyRuntimeFingerprint ext op w = (Inr (Some c), w')"
    and row: "find_row o_id (o_id op) (operations (w_db w)) = Some op"
    and target: "completeTarget type c" and digest: "digestFromImage (the (o_targetImage c)) = Some digest"
  shows "deploy_tracked type (o_id c) (planOfOperation c) digest (w_db w')" and "o_id c = o_id op"
proof -
  have img: "imageContainsDigest (o_targetImage c) digest"
    using digestFromImage_contains [OF digest] target by (auto simp: completeTarget_def falsy_def)
  have type: "o_type c = type" "\<not> falsy (o_targetRuntimeSpecHash c)"
    using target by (simp_all add: completeTarget_def)
  consider "c = op" "w' = w" "\<not> falsy (o_targetRuntimeSpecHash op)"
    | h w1 u where "falsy (o_targetRuntimeSpecHash op)" "c = op\<lparr>o_targetRuntimeSpecHash := Some h\<rparr>"
        "w_db w1 = w_db w" "op_backfillTargetRuntimeSpecHash ext (o_id op) h w1 = (Inr u, w')"
    using hydrate_OK [OF run] by blast
  then have "\<exists>r. find_row o_id (o_id op) (operations (w_db w')) = Some r \<and> o_type r = o_type c \<and>
      follows (planOfOperation c) digest r" and "o_id c = o_id op"
  proof (atomize (full), cases)
    case 1
    then show "(\<exists>r. find_row o_id (o_id op) (operations (w_db w')) = Some r \<and> o_type r = o_type c \<and>
      follows (planOfOperation c) digest r) \<and> o_id c = o_id op"
      using row img by (simp add: follows_def planOfOperation_def)
  next
    case 2
    obtain r where "find_row o_id (o_id op) (operations (w_db w')) = Some r" "op_same_intent op r"
        "o_targetRuntimeSpecHash op = None \<longrightarrow> o_targetRuntimeSpecHash r = Some h"
      using backfill_row [OF 2(4)] row 2(3) by auto
    then show "(\<exists>r. find_row o_id (o_id op) (operations (w_db w')) = Some r \<and> o_type r = o_type c \<and>
      follows (planOfOperation c) digest r) \<and> o_id c = o_id op"
      using img 2(1,2) by (auto simp: follows_def planOfOperation_def op_same_intent_def falsy_def)
  qed
  then show "deploy_tracked type (o_id c) (planOfOperation c) digest (w_db w')" and "o_id c = o_id op"
    using type by (auto simp: deploy_tracked_def planOfOperation_def falsy_def)
qed

context recovery_relation
begin

lemma steps_hydrate [step_intros]: "steps R (hydrateLegacyRuntimeFingerprint ext op)"
  unfolding hydrateLegacyRuntimeFingerprint_def by (intro step_intros)

lemma steps_reconcileTimeouts [step_intros]:
  "steps R (reconcileTimeout ext op dep e s)" "steps R (rollbackReconcileTimeout ext op dep e l)"
  unfolding reconcileTimeout_def rollbackReconcileTimeout_def Let_def
  by (auto split: prod.split intro!: step_intros)

lemma markAndVerify_related:
  assumes "deploy_tracked type oid plan digest (w_db w)" and "steps R mark" "steps (on_db history_kept) mark"
    and verify: "\<And>w. deploy_tracked type oid plan digest (w_db w) \<Longrightarrow> R w (snd (verify w))"
  shows "R w (snd (thenM mark (bindM verify (\<lambda>d. retM (Break d))) w))"
  unfolding thenM_def
proof (rule bindM_related [OF steps_at [OF assms(2)]])
  fix u w1 assume run: "mark w = (Inr u, w1)"
  have "deploy_tracked type oid plan digest (w_db w1)"
    using deploy_tracked_kept [OF assms(1)] stepsD [OF assms(3) run] by (simp add: on_db_def)
  then show "R w1 (snd (bindM verify (\<lambda>d. retM (Break d)) w1))"
    by (intro bindM_related verify steps_at [OF steps_retM])
qed

lemma reconcileStep_related:
  assumes tracked: "deploy_tracked DEPLOY (o_id c) (planOfOperation c) digest (w_db w)"
  shows "R w (snd (reconcileStep ext op c dep digest s w))"
proof (cases s)
  case (fields lastError observed inProgress)
  show ?thesis
    unfolding reconcileStep_def Let_def fields prod.case
  proof (intro bindM_related steps_at [OF steps_attempt] step_intros, goal_cases)
    case (1 r w1)
    have db1: "w_db w1 = w_db w"
      using stepsD [OF reading.steps_attempt [OF reading.steps_agent_reads(1)] 1] by (simp add: reads_only_def)
    have target: "R w1 (snd (thenM (if b then deployment_markVerifying ext (d_id dep) (o_id c) v else retM ())
        (bindM (verifyAndComplete ext (d_id dep) (o_id c) (planOfOperation c) digest noOp health)
          (\<lambda>d. retM (Break d))) w1))" for b v noOp health
      using tracked db1 by (intro markAndVerify_related verifyAndComplete_related) (auto intro: step_intros)
    show ?case
    proof (cases r)
      case (Inl e)
      then show ?thesis using steps_at [OF steps_retM] by simp
    next
      case (Inr cur)
      show ?thesis
        unfolding Inr sum.case
        by (cases "classifyDeploymentReconciliationSnapshot op cur";
            simp only: DeploymentReconciliationDecision.case; (rule target | intro steps_at step_intros))
    qed
  qed
qed

lemma rollbackReconcileStep_related:
  assumes tracked: "deploy_tracked ROLLBACK (o_id c) (planOfOperation c) digest (w_db w)"
  shows "R w (snd (rollbackReconcileStep ext c dep digest lastError w))"
  unfolding rollbackReconcileStep_def Let_def
proof (intro bindM_related steps_at [OF steps_attempt] step_intros, goal_cases)
  case (1 r w1)
  have db1: "w_db w1 = w_db w"
    using stepsD [OF reading.steps_attempt [OF reading.steps_agent_reads(1)] 1] by (simp add: reads_only_def)
  show ?case
  proof (cases r)
    case (Inl e)
    then show ?thesis using steps_at [OF steps_retM] by simp
  next
    case (Inr cur)
    show ?thesis
      unfolding Inr sum.case
    proof (rule bindM_related, rule steps_at [OF steps_convergence(3)], goal_cases)
      case (1 d w2)
      have "w_db w2 = w_db w"
        using stepsD [OF reading.steps_convergence(3) 1] db1 by (simp add: reads_only_def)
      then have target: "R w2 (snd (thenM (if b then markRollbackVerifying ext (d_id dep) (o_id c) v else retM ())
          (bindM (verifyRollbackAndComplete ext (d_id dep) (o_id c) (planOfOperation c) digest health)
            (\<lambda>d. retM (Break d))) w2))" for b v health
        using tracked by (intro markAndVerify_related verifyRollbackAndComplete_related) (auto intro: step_intros)
      show ?case
        by (cases d; simp only: DeploymentDecision.case; (rule target | intro steps_at step_intros))
    qed
  qed
qed

end

context recovery_relation
begin

text \<open>Hydration, then a loop over the hydrated operation.\<close>

lemma hydrateThen_related:
  assumes row: "find_row o_id (o_id op) (operations (w_db w)) = Some op"
    and missing: "steps R missing" and incomplete: "steps R incomplete" and invalid: "steps R invalid"
    and observe: "\<And>c digest w. deploy_tracked type (o_id c) (planOfOperation c) digest (w_db w) \<Longrightarrow>
      R w (snd (observe c digest w))"
  shows "R w (snd (bindM (hydrateLegacyRuntimeFingerprint ext op) (\<lambda>hydrated.
     case hydrated of
       None \<Rightarrow> missing
     | Some c \<Rightarrow>
         if \<not> completeTarget type c then incomplete
         else (case digestFromImage (the (o_targetImage c)) of
                 None \<Rightarrow> invalid | Some digest \<Rightarrow> observe c digest)) w))"
proof (rule bindM_related [OF steps_at [OF steps_hydrate]])
  fix hydrated w1 assume run: "hydrateLegacyRuntimeFingerprint ext op w = (Inr hydrated, w1)"
  have "R w1 (snd (observe c digest w1))"
    if "hydrated = Some c" "completeTarget type c" "digestFromImage (the (o_targetImage c)) = Some digest" for c digest
    using hydrate_tracked [OF run [unfolded that(1)] row that(2,3)] by (intro observe)
  then show "R w1 (snd ((case hydrated of None \<Rightarrow> missing
     | Some c \<Rightarrow> if \<not> completeTarget type c then incomplete
         else (case digestFromImage (the (o_targetImage c)) of
                 None \<Rightarrow> invalid | Some digest \<Rightarrow> observe c digest)) w1))"
    using steps_at [OF missing] steps_at [OF incomplete] steps_at [OF invalid]
    by (auto split: option.split)
qed

lemma deployment_reconcileLocked_related:
  assumes row: "find_row o_id (o_id op) (operations (w_db w)) = Some op"
  shows "R w (snd (deployment_reconcileLocked ext op dep e w))"
  unfolding deployment_reconcileLocked_def Let_def
proof (intro bindM_related steps_at [OF steps_legacy(1)], goal_cases)
  case (1 conflict w1)
  have row1: "find_row o_id (o_id op) (operations (w_db w1)) = Some op"
    using row stepsD [OF reading.steps_legacy(1) 1] by (simp add: reads_only_def)
  show ?case
  proof (cases conflict)
    case True
    show ?thesis unfolding if_P [OF True] by (intro steps_at step_intros)
  next
    case False
    show ?thesis
      unfolding if_not_P [OF False]
    proof (rule hydrateThen_related [OF row1], goal_cases)
      case (4 c digest w2)
      then show ?case
        by (rule poll_tracked)
           (auto intro: step_intros reconcileStep_related hist.reconcileStep_related)
    qed (intro step_intros)+
  qed
qed

lemma reconcileRollbackLocked_related:
  assumes row: "find_row o_id (o_id op) (operations (w_db w)) = Some op"
  shows "R w (snd (reconcileRollbackLocked ext op dep e w))"
  unfolding reconcileRollbackLocked_def Let_def
proof (intro bindM_related steps_at [OF steps_legacy(1)], goal_cases)
  case (1 conflict w1)
  have row1: "find_row o_id (o_id op) (operations (w_db w1)) = Some op"
    using row stepsD [OF reading.steps_legacy(1) 1] by (simp add: reads_only_def)
  show ?case
  proof (cases conflict)
    case True
    show ?thesis unfolding if_P [OF True] by (intro steps_at step_intros)
  next
    case False
    show ?thesis
      unfolding if_not_P [OF False]
    proof (rule hydrateThen_related [OF row1], goal_cases)
      case (4 c digest w2)
      then show ?case
        by (rule poll_tracked)
           (auto intro: step_intros rollbackReconcileStep_related hist.rollbackReconcileStep_related)
    qed (intro step_intros)+
  qed
qed

end

section \<open>The background reconciler\<close>

context locked_recovery_relation
begin

lemma steps_reconcileDeploymentOperation: "steps R (reconcileDeploymentOperation ext op)"
  unfolding steps_def reconcileDeploymentOperation_def withServiceRecoveryLock_def thenM_def [of "attempt _"]
proof (intro allI bindM_related steps_at [OF steps_retM], simp only: attempt_snd, rule locked_related(2), goal_cases)
  case (1 w w1)
  show ?case
  proof (rule bindM_related [OF steps_at [OF steps_repository_queries(2)]], goal_cases)
    case (1 found w2)
    show ?case
    proof (cases found)
      case None
      show ?thesis unfolding None option.case by (intro steps_at step_intros)
    next
      case (Some current)
      let ?skip = "\<not> isDeploymentType current \<or> o_status current = SUCCESS \<or> o_status current = FAILED
               \<or> o_status current = NEEDS_ATTENTION"
      let ?read = "if o_type current = ROLLBACK
                     then dep_findByRollbackOperationWithConnection ext (o_id current)
                     else dep_findByOperationWithConnection ext (o_id current)"
      have row: "find_row o_id (o_id op) (operations (w_db w2)) = Some current"
        using op_find_OK [OF 1] Some by simp
      then have row: "find_row o_id (o_id current) (operations (w_db w2)) = Some current"
        using find_row_Some [OF row] by simp
      have reads: "steps reads_only ?read" "steps R ?read" by (intro step_intros)+
      show ?thesis
        unfolding Some option.case
      proof (cases ?skip)
        case True
        show "R w2 (snd ((if ?skip then retM () else bindM ?read (\<lambda>row. case row of
                None \<Rightarrow> retM ()
              | Some deployment \<Rightarrow>
                  thenM (if o_type current = ROLLBACK
                         then reconcileRollbackLocked ext current deployment None
                         else deployment_reconcileLocked ext current deployment None) (retM ()))) w2))"
          unfolding if_P [OF True] by (intro steps_at step_intros)
      next
        case False
        show "R w2 (snd ((if ?skip then retM () else bindM ?read (\<lambda>row. case row of
                None \<Rightarrow> retM ()
              | Some deployment \<Rightarrow>
                  thenM (if o_type current = ROLLBACK
                         then reconcileRollbackLocked ext current deployment None
                         else deployment_reconcileLocked ext current deployment None) (retM ()))) w2))"
          unfolding if_not_P [OF False] thenM_def
        proof (rule bindM_related [OF steps_at [OF reads(2)]], goal_cases)
          case (1 dep w3)
          have "find_row o_id (o_id current) (operations (w_db w3)) = Some current"
            using row stepsD [OF reads(1) 1] by (simp add: reads_only_def)
          note reconciled = deployment_reconcileLocked_related [OF this] reconcileRollbackLocked_related [OF this]
          show ?case
            by (cases dep; simp only: option.case; (rule steps_at [OF steps_retM])?)
               (rule bindM_related, (cases "o_type current = ROLLBACK"; simp add: reconciled), rule steps_at [OF steps_retM])
        qed
      qed
    qed
  qed
qed

lemma steps_reconcilePendingDeployments: "steps R (reconcilePendingDeployments ext running)"
  unfolding reconcilePendingDeployments_def
  by (intro step_intros steps_reconcileDeploymentOperation)

end

section \<open>Preparation\<close>

context recovery_relation
begin

lemma steps_prepareDeployment [step_intros]:
  "steps R (prepareDeployment ext c tid target release input kind source)"
  unfolding prepareDeployment_def Let_def by (intro step_intros)

lemma steps_planRollback [step_intros]: "steps R (planRollback ext dep digest sid cur)"
  unfolding planRollback_def by (intro step_intros)

end

lemma steps_preparations_read:
  "steps reads_only (prepareDeployment ext c tid target release input kind source)"
  "steps reads_only (planRollback ext dep digest sid cur)"
  unfolding prepareDeployment_def planRollback_def Let_def by (intro step_intros)+

lemma assertServiceUnclaimed_OK:
  assumes "assertServiceUnclaimed ext c sid w = (Inr u, w')"
  shows "unclaimed c sid (w_db w')" and "w_db w' = w_db w"
proof -
  obtain w1 where prior: "op_findNonTerminalForService ext c sid w = (Inr None, w1)"
    and node: "nop_findNonTerminalAffectingService ext c sid w1 = (Inr None, w')"
    using assms unfolding assertServiceUnclaimed_def by (auto simp: OK_simps)
  have "nonTerminalForService c sid (w_db w) = []" "w_db w1 = w_db w"
    using priorQuery_OK [OF prior] by auto
  moreover have "nonTerminalAffectingService c sid (w_db w1) = []" "w_db w' = w_db w1"
    using query_OK [OF node [unfolded nop_findNonTerminalAffectingService_def]] by (auto simp: eq_commute [of None])
  ultimately show "unclaimed c sid (w_db w')" "w_db w' = w_db w" by (simp_all add: unclaimed_def)
qed

lemma orAgentError_OK: "orAgentError m fallback w = (Inr x, w') \<longleftrightarrow> m w = (Inr x, w')"
  by (auto simp: orAgentError_def catchM_OK throwM_OK)

lemma prepareDeployment_OK:
  assumes "prepareDeployment ext c tid target release input kind source w = (Inr (src, plan, before), w')"
  shows "unclaimed c (dt_dockerServiceId target) (w_db w')"
    and "\<exists>n res. x_inspectService ext n (dt_dockerServiceId target) = Inr res \<and>
      s_id (sd_service res) = dt_dockerServiceId target"
    and "\<exists>n. x_inspectService ext n (dt_dockerServiceId target) = Inr before"
    and "p_serviceId plan = s_id (sd_service before)"
    and "p_targetRuntimeSpecHash plan \<noteq> None"
proof -
  let ?sid = "dt_dockerServiceId target" and ?img = "dockerImageReference (rl_imageRepository release) (rl_imageDigest release)"
  obtain w1 w2 w3 w4 w5 w6 u v a res where src: "selectSource ext tid (dq_releaseId input) kind source w = (Inr a, w1)"
    and free: "assertServiceUnclaimed ext c ?sid w1 = (Inr u, w2)"
    and res: "inspectService ext ?sid w2 = (Inr res, w3)" "s_id (sd_service res) = ?sid"
    and bef: "inspectService ext ?sid w3 = (Inr before, w4)"
    and pl: "planUpdateServiceImage ext ?sid (s_version (sd_service before)) ?img w4 = (Inr plan, w5)"
    and match: "deployment_assertPlanMatchesCurrent plan before ?img w5 = (Inr v, w6)"
    and cap: "(if p_beforeSpecHash plan \<noteq> p_targetSpecHash plan
          then thenM (assertAvailable ext ?sid
                 \<lparr>cr_expectedVersion = p_version plan,
                  cr_targetReplicas = s_desiredReplicas (sd_service before),
                  cr_includeUpdateOverlap = True\<rparr>) (retM ())
          else retM ()) w6 = (Inr (), w')"
    using assms unfolding prepareDeployment_def Let_def bindM_OK thenM_OK orAgentError_OK if_OK retM_OK
    by (auto simp: throwM_OK)
  have "steps reads_only (if p_beforeSpecHash plan \<noteq> p_targetSpecHash plan
          then thenM (assertAvailable ext ?sid
                 \<lparr>cr_expectedVersion = p_version plan,
                  cr_targetReplicas = s_desiredReplicas (sd_service before),
                  cr_includeUpdateOverlap = True\<rparr>) (retM ())
          else retM ())" by (intro step_intros)
  from stepsD [OF this cap] have "w_db w' = w_db w2"
    using stepsD [OF reading.steps_agent_reads(1) res(1)] stepsD [OF reading.steps_agent_reads(1) bef]
      stepsD [OF reading.steps_agent_reads(7) pl] stepsD [OF reading.steps_deployment_asserts(1) match]
    by (simp add: reads_only_def)
  then show "unclaimed c ?sid (w_db w')" using assertServiceUnclaimed_OK(1) [OF free] by simp
  show "\<exists>n res. x_inspectService ext n ?sid = Inr res \<and> s_id (sd_service res) = ?sid"
    using inspectService_OK [OF res(1)] res(2) by blast
  show "\<exists>n. x_inspectService ext n ?sid = Inr before" using inspectService_OK [OF bef] by blast
  show "p_serviceId plan = s_id (sd_service before)" "p_targetRuntimeSpecHash plan \<noteq> None"
    using match by (auto simp: deployment_assertPlanMatchesCurrent_def throwM_def falsy_def split: if_splits)
qed

lemma planRollback_OK:
  assumes "planRollback ext dep digest sid cur w = (Inr plan, w')"
  shows "p_targetRuntimeSpecHash plan \<noteq> None"
    and "imageContainsDigest (p_targetImage plan) digest"
    and "p_serviceId plan = s_id (sd_service cur) \<or> (\<exists>n v. x_planRollback ext n sid v = Inr plan)"
proof -
  have img: "imageContainsDigest ref digest"
    if "digestFromImage (imageOrEmpty ref) = Some (toLowerCase digest)" for ref
  proof (cases ref)
    case None
    then show ?thesis using that by (simp add: imageOrEmpty_def digestFromImage_def)
  next
    case (Some i)
    then show ?thesis
      using digestFromImage_contains [of i "toLowerCase digest"] that
      by (simp add: imageOrEmpty_def imageContainsDigest_def)
  qed
  show "p_targetRuntimeSpecHash plan \<noteq> None" "imageContainsDigest (p_targetImage plan) digest"
    "p_serviceId plan = s_id (sd_service cur) \<or> (\<exists>n v. x_planRollback ext n sid v = Inr plan)"
  proof (atomize (full), cases "s_updateState (sd_service cur) = Some ''rollback_started''
         \<or> s_updateState (sd_service cur) = Some ''rollback_completed''")
    case True
    then have "buildObservedRollbackPlan dep digest cur w = (Inr plan, w')"
      using assms by (auto simp: planRollback_def)
    then show "p_targetRuntimeSpecHash plan \<noteq> None \<and> imageContainsDigest (p_targetImage plan) digest \<and>
        (p_serviceId plan = s_id (sd_service cur) \<or> (\<exists>n v. x_planRollback ext n sid v = Inr plan))"
      using img [of "Some (imageOrEmpty (s_image (sd_service cur)))"]
      by (auto simp: buildObservedRollbackPlan_def throwM_def retM_def Let_def falsy_def imageOrEmpty_def
          split: option.splits if_splits)
  next
    case False
    then obtain w1 w2 u where pl: "planRollbackService ext sid (s_version (sd_service cur)) w = (Inr plan, w1)"
      and own: "assertRollbackOwnership dep digest plan cur w1 = (Inr u, w2)"
      using assms unfolding planRollback_def if_not_P [OF False] bindM_OK thenM_OK orAgentError_OK retM_OK by blast
    then show "p_targetRuntimeSpecHash plan \<noteq> None \<and> imageContainsDigest (p_targetImage plan) digest \<and>
        (p_serviceId plan = s_id (sd_service cur) \<or> (\<exists>n v. x_planRollback ext n sid v = Inr plan))"
      using img [of "p_targetImage plan"] agentRead_OK [OF pl [unfolded planRollbackService_def]]
      by (auto simp: assertRollbackOwnership_def throwM_def falsy_def split: option.splits if_splits)
  qed
qed

section \<open>Handlers\<close>

lemma deployment_requireOperation_OK:
  assumes "deployment_requireOperation ext oid w = (Inr op, w')"
  shows "find_row o_id oid (operations (w_db w')) = Some op" and "o_id op = oid"
proof -
  have "op_findWithConnection ext oid w = (Inr (Some op), w')"
    using assms unfolding deployment_requireOperation_def by (auto simp: OK_simps)
  from op_find_OK [OF this] show "find_row o_id oid (operations (w_db w')) = Some op" "o_id op = oid"
    by (auto dest: find_row_Some)
qed

lemma deploy_intended_row:
  assumes "makes {Started r | r. deploy_intended type oid c plan ref r} m" and "m w = (Inr x, w')"
    and "p_targetRuntimeSpecHash plan \<noteq> None" and "imageContainsDigest ref digest"
  shows "\<exists>r. find_row o_id oid (operations (w_db w')) = Some r \<and> deploy_intended type oid c plan ref r"
    and "w_locks w' = w_locks w" and "deploy_tracked type oid plan digest (w_db w')"
    and "w_sent w = w_sent w'" and "(False, Some oid) \<notin> recorded (w_db w)"
proof -
  obtain r where r: "deploy_intended type oid c plan ref r" "store_step (Started r) (w_db w) (w_db w')" "only_db w w'"
    using makesD [OF assms(1,2)] by blast
  then show row: "\<exists>r. find_row o_id oid (operations (w_db w')) = Some r \<and> deploy_intended type oid c plan ref r"
    and "w_locks w' = w_locks w" and "w_sent w = w_sent w'" and "(False, Some oid) \<notin> recorded (w_db w)"
    by (auto simp: find_row_snoc deploy_intended_def only_db_iff recorded_iff elim!: store_step_cases)
  show "deploy_tracked type oid plan digest (w_db w')"
    using row assms(3,4) by (auto simp: deploy_tracked_def deploy_intended_def follows_def)
qed

context recovery_relation
begin

text \<open>After a lost answer the operation is read back and reconciled.\<close>

lemma requireThenReconcile_related:
  assumes "\<And>op w. find_row o_id (o_id op) (operations (w_db w)) = Some op \<Longrightarrow> R w (snd (f op w))"
  shows "R w (snd (bindM (deployment_requireOperation ext oid) f w))"
proof (rule bindM_related [OF steps_at [OF steps_deployment_lookups(3)]])
  fix op w1 assume "deployment_requireOperation ext oid w = (Inr op, w1)"
  from deployment_requireOperation_OK [OF this] show "R w1 (snd (f op w1))" by (intro assms) simp
qed

lemma markThenVerify_related:
  assumes "deploy_tracked type oid plan digest (w_db w)" and "steps R mark" "steps (on_db history_kept) mark"
    and verify: "\<And>w. deploy_tracked type oid plan digest (w_db w) \<Longrightarrow> R w (snd (verify w))"
  shows "R w (snd (thenM mark verify w))"
  unfolding thenM_def
proof (rule bindM_related [OF steps_at [OF assms(2)]])
  fix u w1 assume run: "mark w = (Inr u, w1)"
  have "deploy_tracked type oid plan digest (w_db w1)"
    using deploy_tracked_kept [OF assms(1)] stepsD [OF assms(3) run] by (simp add: on_db_def)
  then show "R w1 (snd (verify w1))" by (rule verify)
qed

end

context store_relation
begin

lemma dispatchDeployment_related:
  assumes "R w0 w" and wp: "R w0 wp" "w_sent wp = w_sent w" "(False, Some (dq_operationId input)) \<notin> recorded (w_db wp)"
    and r: "find_row o_id (dq_operationId input) (operations (w_db w)) = Some r"
      "deploy_intended DEPLOY (dq_operationId input) c plan
         (Some (dockerImageReference (rl_imageRepository release) (rl_imageDigest release))) r"
    and tracked: "deploy_tracked DEPLOY (dq_operationId input) plan (rl_imageDigest release) (w_db w)"
    and canonical: "canonical_ids ext \<Longrightarrow> p_serviceId plan = dt_dockerServiceId target"
    and lock: "serviceLockName ext c (dt_dockerServiceId target) \<in> set (w_locks w)"
  shows "R w0 (snd (dispatchDeployment ext target release input plan dep w))"
proof -
  let ?oid = "dq_operationId input" and ?img = "dockerImageReference (rl_imageRepository release) (rl_imageDigest release)"
  let ?req = "UpdateServiceImage (dt_dockerServiceId target) (p_version plan) (p_beforeSpecHash plan)
           (p_targetSpecHash plan) ?img"
  let ?send = "withMutationOperation ?oid (agentMutation ext ?req (x_sendService ext))"
  have ok: "o_status r = RUNNING" "request_matches ext ?req r"
      "serviceLockName ext (o_clusterId r) (request_target ?req) \<in> set (w_locks w)"
    using r(2) canonical lock by (auto simp: deploy_intended_def op_intent_def)
  note sent = dispatch_service_related [OF assms(1) wp r(1) ok]
  show ?thesis
    unfolding dispatchDeployment_def Let_def
  proof (rule bindM_from, simp only: attempt_snd, rule sent, goal_cases)
    case (1 outcome w1)
    have "history_kept (w_db w) (w_db w1)"
      using withMutationOperation_history 1(1) unfolding attempt_OK on_db_def by (metis snd_conv)
    then have tracked1: "deploy_tracked DEPLOY ?oid plan (rl_imageDigest release) (w_db w1)"
      by (rule deploy_tracked_kept [OF tracked])
    show ?case
    proof (cases outcome)
      case (Inl e)
      have "R w1 (snd (bindM (deployment_requireOperation ext ?oid)
          (\<lambda>operation. deployment_reconcileLocked ext operation dep (Some (errorMessage e))) w1))"
        by (intro requireThenReconcile_related deployment_reconcileLocked_related)
      moreover have "R w1 (snd (thenM (fail ext (d_id dep) ?oid ''AGENT_MUTATION_REJECTED''
          (body_text (snd (rejectionParts e)))) (throwM (deployment_mapAgentError e ''Deployment mutation failed'') :: DeploymentRecord cp) w1))"
        by (intro steps_at step_intros)
      ultimately show ?thesis using Inl trans [OF 1(2)] by simp
    next
      case (Inr accepted)
      have "R w1 (snd (thenM (deployment_markVerifying ext (d_id dep) ?oid (r_version accepted))
          (verifyAndComplete ext (d_id dep) ?oid plan (rl_imageDigest release) False (dq_health input)) w1))"
        by (intro markThenVerify_related [OF tracked1] verifyAndComplete_related step_intros)
      moreover have "R w1 (snd (giveUp ext (d_id dep) (attention ext (d_id dep) ?oid ''AGENT_RESPONSE_MISMATCH''
                 ''Agent response did not match deployment plan'') w1))"
        by (intro steps_at step_intros)
      ultimately show ?thesis using Inr trans [OF 1(2)] by simp
    qed
  qed
qed

lemma dispatchRollback_related:
  assumes "R w0 w" and wp: "R w0 wp" "w_sent wp = w_sent w" "(False, Some oid) \<notin> recorded (w_db wp)"
    and r: "find_row o_id oid (operations (w_db w)) = Some r"
      "deploy_intended ROLLBACK oid c plan ref r"
    and tracked: "deploy_tracked ROLLBACK oid plan digest (w_db w)"
    and canonical: "canonical_ids ext \<Longrightarrow> p_serviceId plan = sid"
    and lock: "serviceLockName ext c sid \<in> set (w_locks w)"
  shows "R w0 (snd (dispatchRollback ext sid dep digest oid plan w))"
proof -
  let ?req = "RollbackService sid (p_version plan) (p_beforeSpecHash plan) (p_targetSpecHash plan)"
  have ok: "o_status r = RUNNING" "request_matches ext ?req r"
      "serviceLockName ext (o_clusterId r) (request_target ?req) \<in> set (w_locks w)"
    using r(2) canonical lock by (auto simp: deploy_intended_def op_intent_def)
  note sent = dispatch_service_related [OF assms(1) wp r(1) ok]
  show ?thesis
    unfolding dispatchRollback_def Let_def
  proof (rule bindM_from, simp only: attempt_snd, rule sent, goal_cases)
    case (1 outcome w1)
    have "history_kept (w_db w) (w_db w1)"
      using withMutationOperation_history 1(1) unfolding attempt_OK on_db_def by (metis snd_conv)
    then have tracked1: "deploy_tracked ROLLBACK oid plan digest (w_db w1)"
      by (rule deploy_tracked_kept [OF tracked])
    show ?case
    proof (cases outcome)
      case (Inl e)
      have "R w1 (snd (bindM (deployment_requireOperation ext oid)
          (\<lambda>operation. reconcileRollbackLocked ext operation dep (Some (errorMessage e))) w1))"
        by (intro requireThenReconcile_related reconcileRollbackLocked_related)
      moreover have "R w1 (snd (thenM (rollbackRejected ext (d_id dep) oid e)
          (throwM (deployment_mapAgentError e ''Rollback mutation failed'') :: DeploymentRecord cp) w1))"
        by (intro steps_at step_intros)
      ultimately show ?thesis using Inl trans [OF 1(2)] by simp
    next
      case (Inr accepted)
      have "R w1 (snd (thenM (markRollbackVerifying ext (d_id dep) oid (r_version accepted))
          (verifyRollbackAndComplete ext (d_id dep) oid plan digest (d_health dep)) w1))"
        by (intro markThenVerify_related [OF tracked1] verifyRollbackAndComplete_related step_intros)
      moreover have "R w1 (snd (giveUp ext (d_id dep) (rollbackAttention ext (d_id dep) oid
          ''ROLLBACK_AGENT_RESPONSE_MISMATCH''
          ''Agent rollback response did not match the recorded rollback target'') w1))"
        by (intro steps_at step_intros)
      ultimately show ?thesis using Inr trans [OF 1(2)] by simp
    qed
  qed
qed

lemma existingDeployment_related:
  assumes row: "find_row o_id (o_id existing) (operations (w_db w)) = Some existing"
  shows "R w (snd (thenM (deployment_assertIdempotent existing actorId sid)
        (bindM (dep_findByOperationWithConnection ext oid) (\<lambda>row.
         case row of
           None \<Rightarrow> throwM e
         | Some deployment \<Rightarrow>
             thenM (assertSameDeployment deployment tid input pr kind source)
               (if o_status existing = SUCCESS \<or> o_status existing = FAILED then retM deployment
                else deployment_reconcileLocked ext existing deployment None))) w))"
  unfolding thenM_def
proof (rule bindM_related, rule steps_at [OF steps_deployment_asserts(2)], goal_cases)
  case (1 u w1)
  then have w1: "w1 = w" by (auto simp: deployment_assertIdempotent_def throwM_def retM_def split: if_splits)
  have reads: "steps reads_only (dep_findByOperationWithConnection ext oid)"
    "steps R (dep_findByOperationWithConnection ext oid)"
    unfolding dep_findByOperationWithConnection_def by (intro step_intros)+
  show ?case
  proof (rule bindM_related [OF steps_at [OF reads(2)]], goal_cases)
    case (1 dep w2)
    then have row2: "find_row o_id (o_id existing) (operations (w_db w2)) = Some existing"
      using row w1 stepsD [OF reads(1) 1] by (simp add: reads_only_def)
    have "R w2 (snd (bindM (assertSameDeployment deployment tid input pr kind source) (\<lambda>_.
        if o_status existing = SUCCESS \<or> o_status existing = FAILED then retM deployment
        else deployment_reconcileLocked ext existing deployment None) w2))" for deployment
    proof (rule bindM_related [OF steps_at [OF steps_deployment_asserts(4)]])
      fix v w3 assume "assertSameDeployment deployment tid input pr kind source w2 = (Inr v, w3)"
      then have "w3 = w2" by (auto simp: assertSameDeployment_def throwM_def retM_def split: if_splits)
      then show "R w3 (snd ((if o_status existing = SUCCESS \<or> o_status existing = FAILED then retM deployment
        else deployment_reconcileLocked ext existing deployment None) w3))"
        using deployment_reconcileLocked_related [OF row2] by (simp add: steps_at [OF steps_retM])
    qed
    then show ?case by (simp add: steps_at [OF steps_throwM] split: option.split)
  qed
qed

lemma lockedDeploy_related:
  assumes lock: "serviceLockName ext c (dt_dockerServiceId target) \<in> set (w_locks w)"
  shows "R w (snd (lockedDeploy ext c tid target release input pr kind source w))"
  unfolding lockedDeploy_def
proof (rule bindM_related [OF steps_at [OF steps_repository_queries(2)]], goal_cases)
  case (1 found w1)
  have locks1: "w_locks w1 = w_locks w"
    using stepsD [OF lock_keeping.steps_repository_queries(2) 1] by (simp add: same_locks_def)
  show ?case
  proof (cases found)
    case (Some existing)
    have "find_row o_id (dq_operationId input) (operations (w_db w1)) = Some existing"
      using op_find_OK [OF 1] Some by simp
    then have "find_row o_id (o_id existing) (operations (w_db w1)) = Some existing"
      using find_row_Some by metis
    then show ?thesis unfolding Some option.case by (rule existingDeployment_related)
  next
    case None
    show ?thesis
      unfolding None option.case
    proof (rule bindM_from, rule steps_at [OF steps_prepareDeployment], clarsimp simp: Let_def simp del: not_False_eq_True, goal_cases)
      case (1 src plan before w2)
      let ?img = "dockerImageReference (rl_imageRepository release) (rl_imageDigest release)"
      let ?oid = "dq_operationId input"
      have locks2: "w_locks w2 = w_locks w1"
        using stepsD [OF lock_recovery.steps_prepareDeployment 1(1)] by (simp add: same_locks_def)
      note prepared = prepareDeployment_OK [OF 1(1)]
      have canonical: "p_serviceId plan = dt_dockerServiceId target" if "canonical_ids ext"
        using that prepared(2,3,4) unfolding canonical_ids_def by metis
      let ?persist = "\<lambda>noOp. deployment_persistIntent ext c tid (rl_id release) input pr plan before ?img noOp kind src"
      note made = makes_deployment_persistIntent [OF prepared(5)]
      have start: "R w1 (snd (?persist noOp w2))" for noOp
        using prepared(1) canonical
        by (intro start_related [OF made 1(2)]) (auto simp: deploy_intended_def)
      have cont: "R w1 (snd ((if noOp then thenM (deployment_markVerifying ext (d_id dep) ?oid (s_version (sd_service before)))
             (verifyAndComplete ext (d_id dep) ?oid plan (rl_imageDigest release) True (dq_health input))
           else dispatchDeployment ext target release input plan dep) w3))"
        if run: "?persist b w2 = (Inr dep, w3)" and R3: "R w1 w3" for b noOp dep w3
      proof -
        note row = deploy_intended_row [OF made run prepared(5) dockerImageReference_contains]
        obtain r where r: "find_row o_id ?oid (operations (w_db w3)) = Some r"
            "deploy_intended DEPLOY ?oid c plan (Some ?img) r"
          using row(1) by blast
        have "R w1 (snd (dispatchDeployment ext target release input plan dep w3))"
          using lock locks1 locks2 row(2)
          by (intro dispatchDeployment_related [OF R3 1(2) row(4,5) r row(3) canonical]) simp_all
        moreover have "R w3 (snd (thenM (deployment_markVerifying ext (d_id dep) ?oid (s_version (sd_service before)))
             (verifyAndComplete ext (d_id dep) ?oid plan (rl_imageDigest release) True (dq_health input)) w3))"
          by (intro markThenVerify_related [OF row(3)] verifyAndComplete_related step_intros)
        ultimately show ?thesis using trans [OF R3] by simp
      qed
      show ?case by (rule bindM_from, rule start, rule cont)
    qed
  qed
qed

lemma steps_locked_deploy:
  "steps R (withServiceLock ext c (dt_dockerServiceId target) (lockedDeploy ext c tid target release input pr kind source))"
  unfolding steps_def by (intro allI withServiceLock_related lockedDeploy_related)

lemma steps_deployRelease [step_intros]: "steps R (deployRelease ext c tid input pr kind source)"
  unfolding deployRelease_def by (intro steps_locked_deploy step_intros)

lemma steps_deploy: "steps R (deploy ext c tid input pr)"
  unfolding deploy_def by (intro step_intros)

lemma steps_historicalRedeploy: "steps R (historicalRedeploy ext c tid input pr)"
  unfolding historicalRedeploy_def by (intro step_intros)

lemma existingRollback_related:
  assumes row: "find_row o_id (o_id existing) (operations (w_db w)) = Some existing"
  shows "R w (snd (thenM (assertRollbackIdempotent existing actorId sid)
        (bindM (dep_findByRollbackOperationWithConnection ext oid) (\<lambda>row.
         case row of
           None \<Rightarrow> throwM e
         | Some existingDeployment \<Rightarrow>
             if d_id existingDeployment \<noteq> did then throwM e'
             else if o_status existing = SUCCESS \<or> o_status existing = FAILED
             then rollbackAttemptResult existingDeployment existing
             else reconcileRollbackLocked ext existing existingDeployment None)) w))"
  unfolding thenM_def
proof (rule bindM_related, rule steps_at [OF steps_deployment_asserts(3)], goal_cases)
  case (1 u w1)
  then have w1: "w1 = w" by (auto simp: assertRollbackIdempotent_def throwM_def retM_def split: if_splits)
  have reads: "steps reads_only (dep_findByRollbackOperationWithConnection ext oid)"
    "steps R (dep_findByRollbackOperationWithConnection ext oid)"
    unfolding dep_findByRollbackOperationWithConnection_def by (intro step_intros)+
  show ?case
  proof (rule bindM_related [OF steps_at [OF reads(2)]], goal_cases)
    case (1 dep w2)
    then have "find_row o_id (o_id existing) (operations (w_db w2)) = Some existing"
      using row w1 stepsD [OF reads(1) 1] by (simp add: reads_only_def)
    from reconcileRollbackLocked_related [OF this] show ?case
      by (simp add: steps_at [OF steps_throwM] steps_at [OF steps_deployment_asserts(5)] split: option.split)
  qed
qed

lemma lockedRollback_related:
  assumes sid: "\<exists>n res. x_inspectService ext n sid = Inr res \<and> s_id (sd_service res) = sid"
    and lock: "serviceLockName ext c sid \<in> set (w_locks w)"
  shows "R w (snd (lockedRollback ext c sid dep digest oid pr w))"
  unfolding lockedRollback_def
proof (rule bindM_related [OF steps_at [OF steps_repository_queries(2)]], goal_cases)
  case (1 found w1)
  have locks1: "w_locks w1 = w_locks w"
    using stepsD [OF lock_keeping.steps_repository_queries(2) 1] by (simp add: same_locks_def)
  show ?case
  proof (cases found)
    case (Some existing)
    have "find_row o_id oid (operations (w_db w1)) = Some existing"
      using op_find_OK [OF 1] Some by simp
    then have "find_row o_id (o_id existing) (operations (w_db w1)) = Some existing"
      using find_row_Some by metis
    then show ?thesis unfolding Some option.case by (rule existingRollback_related)
  next
    case None
    show ?thesis
      unfolding None option.case thenM_def
    proof (rule bindM_from, rule steps_at [OF steps_deployment_views(3)], goal_cases)
      case free: (1 u w2)
      show ?case
      proof (rule bindM_from, rule steps_from [OF steps_orAgentError [OF steps_agent_reads(1)] free(2)], goal_cases)
        case ins: (1 cur w3)
        show ?case
        proof (rule bindM_from, rule steps_from [OF steps_planRollback ins(2)], goal_cases)
          case plan: (1 plan w4)
          have reads: "reads_only w2 w3" "reads_only w3 w4"
            using stepsD [OF reading.steps_orAgentError [OF reading.steps_agent_reads(1)] ins(1)]
              stepsD [OF steps_preparations_read(2) plan(1)] by blast+
          have locks: "w_locks w4 = w_locks w1" "unclaimed c sid (w_db w4)"
            using reads stepsD [OF reading.steps_deployment_views(3) free(1)] assertServiceUnclaimed_OK(1) [OF free(1)]
            by (simp_all add: reads_only_def only_db_iff)
          note planned = planRollback_OK [OF plan(1)]
          have canonical: "p_serviceId plan = sid" if "canonical_ids ext"
          proof -
            have "s_id (sd_service cur) = sid"
              using that sid inspectService_OK [OF ins(1) [unfolded orAgentError_OK]]
              unfolding canonical_ids_def by metis
            then show ?thesis using planned(3) that unfolding canonical_ids_def by metis
          qed
          note made = makes_persistRollbackIntent [OF planned(1)]
          show ?case
          proof (rule bindM_from, rule start_related [OF made plan(2)], goal_cases)
            case (1 ev)
            then show ?case using locks(2) canonical by (auto simp: deploy_intended_def)
          next
            case stored: (2 v w5)
            note row = deploy_intended_row [OF made stored(1) planned(1,2)]
            obtain r where r: "find_row o_id oid (operations (w_db w5)) = Some r"
                "deploy_intended ROLLBACK oid c plan (p_targetImage plan) r"
              using row(1) by blast
            have "R w1 (snd (dispatchRollback ext sid dep digest oid plan w5))"
              using lock locks1 locks(1) row(2)
              by (intro dispatchRollback_related [OF stored(2) plan(2) row(4,5) r row(3) canonical]) simp_all
            moreover have "R w5 (snd (bindM (deployment_requireOperation ext oid)
                (\<lambda>operation. reconcileRollbackLocked ext operation dep None) w5))"
              by (intro requireThenReconcile_related reconcileRollbackLocked_related)
            ultimately show ?case using trans [OF stored(2)] by simp
          qed
        qed
      qed
    qed
  qed
qed

lemma steps_rollbackAdmitted: "steps R (rollbackAdmitted ext c target dep digest oid pr)"
  unfolding steps_def rollbackAdmitted_def
proof (intro allI, rule bindM_related, rule steps_at [OF steps_repository_queries(16)], goal_cases)
  case (1 w found w1)
  let ?resolve = "orAgentError (inspectService ext (dt_dockerServiceId target)) ''Rollback target lookup failed''"
  have "R w1 (snd (bindM ?resolve (\<lambda>resolved.
       if s_id (sd_service resolved) \<noteq> dt_dockerServiceId target \<or> s_mode (sd_service resolved) \<noteq> ''replicated''
       then throwM e
       else withServiceLock ext c (dt_dockerServiceId target)
              (lockedRollback ext c (dt_dockerServiceId target) dep digest oid pr)) w1))" for e
  proof (rule bindM_related, rule steps_at [OF steps_orAgentError [OF steps_agent_reads(1)]])
    fix res w2 assume run: "?resolve w1 = (Inr res, w2)"
    have "R w2 (snd (withServiceLock ext c (dt_dockerServiceId target)
        (lockedRollback ext c (dt_dockerServiceId target) dep digest oid pr) w2))"
      if "s_id (sd_service res) = dt_dockerServiceId target"
      using that inspectService_OK [OF run [unfolded orAgentError_OK]]
      by (intro withServiceLock_related lockedRollback_related) auto
    then show "R w2 (snd ((if s_id (sd_service res) \<noteq> dt_dockerServiceId target \<or> s_mode (sd_service res) \<noteq> ''replicated''
       then throwM e
       else withServiceLock ext c (dt_dockerServiceId target)
              (lockedRollback ext c (dt_dockerServiceId target) dep digest oid pr)) w2))"
      by (simp add: steps_at [OF steps_throwM])
  qed
  then show ?case by (simp add: steps_at [OF steps_throwM])
qed

lemma steps_rollback: "steps R (rollback ext c did oid pr)"
  unfolding rollback_def by (intro step_intros steps_rollbackAdmitted)

end

end
