(* ===== verification/Api.thy ===== *)
theory Api
  imports Registration Releases Bootstrap Reads Deployment_Safety
begin

text \<open>
  The HTTP boundary: \<^verbatim>\<open>auth/auth.guard.ts\<close> and \<^verbatim>\<open>auth/token-registry.ts\<close>
  (authentication, role and cluster scope), \<^verbatim>\<open>clusters/cluster-binding.guard.ts\<close>, and the
  handlers of \<^verbatim>\<open>operations/mutation.controller.ts\<close>,
  \<^verbatim>\<open>operations/node-mutation.controller.ts\<close> and
  \<^verbatim>\<open>deployments/deployment.controller.ts\<close>, \<^verbatim>\<open>releases/release.controller.ts\<close>,
  \<^verbatim>\<open>bootstrap/bootstrap.controller.ts\<close>, \<^verbatim>\<open>read/read.controller.ts\<close> and
  \<^verbatim>\<open>clusters/cluster-registration.controller.ts\<close>,
  \<^verbatim>\<open>capacity/capacity.controller.ts\<close>; the handlers of maintenance are those of
  \<open>Maintenance_Api\<close>. Both guards are global, so a request passes
  them before its handler; the public routes of the bootstrap pass the cluster binding only.

  The entries of the token registry are an argument, read from the environment by
  \<open>loadTokenRegistry\<close>. The parsers of request bodies are the argument \<open>schemas\<close>; those of the
  source are \<open>requestSchemas\<close>, for the formats of the schema library.

  \<open>perform\<close> is one activity of the process (a request, the start-up recovery of one of the
  services, or a tick of the reconciliation timer) and \<open>reachable\<close> a sequence of them.
\<close>

section \<open>Authentication\<close>

record TokenEntry =
  te_token :: string
  te_actorId :: string
  te_role :: Role
  te_clusters :: "string list"

datatype Header = NoHeader | OneHeader string | ManyHeaders "string list"

fun ROLE_RANK :: "Role \<Rightarrow> nat" where
  "ROLE_RANK VIEWER = 1"
| "ROLE_RANK OPERATOR = 2"
| "ROLE_RANK ADMIN = 3"

definition readBearerToken :: "Header \<Rightarrow> string option" where
  "readBearerToken header =
     (case header of
        OneHeader h \<Rightarrow>
          (case take 2 (splitOn (CHR '' '') h) of
             [scheme, tok] \<Rightarrow> if scheme = ''Bearer'' \<and> tok \<noteq> [] then Some tok else None
           | _ \<Rightarrow> None)
      | _ \<Rightarrow> None)"

text \<open>The first entry with the candidate's bytes; \<open>timingSafeEqual\<close> compares them.\<close>

definition authenticate :: "TokenEntry list \<Rightarrow> string \<Rightarrow> Principal option" where
  "authenticate entries candidate =
     map_option (\<lambda>e. \<lparr>pr_actorId = te_actorId e, pr_role = te_role e, pr_clusters = te_clusters e\<rparr>)
       (find (\<lambda>e. candidate = te_token e) entries)"

definition TokenEntrySchema :: "TokenEntry schema" where
  "TokenEntrySchema j = do {
     tok \<leftarrow> z_field j ''token'' (z_check (\<lambda>s. 16 \<le> length s) z_string);
     actorId \<leftarrow> z_field j ''actorId'' z_string1;
     role \<leftarrow> z_field j ''role'' (z_enum [(''VIEWER'', VIEWER), (''OPERATOR'', OPERATOR), (''ADMIN'', ADMIN)]);
     clusters \<leftarrow> z_field j ''clusters'' (z_check (\<lambda>cs. cs \<noteq> []) (z_array z_string1));
     Some \<lparr>te_token = tok, te_actorId = actorId, te_role = role, te_clusters = clusters\<rparr> }"

text \<open>The constructor of \<open>TokenRegistry\<close>; \<open>jsonParse\<close> is \<open>JSON.parse\<close>.\<close>

definition loadTokenRegistry :: "(string \<Rightarrow> json option) \<Rightarrow> string option \<Rightarrow> string + TokenEntry list" where
  "loadTokenRegistry jsonParse raw =
     (case jsonParse (case raw of None \<Rightarrow> ''[]'' | Some r \<Rightarrow> r) of
        None \<Rightarrow> Inl ''DOCKLANE_API_TOKENS must be valid JSON''
      | Some parsed \<Rightarrow>
          (case z_array TokenEntrySchema parsed of
             None \<Rightarrow> Inl ''Invalid DOCKLANE_API_TOKENS''
           | Some entries \<Rightarrow> Inr entries))"

record HttpRequest =
  rq_authorization :: Header
  rq_clusterId :: string
  rq_resourceId :: string
  rq_body :: json

text \<open>\<open>AuthGuard.canActivate\<close> for a route that is not public.\<close>

definition canActivate :: "TokenEntry list \<Rightarrow> Role \<Rightarrow> HttpRequest \<Rightarrow> Principal cp" where
  "canActivate entries requiredRole request =
     (case readBearerToken (rq_authorization request) of
        None \<Rightarrow> throwM (UnauthorizedException ''Bearer token is required'')
      | Some tok \<Rightarrow>
          (case authenticate entries tok of
             None \<Rightarrow> throwM (UnauthorizedException ''Invalid bearer token'')
           | Some actor \<Rightarrow>
               if ROLE_RANK (pr_role actor) < ROLE_RANK requiredRole
               then throwM (ForbiddenException ''Insufficient role'')
               else if rq_clusterId request \<noteq> [] \<and> ''*'' \<notin> set (pr_clusters actor)
                       \<and> rq_clusterId request \<notin> set (pr_clusters actor)
               then throwM (ForbiddenException ''Cluster scope denied'')
               else retM actor))"

text \<open>Who may use a route: a known token with enough rank and the cluster in its scope.\<close>

definition authorized :: "TokenEntry list \<Rightarrow> Role \<Rightarrow> HttpRequest \<Rightarrow> bool" where
  "authorized entries role request \<longleftrightarrow>
     (\<exists>tok actor. readBearerToken (rq_authorization request) = Some tok \<and>
        authenticate entries tok = Some actor \<and> ROLE_RANK role \<le> ROLE_RANK (pr_role actor) \<and>
        (rq_clusterId request = [] \<or> ''*'' \<in> set (pr_clusters actor) \<or> rq_clusterId request \<in> set (pr_clusters actor)))"

lemma canActivate_refused:
  assumes "\<not> authorized entries role request"
  shows "\<exists>m. canActivate entries role request w \<in> {(Inl (UnauthorizedException m), w), (Inl (ForbiddenException m), w)}"
  using assms unfolding authorized_def canActivate_def
  by (auto simp: throwM_def not_less split: option.split)

section \<open>Routes\<close>

datatype MutationRoute = GetOperation | PostScale | PostRestart

datatype NodeMutationRoute = GetNodeOperation | PostDrain | PostLabels | PostActivate

datatype DeploymentRoute =
    GetHistory
  | PostHistoricalRedeploy
  | PostDeploy
  | PostRollback
  | GetStatus
  | GetDeployment

datatype MaintenanceRoute =
    GetMaintenance
  | GetReadiness
  | PostCloseRequest
  | PostInitialize
  | PostConfirmClosed
  | PostBeginReconciliation
  | PostCompleteReconciliation
  | PostResumeManagers
  | GetEvidence
  | PostResolveEvidence

datatype RegistrationRoute = PutRegistration | GetRegistration

datatype ReleaseRoute =
    GetApplications
  | PostApplication
  | GetReleases
  | PostRelease
  | GetTargets
  | PostTarget

datatype ReadRoute = GetCluster | GetNode | GetServices | GetService | GetTasks

datatype Route =
    MutationController MutationRoute
  | NodeMutationController NodeMutationRoute
  | DeploymentController DeploymentRoute
  | MaintenanceController MaintenanceRoute
  | RegistrationController RegistrationRoute
  | ReleaseController ReleaseRoute
  | ReadController ReadRoute
  | PostCapacityCheck
  | PostBootstrapToken

text \<open>The \<open>RequireRole\<close> decorators.\<close>

fun requiredRole :: "Route \<Rightarrow> Role" where
  "requiredRole (MutationController route) = (if route = GetOperation then VIEWER else OPERATOR)"
| "requiredRole (NodeMutationController route) = (if route = GetNodeOperation then VIEWER else OPERATOR)"
| "requiredRole (DeploymentController route) =
     (if route \<in> {GetHistory, GetStatus, GetDeployment} then VIEWER else OPERATOR)"
| "requiredRole (MaintenanceController route) = ADMIN"
| "requiredRole (RegistrationController route) = ADMIN"
| "requiredRole (ReleaseController route) =
     (if route \<in> {GetApplications, GetReleases, GetTargets} then VIEWER else OPERATOR)"
| "requiredRole (ReadController route) = VIEWER"
| "requiredRole PostCapacityCheck = VIEWER"
| "requiredRole PostBootstrapToken = ADMIN"

text \<open>
  Whether the path of a route has the parameter \<open>:clusterId\<close>, and whether the cluster binding guard
  applies: the registration controller is marked \<open>SkipClusterBinding\<close>.
\<close>

fun hasClusterParam :: "Route \<Rightarrow> bool" where
  "hasClusterParam (ReleaseController route) = (route \<in> {GetTargets, PostTarget})"
| "hasClusterParam _ = True"

fun bindsCluster :: "Route \<Rightarrow> bool" where
  "bindsCluster (RegistrationController route) = False"
| "bindsCluster (ReleaseController route) = (route \<in> {GetTargets, PostTarget})"
| "bindsCluster _ = True"

text \<open>The parameters that the request of a route has.\<close>

definition paramsOf :: "Route \<Rightarrow> HttpRequest \<Rightarrow> HttpRequest" where
  "paramsOf route request = (if hasClusterParam route then request else request\<lparr>rq_clusterId := []\<rparr>)"

lemma paramsOf_cluster [simp]: "hasClusterParam route \<Longrightarrow> paramsOf route request = request"
  by (simp add: paramsOf_def)

lemma whenM_simps [simp]: "whenM True m = m" "whenM False m = retM ()"
  by (simp_all add: whenM_def)

record Schemas =
  z_scale :: "json \<Rightarrow> ScaleServiceRequest option"
  z_restart :: "json \<Rightarrow> RestartServiceRequest option"
  z_node :: "json \<Rightarrow> NodeMutationRequest option"
  z_labels :: "json \<Rightarrow> NodeMutationRequest option"
  z_deploy :: "json \<Rightarrow> DeployRequest option"
  z_rollback :: "json \<Rightarrow> string option"
  z_claim :: "json \<Rightarrow> BootstrapClaimRequest option"
  z_complete :: "json \<Rightarrow> BootstrapCompleteRequest option"

definition requestSchemas :: "Zod \<Rightarrow> Schemas" where
  "requestSchemas zod =
     \<lparr>z_scale = ScaleServiceRequestSchema zod, z_restart = RestartServiceRequestSchema zod,
      z_node = NodeMutationRequestSchema zod, z_labels = NodeLabelsRequestSchema zod,
      z_deploy = DeployRequestSchema zod, z_rollback = RollbackRequestSchema,
      z_claim = BootstrapClaimRequestSchema zod, z_complete = BootstrapCompleteRequestSchema zod\<rparr>"

datatype Reply =
    OperationReply OperationRecord
  | NodeOperationReply NodeOperationRecord
  | DeploymentReply DeploymentRecord
  | HistoryReply "DeploymentRecord list"
  | StatusReply DeploymentRecord "OperationRecord option" "OperationRecord option"
  | MaintenanceResult MaintenanceReply
  | RegistrationReply RegistrationRow
  | RegistrationViewReply ClusterRegistrationView
  | ApplicationsReply "ApplicationRecord list"
  | ApplicationReply ApplicationRecord
  | ReleasesReply "ReleaseRecord list"
  | ReleaseReply ReleaseRecord
  | TargetsReply "DeploymentTargetRecord list"
  | TargetReply DeploymentTargetRecord
  | ClusterReply ClusterResponse
  | NodeReply NodeDetailResponse
  | ServicesReply "ServiceSummary list"
  | ServiceReply ServiceDetailResponse
  | TasksReply "TaskSummary list"
  | TokenReply BootstrapTokenRecord string
  | ClaimReply BootstrapClaimResponse
  | CompleteReply BootstrapCompleteResponse
  | CapacityReply CapacityCheckResponse
  | HealthReply

definition replyWith :: "('a \<Rightarrow> Reply) \<Rightarrow> 'a cp \<Rightarrow> Reply cp" where
  "replyWith f m = bindM m (\<lambda>x. retM (f x))"

definition parseBody :: "string \<Rightarrow> 'a option \<Rightarrow> 'a cp" where
  "parseBody message parsed =
     (case parsed of None \<Rightarrow> throwM (BadRequestException message) | Some x \<Rightarrow> retM x)"

fun mutationHandler :: "external \<Rightarrow> Schemas \<Rightarrow> MutationRoute \<Rightarrow> HttpRequest \<Rightarrow> Principal \<Rightarrow> Reply cp" where
  "mutationHandler ext z GetOperation rq actor =
     replyWith OperationReply (mutation_operation ext (rq_clusterId rq) (rq_resourceId rq))"
| "mutationHandler ext z PostScale rq actor =
     bindM (parseBody ''Invalid mutation request'' (z_scale z (rq_body rq))) (\<lambda>input.
     replyWith OperationReply (scale ext (rq_clusterId rq) (rq_resourceId rq) input actor))"
| "mutationHandler ext z PostRestart rq actor =
     bindM (parseBody ''Invalid mutation request'' (z_restart z (rq_body rq))) (\<lambda>input.
     replyWith OperationReply (restart ext (rq_clusterId rq) (rq_resourceId rq) input actor))"

fun nodeMutationHandler ::
    "external \<Rightarrow> Schemas \<Rightarrow> NodeMutationRoute \<Rightarrow> HttpRequest \<Rightarrow> Principal \<Rightarrow> Reply cp" where
  "nodeMutationHandler ext z GetNodeOperation rq actor =
     replyWith NodeOperationReply (node_operation ext (rq_clusterId rq) (rq_resourceId rq))"
| "nodeMutationHandler ext z PostDrain rq actor =
     bindM (parseBody ''Invalid node mutation request'' (z_node z (rq_body rq))) (\<lambda>input.
     replyWith NodeOperationReply (drain ext (rq_clusterId rq) (rq_resourceId rq) input actor))"
| "nodeMutationHandler ext z PostLabels rq actor =
     bindM (parseBody ''Invalid node label mutation request'' (z_labels z (rq_body rq))) (\<lambda>input.
     replyWith NodeOperationReply (labels_of_node ext (rq_clusterId rq) (rq_resourceId rq) input actor))"
| "nodeMutationHandler ext z PostActivate rq actor =
     bindM (parseBody ''Invalid node mutation request'' (z_node z (rq_body rq))) (\<lambda>input.
     replyWith NodeOperationReply (activate ext (rq_clusterId rq) (rq_resourceId rq) input actor))"

fun deploymentHandler ::
    "external \<Rightarrow> Schemas \<Rightarrow> DeploymentRoute \<Rightarrow> HttpRequest \<Rightarrow> Principal \<Rightarrow> Reply cp" where
  "deploymentHandler ext z GetHistory rq actor =
     replyWith HistoryReply (deployment_history ext (rq_clusterId rq) (rq_resourceId rq))"
| "deploymentHandler ext z PostHistoricalRedeploy rq actor =
     bindM (parseBody ''Invalid historical redeploy request'' (z_deploy z (rq_body rq))) (\<lambda>input.
     replyWith DeploymentReply (historicalRedeploy ext (rq_clusterId rq) (rq_resourceId rq) input actor))"
| "deploymentHandler ext z PostDeploy rq actor =
     bindM (parseBody ''Invalid deployment request'' (z_deploy z (rq_body rq))) (\<lambda>input.
     replyWith DeploymentReply (deploy ext (rq_clusterId rq) (rq_resourceId rq) input actor))"
| "deploymentHandler ext z PostRollback rq actor =
     bindM (parseBody ''Invalid rollback request'' (z_rollback z (rq_body rq))) (\<lambda>operationId.
     replyWith DeploymentReply (rollback ext (rq_clusterId rq) (rq_resourceId rq) operationId actor))"
| "deploymentHandler ext z GetStatus rq actor =
     replyWith (\<lambda>(d, operation, rollbackOperation). StatusReply d operation rollbackOperation)
       (deployment_status ext (rq_clusterId rq) (rq_resourceId rq))"
| "deploymentHandler ext z GetDeployment rq actor =
     replyWith DeploymentReply (deployment_view ext (rq_clusterId rq) (rq_resourceId rq))"

fun maintenanceHandler ::
    "external \<Rightarrow> MaintenanceRoute \<Rightarrow> HttpRequest \<Rightarrow> Principal \<Rightarrow> MaintenanceReply cp" where
  "maintenanceHandler ext GetMaintenance rq actor = maintenance_get ext (rq_clusterId rq) actor"
| "maintenanceHandler ext GetReadiness rq actor = maintenance_readiness ext (rq_clusterId rq) actor"
| "maintenanceHandler ext PostCloseRequest rq actor = maintenance_requestClosing ext (rq_clusterId rq) actor (rq_body rq)"
| "maintenanceHandler ext PostInitialize rq actor = maintenance_initialize ext (rq_clusterId rq) actor (rq_body rq)"
| "maintenanceHandler ext PostConfirmClosed rq actor = maintenance_confirmClosed ext (rq_clusterId rq) actor (rq_body rq)"
| "maintenanceHandler ext PostBeginReconciliation rq actor = beginReconciliation ext (rq_clusterId rq) actor (rq_body rq)"
| "maintenanceHandler ext PostCompleteReconciliation rq actor = completeReconciliation ext (rq_clusterId rq) actor (rq_body rq)"
| "maintenanceHandler ext PostResumeManagers rq actor = resumeManagers ext (rq_clusterId rq) actor (rq_body rq)"
| "maintenanceHandler ext GetEvidence rq actor = maintenance_evidence ext (rq_clusterId rq) actor"
| "maintenanceHandler ext PostResolveEvidence rq actor = maintenance_resolve ext (rq_clusterId rq) actor (rq_body rq)"

fun registrationHandler :: "external \<Rightarrow> RegistrationRoute \<Rightarrow> HttpRequest \<Rightarrow> Principal \<Rightarrow> Reply cp" where
  "registrationHandler ext PutRegistration rq actor =
     replyWith RegistrationReply (registration_put ext (rq_clusterId rq) actor (rq_body rq))"
| "registrationHandler ext GetRegistration rq actor =
     replyWith RegistrationViewReply (registration_get ext (rq_clusterId rq) actor)"

fun releaseHandler :: "external \<Rightarrow> ReleaseRoute \<Rightarrow> HttpRequest \<Rightarrow> Principal \<Rightarrow> Reply cp" where
  "releaseHandler ext GetApplications rq actor = replyWith ApplicationsReply (listApplications ext)"
| "releaseHandler ext PostApplication rq actor =
     bindM (parseBody ''Invalid release domain request'' (CreateApplicationRequestSchema (rq_body rq))) (\<lambda>input.
     replyWith ApplicationReply (release_createApplication ext input actor))"
| "releaseHandler ext GetReleases rq actor = replyWith ReleasesReply (release_releases ext (rq_resourceId rq))"
| "releaseHandler ext PostRelease rq actor =
     bindM (parseBody ''Invalid release domain request'' (CreateReleaseRequestSchema (rq_body rq))) (\<lambda>input.
     replyWith ReleaseReply (release_createRelease ext (rq_resourceId rq) input actor))"
| "releaseHandler ext GetTargets rq actor =
     replyWith TargetsReply (release_targets ext (rq_clusterId rq) (rq_resourceId rq))"
| "releaseHandler ext PostTarget rq actor =
     bindM (parseBody ''Invalid release domain request'' (CreateDeploymentTargetRequestSchema (rq_body rq))) (\<lambda>input.
     replyWith TargetReply (release_createTarget ext (rq_clusterId rq) (rq_resourceId rq) input actor))"

fun readHandler :: "external \<Rightarrow> ReadRoute \<Rightarrow> HttpRequest \<Rightarrow> Reply cp" where
  "readHandler ext GetCluster rq = replyWith ClusterReply (read_cluster ext (rq_clusterId rq))"
| "readHandler ext GetNode rq = replyWith NodeReply (read_node ext (rq_clusterId rq) (rq_resourceId rq))"
| "readHandler ext GetServices rq = replyWith ServicesReply (read_services ext (rq_clusterId rq))"
| "readHandler ext GetService rq = replyWith ServiceReply (read_service ext (rq_clusterId rq) (rq_resourceId rq))"
| "readHandler ext GetTasks rq = replyWith TasksReply (read_tasks ext (rq_clusterId rq) (rq_resourceId rq))"

definition capacityHandler :: "external \<Rightarrow> HttpRequest \<Rightarrow> Reply cp" where
  "capacityHandler ext rq =
     bindM (parseBody ''Invalid capacity check request'' (CapacityCheckRequestSchema (rq_body rq))) (\<lambda>input.
     replyWith CapacityReply (capacity_check ext (rq_clusterId rq) (rq_resourceId rq) input))"

definition issueHandler :: "external \<Rightarrow> HttpRequest \<Rightarrow> Principal \<Rightarrow> Reply cp" where
  "issueHandler ext rq actor =
     bindM (parseBody ''Invalid bootstrap request'' (CreateBootstrapTokenRequestSchema (rq_body rq))) (\<lambda>input.
     replyWith (\<lambda>(record, tok). TokenReply record tok) (bootstrap_issue ext (rq_clusterId rq) input actor))"

fun handler :: "external \<Rightarrow> Schemas \<Rightarrow> Route \<Rightarrow> HttpRequest \<Rightarrow> Principal \<Rightarrow> Reply cp" where
  "handler ext z (MutationController route) = mutationHandler ext z route"
| "handler ext z (NodeMutationController route) = nodeMutationHandler ext z route"
| "handler ext z (DeploymentController route) = deploymentHandler ext z route"
| "handler ext z (MaintenanceController route) = (\<lambda>rq actor. replyWith MaintenanceResult (maintenanceHandler ext route rq actor))"
| "handler ext z (RegistrationController route) = registrationHandler ext route"
| "handler ext z (ReleaseController route) = releaseHandler ext route"
| "handler ext z (ReadController route) = (\<lambda>rq actor. readHandler ext route rq)"
| "handler ext z PostCapacityCheck = (\<lambda>rq actor. capacityHandler ext rq)"
| "handler ext z PostBootstrapToken = issueHandler ext"

text \<open>\<open>AuthGuard\<close>, then \<open>ClusterBindingGuard\<close>, then the handler.\<close>

definition serve ::
    "external \<Rightarrow> TokenEntry list \<Rightarrow> Schemas \<Rightarrow> Route \<Rightarrow> HttpRequest \<Rightarrow> Reply cp" where
  "serve ext entries z route request =
     bindM (canActivate entries (requiredRole route) (paramsOf route request)) (\<lambda>actor.
     thenM (whenM (bindsCluster route) (assertRegistered ext (rq_clusterId request)))
       (handler ext z route request actor))"

text \<open>
  The public routes: no principal. Those of the bootstrap are marked \<open>RequireClusterBinding\<close>, so the
  binding of the configured cluster is checked; \<open>GetHealth\<close> is
  \<^verbatim>\<open>health.controller.ts\<close>.
\<close>

datatype PublicRoute = PostBootstrapClaim | PostBootstrapComplete | GetHealth

fun publicHandler :: "external \<Rightarrow> Schemas \<Rightarrow> PublicRoute \<Rightarrow> json \<Rightarrow> Reply cp" where
  "publicHandler ext z PostBootstrapClaim body =
     bindM (parseBody ''Invalid bootstrap request'' (z_claim z body)) (\<lambda>input.
     replyWith ClaimReply (bootstrap_claim ext input))"
| "publicHandler ext z PostBootstrapComplete body =
     bindM (parseBody ''Invalid bootstrap request'' (z_complete z body)) (\<lambda>input.
     replyWith CompleteReply (bootstrap_complete ext input))"
| "publicHandler ext z GetHealth body = retM HealthReply"

definition servePublic :: "external \<Rightarrow> Schemas \<Rightarrow> PublicRoute \<Rightarrow> json \<Rightarrow> Reply cp" where
  "servePublic ext z route body =
     thenM (whenM (route \<noteq> GetHealth) (assertRegistered ext (x_clusterId ext))) (publicHandler ext z route body)"

section \<open>Activities of the process\<close>

datatype Activity =
    Serve Route HttpRequest
  | ServePublic PublicRoute json
  | RecoverMutations
  | RecoverNodeMutations
  | RecoverDeployments
  | ReconcileTick bool

fun perform :: "external \<Rightarrow> TokenEntry list \<Rightarrow> Schemas \<Rightarrow> Activity \<Rightarrow> world \<Rightarrow> world" where
  "perform ext entries z (Serve route request) w = snd (serve ext entries z route request w)"
| "perform ext entries z (ServePublic route body) w = snd (servePublic ext z route body w)"
| "perform ext entries z RecoverMutations w = snd (onApplicationBootstrap ext w)"
| "perform ext entries z RecoverNodeMutations w = snd (node_onApplicationBootstrap ext w)"
| "perform ext entries z RecoverDeployments w = snd (deployment_onApplicationBootstrap ext w)"
| "perform ext entries z (ReconcileTick running) w = snd (reconcilePendingDeployments ext running w)"

fun is_recovery :: "Activity \<Rightarrow> bool" where
  "is_recovery (Serve route request) = False"
| "is_recovery (ServePublic route body) = False"
| "is_recovery _ = True"

inductive reachable :: "external \<Rightarrow> TokenEntry list \<Rightarrow> Schemas \<Rightarrow> world \<Rightarrow> world \<Rightarrow> bool"
  for ext entries z w0 where
  here: "reachable ext entries z w0 w0"
| performed: "reachable ext entries z w0 w \<Longrightarrow> reachable ext entries z w0 (perform ext entries z a w)"

section \<open>Reads\<close>

context step_relation
begin

lemma steps_replyWith [step_intros]: "steps R m \<Longrightarrow> steps R (replyWith f m)"
  unfolding replyWith_def by (intro step_intros)

lemma steps_parseBody [step_intros]: "steps R (parseBody message parsed)"
  unfolding parseBody_def by (intro step_intros)

lemma steps_canActivate [step_intros]: "steps R (canActivate entries role request)"
  unfolding canActivate_def by (intro step_intros)

end

text \<open>The routes that only read.\<close>

definition reading_route :: "Route \<Rightarrow> bool" where
  "reading_route route = (requiredRole route = VIEWER)"

context step_relation
begin

lemma steps_reading_services [step_intros]:
  "steps R (mutation_operation ext c oid)" "steps R (node_operation ext c oid)"
  "steps R (deployment_history ext c tid)" "steps R (deployment_view ext c did)"
  "steps R (deployment_status ext c did)"
  unfolding mutation_operation_def node_operation_def deployment_history_def deployment_view_def
    deployment_status_def assertCluster_def findDeploymentTarget_def repository_query_defs
  by (intro step_intros)+

lemma steps_readHandler [step_intros]: "steps R (readHandler ext route rq)"
  by (cases route) (simp_all add: step_intros)

lemma steps_capacityHandler [step_intros]: "steps R (capacityHandler ext rq)"
  unfolding capacityHandler_def capacity_check_def capacity_callAgent_def assertCluster_def checkServiceCapacity_def
    agentRead_def
  by (intro step_intros)

lemma steps_reading_handler:
  "reading_route route \<Longrightarrow> steps R (handler ext z route rq actor)"
  by (cases route) (auto simp: reading_route_def split: if_splits intro!: step_intros)

end

section \<open>The whole process keeps the contract relations\<close>

context locked_recovery_relation
begin

lemma recovery_related:
  assumes "is_recovery a"
  shows "R w (perform ext entries z a w)"
proof -
  have "steps R (onApplicationBootstrap ext)" "steps R (node_onApplicationBootstrap ext)"
      "steps R (deployment_onApplicationBootstrap ext)" "steps R (reconcilePendingDeployments ext running)" for running
    unfolding deployment_onApplicationBootstrap_def
    by (rule steps_onApplicationBootstrap steps_node_onApplicationBootstrap steps_reconcilePendingDeployments)+
  then show ?thesis using assms steps_at by (cases a) auto
qed

end

context store_relation
begin

lemma steps_controllers:
  "steps R (mutationHandler ext z r1 rq actor)"
  "steps R (nodeMutationHandler ext z r2 rq actor)"
  "steps R (deploymentHandler ext z r3 rq actor)"
proof -
  show "steps R (mutationHandler ext z r1 rq actor)"
    by (cases r1) (simp_all add: step_intros steps_scale steps_restart)
  show "steps R (nodeMutationHandler ext z r2 rq actor)"
    by (cases r2) (simp_all add: drain_def activate_def labels_of_node_def step_intros steps_mutate)
  show "steps R (deploymentHandler ext z r3 rq actor)"
    by (cases r3) (simp_all add: step_intros steps_deploy steps_historicalRedeploy steps_rollback)
qed

lemma steps_maintenanceHandler: "steps R (maintenanceHandler ext route rq actor)"
  by (cases route) (simp_all add: steps_maintenance_handlers steps_maintenance_views)

lemma steps_catalog_handlers:
  "steps R (registrationHandler ext r1 rq actor)" "steps R (releaseHandler ext r2 rq actor)"
  "steps R (readHandler ext r3 rq)" "steps R (issueHandler ext rq actor)"
  by (cases r1; simp add: step_intros; fail | cases r2; simp add: step_intros; fail
      | cases r3; simp add: step_intros; fail | simp add: issueHandler_def step_intros; fail)+

lemma steps_servePublic: "steps R (servePublic ext z route body)"
  unfolding servePublic_def by (cases route) (simp_all add: step_intros)

lemma steps_handler: "steps R (handler ext z route rq actor)"
  by (cases route) (simp_all add: steps_controllers steps_replyWith steps_maintenanceHandler steps_catalog_handlers
      steps_capacityHandler)

lemma perform_related: "R w (perform ext entries z a w)"
proof (cases a)
  case (Serve route request)
  have "steps R (serve ext entries z route request)"
    unfolding serve_def by (intro step_intros steps_handler)
  then show ?thesis using Serve steps_at by simp
next
  case (ServePublic route body)
  then show ?thesis using steps_at [OF steps_servePublic] by simp
qed (simp_all only: recovery_related is_recovery.simps)

lemma reachable_related: "reachable ext entries z w0 w \<Longrightarrow> R w0 w"
  by (induction rule: reachable.induct) (auto intro: refl trans perform_related)

end

end
