(* ===== verification/Nominal.thy ===== *)
theory Nominal
  imports Api
begin

text \<open>
  Runs without infrastructure faults: \<open>faultless ext\<close> says that every database statement
  succeeds, \<open>plain ext\<close> that registration and maintenance are not enforced. Under these
  hypotheses effectful code becomes a rewriting system, which the results about particular outcomes
  (a rejected mutation, a converged one) and the concrete runs use.
\<close>

definition faultless :: "external \<Rightarrow> bool" where
  "faultless ext \<longleftrightarrow> (\<forall>n. x_db ext n = DbOk)"

definition plain :: "external \<Rightarrow> bool" where
  "plain ext \<longleftrightarrow> \<not> x_registrationEnforce ext \<and> \<not> x_maintenanceEnforce ext"

section \<open>Statements\<close>

lemma tick_simps [simp]:
  "w_db (tick ext w) = w_db w" "w_locks (tick ext w) = w_locks w" "w_sent (tick ext w) = w_sent w"
  "w_operation (tick ext w) = w_operation w" "w_admission (tick ext w) = w_admission w"
  "w_active (tick ext w) = w_active w" "w_calls (tick ext w) = Suc (w_calls w)"
  by (simp_all add: tick_def)

lemma bindM_run: "m w = (Inr x, w') \<Longrightarrow> bindM m f w = f x w'" "m w = (Inl e, w') \<Longrightarrow> bindM m f w = (Inl e, w')"
  by (simp_all add: bindM_def)

lemma thenM_run: "m w = (Inr x, w') \<Longrightarrow> thenM m k w = k w'" "m w = (Inl e, w') \<Longrightarrow> thenM m k w = (Inl e, w')"
  by (simp_all add: thenM_def bindM_run)

lemma attempt_run: "m w = (r, w') \<Longrightarrow> attempt m w = (Inr r, w')"
  by (simp add: attempt_def)

lemma query_run: "faultless ext \<Longrightarrow> query ext q w = (Inr (q (w_db w)), tick ext w)"
  by (simp add: query_def faultless_def)

lemma executeStmt_run:
  "faultless ext \<Longrightarrow> stmt (w_clock w) (w_db w) = Inr (n, d) \<Longrightarrow>
   executeStmt ext stmt w = (Inr n, (tick ext w)\<lparr>w_db := d\<rparr>)"
  by (simp add: executeStmt_def faultless_def)

lemma execute_run:
  "faultless ext \<Longrightarrow> stmt (w_clock w) (w_db w) = Inr (n, d) \<Longrightarrow>
   execute ext stmt w = (Inr (), (tick ext w)\<lparr>w_db := d\<rparr>)"
  by (simp add: execute_def executeStmt_run thenM_run(1) retM_def)

lemma inTransaction_run:
  "faultless ext \<Longrightarrow> inTransaction ext body w =
     (case body (tick ext w) of
        (Inr x, w') \<Rightarrow> (Inr x, tick ext w')
      | (Inl e, w') \<Rightarrow> (Inl e, (tick ext w')\<lparr>w_db := w_db w\<rparr>))"
  by (simp add: inTransaction_def rollbackTo_def faultless_def split: prod.split sum.split)

lemma inTransactionUnless_run:
  "faultless ext \<Longrightarrow> inTransactionUnless ext body w =
     (case body (tick ext w) of
        (Inr None, w') \<Rightarrow> (Inr None, (tick ext w')\<lparr>w_db := w_db w\<rparr>)
      | (Inr (Some x), w') \<Rightarrow> (Inr (Some x), tick ext w')
      | (Inl e, w') \<Rightarrow> (Inl e, (tick ext w')\<lparr>w_db := w_db w\<rparr>))"
  by (simp add: inTransactionUnless_def inTransaction_def rollbackTo_def faultless_def Let_def
      split: prod.split sum.split option.split)

section \<open>The Agent\<close>

lemma assertRegistered_run:
  "plain ext \<Longrightarrow> assertRegistered ext (x_clusterId ext) w = (Inr (), w)"
  by (simp add: assertRegistered_def plain_def retM_def)

lemma agentRead_run: "plain ext \<Longrightarrow> agentRead ext f w = (f (w_calls w), tick ext w)"
  by (simp add: agentRead_def assertRegistered_run thenM_run(1) callExternal_def)

lemma agent_runs:
  assumes "plain ext"
  shows "inspectService ext sid w = (x_inspectService ext (w_calls w) sid, tick ext w)"
    and "checkServicePlacement ext sid w = (x_checkPlacement ext (w_calls w) sid, tick ext w)"
    and "checkServiceCapacity ext sid i w = (x_checkCapacity ext (w_calls w) sid i, tick ext w)"
    and "inspectNode ext nid w = (x_inspectNode ext (w_calls w) nid, tick ext w)"
    and "planScaleService ext sid v k w = (x_planScale ext (w_calls w) sid v k, tick ext w)"
    and "planRestartService ext sid v w = (x_planRestart ext (w_calls w) sid v, tick ext w)"
  using assms by (simp_all add: agent_read_defs agentRead_run)

lemma agentMutation_run:
  assumes "plain ext" and "x_selectMutationAgent ext (w_calls w) = Inr agentId"
    and "isBoundedIdentifier (x_swarmClusterId ext)" and "w_admission w = None"
  shows "agentMutation ext req send w =
    (let w1 = tick ext w in (send (w_calls w1) req, tick ext (w1\<lparr>w_sent := w_sent w1 @ [sentNow req w1]\<rparr>)))"
proof -
  have "mutationRequest ext req send w = transport ext req send (tick ext w)"
    unfolding mutationRequest_def using assms by (simp add: callExternal_def plain_def monad_defs)
  then show ?thesis
    using assms(1) by (simp add: agentMutation_def assertRegistered_run thenM_run(1) plain_def
        transport_def callExternal_def Let_def)
qed

end
