(* ===== verification/Scenario.thy ===== *)
theory Scenario
  imports Nominal
begin

text \<open>
  A concrete run for the witnesses: a cluster with one replicated service at version 7 that an
  operator scales from two to three replicas. The Agent shows the old spec until interaction 18
  and the new one afterwards; every statement succeeds, every interaction takes one millisecond.
  In a second run the operator activates a node that is already active, which dispatches nothing
  and verifies the node.
\<close>

definition demo_service :: "nat \<Rightarrow> string \<Rightarrow> nat \<Rightarrow> ServiceDetailResponse" where
  "demo_service v h k =
     \<lparr>sd_service = \<lparr>s_id = ''svc'', s_name = ''web'', s_version = v, s_specHash = h, s_forceUpdate = 0,
        s_taskSpecHash = None, s_runtimeSpecHash = None, s_image = None, s_mode = ''replicated'',
        s_desiredReplicas = k, s_runningReplicas = k, s_updateState = None, s_updateMessage = None,
        s_createdAt = ''t0'', s_updatedAt = ''t1''\<rparr>,
      sd_tasks = []\<rparr>"

definition demo_node :: NodeDetailResponse where
  "demo_node =
     \<lparr>ndr_node = \<lparr>nd_id = ''n1'', nd_version = 4, nd_specHash = ''nh'', nd_hostname = ''host'',
        nd_address = ''10.0.0.1'', nd_role = ''worker'', nd_availability = ''active'', nd_state = ''ready'',
        nd_message = None, nd_manager = False, nd_leader = False, nd_reachability = None,
        nd_engineVersion = None, nd_nanoCpus = 0, nd_memoryBytes = 0, nd_labels = []\<rparr>,
      ndr_tasks = [], ndr_serviceIds = [''svc'']\<rparr>"

definition demo_plan :: "nat \<Rightarrow> ServiceMutationPlan" where
  "demo_plan k =
     \<lparr>p_serviceId = ''svc'', p_version = 7, p_beforeSpecHash = ''h1'', p_targetSpecHash = ''h2'',
      p_targetForceUpdate = 0, p_targetReplicas = Some k, p_targetImage = None,
      p_targetTaskSpecHash = None, p_targetRuntimeSpecHash = None\<rparr>"

definition demo_node_plan :: NodeMutationPlan where
  "demo_node_plan =
     \<lparr>np_nodeId = ''n1'', np_version = 4, np_beforeSpecHash = ''nh'', np_targetSpecHash = ''nh'',
      np_targetAvailability = AvActive, np_affectedServiceIds = [''svc''], np_targetLabels = None\<rparr>"

definition demo_capacity :: CapacityCheckResponse where
  "demo_capacity =
     \<lparr>cc_serviceId = ''svc'', cc_status = SUFFICIENT, cc_currentReplicas = 2, cc_targetReplicas = 3,
      cc_updateOverlapReplicas = 0, cc_requiredAdditionalReplicas = 1,
      cc_schedulableAdditionalReplicas = 4, cc_unplacedReplicas = 0, cc_eligibleNodeCount = 2, cc_reservation = (0, 0),
      cc_reasons = [], cc_unsupportedConstraints = [], cc_nodes = []\<rparr>"

definition demo_identity :: AgentIdentityResponse where
  "demo_identity = \<lparr>ai_clusterId = ''swarm'', ai_nodeId = ''n1'', ai_hostname = ''manager'', ai_manager = True,
     ai_leader = True\<rparr>"

definition demo_cluster :: ClusterResponse where
  "demo_cluster = \<lparr>cv_id = ''swarm'', cv_managersTotal = 1, cv_managersReachable = 1, cv_managersRequired = 1,
     cv_managersAvailable = True, cv_leaderCount = 1, cv_nodes = [(ndr_node demo_node)\<lparr>nd_id := ''n1'', nd_manager := True\<rparr>]\<rparr>"

definition demo :: external where
  "demo =
     \<lparr>x_clusterId = ''c1'', x_maintenanceEnforce = False, x_registrationEnforce = False,
      x_expectedSwarmClusterId = None, x_processInstanceId = ''cp'', x_db = (\<lambda>n. DbOk),
      x_latency = (\<lambda>n. 1), x_timerDelay = (\<lambda>n. 2), x_uuid = (\<lambda>n. ''uuid''), x_sha256Hex = (\<lambda>s. s),
      x_getLock = (\<lambda>n name. True),
      x_inspectService = (\<lambda>n sid. Inr (if n < 18 then demo_service 7 ''h1'' 2 else demo_service 8 ''h2'' 3)),
      x_checkPlacement = (\<lambda>n sid. Inr PlConverged),
      x_checkCapacity = (\<lambda>n sid i. Inr demo_capacity),
      x_inspectNode = (\<lambda>n nid. Inr demo_node),
      x_planScale = (\<lambda>n sid v k. Inr (demo_plan k)),
      x_planRestart = (\<lambda>n sid v. Inr (demo_plan 2)),
      x_planUpdateImage = (\<lambda>n sid v img. Inl (AgentTransportError ''unreachable'')),
      x_planRollback = (\<lambda>n sid v. Inl (AgentTransportError ''unreachable'')),
      x_planDrain = (\<lambda>n nid v. Inl (AgentTransportError ''unreachable'')),
      x_planActivate = (\<lambda>n nid v. Inr demo_node_plan),
      x_planLabels = (\<lambda>n nid v s r. Inl (AgentTransportError ''unreachable'')),
      x_selectMutationAgent = (\<lambda>n. Inr ''agent-1''), x_swarmClusterId = ''swarm'',
      x_barrier = (\<lambda>n aid. Inl (AgentTransportError ''unreachable'')),
      x_identity = (\<lambda>n. Inr demo_identity), x_agents = [''agent-1''], x_managerClusterId = Some ''swarm'',
      x_agentIdentity = (\<lambda>n aid. Inr demo_identity), x_agentCluster = (\<lambda>n aid. Inr demo_cluster),
      x_putBarrier = (\<lambda>n aid c g st. Inr \<lparr>br_clusterId = c, br_nodeId = ''n1'', br_generation = g, br_state = st\<rparr>),
      x_sendService = (\<lambda>n req. Inr \<lparr>r_serviceId = ''svc'', r_version = 8, r_targetSpecHash = ''h2'',
         r_targetForceUpdate = 0\<rparr>),
      x_sendNode = (\<lambda>n req. Inl (AgentTransportError ''unreachable'')),
      x_healthPrivateHosts = None,
      x_parseUrl = (\<lambda>s. None), x_resolveUrl = (\<lambda>s u. None),
      x_lookup = (\<lambda>n h. Inr []), x_fetch = (\<lambda>n u t. Inl (AgentTransportError ''unreachable'')),
      x_inspectCluster = (\<lambda>n. Inr demo_cluster), x_listServices = (\<lambda>n. Inr []),
      x_listServiceTasks = (\<lambda>n sid. Inr []), x_randomToken = (\<lambda>n. ''random-token''), x_swarmJoin = [],
      x_registryPrivateHosts = None, x_registryCredentials = [], x_href = (\<lambda>u. u_host u),
      x_setSearchParam = (\<lambda>k v u. u), x_toNumber = (\<lambda>s. None),
      x_registryFetch = (\<lambda>n rq. Inl (AgentTransportError ''unreachable''))\<rparr>"

definition demo_world :: world where
  "demo_world =
     \<lparr>w_db = empty_db, w_clock = 1000, w_calls = 0, w_locks = [], w_operation = None,
      w_admission = None, w_active = None, w_sent = [], w_puts = []\<rparr>"

definition demo_tokens :: "TokenEntry list" where
  "demo_tokens =
     [\<lparr>te_token = ''viewer-token-0001'', te_actorId = ''eve'', te_role = VIEWER, te_clusters = [''*'']\<rparr>,
      \<lparr>te_token = ''operator-token-01'', te_actorId = ''ada'', te_role = OPERATOR, te_clusters = [''c1'']\<rparr>]"

definition demo_schemas :: Schemas where
  "demo_schemas =
     \<lparr>z_scale = (\<lambda>j. Some \<lparr>sr_operationId = ''op-1'', sr_expectedVersion = 7, sr_replicas = 3\<rparr>),
      z_restart = (\<lambda>j. Some \<lparr>rr_operationId = ''op-2'', rr_expectedVersion = 7\<rparr>),
      z_node = (\<lambda>j. Some \<lparr>nq_operationId = ''op-3'', nq_expectedVersion = 4, nq_set = [], nq_remove = []\<rparr>),
      z_labels = (\<lambda>j. None), z_deploy = (\<lambda>j. None), z_rollback = (\<lambda>j. None),
      z_claim = (\<lambda>j. None), z_complete = (\<lambda>j. None)\<rparr>"

definition demo_request :: "string \<Rightarrow> HttpRequest" where
  "demo_request tok =
     \<lparr>rq_authorization = OneHeader (''Bearer '' @ tok), rq_clusterId = ''c1'', rq_resourceId = ''web'',
      rq_body = JNull\<rparr>"

abbreviation demo_scale :: Activity where
  "demo_scale \<equiv> Serve (MutationController PostScale) (demo_request ''operator-token-01'')"

section \<open>The run\<close>

lemma demo_ok [simp]: "faultless demo" "plain demo"
  by (simp_all add: faultless_def plain_def demo_def)

lemma demo_fields [simp]:
  "x_clusterId demo = ''c1''" "x_swarmClusterId demo = ''swarm''" "\<not> x_maintenanceEnforce demo"
  "x_selectMutationAgent demo n = Inr ''agent-1''"
  "x_inspectService demo n sid = Inr (if n < 18 then demo_service 7 ''h1'' 2 else demo_service 8 ''h2'' 3)"
  "x_planScale demo n sid v k = Inr (demo_plan k)" "x_checkCapacity demo n sid i = Inr demo_capacity"
  "x_getLock demo n name" "x_db demo n = DbOk" "x_sha256Hex demo s = s"
  "x_sendService demo n req = Inr \<lparr>r_serviceId = ''svc'', r_version = 8, r_targetSpecHash = ''h2'',
     r_targetForceUpdate = 0\<rparr>"
  by (simp_all add: demo_def)

lemma tick_demo: "tick demo w = w\<lparr>w_calls := Suc (w_calls w), w_clock := Suc (w_clock w)\<rparr>"
  by (simp add: tick_def demo_def)

abbreviation demo_principal :: Principal where
  "demo_principal \<equiv> \<lparr>pr_actorId = ''ada'', pr_role = OPERATOR, pr_clusters = [''c1'']\<rparr>"

lemma demo_operator:
  "canActivate demo_tokens OPERATOR (demo_request ''operator-token-01'') w = (Inr demo_principal, w)"
  by (simp add: demo_tokens_def demo_request_def canActivate_def readBearerToken_def authenticate_def monad_defs)

abbreviation demo_input :: ScaleServiceRequest where
  "demo_input \<equiv> \<lparr>sr_operationId = ''op-1'', sr_expectedVersion = 7, sr_replicas = 3\<rparr>"

text \<open>The row of the operation.\<close>

definition demo_row :: "OperationStatus \<Rightarrow> nat option \<Rightarrow> nat \<Rightarrow> OperationRecord" where
  "demo_row st v t =
     \<lparr>o_id = ''op-1'', o_clusterId = ''c1'', o_serviceId = ''svc'', o_type = SCALE, o_status = st,
      o_actorId = ''ada'', o_expectedVersion = 7, o_beforeSpecHash = ''h1'', o_targetSpecHash = ''h2'',
      o_targetForceUpdate = 0, o_targetReplicas = Some 3, o_targetImage = None,
      o_targetTaskSpecHash = None, o_targetRuntimeSpecHash = None, o_resultVersion = v,
      o_errorCode = None, o_errorMessage = None, o_createdAt = 1010, o_updatedAt = t\<rparr>"

text \<open>What the later steps of the run depend on.\<close>

definition demo_at :: "nat \<Rightarrow> OperationRecord list \<Rightarrow> world \<Rightarrow> bool" where
  "demo_at n rows w \<longleftrightarrow>
     w_calls w = n \<and> w_clock w = 1000 + n \<and> w_admission w = None \<and> operations (w_db w) = rows \<and>
     node_operations (w_db w) = []"

lemma demo_prepared:
  assumes "demo_at 3 [] w"
  shows "\<exists>w'. demo_at 9 [] w' \<and>
    prepareServiceMutation demo ''c1'' ''svc'' (planScaleService demo ''svc'' 7 3)
      (\<lambda>plan before. \<lparr>cr_expectedVersion = p_version plan, cr_targetReplicas = 3, cr_includeUpdateOverlap = False\<rparr>)
      (tick demo w) = (Inr (demo_plan 3, demo_service 7 ''h1'' 2), w')"
  using assms
  unfolding prepareServiceMutation_def resolvePriorServiceOperation_def assertNoNodeOperationConflict_def
    repository_query_defs demo_at_def
  by (simp add: bindM_def thenM_def retM_def query_run nonTerminalForService_def
      nonTerminalAffectingService_def oldest_def first_row_def agent_runs catchM_def
      assertPlanMatchesCurrent_def demo_plan_def demo_service_def assertAvailable_def
      capacity_callAgent_def demo_capacity_def tick_demo)

lemma demo_persisted:
  assumes "demo_at 9 [] w"
  shows "\<exists>w'. demo_at 14 [demo_row RUNNING None 1011] w' \<and>
    persistIntent demo ''op-1'' ''c1'' (demo_plan 3) SCALE ''ada'' (Some 3) (demo_service 7 ''h1'' 2) w = (Inr (), w')"
  using assms
  unfolding persistIntent_def op_create_def op_markRunning_def op_audit_def demo_at_def
  by (simp add: inTransaction_run thenM_def bindM_def execute_run updateOpenOperation_def
      insertOperation_def find_row_def tick_demo status_terminal_def newOperation_def demo_plan_def
      demo_row_def update_rows_def)

lemma demo_sent:
  assumes "demo_at 14 rows w"
  shows "\<exists>w'. demo_at 16 rows w' \<and>
    withMutationOperation ''op-1'' (agentMutation demo req (x_sendService demo)) w =
      (Inr \<lparr>r_serviceId = ''svc'', r_version = 8, r_targetSpecHash = ''h2'', r_targetForceUpdate = 0\<rparr>, w')"
  using assms unfolding demo_at_def withMutationOperation_def
  by (simp add: agentMutation_run isBoundedIdentifier_def isIdentifierChar_def tick_demo)

lemma demo_verifying:
  assumes "demo_at 16 [demo_row RUNNING None 1011] w"
  shows "\<exists>w'. demo_at 19 [demo_row VERIFYING (Some 8) 1017] w' \<and>
    markVerifying demo ''op-1'' \<lparr>r_serviceId = ''svc'', r_version = 8, r_targetSpecHash = ''h2'', r_targetForceUpdate = 0\<rparr> w
      = (Inr (), w')"
  using assms unfolding demo_at_def markVerifying_def op_markVerifying_def
  by (simp add: inTransaction_run execute_run updateOpenOperation_def update_rows_def demo_row_def
      status_terminal_def tick_demo)

lemma demo_required:
  assumes "demo_at n [demo_row st v t] w"
  shows "demo_at (Suc n) [demo_row st v t] (tick demo w) \<and>
    requireOperation demo ''op-1'' w = (Inr (demo_row st v t), tick demo w)"
  using assms unfolding demo_at_def requireOperation_def op_findWithConnection_def
  by (simp add: bindM_def retM_def query_run find_row_def demo_row_def tick_demo)

lemma demo_verified:
  assumes "demo_at 20 [demo_row VERIFYING (Some 8) 1017] w"
  shows "demo_at 21 [demo_row VERIFYING (Some 8) 1017] (tick demo w) \<and>
    verifyMutation demo (demo_row VERIFYING (Some 8) 1017) w = (Inr (V_SUCCESS (demo_service 8 ''h2'' 3)), tick demo w)"
  using assms unfolding demo_at_def verifyMutation_def poll_def verifyStep_def
  by (simp add: bindM_def attempt_def retM_def agent_runs tick_demo VERIFY_TIMEOUT_MS_def
      classifyMutationSnapshot_def stale_snapshot_def demo_service_def demo_row_def)

lemma demo_completed:
  assumes "demo_at 21 [demo_row VERIFYING (Some 8) 1017] w"
  shows "\<exists>w'. demo_at 25 [demo_row SUCCESS (Some 8) 1022] w' \<and>
    completeVerification demo (demo_row VERIFYING (Some 8) 1017) (V_SUCCESS (demo_service 8 ''h2'' 3)) w = (Inr (), w')"
  using assms unfolding demo_at_def completeVerification_def op_markSuccess_def op_audit_def
  by (simp add: inTransaction_run thenM_def bindM_def execute_run updateOpenOperation_def
      update_rows_def demo_row_def demo_service_def status_terminal_def tick_demo)

abbreviation demo_locked :: "OperationRecord cp" where
  "demo_locked \<equiv> lockedServiceMutation demo ''c1'' ''svc'' ''op-1'' ''ada'' SCALE 7 (Some 3)
     (planScaleService demo ''svc'' 7 3)
     (\<lambda>plan before. \<lparr>cr_expectedVersion = p_version plan, cr_targetReplicas = 3, cr_includeUpdateOverlap = False\<rparr>)
     (\<lambda>plan. ScaleService ''svc'' (p_version plan) (p_beforeSpecHash plan) (p_targetSpecHash plan) 3)"

lemma demo_dispatched:
  assumes "demo_at 14 [demo_row RUNNING None 1011] w"
  shows "\<exists>w'. demo_at 26 [demo_row SUCCESS (Some 8) 1022] w' \<and>
    dispatchServiceMutation demo ''op-1'' ''ada'' ''c1'' ''svc'' (demo_plan 3) req w =
      (Inr (demo_row SUCCESS (Some 8) 1022), w')"
proof -
  let ?accepted = "\<lparr>r_serviceId = ''svc'', r_version = 8, r_targetSpecHash = ''h2'', r_targetForceUpdate = 0\<rparr>"
  obtain w16 where w16: "demo_at 16 [demo_row RUNNING None 1011] w16"
      "withMutationOperation ''op-1'' (agentMutation demo req (x_sendService demo)) w = (Inr ?accepted, w16)"
    using demo_sent [OF assms] by blast
  obtain w19 where w19: "demo_at 19 [demo_row VERIFYING (Some 8) 1017] w19"
      "markVerifying demo ''op-1'' ?accepted w16 = (Inr (), w19)"
    using demo_verifying [OF w16(1)] by blast
  have w20: "demo_at 20 [demo_row VERIFYING (Some 8) 1017] (tick demo w19)"
      "requireOperation demo ''op-1'' w19 = (Inr (demo_row VERIFYING (Some 8) 1017), tick demo w19)"
    using demo_required [OF w19(1)] by simp_all
  note w21 = demo_verified [OF w20(1)]
  obtain w25 where w25: "demo_at 25 [demo_row SUCCESS (Some 8) 1022] w25"
      "completeVerification demo (demo_row VERIFYING (Some 8) 1017) (V_SUCCESS (demo_service 8 ''h2'' 3))
         (tick demo (tick demo w19)) = (Inr (), w25)"
    using demo_completed w21 by blast
  have "assertAcceptedMatchesPlan ?accepted (demo_plan 3) w16 = (Inr (), w16)"
    by (simp add: assertAcceptedMatchesPlan_def demo_plan_def retM_def)
  moreover have "o_id (demo_row st v t) = ''op-1''" for st v t by (simp add: demo_row_def)
  ultimately show ?thesis
    using demo_required [OF w25(1)] w16 w19 w20 w21 w25
    by (simp add: dispatchServiceMutation_def verifyAndCompleteLocked_def bindM_def thenM_def attempt_def)
qed

lemma demo_scaled:
  "demo_at 27 [demo_row SUCCESS (Some 8) 1022] (perform demo demo_tokens demo_schemas demo_scale demo_world)"
proof -
  let ?lock = "serviceLockName demo ''c1'' ''svc''"
  let ?w3 = "(tick demo (tick demo (tick demo demo_world)))\<lparr>w_locks := [?lock]\<rparr>"
  have w3: "demo_at 3 [] ?w3"
    by (simp add: demo_at_def demo_world_def empty_db_def tick_demo)
  obtain w9 where w9: "demo_at 9 [] w9" "prepareServiceMutation demo ''c1'' ''svc'' (planScaleService demo ''svc'' 7 3)
      (\<lambda>plan before. \<lparr>cr_expectedVersion = p_version plan, cr_targetReplicas = 3, cr_includeUpdateOverlap = False\<rparr>)
      (tick demo ?w3) = (Inr (demo_plan 3, demo_service 7 ''h1'' 2), w9)"
    using demo_prepared [OF w3] by blast
  obtain w14 where w14: "demo_at 14 [demo_row RUNNING None 1011] w14"
      "persistIntent demo ''op-1'' ''c1'' (demo_plan 3) SCALE ''ada'' (Some 3) (demo_service 7 ''h1'' 2) w9 = (Inr (), w14)"
    using demo_persisted [OF w9(1)] by blast
  obtain w26 where w26: "demo_at 26 [demo_row SUCCESS (Some 8) 1022] w26"
      "dispatchServiceMutation demo ''op-1'' ''ada'' ''c1'' ''svc'' (demo_plan 3)
         (ScaleService ''svc'' 7 ''h1'' ''h2'' 3) w14 = (Inr (demo_row SUCCESS (Some 8) 1022), w26)"
    using demo_dispatched [OF w14(1)] by blast
  have "demo_locked ?w3 = (Inr (demo_row SUCCESS (Some 8) 1022), w26)"
    using w3 w9 w14 w26
    by (simp add: lockedServiceMutation_def repository_query_defs query_run bindM_def thenM_def demo_at_def
        find_row_def demo_plan_def)
  then have "withServiceLock demo ''c1'' ''svc'' demo_locked (tick demo demo_world) =
      (Inr (demo_row SUCCESS (Some 8) 1022), (tick demo w26)\<lparr>w_locks := remove1 ?lock (w_locks w26)\<rparr>)"
    using assertRegistered_run [of demo]
    by (simp add: withServiceLock_def withResourceLocks_def thenM_run(1) query_run getLock_def sortedUnique_def
        withAdmission_def assertMaintenanceOpen_def bindM_run retM_def finallyM_def releaseAdmission_def
        serviceLockName_def demo_world_def)
  then have "scale demo ''c1'' ''web'' demo_input demo_principal demo_world =
      (Inr (demo_row SUCCESS (Some 8) 1022), (tick demo w26)\<lparr>w_locks := remove1 ?lock (w_locks w26)\<rparr>)"
    by (simp add: scale_def assertCluster_def agent_runs demo_service_def monad_defs Let_def demo_world_def)
  then have "perform demo demo_tokens demo_schemas demo_scale demo_world =
      (tick demo w26)\<lparr>w_locks := remove1 ?lock (w_locks w26)\<rparr>"
    using assertRegistered_run [of demo] demo_operator
    by (simp add: serve_def bindM_run(1) thenM_run(1) replyWith_def)
       (simp add: demo_request_def demo_schemas_def parseBody_def thenM_def bindM_def retM_def)
  then show ?thesis using w26(1) by (simp add: demo_at_def tick_demo)
qed

section \<open>Activating an active node\<close>

abbreviation demo_activate :: Activity where
  "demo_activate \<equiv> Serve (NodeMutationController PostActivate) (demo_request ''operator-token-01'')"

definition demo_node_row :: "OperationStatus \<Rightarrow> nat option \<Rightarrow> nat \<Rightarrow> NodeOperationRecord" where
  "demo_node_row st v t =
     \<lparr>n_id = ''op-3'', n_clusterId = ''c1'', n_nodeId = ''n1'', n_type = ACTIVATE, n_status = st,
      n_actorId = ''ada'', n_expectedVersion = 4, n_beforeSpecHash = ''nh'', n_targetSpecHash = ''nh'',
      n_targetAvailability = AvActive, n_targetLabels = None, n_labelPatch = None,
      n_affectedServiceIds = [''svc''], n_resultVersion = v, n_errorCode = None, n_errorMessage = None,
      n_createdAt = 1013, n_updatedAt = t\<rparr>"

definition demo_node_at :: "nat \<Rightarrow> NodeOperationRecord list \<Rightarrow> world \<Rightarrow> bool" where
  "demo_node_at n rows w \<longleftrightarrow>
     w_calls w = n \<and> w_clock w = 1000 + n \<and> operations (w_db w) = [] \<and> node_operations (w_db w) = rows"

abbreviation demo_node_input :: NodeMutationRequest where
  "demo_node_input \<equiv> \<lparr>nq_operationId = ''op-3'', nq_expectedVersion = 4, nq_set = [], nq_remove = []\<rparr>"

lemma demo_node_fields [simp]:
  "x_inspectNode demo n nid = Inr demo_node" "x_planActivate demo n nid v = Inr demo_node_plan"
  by (simp_all add: demo_def)

lemma demo_node_prepared:
  assumes "demo_node_at 7 [] w"
  shows "\<exists>w'. demo_node_at 12 [] w' \<and>
    prepareNodeMutation demo ''c1'' ''n1'' ACTIVATE demo_node_input [''svc''] w =
      (Inr (demo_node_plan, demo_node), w')"
  using assms
  unfolding prepareNodeMutation_def resolvePriorNodeOperation_def assertServiceFree_def
    repository_query_defs demo_node_at_def
  by (simp add: bindM_def thenM_def retM_def query_run nonTerminalForService_def nonTerminalForNode_def
      nonTerminalAffectingService_def oldest_def first_row_def agent_runs catchM_def lockedImpact_def
      planIfNeeded_def node_plan_def planActivateNode_def agentRead_run assertPlanMatchesLockedNode_def
      demo_node_plan_def demo_node_def tick_demo sortedUnique_def)

lemma demo_node_persisted:
  assumes "demo_node_at 12 [] w"
  shows "\<exists>w'. demo_node_at 17 [demo_node_row RUNNING None 1014] w' \<and>
    node_persistIntent demo ''op-3'' ''c1'' ACTIVATE ''ada'' demo_node_plan demo_node None w = (Inr (), w')"
  using assms
  unfolding node_persistIntent_def nop_create_def nop_markRunning_def op_audit_def demo_node_at_def
  by (simp add: inTransaction_run thenM_def bindM_def execute_run updateOpenNodeOperation_def
      insertNodeOperation_def find_row_def tick_demo status_terminal_def newNodeOperation_def
      demo_node_plan_def demo_node_row_def update_rows_def)

lemma demo_node_required:
  assumes "demo_node_at n [demo_node_row st v t] w"
  shows "demo_node_at (Suc n) [demo_node_row st v t] (tick demo w) \<and>
    node_requireOperation demo ''op-3'' w = (Inr (demo_node_row st v t), tick demo w)"
  using assms unfolding demo_node_at_def node_requireOperation_def nop_findWithConnection_def
  by (simp add: bindM_def retM_def query_run find_row_def demo_node_row_def tick_demo)

lemma demo_node_completed:
  assumes "demo_node_at 19 [demo_node_row RUNNING None 1014] w"
  shows "\<exists>w'. demo_node_at 23 [demo_node_row SUCCESS (Some 4) 1020] w' \<and>
    node_completeSuccess demo (demo_node_row RUNNING None 1014) demo_node w = (Inr (), w')"
  using assms unfolding demo_node_at_def node_completeSuccess_def nop_markSuccess_def op_audit_def
  by (simp add: inTransaction_run thenM_def bindM_def execute_run updateOpenNodeOperation_def
      update_rows_def demo_node_row_def demo_node_def status_terminal_def tick_demo)

lemma demo_node_verified:
  assumes "demo_node_at 18 [demo_node_row RUNNING None 1014] w"
  shows "\<exists>w'. demo_node_at 24 [demo_node_row SUCCESS (Some 4) 1020] w' \<and>
    node_verifyAndCompleteLocked demo (demo_node_row RUNNING None 1014) w =
      (Inr (demo_node_row SUCCESS (Some 4) 1020), w')"
proof -
  have w19: "demo_node_at 19 [demo_node_row RUNNING None 1014] (tick demo w)"
    using assms by (simp add: demo_node_at_def tick_demo)
  obtain w23 where w23: "demo_node_at 23 [demo_node_row SUCCESS (Some 4) 1020] w23"
      "node_completeSuccess demo (demo_node_row RUNNING None 1014) demo_node (tick demo w) = (Inr (), w23)"
    using demo_node_completed [OF w19] by blast
  have "classifyNodeMutation (demo_node_row RUNNING None 1014) demo_node = NM_SUCCESS"
    by (simp add: classifyNodeMutation_def stale_snapshot_def demo_node_def demo_node_row_def)
  then have "node_settleSnapshot demo (demo_node_row RUNNING None 1014) demo_node (tick demo w) = (Inr True, w23)"
    using w23 by (simp add: node_settleSnapshot_def bindM_def thenM_def retM_def demo_node_row_def)
  then have "poll demo VERIFY_TIMEOUT_MS VERIFY_INTERVAL_MS (node_verifyStep demo (demo_node_row RUNNING None 1014))
      (None, None) w = (Inr (Inr ()), w23)"
    by (simp add: poll_def node_verifyStep_def bindM_def attempt_def retM_def agent_runs VERIFY_TIMEOUT_MS_def)
  then show ?thesis
    using demo_node_required [OF w23(1)] by (simp add: node_verifyAndCompleteLocked_def bindM_def demo_node_row_def)
qed

lemma demo_node_locked:
  assumes "demo_node_at 6 [] w"
  shows "\<exists>w'. demo_node_at 24 [demo_node_row SUCCESS (Some 4) 1020] w' \<and>
    lockedNodeMutation demo ''c1'' ''n1'' ACTIVATE demo_node_input ''ada'' [''svc''] w =
      (Inr (demo_node_row SUCCESS (Some 4) 1020), w')"
proof -
  have w7: "demo_node_at 7 [] (tick demo w)" using assms by (simp add: demo_node_at_def tick_demo)
  obtain w12 where w12: "demo_node_at 12 [] w12"
      "prepareNodeMutation demo ''c1'' ''n1'' ACTIVATE demo_node_input [''svc''] (tick demo w) =
         (Inr (demo_node_plan, demo_node), w12)"
    using demo_node_prepared [OF w7] by blast
  obtain w17 where w17: "demo_node_at 17 [demo_node_row RUNNING None 1014] w17"
      "node_persistIntent demo ''op-3'' ''c1'' ACTIVATE ''ada'' demo_node_plan demo_node None w12 = (Inr (), w17)"
    using demo_node_persisted [OF w12(1)] by blast
  obtain w24 where w24: "demo_node_at 24 [demo_node_row SUCCESS (Some 4) 1020] w24"
      "node_verifyAndCompleteLocked demo (demo_node_row RUNNING None 1014) (tick demo w17) =
         (Inr (demo_node_row SUCCESS (Some 4) 1020), w24)"
    using demo_node_verified demo_node_required [OF w17(1)] by auto
  have "nop_findWithConnection demo ''op-3'' w = (Inr None, tick demo w)"
    using assms by (simp add: nop_findWithConnection_def query_run find_row_def demo_node_at_def)
  then show ?thesis
    using w12 w17 w24 demo_node_required [OF w17(1)]
    by (simp add: lockedNodeMutation_def bindM_def thenM_def requestedPatch_def)
       (simp add: demo_node_plan_def)
qed

lemma demo_acquired:
  "acquireLocks demo names acq w =
     ((None, acq @ names), w\<lparr>w_calls := w_calls w + length names, w_clock := w_clock w + length names,
        w_locks := rev names @ w_locks w\<rparr>)"
  by (induction names arbitrary: acq w) (simp_all add: getLock_def tick_demo)

lemma demo_released: "w_db (releaseLocks demo names w) = w_db w"
  by (induction names arbitrary: w) (simp_all add: tick_demo)

lemma demo_activated:
  "node_operations (w_db (perform demo demo_tokens demo_schemas demo_activate demo_world)) =
     [demo_node_row SUCCESS (Some 4) 1020]"
proof -
  let ?keys = "[resourceLockKey ''node'' ''c1'' ''n1'', resourceLockKey ''service'' ''c1'' ''svc'']"
  let ?names = "sortedUnique (map (namedLockName demo) ?keys)"
  let ?w3 = "tick demo (tick demo (tick demo demo_world))"
  let ?w6 = "(tick demo ?w3)\<lparr>w_calls := 6, w_clock := 1006, w_locks := rev ?names\<rparr>"
  have len: "length ?names = 2"
    by (simp add: sortedUnique_def namedLockName_def resourceLockKey_def)
  have "demo_node_at 6 [] ?w6"
    by (simp add: demo_node_at_def demo_world_def empty_db_def tick_demo)
  then obtain w24 where w24: "demo_node_at 24 [demo_node_row SUCCESS (Some 4) 1020] w24"
      "lockedNodeMutation demo ''c1'' ''n1'' ACTIVATE demo_node_input ''ada'' [''svc''] ?w6 =
         (Inr (demo_node_row SUCCESS (Some 4) 1020), w24)"
    using demo_node_locked by blast
  have acq: "acquireLocks demo ?names [] (tick demo ?w3) = ((None, ?names), ?w6)"
    unfolding demo_acquired len by (simp add: demo_world_def tick_demo)
  have "withNodeAndServiceLocks demo ''c1'' ''n1'' [''svc'']
      (lockedNodeMutation demo ''c1'' ''n1'' ACTIVATE demo_node_input ''ada'' [''svc'']) ?w3 =
      (Inr (demo_node_row SUCCESS (Some 4) 1020), releaseLocks demo (rev ?names) w24)"
    using assertRegistered_run [of demo] acq w24(2)
    by (simp add: withNodeAndServiceLocks_def withResourceLocks_def thenM_run(1) query_run
        withAdmission_def assertMaintenanceOpen_def bindM_run retM_def finallyM_def releaseAdmission_def)
  moreover have "sortedUnique [''svc''] = [''svc'']" by (simp add: sortedUnique_def)
  ultimately have "activate demo ''c1'' ''web'' demo_node_input demo_principal demo_world =
      (Inr (demo_node_row SUCCESS (Some 4) 1020), releaseLocks demo (rev ?names) w24)"
    by (simp add: activate_def mutate_def assertCluster_def agent_runs repository_query_defs query_run initialImpact_def
        Let_def bindM_def thenM_def retM_def demo_node_def demo_world_def empty_db_def find_row_def
        nonTerminalForNode_def oldest_def first_row_def)
  then have "perform demo demo_tokens demo_schemas demo_activate demo_world = releaseLocks demo (rev ?names) w24"
    using assertRegistered_run [of demo] demo_operator
    by (simp add: serve_def bindM_run(1) thenM_run(1) replyWith_def)
       (simp add: demo_request_def demo_schemas_def parseBody_def thenM_def bindM_def retM_def)
  then show ?thesis using w24(1) by (simp add: demo_released demo_node_at_def)
qed

end
