(* ===== verification/Lock_Sessions.thy ===== *)
theory Lock_Sessions
  imports Scenario
begin

text \<open>
  Several database sessions at once: each runs the acquisition loop of
  \<^verbatim>\<open>operations/operation-lock.ts\<close> on the shared named locks of MySQL, in any interleaving.
  \<open>GET_LOCK\<close> succeeds when no other session holds the name and gives up after its time-out
  otherwise; ending the callback, a refusal and a lost connection release everything.

  \<open>acquireLocks_session\<close> relates the loop of the sequential model to the steps of one
  session. The properties are mutual exclusion and freedom from deadlock: because every session
  takes its names in sorted order, some session can always go on without waiting for a time-out.
\<close>

section \<open>Sessions\<close>

record session =
  waiting :: "string list"
  held :: "string list"

definition free_for :: "session list \<Rightarrow> nat \<Rightarrow> string \<Rightarrow> bool" where
  "free_for ss i name = list_all (\<lambda>j. j = i \<or> name \<notin> set (held (ss ! j))) [0..<length ss]"

definition closed_session :: session where
  "closed_session = \<lparr>waiting = [], held = []\<rparr>"

inductive lock_step :: "session list \<Rightarrow> session list \<Rightarrow> bool" where
  acquired: "\<lbrakk>i < length ss; waiting (ss ! i) = name # names; free_for ss i name\<rbrakk> \<Longrightarrow>
    lock_step ss (ss[i := \<lparr>waiting = names, held = name # held (ss ! i)\<rparr>])"
| refused: "\<lbrakk>i < length ss; waiting (ss ! i) = name # names; \<not> free_for ss i name\<rbrakk> \<Longrightarrow>
    lock_step ss (ss[i := closed_session])"
| finished: "\<lbrakk>i < length ss; waiting (ss ! i) = []\<rbrakk> \<Longrightarrow> lock_step ss (ss[i := closed_session])"
| lost: "i < length ss \<Longrightarrow> lock_step ss (ss[i := closed_session])"

definition open_sessions :: "external \<Rightarrow> string list list \<Rightarrow> session list" where
  "open_sessions ext requests =
     map (\<lambda>keys. \<lparr>waiting = sortedUnique (map (namedLockName ext) keys), held = []\<rparr>) requests"

lemma free_for_iff: "free_for ss i name \<longleftrightarrow> (\<forall>j < length ss. j \<noteq> i \<longrightarrow> name \<notin> set (held (ss ! j)))"
  by (auto simp: free_for_def list_all_iff)

section \<open>The loop of one session\<close>

text \<open>
  Where \<open>GET_LOCK\<close> answers according to the other sessions, which stand still meanwhile, the
  acquisition loop takes the steps of its session.
\<close>

lemma acquireLocks_session:
  assumes "acquireLocks ext names acq w = ((e, acq'), w')"
    and "\<And>n. x_db ext n = DbOk" and "\<And>n name. x_getLock ext n name = free_for ss i name"
    and "i < length ss" and "ss ! i = \<lparr>waiting = names, held = rev acq\<rparr>"
  shows "\<exists>names'. lock_step\<^sup>*\<^sup>* ss (ss[i := \<lparr>waiting = names', held = rev acq'\<rparr>]) \<and>
           (e = None \<longleftrightarrow> names' = []) \<and> acq' @ names' = acq @ names"
  using assms
proof (induction names arbitrary: acq w ss)
  case Nil
  then show ?case by (metis acquireLocks.simps(1) append_Nil2 list_update_id prod.inject rtranclp.rtrancl_refl)
next
  case (Cons name names)
  show ?case
  proof (cases "free_for ss i name")
    case True
    let ?s = "\<lparr>waiting = names, held = rev (acq @ [name])\<rparr>"
    have "lock_step ss (ss[i := \<lparr>waiting = names, held = name # held (ss ! i)\<rparr>])"
      using Cons.prems(4,5) True by (intro lock_step.acquired) auto
    then have step: "lock_step ss (ss[i := ?s])"
      using Cons.prems(5) by simp
    have same: "free_for (ss[i := ?s]) i n = free_for ss i n" for n
      using Cons.prems(4) by (auto simp: free_for_iff nth_list_update)
    have run: "acquireLocks ext names (acq @ [name]) ((tick ext w)\<lparr>w_locks := name # w_locks w\<rparr>) = ((e, acq'), w')"
      using Cons.prems(1,2,3) True by (simp add: getLock_def)
    have "\<exists>names'. lock_step\<^sup>*\<^sup>* (ss[i := ?s]) ((ss[i := ?s])[i := \<lparr>waiting = names', held = rev acq'\<rparr>]) \<and>
        (e = None \<longleftrightarrow> names' = []) \<and> acq' @ names' = (acq @ [name]) @ names"
      using Cons.prems(2-4) same by (intro Cons.IH [OF run]) simp_all
    then show ?thesis using step by (auto intro: converse_rtranclp_into_rtranclp)
  next
    case False
    then have "e \<noteq> None \<and> acq' = acq"
      using Cons.prems(1,2,3) by (auto simp: getLock_def)
    then show ?thesis
      using Cons.prems(5) by (intro exI [of _ "name # names"]) (auto simp flip: Cons.prems(5))
  qed
qed

section \<open>Invariant\<close>

definition sessions_ok :: "session list \<Rightarrow> bool" where
  "sessions_ok ss \<longleftrightarrow>
     (\<forall>i < length ss. sorted_wrt (<) (rev (held (ss ! i)) @ waiting (ss ! i))) \<and>
     (\<forall>i < length ss. \<forall>j < length ss. i \<noteq> j \<longrightarrow> set (held (ss ! i)) \<inter> set (held (ss ! j)) = {})"

lemma sessions_ok_close:
  assumes "sessions_ok ss" and "i < length ss"
  shows "sessions_ok (ss[i := closed_session])"
  using assms by (auto simp: sessions_ok_def closed_session_def nth_list_update)

lemma sessions_ok_step:
  assumes "lock_step ss ss'" and "sessions_ok ss"
  shows "sessions_ok ss'"
  using assms
proof (cases rule: lock_step.cases)
  case (acquired i name names)
  have "sorted_wrt (<) (rev (held (ss ! i)) @ name # names)"
    using assms(2) acquired by (auto simp: sessions_ok_def)
  moreover have "name \<notin> set (held (ss ! j))" if "j < length ss" "j \<noteq> i" for j
    using acquired(4) that by (simp add: free_for_iff)
  ultimately show ?thesis
    using assms(2) acquired unfolding sessions_ok_def by (auto simp: nth_list_update)
qed (auto intro: sessions_ok_close)

lemma sessions_ok_open: "sessions_ok (open_sessions ext requests)"
  by (auto simp: sessions_ok_def open_sessions_def strict_sorted_iff)

lemma sessions_ok_reachable: "lock_step\<^sup>*\<^sup>* (open_sessions ext requests) ss \<Longrightarrow> sessions_ok ss"
  by (induction rule: rtranclp_induct) (auto intro: sessions_ok_open sessions_ok_step)

text \<open>
  A session that waits for a name held by another one waits for a larger name than anything it
  holds, so the largest awaited name is free.
\<close>

lemma some_session_moves:
  assumes ok: "sessions_ok ss" and "i < length ss" and "waiting (ss ! i) \<noteq> []"
  shows "\<exists>j < length ss. (waiting (ss ! j) = [] \<and> held (ss ! j) \<noteq> []) \<or>
           (\<exists>name names. waiting (ss ! j) = name # names \<and> free_for ss j name)"
proof (rule ccontr)
  assume stuck: "\<not> ?thesis"
  let ?W = "{j. j < length ss \<and> waiting (ss ! j) \<noteq> []}"
  let ?N = "(\<lambda>k. hd (waiting (ss ! k))) ` ?W"
  have "finite ?N" "?N \<noteq> {}" using assms by auto
  from Max_in [OF this] obtain j where j: "j \<in> ?W" "Max ?N = hd (waiting (ss ! j))" by auto
  have max: "hd (waiting (ss ! k)) \<le> hd (waiting (ss ! j))" if "k \<in> ?W" for k
    using Max_ge [OF \<open>finite ?N\<close>] that unfolding j(2) [symmetric] by blast
  obtain name names where wj: "waiting (ss ! j) = name # names" using j by (cases "waiting (ss ! j)") auto
  obtain k where k: "k < length ss" "name \<in> set (held (ss ! k))"
    using stuck wj j by (auto simp: free_for_iff)
  then have wk: "k \<in> ?W" using stuck by auto
  then obtain name' names' where "waiting (ss ! k) = name' # names'" by (cases "waiting (ss ! k)") auto
  moreover have "sorted_wrt (<) (rev (held (ss ! k)) @ waiting (ss ! k))"
    using ok k(1) by (simp add: sessions_ok_def)
  ultimately have "name < name'" using k(2) by (auto simp: sorted_wrt_append)
  then show False using max [OF wk] wj \<open>waiting (ss ! k) = name' # names'\<close> by simp
qed

text \<open>
  C29. Sessions exclude each other and never deadlock: in every interleaving of sessions that
  started with arbitrary lock requests, no name is held by two sessions, and as long as a session
  waits for a name, some session can take its next name or end its callback without waiting.
\<close>

theorem lock_sessions_progress:
  assumes "lock_step\<^sup>*\<^sup>* (open_sessions ext requests) ss"
  shows "(\<forall>i < length ss. \<forall>j < length ss. i \<noteq> j \<longrightarrow> set (held (ss ! i)) \<inter> set (held (ss ! j)) = {}) \<and>
    (\<forall>i < length ss. waiting (ss ! i) \<noteq> [] \<longrightarrow>
       (\<exists>j < length ss. (waiting (ss ! j) = [] \<and> held (ss ! j) \<noteq> []) \<or>
          (\<exists>name names. waiting (ss ! j) = name # names \<and> free_for ss j name)))"
  using sessions_ok_reachable [OF assms] some_session_moves by (auto simp: sessions_ok_def)

text \<open>Two sessions that ask for the same two resources in opposite orders.\<close>

definition demo_contention :: "session list" where
  "demo_contention =
     (let names = sortedUnique [namedLockName demo ''a'', namedLockName demo ''b''] in
      [\<lparr>waiting = tl names, held = [hd names]\<rparr>, \<lparr>waiting = names, held = []\<rparr>])"

lemma demo_contention_reachable:
  "lock_step\<^sup>*\<^sup>* (open_sessions demo [[''a'', ''b''], [''b'', ''a'']]) demo_contention"
proof -
  let ?names = "sortedUnique [namedLockName demo ''a'', namedLockName demo ''b'']"
  let ?names' = "sortedUnique [namedLockName demo ''b'', namedLockName demo ''a'']"
  have same: "?names' = ?names" unfolding sortedUnique_eq_iff by auto
  have "?names \<noteq> []" by (simp add: sortedUnique_def)
  then obtain n ns where names: "?names = n # ns" by (cases ?names) auto
  have start: "open_sessions demo [[''a'', ''b''], [''b'', ''a'']] = [\<lparr>waiting = n # ns, held = []\<rparr>, \<lparr>waiting = n # ns, held = []\<rparr>]"
    by (simp add: open_sessions_def same names)
  have "lock_step [\<lparr>waiting = n # ns, held = []\<rparr>, \<lparr>waiting = n # ns, held = []\<rparr>]
      ([\<lparr>waiting = n # ns, held = []\<rparr>, \<lparr>waiting = n # ns, held = []\<rparr>][0 := \<lparr>waiting = ns, held = n # []\<rparr>])"
    using lock_step.acquired [of 0 "[\<lparr>waiting = n # ns, held = []\<rparr>, \<lparr>waiting = n # ns, held = []\<rparr>]" n ns]
    by (simp add: free_for_iff less_Suc_eq)
  then show ?thesis unfolding start by (simp add: demo_contention_def names r_into_rtranclp)
qed

theorem lock_sessions_progress_witness:
  "\<exists>j < length demo_contention. (waiting (demo_contention ! j) = [] \<and> held (demo_contention ! j) \<noteq> []) \<or>
     (\<exists>name names. waiting (demo_contention ! j) = name # names \<and> free_for demo_contention j name)"
proof -
  have "waiting (demo_contention ! 1) \<noteq> []" "(1 :: nat) < length demo_contention"
    by (auto simp: demo_contention_def Let_def sortedUnique_def)
  then show ?thesis using lock_sessions_progress [OF demo_contention_reachable] by blast
qed

end
