(* ===== verification/Outcomes.thy ===== *)
theory Outcomes
  imports Lock_Sessions
begin

text \<open>
  What single requests and loops of the services come to: bounds and liveness of verification,
  the outcome of a rejected dispatch, retries of finished operations, the dispatch journal, named
  locks around a callback, and health verification.
\<close>

section \<open>Polling loops\<close>

lemma pollLoop_clock:
  assumes "\<And>s w. w_clock (snd (body s w)) \<le> w_clock w + l" and late: "\<And>n. x_timerDelay ext n \<le> t"
  shows "w_clock (snd (pollLoop ext fuel deadline interval body s w)) \<le> max (w_clock w) (deadline + l + interval + t)"
proof (induction fuel arbitrary: s w)
  case (Suc fuel)
  obtain b w1 where b: "body s w = (b, w1)" by fastforce
  have w1: "w_clock w1 \<le> w_clock w + l" using assms(1) [of s w] b by simp
  show ?case
  proof (cases "w_clock w < deadline \<and> (\<exists>s'. b = Inr (Continue s'))")
    case True
    then obtain s' where s': "b = Inr (Continue s')" by blast
    have "w_clock (sleepW ext interval w1) \<le> deadline + l + interval + t"
      using True w1 late [of "w_calls w1"] by (simp add: sleepW_def)
    then show ?thesis using Suc.IH [of s' "sleepW ext interval w1"] b s' True by simp
  next
    case False
    then show ?thesis using b w1 by (auto split: sum.split loop_step.split)
  qed
qed simp

lemma pollLoop_calls:
  assumes "\<And>s w. w_calls (snd (body s w)) \<le> w_calls w + k" and "\<And>s w. \<exists>x. fst (body s w) = Inr x"
  shows "\<exists>x w'. pollLoop ext fuel deadline interval body s w = (Inr x, w') \<and> w_calls w' \<le> w_calls w + fuel * k"
proof (induction fuel arbitrary: s w)
  case (Suc fuel)
  obtain b w1 where b: "body s w = (Inr b, w1)" using assms(2) [of s w] by (metis prod.collapse)
  have w1: "w_calls w1 \<le> w_calls w + k" using assms(1) [of s w] b by simp
  show ?case
  proof (cases b)
    case (Continue s')
    obtain x w' where "pollLoop ext fuel deadline interval body s' (sleepW ext interval w1) = (Inr x, w')"
        "w_calls w' \<le> w_calls w1 + fuel * k"
      using Suc.IH [of s' "sleepW ext interval w1"] by (auto simp: sleepW_def)
    then show ?thesis using b w1 Continue by auto
  qed (use b w1 in auto)
qed simp

text \<open>A read of the Agent is one external call, or two with the check of the registration.\<close>

definition callsPerRead :: "external \<Rightarrow> nat" where
  "callsPerRead ext = (if x_registrationEnforce ext then 2 else 1)"

lemma agentRead_bounds:
  assumes "agentRead ext f w = (r, w')"
  shows "w_calls w' \<le> w_calls w + callsPerRead ext"
  using assms
  by (auto simp: callsPerRead_def agentRead_def assertRegistered_def registration_find_def query_def callExternal_def thenM_def
      bindM_def attempt_def throwM_def retM_def tick_def split: if_splits option.splits DbOutcome.splits sum.splits)

lemma agentRead_clock:
  assumes "agentRead ext f w = (r, w')" and "\<And>n. x_latency ext n \<le> l"
  shows "w_clock w' \<le> w_clock w + callsPerRead ext * l"
  using assms(1) assms(2) [of "w_calls w"] assms(2) [of "Suc (w_calls w)"]
  by (auto simp: callsPerRead_def agentRead_def assertRegistered_def registration_find_def query_def callExternal_def thenM_def
      bindM_def attempt_def throwM_def retM_def tick_def split: if_splits option.splits DbOutcome.splits sum.splits)

section \<open>Verification of a service mutation\<close>

lemma verifyStep_world:
  "\<exists>x. fst (verifyStep ext operation s w) = Inr x"
  "snd (verifyStep ext operation s w) = snd (inspectService ext (o_serviceId operation) w)"
  by (auto simp: verifyStep_def bindM_def attempt_def retM_def split: prod.split sum.split)

lemma verifyStep_Break:
  assumes "verifyStep ext operation s w = (Inr (Break v), w')"
  shows "\<exists>cur m. v \<in> {V_FAILED cur m, V_EXTERNAL_CONFLICT cur m} \<or>
    (v = V_SUCCESS cur \<and> classifyMutationSnapshot operation cur = MS_SUCCESS)"
proof -
  obtain cur where "Break v = (case classifyMutationSnapshot operation cur of
        MS_EXTERNAL_CONFLICT m \<Rightarrow> Break (V_EXTERNAL_CONFLICT cur m)
      | MS_FAILED m \<Rightarrow> Break (V_FAILED cur m)
      | MS_SUCCESS \<Rightarrow> Break (V_SUCCESS cur)
      | MS_PENDING \<Rightarrow> Continue (Some cur, None :: string option))"
    using assms by (auto simp: verifyStep_def OK_simps)
  then show ?thesis by (cases "classifyMutationSnapshot operation cur") auto
qed

lemma verifyMutation_clock:
  assumes "\<And>n. x_latency ext n \<le> l" and "\<And>n. x_timerDelay ext n \<le> t"
  shows "w_clock (snd (verifyMutation ext operation w)) \<le> w_clock w + 30500 + callsPerRead ext * l + t"
proof -
  let ?loop = "poll ext VERIFY_TIMEOUT_MS VERIFY_INTERVAL_MS (verifyStep ext operation) (None, None) w"
  have "w_clock (snd (verifyStep ext operation s w)) \<le> w_clock w + callsPerRead ext * l" for s w
    unfolding verifyStep_world inspectService_def using agentRead_clock [OF _ assms(1)] by (metis prod.collapse)
  note clock = pollLoop_clock [where body = "verifyStep ext operation", OF this assms(2)]
  have "w_clock (snd ?loop) \<le> max (w_clock w) (w_clock w + 30000 + callsPerRead ext * l + 500 + t)"
    using clock [of 61 "w_clock w + 30000" 500 "(None, None)" w]
    by (simp add: poll_def VERIFY_TIMEOUT_MS_def VERIFY_INTERVAL_MS_def)
  moreover have "snd (verifyMutation ext operation w) = snd ?loop"
    by (auto simp: verifyMutation_def bindM_def retM_def split: prod.split sum.split)
  ultimately show ?thesis by simp
qed

lemma verifyMutation_returns:
  "\<exists>v w'. verifyMutation ext operation w = (Inr v, w') \<and> w_calls w' \<le> w_calls w + 61 * callsPerRead ext"
proof -
  have "w_calls (snd (verifyStep ext operation s w)) \<le> w_calls w + callsPerRead ext" for s w
    using agentRead_bounds unfolding verifyStep_world inspectService_def by (metis prod.collapse)
  from pollLoop_calls [where body = "verifyStep ext operation", OF this verifyStep_world(1)]
  obtain x w' where "poll ext VERIFY_TIMEOUT_MS VERIFY_INTERVAL_MS (verifyStep ext operation) (None, None) w = (Inr x, w')"
      "w_calls w' \<le> w_calls w + 61 * callsPerRead ext"
    by (fastforce simp: poll_def VERIFY_TIMEOUT_MS_def VERIFY_INTERVAL_MS_def)
  then show ?thesis by (cases x) (auto simp: verifyMutation_def bindM_def retM_def)
qed

lemma verifyMutation_deadline:
  assumes "verifyMutation ext operation w = (Inr (V_UNCERTAIN lastSeen m), w')"
  shows "w_clock w + 30000 \<le> w_clock w'"
proof -
  have body: "steps later (verifyStep ext operation s)" for s
    unfolding verifyStep_def by (intro step_intros)
  obtain x w1 where run: "poll ext VERIFY_TIMEOUT_MS VERIFY_INTERVAL_MS (verifyStep ext operation) (None, None) w = (Inr x, w1)"
      and w1: "w1 = w'" "\<And>v. x = Inr v \<Longrightarrow> v = V_UNCERTAIN lastSeen m"
    using assms by (auto simp: verifyMutation_def OK_simps split: sum.splits prod.splits)
  have "\<exists>s'. x = Inl s'"
  proof (cases x)
    case (Inr v)
    then obtain s1 w2 where "verifyStep ext operation s1 w2 = (Inr (Break (V_UNCERTAIN lastSeen m)), w')"
      using time.poll_Break [OF body run [unfolded Inr]] w1 Inr by blast
    from verifyStep_Break [OF this] show ?thesis by auto
  qed simp
  then obtain s' where "x = Inl s'" by blast
  from poll_timeout [OF body _ run [unfolded this]] show ?thesis
    using w1(1) by (simp add: VERIFY_TIMEOUT_MS_def VERIFY_INTERVAL_MS_def)
qed

text \<open>
  C32. Verification of a scale or restart always comes to a result, whatever the Agent, the database
  and the timers do: it makes at most 61 external calls, or 122 where every read of the Agent checks the
  registration first, and leaves the outcome uncertain only after the full 30 seconds. If no
  call takes longer than \<open>l\<close> and no timer fires later than \<open>t\<close> after its delay, it ends within 30.5
  seconds plus the calls of one read and one lateness.
\<close>

theorem verification_is_bounded:
  "\<exists>v w'. verifyMutation ext operation w = (Inr v, w') \<and> w_calls w' \<le> w_calls w + 61 * callsPerRead ext \<and>
    (\<forall>lastSeen m. v = V_UNCERTAIN lastSeen m \<longrightarrow> w_clock w + 30000 \<le> w_clock w') \<and>
    (\<forall>l t. (\<forall>n. x_latency ext n \<le> l \<and> x_timerDelay ext n \<le> t) \<longrightarrow>
       w_clock w' \<le> w_clock w + 30500 + callsPerRead ext * l + t)"
proof -
  obtain v w' where run: "verifyMutation ext operation w = (Inr v, w')" "w_calls w' \<le> w_calls w + 61 * callsPerRead ext"
    using verifyMutation_returns by blast
  moreover have "w_clock w' \<le> w_clock w + 30500 + callsPerRead ext * l + t"
    if "\<forall>n. x_latency ext n \<le> l \<and> x_timerDelay ext n \<le> t" for l t
    using verifyMutation_clock [of ext l t operation w] that run(1) by simp
  ultimately show ?thesis using verifyMutation_deadline by metis
qed

theorem verification_is_bounded_witness:
  "\<exists>v w'. verifyMutation demo (demo_row VERIFYING None 0) demo_world = (Inr v, w') \<and> w_calls w' \<le> 61 \<and>
    w_clock w' \<le> 31503 \<and> (\<forall>lastSeen m. v = V_UNCERTAIN lastSeen m \<longrightarrow> 31000 \<le> w_clock w')"
proof -
  have here: "callsPerRead demo = 1" "w_calls demo_world = 0" "w_clock demo_world = 1000"
    by (simp_all add: demo_def demo_world_def callsPerRead_def)
  obtain v w' where run: "verifyMutation demo (demo_row VERIFYING None 0) demo_world = (Inr v, w')"
      "w_calls w' \<le> 61" "\<forall>lastSeen m. v = V_UNCERTAIN lastSeen m \<longrightarrow> 31000 \<le> w_clock w'"
    and clock: "\<forall>l t. (\<forall>n. x_latency demo n \<le> l \<and> x_timerDelay demo n \<le> t) \<longrightarrow> w_clock w' \<le> 31500 + l + t"
    using verification_is_bounded [of demo "demo_row VERIFYING None 0" demo_world] unfolding here by auto
  have "w_clock w' \<le> 31503" using clock [rule_format, of 1 2] by (simp add: demo_def)
  with run show ?thesis by blast
qed

text \<open>
  An Agent that reaches the target: from answer number \<open>n0\<close> on it shows a current snapshot of
  the target, before that it fails or shows a snapshot that is still pending.
\<close>

definition converges_at :: "external \<Rightarrow> OperationRecord \<Rightarrow> nat \<Rightarrow> bool" where
  "converges_at ext operation n0 \<longleftrightarrow>
     (\<forall>n \<ge> n0. \<exists>cur. x_inspectService ext n (o_serviceId operation) = Inr cur \<and>
        classifyMutationSnapshot operation cur = MS_SUCCESS) \<and>
     (\<forall>n < n0. \<forall>cur. x_inspectService ext n (o_serviceId operation) = Inr cur \<longrightarrow>
        classifyMutationSnapshot operation cur = MS_PENDING)"

text \<open>
  Reads get through from call \<open>n0\<close> on: the registration is not enforced, or the cluster is registered
  with the configured Swarm and the database answers.
\<close>

definition served :: "external \<Rightarrow> nat \<Rightarrow> world \<Rightarrow> bool" where
  "served ext n0 w \<longleftrightarrow>
     (x_registrationEnforce ext \<longrightarrow>
        (\<forall>n \<ge> n0. x_db ext n = DbOk) \<and>
        (\<exists>reg. find_row cg_clusterId (x_clusterId ext) (cluster_registrations (w_db w)) = Some reg \<and>
           Some (cg_swarmClusterId reg) = x_expectedSwarmClusterId ext))"

lemma agentRead_served:
  assumes "served ext n0 w"
  shows "\<exists>r w1. agentRead ext f w = (r, w1) \<and> w_db w1 = w_db w \<and> w_calls w < w_calls w1 \<and>
    ((\<exists>n \<ge> w_calls w. r = f n) \<or> w_calls w < n0 \<and> (\<exists>e. r = Inl e))"
proof (cases "x_registrationEnforce ext")
  case False
  then show ?thesis
    by (auto simp: agentRead_def assertRegistered_def callExternal_def thenM_def bindM_def retM_def tick_def)
next
  case True
  with assms obtain reg where reg: "find_row cg_clusterId (x_clusterId ext) (cluster_registrations (w_db w)) = Some reg"
      "Some (cg_swarmClusterId reg) = x_expectedSwarmClusterId ext" "\<forall>n \<ge> n0. x_db ext n = DbOk"
    by (auto simp: served_def)
  have "cg_clusterId reg = x_clusterId ext" using find_row_Some [OF reg(1)] by simp
  with reg True show ?thesis
    by (cases "x_db ext (w_calls w)")
       (auto simp: agentRead_def assertRegistered_def registration_find_def query_def callExternal_def thenM_def bindM_def
          attempt_def throwM_def retM_def tick_def not_le [symmetric] intro: exI [of _ "Suc (w_calls w)"])
qed

lemma verifyStep_converging:
  assumes "served ext n0 w" and "converges_at ext operation n0"
  shows "\<exists>w1. w_db w1 = w_db w \<and> w_calls w < w_calls w1 \<and>
    ((\<exists>cur. verifyStep ext operation s w = (Inr (Break (V_SUCCESS cur)), w1)) \<or>
     w_calls w < n0 \<and> (\<exists>s'. verifyStep ext operation s w = (Inr (Continue s'), w1)))"
proof -
  obtain r w1 where r: "inspectService ext (o_serviceId operation) w = (r, w1)" "w_db w1 = w_db w" "w_calls w < w_calls w1"
      "(\<exists>n \<ge> w_calls w. r = x_inspectService ext n (o_serviceId operation)) \<or> w_calls w < n0 \<and> (\<exists>e. r = Inl e)"
    using agentRead_served [OF assms(1)] unfolding inspectService_def by blast
  have "(\<exists>cur. r = Inr cur \<and> classifyMutationSnapshot operation cur = MS_SUCCESS) \<or>
      w_calls w < n0 \<and> ((\<exists>e. r = Inl e) \<or> (\<exists>cur. r = Inr cur \<and> classifyMutationSnapshot operation cur = MS_PENDING))"
    using r(4) assms(2) unfolding converges_at_def by (metis Inl_Inr_False leI le_trans obj_sumE)
  then show ?thesis
    using r(1-3) by (auto simp: verifyStep_def bindM_def attempt_def retM_def)
qed

lemma pollLoop_converging:
  assumes "converges_at ext operation n0" and time: "\<And>n. x_latency ext n \<le> l" "\<And>n. x_timerDelay ext n \<le> t"
    and "served ext n0 w" and "n0 - w_calls w < fuel"
    and "w_clock w + (n0 - w_calls w) * (interval + callsPerRead ext * l + t) < deadline"
  shows "\<exists>cur w'. pollLoop ext fuel deadline interval (verifyStep ext operation) s w = (Inr (Inr (V_SUCCESS cur)), w')"
  using assms(4-)
proof (induction fuel arbitrary: s w)
  case (Suc fuel)
  let ?round = "interval + callsPerRead ext * l + t"
  have now: "w_clock w < deadline" using Suc.prems(3) by linarith
  obtain w1 where w1: "w_db w1 = w_db w" "w_calls w < w_calls w1"
    and step: "(\<exists>cur. verifyStep ext operation s w = (Inr (Break (V_SUCCESS cur)), w1)) \<or>
      w_calls w < n0 \<and> (\<exists>s'. verifyStep ext operation s w = (Inr (Continue s'), w1))"
    using verifyStep_converging [OF Suc.prems(1) assms(1), of s] by blast
  from step show ?case
  proof (elim disjE conjE exE)
    fix s' assume less: "w_calls w < n0" and s': "verifyStep ext operation s w = (Inr (Continue s'), w1)"
    let ?w = "sleepW ext interval w1"
    have "w_clock w1 \<le> w_clock w + callsPerRead ext * l"
      using agentRead_clock [OF _ time(1)] verifyStep_world(2) [of ext operation s w] s'
      unfolding inspectService_def by (metis prod.collapse snd_conv)
    then have clock: "w_clock ?w \<le> w_clock w + ?round" using time(2) [of "w_calls w1"] by (simp add: sleepW_def)
    have left: "Suc (n0 - w_calls ?w) \<le> n0 - w_calls w" using less w1(2) by (simp add: sleepW_def)
    then have "?round + (n0 - w_calls ?w) * ?round \<le> (n0 - w_calls w) * ?round"
      by (metis mult_Suc mult_le_mono1)
    then have "w_clock ?w + (n0 - w_calls ?w) * ?round < deadline" using clock Suc.prems(3) by linarith
    moreover have "served ext n0 ?w" using Suc.prems(1) w1(1) by (simp add: served_def sleepW_def)
    moreover have "n0 - w_calls ?w < fuel" using left Suc.prems(2) by linarith
    ultimately show ?thesis using Suc.IH [of ?w s'] s' now by simp
  qed (use now in auto)
qed simp

text \<open>
  C33. Verification succeeds whenever the Agent shows convergence in time: if the reads get through, no
  call takes longer than \<open>l\<close> and no timer is later than \<open>t\<close>, the Agent needs \<open>k\<close> calls that fail or are
  still pending before it shows the target, and \<open>k\<close> poll intervals with their latencies and latenesses
  fit into the 30 seconds, the result is success.
\<close>

theorem verification_confirms_convergence:
  assumes "served ext (w_calls w + k) w" and "converges_at ext operation (w_calls w + k)"
    and "\<forall>n. x_latency ext n \<le> l \<and> x_timerDelay ext n \<le> t"
    and "k * (500 + callsPerRead ext * l + t) < 30000"
  shows "\<exists>cur w'. verifyMutation ext operation w = (Inr (V_SUCCESS cur), w') \<and> mutation_converged operation cur"
proof -
  have "k * 500 \<le> k * (500 + callsPerRead ext * l + t)" by simp
  with assms(4) have "k < 60" by linarith
  then obtain cur w' where run: "poll ext VERIFY_TIMEOUT_MS VERIFY_INTERVAL_MS (verifyStep ext operation) (None, None) w =
      (Inr (Inr (V_SUCCESS cur)), w')"
    using pollLoop_converging [OF assms(2), of l t w 61 500 "w_clock w + 30000" "(None, None)"] assms(1,3,4)
    by (auto simp: poll_def VERIFY_TIMEOUT_MS_def VERIFY_INTERVAL_MS_def)
  have body: "steps later (verifyStep ext operation s)" for s
    unfolding verifyStep_def by (intro step_intros)
  obtain s1 w1 where "verifyStep ext operation s1 w1 = (Inr (Break (V_SUCCESS cur)), w')"
    using time.poll_Break [OF body run] by blast
  then have "classifyMutationSnapshot operation cur = MS_SUCCESS"
    using verifyStep_Break by blast
  then show ?thesis
    using run by (simp add: verifyMutation_def bindM_def retM_def classifyMutationSnapshot_SUCCESS_iff)
qed

theorem verification_confirms_convergence_witness:
  "\<exists>cur w'. verifyMutation demo (demo_row VERIFYING (Some 8) 0) demo_world = (Inr (V_SUCCESS cur), w') \<and>
     mutation_converged (demo_row VERIFYING (Some 8) 0) cur"
proof (rule verification_confirms_convergence [where k = 18 and l = 1 and t = 2])
  show "converges_at demo (demo_row VERIFYING (Some 8) 0) (w_calls demo_world + 18)"
    by (auto simp: converges_at_def demo_world_def demo_service_def demo_row_def
        classifyMutationSnapshot_def stale_snapshot_def)
qed (simp_all add: demo_def served_def callsPerRead_def)

section \<open>Named locks around a callback\<close>

text \<open>
  The session holds the same named locks before and after a locked callback, whatever the
  database, the lock server and the callback do, as long as the callback itself keeps the locks
  and the session did not hold one of the names already.
\<close>

theorem locks_are_released:
  assumes "steps same_locks fn"
    and "set (map (namedLockName ext) keys) \<inter> set (w_locks w) = {}"
  shows "w_locks (snd (withResourceLocks ext keys fn w)) = w_locks w"
proof -
  let ?names = "sortedUnique (map (namedLockName ext) keys)"
  obtain q w0 where q: "query ext (\<lambda>_. ()) w = (q, w0)" by fastforce
  have w0: "w_locks w0 = w_locks w" using q by (auto simp: query_def split: DbOutcome.splits)
  obtain e acq w1 where a: "acquireLocks ext ?names [] w0 = ((e, acq), w1)" by (metis prod.collapse)
  have acq: "prefix acq ?names" "w_locks w1 = rev acq @ w_locks w"
    using acquireLocks_locks [OF a] w0 by auto
  have fresh: "distinct (rev acq)" "set (rev acq) \<inter> set (w_locks w) = {}"
    using acq(1) assms(2) set_mono_prefix [OF acq(1)] by (auto simp: prefix_def)
      (metis distinct_append sortedUnique_distinct)
  obtain r w2 where f: "fn w1 = (r, w2)" by fastforce
  have "w_locks w2 = rev acq @ w_locks w"
    using stepsD [OF assms(1) f] acq(2) by (simp add: same_locks_def)
  then have "w_locks (releaseLocks ext (rev acq) w2) = w_locks w"
      "w_locks (releaseLocks ext (rev acq) w1) = w_locks w"
    using releaseLocks_locks [OF fresh(1) _ fresh(2)] acq(2) by blast+
  then show ?thesis
    using q w0 a f by (cases q; cases e) (simp_all add: withResourceLocks_def)
qed

theorem locks_are_released_witness:
  "w_locks (snd (withResourceLocks demo [''a'', ''b''] (retM ()) demo_world)) = []"
  using locks_are_released [of "retM ()" demo "[''a'', ''b'']" demo_world]
  by (simp add: lock_keeping.steps_retM demo_world_def)

section \<open>The dispatch journal\<close>

definition journalled :: "string \<Rightarrow> string \<Rightarrow> world \<Rightarrow> bool" where
  "journalled c oid w \<longleftrightarrow>
     (\<exists>r \<in> set (maintenance_dispatches (w_db w)). di_clusterId r = c \<and> di_operationId r = oid)"

lemma journal_prepare_duplicate:
  "hoare (journalled c oid) (journal_prepare ext c g a oid) (\<lambda>_ _. False) (\<lambda>_ _. True)"
proof -
  have uuid: "hoare (journalled c oid) (randomUUID ext) (\<lambda>_. journalled c oid) (\<lambda>_ _. True)"
    by (rule hoareI) (auto simp: randomUUID_def callExternal_def journalled_def)
  have link: "hoare (journalled c oid) (executeStmt ext (linkAdmission aid c oid)) (\<lambda>_. journalled c oid) (\<lambda>_ _. True)" for aid
    by (rule hoareI) (auto simp: executeStmt_def linkAdmission_def journalled_def Let_def split: DbOutcome.splits)
  have insert: "hoare (journalled c oid) (execute ext (insertDispatch \<lparr>di_id = jid, di_clusterId = c, di_generation = g,
      di_agentId = a, di_operationId = oid, di_phase = PREPARED\<rparr>)) (\<lambda>_ _. False) (\<lambda>_ _. True)" for jid
    by (rule hoareI) (auto simp: execute_def executeStmt_def insertDispatch_def journalled_def OK_simps Let_def
        split: DbOutcome.splits if_splits)
  have get: "hoare (journalled c oid) (getsM w_active) (\<lambda>_. journalled c oid) (\<lambda>_ _. True)"
    by (rule hoareI) (auto simp: getsM_def)
  have ret: "hoare (journalled c oid) (retM ()) (\<lambda>_. journalled c oid) (\<lambda>_ _. True)"
    by (rule hoare_retM)
  have throw: "hoare P (throwM e) Q (\<lambda>_ _. True)" for P e and Q :: "'z \<Rightarrow> world \<Rightarrow> bool"
    by (rule hoare_throwM) simp
  have none: "hoare (\<lambda>_. False) m Q E" for m :: "'z cp" and Q E
    by (rule hoareI) simp_all
  show ?thesis
    unfolding journal_prepare_def
  proof (rule hoare_bindM [OF uuid], rule hoare_bindM [where Q' = "\<lambda>r w. case r of Inr _ \<Rightarrow> False | Inl e \<Rightarrow> True"],
      rule hoare_attempt, goal_cases)
    case (1 jid)
    show ?case
      by simp (intro hoare_bindM [OF get] hoare_thenM [OF _ insert] hoare_splits hoare_bindM [OF link] ret throw)
  next
    case (2 jid r)
    show ?case
      by (cases r) (auto intro!: throw none split: failure.split)
  qed
qed

text \<open>
  C30. The journal never sends an operation twice: once a dispatch row of the operation exists for
  the cluster, \<open>execute\<close> fails before its transport callback, whatever that callback would do
  and whatever the database does.
\<close>

theorem journal_sends_once:
  assumes "journalled c oid w"
  shows "\<exists>e w'. \<forall>send. journal_execute ext c g a oid send definite w = (Inl e, w')"
proof -
  obtain e w' where "journal_prepare ext c g a oid w = (Inl e, w')"
    using hoare_OK [OF journal_prepare_duplicate assms] by (metis obj_sumE prod.collapse)
  then show ?thesis
    by (cases "e = DuplicateDispatchEvidence") (auto simp: journal_execute_def bindM_def attempt_def throwM_def)
qed

definition demo_journal :: world where
  "demo_journal = demo_world\<lparr>w_db := empty_db\<lparr>maintenance_dispatches :=
     [\<lparr>di_id = ''j1'', di_clusterId = ''c1'', di_generation = 3, di_agentId = ''agent-1'',
       di_operationId = ''op-1'', di_phase = UNCERTAIN\<rparr>]\<rparr>\<rparr>"

theorem journal_sends_once_witness:
  "\<exists>e w'. \<forall>send. journal_execute demo ''c1'' 3 ''agent-1'' ''op-1'' send isDeterministicAgentRejection demo_journal = (Inl e, w')"
  by (rule journal_sends_once) (simp add: journalled_def demo_journal_def)

text \<open>
  C31. No send without evidence: with enforced maintenance, whatever the process does, a mutation is
  handed to transport only while the committed journal has a row of its operation in phase
  \<open>SENDING\<close> and the cluster is open at the generation of that row.
\<close>

theorem sends_leave_evidence:
  assumes "x_maintenanceEnforce ext" and "reachable ext entries z w0 w"
  shows "\<exists>new. w_sent w = w_sent w0 @ new \<and> list_all (evidenced (x_clusterId ext)) new"
  using dispatching.reachable_related [OF assms(2)] assms(1)
  by (fastforce simp: dispatches_intents_def sanctioned_def list_all_iff)

definition open_demo :: external where
  "open_demo = demo\<lparr>x_maintenanceEnforce := True, x_barrier := (\<lambda>n aid. Inr
     \<lparr>br_clusterId = ''swarm'', br_nodeId = ''n1'', br_generation = ''3'', br_state = ''OPEN''\<rparr>)\<rparr>"

definition open_world :: world where
  "open_world = demo_world\<lparr>w_db := empty_db\<lparr>cluster_maintenance_states :=
     [\<lparr>ms_clusterId = ''c1'', ms_state = ''OPEN'', ms_generation = 3, ms_ownerId = ''cp'', ms_reason = [],
       ms_changedBy = ''ada'', ms_changedAt = 0\<rparr>]\<rparr>\<rparr>"

lemma open_demo_sends:
  "w_sent (snd (agentMutation open_demo (ActivateNode ''n1'' 4 ''nh'' ''nh2'') (x_sendNode demo)
     (open_world\<lparr>w_operation := Some ''op-1''\<rparr>))) \<noteq> []"
  by code_simp

theorem sends_leave_evidence_witness:
  "list_all (evidenced ''c1'') (w_sent (perform open_demo demo_tokens demo_schemas demo_scale open_world))"
proof -
  have "x_maintenanceEnforce open_demo" "x_clusterId open_demo = ''c1''" "w_sent open_world = []"
    by (simp_all add: open_demo_def open_world_def demo_world_def)
  then show ?thesis
    using sends_leave_evidence [of open_demo demo_tokens demo_schemas open_world, OF _ reachable.performed [OF reachable.here, of _ _ _ _ demo_scale]]
    by (auto simp del: perform.simps)
qed

end
