(* ===== verification/Request_Outcomes.thy ===== *)
theory Request_Outcomes
  imports Outcomes
begin

text \<open>
  What one request comes to: a dispatch that the Agent rejects is recorded as failed, and a retry of
  a finished operation is answered from its record without touching the cluster.
\<close>

section \<open>Rejected dispatches\<close>

text \<open>A dispatch of one request from a world that has sent \<open>base\<close>: nothing or this request is added.\<close>

definition sends_one :: "SentMutation list \<Rightarrow> MutationRequest \<Rightarrow> world \<Rightarrow> world \<Rightarrow> bool" where
  "sends_one base req w w' \<longleftrightarrow>
     w_sent w' = w_sent w \<or> w_sent w = base \<and> (\<exists>s. sent_request s = req \<and> w_sent w' = base @ [s])"

interpretation one_send: dispatch_relation "sends_one base req" ext
    "\<lambda>w0 w rq. w_sent w0 = base \<and> w_sent w = base \<and> rq = req" for ext base req
  by unfold_locales (auto simp: sends_one_def quiet_def sentNow_def)

lemma withMutationOperation_sends_one:
  assumes "withMutationOperation oid (agentMutation ext req send) w = (r, w')"
  shows "same_core (w_db w) (w_db w')"
    and "w_sent w' = w_sent w \<or> (\<exists>s. sent_request s = req \<and> w_sent w' = w_sent w @ [s])"
proof -
  let ?w = "w\<lparr>w_operation := Some oid\<rparr>"
  have w': "w' = w \<or> w' = (snd (agentMutation ext req send ?w))\<lparr>w_operation := w_operation w\<rparr>"
    using assms by (auto simp: withMutationOperation_def case_prod_beta split: if_splits)
  show "same_core (w_db w) (w_db w')"
    using w' agentMutation_core [of ?w ext req send] by (auto simp: core_kept_def same_core_def)
  show "w_sent w' = w_sent w \<or> (\<exists>s. sent_request s = req \<and> w_sent w' = w_sent w @ [s])"
    using w' one_send.dispatch_related [of "w_sent w" req ?w ?w req ext send] by (auto simp: sends_one_def one_send.refl)
qed

text \<open>The rejection as it is stored: the row of the operation and its audit event.\<close>

definition rejection_recorded :: "string \<Rightarrow> failure \<Rightarrow> OperationRecord \<Rightarrow> database \<Rightarrow> database \<Rightarrow> bool" where
  "rejection_recorded oid e r d d' \<longleftrightarrow>
     (\<exists>r' a. find_row o_id oid (operations d') = Some r' \<and> op_same_intent r r' \<and> o_status r' = FAILED \<and>
        o_errorCode r' = Some (rejectionCode e) \<and> o_errorMessage r' = Some (body_text (snd (rejectionParts e))) \<and>
        audit_events d' = audit_events d @ [a] \<and> au_operationId a = oid \<and> au_action a = ''MUTATION_REJECTED'')"

text \<open>
  A transaction of statements that cannot fail by themselves commits as a whole, or the database fails
  and shows all of it or nothing.
\<close>

lemma faulty: "x_db ext n = DbFailed m \<Longrightarrow> \<not> faultless ext" "x_db ext n = DbLost m \<Longrightarrow> \<not> faultless ext"
  by (auto simp: faultless_def) (metis DbOutcome.distinct)+

lemma inTransaction_total:
  assumes "\<And>w1. w_db w1 = w_db w \<Longrightarrow> \<exists>r w2. body w1 = (r, w2) \<and> w_sent w2 = w_sent w1 \<and>
      (r = Inr () \<and> Q (w_db w2) \<or> (\<exists>m. r = Inl (DatabaseError m)) \<and> \<not> faultless ext)"
  shows "\<exists>r w'. inTransaction ext body w = (r, w') \<and> w_sent w' = w_sent w \<and>
    (r = Inr () \<and> Q (w_db w') \<or>
     (\<exists>m. r = Inl (DatabaseError m)) \<and> \<not> faultless ext \<and> (w_db w' = w_db w \<or> Q (w_db w')))"
proof -
  obtain r w2 where "body (tick ext w) = (r, w2)" "w_sent w2 = w_sent w"
      "r = Inr () \<and> Q (w_db w2) \<or> (\<exists>m. r = Inl (DatabaseError m)) \<and> \<not> faultless ext"
    using assms [of "tick ext w"] by auto
  then show ?thesis
    by (cases "x_db ext (w_calls w)"; cases "x_db ext (w_calls w2)")
       (auto simp: inTransaction_def rollbackTo_def faulty Let_def split: DbOutcome.split)
qed

lemma markAgentRejected_outcome:
  assumes "find_row o_id oid (operations (w_db w)) = Some r" and "\<not> status_terminal (o_status r)"
  shows "\<exists>res w'. markAgentRejected ext oid actor c sid e w = (res, w') \<and> w_sent w' = w_sent w \<and>
    (res = Inr () \<and> rejection_recorded oid e r (w_db w) (w_db w') \<or>
     (\<exists>m. res = Inl (DatabaseError m)) \<and> \<not> faultless ext \<and>
       (w_db w' = w_db w \<or> rejection_recorded oid e r (w_db w) (w_db w')))"
  unfolding markAgentRejected_def split_def Let_def
proof (rule inTransaction_total [where Q = "rejection_recorded oid e r (w_db w)"], goal_cases)
  case (1 w1)
  have "o_id r = oid" using find_row_Some [OF assms(1)] by simp
  then show ?case
    using 1 assms
    by (cases "x_db ext (w_calls w1)"; cases "x_db ext (Suc (w_calls w1))")
       (simp_all add: op_markFailed_def op_audit_def execute_def executeStmt_def updateOpenOperation_def thenM_def bindM_def
         retM_def Let_def faulty rejection_recorded_def serviceAudit_def auditRow_def find_row_update op_same_intent_def)
qed

text \<open>
  C34. A mutation that is rejected deterministically (by the Agent, or before it was sent) fails at once:
  the request is sent at most once, nothing is verified or reconciled, and the caller gets an error. The
  rejection is recorded in one transaction, the operation as \<open>FAILED\<close> with the rejection's code and text
  and an unchanged intent, together with its audit event; then the caller gets the mapped rejection. Only if
  the database fails does the caller get that failure instead, and the database then shows
  the whole record or none of it.
\<close>

theorem rejected_dispatch_is_recorded:
  assumes "withMutationOperation oid (agentMutation ext req (x_sendService ext)) w = (Inl e, w1)"
    and "isDeterministicAgentRejection e"
    and "find_row o_id oid (operations (w_db w)) = Some r" and "\<not> status_terminal (o_status r)"
  shows "\<exists>res w'. dispatchServiceMutation ext oid actor c sid plan req w = (Inl res, w') \<and>
    (w_sent w' = w_sent w \<or> (\<exists>s. sent_request s = req \<and> w_sent w' = w_sent w @ [s])) \<and>
    (res = mapAgentError e \<and> rejection_recorded oid e r (w_db w1) (w_db w') \<or>
     (\<exists>m. res = DatabaseError m) \<and> \<not> faultless ext \<and>
       (w_db w' = w_db w1 \<or> rejection_recorded oid e r (w_db w1) (w_db w')))"
proof -
  have row: "find_row o_id oid (operations (w_db w1)) = Some r"
    using withMutationOperation_sends_one(1) [OF assms(1)] assms(3) by (simp add: same_core_def)
  obtain res w' where mark: "markAgentRejected ext oid actor c sid e w1 = (res, w')" "w_sent w' = w_sent w1"
      "res = Inr () \<and> rejection_recorded oid e r (w_db w1) (w_db w') \<or>
       (\<exists>m. res = Inl (DatabaseError m)) \<and> \<not> faultless ext \<and>
         (w_db w' = w_db w1 \<or> rejection_recorded oid e r (w_db w1) (w_db w'))"
    using markAgentRejected_outcome [OF row assms(4)] by blast
  have "dispatchServiceMutation ext oid actor c sid plan req w =
      (case res of Inr _ \<Rightarrow> (Inl (mapAgentError e), w') | Inl e' \<Rightarrow> (Inl e', w'))"
    using assms(1,2) mark(1)
    by (simp add: dispatchServiceMutation_def bindM_def thenM_def attempt_def throwM_def split: sum.split)
  with mark(2,3) withMutationOperation_sends_one(2) [OF assms(1)] show ?thesis by auto
qed

definition rejecting_demo :: external where
  "rejecting_demo = demo\<lparr>x_sendService := (\<lambda>n req. Inl (AgentRequestError 409 \<lparr>body_text = ''stale'', body_json = None\<rparr>))\<rparr>"

theorem rejected_dispatch_is_recorded_witness:
  "\<exists>w'. dispatchServiceMutation rejecting_demo ''op-1'' ''ada'' ''c1'' ''svc'' (demo_plan 3)
       (ScaleService ''svc'' 7 ''h1'' ''h2'' 3)
       (demo_world\<lparr>w_db := empty_db\<lparr>operations := [demo_row RUNNING None 0]\<rparr>\<rparr>) =
       (Inl (ConflictException ''Agent rejected stale service state''), w')"
proof -
  let ?w = "demo_world\<lparr>w_db := empty_db\<lparr>operations := [demo_row RUNNING None 0]\<rparr>\<rparr>"
  let ?req = "ScaleService ''svc'' 7 ''h1'' ''h2'' 3"
  let ?e = "AgentRequestError 409 \<lparr>body_text = ''stale'', body_json = None\<rparr>"
  have fields: "plain rejecting_demo" "faultless rejecting_demo" "isBoundedIdentifier (x_swarmClusterId rejecting_demo)"
      "x_selectMutationAgent rejecting_demo n = Inr ''agent-1''" "x_sendService rejecting_demo n req = Inl ?e" for n req
    by (simp_all add: rejecting_demo_def faultless_def plain_def demo_def isBoundedIdentifier_def isIdentifierChar_def)
  obtain w1 where "withMutationOperation ''op-1'' (agentMutation rejecting_demo ?req (x_sendService rejecting_demo)) ?w = (Inl ?e, w1)"
    using agentMutation_run [OF fields(1), of "?w\<lparr>w_operation := Some ''op-1''\<rparr>" "''agent-1''" ?req "x_sendService rejecting_demo"] fields
    by (simp add: withMutationOperation_def Let_def demo_world_def)
  moreover have "find_row o_id ''op-1'' (operations (w_db ?w)) = Some (demo_row RUNNING None 0)"
      "\<not> status_terminal (o_status (demo_row RUNNING None 0))"
    by (simp_all add: find_row_def demo_row_def status_terminal_def)
  ultimately show ?thesis
    using rejected_dispatch_is_recorded [of "''op-1''" rejecting_demo ?req ?w ?e w1 "demo_row RUNNING None 0" "''ada''" "''c1''" "''svc''" "demo_plan 3"]
      fields(2) by (auto simp: mapAgentError_def)
qed

section \<open>Retries of finished operations\<close>

definition untouched :: "world \<Rightarrow> world \<Rightarrow> bool" where
  "untouched w w' \<longleftrightarrow> same_core (w_db w) (w_db w') \<and> w_sent w' = w_sent w"

interpretation untouching: locked_relation untouched
  by unfold_locales (auto simp: untouched_def same_core_def)

lemma withResourceLocks_OK:
  assumes "withResourceLocks ext keys fn w = (Inr x, w')"
  shows "\<exists>w1 w2. w_db w1 = w_db w \<and> fn w1 = (Inr x, w2)"
proof -
  let ?names = "sortedUnique (map (namedLockName ext) keys)"
  obtain q w0 where q: "query ext (\<lambda>_. ()) w = (q, w0)" by fastforce
  obtain e acq w1 where a: "acquireLocks ext ?names [] w0 = ((e, acq), w1)" by (metis prod.collapse)
  obtain r w2 where f: "fn w1 = (r, w2)" by fastforce
  have "w_db w1 = w_db w"
    using q acquireLocks_locks [OF a] by (auto simp: query_def split: DbOutcome.splits)
  moreover have "r = Inr x"
    using assms q a f by (cases q; cases e) (simp_all add: withResourceLocks_def)
  ultimately show ?thesis using f by blast
qed

lemma withAdmission_OK:
  assumes "withAdmission ext c type rid fn w = (Inr x, w')"
  shows "\<exists>w1 w2. same_core (w_db w) (w_db w1) \<and> fn w1 = (Inr x, w2)"
proof -
  obtain adm w1 where adm: "assertMaintenanceOpen ext c type rid w = (Inr adm, w1)"
    and run: "finallyM (case adm of None \<Rightarrow> fn | Some aid \<Rightarrow> withActiveAdmission aid c fn) (releaseAdmission ext adm) w1
       = (Inr x, w')"
    using assms unfolding withAdmission_def by (auto simp: bindM_OK)
  have core: "same_core (w_db w) (w_db w1)"
    using stepsD [OF quiet_assertMaintenanceOpen adm] by (simp add: quiet_def)
  have "\<exists>w2 w3. w_db w2 = w_db w1 \<and> fn w2 = (Inr x, w3)"
  proof (cases adm)
    case None
    then show ?thesis using run by (auto simp: finallyM_def split: prod.splits sum.splits)
  next
    case (Some aid)
    have "withActiveAdmission aid c fn w1 =
        (fst (fn (w1\<lparr>w_active := Some (aid, c)\<rparr>)), (snd (fn (w1\<lparr>w_active := Some (aid, c)\<rparr>)))\<lparr>w_active := w_active w1\<rparr>)"
      by (simp add: withActiveAdmission_def case_prod_beta)
    then have "fst (fn (w1\<lparr>w_active := Some (aid, c)\<rparr>)) = Inr x"
      using run Some by (auto simp: finallyM_def split: prod.splits sum.splits)
    moreover have "w_db (w1\<lparr>w_active := Some (aid, c)\<rparr>) = w_db w1" by simp
    ultimately show ?thesis by (metis prod.collapse)
  qed
  then show ?thesis using core by (metis (no_types))
qed

lemma withServiceLock_OK:
  assumes "withServiceLock ext c sid fn w = (Inr x, w')"
  shows "\<exists>w1 w2. same_core (w_db w) (w_db w1) \<and> fn w1 = (Inr x, w2)"
proof -
  obtain u w0 where reg: "assertRegistered ext c w = (Inr u, w0)"
    and run: "withResourceLocks ext [resourceLockKey ''service'' c sid] (withAdmission ext c ''service'' sid fn) w0 = (Inr x, w')"
    using assms unfolding withServiceLock_def by (auto simp: thenM_OK)
  have "w_db w0 = w_db w" using stepsD [OF reading.steps_assertRegistered reg] by (simp add: reads_only_def)
  then show ?thesis using withResourceLocks_OK [OF run] withAdmission_OK by metis
qed

text \<open>What the locked part does with an operation that is already recorded as finished.\<close>

lemma lockedServiceMutation_finished:
  assumes "find_row o_id oid (operations (w_db w)) = Some r" and "status_terminal (o_status r)"
  shows "untouched w (snd (lockedServiceMutation ext c sid oid actor type v k planning capacity request w))"
    and "lockedServiceMutation ext c sid oid actor type v k planning capacity request w = (Inr x, w') \<Longrightarrow>
      x = r \<and> o_type r = type \<and> o_clusterId r = c \<and> o_serviceId r = sid \<and> o_actorId r = actor \<and>
      o_expectedVersion r = v \<and> o_targetReplicas r = k"
proof -
  let ?run = "lockedServiceMutation ext c sid oid actor type v k planning capacity request"
  have "?run w = (case query ext (\<lambda>d. find_row o_id oid (operations d)) w of
      (Inl e, w1) \<Rightarrow> (Inl e, w1)
    | (Inr _, w1) \<Rightarrow> thenM (assertIdempotent r type c sid actor v k) (retM r) w1)"
    using assms by (auto simp: lockedServiceMutation_def op_findWithConnection_def bindM_def query_def
        split: DbOutcome.split)
  then show "untouched w (snd (?run w))"
    "?run w = (Inr x, w') \<Longrightarrow>
      x = r \<and> o_type r = type \<and> o_clusterId r = c \<and> o_serviceId r = sid \<and> o_actorId r = actor \<and>
      o_expectedVersion r = v \<and> o_targetReplicas r = k"
    by (auto simp: query_def untouched_def same_core_def assertIdempotent_def thenM_def bindM_def retM_def throwM_def
        split: DbOutcome.splits if_splits)
qed

text \<open>
  Retrying a finished scale is idempotent: it changes no operation, deployment or audit row and
  dispatches nothing, and if it returns an operation, that is the recorded one, of the same actor
  and with the same parameters. Reusing the identifier for anything else is refused.
\<close>

theorem finished_scale_is_answered_from_its_record:
  assumes "find_row o_id (sr_operationId input) (operations (w_db w)) = Some r"
    and "status_terminal (o_status r)"
    and "scale ext c ref input actor w = (res, w')"
  shows "untouched w w' \<and> (\<forall>x. res = Inr x \<longrightarrow> x = r \<and> o_type r = SCALE \<and> o_clusterId r = c \<and>
    o_actorId r = pr_actorId actor \<and> o_expectedVersion r = sr_expectedVersion input \<and>
    o_targetReplicas r = Some (sr_replicas input))"
proof -
  have kept: "find_row o_id (sr_operationId input) (operations (w_db w1)) = Some r"
    if "same_core (w_db w) (w_db w1)" for w1
    using that assms(1) by (simp add: same_core_def)
  have core: "same_core (w_db w) (w_db w1)" if "untouched w w1" for w1
    using that by (simp add: untouched_def)
  have core_trans: "same_core a b \<Longrightarrow> same_core b d \<Longrightarrow> same_core a d" for a b d
    by (simp add: same_core_def)
  have "untouched w (snd (scale ext c ref input actor w))"
    unfolding scale_def thenM_def Let_def
    by (intro untouching.bindM_from untouching.steps_at [OF untouching.steps_assertCluster]
        untouching.steps_from [OF untouching.steps_agent_reads(1)]
        untouching.trans [OF _ untouching.withServiceLock_related] lockedServiceMutation_finished(1) [where r = r])
       (auto intro: kept core_trans core assms(2))
  moreover have "x = r \<and> o_type r = SCALE \<and> o_clusterId r = c \<and> o_actorId r = pr_actorId actor \<and>
      o_expectedVersion r = sr_expectedVersion input \<and> o_targetReplicas r = Some (sr_replicas input)"
    if res: "res = Inr x" for x
  proof -
    obtain u w1 cur w2 where reads: "assertCluster ext c w = (Inr u, w1)" "inspectService ext ref w1 = (Inr cur, w2)"
      and locked: "withServiceLock ext c (s_id (sd_service cur))
         (lockedServiceMutation ext c (s_id (sd_service cur)) (sr_operationId input) (pr_actorId actor)
          SCALE (sr_expectedVersion input) (Some (sr_replicas input))
          (planScaleService ext (s_id (sd_service cur)) (sr_expectedVersion input) (sr_replicas input))
          (\<lambda>plan before. \<lparr>cr_expectedVersion = p_version plan,
             cr_targetReplicas = sr_replicas input, cr_includeUpdateOverlap = False\<rparr>)
          (\<lambda>plan. ScaleService (s_id (sd_service cur)) (p_version plan) (p_beforeSpecHash plan)
             (p_targetSpecHash plan) (sr_replicas input))) w2 = (Inr x, w')"
      using assms(3) [unfolded res scale_def Let_def thenM_OK bindM_OK] by blast
    have db: "w_db w2 = w_db w"
      using stepsD [OF reading.steps_assertCluster reads(1)] stepsD [OF reading.steps_agent_reads(1) reads(2)]
      by (simp add: reads_only_def)
    from withServiceLock_OK [OF locked] show ?thesis
    proof (elim exE conjE)
      fix w3 w4 :: world assume "same_core (w_db w2) (w_db w3)"
      then have "find_row o_id (sr_operationId input) (operations (w_db w3)) = Some r"
        using kept db by simp
      note finished = lockedServiceMutation_finished(2) [OF this assms(2)]
      assume run: "lockedServiceMutation ext c (s_id (sd_service cur)) (sr_operationId input) (pr_actorId actor)
          SCALE (sr_expectedVersion input) (Some (sr_replicas input))
          (planScaleService ext (s_id (sd_service cur)) (sr_expectedVersion input) (sr_replicas input))
          (\<lambda>plan before. \<lparr>cr_expectedVersion = p_version plan,
             cr_targetReplicas = sr_replicas input, cr_includeUpdateOverlap = False\<rparr>)
          (\<lambda>plan. ScaleService (s_id (sd_service cur)) (p_version plan) (p_beforeSpecHash plan)
             (p_targetSpecHash plan) (sr_replicas input)) w3 = (Inr x, w4)"
      show ?thesis using finished [OF run] by blast
    qed
  qed
  ultimately show ?thesis unfolding assms(3) snd_conv by blast
qed

theorem finished_scale_is_answered_from_its_record_witness:
  "let w = perform demo demo_tokens demo_schemas demo_scale demo_world
   in untouched w (snd (scale demo ''c1'' ''web'' demo_input demo_principal w))"
  using finished_scale_is_answered_from_its_record
      [of demo_input "perform demo demo_tokens demo_schemas demo_scale demo_world" "demo_row SUCCESS (Some 8) 1022"
        demo "''c1''" "''web''" demo_principal,
       OF _ _ prod.collapse [symmetric]] demo_scaled
  unfolding Let_def by (simp add: demo_at_def find_row_def demo_row_def)

end
