(* ===== verification/Health_Outcomes.thy ===== *)
theory Health_Outcomes
  imports Request_Outcomes
begin

text \<open>
  What health verification guarantees: success means an unbroken stable run, refused URLs are
  never requested, and which numeric addresses count as private.
\<close>

section \<open>Addresses\<close>

definition dotted :: "nat \<Rightarrow> nat \<Rightarrow> nat \<Rightarrow> nat \<Rightarrow> string" where
  "dotted a b c d = show_nat a @ ''.'' @ show_nat b @ ''.'' @ show_nat c @ ''.'' @ show_nat d"

lemma digit_char_code: "d < 10 \<Longrightarrow> (of_char (digit_char d) :: nat) = 48 + d"
  by (simp add: digit_char_def)

lemma isDecDigit_digit_char: "d < 10 \<Longrightarrow> isDecDigit (digit_char d)"
  by (simp add: isDecDigit_def digit_char_code)

lemma show_nat_digits: "list_all isDecDigit (show_nat n)"
proof (induction n rule: show_nat.induct)
  case (1 n)
  then show ?case by (subst show_nat.simps) (simp add: isDecDigit_digit_char)
qed

lemma readNat_snoc: "readNat (s @ [c]) = 10 * readNat s + (of_char c - 48)"
  by (simp add: readNat_def)

lemma readNat_show_nat [simp]: "readNat (show_nat n) = n"
proof (induction n rule: show_nat.induct)
  case (1 n)
  then show ?case by (subst show_nat.simps) (simp add: readNat_snoc readNat_def [of "[_]"] digit_char_code)
qed

lemma isOctet_show_nat: "n \<le> 255 \<Longrightarrow> isOctet (show_nat n)"
proof -
  assume n: "n \<le> 255"
  have small: "show_nat k = [digit_char k]" if "k < 10" for k
    using that by (subst show_nat.simps) simp
  have two: "show_nat k = [digit_char (k div 10), digit_char (k mod 10)]" if "10 \<le> k" "k < 100" for k
    using that by (subst show_nat.simps) (simp add: small)
  have three: "show_nat k = [digit_char (k div 100), digit_char (k div 10 mod 10), digit_char (k mod 10)]"
    if "100 \<le> k" "k < 1000" for k
    using that by (subst show_nat.simps) (simp add: two div_mult2_eq [of k 10 10, symmetric])
  have zero: "digit_char k \<noteq> CHR ''0''" if "0 < k" "k < 10" for k
    using digit_char_code [OF that(2)] that(1) by auto
  consider "n < 10" | "10 \<le> n" "n < 100" | "100 \<le> n" "n < 1000" using n by linarith
  then have "show_nat n \<noteq> [] \<and> length (show_nat n) \<le> 3 \<and> (length (show_nat n) = 1 \<or> hd (show_nat n) \<noteq> CHR ''0'')"
    by cases (simp_all add: small two three zero)
  then show ?thesis using n show_nat_digits by (simp add: isOctet_def)
qed

lemma splitOn_plain: "c \<notin> set xs \<Longrightarrow> splitOn c xs = [xs]"
  by (induction xs) auto

lemma splitOn_append: "c \<notin> set xs \<Longrightarrow> splitOn c (xs @ c # ys) = xs # splitOn c ys"
  by (induction xs) auto

lemma dot_not_digit: "CHR ''.'' \<notin> set (show_nat n)"
  using show_nat_digits [of n] by (auto simp: list_all_iff isDecDigit_def)

lemma splitOn_dotted: "splitOn (CHR ''.'') (dotted a b c d) = [show_nat a, show_nat b, show_nat c, show_nat d]"
  by (simp add: dotted_def splitOn_append splitOn_plain dot_not_digit)

lemma dotted_chars: "x \<in> set (dotted a b c d) \<Longrightarrow> isDecDigit x \<or> x = CHR ''.''"
  using show_nat_digits by (auto simp: dotted_def list_all_iff)

lemma isIPv4_dotted:
  "a \<le> 255 \<Longrightarrow> b \<le> 255 \<Longrightarrow> c \<le> 255 \<Longrightarrow> d \<le> 255 \<Longrightarrow> isIPv4 (dotted a b c d)"
  by (simp add: isIPv4_def splitOn_dotted isOctet_show_nat)

text \<open>The IPv4-mapped IPv6 form of an address.\<close>

abbreviation mapped :: "string \<Rightarrow> string" where
  "mapped s \<equiv> ''::ffff:'' @ s"

lemma isIP_mapped:
  assumes "a \<le> 255" and "b \<le> 255" and "c \<le> 255" and "d \<le> 255"
  shows "isIP (mapped (dotted a b c d)) = 6"
proof -
  have colon: "CHR '':'' \<notin> set (dotted a b c d)" and percent: "CHR ''%'' \<notin> set (dotted a b c d)"
    by (auto simp: isDecDigit_def dest!: dotted_chars)
  have "splitOn (CHR ''.'') (mapped (dotted a b c d)) = mapped (show_nat a) # [show_nat b, show_nat c, show_nat d]"
    using splitOn_append [of "CHR ''.''" "mapped (show_nat a)" "show_nat b @ ''.'' @ show_nat c @ ''.'' @ show_nat d"]
    by (simp add: dotted_def splitOn_append splitOn_plain dot_not_digit)
  moreover have "\<not> isOctet (mapped (show_nat a))" by (simp add: isOctet_def isDecDigit_def)
  ultimately have v4: "\<not> isIPv4 (mapped (dotted a b c d))" by (simp add: isIPv4_def)
  have whole: "takeWhile (\<lambda>x. x \<noteq> CHR ''%'') (mapped (dotted a b c d)) = mapped (dotted a b c d)"
      "dropWhile (\<lambda>x. x \<noteq> CHR ''%'') (mapped (dotted a b c d)) = []"
    using percent by (auto simp: takeWhile_eq_all_conv)
  have "groupsOf (''ffff:'' @ dotted a b c d) = [''ffff'', dotted a b c d]"
    using splitOn_append [of "CHR '':''" "''ffff''" "dotted a b c d"] colon by (simp add: groupsOf_def splitOn_plain)
  moreover have "isHexGroup ''ffff''" by code_simp
  ultimately obtain n where n: "countGroups (groupsOf (''ffff:'' @ dotted a b c d)) = Some n" "n \<le> 7"
    using isIPv4_dotted [OF assms] by (cases "isHexGroup (dotted a b c d)") simp_all
  have "splitDouble (mapped (dotted a b c d)) = Some ([], ''ffff:'' @ dotted a b c d)" by simp
  then have "isIPv6 (mapped (dotted a b c d))"
    unfolding isIPv6_def Let_def whole by (simp only: option.case prod.case n(1)) (simp add: groupsOf_def n(2))
  with v4 show ?thesis by (simp add: isIP_def)
qed

text \<open>
  C39. Which numeric addresses the health and registry policies refuse. Of the dotted IPv4 addresses
  exactly the ranges \<open>0/8\<close>, \<open>10/8\<close>, \<open>127/8\<close>, \<open>169.254/16\<close>, \<open>172.16/12\<close>, \<open>192.168/16\<close> and everything from
  \<open>224/4\<close> on count as private; the shared address space \<open>100.64/10\<close> does not. The IPv4-mapped IPv6 form
  of every address, private or not, is a valid address, and no IPv6 address that begins with the mapped prefix
  counts as private, in dotted or hexadecimal notation.
\<close>

theorem mapped_private_addresses_pass:
  assumes "a \<le> 255" and "b \<le> 255" and "c \<le> 255" and "d \<le> 255"
  shows "(isPrivateAddress (dotted a b c d) \<longleftrightarrow>
      a = 0 \<or> a = 10 \<or> a = 127 \<or> (a = 169 \<and> b = 254) \<or> (a = 172 \<and> 16 \<le> b \<and> b \<le> 31) \<or>
      (a = 192 \<and> b = 168) \<or> 224 \<le> a) \<and>
    isIP (mapped (dotted a b c d)) = 6 \<and>
    (\<forall>s. isIP (mapped s) = 6 \<longrightarrow> \<not> isPrivateAddress (mapped s)) \<and>
    registry_isPrivateAddress = isPrivateAddress"
proof (intro conjI allI impI)
  have "isIP (dotted a b c d) = 4" by (simp add: isIP_def isIPv4_dotted [OF assms])
  then show "isPrivateAddress (dotted a b c d) \<longleftrightarrow>
      a = 0 \<or> a = 10 \<or> a = 127 \<or> (a = 169 \<and> b = 254) \<or> (a = 172 \<and> 16 \<le> b \<and> b \<le> 31) \<or>
      (a = 192 \<and> b = 168) \<or> 224 \<le> a"
    by (simp add: isPrivateAddress_def splitOn_dotted)
  show "\<not> isPrivateAddress (mapped s)" if "isIP (mapped s) = 6" for s
  proof -
    have "toLowerCase (mapped s) = mapped (toLowerCase s)" by (simp add: toLowerCase_def toLowerChar_def)
    then show ?thesis using that by (simp add: isPrivateAddress_def startsWith_def)
  qed
qed (use isIP_mapped [OF assms] in \<open>simp_all add: registry_isPrivateAddress_eq\<close>)

theorem mapped_private_addresses_pass_witness:
  "isPrivateAddress (dotted 127 0 0 1) \<and> isIP (mapped (dotted 127 0 0 1)) = 6 \<and>
   \<not> isPrivateAddress (mapped (dotted 127 0 0 1)) \<and> \<not> isPrivateAddress (mapped ''a9fe:a9fe'') \<and>
   \<not> isPrivateAddress (dotted 100 64 0 1)"
proof -
  have "isIP (mapped ''a9fe:a9fe'') = 6" by code_simp
  then show ?thesis
    using mapped_private_addresses_pass [of 127 0 0 1] mapped_private_addresses_pass [of 100 64 0 1] by auto
qed

section \<open>Requests\<close>

text \<open>
  A URL that the endpoint policy refuses is never requested, neither directly nor through a
  redirect: what the network would answer for refused URLs has no influence on the outcome.
\<close>

theorem refused_urls_are_never_requested:
  assumes "same_requests ext ext'"
  shows "safeFetch ext' url timeoutMs w = safeFetch ext url timeoutMs w"
  by (simp add: safeFetch_def fetchLoop_guarded [OF assms])

definition demo_url :: Url where
  "demo_url = \<lparr>u_protocol = ''http:'', u_username = [], u_password = [], u_host = ''app.internal:8080'',
     u_hostname = ''app.internal'', u_pathname = ''/'', u_search = [], u_hash = []\<rparr>"

theorem refused_urls_are_never_requested_witness:
  "safeFetch (demo\<lparr>x_fetch := (\<lambda>n url t. if u_host url = u_host demo_url
       then Inr \<lparr>fr_status = 200, fr_location = None, fr_cancelled = True\<rparr> else x_fetch demo n url t)\<rparr>)
     demo_url 1000 demo_world = safeFetch demo demo_url 1000 demo_world"
proof (rule refused_urls_are_never_requested)
  show "same_requests demo (demo\<lparr>x_fetch := (\<lambda>n url t. if u_host url = u_host demo_url
       then Inr \<lparr>fr_status = 200, fr_location = None, fr_cancelled = True\<rparr> else x_fetch demo n url t)\<rparr>)"
    unfolding same_requests_def
    by (intro exI conjI, rule HOL.refl) (auto simp: allowed_def demo_def privateHosts_def trim_def toLowerCase_def)
qed

section \<open>Stability\<close>

text \<open>
  C37. Health verification succeeds only after an unbroken run of expected answers that spans the
  stability window: every answer has the expected status, lies between two successful convergence
  checks, and a final convergence check follows.
\<close>

theorem health_success_is_stable:
  assumes "health_verify ext config guard w = (Inr u, w')"
  shows "\<exists>url t0 w1. x_parseUrl ext (h_url config) = Some url \<and> stable_run ext config url guard t0 w1 \<and>
    w_clock w1 - t0 \<ge> h_stabilityWindowMs config \<and> guard w1 = (Inr (), w')"
proof -
  obtain url w0 r where url: "x_parseUrl ext (h_url config) = Some url"
    and run: "poll ext (health_budget config) (h_intervalMs config) (healthStep ext config url guard) (None, 0) w0
      = (Inr (Inr r), w')"
    using assms unfolding health_verify_def by (auto simp: OK_simps)
  show ?thesis using healthLoop_stable [OF run [unfolded poll_def]] url by auto
qed

definition health_demo :: external where
  "health_demo = demo\<lparr>x_healthPrivateHosts := Some ''app.internal:8080'', x_parseUrl := (\<lambda>s. Some demo_url),
     x_fetch := (\<lambda>n url t. Inr \<lparr>fr_status = 200, fr_location = None, fr_cancelled = True\<rparr>)\<rparr>"

definition demo_health :: HealthCheckConfig where
  "demo_health = \<lparr>h_url = ''http://app.internal:8080'', h_intervalMs = 500, h_timeoutMs = 1000, h_retries = 1,
     h_stabilityWindowMs = 900, h_expectedStatus = 200\<rparr>"

theorem health_success_is_stable_witness:
  "\<exists>url t0 w1. stable_run health_demo demo_health url (retM ()) t0 w1 \<and> w_clock w1 - t0 \<ge> 900"
proof -
  have "fst (health_verify health_demo demo_health (retM ()) demo_world) = Inr ()"
    by code_simp
  then have "health_verify health_demo demo_health (retM ()) demo_world =
      (Inr (), snd (health_verify health_demo demo_health (retM ()) demo_world))"
    by (metis prod.collapse)
  from health_success_is_stable [OF this] show ?thesis by (auto simp: demo_health_def)
qed

end
