(* ===== verification/Maintenance_Scenario.thy ===== *)
theory Maintenance_Scenario
  imports Scenario
begin

text \<open>
  A cluster with one manager and enforced maintenance, and the runs that serve as witnesses: a lease
  is acquired and the cluster is closed.
\<close>

section \<open>The cluster\<close>

definition maintained_world :: "string \<Rightarrow> nat \<Rightarrow> world" where
  "maintained_world state generation = demo_world\<lparr>w_db := empty_db\<lparr>
     cluster_registrations := [\<lparr>cg_id = ''r1'', cg_clusterId = ''c1'', cg_swarmClusterId = ''swarm'',
       cg_displayName = ''demo'', cg_registeredBy = ''root'', cg_verifiedNodeId = ''n1'', cg_createdAt = 0\<rparr>],
     cluster_maintenance_states := [\<lparr>ms_clusterId = ''c1'', ms_state = state, ms_generation = generation,
       ms_ownerId = ''root'', ms_reason = ''upgrade'', ms_changedBy = ''root'', ms_changedAt = 0\<rparr>]\<rparr>\<rparr>"

definition maintained_demo :: "string \<Rightarrow> string \<Rightarrow> external" where
  "maintained_demo generation state = demo\<lparr>x_maintenanceEnforce := True, x_registrationEnforce := True,
     x_expectedSwarmClusterId := Some ''swarm'',
     x_barrier := (\<lambda>n aid. Inr \<lparr>br_clusterId = ''swarm'', br_nodeId = ''n1'', br_generation = generation, br_state = state\<rparr>)\<rparr>"

definition root :: Principal where
  "root = \<lparr>pr_actorId = ''root'', pr_role = ADMIN, pr_clusters = [''*'']\<rparr>"

definition transition_body :: "string \<Rightarrow> json" where
  "transition_body generation = JObj [(''generation'', JStr generation), (''reason'', JStr ''upgrade'')]"

abbreviation confirm_closed :: Activity where
  "confirm_closed \<equiv> Serve (MaintenanceController PostConfirmClosed) (demo_request ''operator-token-01'')"

lemma maintained_fields [simp]:
  "x_clusterId (maintained_demo g st) = ''c1''" "x_maintenanceEnforce (maintained_demo g st)"
  "x_registrationEnforce (maintained_demo g st)" "x_expectedSwarmClusterId (maintained_demo g st) = Some ''swarm''"
  "x_agents (maintained_demo g st) = [''agent-1'']" "x_managerClusterId (maintained_demo g st) = Some ''swarm''"
  "x_barrier (maintained_demo g st) n aid =
     Inr \<lparr>br_clusterId = ''swarm'', br_nodeId = ''n1'', br_generation = g, br_state = st\<rparr>"
  "x_agentIdentity (maintained_demo g st) n aid = Inr demo_identity"
  "x_agentCluster (maintained_demo g st) n aid = Inr demo_cluster"
  "x_putBarrier (maintained_demo g st) n aid c g' st' =
     Inr \<lparr>br_clusterId = c, br_nodeId = ''n1'', br_generation = g', br_state = st'\<rparr>"
  "x_db (maintained_demo g st) n = DbOk" "x_latency (maintained_demo g st) n = 1" "x_uuid (maintained_demo g st) n = ''uuid''"
  "faultless (maintained_demo g st)"
  by (simp_all add: maintained_demo_def demo_def faultless_def)

lemma maintained_tick: "tick (maintained_demo g st) w = w\<lparr>w_calls := Suc (w_calls w), w_clock := Suc (w_clock w)\<rparr>"
  by (simp add: tick_def)

lemma maintained_control_ok: "control_ok (w_db (maintained_world ''CLOSING'' 2))"
  by (simp add: maintained_world_def demo_world_def empty_db_def control_ok_def catalog_def state_ok_def nextState_def)

section \<open>Acquiring the lease\<close>

definition leased :: "string \<Rightarrow> nat \<Rightarrow> nat \<Rightarrow> world \<Rightarrow> world" where
  "leased holder token clock w = w\<lparr>w_calls := w_calls w + 5, w_clock := clock + 5, w_db := (w_db w)\<lparr>
      maintenance_control_leases := [\<lparr>cl_clusterId = ''c1'', cl_holderId = holder, cl_fenceToken = token,
        cl_expiresAt = clock + 30003\<rparr>]\<rparr>\<rparr>"

lemma first_lease:
  assumes "maintenance_control_leases (w_db w) = []" and "maintained ''c1'' (w_db w)"
  shows "lease_acquire (maintained_demo g st) ''c1'' 30 w =
    (Inr \<lparr>ml_clusterId = ''c1'', ml_holderId = ''uuid'', ml_token = 1\<rparr>, leased ''uuid'' 1 (w_clock w) w)"
  using assms
  by (simp add: lease_acquire_def randomUUID_def callExternal_def maintained_tick inTransaction_run queryAt_def query_run
      execute_run insertLease_def leased_def find_row_def monad_defs)

lemma next_lease:
  assumes "maintenance_control_leases (w_db w) = [\<lparr>cl_clusterId = ''c1'', cl_holderId = h, cl_fenceToken = 1, cl_expiresAt = e\<rparr>]"
    and "e \<le> w_clock w"
  shows "lease_acquire (maintained_demo g st) ''c1'' 30 w =
    (Inr \<lparr>ml_clusterId = ''c1'', ml_holderId = ''uuid'', ml_token = 2\<rparr>, leased ''uuid'' 2 (w_clock w) w)"
  using assms
  by (simp add: lease_acquire_def randomUUID_def callExternal_def maintained_tick inTransaction_run queryAt_def query_run
      execute_run renewLease_def leased_def find_row_def update_rows_def MAX_GENERATION_def monad_defs)

section \<open>Closing\<close>

lemma maintained_managers:
  "inspectConfiguredManagers (maintained_demo g st) ''swarm'' w =
     (Inr [(''agent-1'', ''n1'')], w\<lparr>w_calls := w_calls w + 2, w_clock := w_clock w + 2\<rparr>)"
  by (simp add: inspectConfiguredManagers_def isBoundedIdentifier_def Collect_conv_if isIdentifierChar_def callExternal_def maintained_tick
      demo_identity_def demo_cluster_def demo_node_def Let_def monad_defs)

lemma show_generation: "show_nat 2 = ''2''" "show_nat 3 = ''3''"
  by code_simp+

lemma maintained_body: "generationBody m (transition_body ''2'') w = (Inr (2, ''upgrade''), w)"
  by (simp add: generationBody_def transition_body_def boundedReason_def trim_def isSpaceChar_def isDecimalDigit_def bigInt_def retM_def)

lemma maintained_registered:
  "assertRegistered (maintained_demo g st) ''c1'' (maintained_world s n) =
     (Inr (), (maintained_world s n)\<lparr>w_calls := 1, w_clock := 1001\<rparr>)"
  by (simp add: assertRegistered_def registration_find_def query_run maintained_world_def demo_world_def empty_db_def find_row_def
      maintained_tick monad_defs)

lemma maintained_blocked:
  "\<exists>w'. blockAll (maintained_demo ''2'' ''BLOCKED'') ''c1'' ''swarm'' 2
     (leased ''uuid'' 1 1001 ((maintained_world ''CLOSING'' 2)\<lparr>w_calls := 1, w_clock := 1001\<rparr>)) = (Inr [''agent-1''], w') \<and>
   w_clock w' = 1018 \<and> w_db w' = (w_db (maintained_world ''CLOSING'' 2))\<lparr>
     maintenance_control_leases := [\<lparr>cl_clusterId = ''c1'', cl_holderId = ''uuid'', cl_fenceToken = 1, cl_expiresAt = 31004\<rparr>],
     maintenance_agent_barriers := [\<lparr>ab_clusterId = ''c1'', ab_agentId = ''agent-1'', ab_generation = 2, ab_state = ''ACKNOWLEDGED''\<rparr>]\<rparr>"
  by (simp add: blockAll_def leased_def maintained_world_def demo_world_def empty_db_def requireRecord_def maintenance_find_def query_run
     find_row_def maintained_tick STATES_def maintained_managers blockConfiguredManager_def putBarrier_def callExternal_def
     barrierMatches_def execute_run acknowledge_def MAX_GENERATION_def maintained_def requireRoster_def inspectAll_def
     inspectManagerBarrier_def acknowledgements_def acknowledgedBy_def monad_defs show_generation)

lemma maintained_closed:
  "fst (maintenance_confirmClosed (maintained_demo ''2'' ''BLOCKED'') ''c1'' root (transition_body ''2'')
     (maintained_world ''CLOSING'' 2)) = Inr (TransitionReply ''c1'' ''CLOSED'' 3)"
proof -
  let ?ext = "maintained_demo ''2'' ''BLOCKED''" and ?w1 = "(maintained_world ''CLOSING'' 2)\<lparr>w_calls := 1, w_clock := 1001\<rparr>"
  have lease: "lease_acquire ?ext ''c1'' 30 ?w1 =
      (Inr \<lparr>ml_clusterId = ''c1'', ml_holderId = ''uuid'', ml_token = 1\<rparr>, leased ''uuid'' 1 1001 ?w1)"
    using first_lease [of ?w1] by (simp add: maintained_world_def demo_world_def empty_db_def maintained_def)
  obtain w' where w': "blockAll ?ext ''c1'' ''swarm'' 2 (leased ''uuid'' 1 1001 ?w1) = (Inr [''agent-1''], w')" "w_clock w' = 1018"
    and db: "w_db w' = (w_db (maintained_world ''CLOSING'' 2))\<lparr>
     maintenance_control_leases := [\<lparr>cl_clusterId = ''c1'', cl_holderId = ''uuid'', cl_fenceToken = 1, cl_expiresAt = 31004\<rparr>],
     maintenance_agent_barriers := [\<lparr>ab_clusterId = ''c1'', ab_agentId = ''agent-1'', ab_generation = 2, ab_state = ''ACKNOWLEDGED''\<rparr>]\<rparr>"
    using maintained_blocked by blast
  have "fst (commitClosed ?ext ''c1'' 2 ''root'' ''upgrade'' [''agent-1'']
      (Some \<lparr>ml_clusterId = ''c1'', ml_holderId = ''uuid'', ml_token = 1\<rparr>) w') = Inr True"
    using w'(2)
    by (simp add: commitClosed_def inTransactionUnless_run lease_assertOwner_def queryAt_def query_run owns_def lease_row_def
        db maintained_world_def demo_world_def empty_db_def stateIs_def find_row_def requireDrained_def drained_def
        openAdmissions_def unresolvedOperations_def openDispatches_def acknowledgements_def acknowledgedBy_def executeStmt_run
        moveState_def update_rows_def MAX_GENERATION_def auditCluster_def randomUUID_def callExternal_def op_audit_def execute_run
        maintained_tick trim_def isSpaceChar_def Let_def monad_defs)
  then obtain w'' where w'': "commitClosed ?ext ''c1'' 2 ''root'' ''upgrade'' [''agent-1'']
      (Some \<lparr>ml_clusterId = ''c1'', ml_holderId = ''uuid'', ml_token = 1\<rparr>) w' = (Inr True, w'')"
    by (metis prod.collapse)
  have body: "objectBody m (transition_body ''2'') w = (Inr (transition_body ''2''), w)" for m w
    by (simp add: objectBody_def transition_body_def retM_def)
  have released: "\<exists>r w3. lease_release ?ext lease w = (r, w3)" for lease w
    by fastforce
  then show ?thesis
    using lease w' w''
    by (auto simp: maintenance_confirmClosed_def requireScopedAdmin_def root_def requireEnforcement_def body maintained_body
        MAX_GENERATION_def maintained_registered withLease_def monad_defs split: prod.splits)
qed

end
