(* ===== verification/Maintenance_Safety.thy ===== *)
theory Maintenance_Safety
  imports Maintenance_Scenario
begin

text \<open>
  What the maintenance subsystem guarantees: the state machine moves only forward, managers are
  opened and blocked only as the committed state allows, a cluster is closed only when it is drained
  and every manager has confirmed its barrier, a fenced coordinator cannot commit, and evidence is
  resolved without being rewritten.
\<close>

section \<open>The state machine\<close>

lemma nextState_cycle: "(nextState ^^ n) ''OPEN'' = STATES ! (n mod 4)"
proof (induction n)
  case (Suc n)
  have "n mod 4 \<in> {0, 1, 2, 3}" by auto
  then show ?case
    using Suc by (auto simp: STATES_def nextState_def mod_Suc)
qed (simp add: STATES_def)

lemma reachable_control:
  assumes "reachable ext entries z w0 w"
  shows "control_kept (w_db w0) (w_db w)"
  using hist.reachable_related [OF assms] by (simp add: on_db_def history_kept_def)

text \<open>
  C13. The maintenance state moves only forward: in every run the state row of a cluster survives, its
  generation never decreases and stays below $2^{64}$, an unchanged generation means an unchanged row, and
  the generation determines the state along the cycle \<open>OPEN\<close>, \<open>CLOSING\<close>, \<open>CLOSED\<close>,
  \<open>RECONCILING\<close>. Initializing again never resets it.
\<close>

theorem maintenance_moves_forward:
  assumes "reachable ext entries z w0 w" and "control_ok (w_db w0)"
    and "find_row ms_clusterId c (cluster_maintenance_states (w_db w0)) = Some m"
  shows "\<exists>m'. find_row ms_clusterId c (cluster_maintenance_states (w_db w)) = Some m' \<and>
    ms_generation m \<le> ms_generation m' \<and> ms_generation m' < 2 ^ 64 \<and>
    (ms_generation m' = ms_generation m \<longrightarrow> m' = m) \<and>
    ms_state m' = STATES ! ((ms_generation m' - 1) mod 4)"
proof -
  have kept: "control_kept (w_db w0) (w_db w)" by (rule reachable_control [OF assms(1)])
  then obtain m' where m': "find_row ms_clusterId c (cluster_maintenance_states (w_db w)) = Some m'" "ms_evolves m m'"
    using assms(3) unfolding control_kept_def rows_evolve_def by blast
  moreover have "state_ok m'"
    using kept assms(2) find_row_Some [OF m'(1)] by (auto simp: control_kept_def control_ok_def list_all_iff)
  ultimately show ?thesis
    by (auto simp: ms_evolves_def state_ok_def nextState_cycle)
qed

theorem maintenance_moves_forward_witness:
  "\<exists>m'. find_row ms_clusterId ''c1'' (cluster_maintenance_states (w_db
      (perform (maintained_demo ''2'' ''BLOCKED'') demo_tokens demo_schemas confirm_closed (maintained_world ''CLOSING'' 2)))) = Some m' \<and>
    2 \<le> ms_generation m' \<and> ms_state m' = STATES ! ((ms_generation m' - 1) mod 4)"
proof -
  have "find_row ms_clusterId ''c1'' (cluster_maintenance_states (w_db (maintained_world ''CLOSING'' 2))) =
      Some \<lparr>ms_clusterId = ''c1'', ms_state = ''CLOSING'', ms_generation = 2, ms_ownerId = ''root'',
        ms_reason = ''upgrade'', ms_changedBy = ''root'', ms_changedAt = 0\<rparr>"
    by (simp add: maintained_world_def demo_world_def empty_db_def find_row_def)
  from maintenance_moves_forward [OF reachable.performed [OF reachable.here] maintained_control_ok this]
  show ?thesis by (fastforce simp del: perform.simps)
qed

text \<open>
  C12. The managers follow the committed state: every barrier that is put during a run opens a manager
  at the generation of an \<open>OPEN\<close> state that is committed at that moment, or blocks it at that of
  \<open>CLOSING\<close> or \<open>RECONCILING\<close>.
\<close>

theorem managers_follow_the_state:
  assumes "reachable ext entries z w0 w"
  shows "\<exists>new. w_puts w = w_puts w0 @ new \<and> list_all (put_ok ext) new"
  using fencing.reachable_related [OF assms] by (simp add: puts_follow_def)

theorem managers_follow_the_state_witness:
  "list_all (put_ok (maintained_demo ''2'' ''BLOCKED'')) (w_puts
     (perform (maintained_demo ''2'' ''BLOCKED'') demo_tokens demo_schemas confirm_closed (maintained_world ''CLOSING'' 2)))"
  using managers_follow_the_state [OF reachable.performed [OF reachable.here],
      of "maintained_demo ''2'' ''BLOCKED''" demo_tokens demo_schemas confirm_closed "maintained_world ''CLOSING'' 2"]
  by (auto simp: maintained_world_def demo_world_def simp del: perform.simps)

section \<open>The barrier over all managers\<close>

interpretation timed: db_blind_relation later
  by unfold_locales (auto simp: later_def)

interpretation time_recovery: locked_recovery_relation later ext for ext
  by unfold_locales (auto simp: later_def)

lemma later_putBarrier [step_intros]: "steps later (putBarrier ext a c g st)"
  by (simp add: steps_def putBarrier_def callExternal_def tick_def later_def)

lemma later_blockManagers [step_intros]:
  "steps later (forEachM (\<lambda>(agentId, nodeId). thenM (blockConfiguredManager ext agentId nodeId s g)
     (execute ext (acknowledge c agentId g))) targets)"
proof (rule time.steps_forEachM)
  fix t :: "string \<times> string"
  show "steps later (case t of (agentId, nodeId) \<Rightarrow> thenM (blockConfiguredManager ext agentId nodeId s g)
     (execute ext (acknowledge c agentId g)))"
    by (cases t) (auto simp: blockConfiguredManager_def intro!: step_intros)
qed

lemma inspectManagers_OK:
  "inspectManagers ext c expected agents roster targets w = (Inr res, w') \<Longrightarrow> map fst res = map fst targets @ agents"
proof (induction agents arbitrary: roster targets w)
  case Nil
  then show ?case by (auto simp: OK_simps)
next
  case (Cons a agents)
  then show ?case by (fastforce simp: OK_simps Let_def)
qed

lemma inspectConfiguredManagers_OK:
  "inspectConfiguredManagers ext c w = (Inr targets, w') \<Longrightarrow> map fst targets = x_agents ext"
  by (auto simp: inspectConfiguredManagers_def OK_simps dest: inspectManagers_OK)

text \<open>What an Agent answered during a run.\<close>

definition answered :: "external \<Rightarrow> world \<Rightarrow> world \<Rightarrow> string \<Rightarrow> string \<Rightarrow> nat \<Rightarrow> string \<Rightarrow> bool" where
  "answered ext w w' agentId swarmId generation state \<longleftrightarrow>
     (\<exists>n nodeId r. w_calls w \<le> n \<and> n < w_calls w' \<and> x_barrier ext n agentId = Inr r \<and>
        barrierMatches swarmId nodeId generation state r)"

lemma answered_mono: "answered ext w w' a s g st \<Longrightarrow> later v w \<Longrightarrow> later w' v' \<Longrightarrow> answered ext v v' a s g st"
  unfolding answered_def later_def by (meson le_trans less_le_trans)

lemma inspectManagerBarrier_OK:
  assumes "inspectManagerBarrier ext a nid s g st w = (Inr u, w')"
  shows "answered ext w w' a s g st"
proof -
  obtain r where "x_barrier ext (w_calls w) a = Inr r" "barrierMatches s nid g st r" "w' = tick ext w"
    using assms unfolding inspectManagerBarrier_def by (auto simp: OK_simps callExternal_OK)
  then show ?thesis
    unfolding answered_def by (intro exI [of _ "w_calls w"] exI [of _ nid] exI [of _ r]) (simp add: tick_def)
qed

lemma inspectAll_OK:
  "inspectAll ext s g st targets w = (Inr u, w') \<Longrightarrow> \<forall>a \<in> set (map fst targets). answered ext w w' a s g st"
  unfolding inspectAll_def
proof (induction targets arbitrary: w)
  case (Cons t targets)
  obtain a nid where t: "t = (a, nid)" by (cases t)
  obtain w1 where w1: "inspectManagerBarrier ext a nid s g st w = (Inr (), w1)"
    and rest: "forEachM (\<lambda>(agentId, nodeId). inspectManagerBarrier ext agentId nodeId s g st) targets w1 = (Inr u, w')"
    using Cons.prems by (auto simp: t OK_simps)
  have "steps later (inspectManagerBarrier ext a nid s g st)"
    unfolding inspectManagerBarrier_def by (intro step_intros)
  then have "later w w1" using w1 by (rule stepsD)
  moreover have "later w1 w'"
    by (rule stepsD [OF time.steps_inspectAll [unfolded inspectAll_def] rest])
  ultimately show ?case
    using Cons.IH [OF rest] answered_mono [OF inspectManagerBarrier_OK [OF w1] time.refl]
    by (auto simp: t intro: answered_mono [OF _ _ time.refl])
qed simp

lemma blockAll_OK:
  assumes "blockAll ext (x_clusterId ext) s g w = (Inr ids, w')"
  shows "ids = sort (x_agents ext) \<and> acknowledgedBy ids g (acknowledgements (x_clusterId ext) (w_db w')) \<and>
    (\<forall>a \<in> set (x_agents ext). answered ext w w' a s g ''BLOCKED'')"
proof -
  let ?c = "x_clusterId ext"
  obtain state w1 targets w2 where w1: "requireRecord ext ?c w = (Inr state, w1)"
    and w2: "inspectConfiguredManagers ext s w1 = (Inr targets, w2)"
    and rest: "thenM (forEachM (\<lambda>(agentId, nodeId).
                  thenM (blockConfiguredManager ext agentId nodeId s g)
                    (execute ext (acknowledge ?c agentId g))) targets)
         (thenM (requireRoster ext s targets ''Manager membership changed during barrier'')
         (thenM (inspectAll ext s g ''BLOCKED'' targets)
         (thenM (requireRoster ext s targets ''Manager roster changed during final block verification'')
         (bindM (requireRecord ext ?c) (\<lambda>latest.
          if ms_state latest \<noteq> ms_state state \<or> ms_generation latest \<noteq> g
          then throwM (ConflictException ''Maintenance generation changed during barrier'')
          else bindM (query ext (acknowledgements ?c)) (\<lambda>rows.
            if \<not> acknowledgedBy (sort (map fst targets)) g rows
            then throwM (ConflictException ''Missing or stale manager barrier acknowledgement'')
            else retM (sort (map fst targets)))))))) w2 = (Inr ids, w')"
    using assms unfolding blockAll_def Let_def bindM_OK if_OK
    by (elim exE conjE disjE) (auto simp: throwM_OK)
  obtain w3 w4 w5 w6 latest w7 rows w8 where
    w3: "forEachM (\<lambda>(agentId, nodeId). thenM (blockConfiguredManager ext agentId nodeId s g)
           (execute ext (acknowledge ?c agentId g))) targets w2 = (Inr (), w3)"
    and w4: "requireRoster ext s targets ''Manager membership changed during barrier'' w3 = (Inr (), w4)"
    and w5: "inspectAll ext s g ''BLOCKED'' targets w4 = (Inr (), w5)"
    and w6: "requireRoster ext s targets ''Manager roster changed during final block verification'' w5 = (Inr (), w6)"
    and w7: "requireRecord ext ?c w6 = (Inr latest, w7)"
    and w8: "query ext (acknowledgements ?c) w7 = (Inr rows, w8)"
    and acks: "acknowledgedBy (sort (map fst targets)) g rows" and ids: "ids = sort (map fst targets)" "w' = w8"
    using rest unfolding thenM_OK bindM_OK if_OK retM_OK
    by (elim exE conjE disjE) (auto simp: throwM_OK retM_OK)
  have "later w w4" "later w5 w8"
    using stepsD [OF time.steps_maintenance_reads(1) w1] stepsD [OF time.steps_inspectConfiguredManagers w2]
      stepsD [OF later_blockManagers w3] stepsD [OF time.steps_requireRoster w4] stepsD [OF time.steps_requireRoster w6]
      stepsD [OF time.steps_maintenance_reads(1) w7] stepsD [OF time.steps_query w8]
    by (auto intro: time.trans)
  then show ?thesis
    using inspectAll_OK [OF w5] inspectConfiguredManagers_OK [OF w2] answered_mono query_OK [OF w8] acks ids by auto
qed

section \<open>Closing\<close>

text \<open>The tables that decide whether a cluster is drained and acknowledged.\<close>

definition same_evidence :: "database \<Rightarrow> database \<Rightarrow> bool" where
  "same_evidence d d' \<longleftrightarrow>
     operations d' = operations d \<and> node_operations d' = node_operations d \<and>
     maintenance_active_admissions d' = maintenance_active_admissions d \<and>
     maintenance_dispatches d' = maintenance_dispatches d \<and>
     maintenance_evidence_resolutions d' = maintenance_evidence_resolutions d \<and>
     maintenance_agent_barriers d' = maintenance_agent_barriers d"

lemma same_evidence_drained:
  "same_evidence d d' \<Longrightarrow> drained c d' = drained c d \<and> acknowledgements c d' = acknowledgements c d"
  by (simp add: same_evidence_def drained_def openAdmissions_def unresolvedOperations_def openDispatches_def resolved_def
      acknowledgements_def)

lemma auditCluster_OK:
  assumes "auditCluster ext actor c action j w = (Inr u, w')"
  shows "\<exists>a. w_db w' = (w_db w)\<lparr>audit_events := a\<rparr>"
  using assms unfolding auditCluster_def bindM_OK randomUUID_def callExternal_OK
  by (auto dest!: op_audit_OK simp: tick_def)

lemma moveState_OK:
  assumes "moveState c from g to actor reason now d = Inr (n, d')" and "stateIs c [from] g d"
  shows "stateIs c [to] (g + 1) d' \<and> same_evidence d d'"
  using assms
  by (auto simp: moveState_def stateIs_def same_evidence_def find_row_update Let_def dest: find_row_Some
      split: if_splits option.splits)

lemma requireDrained_OK:
  assumes "requireDrained ext c g expected m1 m2 w = (Inr u, w')"
  shows "drained c (w_db w) \<and> acknowledgedBy expected g (acknowledgements c (w_db w)) \<and> w_db w' = w_db w"
  using assms unfolding requireDrained_def by (auto simp: OK_simps dest!: query_OK)

lemma assertOwner_OK:
  assumes "lease_assertOwner ext lease w = (Inr u, w')"
  shows "owns lease (w_clock w) (w_db w) \<and> w_db w' = w_db w"
  using assms unfolding lease_assertOwner_def queryAt_def by (auto simp: OK_simps dest!: query_OK)

lemma commitClosed_OK:
  assumes "commitClosed ext c g actor reason ids leaseOption w = (Inr True, w')"
  shows "\<exists>lease. leaseOption = Some lease \<and> owns lease (w_clock (tick ext w)) (w_db w) \<and>
    stateIs c [''CLOSING''] g (w_db w) \<and> drained c (w_db w) \<and>
    acknowledgedBy (sort ids) g (acknowledgements c (w_db w)) \<and>
    stateIs c [''CLOSED''] (g + 1) (w_db w') \<and> same_evidence (w_db w) (w_db w')"
proof -
  obtain lease body r where lease: "leaseOption = Some lease"
    and body: "body = thenM (lease_assertOwner ext lease)
            (bindM (query ext (stateIs c [''CLOSING''] g)) (\<lambda>current.
             if \<not> current then retM None
             else
                thenM (requireDrained ext c g (sort ids)
                         ''Maintenance has unresolved admission, operation or dispatch''
                         ''Complete manager barrier acknowledgement is missing'')
                (bindM (executeStmt ext (moveState c ''CLOSING'' g ''CLOSED'' actor reason)) (\<lambda>n.
                 if n \<noteq> 1 then throwM (ConflictException ''Maintenance generation changed'')
                 else thenM (auditCluster ext actor c ''CLUSTER_MAINTENANCE_CLOSED''
                        (JObj [(''generation'', JStr (show_nat (g + 1))), (''reason'', JStr reason),
                               (''managerIds'', JArr (map JStr (sort ids)))]))
                        (retM (Some ()))))))"
    and run: "inTransactionUnless ext body w = (Inr (Some r), w')"
    using assms unfolding commitClosed_def Let_def if_OK case_option_OK bindM_OK retM_OK
    by (elim exE conjE disjE) (auto simp: throwM_OK)
  then obtain w1 where w1: "body (tick ext w) = (Inr (Some r), w1)" "w_db w' = w_db w1"
    using inTransactionUnless_db [OF run] by auto
  obtain wa wb wc wd n where
    wa: "lease_assertOwner ext lease (tick ext w) = (Inr (), wa)"
    and wb: "query ext (stateIs c [''CLOSING''] g) wa = (Inr True, wb)"
    and wc: "requireDrained ext c g (sort ids) ''Maintenance has unresolved admission, operation or dispatch''
          ''Complete manager barrier acknowledgement is missing'' wb = (Inr (), wc)"
    and wd: "executeStmt ext (moveState c ''CLOSING'' g ''CLOSED'' actor reason) wc = (Inr n, wd)"
    and we: "auditCluster ext actor c ''CLUSTER_MAINTENANCE_CLOSED''
                        (JObj [(''generation'', JStr (show_nat (g + 1))), (''reason'', JStr reason),
                               (''managerIds'', JArr (map JStr (sort ids)))]) wd = (Inr (), w1)"
    using w1(1) unfolding body thenM_OK bindM_OK if_OK retM_OK
    by (elim exE conjE disjE) (auto simp: throwM_OK retM_OK)
  have db: "w_db wc = w_db w" "stateIs c [''CLOSING''] g (w_db w)"
    using assertOwner_OK [OF wa] query_OK [OF wb] requireDrained_OK [OF wc] by auto
  obtain now where "moveState c ''CLOSING'' g ''CLOSED'' actor reason now (w_db wc) = Inr (n, w_db wd)"
    using executeStmt_OK [OF wd] by blast
  then have "stateIs c [''CLOSED''] (g + 1) (w_db wd)" "same_evidence (w_db w) (w_db wd)"
    using moveState_OK db by metis+
  moreover obtain a where "w_db w1 = (w_db wd)\<lparr>audit_events := a\<rparr>"
    using auditCluster_OK [OF we] by blast
  ultimately have "stateIs c [''CLOSED''] (g + 1) (w_db w')" "same_evidence (w_db w) (w_db w')"
    using w1(2) by (simp_all add: stateIs_def same_evidence_def)
  then show ?thesis
    using lease db assertOwner_OK [OF wa] query_OK [OF wb] requireDrained_OK [OF wc] by auto
qed

definition only_leases :: "database \<Rightarrow> database \<Rightarrow> bool" where
  "only_leases d d' \<longleftrightarrow> (\<exists>x. d' = d\<lparr>maintenance_control_leases := x\<rparr>)"

interpretation leasing: db_relation only_leases
proof unfold_locales
  show "only_leases d d" for d
    unfolding only_leases_def by (rule exI [of _ "maintenance_control_leases d"]) simp
qed (auto simp: only_leases_def)

lemma release_leases: "steps (on_db only_leases) (thenM (attempt (lease_release ext lease)) (retM ()))"
  unfolding lease_release_def
  by (intro step_intros leasing.steps_writeStmt) (auto simp: expireLease_def only_leases_def)

lemma withLease_OK:
  assumes "withLease ext c run w = (Inr x, w')"
  shows "\<exists>lease w1 w2. lease_acquire ext c 30 w = (Inr lease, w1) \<and> run lease w1 = (Inr x, w2) \<and>
    only_leases (w_db w2) (w_db w') \<and> later w2 w'"
proof -
  obtain lease w1 where w1: "lease_acquire ext c 30 w = (Inr lease, w1)"
    and fin: "finallyM (run lease) (thenM (attempt (lease_release ext lease)) (retM ())) w1 = (Inr x, w')"
    using assms unfolding withLease_def bindM_OK by blast
  let ?release = "thenM (attempt (lease_release ext lease)) (retM ())"
  obtain w2 where w2: "run lease w1 = (Inr x, w2)" "?release w2 = (Inr (), w')"
    using fin by (auto simp: finallyM_def split: prod.splits sum.splits)
  have "steps later ?release" unfolding lease_release_def by (intro step_intros)
  from stepsD [OF this w2(2)] show ?thesis
    using w1 w2 stepsD [OF release_leases w2(2)] by (auto simp: on_db_def)
qed

lemma requireScopedAdmin_OK:
  "requireScopedAdmin ext m c actor w = (Inr u, w') \<Longrightarrow> c = x_clusterId ext \<and> w' = w"
  by (auto simp: requireScopedAdmin_def throwM_def retM_def split: if_splits)

lemma confirmClosed_OK:
  assumes "maintenance_confirmClosed ext c actor payload w = (Inr reply, w')"
  shows "\<exists>g reason s lease w1 w2 ids w3 w4. c = x_clusterId ext \<and> reply = TransitionReply c ''CLOSED'' (g + 1) \<and>
    later w w1 \<and> w_db w1 = w_db w \<and> lease_acquire ext c 30 w1 = (Inr lease, w2) \<and>
    blockAll ext c s g w2 = (Inr ids, w3) \<and>
    commitClosed ext c g (pr_actorId actor) reason ids (Some lease) w3 = (Inr True, w4) \<and>
    only_leases (w_db w4) (w_db w') \<and> later w4 w'"
proof -
  let ?run = "\<lambda>s g reason lease.
          bindM (blockAll ext c s g) (\<lambda>blocked.
          bindM (commitClosed ext c g (pr_actorId actor) reason blocked (Some lease)) (\<lambda>updated.
          if \<not> updated then throwM (ConflictException ''Maintenance closure generation changed'')
          else retM (TransitionReply c ''CLOSED'' (g + 1))))"
  obtain s g reason w0 w1 w2 w3 body where c: "c = x_clusterId ext"
    and w0: "requireEnforcement ext ''Maintenance enforcement and fixed registration are required'' w = (Inr s, w0)"
    and w1: "objectBody ''Invalid closure request'' payload w0 = (Inr body, w1)"
    and w2: "generationBody ''A bounded reason and decimal generation are required'' body w1 = (Inr (g, reason), w2)"
    and w3: "assertRegistered ext c w2 = (Inr (), w3)"
    and leased: "withLease ext c (?run s g reason) w3 = (Inr reply, w')"
    using assms unfolding maintenance_confirmClosed_def thenM_OK bindM_OK if_OK case_prod_OK
    by (elim exE conjE disjE) (auto simp: throwM_OK dest!: requireScopedAdmin_OK)
  have "reads_only w w3"
    using stepsD [OF reading.steps_request_checks(4) w0] stepsD [OF reading.steps_request_checks(1) w1]
      stepsD [OF reading.steps_request_checks(2) w2] stepsD [OF reading.steps_assertRegistered w3]
    by (blast intro: reading.trans)
  then have "later w w3" "w_db w3 = w_db w" by (simp_all add: reads_only_def only_db_iff later_def)
  then show ?thesis
    using c withLease_OK [OF leased] by (fastforce simp: OK_simps)
qed

lemma lease_acquire_later: "steps later (lease_acquire ext c ttl)"
  by (rule time_recovery.steps_maintenance_writes)

text \<open>
  C10. A cluster is closed only when it is quiet: if a request to confirm closing succeeds, the cluster
  is \<open>CLOSED\<close> at the next generation, nothing of it is unfinished (no open admission, no
  unfinished operation, no dispatch without outcome or resolution), the recorded acknowledgements are
  exactly those of the configured managers at the closing generation, and each of them answered
  during the request that it is blocked at that generation.
\<close>

theorem closing_is_safe:
  assumes "maintenance_confirmClosed ext c actor payload w = (Inr reply, w')"
  shows "\<exists>g s. reply = TransitionReply c ''CLOSED'' (g + 1) \<and> stateIs c [''CLOSED''] (g + 1) (w_db w') \<and>
    drained c (w_db w') \<and> acknowledgedBy (sort (x_agents ext)) g (acknowledgements c (w_db w')) \<and>
    (\<forall>a \<in> set (x_agents ext). answered ext w w' a s g ''BLOCKED'')"
proof -
  obtain g reason s lease w1 w2 ids w3 w4 where run: "c = x_clusterId ext" "reply = TransitionReply c ''CLOSED'' (g + 1)"
    "later w w1" "lease_acquire ext c 30 w1 = (Inr lease, w2)" "blockAll ext c s g w2 = (Inr ids, w3)"
    "commitClosed ext c g (pr_actorId actor) reason ids (Some lease) w3 = (Inr True, w4)"
    "only_leases (w_db w4) (w_db w')" "later w4 w'"
    using confirmClosed_OK [OF assms] by blast
  have blocked: "ids = sort (x_agents ext)" "\<forall>a \<in> set (x_agents ext). answered ext w2 w3 a s g ''BLOCKED''"
    using blockAll_OK [OF run(5) [unfolded run(1)]] by auto
  have committed: "stateIs c [''CLOSED''] (g + 1) (w_db w4)" "drained c (w_db w4)"
      "acknowledgedBy (sort ids) g (acknowledgements c (w_db w4))"
    using commitClosed_OK [OF run(6)] same_evidence_drained by metis+
  have same: "same_evidence (w_db w4) (w_db w')" and closed: "stateIs c [''CLOSED''] (g + 1) (w_db w')"
    using run(7) committed(1) by (auto simp: only_leases_def same_evidence_def stateIs_def)
  have "later w w2" using run(3) stepsD [OF lease_acquire_later run(4)] by (rule time.trans)
  moreover have "later w3 w'"
    using stepsD [OF time_recovery.steps_maintenance_writes(6) run(6)] run(8) by (rule time.trans)
  ultimately have "\<forall>a \<in> set (x_agents ext). answered ext w w' a s g ''BLOCKED''"
    using blocked(2) answered_mono by blast
  then show ?thesis
    using run(2) closed committed(2,3) blocked(1) same_evidence_drained [OF same, of c]
    by (intro exI [of _ g] exI [of _ s]) (simp add: sorted_sort_id)
qed

theorem closing_is_safe_witness:
  "stateIs ''c1'' [''CLOSED''] 3 (w_db (snd (maintenance_confirmClosed (maintained_demo ''2'' ''BLOCKED'') ''c1'' root
     (transition_body ''2'') (maintained_world ''CLOSING'' 2))))"
proof -
  let ?run = "maintenance_confirmClosed (maintained_demo ''2'' ''BLOCKED'') ''c1'' root (transition_body ''2'') (maintained_world ''CLOSING'' 2)"
  have "?run = (Inr (TransitionReply ''c1'' ''CLOSED'' 3), snd ?run)"
    using maintained_closed by (metis prod.collapse)
  from closing_is_safe [OF this] show ?thesis by auto
qed

lemma stale_acknowledgement:
  assumes "(c, a) \<in> barrier_keys d" and "a \<notin> set agents"
  shows "\<not> acknowledgedBy (sort agents) g (acknowledgements c d)"
proof
  assume "acknowledgedBy (sort agents) g (acknowledgements c d)"
  then have "list_all2 (\<lambda>b e. ab_agentId b = e) (acknowledgements c d) (sort agents)"
    unfolding acknowledgedBy_def by (blast intro: list_all2_mono)
  then have "map ab_agentId (acknowledgements c d) = sort agents"
    by (simp add: list_all2_conv_all_nth list_eq_iff_nth_eq)
  then have "ab_agentId ` set (acknowledgements c d) = set agents" by (metis set_map set_sort)
  moreover have "a \<in> ab_agentId ` set (acknowledgements c d)"
    using assms(1) by (auto simp: barrier_keys_def acknowledgements_def)
  ultimately show False using assms(2) by simp
qed

lemma blockAll_stale:
  assumes "(x_clusterId ext, a) \<in> barrier_keys (w_db w)" and "a \<notin> set (x_agents ext)"
  shows "blockAll ext (x_clusterId ext) s g w \<noteq> (Inr ids, w')"
proof
  assume run: "blockAll ext (x_clusterId ext) s g w = (Inr ids, w')"
  then have "control_kept (w_db w) (w_db w')"
    using stepsD [OF hist.steps_blockAll run] by (simp add: on_db_def history_kept_def)
  then have "(x_clusterId ext, a) \<in> barrier_keys (w_db w')"
    using assms(1) by (auto simp: control_kept_def)
  then show False using blockAll_OK [OF run] stale_acknowledgement assms(2) by blast
qed

lemma acquire_keeps_barriers:
  assumes "lease_acquire ext c ttl w = (r, w')"
  shows "barrier_keys (w_db w) \<subseteq> barrier_keys (w_db w')"
  using stepsD [OF control_lease_acquire assms] by (simp add: on_db_def control_step_def control_kept_def)

lemma completeReconciliation_OK:
  assumes "completeReconciliation ext c actor payload w = (Inr reply, w')"
  shows "\<exists>g s w1 lease w2 ids w3. c = x_clusterId ext \<and> w_db w1 = w_db w \<and>
    lease_acquire ext c 30 w1 = (Inr lease, w2) \<and> blockAll ext c s g w2 = (Inr ids, w3)"
proof (cases "c = x_clusterId ext")
  case True
  obtain g reason s w1 where w1: "recovery_check ext c actor payload w = (Inr (g, reason, s), w1)"
    and leased: "withLease ext c (\<lambda>lease.
       bindM (blockAll ext c s g) (\<lambda>blocked.
       bindM (commitRecoveryTransition ext c g (pr_actorId actor) reason ''RECONCILING'' lease blocked)
         (\<lambda>updated.
          if \<not> updated then throwM (ConflictException ''Maintenance recovery generation changed'')
          else
            thenM (openAll ext c s (g + 1))
              (retM (ManagersReadyReply c ''OPEN'' (g + 1) None))))) w1 = (Inr reply, w')"
    using assms unfolding completeReconciliation_def bindM_OK case_prod_OK by blast
  have "w_db w1 = w_db w"
    using stepsD [OF reading.steps_request_inputs(1) w1] by (simp add: reads_only_def)
  then show ?thesis using True withLease_OK [OF leased] unfolding bindM_OK by blast
next
  case False
  then show ?thesis using assms foreign_cluster(5) [of c ext actor payload] by (metis throwM_OK)
qed

text \<open>
  C40. An acknowledgement is never withdrawn: once a manager has acknowledged a barrier and is then
  removed from the configuration, no request in any later state of the process closes the cluster or
  completes its reconciliation.
\<close>

theorem removed_manager_blocks_maintenance:
  assumes "reachable ext entries z w0 w" and "(c, a) \<in> barrier_keys (w_db w0)" and "a \<notin> set (x_agents ext)"
  shows "(\<exists>e. fst (maintenance_confirmClosed ext c actor payload w) = Inl e) \<and>
    (\<exists>e. fst (completeReconciliation ext c actor payload w) = Inl e)"
proof -
  have stale: "(c, a) \<in> barrier_keys (w_db w)"
    using reachable_control [OF assms(1)] assms(2) by (auto simp: control_kept_def)
  have never: False if "c = x_clusterId ext" "w_db w1 = w_db w" "lease_acquire ext c 30 w1 = (Inr lease, w2)"
      "blockAll ext c s g w2 = (Inr ids, w3)" for w1 w2 w3 :: world and lease s g ids
  proof -
    have "(x_clusterId ext, a) \<in> barrier_keys (w_db w2)"
      using stale acquire_keeps_barriers [OF that(3)] that(1,2) by auto
    then show False using blockAll_stale [OF _ assms(3)] that(1,4) by metis
  qed
  have "fst (maintenance_confirmClosed ext c actor payload w) \<noteq> Inr reply" for reply
    using confirmClosed_OK [of ext c actor payload w reply] never by (metis prod.collapse)
  moreover have "fst (completeReconciliation ext c actor payload w) \<noteq> Inr reply" for reply
    using completeReconciliation_OK [of ext c actor payload w reply] never by (metis prod.collapse)
  ultimately show ?thesis by (meson sum.exhaust_sel sumE)
qed

theorem removed_manager_blocks_maintenance_witness:
  "\<exists>e. fst (maintenance_confirmClosed (maintained_demo ''2'' ''BLOCKED'') ''c1'' root (transition_body ''2'')
     ((maintained_world ''CLOSING'' 2)\<lparr>w_db := (w_db (maintained_world ''CLOSING'' 2))\<lparr>maintenance_agent_barriers :=
        [\<lparr>ab_clusterId = ''c1'', ab_agentId = ''agent-0'', ab_generation = 2, ab_state = ''ACKNOWLEDGED''\<rparr>]\<rparr>\<rparr>)) = Inl e"
  using removed_manager_blocks_maintenance [OF reachable.here, of "''c1''" "''agent-0''"
      "(maintained_world ''CLOSING'' 2)\<lparr>w_db := (w_db (maintained_world ''CLOSING'' 2))\<lparr>maintenance_agent_barriers :=
        [\<lparr>ab_clusterId = ''c1'', ab_agentId = ''agent-0'', ab_generation = 2, ab_state = ''ACKNOWLEDGED''\<rparr>]\<rparr>\<rparr>"
      "maintained_demo ''2'' ''BLOCKED''" root "transition_body ''2''"]
  by (simp add: barrier_keys_def)

section \<open>Fencing\<close>

lemma distinct_singleton: "distinct xs \<Longrightarrow> set xs = {x} \<Longrightarrow> xs = [x]"
  by (cases xs) (auto simp: subset_singleton_iff dest: subset_singletonD)

lemma inTransaction_OK:
  "inTransaction ext body w = (Inr x, w') \<Longrightarrow> \<exists>w2. body (tick ext w) = (Inr x, w2) \<and> w' = tick ext w2"
  by (auto simp: inTransaction_def rollbackTo_def Let_def split: DbOutcome.splits prod.splits sum.splits)

lemma execute_at:
  assumes "execute ext stmt w = (Inr u, w')"
  shows "\<exists>n. stmt (w_clock w) (w_db w) = Inr (n, w_db w') \<and> w_clock w \<le> w_clock w'"
  using assms unfolding execute_def thenM_OK retM_OK
  by (auto simp: executeStmt_def Let_def tick_def split: DbOutcome.splits sum.splits prod.splits)

lemma one_lease_row:
  assumes "control_ok d" and "find_row cl_clusterId c (maintenance_control_leases d) = Some r" and "ml_clusterId lease = c"
  shows "filter (\<lambda>x. lease_row lease x \<and> P x) (maintenance_control_leases d) = (if lease_row lease r \<and> P r then [r] else [])"
proof -
  have unique: "x = r" if "x \<in> set (maintenance_control_leases d)" "cl_clusterId x = c" for x
    using that assms(1,2) find_row_unique [of cl_clusterId "maintenance_control_leases d" x] by (simp add: control_ok_def)
  have "distinct (maintenance_control_leases d)"
    using assms(1) by (auto simp: control_ok_def distinct_map)
  moreover have "set (filter (\<lambda>x. lease_row lease x \<and> P x) (maintenance_control_leases d)) = (if lease_row lease r \<and> P r then {r} else {})"
    using unique assms(3) find_row_Some [OF assms(2)] by (auto simp: lease_row_def)
  ultimately show ?thesis
    using distinct_singleton by (metis distinct_filter set_empty2)
qed

lemma owns_iff:
  assumes "control_ok d" and "find_row cl_clusterId (ml_clusterId lease) (maintenance_control_leases d) = Some r"
  shows "owns lease t d \<longleftrightarrow> lease_row lease r \<and> t < cl_expiresAt r"
  using one_lease_row [OF assms refl, of "\<lambda>x. t < cl_expiresAt x"] by (simp add: owns_def)

lemma insertLease_rows:
  "insertLease c holder ttl now d = Inr (n, d') \<Longrightarrow> maintenance_control_leases d' = maintenance_control_leases d @
     [\<lparr>cl_clusterId = c, cl_holderId = holder, cl_fenceToken = 1, cl_expiresAt = now + ttl * 1000\<rparr>]"
  by (auto simp: insertLease_def split: if_splits)

lemma renewLease_rows:
  "renewLease c holder token ttl now d = Inr (n, d') \<Longrightarrow> maintenance_control_leases d' = update_rows (\<lambda>r. cl_clusterId r = c)
     (\<lambda>x. x\<lparr>cl_holderId := holder, cl_fenceToken := token, cl_expiresAt := now + ttl * 1000\<rparr>)
     (maintenance_control_leases d)"
  by (auto simp: renewLease_def Let_def split: if_splits)

lemma owner_row: "owns lease t d \<Longrightarrow> \<exists>x \<in> set (maintenance_control_leases d). lease_row lease x"
  unfolding owns_def by (metis (mono_tags, lifting) filter_False list.size(3) zero_neq_one)

lemma lease_acquire_OK:
  assumes "lease_acquire ext c ttl w = (Inr lease, w')"
  shows "\<exists>now r'. w_clock w \<le> now \<and> now \<le> w_clock w' \<and> 5 \<le> ttl \<and> ttl \<le> 300 \<and> ml_clusterId lease = c \<and>
    (\<forall>r. find_row cl_clusterId c (maintenance_control_leases (w_db w)) = Some r \<longrightarrow>
       ml_token lease = cl_fenceToken r + 1 \<and> cl_expiresAt r \<le> w_clock w') \<and>
    find_row cl_clusterId c (maintenance_control_leases (w_db w')) = Some r' \<and> lease_row lease r' \<and>
    cl_expiresAt r' = now + ttl * 1000"
proof -
  let ?expired = "\<lambda>now d. map_option (\<lambda>r. (cl_fenceToken r, cl_expiresAt r \<le> now))
                    (find_row cl_clusterId c (maintenance_control_leases d))"
  let ?grant = "\<lambda>holder row. case row of
             Some (fenceToken, expired) \<Rightarrow>
               if \<not> expired
               then throwM (ConflictException ''Another Control Plane holds the maintenance lease'')
               else thenM (execute ext (renewLease c holder (fenceToken + 1) ttl))
                      (retM \<lparr>ml_clusterId = c, ml_holderId = holder, ml_token = fenceToken + 1\<rparr>)
           | None \<Rightarrow>
               thenM (execute ext (insertLease c holder ttl))
                 (retM \<lparr>ml_clusterId = c, ml_holderId = holder, ml_token = 1\<rparr>)"
  obtain holder w1 where ttl: "5 \<le> ttl" "ttl \<le> 300" and w1: "randomUUID ext w = (Inr holder, w1)"
    and run: "inTransaction ext (bindM (queryAt ext ?expired) (?grant holder)) w1 = (Inr lease, w')"
    using assms unfolding lease_acquire_def by (auto simp: OK_simps)
  obtain w2 row w3 where q: "queryAt ext ?expired (tick ext w1) = (Inr row, w3)" and g: "?grant holder row w3 = (Inr lease, w2)"
    and w': "w' = tick ext w2"
    using inTransaction_OK [OF run] unfolding bindM_OK by blast
  have row: "row = ?expired (w_clock (tick ext w1)) (w_db w)" and w3: "w3 = tick ext (tick ext w1)" "w_db w3 = w_db w"
    using q w1 by (auto simp: queryAt_def query_def randomUUID_def callExternal_OK split: DbOutcome.splits)
  have grow: "w_clock v \<le> w_clock (tick ext v)" for v by (simp add: tick_def)
  have clock: "w_clock w \<le> w_clock w1" using w1 grow by (simp add: randomUUID_def callExternal_OK)
  show ?thesis
  proof (cases "find_row cl_clusterId c (maintenance_control_leases (w_db w))")
    case None
    obtain w4 where "execute ext (insertLease c holder ttl) w3 = (Inr (), w4)" "w2 = w4"
      and lease: "lease = \<lparr>ml_clusterId = c, ml_holderId = holder, ml_token = 1\<rparr>"
      using g None row by (auto simp: OK_simps)
    then obtain n where ins: "insertLease c holder ttl (w_clock w3) (w_db w3) = Inr (n, w_db w2)" and late: "w_clock w3 \<le> w_clock w2"
      using execute_at by blast
    from ins have "maintenance_control_leases (w_db w2) = maintenance_control_leases (w_db w) @
        [\<lparr>cl_clusterId = c, cl_holderId = holder, cl_fenceToken = 1, cl_expiresAt = w_clock w3 + ttl * 1000\<rparr>]"
      using insertLease_rows w3(2) by metis
    then have "find_row cl_clusterId c (maintenance_control_leases (w_db w')) = Some
        \<lparr>cl_clusterId = c, cl_holderId = holder, cl_fenceToken = 1, cl_expiresAt = w_clock w3 + ttl * 1000\<rparr>"
      using None w' by (simp add: find_row_append) (simp add: find_row_def)
    then show ?thesis
      using None ttl lease clock late grow [of w1] grow [of "tick ext w1"] grow [of w2] w3 w'
      by (intro exI [of _ "w_clock w3"]) (auto simp: lease_row_def)
  next
    case (Some r)
    obtain w4 where "execute ext (renewLease c holder (cl_fenceToken r + 1) ttl) w3 = (Inr (), w4)" "w2 = w4"
      and expired: "cl_expiresAt r \<le> w_clock (tick ext w1)"
      and lease: "lease = \<lparr>ml_clusterId = c, ml_holderId = holder, ml_token = cl_fenceToken r + 1\<rparr>"
      using g Some row by (auto simp: OK_simps)
    then obtain n where ren: "renewLease c holder (cl_fenceToken r + 1) ttl (w_clock w3) (w_db w3) = Inr (n, w_db w2)"
      and late: "w_clock w3 \<le> w_clock w2"
      using execute_at by blast
    from ren have "maintenance_control_leases (w_db w2) = update_rows (\<lambda>r. cl_clusterId r = c)
        (\<lambda>x. x\<lparr>cl_holderId := holder, cl_fenceToken := cl_fenceToken r + 1, cl_expiresAt := w_clock w3 + ttl * 1000\<rparr>)
        (maintenance_control_leases (w_db w))"
      using renewLease_rows w3(2) by metis
    then have "find_row cl_clusterId c (maintenance_control_leases (w_db w')) = Some
        (r\<lparr>cl_holderId := holder, cl_fenceToken := cl_fenceToken r + 1, cl_expiresAt := w_clock w3 + ttl * 1000\<rparr>)"
      using Some w' find_row_Some [OF Some] by (simp add: find_row_update)
    then show ?thesis
      using Some ttl lease expired clock late grow [of w1] grow [of "tick ext w1"] grow [of w2] w3 w' find_row_Some [OF Some]
      by (intro exI [of _ "w_clock w3"]) (auto simp: lease_row_def)
  qed
qed

text \<open>
  C15. A maintenance lease is exclusive: it is granted, for the requested time of 5 to 300 seconds, only
  when every earlier lease of the cluster has expired or was released, and from then on no other
  lease of the cluster is owned.
\<close>

theorem lease_is_exclusive:
  assumes "control_ok (w_db w)" and "lease_acquire ext c ttl w = (Inr lease, w')"
  shows "\<exists>now. w_clock w \<le> now \<and> now \<le> w_clock w' \<and> 5 \<le> ttl \<and> ttl \<le> 300 \<and>
    (\<forall>t. owns lease t (w_db w') \<longleftrightarrow> t < now + ttl * 1000) \<and>
    (\<forall>old t. ml_clusterId old = c \<longrightarrow> owns old t (w_db w) \<longrightarrow> t < w_clock w' \<and> ml_token old < ml_token lease) \<and>
    (\<forall>other t. ml_clusterId other = c \<longrightarrow> owns other t (w_db w') \<longrightarrow> other = lease)"
proof -
  have ok: "control_ok (w_db w')"
    using stepsD [OF control_lease_acquire assms(2)] assms(1) by (simp add: on_db_def control_step_def control_kept_def)
  obtain now r' where got: "w_clock w \<le> now" "now \<le> w_clock w'" "5 \<le> ttl" "ttl \<le> 300" "ml_clusterId lease = c"
    and before: "\<And>r. find_row cl_clusterId c (maintenance_control_leases (w_db w)) = Some r \<Longrightarrow>
       ml_token lease = cl_fenceToken r + 1 \<and> cl_expiresAt r \<le> w_clock w'"
    and r': "find_row cl_clusterId c (maintenance_control_leases (w_db w')) = Some r'" "lease_row lease r'"
       "cl_expiresAt r' = now + ttl * 1000"
    using lease_acquire_OK [OF assms(2)] by blast
  have "owns lease t (w_db w') \<longleftrightarrow> t < now + ttl * 1000" for t
    using owns_iff [OF ok, of lease r' t] r' got(5) by simp
  moreover have "t < w_clock w' \<and> ml_token old < ml_token lease" if "ml_clusterId old = c" "owns old t (w_db w)" for old t
  proof -
    note old = that
    obtain x where x: "x \<in> set (maintenance_control_leases (w_db w))" "lease_row old x"
      using owner_row [OF old(2)] by blast
    then obtain r where r: "find_row cl_clusterId c (maintenance_control_leases (w_db w)) = Some r"
      using old(1) find_row_None [of cl_clusterId c] by (fastforce simp: lease_row_def)
    then show ?thesis
      using owns_iff [OF assms(1), of old r t] before [OF r] old by (auto simp: lease_row_def)
  qed
  moreover have "other = lease" if "ml_clusterId other = c" "owns other t (w_db w')" for other t
    using owns_iff [OF ok, of other r' t] r' that got(5) by (simp add: lease_row_def)
  ultimately show ?thesis using got by blast
qed

lemma maintained_lease:
  "lease_acquire (maintained_demo g st) ''c1'' 30 (maintained_world ''CLOSING'' 2) =
     (Inr \<lparr>ml_clusterId = ''c1'', ml_holderId = ''uuid'', ml_token = 1\<rparr>, leased ''uuid'' 1 1000 (maintained_world ''CLOSING'' 2))"
  using first_lease [of "maintained_world ''CLOSING'' 2"]
  by (simp add: maintained_world_def demo_world_def empty_db_def maintained_def)

theorem lease_is_exclusive_witness:
  "\<exists>now. 1000 \<le> now \<and> now \<le> 1005 \<and>
    (\<forall>t. owns \<lparr>ml_clusterId = ''c1'', ml_holderId = ''uuid'', ml_token = 1\<rparr> t
       (w_db (leased ''uuid'' 1 1000 (maintained_world ''CLOSING'' 2))) \<longleftrightarrow> t < now + 30 * 1000)"
  using lease_is_exclusive [OF maintained_control_ok maintained_lease]
  by (auto simp: leased_def maintained_world_def demo_world_def)

subsection \<open>Several control planes\<close>

text \<open>
  A fleet of processes shares one database. A request under a lease is not atomic: between its
  transactions other processes may act. \<open>coordinate\<close> runs one transaction of a coordinator, and
  \<open>fleet\<close> is any sequence of such transactions and of whole activities, each of any process.
\<close>

datatype CoordinatorCall =
    AcquireLease string nat
  | ReleaseLease MaintenanceLease
  | AcknowledgeBarrier string string nat
  | CommitClosed string nat string string "string list" MaintenanceLease
  | CommitReconciling string nat string string MaintenanceLease
  | CommitOpen string nat string string MaintenanceLease "string list"
  | ResolveEvidence ResolveEvidenceInput "LockedResource option"

fun coordinate :: "external \<Rightarrow> CoordinatorCall \<Rightarrow> unit cp" where
  "coordinate ext (AcquireLease c ttl) = thenM (lease_acquire ext c ttl) (retM ())"
| "coordinate ext (ReleaseLease lease) = lease_release ext lease"
| "coordinate ext (AcknowledgeBarrier c a g) = execute ext (acknowledge c a g)"
| "coordinate ext (CommitClosed c g actor reason ids lease) =
     thenM (commitClosed ext c g actor reason ids (Some lease)) (retM ())"
| "coordinate ext (CommitReconciling c g actor reason lease) =
     thenM (commitRecoveryTransition ext c g actor reason ''CLOSED'' lease []) (retM ())"
| "coordinate ext (CommitOpen c g actor reason lease ids) =
     thenM (commitRecoveryTransition ext c g actor reason ''RECONCILING'' lease ids) (retM ())"
| "coordinate ext (ResolveEvidence i locked) = resolveWithinTransaction ext i locked"

fun call_lease :: "CoordinatorCall \<Rightarrow> MaintenanceLease option" where
  "call_lease (ReleaseLease lease) = Some lease"
| "call_lease (CommitClosed c g actor reason ids lease) = Some lease"
| "call_lease (CommitReconciling c g actor reason lease) = Some lease"
| "call_lease (CommitOpen c g actor reason lease ids) = Some lease"
| "call_lease (ResolveEvidence i locked) = Some (ri_lease i)"
| "call_lease _ = None"

inductive fleet :: "database \<Rightarrow> database \<Rightarrow> bool" for d where
  start: "fleet d d"
| activity: "fleet d (w_db w) \<Longrightarrow> fleet d (w_db (perform ext entries z a w))"
| transaction: "fleet d (w_db w) \<Longrightarrow> fleet d (w_db (snd (coordinate ext call w)))"

lemma coordinate_history: "steps (on_db history_kept) (coordinate ext call)"
  by (cases call) (auto intro!: step_intros)

lemma fleet_control: "fleet d d' \<Longrightarrow> control_kept d d'"
proof (induction rule: fleet.induct)
  case (activity w ext entries z a)
  then show ?case using reachable_control [OF reachable.performed [OF reachable.here]] control_kept_trans by blast
next
  case (transaction w ext call)
  then show ?case
    using stepsD [OF coordinate_history surjective_pairing] control_kept_trans by (fastforce simp: on_db_def history_kept_def)
qed simp

text \<open>A lease that no row carries any more.\<close>

definition fenced :: "MaintenanceLease \<Rightarrow> database \<Rightarrow> bool" where
  "fenced lease d \<longleftrightarrow> (\<forall>r \<in> set (maintenance_control_leases d). \<not> lease_row lease r)"

lemma superseded_fenced:
  assumes "control_ok d" and "find_row cl_clusterId (ml_clusterId lease) (maintenance_control_leases d) = Some r"
    and "ml_token lease < cl_fenceToken r"
  shows "fenced lease d"
proof -
  have "x = r" if "x \<in> set (maintenance_control_leases d)" "cl_clusterId x = ml_clusterId lease" for x
    using that assms(1,2) find_row_unique [of cl_clusterId "maintenance_control_leases d" x] by (simp add: control_ok_def)
  then show ?thesis using assms(3) by (auto simp: fenced_def lease_row_def)
qed

lemma fenced_assertOwner:
  "fenced lease (w_db w) \<Longrightarrow> \<exists>e. lease_assertOwner ext lease w = (Inl e, tick ext w)"
  using owner_row [of lease "w_clock w" "w_db w"]
  by (auto simp: fenced_def lease_assertOwner_def queryAt_def query_def bindM_def throwM_def split: DbOutcome.splits)

lemma fenced_transaction:
  assumes "fenced lease (w_db w)"
  shows "\<exists>e w'. inTransaction ext (thenM (lease_assertOwner ext lease) k) w = (Inl e, w') \<and> w_db w' = w_db w"
    and "\<exists>e w'. inTransactionUnless ext (thenM (lease_assertOwner ext lease) k') w = (Inl e, w') \<and> w_db w' = w_db w"
proof -
  obtain e where e: "lease_assertOwner ext lease (tick ext w) = (Inl e, tick ext (tick ext w))"
    using fenced_assertOwner [of lease "tick ext w"] assms by auto
  then have body: "thenM (lease_assertOwner ext lease) k (tick ext w) = (Inl e, tick ext (tick ext w))"
      "thenM (lease_assertOwner ext lease) k' (tick ext w) = (Inl e, tick ext (tick ext w))"
    by (simp_all add: thenM_def bindM_def)
  show "\<exists>e w'. inTransaction ext (thenM (lease_assertOwner ext lease) k) w = (Inl e, w') \<and> w_db w' = w_db w"
    "\<exists>e w'. inTransactionUnless ext (thenM (lease_assertOwner ext lease) k') w = (Inl e, w') \<and> w_db w' = w_db w"
    by (auto simp: inTransaction_def inTransactionUnless_def body rollbackTo_def Let_def split: DbOutcome.splits)
qed

lemma fenced_release:
  assumes "fenced lease (w_db w)"
  shows "\<exists>e w'. lease_release ext lease w = (Inl e, w') \<and> w_db w' = w_db w"
proof -
  have "update_rows (lease_row lease) f (maintenance_control_leases (w_db w)) = maintenance_control_leases (w_db w)" for f
    using assms by (auto simp: fenced_def update_rows_def intro!: map_idI)
  moreover have "filter (lease_row lease) (maintenance_control_leases (w_db w)) = []"
    using assms by (simp add: fenced_def filter_empty_conv)
  ultimately show ?thesis
    by (auto simp: lease_release_def executeStmt_def expireLease_def bindM_def throwM_def Let_def split: DbOutcome.splits)
qed

lemma fenced_call:
  assumes "fenced lease (w_db w)" and "call_lease call = Some lease"
  shows "\<exists>e w'. coordinate ext call w = (Inl e, w') \<and> w_db w' = w_db w"
proof -
  have failed: "\<exists>e w'. bindM m f w = (Inl e, w') \<and> w_db w' = w_db w"
    if "\<exists>e w'. m w = (Inl e, w') \<and> w_db w' = w_db w" for m :: "'x cp" and f :: "'x \<Rightarrow> 'y cp"
    using that by (auto simp: bindM_def)
  show ?thesis
    using assms fenced_release [OF assms(1)]
    by (cases call)
       (auto simp: commitClosed_def commitRecoveryTransition_def resolveWithinTransaction_def Let_def thenM_def [where k = "retM ()"]
         intro!: failed fenced_transaction simp: throwM_def)
qed

text \<open>
  C11. A superseded coordinator is fenced: once another control plane has acquired the lease of the
  cluster, whatever the processes of the fleet do before and after, every call with the older lease
  (closing, reopening, resolving evidence, releasing) fails and changes nothing.
\<close>

theorem superseded_lease_is_fenced:
  assumes "control_ok (w_db w1)" and "lease_acquire ext1 c ttl1 w1 = (Inr lease, w1')"
    and "fleet (w_db w1') (w_db w2)" and "lease_acquire ext2 c ttl2 w2 = (Inr lease', w2')"
    and "fleet (w_db w2') (w_db w)" and "call_lease call = Some lease"
  shows "ml_token lease < ml_token lease' \<and>
    (\<exists>e w'. coordinate ext call w = (Inl e, w') \<and> w_db w' = w_db w)"
proof -
  have kept: "control_kept (w_db w1) (w_db w1')" "control_kept (w_db w2) (w_db w2')"
    using stepsD [OF control_lease_acquire assms(2)] stepsD [OF control_lease_acquire assms(4)]
    by (simp_all add: on_db_def control_step_def)
  note later_kept = fleet_control [OF assms(3)] fleet_control [OF assms(5)]
  have ok: "control_ok (w_db w)"
    using assms(1) kept later_kept by (simp add: control_kept_def)
  obtain r1 where r1: "find_row cl_clusterId c (maintenance_control_leases (w_db w1')) = Some r1" "lease_row lease r1"
      "ml_clusterId lease = c"
    using lease_acquire_OK [OF assms(2)] by blast
  obtain r2 where r2: "find_row cl_clusterId c (maintenance_control_leases (w_db w2)) = Some r2" "lease_evolves r1 r2"
    using r1(1) later_kept(1) unfolding control_kept_def rows_evolve_def by blast
  obtain r3 where r3: "find_row cl_clusterId c (maintenance_control_leases (w_db w2')) = Some r3" "lease_row lease' r3"
    and token: "ml_token lease' = cl_fenceToken r2 + 1"
    using lease_acquire_OK [OF assms(4)] r2(1) by blast
  obtain r4 where r4: "find_row cl_clusterId c (maintenance_control_leases (w_db w)) = Some r4" "lease_evolves r3 r4"
    using r3(1) later_kept(2) unfolding control_kept_def rows_evolve_def by blast
  have newer: "ml_token lease < ml_token lease'" and "ml_token lease' \<le> cl_fenceToken r4"
    using r1(2) r2(2) r3(2) r4(2) token by (simp_all add: lease_row_def lease_evolves_def)
  then have "fenced lease (w_db w)"
    using superseded_fenced [OF ok, of lease r4] r1(3) r4(1) by simp
  then show ?thesis using newer fenced_call [OF _ assms(6)] by blast
qed

theorem superseded_lease_is_fenced_witness:
  "\<exists>e w'. lease_release (maintained_demo ''2'' ''BLOCKED'') \<lparr>ml_clusterId = ''c1'', ml_holderId = ''uuid'', ml_token = 1\<rparr>
     (leased ''uuid'' 2 40000 ((leased ''uuid'' 1 1000 (maintained_world ''CLOSING'' 2))\<lparr>w_clock := 40000\<rparr>)) = (Inl e, w')"
proof -
  let ?w1 = "leased ''uuid'' 1 1000 (maintained_world ''CLOSING'' 2)"
  have "lease_acquire (maintained_demo ''2'' ''BLOCKED'') ''c1'' 30 (?w1\<lparr>w_clock := 40000\<rparr>) =
      (Inr \<lparr>ml_clusterId = ''c1'', ml_holderId = ''uuid'', ml_token = 2\<rparr>, leased ''uuid'' 2 40000 (?w1\<lparr>w_clock := 40000\<rparr>))"
    using next_lease [of "?w1\<lparr>w_clock := 40000\<rparr>" "''uuid''" 31003] by (simp add: leased_def)
  moreover have "fleet (w_db ?w1) (w_db (?w1\<lparr>w_clock := 40000\<rparr>))" by (simp add: fleet.start)
  ultimately show ?thesis
    using superseded_lease_is_fenced [OF maintained_control_ok maintained_lease _ _ fleet.start, of
        "?w1\<lparr>w_clock := 40000\<rparr>" "maintained_demo ''2'' ''BLOCKED''" 30
        "\<lparr>ml_clusterId = ''c1'', ml_holderId = ''uuid'', ml_token = 2\<rparr>" "leased ''uuid'' 2 40000 (?w1\<lparr>w_clock := 40000\<rparr>)"
        "ReleaseLease \<lparr>ml_clusterId = ''c1'', ml_holderId = ''uuid'', ml_token = 1\<rparr>" "maintained_demo ''2'' ''BLOCKED''"]
    by auto
qed

end
