(* ===== verification/Evidence_Outcomes.thy ===== *)
theory Evidence_Outcomes
  imports Maintenance_Safety
begin

text \<open>
  The resolution of orphaned evidence: raw evidence is never rewritten, and a dispatch counts as
  resolved only when its operation is finished or the Agent showed during the request that it had no effect.
\<close>

section \<open>Raw evidence\<close>

definition raw_kept :: "database \<Rightarrow> database \<Rightarrow> bool" where
  "raw_kept d d' \<longleftrightarrow>
     maintenance_dispatches d' = maintenance_dispatches d \<and>
     maintenance_active_admissions d' = maintenance_active_admissions d \<and>
     rollback_attempts d' = rollback_attempts d"

interpretation raw: db_relation raw_kept
  by unfold_locales (auto simp: raw_kept_def)

lemma raw_statements [step_intros]:
  "steps (on_db raw_kept) (executeStmt ext (failOperation c reason eo))"
  "steps (on_db raw_kept) (executeStmt ext (failDeployment back oid dep reason))"
  "steps (on_db raw_kept) (execute ext (insertResolution row))"
  by (rule raw.steps_writeStmt raw.steps_write;
      cases eo; auto simp: raw_kept_def failDeployment_def insertResolution_def Let_def split: if_splits)+

lemma raw_op_audit [step_intros]: "steps (on_db raw_kept) (op_audit ext i)"
  unfolding op_audit_def by (rule raw.steps_write) (auto simp: raw_kept_def)


section \<open>What a resolution means\<close>

















section \<open>The request\<close>

text \<open>Everything before the transaction changes leases and barrier acknowledgements only.\<close>

definition evidence_kept :: "database \<Rightarrow> database \<Rightarrow> bool" where
  "evidence_kept d d' \<longleftrightarrow> raw_kept d d' \<and> operations d' = operations d \<and> node_operations d' = node_operations d \<and>
     cluster_maintenance_states d' = cluster_maintenance_states d \<and>
     maintenance_evidence_resolutions d' = maintenance_evidence_resolutions d"

interpretation preparing: db_relation evidence_kept
  by unfold_locales (simp_all add: evidence_kept_def raw_kept_def)




lemma preparing_statements [step_intros]:
  "steps (on_db evidence_kept) (execute ext (renewLease c holder token ttl))"
  "steps (on_db evidence_kept) (execute ext (insertLease c holder ttl))"
  "steps (on_db evidence_kept) (execute ext (acknowledge c a g))"
  by (rule preparing.steps_write;
      auto simp: renewLease_def insertLease_def acknowledge_def Let_def evidence_kept_def raw_kept_def split: if_splits)+


lemma preparing_putBarrier [step_intros]: "steps (on_db evidence_kept) (putBarrier ext a c g st)"
  by (simp add: steps_def putBarrier_def callExternal_def tick_def on_db_def preparing.T_refl)















lemma raw_expireLease [step_intros]: "steps (on_db raw_kept) (executeStmt ext (expireLease lease))"
  by (rule raw.steps_writeStmt) (auto simp: expireLease_def raw_kept_def)






section \<open>A run\<close>

















end
