(* ===== verification/Async.thy ===== *)
theory Async
  imports Prelude
begin

text \<open>
  Asynchronous functions of one JavaScript object. Code between two \<open>await\<close>s runs without
  interruption; at an \<open>await\<close> the call is suspended, other calls run on the same object, and
  the call resumes with the answer to what it waits for.

  A suspended call is a \<open>proc\<close>: what it waits for (\<open>'q\<close>) and what it does with the answer
  (\<open>'r\<close>), the current time and the state (\<open>'s\<close>) that it then finds. A \<open>datatype\<close> of
  such trees is well founded, so every call makes finitely many requests. \<open>event_loop\<close> is the
  step relation of any number of concurrent calls. The locale \<open>interference\<close> proves rules
  about single calls sound for the whole event loop (rely and guarantee are the same relation).
\<close>

section \<open>Calls\<close>

datatype ('s, 'q, 'r, 'e, 'a) proc =
    Settled "'e + 'a"
  | Await "'q option" "'r \<Rightarrow> nat \<Rightarrow> 's \<Rightarrow> 's \<times> ('s, 'q, 'r, 'e, 'a) proc"

text \<open>An asynchronous function runs up to its first suspension when it is called.\<close>

type_synonym ('s, 'q, 'r, 'e, 'a) async = "nat \<Rightarrow> 's \<Rightarrow> 's \<times> ('s, 'q, 'r, 'e, 'a) proc"

definition settle :: "'e + 'a \<Rightarrow> ('s, 'q, 'r, 'e, 'a) async" where
  "settle r now s = (s, Settled r)"

text \<open>\<open>requesting q\<close> is a promise for the answer to \<open>q\<close>.\<close>

definition requesting :: "'q \<Rightarrow> ('r \<Rightarrow> 'e + 'a) \<Rightarrow> ('s, 'q, 'r, 'e, 'a) async" where
  "requesting q f now s = (s, Await (Some q) (\<lambda>reply now' s'. (s', Settled (f reply))))"

definition updating :: "(nat \<Rightarrow> 's \<Rightarrow> 's) \<Rightarrow> ('s, 'q, 'r, 'e, 'a) async \<Rightarrow> ('s, 'q, 'r, 'e, 'a) async" where
  "updating f m now s = m now (f now s)"

definition inspecting :: "(nat \<Rightarrow> 's \<Rightarrow> ('s, 'q, 'r, 'e, 'a) async) \<Rightarrow> ('s, 'q, 'r, 'e, 'a) async" where
  "inspecting f now s = f now s now s"

text \<open>\<open>chainA m f\<close> goes on with \<open>f\<close> in the same turn in which \<open>m\<close> settles.\<close>

primrec chainP ::
    "('s, 'q, 'r, 'e, 'a) proc \<Rightarrow> ('e + 'a \<Rightarrow> ('s, 'q, 'r, 'e, 'b) async) \<Rightarrow> ('s, 'q, 'r, 'e, 'b) async" where
  "chainP (Settled r) f now s = f r now s"
| "chainP (Await q k) f now s =
     (s, Await q (\<lambda>reply now' s'. (\<lambda>(s'', rest). rest f now' s'') (map_prod id chainP (k reply now' s'))))"

definition chainA ::
    "('s, 'q, 'r, 'e, 'a) async \<Rightarrow> ('e + 'a \<Rightarrow> ('s, 'q, 'r, 'e, 'b) async) \<Rightarrow> ('s, 'q, 'r, 'e, 'b) async" where
  "chainA m f now s = (case m now s of (s', p) \<Rightarrow> chainP p f now s')"

text \<open>
  \<open>await m\<close> with its handler \<open>f\<close> for both outcomes: even when \<open>m\<close> has settled, the
  continuation runs in a later turn.
\<close>

definition yielding :: "('s, 'q, 'r, 'e, 'a) async \<Rightarrow> ('s, 'q, 'r, 'e, 'a) async" where
  "yielding m now s = (s, Await None (\<lambda>reply. m))"

definition await ::
    "('s, 'q, 'r, 'e, 'a) async \<Rightarrow> ('e + 'a \<Rightarrow> ('s, 'q, 'r, 'e, 'b) async) \<Rightarrow> ('s, 'q, 'r, 'e, 'b) async" where
  "await m f = chainA m (\<lambda>r. yielding (f r))"

text \<open>\<open>const x = await m; ...\<close> outside a \<open>try\<close> block: an error is passed on.\<close>

definition bindA ::
    "('s, 'q, 'r, 'e, 'a) async \<Rightarrow> ('a \<Rightarrow> ('s, 'q, 'r, 'e, 'b) async) \<Rightarrow> ('s, 'q, 'r, 'e, 'b) async" where
  "bindA m f = await m (\<lambda>r. case r of Inl e \<Rightarrow> settle (Inl e) | Inr x \<Rightarrow> f x)"

section \<open>One call alone\<close>

text \<open>
  \<open>runA m\<close> answers the requests of a single call: \<open>answer q\<close> is the answer to \<open>q\<close>, and turn
  \<open>n\<close> takes place at time \<open>clock n\<close>. The number of turns, the time and the state are threaded
  through. The function is total, so every call settles.
\<close>

type_synonym 's moment = "nat \<times> nat \<times> 's"

primrec runP ::
    "('s, 'q, 'r, 'e, 'a) proc \<Rightarrow> ('q option \<Rightarrow> 'r) \<Rightarrow> (nat \<Rightarrow> nat) \<Rightarrow> 's moment \<Rightarrow> ('e + 'a) \<times> 's moment" where
  "runP (Settled r) answer clock w = (r, w)"
| "runP (Await q k) answer clock w =
     (\<lambda>(s', rest). rest answer clock (Suc (fst w), clock (fst w), s'))
        (map_prod id runP (k (answer q) (clock (fst w)) (snd (snd w))))"

definition runA ::
    "('s, 'q, 'r, 'e, 'a) async \<Rightarrow> ('q option \<Rightarrow> 'r) \<Rightarrow> (nat \<Rightarrow> nat) \<Rightarrow> 's moment \<Rightarrow> ('e + 'a) \<times> 's moment" where
  "runA m answer clock w =
     (case m (fst (snd w)) (snd (snd w)) of (s', p) \<Rightarrow> runP p answer clock (fst w, fst (snd w), s'))"

lemma runA_settle: "runA (settle r) answer clock w = (r, w)"
  by (simp add: runA_def settle_def)

lemma runA_request:
  "runA (requesting q f) answer clock (n, t, s) = (f (answer (Some q)), Suc n, clock n, s)"
  by (simp add: runA_def requesting_def)

lemma runA_update: "runA (updating f m) answer clock (n, t, s) = runA m answer clock (n, t, f t s)"
  by (simp add: runA_def updating_def)

lemma runA_inspect: "runA (inspecting f) answer clock (n, t, s) = runA (f t s) answer clock (n, t, s)"
  by (simp add: runA_def inspecting_def)

lemma runA_yielding: "runA (yielding m) answer clock (n, t, s) = runA m answer clock (Suc n, clock n, s)"
  by (simp add: runA_def yielding_def split_beta)

lemma runP_chain:
  "(case chainP p f t s of (s', p') \<Rightarrow> runP p' answer clock (n, t, s')) =
     (case runP p answer clock (n, t, s) of (r, w) \<Rightarrow> runA (f r) answer clock w)"
proof (induction p arbitrary: n t s)
  case (Settled r)
  then show ?case by (simp add: runA_def)
next
  case (Await q k)
  obtain s' p where k: "k (answer q) (clock n) s = (s', p)"
    by (cases "k (answer q) (clock n) s")
  have "(case chainP p f (clock n) s' of (s'', p') \<Rightarrow> runP p' answer clock (Suc n, clock n, s'')) =
      (case runP p answer clock (Suc n, clock n, s') of (r, w) \<Rightarrow> runA (f r) answer clock w)"
    by (rule Await.IH [OF rangeI [of k "answer q"] rangeI [of _ "clock n"] rangeI [of _ s]])
      (simp add: k)
  then show ?case by (simp add: k split_beta)
qed

lemma runA_chain:
  "runA (chainA m f) answer clock w =
     (case runA m answer clock w of (r, w') \<Rightarrow> runA (f r) answer clock w')"
proof -
  obtain n t s where w: "w = (n, t, s)" by (cases w)
  obtain s' p where m: "m t s = (s', p)" by (cases "m t s")
  show ?thesis
    using runP_chain [where p = p and f = f and t = t and s = s' and n = n] by (simp add: runA_def chainA_def w m)
qed

lemma runA_await:
  "runA (await m f) answer clock w =
     (case runA m answer clock w of (r, n, t, s) \<Rightarrow> runA (f r) answer clock (Suc n, clock n, s))"
  by (simp add: await_def runA_chain runA_yielding split_beta) (metis prod.collapse runA_yielding)

lemma runA_bindA:
  "runA (bindA m f) answer clock w =
     (case runA m answer clock w of
        (Inl e, n, t, s) \<Rightarrow> (Inl e, Suc n, clock n, s)
      | (Inr x, n, t, s) \<Rightarrow> runA (f x) answer clock (Suc n, clock n, s))"
  by (simp add: bindA_def runA_await runA_settle split: prod.splits sum.splits)

lemmas runA_rules = runA_settle runA_request runA_update runA_inspect runA_yielding runA_chain runA_await runA_bindA

section \<open>The event loop\<close>

type_synonym ('q, 'r) history = "('q option \<times> 'r) list"

record ('s, 'q, 'r, 'e, 'a) event_loop =
  el_state :: 's
  el_calls :: "(('q, 'r) history \<times> ('s, 'q, 'r, 'e, 'a) proc) list"

text \<open>A new call starts, or a suspended call gets an answer; each runs to its next suspension.\<close>

inductive turn ::
    "('s, 'q, 'r, 'e, 'a) async set \<Rightarrow> ('q \<Rightarrow> 'r \<Rightarrow> bool)
      \<Rightarrow> ('s, 'q, 'r, 'e, 'a) event_loop \<Rightarrow> ('s, 'q, 'r, 'e, 'a) event_loop \<Rightarrow> bool"
  for entries answers where
  start: "m \<in> entries \<Longrightarrow> m now (el_state l) = (s', p) \<Longrightarrow>
    turn entries answers l \<lparr>el_state = s', el_calls = el_calls l @ [([], p)]\<rparr>"
| resume: "i < length (el_calls l) \<Longrightarrow> el_calls l ! i = (h, Await q k) \<Longrightarrow>
    (case q of None \<Rightarrow> True | Some req \<Rightarrow> answers req reply) \<Longrightarrow>
    k reply now (el_state l) = (s', p) \<Longrightarrow>
    turn entries answers l
      \<lparr>el_state = s', el_calls = (el_calls l)[i := (h @ [(q, reply)], p)]\<rparr>"

inductive turns ::
    "('s, 'q, 'r, 'e, 'a) async set \<Rightarrow> ('q \<Rightarrow> 'r \<Rightarrow> bool) \<Rightarrow> 's
      \<Rightarrow> ('s, 'q, 'r, 'e, 'a) event_loop \<Rightarrow> bool"
  for entries answers s0 where
  idle: "turns entries answers s0 \<lparr>el_state = s0, el_calls = []\<rparr>"
| turn: "turns entries answers s0 l \<Longrightarrow> turn entries answers l l' \<Longrightarrow> turns entries answers s0 l'"

section \<open>Reasoning about interference\<close>

text \<open>
  \<open>inv\<close> is an invariant of the shared state, \<open>rely\<close> what calls may do to it while another one
  is suspended, and \<open>allowed s h q\<close> says which requests a call with history \<open>h\<close> may make in
  state \<open>s\<close>.
  \<open>okP\<close>/\<open>okA\<close> say that a call respects all three; \<open>Q\<close> describes history, state and result when
  it settles.
\<close>

locale interference =
  fixes inv :: "'s \<Rightarrow> bool"
    and rely :: "'s \<Rightarrow> 's \<Rightarrow> bool"
    and allowed :: "'s \<Rightarrow> ('q, 'r) history \<Rightarrow> 'q \<Rightarrow> bool"
  assumes rely_refl: "rely s s"
    and rely_trans: "rely s s' \<Longrightarrow> rely s' s'' \<Longrightarrow> rely s s''"
    and allowed_rely: "allowed s h q \<Longrightarrow> rely s s' \<Longrightarrow> allowed s' h q"
begin

inductive okP ::
    "(('q, 'r) history \<Rightarrow> 's \<Rightarrow> 'e + 'a \<Rightarrow> bool) \<Rightarrow> ('q, 'r) history \<Rightarrow> 's
      \<Rightarrow> ('s, 'q, 'r, 'e, 'a) proc \<Rightarrow> bool"
  for Q where
  ok_settled: "Q h s r \<Longrightarrow> okP Q h s (Settled r)"
| ok_await: "(\<And>req. q = Some req \<Longrightarrow> allowed s h req) \<Longrightarrow>
    (\<And>reply now s'. rely s s' \<Longrightarrow> inv s' \<Longrightarrow>
       inv (fst (k reply now s')) \<and> rely s' (fst (k reply now s'))) \<Longrightarrow>
    (\<And>reply now s'. rely s s' \<Longrightarrow> inv s' \<Longrightarrow>
       okP Q (h @ [(q, reply)]) (fst (k reply now s')) (snd (k reply now s'))) \<Longrightarrow>
    okP Q h s (Await q k)"

inductive_cases okP_AwaitE: "okP Q h s (Await q k)"
inductive_cases okP_SettledE: "okP Q h s (Settled r)"

definition okA ::
    "(('q, 'r) history \<Rightarrow> 's \<Rightarrow> bool) \<Rightarrow> ('s, 'q, 'r, 'e, 'a) async
      \<Rightarrow> (('q, 'r) history \<Rightarrow> 's \<Rightarrow> 'e + 'a \<Rightarrow> bool) \<Rightarrow> bool" where
  "okA P m Q \<longleftrightarrow>
     (\<forall>h now s. P h s \<longrightarrow> inv s \<longrightarrow>
        inv (fst (m now s)) \<and> rely s (fst (m now s)) \<and> okP Q h (fst (m now s)) (snd (m now s)))"

lemma okA_D:
  assumes "okA P m Q" and "P h s" and "inv s"
  shows "inv (fst (m now s))" "rely s (fst (m now s))" "okP Q h (fst (m now s)) (snd (m now s))"
  using assms by (auto simp: okA_def)

lemma okA_settle: "(\<And>h s. P h s \<Longrightarrow> inv s \<Longrightarrow> Q h s r) \<Longrightarrow> okA P (settle r) Q"
  by (simp add: okA_def settle_def rely_refl ok_settled)

lemma okA_update:
  assumes "\<And>h now s. P h s \<Longrightarrow> inv s \<Longrightarrow> inv (f now s) \<and> rely s (f now s) \<and> P' h (f now s)"
    and "okA P' m Q"
  shows "okA P (updating f m) Q"
  using assms unfolding okA_def updating_def by (blast intro: rely_trans)

lemma okA_inspect:
  assumes "\<And>h0 now s0. P h0 s0 \<Longrightarrow> inv s0 \<Longrightarrow>
    okA (\<lambda>h s. h = h0 \<and> s = s0) (f now s0) Q"
  shows "okA P (inspecting f) Q"
  using assms unfolding okA_def inspecting_def by blast

lemma okA_request:
  assumes "\<And>h s. P h s \<Longrightarrow> inv s \<Longrightarrow> allowed s h q"
    and "\<And>h s s' reply. P h s \<Longrightarrow> rely s s' \<Longrightarrow> inv s' \<Longrightarrow> Q (h @ [(Some q, reply)]) s' (f reply)"
  shows "okA P (requesting q f) Q"
  using assms by (auto simp: okA_def requesting_def rely_refl intro!: ok_await ok_settled)

lemma okP_chain:
  assumes "okP R h s p" and "\<And>r. okA (\<lambda>h s. R h s r) (f r) Q" and "inv s"
  shows "inv (fst (chainP p f now s)) \<and> rely s (fst (chainP p f now s)) \<and>
    okP Q h (fst (chainP p f now s)) (snd (chainP p f now s))"
  using assms
proof (induction arbitrary: now rule: okP.induct)
  case (ok_settled h s r)
  then show ?case by (simp add: okA_def)
next
  case (ok_await q s h k)
  have "inv (fst (chainP p f now' s'')) \<and> rely s' (fst (chainP p f now' s'')) \<and>
      okP Q (h @ [(q, reply)]) (fst (chainP p f now' s'')) (snd (chainP p f now' s''))"
    if "rely s s'" "inv s'" "k reply now' s' = (s'', p)" for reply now' s' s'' p
    using ok_await.IH [OF that(1,2) ok_await.prems(1), of reply now' now']
      ok_await.hyps(2) [OF that(1,2), of reply now'] that(3)
    by (auto intro: rely_trans)
  then show ?case
    using ok_await.hyps(1) ok_await.prems(2)
    by (auto simp: rely_refl split_beta intro!: okP.ok_await)
qed

lemma okA_chain:
  assumes "okA P m R" and "\<And>r. okA (\<lambda>h s. R h s r) (f r) Q"
  shows "okA P (chainA m f) Q"
  unfolding okA_def
proof (intro allI impI)
  fix h now s assume "P h s" "inv s"
  then have m: "inv (fst (m now s))" "rely s (fst (m now s))" "okP R h (fst (m now s)) (snd (m now s))"
    using assms(1) by (auto simp: okA_def)
  then show "inv (fst (chainA m f now s)) \<and> rely s (fst (chainA m f now s)) \<and>
      okP Q h (fst (chainA m f now s)) (snd (chainA m f now s))"
    using okP_chain [OF m(3) assms(2) m(1), where now = now]
    by (auto simp: chainA_def split_beta intro: rely_trans)
qed

text \<open>What holds before a later turn must be stable under interference.\<close>

lemma okA_yielding:
  assumes "okA P' m Q"
    and "\<And>h s s' reply. P h s \<Longrightarrow> rely s s' \<Longrightarrow> inv s' \<Longrightarrow> P' (h @ [(None, reply)]) s'"
  shows "okA P (yielding m) Q"
  unfolding okA_def yielding_def
proof (intro allI impI conjI)
  fix h now s assume "P h s" "inv s"
  then show "okP Q h (fst (s, Await None (\<lambda>reply. m))) (snd (s, Await None (\<lambda>reply. m)))"
    by (auto intro!: okP.ok_await intro: okA_D [OF assms(1)] assms(2))
qed (simp_all add: rely_refl)

lemma okA_await:
  assumes "okA P m R"
    and "\<And>r. okA (R' r) (f r) Q"
    and "\<And>h s s' r reply. R h s r \<Longrightarrow> rely s s' \<Longrightarrow> inv s' \<Longrightarrow> R' r (h @ [(None, reply)]) s'"
  shows "okA P (await m f) Q"
  unfolding await_def
  by (rule okA_chain [OF assms(1)], rule okA_yielding [OF assms(2)]) (rule assms(3))

lemma okA_mono:
  assumes "okA P m Q" and "\<And>h s. P' h s \<Longrightarrow> P h s"
  shows "okA P' m Q"
  using assms unfolding okA_def by blast

lemma okP_post:
  assumes "okP Q h s p" and "\<And>h s r. Q h s r \<Longrightarrow> Q' h s r"
  shows "okP Q' h s p"
  using assms by (induction rule: okP.induct) (auto intro: okP.intros)

lemma okA_post:
  assumes "okA P m Q" and "\<And>h s r. Q h s r \<Longrightarrow> Q' h s r"
  shows "okA P m Q'"
  using assms unfolding okA_def by (blast intro: okP_post)

lemma okA_case_sum:
  assumes "\<And>e. r = Inl e \<Longrightarrow> okA P (f e) Q" and "\<And>x. r = Inr x \<Longrightarrow> okA P (g x) Q"
  shows "okA P (case r of Inl e \<Rightarrow> f e | Inr x \<Rightarrow> g x) Q"
  using assms by (cases r) auto

lemma okA_bindA:
  assumes "okA P m R" and "\<And>x. okA (R' x) (f x) Q"
    and "\<And>h s s' e reply. R h s (Inl e) \<Longrightarrow> rely s s' \<Longrightarrow> inv s' \<Longrightarrow> Q (h @ [(None, reply)]) s' (Inl e)"
    and "\<And>h s s' x reply. R h s (Inr x) \<Longrightarrow> rely s s' \<Longrightarrow> inv s' \<Longrightarrow> R' x (h @ [(None, reply)]) s'"
  shows "okA P (bindA m f) Q"
  unfolding bindA_def
proof (rule okA_await [OF assms(1), where R' = "\<lambda>r h s. case r of Inl e \<Rightarrow> Q h s (Inl e) | Inr x \<Rightarrow> R' x h s"])
  fix r
  show "okA (\<lambda>h s. case r of Inl e \<Rightarrow> Q h s (Inl e) | Inr x \<Rightarrow> R' x h s)
      (case r of Inl e \<Rightarrow> settle (Inl e) | Inr x \<Rightarrow> f x) Q"
    by (cases r) (auto intro: okA_settle assms(2))
qed (auto split: sum.split intro: assms(3,4))

lemma okA_if:
  assumes "b \<Longrightarrow> okA P m Q" and "\<not> b \<Longrightarrow> okA P m' Q"
  shows "okA P (if b then m else m') Q"
  using assms by simp

text \<open>\<open>lawful s h\<close>: every request of a history was allowed by the part before it.\<close>

definition lawful :: "'s \<Rightarrow> ('q, 'r) history \<Rightarrow> bool" where
  "lawful s h \<longleftrightarrow> (\<forall>i < length h. \<forall>req. fst (h ! i) = Some req \<longrightarrow> allowed s (take i h) req)"

lemma lawful_Nil [simp]: "lawful s []"
  by (simp add: lawful_def)

lemma lawful_snoc:
  "lawful s (h @ [(q, reply)]) \<longleftrightarrow> lawful s h \<and> (\<forall>req. q = Some req \<longrightarrow> allowed s h req)"
  by (auto simp: lawful_def nth_append less_Suc_eq)

lemma lawful_rely: "lawful s h \<Longrightarrow> rely s s' \<Longrightarrow> lawful s' h"
  unfolding lawful_def by (blast intro: allowed_rely)

definition call_ok :: "'s \<Rightarrow> ('q, 'r) history \<times> ('s, 'q, 'r, 'e, 'a) proc \<Rightarrow> bool" where
  "call_ok s c \<longleftrightarrow> (\<exists>s0. rely s0 s \<and> okP (\<lambda>_ _ _. True) (fst c) s0 (snd c)) \<and> lawful s (fst c)"

lemma call_ok_rely: "call_ok s c \<Longrightarrow> rely s s' \<Longrightarrow> call_ok s' c"
  unfolding call_ok_def by (blast intro: rely_trans lawful_rely)

lemma turn_ok:
  assumes "turn entries answers l l'"
    and "\<And>m. m \<in> entries \<Longrightarrow> okA (\<lambda>h s. h = []) m (\<lambda>_ _ _. True)"
    and "inv (el_state l)" and "\<forall>c \<in> set (el_calls l). call_ok (el_state l) c"
  shows "inv (el_state l') \<and> rely (el_state l) (el_state l') \<and>
    (\<forall>c \<in> set (el_calls l'). call_ok (el_state l') c)"
  using assms(1)
proof cases
  case (start m now s' p)
  then have new: "inv s'" "rely (el_state l) s'" "okP (\<lambda>_ _ _. True) [] s' p"
    using assms(2) [OF start(2)] assms(3) unfolding okA_def by (metis fst_conv snd_conv)+
  then have "call_ok s' ([], p)"
    by (auto simp: call_ok_def intro: rely_refl)
  then show ?thesis
    using start new assms(4) by (auto intro: call_ok_rely)
next
  case (resume i h q k reply now s' p)
  then have "call_ok (el_state l) (h, Await q k)"
    using assms(4) by (metis nth_mem)
  then obtain s0 where s0: "rely s0 (el_state l)" "okP (\<lambda>_ _ _. True) h s0 (Await q k)"
      "lawful (el_state l) h"
    by (auto simp: call_ok_def)
  from s0(2) have allowed: "\<And>req. q = Some req \<Longrightarrow> allowed s0 h req"
    and next_ok: "inv s' \<and> rely (el_state l) s' \<and> okP (\<lambda>_ _ _. True) (h @ [(q, reply)]) s' p"
    using resume(5) s0(1) assms(3) by (metis okP_AwaitE fst_conv snd_conv)+
  then have "call_ok s' (h @ [(q, reply)], p)"
    using s0(1,3)
    by (auto simp: call_ok_def lawful_snoc intro: rely_refl lawful_rely allowed_rely rely_trans)
  then show ?thesis
    using resume next_ok assms(4) by (auto dest!: set_update_subset_insert [THEN subsetD] intro: call_ok_rely)
qed

lemma turns_ok:
  assumes "turns entries answers s0 l"
    and "\<And>m. m \<in> entries \<Longrightarrow> okA (\<lambda>h s. h = []) m (\<lambda>_ _ _. True)"
    and "inv s0"
  shows "inv (el_state l) \<and> rely s0 (el_state l) \<and> (\<forall>c \<in> set (el_calls l). call_ok (el_state l) c)"
  using assms(1)
proof induction
  case idle
  then show ?case using assms(3) by (simp add: rely_refl)
next
  case (turn l l')
  then show ?case
    using turn_ok [OF turn.hyps(2) assms(2)] by (blast intro: rely_trans)
qed

text \<open>Whatever a call asks, now or earlier, was allowed by its own history at that moment.\<close>

lemma requests_are_allowed:
  assumes "turns entries answers s0 l"
    and "\<And>m. m \<in> entries \<Longrightarrow> okA (\<lambda>h s. h = []) m (\<lambda>_ _ _. True)"
    and "inv s0" and "(h, p) \<in> set (el_calls l)"
  shows "lawful (el_state l) h" and "p = Await (Some req) k \<Longrightarrow> allowed (el_state l) h req"
proof -
  have "call_ok (el_state l) (h, p)"
    using turns_ok [OF assms(1-3)] assms(4) by blast
  then show "lawful (el_state l) h" and "p = Await (Some req) k \<Longrightarrow> allowed (el_state l) h req"
    by (auto simp: call_ok_def elim!: okP_AwaitE intro: allowed_rely)
qed

end

end
