(* ===== verification/Agent_Config.thy ===== *)
theory Agent_Config
  imports Agent_Schemas Dispatch
begin

text \<open>
  The configuration of the manager Agents (\<^verbatim>\<open>agent/agent-config.ts\<close>): the environment
  variables are read, the Agent list is parsed and checked for duplicates, certificates are
  loaded and the transport of every Agent is validated. \<open>JSON.parse\<close>, \<open>new URL\<close>, the URL check
  of the schema library and \<open>readFileSync\<close> are the fields of \<open>platform\<close>.
\<close>

section \<open>Data\<close>

record platform =
  pf_parseJson :: "string \<Rightarrow> json option"
  pf_parseUrl :: "string \<Rightarrow> Url option"
  pf_isUrl :: "string \<Rightarrow> bool"
  pf_readFile :: "string \<Rightarrow> string option"

record AgentConfig =
  ac_id :: string
  ac_baseUrl :: string
  ac_insecureDev :: bool
  ac_ca :: "string option"
  ac_cert :: "string option"
  ac_key :: "string option"

record ManagerAgentConfig =
  mc_primaryId :: string
  mc_agents :: "AgentConfig list"
  mc_expectedClusterId :: "string option"

text \<open>The variables of \<open>process.env\<close> that the module reads.\<close>

record AgentEnvironment =
  env_insecureDev :: "string option"
  env_expectedClusterId :: "string option"
  env_primaryId :: "string option"
  env_agentUrl :: "string option"
  env_managerAgents :: "string option"
  env_caFile :: "string option"
  env_certFile :: "string option"
  env_keyFile :: "string option"

datatype ConfigError =
    ConfigError string
  | SchemaError
  | FileError string

section \<open>Operations\<close>

text \<open>\<open>path ? readFileSync(path) : undefined\<close>: the empty path counts as absent.\<close>

definition optionalFile :: "platform \<Rightarrow> string option \<Rightarrow> ConfigError + string option" where
  "optionalFile pf path =
     (case path of
        None \<Rightarrow> Inr None
      | Some p \<Rightarrow>
          if p = [] then Inr None
          else (case pf_readFile pf p of None \<Rightarrow> Inl (FileError p) | Some c \<Rightarrow> Inr (Some c)))"

definition isLoopbackHostname :: "string \<Rightarrow> bool" where
  "isLoopbackHostname hostname =
     (hostname = ''127.0.0.1'' \<or> hostname = ''localhost'' \<or> hostname = ''::1'' \<or> hostname = ''[::1]'')"

text \<open>A strict object schema refuses unknown keys.\<close>

definition ManagerAgentDefinitionSchema :: "platform \<Rightarrow> (string \<times> string) schema" where
  "ManagerAgentDefinitionSchema pf j =
     (case j of
        JObj fs \<Rightarrow>
          if set (map fst fs) \<subseteq> {''id'', ''baseUrl''} then do {
            id \<leftarrow> z_field j ''id'' z_string1;
            baseUrl \<leftarrow> z_field j ''baseUrl'' z_string;
            if pf_isUrl pf baseUrl then Some (id, baseUrl) else None }
          else None
      | _ \<Rightarrow> None)"

definition ManagerAgentDefinitionsSchema :: "platform \<Rightarrow> (string \<times> string) list schema" where
  "ManagerAgentDefinitionsSchema pf j = do {
     definitions \<leftarrow> z_array (ManagerAgentDefinitionSchema pf) j;
     if definitions = [] then None else Some definitions }"

definition parseManagerDefinitions ::
    "platform \<Rightarrow> string option \<Rightarrow> string \<times> string \<Rightarrow> ConfigError + (string \<times> string) list" where
  "parseManagerDefinitions pf raw fallback =
     (case raw of
        None \<Rightarrow> Inr [fallback]
      | Some text \<Rightarrow>
          if text = [] then Inr [fallback]
          else case pf_parseJson pf text of
                 None \<Rightarrow> Inl (ConfigError ''DOCKLANE_MANAGER_AGENTS must be valid JSON'')
               | Some parsed \<Rightarrow>
                   (case ManagerAgentDefinitionsSchema pf parsed of
                      None \<Rightarrow> Inl SchemaError
                    | Some definitions \<Rightarrow> Inr definitions))"

definition validateTransport :: "platform \<Rightarrow> AgentConfig \<Rightarrow> ConfigError + unit" where
  "validateTransport pf config =
     (case pf_parseUrl pf (ac_baseUrl config) of
        None \<Rightarrow> Inl (ConfigError ''Invalid URL'')
      | Some url \<Rightarrow>
          if ac_insecureDev config then
            (if u_protocol url \<noteq> ''http:'' then Inl (ConfigError ''Insecure Agent mode must use http://'')
             else if \<not> isLoopbackHostname (u_hostname url)
             then Inl (ConfigError ''Insecure Agent mode is restricted to loopback'')
             else Inr ())
          else if u_protocol url \<noteq> ''https:'' then Inl (ConfigError ''Secure Agent mode requires https://'')
          else if ac_ca config = None \<or> ac_cert config = None \<or> ac_key config = None
          then Inl (ConfigError ''Docklane Agent mTLS files are required in secure mode'')
          else Inr ())"

definition resolveExpectedClusterId :: "string option \<Rightarrow> bool \<Rightarrow> ConfigError + string option" where
  "resolveExpectedClusterId value allowDevelopmentDiscovery =
     (if value = None \<and> allowDevelopmentDiscovery then Inr None
      else case value of
             None \<Rightarrow> Inl (ConfigError ''DOCKLANE_EXPECTED_CLUSTER_ID is required'')
           | Some c \<Rightarrow>
               if length c < 1 \<or> length c > 128 \<or> \<not> list_all isIdentifierChar c
               then Inl (ConfigError ''DOCKLANE_EXPECTED_CLUSTER_ID must be an explicit identifier'')
               else Inr (Some c))"

text \<open>The loop that refuses a second Agent with the same identifier or address.\<close>

fun checkDuplicates ::
    "string set \<Rightarrow> string set \<Rightarrow> (string \<times> string) list \<Rightarrow> ConfigError + unit" where
  "checkDuplicates ids urls [] = Inr ()"
| "checkDuplicates ids urls ((agentId, baseUrl) # rest) =
     (if agentId \<in> ids then Inl (ConfigError (''Duplicate manager Agent id: '' @ agentId))
      else if baseUrl \<in> urls then Inl (ConfigError (''Duplicate manager Agent baseUrl: '' @ baseUrl))
      else checkDuplicates (insert agentId ids) (insert baseUrl urls) rest)"

text \<open>\<open>AgentConfigSchema.parse({ ...definition, insecureDev, ca, cert, key })\<close> per definition.\<close>

fun parseAgents ::
    "platform \<Rightarrow> bool \<Rightarrow> string option \<Rightarrow> string option \<Rightarrow> string option \<Rightarrow> (string \<times> string) list
      \<Rightarrow> ConfigError + AgentConfig list" where
  "parseAgents pf insecureDev ca cert key [] = Inr []"
| "parseAgents pf insecureDev ca cert key ((agentId, baseUrl) # rest) =
     (if agentId = [] \<or> \<not> pf_isUrl pf baseUrl then Inl SchemaError
      else case parseAgents pf insecureDev ca cert key rest of
             Inl e \<Rightarrow> Inl e
           | Inr agents \<Rightarrow>
               Inr (\<lparr>ac_id = agentId, ac_baseUrl = baseUrl, ac_insecureDev = insecureDev,
                     ac_ca = ca, ac_cert = cert, ac_key = key\<rparr> # agents))"

fun validateAll :: "platform \<Rightarrow> AgentConfig list \<Rightarrow> ConfigError + unit" where
  "validateAll pf [] = Inr ()"
| "validateAll pf (agent # agents) =
     (case validateTransport pf agent of Inl e \<Rightarrow> Inl e | Inr _ \<Rightarrow> validateAll pf agents)"

definition orElse :: "'e + 'a \<Rightarrow> ('a \<Rightarrow> 'e + 'b) \<Rightarrow> 'e + 'b" where
  "orElse r f = (case r of Inl e \<Rightarrow> Inl e | Inr x \<Rightarrow> f x)"

definition loadManagerAgentConfig ::
    "platform \<Rightarrow> AgentEnvironment \<Rightarrow> ConfigError + ManagerAgentConfig" where
  "loadManagerAgentConfig pf env =
     (let insecureDev = (env_insecureDev env = Some ''true'') in
      orElse (resolveExpectedClusterId (env_expectedClusterId env) insecureDev) (\<lambda>expectedClusterId.
      let fallbackId = (case env_primaryId env of None \<Rightarrow> ''primary'' | Some p \<Rightarrow> p);
          fallbackUrl = (case env_agentUrl env of
              None \<Rightarrow> if insecureDev then ''http://127.0.0.1:9443'' else ''https://127.0.0.1:9443''
            | Some u \<Rightarrow> u) in
      orElse (parseManagerDefinitions pf (env_managerAgents env) (fallbackId, fallbackUrl)) (\<lambda>definitions.
      orElse (checkDuplicates {} {} definitions) (\<lambda>_.
      orElse (optionalFile pf (env_caFile env)) (\<lambda>ca.
      orElse (optionalFile pf (env_certFile env)) (\<lambda>cert.
      orElse (optionalFile pf (env_keyFile env)) (\<lambda>key.
      orElse (parseAgents pf insecureDev ca cert key definitions) (\<lambda>agents.
      orElse (validateAll pf agents) (\<lambda>_.
      let primaryId = (case env_primaryId env of None \<Rightarrow> ac_id (hd agents) | Some p \<Rightarrow> p) in
      if primaryId \<notin> set (map fst definitions)
      then Inl (ConfigError (''DOCKLANE_AGENT_PRIMARY_ID does not match a configured manager Agent: '' @ primaryId))
      else Inr \<lparr>mc_primaryId = primaryId, mc_agents = agents,
                mc_expectedClusterId = expectedClusterId\<rparr>)))))))))"

definition loadAgentConfig :: "platform \<Rightarrow> AgentEnvironment \<Rightarrow> ConfigError + AgentConfig" where
  "loadAgentConfig pf env =
     orElse (loadManagerAgentConfig pf env) (\<lambda>config.
       case find (\<lambda>agent. ac_id agent = mc_primaryId config) (mc_agents config) of
         None \<Rightarrow> Inl (ConfigError ''Primary manager Agent configuration disappeared'')
       | Some primary \<Rightarrow> Inr primary)"

section \<open>What a loaded configuration guarantees\<close>

definition transport_ok :: "platform \<Rightarrow> AgentConfig \<Rightarrow> bool" where
  "transport_ok pf config \<longleftrightarrow>
     (\<exists>url. pf_parseUrl pf (ac_baseUrl config) = Some url \<and>
        (if ac_insecureDev config
         then u_protocol url = ''http:'' \<and> isLoopbackHostname (u_hostname url)
         else u_protocol url = ''https:'' \<and> ac_ca config \<noteq> None \<and> ac_cert config \<noteq> None
              \<and> ac_key config \<noteq> None))"

text \<open>
  \<open>config_ok\<close>: the Agents are distinct, the primary is one of them, all of them use the same
  mode over a valid transport, and outside development mode the cluster is fixed.
\<close>

definition config_ok :: "platform \<Rightarrow> ManagerAgentConfig \<Rightarrow> bool" where
  "config_ok pf config \<longleftrightarrow>
     mc_primaryId config \<in> ac_id ` set (mc_agents config) \<and>
     distinct (map ac_id (mc_agents config)) \<and> distinct (map ac_baseUrl (mc_agents config)) \<and>
     list_all (transport_ok pf) (mc_agents config) \<and>
     (case mc_expectedClusterId config of
        None \<Rightarrow> list_all ac_insecureDev (mc_agents config)
      | Some c \<Rightarrow> isBoundedIdentifier c)"

lemma orElse_Inr: "orElse r f = Inr y \<longleftrightarrow> (\<exists>x. r = Inr x \<and> f x = Inr y)"
  by (simp add: orElse_def split: sum.splits)

lemma checkDuplicates_distinct:
  "checkDuplicates ids urls defs = Inr () \<Longrightarrow>
     distinct (map fst defs) \<and> distinct (map snd defs) \<and>
     set (map fst defs) \<inter> ids = {} \<and> set (map snd defs) \<inter> urls = {}"
  by (induction ids urls defs rule: checkDuplicates.induct) (auto split: if_splits)

lemma parseAgents_fields:
  "parseAgents pf dev ca cert key defs = Inr agents \<Longrightarrow>
     map ac_id agents = map fst defs \<and> map ac_baseUrl agents = map snd defs \<and>
     (\<forall>a \<in> set agents. ac_insecureDev a = dev)"
  by (induction pf dev ca cert key defs arbitrary: agents rule: parseAgents.induct)
    (auto split: if_splits sum.splits)

lemma validateTransport_ok: "validateTransport pf a = Inr () \<Longrightarrow> transport_ok pf a"
  by (auto simp: validateTransport_def transport_ok_def split: option.splits if_splits)

lemma validateAll_ok: "validateAll pf agents = Inr () \<Longrightarrow> list_all (transport_ok pf) agents"
  by (induction agents) (auto split: sum.splits intro: validateTransport_ok)

lemma resolveExpectedClusterId_Inr:
  "resolveExpectedClusterId value dev = Inr r \<Longrightarrow>
     r = value \<and> (case r of None \<Rightarrow> dev | Some c \<Rightarrow> isBoundedIdentifier c)"
  by (auto simp: resolveExpectedClusterId_def isBoundedIdentifier_def not_less Suc_le_eq
      split: option.splits if_splits)

lemma loaded_config_ok:
  assumes "loadManagerAgentConfig pf env = Inr config"
  shows "config_ok pf config \<and> mc_expectedClusterId config = env_expectedClusterId env"
proof -
  define dev where "dev \<longleftrightarrow> env_insecureDev env = Some ''true''"
  obtain defs ca cert key where
    expected: "resolveExpectedClusterId (env_expectedClusterId env) dev = Inr (mc_expectedClusterId config)"
    and dups: "checkDuplicates {} {} defs = Inr ()"
    and agents: "parseAgents pf dev ca cert key defs = Inr (mc_agents config)"
    and valid: "validateAll pf (mc_agents config) = Inr ()"
    and primary: "mc_primaryId config \<in> set (map fst defs)"
    using assms unfolding loadManagerAgentConfig_def Let_def orElse_Inr dev_def [symmetric]
    by (elim exE conjE) (simp split: if_splits; hypsubst; simp; blast)
  have "set (map fst defs) = ac_id ` set (mc_agents config)"
    using parseAgents_fields [OF agents] by (metis set_map)
  then show ?thesis
    using primary checkDuplicates_distinct [OF dups] parseAgents_fields [OF agents]
      validateAll_ok [OF valid] resolveExpectedClusterId_Inr [OF expected]
    by (auto simp: config_ok_def list_all_iff split: option.splits)
qed

end
