(* ===== verification/Agent_Client.thy ===== *)
theory Agent_Client
  imports Async Agent_Config
begin

text \<open>
  The HTTP client of the manager Agents (\<^verbatim>\<open>agent/http-agent.client.ts\<close>).

  \<^item> One HTTP exchange (\<open>requestTo\<close>) is a machine driven by the events of Node's request and
    response objects; its promise settles at most once.
  \<^item> The client keeps the active Agent, the cluster it is bound to and the Agents it avoids after
    a failure. Its methods are asynchronous functions (theory Async): they verify the identity
    of an Agent, send the request, and go on with the next Agent after some kinds of failure.
  \<^item> Mutations are sent to one verified Agent and never again to another one.

  The dispatch journal inside \<open>mutationRequest\<close> is modelled in full in the theory Dispatch; here
  its database work before and after the send are two requests with arbitrary answers. The
  calls to single managers during maintenance (\<open>inspectConfiguredManagers\<close> and the barrier
  calls) are in the theory Maintenance: they neither read nor change the state of the client.
\<close>

section \<open>Errors\<close>

datatype client_error =
    TransportError string string
  | IdentityError string string
  | RequestError nat string
  | PreDispatchRejection MaintenanceCode
  | OtherError string

text \<open>The \<open>message\<close> property.\<close>

fun client_message :: "client_error \<Rightarrow> string" where
  "client_message (TransportError agentId m) = ''Agent '' @ agentId @ '' transport failed: '' @ m"
| "client_message (IdentityError agentId m) =
     ''Agent '' @ agentId @ '' identity validation failed: '' @ m"
| "client_message (RequestError st b) = ''Agent request failed with '' @ show_nat st"
| "client_message (PreDispatchRejection c) =
     ''Agent request failed with '' @ show_nat (maintenance_status c)"
| "client_message (OtherError m) = m"

text \<open>A \<open>MaintenancePreDispatchRejection\<close> is an \<open>AgentRequestError\<close> with its own status.\<close>

fun isRetryableAgentFailure :: "client_error \<Rightarrow> bool" where
  "isRetryableAgentFailure (TransportError _ _) = True"
| "isRetryableAgentFailure (RequestError st _) = (st \<ge> 500)"
| "isRetryableAgentFailure (PreDispatchRejection c) = (maintenance_status c \<ge> 500)"
| "isRetryableAgentFailure _ = False"

definition isIdentityError :: "client_error \<Rightarrow> bool" where
  "isIdentityError e = (case e of IdentityError _ _ \<Rightarrow> True | _ \<Rightarrow> False)"

definition shouldFailover :: "client_error \<Rightarrow> bool" where
  "shouldFailover e = (isRetryableAgentFailure e \<or> isIdentityError e)"

definition toTransportError :: "string \<Rightarrow> string \<Rightarrow> client_error \<Rightarrow> client_error" where
  "toTransportError agentId message e =
     (case e of TransportError _ _ \<Rightarrow> e | _ \<Rightarrow> TransportError agentId message)"

text \<open>What the services see of an error of the client.\<close>

fun asFailure :: "platform \<Rightarrow> client_error \<Rightarrow> failure" where
  "asFailure pf (RequestError st b) =
     AgentRequestError st \<lparr>body_text = b, body_json = pf_parseJson pf b\<rparr>"
| "asFailure pf (PreDispatchRejection c) = MaintenancePreDispatchRejection c"
| "asFailure pf (OtherError m) = PlainError m"
| "asFailure pf e = AgentTransportError (client_message e)"

section \<open>One HTTP exchange\<close>

definition MAX_RESPONSE_BYTES :: nat where
  "MAX_RESPONSE_BYTES = 4 * 1024 * 1024"

definition AGENT_FAILURE_COOLDOWN_MS :: nat where
  "AGENT_FAILURE_COOLDOWN_MS = 5000"

text \<open>
  The events of a request and of its response. The two timeouts fire after 5 s without
  activity on the socket; \<open>EvResponse\<close> carries \<open>statusCode\<close>.
\<close>

datatype HttpEvent =
    EvRequestTimeout
  | EvRequestError client_error
  | EvResponse "nat option"
  | EvResponseTimeout
  | EvData string
  | EvAborted
  | EvResponseError client_error
  | EvClose
  | EvEnd

record Exchange =
  ex_settled :: "(client_error + string) option"
  ex_response :: "nat option option"
  ex_chunks :: "string list"
  ex_totalBytes :: nat
  ex_ended :: bool
  ex_destroyed :: bool

definition newExchange :: Exchange where
  "newExchange = \<lparr>ex_settled = None, ex_response = None, ex_chunks = [], ex_totalBytes = 0,
     ex_ended = False, ex_destroyed = False\<rparr>"

definition settleOnce :: "client_error + string \<Rightarrow> Exchange \<Rightarrow> Exchange" where
  "settleOnce r x = (if ex_settled x \<noteq> None then x else x\<lparr>ex_settled := Some r\<rparr>)"

definition statusOf :: "Exchange \<Rightarrow> nat" where
  "statusOf x = (case ex_response x of Some (Some st) \<Rightarrow> st | _ \<Rightarrow> 500)"

text \<open>
  The listeners. A destroyed stream emits no further \<open>data\<close> or \<open>end\<close>, and the listeners of the
  response exist once it has arrived. An accepted body is settled as text; its parsing follows in
  \<open>parseResponse\<close>, in the same turn.
\<close>

fun onEvent :: "string \<Rightarrow> HttpEvent \<Rightarrow> Exchange \<Rightarrow> Exchange" where
  "onEvent agentId EvRequestTimeout x = x\<lparr>ex_destroyed := True\<rparr>"
| "onEvent agentId (EvRequestError e) x = settleOnce (Inl (toTransportError agentId ''request error'' e)) x"
| "onEvent agentId (EvResponse st) x =
     (if ex_response x = None \<and> \<not> ex_destroyed x then x\<lparr>ex_response := Some st\<rparr> else x)"
| "onEvent agentId EvResponseTimeout x = (if ex_response x = None then x else x\<lparr>ex_destroyed := True\<rparr>)"
| "onEvent agentId (EvData chunk) x =
     (if ex_response x = None \<or> ex_destroyed x \<or> ex_ended x then x
      else let total = ex_totalBytes x + length chunk in
           if total > MAX_RESPONSE_BYTES then x\<lparr>ex_totalBytes := total, ex_destroyed := True\<rparr>
           else x\<lparr>ex_totalBytes := total, ex_chunks := ex_chunks x @ [chunk]\<rparr>)"
| "onEvent agentId EvAborted x =
     (if ex_response x = None then x
      else settleOnce (Inl (TransportError agentId ''response aborted'')) x)"
| "onEvent agentId (EvResponseError e) x =
     (if ex_response x = None then x
      else settleOnce (Inl (toTransportError agentId ''response error'' e)) x)"
| "onEvent agentId EvClose x =
     (if ex_response x = None \<or> ex_ended x then x
      else settleOnce (Inl (TransportError agentId ''response closed before completion'')) x)"
| "onEvent agentId EvEnd x =
     (if ex_response x = None \<or> ex_destroyed x \<or> ex_ended x then x
      else let body = concat (ex_chunks x); x' = x\<lparr>ex_ended := True\<rparr> in
           if statusOf x \<ge> 400 then settleOnce (Inl (RequestError (statusOf x) body)) x'
           else settleOnce (Inr body) x')"

definition exchange :: "string \<Rightarrow> HttpEvent list \<Rightarrow> (client_error + string) option" where
  "exchange agentId events = ex_settled (fold (onEvent agentId) events newExchange)"

text \<open>\<open>schema.parse(JSON.parse(responseBody))\<close>.\<close>

definition parseResponse :: "platform \<Rightarrow> 'a schema \<Rightarrow> client_error + string \<Rightarrow> client_error + 'a" where
  "parseResponse pf sch r =
     (case r of
        Inl e \<Rightarrow> Inl e
      | Inr body \<Rightarrow>
          (case pf_parseJson pf body \<bind> sch of
             None \<Rightarrow> Inl (OtherError ''Agent response failed contract validation'')
           | Some x \<Rightarrow> Inr x))"

subsection \<open>Settling\<close>

lemma settled_stays: "ex_settled x = Some r \<Longrightarrow> ex_settled (fold (onEvent agentId) events x) = Some r"
proof (induction events arbitrary: x)
  case (Cons ev events)
  have "ex_settled (onEvent agentId ev x) = Some r"
    using Cons.prems by (cases ev) (auto simp: settleOnce_def Let_def)
  then show ?case using Cons.IH by simp
qed simp

text \<open>Later events never change the outcome of an exchange.\<close>

lemma exchange_settles_once:
  "exchange agentId events = Some r \<Longrightarrow> exchange agentId (events @ events') = Some r"
  by (simp add: exchange_def settled_stays)

lemma request_error_settles: "\<exists>r. exchange agentId (events @ [EvRequestError e]) = Some r"
  by (simp add: exchange_def settleOnce_def)

definition size_ok :: "Exchange \<Rightarrow> bool" where
  "size_ok x \<longleftrightarrow>
     length (concat (ex_chunks x)) \<le> MAX_RESPONSE_BYTES \<and>
     (\<not> ex_destroyed x \<longrightarrow> ex_totalBytes x = length (concat (ex_chunks x))) \<and>
     (\<forall>body. ex_settled x = Some (Inr body) \<longrightarrow> length body \<le> MAX_RESPONSE_BYTES \<and> ex_ended x) \<and>
     (ex_ended x \<longrightarrow> ex_settled x \<noteq> None)"

lemma size_ok_fold: "size_ok x \<Longrightarrow> size_ok (fold (onEvent agentId) events x)"
proof (induction events arbitrary: x)
  case (Cons ev events)
  have "size_ok (onEvent agentId ev x)"
    using Cons.prems by (cases ev) (auto simp: size_ok_def settleOnce_def Let_def)
  then show ?case using Cons.IH by simp
qed simp

text \<open>An accepted body has at most 4 MiB, whatever the peer sends.\<close>

lemma accepted_body_is_bounded:
  assumes "exchange agentId events = Some (Inr body)"
  shows "length body \<le> MAX_RESPONSE_BYTES"
proof -
  have "size_ok newExchange" by (simp add: size_ok_def newExchange_def)
  from size_ok_fold [OF this] show ?thesis
    using assms unfolding exchange_def size_ok_def by blast
qed

text \<open>Once the response has arrived, closing the stream leaves no promise pending.\<close>

lemma close_settles:
  assumes "ex_response (fold (onEvent agentId) events newExchange) \<noteq> None"
  shows "\<exists>r. exchange agentId (events @ [EvClose]) = Some r"
proof -
  have "size_ok newExchange" by (simp add: size_ok_def newExchange_def)
  from size_ok_fold [OF this] have "size_ok (fold (onEvent agentId) events newExchange)" .
  then show ?thesis
    using assms by (auto simp: exchange_def size_ok_def settleOnce_def)
qed

section \<open>The client\<close>

datatype HttpMethod = GET | POST | PUT

text \<open>
  A request on the wire: the Agent it goes to, method, path and body, and the two headers
  \<open>X-Docklane-Expected-Cluster-ID\<close> and \<open>X-Docklane-Maintenance-Generation\<close>.
\<close>

record WireRequest =
  wr_agent :: AgentConfig
  wr_method :: HttpMethod
  wr_path :: string
  wr_body :: "json option"
  wr_expectedCluster :: "string option"
  wr_generation :: "string option"

text \<open>The two database steps of the dispatch journal around a send.\<close>

datatype JournalStep =
    JournalBegin string nat string string
  | JournalFinish DispatchPhase

datatype pending = Wire WireRequest | Journal JournalStep

type_synonym reply = "client_error + string"

record ClientState =
  cs_activeId :: string
  cs_referenceClusterId :: "string option"
  cs_unavailableUntil :: "string \<Rightarrow> nat option"

type_synonym 'a client = "(ClientState, pending, reply, client_error, 'a) async"

text \<open>
  What surrounds a mutation: the \<open>AsyncLocalStorage\<close> scopes of the call, whether a journal is
  injected and whether \<open>DOCKLANE_MAINTENANCE_ENFORCE\<close> is set.
\<close>

record MutationScope =
  sc_admission :: "(string \<times> nat) option"
  sc_operation :: "string option"
  sc_journal :: bool
  sc_enforce :: bool

definition constructClient :: "ManagerAgentConfig \<Rightarrow> ConfigError + ClientState" where
  "constructClient cfg =
     (case find (\<lambda>agent. ac_id agent = mc_primaryId cfg) (mc_agents cfg) of
        None \<Rightarrow> Inl (ConfigError ''Primary manager Agent configuration disappeared'')
      | Some primary \<Rightarrow>
          orElse (resolveExpectedClusterId (mc_expectedClusterId cfg)
                    (list_all ac_insecureDev (mc_agents cfg))) (\<lambda>reference.
            Inr \<lparr>cs_activeId = ac_id primary, cs_referenceClusterId = reference,
                 cs_unavailableUntil = (\<lambda>_. None)\<rparr>))"

definition candidateAgents :: "ManagerAgentConfig \<Rightarrow> nat \<Rightarrow> ClientState \<Rightarrow> AgentConfig list" where
  "candidateAgents cfg now s =
     (let ordered = filter (\<lambda>agent. ac_id agent = cs_activeId s) (mc_agents cfg)
                  @ filter (\<lambda>agent. ac_id agent \<noteq> cs_activeId s) (mc_agents cfg);
          available = filter (\<lambda>agent.
              (case cs_unavailableUntil s (ac_id agent) of None \<Rightarrow> 0 | Some t \<Rightarrow> t) \<le> now) ordered
      in if available \<noteq> [] then available else ordered)"

definition markActive :: "AgentConfig \<Rightarrow> nat \<Rightarrow> ClientState \<Rightarrow> ClientState" where
  "markActive config now s =
     s\<lparr>cs_activeId := ac_id config,
       cs_unavailableUntil := (cs_unavailableUntil s)(ac_id config := None)\<rparr>"

definition markUnavailable :: "AgentConfig \<Rightarrow> nat \<Rightarrow> ClientState \<Rightarrow> ClientState" where
  "markUnavailable config now s =
     s\<lparr>cs_unavailableUntil := (cs_unavailableUntil s)
         (ac_id config := Some (now + AGENT_FAILURE_COOLDOWN_MS))\<rparr>"

text \<open>
  Only a request with an expected cluster carries the generation of the surrounding admission.
\<close>

definition requestTo ::
    "platform \<Rightarrow> AgentConfig \<Rightarrow> HttpMethod \<Rightarrow> string \<Rightarrow> 'a schema \<Rightarrow> json option
      \<Rightarrow> (string \<times> MutationScope) option \<Rightarrow> 'a client" where
  "requestTo pf config verb path sch body expected =
     requesting
       (Wire \<lparr>wr_agent = config, wr_method = verb, wr_path = path, wr_body = body,
          wr_expectedCluster = map_option fst expected,
          wr_generation = (case expected of None \<Rightarrow> None
             | Some (_, sc) \<Rightarrow> map_option (\<lambda>(_, generation). show_nat generation) (sc_admission sc))\<rparr>)
       (parseResponse pf sch)"

definition assertClusterIdentity :: "AgentConfig \<Rightarrow> string \<Rightarrow> ClientState \<Rightarrow> client_error option" where
  "assertClusterIdentity config clusterId s =
     (case cs_referenceClusterId s of
        None \<Rightarrow> None
      | Some reference \<Rightarrow>
          if clusterId \<noteq> reference
          then Some (IdentityError (ac_id config)
                 (''cluster '' @ clusterId @ '' does not match '' @ reference))
          else None)"

definition bindReference :: "string \<Rightarrow> ClientState \<Rightarrow> ClientState" where
  "bindReference clusterId s =
     (if cs_referenceClusterId s = None then s\<lparr>cs_referenceClusterId := Some clusterId\<rparr> else s)"

definition readIdentity :: "platform \<Rightarrow> AgentConfig \<Rightarrow> AgentIdentityResponse client" where
  "readIdentity pf config =
     await (requestTo pf config GET ''/v1/identity'' AgentIdentityResponseSchema None None) (\<lambda>r.
       case r of
         Inl e \<Rightarrow>
           settle (Inl (if isRetryableAgentFailure e then e
                        else IdentityError (ac_id config) (client_message e)))
       | Inr identity \<Rightarrow>
           inspecting (\<lambda>now s.
             case assertClusterIdentity config (ai_clusterId identity) s of
               Some e \<Rightarrow> settle (Inl e)
             | None \<Rightarrow>
                 updating (\<lambda>_. bindReference (ai_clusterId identity)) (settle (Inr identity))))"

definition verifyAgent :: "platform \<Rightarrow> AgentConfig \<Rightarrow> unit client" where
  "verifyAgent pf config = bindA (readIdentity pf config) (\<lambda>_. settle (Inr ()))"

text \<open>
  The loop of the four methods with failover: \<open>tryOne\<close> is the body of the \<open>try\<close> block, after
  which the Agent becomes the active one; an error either ends the call or marks the Agent as
  unavailable and the next candidate is tried.
\<close>

fun tryAgents ::
    "(client_error \<Rightarrow> bool) \<Rightarrow> (AgentConfig \<Rightarrow> 'a client) \<Rightarrow> client_error \<Rightarrow> AgentConfig list \<Rightarrow> 'a client" where
  "tryAgents goOn tryOne lastError [] = settle (Inl lastError)"
| "tryAgents goOn tryOne lastError (config # rest) =
     chainA (tryOne config) (\<lambda>r. case r of
         Inr value \<Rightarrow> updating (markActive config) (settle (Inr value))
       | Inl e \<Rightarrow>
           if \<not> goOn e then settle (Inl e)
           else updating (markUnavailable config) (tryAgents goOn tryOne e rest))"

definition withFailover ::
    "ManagerAgentConfig \<Rightarrow> (client_error \<Rightarrow> bool) \<Rightarrow> (AgentConfig \<Rightarrow> 'a client) \<Rightarrow> 'a client" where
  "withFailover cfg goOn tryOne =
     inspecting (\<lambda>now s.
       tryAgents goOn tryOne (OtherError ''No manager Agent is available'') (candidateAgents cfg now s))"

definition healthWithFailover :: "platform \<Rightarrow> ManagerAgentConfig \<Rightarrow> unit client" where
  "healthWithFailover pf cfg =
     withFailover cfg isRetryableAgentFailure (\<lambda>config.
       await (requestTo pf config GET ''/v1/health'' HealthResponseSchema None None) settle)"

definition identityWithFailover :: "platform \<Rightarrow> ManagerAgentConfig \<Rightarrow> AgentIdentityResponse client" where
  "identityWithFailover pf cfg =
     withFailover cfg shouldFailover (\<lambda>config. await (readIdentity pf config) settle)"

text \<open>The body of the \<open>try\<close> block of \<open>safeRequest\<close>.\<close>

definition safeAttempt ::
    "platform \<Rightarrow> HttpMethod \<Rightarrow> string \<Rightarrow> 'a schema \<Rightarrow> json option \<Rightarrow> ('a \<Rightarrow> string) option
      \<Rightarrow> AgentConfig \<Rightarrow> 'a client" where
  "safeAttempt pf verb path sch body responseClusterId config =
     bindA (verifyAgent pf config) (\<lambda>_.
     bindA (requestTo pf config verb path sch body None) (\<lambda>value.
       case responseClusterId of
         None \<Rightarrow> settle (Inr value)
       | Some clusterIdOf \<Rightarrow>
           inspecting (\<lambda>now s.
             case assertClusterIdentity config (clusterIdOf value) s of
               Some e \<Rightarrow> settle (Inl e)
             | None \<Rightarrow> settle (Inr value))))"

definition safeRequest ::
    "platform \<Rightarrow> ManagerAgentConfig \<Rightarrow> HttpMethod \<Rightarrow> string \<Rightarrow> 'a schema \<Rightarrow> json option
      \<Rightarrow> ('a \<Rightarrow> string) option \<Rightarrow> 'a client" where
  "safeRequest pf cfg verb path sch body responseClusterId =
     withFailover cfg shouldFailover (safeAttempt pf verb path sch body responseClusterId)"

definition selectMutationAgent :: "platform \<Rightarrow> ManagerAgentConfig \<Rightarrow> AgentConfig client" where
  "selectMutationAgent pf cfg =
     withFailover cfg shouldFailover (\<lambda>config. bindA (verifyAgent pf config) (\<lambda>_. settle (Inr config)))"

text \<open>
  \<open>execute\<close> of the journal around the send: no send without evidence, and no second one.
\<close>

definition journalExecute ::
    "platform \<Rightarrow> string \<Rightarrow> nat \<Rightarrow> string \<Rightarrow> string \<Rightarrow> 'a client \<Rightarrow> 'a client" where
  "journalExecute pf clusterId generation agentId operationId send =
     bindA (requesting (Journal (JournalBegin clusterId generation agentId operationId)) (map_sum id (\<lambda>_. ())))
       (\<lambda>_. await send (\<lambda>r. case r of
          Inl e \<Rightarrow>
            await (requesting (Journal (JournalFinish
                     (if isDeterministicAgentRejection (asFailure pf e) then REJECTED else UNCERTAIN)))
                     (map_sum id (\<lambda>_. ()))) (\<lambda>_. settle (Inl e))
        | Inr response \<Rightarrow>
            bindA (requesting (Journal (JournalFinish ACKNOWLEDGED)) (map_sum id (\<lambda>_. ())))
              (\<lambda>_. settle (Inr response))))"

text \<open>The \<open>try\<close> block of \<open>mutationRequest\<close>.\<close>

definition mutationAttempt ::
    "platform \<Rightarrow> MutationScope \<Rightarrow> AgentConfig \<Rightarrow> string \<Rightarrow> string \<Rightarrow> 'a schema \<Rightarrow> json \<Rightarrow> 'a client" where
  "mutationAttempt pf sc config expectedClusterId path sch body =
     (let send = requestTo pf config POST path sch (Some body) (Some (expectedClusterId, sc));
          activate = (\<lambda>value. updating (markActive config) (settle (Inr value))) in
      case sc_admission sc of
        Some (clusterId, generation) \<Rightarrow>
          if \<not> sc_journal sc then settle (Inl (PreDispatchRejection MAINTENANCE_UNAVAILABLE))
          else (case sc_operation sc of
              None \<Rightarrow> settle (Inl (PreDispatchRejection MAINTENANCE_UNAVAILABLE))
            | Some operationId \<Rightarrow>
                if operationId = [] then settle (Inl (PreDispatchRejection MAINTENANCE_UNAVAILABLE))
                else await (requestTo pf config GET ''/v1/maintenance/barrier'' BarrierSchema None None)
                  (\<lambda>r. case r of
                     Inl _ \<Rightarrow> settle (Inl (PreDispatchRejection MAINTENANCE_UNAVAILABLE))
                   | Inr barrier \<Rightarrow>
                       if br_clusterId barrier \<noteq> expectedClusterId \<or> br_state barrier \<noteq> ''OPEN''
                          \<or> br_generation barrier \<noteq> show_nat generation
                       then settle (Inl (PreDispatchRejection MAINTENANCE_CLOSED))
                       else bindA (journalExecute pf clusterId generation (ac_id config) operationId send)
                              activate))
      | None \<Rightarrow>
          if sc_enforce sc then settle (Inl (PreDispatchRejection MAINTENANCE_UNAVAILABLE))
          else bindA send activate)"

definition sendMutation ::
    "platform \<Rightarrow> ManagerAgentConfig \<Rightarrow> MutationScope \<Rightarrow> string \<Rightarrow> 'a schema \<Rightarrow> json \<Rightarrow> 'a client" where
  "sendMutation pf cfg sc path sch body =
     bindA (selectMutationAgent pf cfg) (\<lambda>config.
     inspecting (\<lambda>now s.
       case cs_referenceClusterId s of
         None \<Rightarrow> settle (Inl (IdentityError (ac_id config) ''expected cluster is not a bounded identifier''))
       | Some expectedClusterId \<Rightarrow>
           if \<not> isBoundedIdentifier expectedClusterId
           then settle (Inl (IdentityError (ac_id config) ''expected cluster is not a bounded identifier''))
           else chainA (mutationAttempt pf sc config expectedClusterId path sch body) (\<lambda>r. case r of
               Inr value \<Rightarrow> settle (Inr value)
             | Inl e \<Rightarrow>
                 updating (if isRetryableAgentFailure e then markUnavailable config else (\<lambda>_ s. s))
                   (settle (Inl e)))))"

section \<open>The methods of the interface\<close>

text \<open>
  \<open>encodeURIComponent\<close>: letters, digits and \<open>- _ . ! ~ * ' ( )\<close> stay, every other character
  becomes the percent-encoded bytes of its UTF-8 form (characters below 256 are modelled).
\<close>

definition isUnreserved :: "char \<Rightarrow> bool" where
  "isUnreserved c =
     (let n = (of_char c :: nat) in
      (48 \<le> n \<and> n \<le> 57) \<or> (65 \<le> n \<and> n \<le> 90) \<or> (97 \<le> n \<and> n \<le> 122)
      \<or> n \<in> {33, 39, 40, 41, 42, 45, 46, 95, 126})"

definition hexDigit :: "nat \<Rightarrow> char" where
  "hexDigit d = char_of (if d < 10 then 48 + d else 55 + d)"

definition percentByte :: "nat \<Rightarrow> string" where
  "percentByte n = [CHR 0x25, hexDigit (n div 16), hexDigit (n mod 16)]"

definition encodeChar :: "char \<Rightarrow> string" where
  "encodeChar c =
     (let n = (of_char c :: nat) in
      if isUnreserved c then [c]
      else if n < 128 then percentByte n
      else percentByte (192 + n div 64) @ percentByte (128 + n mod 64))"

definition encodeURIComponent :: "string \<Rightarrow> string" where
  "encodeURIComponent t = concat (map encodeChar t)"

definition servicePath :: "string \<Rightarrow> string \<Rightarrow> string \<Rightarrow> string" where
  "servicePath version serviceId rest =
     ''/'' @ version @ ''/services/'' @ encodeURIComponent serviceId @ rest"

definition nodePath :: "string \<Rightarrow> string \<Rightarrow> string \<Rightarrow> string" where
  "nodePath version nodeId rest = ''/'' @ version @ ''/nodes/'' @ encodeURIComponent nodeId @ rest"

definition specBody :: "nat \<Rightarrow> string \<Rightarrow> string \<Rightarrow> (string \<times> json) list \<Rightarrow> json" where
  "specBody expectedVersion expectedSpecHash targetSpecHash rest =
     JObj ([(''expectedVersion'', jnat expectedVersion), (''expectedSpecHash'', JStr expectedSpecHash),
            (''targetSpecHash'', JStr targetSpecHash)] @ rest)"

definition stringsJson :: "string list \<Rightarrow> json" where
  "stringsJson xs = JArr (map JStr xs)"

definition http_health where
  "http_health pf cfg = healthWithFailover pf cfg"

definition http_identity where
  "http_identity pf cfg = identityWithFailover pf cfg"

definition http_inspectCluster where
  "http_inspectCluster pf cfg = safeRequest pf cfg GET ''/v1/cluster'' ClusterResponseSchema None (Some cv_id)"

definition http_listServices where
  "http_listServices pf cfg = safeRequest pf cfg GET ''/v1/services'' (z_array ServiceSummarySchema) None None"

definition http_inspectService where
  "http_inspectService pf cfg serviceId =
     safeRequest pf cfg GET (servicePath ''v1'' serviceId []) ServiceDetailResponseSchema None None"

definition http_listServiceTasks where
  "http_listServiceTasks pf cfg serviceId =
     safeRequest pf cfg GET (servicePath ''v1'' serviceId ''/tasks'') (z_array TaskSummarySchema) None None"

definition http_checkServicePlacement where
  "http_checkServicePlacement pf cfg serviceId =
     safeRequest pf cfg GET (servicePath ''v1'' serviceId ''/placement-check'')
       ServicePlacementResponseSchema None None"

definition http_checkServiceCapacity where
  "http_checkServiceCapacity pf cfg serviceId i =
     safeRequest pf cfg POST (servicePath ''v1'' serviceId ''/capacity-check'') CapacityCheckResponseSchema
       (Some (JObj [(''expectedVersion'', jnat (cr_expectedVersion i)),
          (''targetReplicas'', jnat (cr_targetReplicas i)),
          (''includeUpdateOverlap'', JBool (cr_includeUpdateOverlap i))])) None"

definition http_inspectNode where
  "http_inspectNode pf cfg nodeId =
     safeRequest pf cfg GET (nodePath ''v1'' nodeId []) NodeDetailResponseSchema None None"

definition http_planDrainNode where
  "http_planDrainNode pf cfg nodeId expectedVersion =
     safeRequest pf cfg POST (nodePath ''v1'' nodeId ''/plan-drain'') NodeMutationPlanSchema
       (Some (JObj [(''expectedVersion'', jnat expectedVersion)])) None"

definition http_planActivateNode where
  "http_planActivateNode pf cfg nodeId expectedVersion =
     safeRequest pf cfg POST (nodePath ''v1'' nodeId ''/plan-activate'') NodeMutationPlanSchema
       (Some (JObj [(''expectedVersion'', jnat expectedVersion)])) None"

definition http_planNodeLabels where
  "http_planNodeLabels pf cfg nodeId expectedVersion setLabels removeLabels =
     safeRequest pf cfg POST (nodePath ''v1'' nodeId ''/plan-labels'') NodeLabelMutationPlanSchema
       (Some (JObj [(''expectedVersion'', jnat expectedVersion), (''set'', labelsJson setLabels),
          (''remove'', stringsJson removeLabels)])) None"

definition http_planScaleService where
  "http_planScaleService pf cfg serviceId expectedVersion replicas =
     safeRequest pf cfg POST (servicePath ''v1'' serviceId ''/plan-scale'') ServiceMutationPlanSchema
       (Some (JObj [(''expectedVersion'', jnat expectedVersion), (''replicas'', jnat replicas)])) None"

definition http_planRestartService where
  "http_planRestartService pf cfg serviceId expectedVersion =
     safeRequest pf cfg POST (servicePath ''v1'' serviceId ''/plan-restart'') ServiceMutationPlanSchema
       (Some (JObj [(''expectedVersion'', jnat expectedVersion)])) None"

definition http_planUpdateServiceImage where
  "http_planUpdateServiceImage pf cfg serviceId expectedVersion img =
     safeRequest pf cfg POST (servicePath ''v1'' serviceId ''/plan-image-update'')
       ServiceImageMutationPlanSchema
       (Some (JObj [(''expectedVersion'', jnat expectedVersion), (''image'', JStr img)])) None"

definition http_planRollbackService where
  "http_planRollbackService pf cfg serviceId expectedVersion =
     safeRequest pf cfg POST (servicePath ''v1'' serviceId ''/plan-rollback'')
       ServiceImageMutationPlanSchema
       (Some (JObj [(''expectedVersion'', jnat expectedVersion)])) None"

definition http_drainNode where
  "http_drainNode pf cfg sc nodeId v before target serviceIds =
     sendMutation pf cfg sc (nodePath ''v2'' nodeId ''/drain'') NodeMutationResponseSchema
       (specBody v before target (opt_field ''expectedServiceIds'' stringsJson serviceIds))"

definition http_activateNode where
  "http_activateNode pf cfg sc nodeId v before target serviceIds =
     sendMutation pf cfg sc (nodePath ''v2'' nodeId ''/activate'') NodeMutationResponseSchema
       (specBody v before target (opt_field ''expectedServiceIds'' stringsJson serviceIds))"

definition http_updateNodeLabels where
  "http_updateNodeLabels pf cfg sc nodeId v before target serviceIds targetLabels =
     sendMutation pf cfg sc (nodePath ''v2'' nodeId ''/labels'') NodeMutationResponseSchema
       (specBody v before target [(''expectedServiceIds'', stringsJson serviceIds),
          (''targetLabels'', labelsJson targetLabels)])"

definition http_scaleService where
  "http_scaleService pf cfg sc serviceId v before target replicas =
     sendMutation pf cfg sc (servicePath ''v2'' serviceId ''/scale'') ServiceMutationResponseSchema
       (specBody v before target [(''replicas'', jnat replicas)])"

definition http_restartService where
  "http_restartService pf cfg sc serviceId v before target =
     sendMutation pf cfg sc (servicePath ''v2'' serviceId ''/restart'') ServiceMutationResponseSchema
       (specBody v before target [])"

definition http_updateServiceImage where
  "http_updateServiceImage pf cfg sc serviceId v before target img =
     sendMutation pf cfg sc (servicePath ''v2'' serviceId ''/image'') ServiceMutationResponseSchema
       (specBody v before target [(''image'', JStr img)])"

definition http_rollbackService where
  "http_rollbackService pf cfg sc serviceId v before target =
     sendMutation pf cfg sc (servicePath ''v2'' serviceId ''/rollback'') ServiceMutationResponseSchema
       (specBody v before target [])"

text \<open>Any call of a method, with its result dropped.\<close>

datatype ClientCall =
    CallHealth
  | CallIdentity
  | CallInspectCluster
  | CallListServices
  | CallInspectService string
  | CallListServiceTasks string
  | CallCheckServicePlacement string
  | CallCheckServiceCapacity string CapacityCheckRequest
  | CallInspectNode string
  | CallPlanDrainNode string nat
  | CallPlanActivateNode string nat
  | CallPlanNodeLabels string nat labels "string list"
  | CallPlanScaleService string nat nat
  | CallPlanRestartService string nat
  | CallPlanUpdateServiceImage string nat string
  | CallPlanRollbackService string nat
  | CallMutation MutationScope MutationRequest

definition voidA :: "'a client \<Rightarrow> unit client" where
  "voidA m = chainA m (\<lambda>r. settle (map_sum id (\<lambda>_. ()) r))"

fun startMutation :: "platform \<Rightarrow> ManagerAgentConfig \<Rightarrow> MutationScope \<Rightarrow> MutationRequest \<Rightarrow> unit client" where
  "startMutation pf cfg sc (ScaleService i v b t k) = voidA (http_scaleService pf cfg sc i v b t k)"
| "startMutation pf cfg sc (RestartService i v b t) = voidA (http_restartService pf cfg sc i v b t)"
| "startMutation pf cfg sc (UpdateServiceImage i v b t img) = voidA (http_updateServiceImage pf cfg sc i v b t img)"
| "startMutation pf cfg sc (RollbackService i v b t) = voidA (http_rollbackService pf cfg sc i v b t)"
| "startMutation pf cfg sc (DrainNode i v b t ids) = voidA (http_drainNode pf cfg sc i v b t (Some ids))"
| "startMutation pf cfg sc (ActivateNode i v b t) = voidA (http_activateNode pf cfg sc i v b t None)"
| "startMutation pf cfg sc (UpdateNodeLabels i v b t ids ls) =
     voidA (http_updateNodeLabels pf cfg sc i v b t ids ls)"

fun startCall :: "platform \<Rightarrow> ManagerAgentConfig \<Rightarrow> ClientCall \<Rightarrow> unit client" where
  "startCall pf cfg CallHealth = voidA (http_health pf cfg)"
| "startCall pf cfg CallIdentity = voidA (http_identity pf cfg)"
| "startCall pf cfg CallInspectCluster = voidA (http_inspectCluster pf cfg)"
| "startCall pf cfg CallListServices = voidA (http_listServices pf cfg)"
| "startCall pf cfg (CallInspectService i) = voidA (http_inspectService pf cfg i)"
| "startCall pf cfg (CallListServiceTasks i) = voidA (http_listServiceTasks pf cfg i)"
| "startCall pf cfg (CallCheckServicePlacement i) = voidA (http_checkServicePlacement pf cfg i)"
| "startCall pf cfg (CallCheckServiceCapacity i c) = voidA (http_checkServiceCapacity pf cfg i c)"
| "startCall pf cfg (CallInspectNode i) = voidA (http_inspectNode pf cfg i)"
| "startCall pf cfg (CallPlanDrainNode i v) = voidA (http_planDrainNode pf cfg i v)"
| "startCall pf cfg (CallPlanActivateNode i v) = voidA (http_planActivateNode pf cfg i v)"
| "startCall pf cfg (CallPlanNodeLabels i v ls ks) = voidA (http_planNodeLabels pf cfg i v ls ks)"
| "startCall pf cfg (CallPlanScaleService i v k) = voidA (http_planScaleService pf cfg i v k)"
| "startCall pf cfg (CallPlanRestartService i v) = voidA (http_planRestartService pf cfg i v)"
| "startCall pf cfg (CallPlanUpdateServiceImage i v img) = voidA (http_planUpdateServiceImage pf cfg i v img)"
| "startCall pf cfg (CallPlanRollbackService i v) = voidA (http_planRollbackService pf cfg i v)"
| "startCall pf cfg (CallMutation sc req) = startMutation pf cfg sc req"

lemmas http_reads =
  http_inspectCluster_def http_listServices_def http_inspectService_def http_listServiceTasks_def
  http_checkServicePlacement_def http_checkServiceCapacity_def http_inspectNode_def
  http_planDrainNode_def http_planActivateNode_def http_planNodeLabels_def http_planScaleService_def
  http_planRestartService_def http_planUpdateServiceImage_def http_planRollbackService_def

lemmas http_mutations =
  http_drainNode_def http_activateNode_def http_updateNodeLabels_def http_scaleService_def
  http_restartService_def http_updateServiceImage_def http_rollbackService_def

text \<open>
  The answers that a request can get: those of some sequence of events for a wire request, any
  for the database steps of the journal.
\<close>

fun exchanged :: "pending \<Rightarrow> reply \<Rightarrow> bool" where
  "exchanged (Wire req) r = (\<exists>events. exchange (ac_id (wr_agent req)) events = Some r)"
| "exchanged (Journal _) r = True"

end
