(* ===== verification/Agent_Outcomes.thy ===== *)
theory Agent_Outcomes
  imports Agent_Client
begin

text \<open>
  Which Agents the HTTP client trusts with a mutation, and how it fails over. The first part holds
  for every interleaving of calls on one client object and every behaviour of the network: it
  interprets the locale \<open>interference\<close> on the client, where the cluster binding is written at most
  once. The second part describes a single call whose candidates fail until one answers.
\<close>

section \<open>Requests that a call may make\<close>

definition identityRequest :: "AgentConfig \<Rightarrow> WireRequest" where
  "identityRequest config = \<lparr>wr_agent = config, wr_method = GET, wr_path = ''/v1/identity'',
     wr_body = None, wr_expectedCluster = None, wr_generation = None\<rparr>"

text \<open>Mutations are the requests below \<open>/v2/\<close>.\<close>

definition mutating :: "WireRequest \<Rightarrow> bool" where
  "mutating req \<longleftrightarrow> prefix ''/v2/'' (wr_path req)"

definition no_mutation :: "(pending, reply) history \<Rightarrow> bool" where
  "no_mutation h \<longleftrightarrow> (\<forall>req reply. (Some (Wire req), reply) \<in> set h \<longrightarrow> \<not> mutating req)"

text \<open>\<open>verified_in\<close>: within this call the Agent itself answered that it manages the cluster.\<close>

definition verified_in :: "platform \<Rightarrow> AgentConfig \<Rightarrow> string \<Rightarrow> (pending, reply) history \<Rightarrow> bool" where
  "verified_in pf config c h \<longleftrightarrow>
     (\<exists>reply identity. (Some (Wire (identityRequest config)), reply) \<in> set h \<and>
        parseResponse pf AgentIdentityResponseSchema reply = Inr identity \<and>
        ai_manager identity \<and> ai_clusterId identity = c)"

definition bound_to :: "ClientState \<Rightarrow> string \<Rightarrow> bool" where
  "bound_to s c \<longleftrightarrow> cs_referenceClusterId s = Some c"

definition client_inv :: "ManagerAgentConfig \<Rightarrow> ClientState \<Rightarrow> bool" where
  "client_inv cfg s \<longleftrightarrow> (\<forall>c. mc_expectedClusterId cfg = Some c \<longrightarrow> bound_to s c)"

definition client_rely :: "ClientState \<Rightarrow> ClientState \<Rightarrow> bool" where
  "client_rely s s' \<longleftrightarrow> (\<forall>c. bound_to s c \<longrightarrow> bound_to s' c)"

definition mutation_allowed ::
    "platform \<Rightarrow> ClientState \<Rightarrow> (pending, reply) history \<Rightarrow> WireRequest \<Rightarrow> bool" where
  "mutation_allowed pf s h req \<longleftrightarrow>
     no_mutation h \<and>
     (\<exists>c. wr_expectedCluster req = Some c \<and> isBoundedIdentifier c \<and> bound_to s c \<and>
          verified_in pf (wr_agent req) c h)"

fun request_allowed ::
    "platform \<Rightarrow> ManagerAgentConfig \<Rightarrow> ClientState \<Rightarrow> (pending, reply) history \<Rightarrow> pending \<Rightarrow> bool" where
  "request_allowed pf cfg s h (Wire req) =
     (wr_agent req \<in> set (mc_agents cfg) \<and> (mutating req \<longrightarrow> mutation_allowed pf s h req))"
| "request_allowed pf cfg s h (Journal _) = True"

interpretation client: interference "client_inv cfg" client_rely "request_allowed pf cfg" for pf cfg
proof unfold_locales
  show "request_allowed pf cfg s' h q" if "request_allowed pf cfg s h q" "client_rely s s'" for s s' h q
    using that by (cases q) (auto simp: client_rely_def mutation_allowed_def)
qed (auto simp: client_rely_def)

abbreviation okC where "okC pf cfg \<equiv> client.okA cfg pf"

subsection \<open>Facts about histories and states\<close>

lemma no_mutation_snoc [simp]:
  "no_mutation (h @ [(q, reply)]) \<longleftrightarrow>
     no_mutation h \<and> (\<forall>req. q = Some (Wire req) \<longrightarrow> \<not> mutating req)"
  by (auto simp: no_mutation_def)

lemma no_mutation_Nil [simp]: "no_mutation []"
  by (simp add: no_mutation_def)

lemma verified_in_append [simp]: "verified_in pf config c h \<Longrightarrow> verified_in pf config c (h @ h')"
  by (auto simp: verified_in_def)

lemma bound_to_rely: "bound_to s c \<Longrightarrow> client_rely s s' \<Longrightarrow> bound_to s' c"
  by (simp add: client_rely_def)

lemma marks_keep_binding [simp]:
  "bound_to (markActive config now s) c = bound_to s c"
  "bound_to (markUnavailable config now s) c = bound_to s c"
  by (simp_all add: bound_to_def markActive_def markUnavailable_def)

lemma same_binding:
  assumes "\<And>c. bound_to s' c = bound_to s c"
  shows "client_inv cfg s' = client_inv cfg s" and "client_rely s s'"
  using assms by (simp_all add: client_inv_def client_rely_def)

lemma marks_are_silent [simp]:
  "client_inv cfg (markActive config now s) = client_inv cfg s"
  "client_inv cfg (markUnavailable config now s) = client_inv cfg s"
  "client_rely s (markActive config now s)"
  "client_rely s (markUnavailable config now s)"
  by (rule same_binding, simp)+

lemma candidates_are_configured: "set (candidateAgents cfg now s) \<subseteq> set (mc_agents cfg)"
  by (auto simp: candidateAgents_def Let_def)

section \<open>Every verb only makes allowed requests\<close>

lemma requestTo_read_ok:
  assumes "config \<in> set (mc_agents cfg)" and "\<not> prefix ''/v2/'' path"
    and "\<And>h s. P h s \<Longrightarrow> no_mutation h"
  shows "okC pf cfg P (requestTo pf config verb path sch body None) (\<lambda>h s r. no_mutation h)"
  unfolding requestTo_def using assms by (intro client.okA_request) (auto simp: mutating_def)

text \<open>
  \<open>identified\<close>: no mutation so far, and when the call succeeded its Agent has identified itself as
  a manager of the cluster that the client is bound to. It survives interference and marking.
\<close>

definition identified :: "platform \<Rightarrow> AgentConfig \<Rightarrow> (pending, reply) history \<Rightarrow> ClientState \<Rightarrow> bool" where
  "identified pf config h s \<longleftrightarrow> (\<exists>c. verified_in pf config c h \<and> bound_to s c)"

definition checks :: "platform \<Rightarrow> AgentConfig \<Rightarrow> (pending, reply) history \<Rightarrow> ClientState \<Rightarrow> 'e + 'a \<Rightarrow> bool" where
  "checks pf config h s r \<longleftrightarrow> no_mutation h \<and> (\<forall>x. r = Inr x \<longrightarrow> identified pf config h s)"

lemma identified_rely [simp]:
  "identified pf config h s \<Longrightarrow> client_rely s s' \<Longrightarrow> identified pf config (h @ h') s'"
  unfolding identified_def by (blast intro: bound_to_rely verified_in_append)

lemma identityRequest_path [simp]: "\<not> mutating (identityRequest config)"
  by (simp add: mutating_def identityRequest_def)

lemma identity_requested:
  "requestTo pf config GET ''/v1/identity'' sch None None =
     requesting (Wire (identityRequest config)) (parseResponse pf sch)"
  by (simp add: requestTo_def identityRequest_def)

lemma identityRequest_agent [simp]: "wr_agent (identityRequest config) = config"
  by (simp add: identityRequest_def)

lemma parsed_identity_is_manager:
  "parseResponse pf AgentIdentityResponseSchema reply = Inr i \<Longrightarrow> ai_manager i"
  by (auto simp: parseResponse_def split: sum.splits option.splits bind_splits
      dest: identity_is_a_manager)

lemma identity_request_ok:
  assumes "config \<in> set (mc_agents cfg)"
  shows "okC pf cfg (\<lambda>h s. no_mutation h)
    (requestTo pf config GET ''/v1/identity'' AgentIdentityResponseSchema None None)
    (\<lambda>h s r. no_mutation h \<and> (\<forall>i. r = Inr i \<longrightarrow> verified_in pf config (ai_clusterId i) h))"
  unfolding identity_requested using assms
  by (intro client.okA_request) (auto simp: verified_in_def dest: parsed_identity_is_manager)

lemma bind_identity_ok:
  "okC pf cfg (\<lambda>h s. no_mutation h \<and> verified_in pf config (ai_clusterId i) h)
     (inspecting (\<lambda>now s.
        case assertClusterIdentity config (ai_clusterId i) s of
          Some e \<Rightarrow> settle (Inl e)
        | None \<Rightarrow> updating (\<lambda>_. bindReference (ai_clusterId i)) (settle (Inr i))))
     (checks pf config)"
proof (rule client.okA_inspect)
  fix h0 :: "(pending, reply) history" and now s0
  assume h0: "no_mutation h0 \<and> verified_in pf config (ai_clusterId i) h0" and "client_inv cfg s0"
  show "okC pf cfg (\<lambda>h s. h = h0 \<and> s = s0)
     (case assertClusterIdentity config (ai_clusterId i) s0 of
          Some e \<Rightarrow> settle (Inl e)
        | None \<Rightarrow> updating (\<lambda>_. bindReference (ai_clusterId i)) (settle (Inr i)))
     (checks pf config)"
  proof (cases "assertClusterIdentity config (ai_clusterId i) s0")
    case None
    then have bound: "bound_to (bindReference (ai_clusterId i) s0) (ai_clusterId i)"
      "client_rely s0 (bindReference (ai_clusterId i) s0)"
      by (auto simp: assertClusterIdentity_def bindReference_def bound_to_def client_rely_def
          split: option.splits if_splits)
    have "okC pf cfg (\<lambda>h s. h = h0 \<and> s = s0)
        (updating (\<lambda>_. bindReference (ai_clusterId i)) (settle (Inr i))) (checks pf config)"
      by (rule client.okA_update [where P' = "\<lambda>h s. h = h0 \<and> bound_to s (ai_clusterId i)"])
        (use bound h0 in \<open>auto simp: client_inv_def checks_def identified_def client_rely_def
           intro!: client.okA_settle\<close>)
    with None show ?thesis by simp
  next
    case (Some e)
    with h0 show ?thesis by (auto simp: checks_def intro!: client.okA_settle)
  qed
qed

lemma readIdentity_ok:
  assumes "config \<in> set (mc_agents cfg)"
  shows "okC pf cfg (\<lambda>h s. no_mutation h) (readIdentity pf config) (checks pf config)"
  unfolding readIdentity_def
proof (rule client.okA_await [OF identity_request_ok [OF assms], where R' = "\<lambda>r h s. no_mutation h \<and>
      (\<forall>i. r = Inr i \<longrightarrow> verified_in pf config (ai_clusterId i) h)"])
  fix r :: "client_error + AgentIdentityResponse"
  show "okC pf cfg (\<lambda>h s. no_mutation h \<and> (\<forall>i. r = Inr i \<longrightarrow> verified_in pf config (ai_clusterId i) h))
     (case r of
         Inl e \<Rightarrow>
           settle (Inl (if isRetryableAgentFailure e then e
                        else IdentityError (ac_id config) (client_message e)))
       | Inr identity \<Rightarrow>
           inspecting (\<lambda>now s.
             case assertClusterIdentity config (ai_clusterId identity) s of
               Some e \<Rightarrow> settle (Inl e)
             | None \<Rightarrow>
                 updating (\<lambda>_. bindReference (ai_clusterId identity)) (settle (Inr identity))))
    (checks pf config)"
    by (rule client.okA_case_sum)
      (auto simp: checks_def intro!: client.okA_settle intro: client.okA_mono [OF bind_identity_ok])
qed auto

text \<open>Awaiting a identified call and going on, as long as what follows keeps the check.\<close>

lemma bindA_checks:
  assumes "okC pf cfg P m (checks pf config)"
    and "\<And>x. okC pf cfg (\<lambda>h s. no_mutation h \<and> identified pf config h s) (f x) (checks pf config)"
  shows "okC pf cfg P (bindA m f) (checks pf config)"
  unfolding bindA_def
  by (rule client.okA_await [OF assms(1), where R' = "\<lambda>r h s. no_mutation h \<and>
        (\<forall>x. r = Inr x \<longrightarrow> identified pf config h s)"])
    (auto simp: checks_def intro!: client.okA_settle client.okA_case_sum
      intro: client.okA_mono [OF assms(2)])

lemma settle_checks:
  "okC pf cfg (\<lambda>h s. no_mutation h \<and> identified pf config h s) (settle r) (checks pf config)"
  by (rule client.okA_settle) (simp add: checks_def)

lemma verifyAgent_ok:
  assumes "config \<in> set (mc_agents cfg)"
  shows "okC pf cfg (\<lambda>h s. no_mutation h) (verifyAgent pf config) (checks pf config)"
  unfolding verifyAgent_def by (rule bindA_checks [OF readIdentity_ok [OF assms] settle_checks])


text \<open>The failover loop passes on what one attempt establishes.\<close>

definition yields ::
    "('a \<Rightarrow> (pending, reply) history \<Rightarrow> ClientState \<Rightarrow> bool) \<Rightarrow> (pending, reply) history \<Rightarrow> ClientState
      \<Rightarrow> client_error + 'a \<Rightarrow> bool" where
  "yields R h s r \<longleftrightarrow> no_mutation h \<and> (\<forall>v. r = Inr v \<longrightarrow> R v h s)"

lemma yields_simps [simp]:
  "yields R h s (Inl e) = no_mutation h"
  "yields R h s (Inr v) = (no_mutation h \<and> R v h s)"
  by (simp_all add: yields_def)

lemma tryAgents_ok:
  assumes "\<And>config. config \<in> set configs \<Longrightarrow> okC pf cfg (\<lambda>h s. no_mutation h) (tryOne config) (yields R)"
    and "\<And>v h s config now. R v h s \<Longrightarrow> R v h (markActive config now s)"
  shows "okC pf cfg (\<lambda>h s. no_mutation h) (tryAgents goOn tryOne e configs) (yields R)"
  using assms(1)
proof (induction configs arbitrary: e)
  case Nil
  then show ?case by (auto simp: yields_def intro: client.okA_settle)
next
  case (Cons config configs)
  have rest: "okC pf cfg (\<lambda>h s. no_mutation h) (tryAgents goOn tryOne e' configs) (yields R)" for e'
    by (rule Cons.IH) (simp add: Cons.prems)
  have failed: "okC pf cfg (\<lambda>h s. no_mutation h)
      (updating (markUnavailable config) (tryAgents goOn tryOne e' configs)) (yields R)" for e'
    by (rule client.okA_update [OF _ rest]) simp
  have success: "okC pf cfg (\<lambda>h s. no_mutation h \<and> R v h s)
      (updating (markActive config) (settle (Inr v))) (yields R)" for v
    by (rule client.okA_update [where P' = "\<lambda>h s. no_mutation h \<and> R v h s"])
      (auto simp: assms(2) yields_def intro: client.okA_settle)
  show ?case
    unfolding tryAgents.simps
  proof (rule client.okA_chain [OF Cons.prems [of config]])
    fix r
    show "okC pf cfg (\<lambda>h s. yields R h s r) (case r of
         Inr value \<Rightarrow> updating (markActive config) (settle (Inr value))
       | Inl e \<Rightarrow>
           if \<not> goOn e then settle (Inl e)
           else updating (markUnavailable config) (tryAgents goOn tryOne e configs)) (yields R)"
      by (cases r) (auto intro: success failed client.okA_settle)
  qed simp
qed

lemma withFailover_ok:
  assumes "\<And>config. config \<in> set (mc_agents cfg) \<Longrightarrow>
      okC pf cfg (\<lambda>h s. no_mutation h) (tryOne config) (yields R)"
    and "\<And>v h s config now. R v h s \<Longrightarrow> R v h (markActive config now s)"
  shows "okC pf cfg (\<lambda>h s. no_mutation h) (withFailover cfg goOn tryOne) (yields R)"
  unfolding withFailover_def
proof (rule client.okA_inspect)
  fix h0 :: "(pending, reply) history" and now s0
  assume "no_mutation h0"
  then show "okC pf cfg (\<lambda>h s. h = h0 \<and> s = s0)
      (tryAgents goOn tryOne (OtherError ''No manager Agent is available'') (candidateAgents cfg now s0))
      (yields R)"
    by (intro client.okA_mono [OF tryAgents_ok [OF assms]])
      (use candidates_are_configured in auto)
qed

lemma selectMutationAgent_ok:
  "okC pf cfg (\<lambda>h s. no_mutation h) (selectMutationAgent pf cfg)
     (yields (\<lambda>config h s. config \<in> set (mc_agents cfg) \<and> identified pf config h s))"
  unfolding selectMutationAgent_def
proof (rule withFailover_ok)
  fix config assume config: "config \<in> set (mc_agents cfg)"
  show "okC pf cfg (\<lambda>h s. no_mutation h) (bindA (verifyAgent pf config) (\<lambda>_. settle (Inr config)))
      (yields (\<lambda>config h s. config \<in> set (mc_agents cfg) \<and> identified pf config h s))"
    unfolding bindA_def
    by (rule client.okA_await [OF verifyAgent_ok [OF config], where R' = "\<lambda>r h s. no_mutation h \<and>
          (\<forall>x. r = Inr x \<longrightarrow> identified pf config h s)"])
      (auto simp: checks_def yields_def config split: sum.split intro!: client.okA_settle)
qed (auto simp: identified_def)

text \<open>The methods that only read.\<close>

lemma await_read_ok:
  assumes "okC pf cfg P m (\<lambda>h s r. no_mutation h)"
    and "\<And>r. okC pf cfg (\<lambda>h s. no_mutation h) (f r) Q"
  shows "okC pf cfg P (await m f) Q"
  by (rule client.okA_await [where R' = "\<lambda>_ h s. no_mutation h", OF assms]) simp

abbreviation reading where "reading \<equiv> yields (\<lambda>_ _ _. True)"

lemma reading_iff: "reading = (\<lambda>h s r. no_mutation h)"
  by (simp add: yields_def fun_eq_iff)

lemma bindA_read_ok:
  assumes "okC pf cfg P m (\<lambda>h s r. no_mutation h)"
    and "\<And>x. okC pf cfg (\<lambda>h s. no_mutation h) (f x) reading"
  shows "okC pf cfg P (bindA m f) reading"
  unfolding bindA_def
  by (rule await_read_ok [OF assms(1)])
    (auto simp: reading_iff split: sum.split intro: client.okA_settle assms(2) [unfolded reading_iff])


lemma checks_read: "okC pf cfg P m (checks pf config) \<Longrightarrow> okC pf cfg P m (\<lambda>h s r. no_mutation h)"
  by (erule client.okA_post) (simp add: checks_def)

lemma safeAttempt_ok:
  assumes "config \<in> set (mc_agents cfg)" and "\<not> prefix ''/v2/'' path"
  shows "okC pf cfg (\<lambda>h s. no_mutation h)
    (safeAttempt pf verb path sch body responseClusterId config) reading"
  unfolding safeAttempt_def
proof (rule bindA_read_ok [OF checks_read [OF verifyAgent_ok [OF assms(1)]]],
    rule bindA_read_ok [OF requestTo_read_ok [OF assms]])
  fix x
  show "okC pf cfg (\<lambda>h s. no_mutation h)
     (case responseClusterId of
         None \<Rightarrow> settle (Inr x)
       | Some clusterIdOf \<Rightarrow>
           inspecting (\<lambda>now s.
             case assertClusterIdentity config (clusterIdOf x) s of
               Some e \<Rightarrow> settle (Inl e)
             | None \<Rightarrow> settle (Inr x))) reading"
    by (auto simp: reading_iff split: option.split intro!: client.okA_settle client.okA_inspect)
qed auto

lemma safeRequest_ok:
  assumes "\<not> prefix ''/v2/'' path"
  shows "okC pf cfg (\<lambda>h s. no_mutation h) (safeRequest pf cfg verb path sch body responseClusterId) reading"
  unfolding safeRequest_def using assms by (intro withFailover_ok safeAttempt_ok) auto

lemma healthWithFailover_ok: "okC pf cfg (\<lambda>h s. no_mutation h) (healthWithFailover pf cfg) reading"
  unfolding healthWithFailover_def
  by (rule withFailover_ok, rule await_read_ok, rule requestTo_read_ok)
    (auto simp: reading_iff intro: client.okA_settle)

lemma identityWithFailover_ok: "okC pf cfg (\<lambda>h s. no_mutation h) (identityWithFailover pf cfg) reading"
  unfolding identityWithFailover_def
  by (rule withFailover_ok, rule await_read_ok, rule checks_read, rule readIdentity_ok)
    (auto simp: reading_iff intro: client.okA_settle)

subsection \<open>Mutations\<close>

definition ready :: "platform \<Rightarrow> AgentConfig \<Rightarrow> string \<Rightarrow> (pending, reply) history \<Rightarrow> ClientState \<Rightarrow> bool" where
  "ready pf config c h s \<longleftrightarrow> no_mutation h \<and> verified_in pf config c h \<and> bound_to s c"

lemma ready_later:
  "ready pf config c h s \<Longrightarrow> client_rely s s' \<Longrightarrow> no_mutation h' \<Longrightarrow> ready pf config c (h @ h') s'"
  by (auto simp: ready_def no_mutation_def intro: bound_to_rely)

lemma ready_snoc:
  assumes "ready pf config c h s" and "client_rely s s'"
    and "\<And>req. q = Some (Wire req) \<Longrightarrow> \<not> mutating req"
  shows "ready pf config c (h @ [(q, reply)]) s'"
  using assms by (intro ready_later) (auto simp: no_mutation_def)

abbreviation anything where "anything \<equiv> (\<lambda>_ _ _. True)"

lemma send_ok:
  assumes "config \<in> set (mc_agents cfg)" and "isBoundedIdentifier c"
  shows "okC pf cfg (ready pf config c) (requestTo pf config POST path sch body (Some (c, sc))) anything"
  unfolding requestTo_def using assms
  by (intro client.okA_request) (auto simp: ready_def mutation_allowed_def)

lemma journal_request_ok:
  "okC pf cfg P (requesting (Journal st) f) (\<lambda>h s r. \<exists>h0 s0 reply. P h0 s0 \<and> client_rely s0 s \<and>
     h = h0 @ [(Some (Journal st), reply)])"
  by (rule client.okA_request) auto

lemma any_journal_request_ok: "okC pf cfg P (requesting (Journal st) f) anything"
  by (rule client.okA_request) auto

lemma any_settle_ok: "okC pf cfg P (settle r) anything"
  by (rule client.okA_settle) simp

lemma any_await_ok:
  assumes "okC pf cfg P m anything" and "\<And>r. okC pf cfg (\<lambda>_ _. True) (f r) anything"
  shows "okC pf cfg P (await m f) anything"
  by (rule client.okA_await [where R' = "\<lambda>_ _ _. True", OF assms]) simp

lemma any_bindA_ok:
  assumes "okC pf cfg P m anything" and "\<And>x. okC pf cfg (\<lambda>_ _. True) (f x) anything"
  shows "okC pf cfg P (bindA m f) anything"
  by (rule client.okA_bindA [where R' = "\<lambda>_ _ _. True", OF assms]) simp_all

lemma any_mark_ok: "okC pf cfg P (updating (markActive config) (settle r)) anything"
  by (rule client.okA_update [where P' = "\<lambda>_ _. True"]) (auto intro: any_settle_ok)

lemma journalExecute_ok:
  assumes "okC pf cfg (ready pf config c) send anything"
  shows "okC pf cfg (ready pf config c) (journalExecute pf clusterId generation agentId oid send) anything"
  unfolding journalExecute_def
proof (rule client.okA_bindA [OF journal_request_ok, where R' = "\<lambda>_. ready pf config c"])
  show "okC pf cfg (ready pf config c) (await send (\<lambda>r. case r of
          Inl e \<Rightarrow>
            await (requesting (Journal (JournalFinish
                     (if isDeterministicAgentRejection (asFailure pf e) then REJECTED else UNCERTAIN)))
                     (map_sum id (\<lambda>_. ()))) (\<lambda>_. settle (Inl e))
        | Inr response \<Rightarrow>
            bindA (requesting (Journal (JournalFinish ACKNOWLEDGED)) (map_sum id (\<lambda>_. ())))
              (\<lambda>_. settle (Inr response)))) anything" for x
    by (rule any_await_ok [OF assms])
      (auto split: sum.split intro!: any_await_ok any_bindA_ok any_journal_request_ok any_settle_ok)
qed (auto intro!: ready_snoc)

lemma mutationAttempt_ok:
  assumes "config \<in> set (mc_agents cfg)" and "isBoundedIdentifier c"
  shows "okC pf cfg (ready pf config c) (mutationAttempt pf sc config c path sch body) anything"
proof -
  have barrier: "okC pf cfg (ready pf config c)
      (requestTo pf config GET ''/v1/maintenance/barrier'' BarrierSchema None None)
      (\<lambda>h s r. ready pf config c h s)"
    unfolding requestTo_def using assms(1)
    by (intro client.okA_request) (auto simp: mutating_def intro!: ready_snoc)
  show ?thesis
    unfolding mutationAttempt_def Let_def using assms
    by (auto split: option.split sum.split
        intro!: any_settle_ok any_mark_ok client.okA_await [OF barrier, where R' = "\<lambda>_. ready pf config c"]
          any_bindA_ok journalExecute_ok send_ok ready_snoc)
qed


lemma sendMutation_ok:
  "okC pf cfg (\<lambda>h s. no_mutation h) (sendMutation pf cfg sc path sch body) anything"
  unfolding sendMutation_def
proof (rule client.okA_bindA [OF selectMutationAgent_ok, where R' = "\<lambda>config h s. no_mutation h \<and>
      config \<in> set (mc_agents cfg) \<and> identified pf config h s"], rule client.okA_inspect)
  fix config now s0 and h0 :: "(pending, reply) history"
  assume h0: "no_mutation h0 \<and> config \<in> set (mc_agents cfg) \<and> identified pf config h0 s0"
  have attempt: "okC pf cfg (\<lambda>h s. h = h0 \<and> s = s0)
      (chainA (mutationAttempt pf sc config c path sch body) (\<lambda>r. case r of
               Inr value \<Rightarrow> settle (Inr value)
             | Inl e \<Rightarrow>
                 updating (if isRetryableAgentFailure e then markUnavailable config else (\<lambda>_ s. s))
                   (settle (Inl e)))) anything"
    if "bound_to s0 c" "isBoundedIdentifier c" for c
  proof (rule client.okA_chain [where R = anything])
    show "okC pf cfg (\<lambda>h s. h = h0 \<and> s = s0) (mutationAttempt pf sc config c path sch body) anything"
      by (rule client.okA_mono [OF mutationAttempt_ok])
        (use h0 that in \<open>auto simp: ready_def identified_def bound_to_def\<close>)
  qed (auto split: sum.split intro!: any_settle_ok client.okA_update [where P' = "\<lambda>_ _. True"]
      client.rely_refl)
  show "okC pf cfg (\<lambda>h s. h = h0 \<and> s = s0)
     (case cs_referenceClusterId s0 of
         None \<Rightarrow> settle (Inl (IdentityError (ac_id config) ''expected cluster is not a bounded identifier''))
       | Some expectedClusterId \<Rightarrow>
           if \<not> isBoundedIdentifier expectedClusterId
           then settle (Inl (IdentityError (ac_id config) ''expected cluster is not a bounded identifier''))
           else chainA (mutationAttempt pf sc config expectedClusterId path sch body) (\<lambda>r. case r of
               Inr value \<Rightarrow> settle (Inr value)
             | Inl e \<Rightarrow>
                 updating (if isRetryableAgentFailure e then markUnavailable config else (\<lambda>_ s. s))
                   (settle (Inl e)))) anything"
    by (auto split: option.split intro!: any_settle_ok attempt simp: bound_to_def)
qed auto

subsection \<open>Every call\<close>

lemma read_paths [simp]:
  "\<not> prefix ''/v2/'' (servicePath ''v1'' i rest)" "\<not> prefix ''/v2/'' (nodePath ''v1'' i rest)"
  by (simp_all add: servicePath_def nodePath_def)

lemma voidA_ok:
  assumes "okC pf cfg P m Q"
  shows "okC pf cfg P (voidA m) anything"
  unfolding voidA_def by (rule client.okA_chain [OF assms]) (rule any_settle_ok)

lemma startCall_ok: "okC pf cfg (\<lambda>h s. h = []) (startCall pf cfg c) anything"
proof -
  have "okC pf cfg (\<lambda>h s. no_mutation h) (startMutation pf cfg sc req) anything" for sc req
    by (cases req) (auto simp: http_mutations intro!: voidA_ok [OF sendMutation_ok])
  moreover have "okC pf cfg (\<lambda>h s. no_mutation h) (voidA (http_health pf cfg)) anything"
    "okC pf cfg (\<lambda>h s. no_mutation h) (voidA (http_identity pf cfg)) anything"
    unfolding http_health_def http_identity_def
    by (rule voidA_ok [OF healthWithFailover_ok], rule voidA_ok [OF identityWithFailover_ok])
  ultimately have "okC pf cfg (\<lambda>h s. no_mutation h) (startCall pf cfg c) anything"
    by (cases c) (auto simp: http_reads intro!: voidA_ok [OF safeRequest_ok])
  then show ?thesis by (rule client.okA_mono) simp
qed

section \<open>Mutations reach a verified manager\<close>

text \<open>\<open>made h p pre req\<close>: the call made the request \<open>req\<close>, after the exchanges \<open>pre\<close>.\<close>

inductive made ::
    "('q, 'r) history \<Rightarrow> ('s, 'q, 'r, 'e, 'a) proc \<Rightarrow> ('q, 'r) history \<Rightarrow> 'q \<Rightarrow> bool" where
  pending: "made h (Await (Some req) k) h req"
| answered: "i < length h \<Longrightarrow> fst (h ! i) = Some req \<Longrightarrow> made h p (take i h) req"

inductive_cases madeE: "made h p pre req"

lemma constructed_inv: "constructClient cfg = Inr s0 \<Longrightarrow> client_inv cfg s0"
  by (auto simp: constructClient_def client_inv_def bound_to_def orElse_Inr
      dest: resolveExpectedClusterId_Inr split: option.splits)

lemma made_is_allowed:
  assumes "constructClient cfg = Inr s0"
    and "turns (range (startCall pf cfg)) exchanged s0 l"
    and "(h, p) \<in> set (el_calls l)" and "made h p pre req"
  shows "request_allowed pf cfg (el_state l) pre req" and "client_inv cfg (el_state l)"
proof -
  have start: "\<And>m. m \<in> range (startCall pf cfg) \<Longrightarrow> okC pf cfg (\<lambda>h s. h = []) m anything"
    using startCall_ok by blast
  note ok = client.requests_are_allowed [OF assms(2) start constructed_inv [OF assms(1)] assms(3)]
  show "request_allowed pf cfg (el_state l) pre req"
    using assms(4)
  proof cases
    case (pending k)
    then show ?thesis using ok(2) by blast
  next
    case (answered i)
    with ok(1) show ?thesis unfolding client.lawful_def by blast
  qed
  show "client_inv cfg (el_state l)"
    using client.turns_ok [OF assms(2) start constructed_inv [OF assms(1)]] by blast
qed

text \<open>
  C16. Let the client be configured from the environment and used by any number of concurrent calls,
  whatever the network answers. Every mutation request it makes goes to a configured Agent over a
  valid transport and names the cluster that the client is bound to, a bounded identifier, which is
  the one of the environment unless the Agents run in development mode. Within the same call that
  very Agent has just identified itself as a manager of this cluster, and the call has made no
  other mutation request before: a mutation is never repeated on another Agent.
\<close>

theorem mutations_reach_a_verified_manager:
  assumes "loadManagerAgentConfig pf env = Inr cfg" and "constructClient cfg = Inr s0"
    and "turns (range (startCall pf cfg)) exchanged s0 l" and "(h, p) \<in> set (el_calls l)"
    and "made h p pre (Wire req)" and "mutating req"
  shows "wr_agent req \<in> set (mc_agents cfg) \<and> transport_ok pf (wr_agent req) \<and> no_mutation pre \<and>
    (\<exists>c. wr_expectedCluster req = Some c \<and> isBoundedIdentifier c \<and>
       cs_referenceClusterId (el_state l) = Some c \<and> verified_in pf (wr_agent req) c pre \<and>
       (env_expectedClusterId env = Some c \<or> ac_insecureDev (wr_agent req)))"
proof -
  have config: "config_ok pf cfg" "mc_expectedClusterId cfg = env_expectedClusterId env"
    using loaded_config_ok [OF assms(1)] by auto
  have "wr_agent req \<in> set (mc_agents cfg)" "mutation_allowed pf (el_state l) pre req"
    and "client_inv cfg (el_state l)"
    using made_is_allowed [OF assms(2-5)] assms(6) by auto
  with config show ?thesis
    by (auto simp: mutation_allowed_def config_ok_def list_all_iff client_inv_def bound_to_def
        split: option.splits)
qed

text \<open>
  Two calls on one client: a mutation and a read that becomes pending in between. After six turns
  the mutation is on its way to the only Agent.
\<close>

definition demo_json :: "string \<Rightarrow> json option" where
  "demo_json t =
     (if t = ''identity'' then Some (JObj [(''component'', JStr ''docklane-agent''),
        (''clusterId'', JStr ''swarm''), (''nodeId'', JStr ''n1''), (''hostname'', JStr ''m1''),
        (''manager'', JBool True), (''leader'', JBool True)])
      else if t = ''health'' then Some (JObj [(''status'', JStr ''ok''),
        (''component'', JStr ''docklane-agent'')])
      else if t = ''agents'' then Some (JArr
        [JObj [(''id'', JStr ''a''), (''baseUrl'', JStr ''https://a'')],
         JObj [(''id'', JStr ''b''), (''baseUrl'', JStr ''https://b'')]])
      else if t = ''services'' then Some (JArr [])
      else None)"

definition demo_platform :: platform where
  "demo_platform = \<lparr>pf_parseJson = demo_json,
     pf_parseUrl = (\<lambda>u. Some \<lparr>u_protocol = ''https:'', u_username = [], u_password = [],
        u_host = ''127.0.0.1:9443'', u_hostname = ''127.0.0.1'', u_pathname = ''/'', u_search = [], u_hash = []\<rparr>),
     pf_isUrl = (\<lambda>u. True), pf_readFile = (\<lambda>f. Some ''pem'')\<rparr>"

definition demo_agent_env :: AgentEnvironment where
  "demo_agent_env = \<lparr>env_insecureDev = None, env_expectedClusterId = Some ''swarm'', env_primaryId = None,
     env_agentUrl = None, env_managerAgents = None, env_caFile = Some ''ca.pem'',
     env_certFile = Some ''cert.pem'', env_keyFile = Some ''key.pem''\<rparr>"

definition demo_agent :: AgentConfig where
  "demo_agent = \<lparr>ac_id = ''primary'', ac_baseUrl = ''https://127.0.0.1:9443'', ac_insecureDev = False,
     ac_ca = Some ''pem'', ac_cert = Some ''pem'', ac_key = Some ''pem''\<rparr>"

definition demo_managers :: ManagerAgentConfig where
  "demo_managers = \<lparr>mc_primaryId = ''primary'', mc_agents = [demo_agent],
     mc_expectedClusterId = Some ''swarm''\<rparr>"

definition demo_scope :: MutationScope where
  "demo_scope = \<lparr>sc_admission = None, sc_operation = None, sc_journal = True, sc_enforce = False\<rparr>"

definition demo_client :: ClientState where
  "demo_client = \<lparr>cs_activeId = ''primary'', cs_referenceClusterId = Some ''swarm'',
     cs_unavailableUntil = (\<lambda>_. None)\<rparr>"

lemma demo_loaded: "loadManagerAgentConfig demo_platform demo_agent_env = Inr demo_managers"
  by (simp add: loadManagerAgentConfig_def demo_agent_env_def demo_platform_def demo_managers_def
      demo_agent_def resolveExpectedClusterId_def parseManagerDefinitions_def optionalFile_def
      validateTransport_def orElse_def isIdentifierChar_def Let_def)

lemma demo_constructed: "constructClient demo_managers = Inr demo_client"
  by (simp add: constructClient_def demo_managers_def demo_agent_def demo_client_def orElse_def
      resolveExpectedClusterId_def isIdentifierChar_def Let_def)

datatype move = Begin ClientCall | Continue_with nat reply

fun play :: "platform \<Rightarrow> ManagerAgentConfig \<Rightarrow> move \<Rightarrow> (ClientState, pending, reply, client_error, unit) event_loop
    \<Rightarrow> (ClientState, pending, reply, client_error, unit) event_loop" where
  "play pf cfg (Begin c) l =
     (case startCall pf cfg c 0 (el_state l) of (s, p) \<Rightarrow>
        \<lparr>el_state = s, el_calls = el_calls l @ [([], p)]\<rparr>)"
| "play pf cfg (Continue_with i r) l =
     (case el_calls l ! i of
        (h, Await q k) \<Rightarrow> (case k r 0 (el_state l) of (s, p) \<Rightarrow>
           \<lparr>el_state = s, el_calls = (el_calls l)[i := (h @ [(q, r)], p)]\<rparr>)
      | _ \<Rightarrow> l)"


fun acceptable :: "(ClientState, pending, reply, client_error, unit) event_loop \<Rightarrow> move \<Rightarrow> bool" where
  "acceptable l (Begin c) = True"
| "acceptable l (Continue_with i r) =
     (i < length (el_calls l) \<and>
      (case snd (el_calls l ! i) of Await q k \<Rightarrow> True | Settled _ \<Rightarrow> False) \<and>
      (case r of Inr body \<Rightarrow> length body \<le> 100 | Inl _ \<Rightarrow> False))"

fun playAll where
  "playAll pf cfg [] l = Some l"
| "playAll pf cfg (m # ms) l = (if acceptable l m then playAll pf cfg ms (play pf cfg m l) else None)"

lemma short_bodies_are_exchanged: "length body \<le> 100 \<Longrightarrow> exchanged q (Inr body)"
proof (cases q)
  case (Wire req)
  assume "length body \<le> 100"
  then have "exchange (ac_id (wr_agent req)) [EvResponse (Some 200), EvData body, EvEnd] = Some (Inr body)"
    by (simp add: exchange_def newExchange_def statusOf_def settleOnce_def MAX_RESPONSE_BYTES_def Let_def)
  with Wire show ?thesis by auto
qed simp

lemma play_turn:
  assumes "turns (range (startCall pf cfg)) exchanged s0 l" and "acceptable l m"
  shows "turns (range (startCall pf cfg)) exchanged s0 (play pf cfg m l)"
proof (cases m)
  case (Begin c)
  obtain s p where "startCall pf cfg c 0 (el_state l) = (s, p)" by fastforce
  with Begin show ?thesis by (auto intro!: turns.turn [OF assms(1)] turn.start)
next
  case (Continue_with i r)
  with assms(2) obtain h q k body where await: "i < length (el_calls l)" "el_calls l ! i = (h, Await q k)"
    and r: "r = Inr body" "length body \<le> 100"
    by (cases "el_calls l ! i") (auto split: proc.splits sum.splits)
  obtain s p where k: "k r 0 (el_state l) = (s, p)" by fastforce
  have "case q of None \<Rightarrow> True | Some req \<Rightarrow> exchanged req r"
    using r short_bodies_are_exchanged by (simp split: option.splits)
  from turns.turn [OF assms(1) turn.resume [where answers = exchanged and reply = r and now = 0, OF await this k]]
  show ?thesis
    by (simp add: Continue_with await k)
qed

lemma playAll_turns:
  assumes "playAll pf cfg ms l = Some l'" and "turns (range (startCall pf cfg)) exchanged s0 l"
  shows "turns (range (startCall pf cfg)) exchanged s0 l'"
  using assms by (induction pf cfg ms l rule: playAll.induct) (auto split: if_splits intro: play_turn)

fun outstanding :: "('q, 'r) history \<times> ('s, 'q, 'r, 'e, 'a) proc \<Rightarrow> ('q, 'r) history \<times> 'q option" where
  "outstanding (h, Await q k) = (h, q)"
| "outstanding (h, Settled r) = (h, None)"

lemma outstanding_made: "outstanding (h, p) = (h', Some req) \<Longrightarrow> h' = h \<and> made h p h req"
  by (cases p) (auto intro: made.pending)

definition demo_moves :: "move list" where
  "demo_moves = [Begin (CallMutation demo_scope (RestartService ''svc'' 3 ''a'' ''b'')), Begin CallHealth,
     Continue_with 0 (Inr ''identity''), Continue_with 1 (Inr ''health''), Continue_with 0 (Inr []),
     Continue_with 0 (Inr []), Continue_with 1 (Inr []), Continue_with 0 (Inr []), Continue_with 0 (Inr [])]"

definition demo_mutation :: WireRequest where
  "demo_mutation = \<lparr>wr_agent = demo_agent, wr_method = POST, wr_path = ''/v2/services/svc/restart'',
     wr_body = Some (specBody 3 ''a'' ''b'' []), wr_expectedCluster = Some ''swarm'', wr_generation = None\<rparr>"

lemma demo_play:
  "map_option (\<lambda>l. map (snd \<circ> outstanding) (el_calls l))
     (playAll demo_platform demo_managers demo_moves \<lparr>el_state = demo_client, el_calls = []\<rparr>)
     = Some [Some (Wire demo_mutation), None]"
  by code_simp

theorem mutations_reach_a_verified_manager_witness:
  "\<exists>l h p. turns (range (startCall demo_platform demo_managers)) exchanged demo_client l \<and>
     (h, p) \<in> set (el_calls l) \<and> made h p h (Wire demo_mutation) \<and> mutating demo_mutation \<and>
     verified_in demo_platform demo_agent ''swarm'' h"
proof -
  obtain l where l: "playAll demo_platform demo_managers demo_moves \<lparr>el_state = demo_client, el_calls = []\<rparr> = Some l"
    and out: "map (snd \<circ> outstanding) (el_calls l) = [Some (Wire demo_mutation), None]"
    using demo_play by (auto simp: map_option_case split: option.splits)
  have run: "turns (range (startCall demo_platform demo_managers)) exchanged demo_client l"
    by (rule playAll_turns [OF l turns.idle])
  obtain h p where hp: "(h, p) \<in> set (el_calls l)" "snd (outstanding (h, p)) = Some (Wire demo_mutation)"
    using out by (fastforce simp: map_eq_Cons_conv)
  then have "made h p h (Wire demo_mutation)"
    by (metis outstanding_made prod.collapse)
  moreover have "mutating demo_mutation"
    by (simp add: mutating_def demo_mutation_def)
  ultimately show ?thesis
    using mutations_reach_a_verified_manager [OF demo_loaded demo_constructed run, of h p h demo_mutation] run hp
    by (auto simp: demo_mutation_def)
qed

section \<open>Failover\<close>

text \<open>
  What one candidate contributes to a read when the client is bound to the cluster \<open>c\<close>, as a
  function of the answers to its two requests.
\<close>

definition readRequest :: "HttpMethod \<Rightarrow> string \<Rightarrow> json option \<Rightarrow> AgentConfig \<Rightarrow> WireRequest" where
  "readRequest verb path body config = \<lparr>wr_agent = config, wr_method = verb, wr_path = path,
     wr_body = body, wr_expectedCluster = None, wr_generation = None\<rparr>"

definition mismatch :: "AgentConfig \<Rightarrow> string \<Rightarrow> string \<Rightarrow> client_error" where
  "mismatch config clusterId c =
     IdentityError (ac_id config) (''cluster '' @ clusterId @ '' does not match '' @ c)"

definition attemptOutcome ::
    "platform \<Rightarrow> (pending option \<Rightarrow> reply) \<Rightarrow> string \<Rightarrow> HttpMethod \<Rightarrow> string \<Rightarrow> 'a schema \<Rightarrow> json option
      \<Rightarrow> ('a \<Rightarrow> string) option \<Rightarrow> AgentConfig \<Rightarrow> client_error + 'a" where
  "attemptOutcome pf answer c verb path sch body clusterOf config =
     (case parseResponse pf AgentIdentityResponseSchema (answer (Some (Wire (identityRequest config)))) of
        Inl e \<Rightarrow>
          Inl (if isRetryableAgentFailure e then e
               else IdentityError (ac_id config) (client_message e))
      | Inr i \<Rightarrow>
          if ai_clusterId i \<noteq> c then Inl (mismatch config (ai_clusterId i) c)
          else (case parseResponse pf sch (answer (Some (Wire (readRequest verb path body config)))) of
                  Inl e \<Rightarrow> Inl e
                | Inr v \<Rightarrow>
                    (case clusterOf of
                       None \<Rightarrow> Inr v
                     | Some f \<Rightarrow> if f v \<noteq> c then Inl (mismatch config (f v) c) else Inr v)))"

text \<open>The failures after which another Agent may be asked.\<close>

fun recoverable :: "client_error \<Rightarrow> bool" where
  "recoverable (TransportError _ _) = True"
| "recoverable (IdentityError _ _) = True"
| "recoverable (RequestError st _) = (500 \<le> st)"
| "recoverable _ = False"

lemma recoverable_fails_over: "recoverable e \<Longrightarrow> shouldFailover e"
  by (cases e) (auto simp: shouldFailover_def isIdentityError_def)

lemma assertClusterIdentity_bound:
  "bound_to s c \<Longrightarrow>
     assertClusterIdentity config x s = (if x \<noteq> c then Some (mismatch config x c) else None)"
  by (simp add: assertClusterIdentity_def bound_to_def mismatch_def)

lemma bindReference_bound: "bound_to s c \<Longrightarrow> bindReference x s = s"
  by (simp add: bindReference_def bound_to_def)

lemma requestTo_read: "requestTo pf config verb path sch body None =
    requesting (Wire (readRequest verb path body config)) (parseResponse pf sch)"
  by (simp add: requestTo_def readRequest_def)

lemma identity_is_read: "identityRequest config = readRequest GET ''/v1/identity'' None config"
  by (simp add: identityRequest_def readRequest_def)

text \<open>An attempt leaves the state of a bound client alone.\<close>

lemma safeAttempt_run:
  assumes "bound_to s c"
  shows "\<exists>n' m. runA (safeAttempt pf verb path sch body clusterOf config) answer clock (n, t, s) =
    (attemptOutcome pf answer c verb path sch body clusterOf config, n', clock m, s)"
  using assms
  by (auto simp: safeAttempt_def verifyAgent_def readIdentity_def identity_is_read requestTo_read
      runA_rules assertClusterIdentity_bound bindReference_bound attemptOutcome_def
      split: sum.split option.split)


lemma filter_unique:
  assumes "distinct (map f xs)" and "x \<in> set xs"
  shows "filter (\<lambda>y. f y = f x) xs = [x]"
  using assms by (induction xs) (auto simp: filter_empty_conv image_iff)

lemma markActive_first:
  assumes "distinct (map ac_id (mc_agents cfg))" and "config \<in> set (mc_agents cfg)"
  shows "hd (candidateAgents cfg t (markActive config now s)) = config"
proof -
  have "filter (\<lambda>a. ac_id a = ac_id config) (mc_agents cfg) = [config]"
    by (rule filter_unique [OF assms])
  then show ?thesis
    by (simp add: candidateAgents_def markActive_def Let_def)
qed

lemma tryAgents_run:
  assumes "bound_to s c" and "\<forall>k. begun \<le> clock k" and "begun \<le> t"
    and "\<forall>a \<in> set failing. \<exists>e. attemptOutcome pf answer c verb path sch body clusterOf a = Inl e \<and> shouldFailover e"
    and "attemptOutcome pf answer c verb path sch body clusterOf config = Inr v"
  shows "\<exists>n' t' s'. runA (tryAgents shouldFailover (safeAttempt pf verb path sch body clusterOf) lastError
        (failing @ config # others)) answer clock (n, t, s) = (Inr v, n', t', markActive config t' s') \<and>
      bound_to s' c \<and>
      (\<forall>a \<in> set failing. \<exists>u \<ge> begun + AGENT_FAILURE_COOLDOWN_MS. cs_unavailableUntil s' (ac_id a) = Some u) \<and>
      (\<forall>i. i \<notin> ac_id ` set failing \<longrightarrow> cs_unavailableUntil s' i = cs_unavailableUntil s i)"
  using assms
proof (induction failing arbitrary: n t s lastError)
  case Nil
  obtain n' m where "runA (safeAttempt pf verb path sch body clusterOf config) answer clock (n, t, s) =
      (Inr v, n', clock m, s)"
    using safeAttempt_run [OF Nil.prems(1)] Nil.prems(5) by metis
  with Nil.prems(1) show ?case by (auto simp: runA_rules)
next
  case (Cons a failing)
  obtain e where e: "attemptOutcome pf answer c verb path sch body clusterOf a = Inl e" "shouldFailover e"
    using Cons.prems(4) by auto
  obtain n1 m where a: "runA (safeAttempt pf verb path sch body clusterOf a) answer clock (n, t, s) =
      (Inl e, n1, clock m, s)"
    using safeAttempt_run [OF Cons.prems(1)] e(1) by metis
  define s1 where "s1 = markUnavailable a (clock m) s"
  have "bound_to s1 c" using Cons.prems(1) by (simp add: s1_def)
  then obtain n' t' s' where rest: "runA (tryAgents shouldFailover (safeAttempt pf verb path sch body clusterOf) e
        (failing @ config # others)) answer clock (n1, clock m, s1) = (Inr v, n', t', markActive config t' s')"
      "bound_to s' c"
      "\<forall>b \<in> set failing. \<exists>u \<ge> begun + AGENT_FAILURE_COOLDOWN_MS. cs_unavailableUntil s' (ac_id b) = Some u"
      "\<forall>i. i \<notin> ac_id ` set failing \<longrightarrow> cs_unavailableUntil s' i = cs_unavailableUntil s1 i"
    using Cons.IH [of s1 "clock m" e n1] Cons.prems by auto
  have "cs_unavailableUntil s1 (ac_id a) = Some (clock m + AGENT_FAILURE_COOLDOWN_MS)"
    "\<And>i. i \<noteq> ac_id a \<Longrightarrow> cs_unavailableUntil s1 i = cs_unavailableUntil s i"
    by (simp_all add: s1_def markUnavailable_def)
  moreover have "begun + AGENT_FAILURE_COOLDOWN_MS \<le> clock m + AGENT_FAILURE_COOLDOWN_MS"
    using Cons.prems(2) by simp
  ultimately have "\<exists>u \<ge> begun + AGENT_FAILURE_COOLDOWN_MS. cs_unavailableUntil s' (ac_id a) = Some u"
    using rest(3,4) by (cases "ac_id a \<in> ac_id ` set failing") auto
  with rest show ?case
    using e(2) a
    by (auto simp: runA_rules s1_def markUnavailable_def)
qed

text \<open>
  C17. A read on a bound client with a loaded configuration. If the candidates before some Agent
  fail in transport, with a server error or with a foreign or invalid identity, and this Agent
  identifies itself with the right cluster and gives a valid answer, then the call returns that
  answer. The Agent becomes the active one and is asked first from then on, the failed ones are
  avoided for at least 5 seconds after the start of the call, and the cluster binding is unchanged.
\<close>

theorem failover_reaches_a_healthy_agent:
  assumes "loadManagerAgentConfig pf env = Inr cfg" and "cs_referenceClusterId s = Some c"
    and "candidateAgents cfg t s = failing @ config # others" and "\<forall>k. t \<le> clock k"
    and "\<forall>a \<in> set failing. \<exists>e.
      attemptOutcome pf answer c verb path sch body clusterOf a = Inl e \<and> recoverable e"
    and "attemptOutcome pf answer c verb path sch body clusterOf config = Inr v"
  shows "\<exists>n t' s'. runA (safeRequest pf cfg verb path sch body clusterOf) answer clock (0, t, s) = (Inr v, n, t', s') \<and>
    cs_activeId s' = ac_id config \<and> cs_referenceClusterId s' = Some c \<and>
    (\<forall>t''. hd (candidateAgents cfg t'' s') = config) \<and>
    (\<forall>a \<in> set failing. \<exists>u \<ge> t + AGENT_FAILURE_COOLDOWN_MS. cs_unavailableUntil s' (ac_id a) = Some u)"
proof -
  have distinct: "distinct (map ac_id (mc_agents cfg))"
    using loaded_config_ok [OF assms(1)] by (simp add: config_ok_def)
  have config: "config \<in> set (mc_agents cfg)"
    using candidates_are_configured [of cfg t s] assms(3) by auto
  have failing: "\<forall>a \<in> set failing. \<exists>e.
      attemptOutcome pf answer c verb path sch body clusterOf a = Inl e \<and> shouldFailover e"
    using assms(5) recoverable_fails_over by blast
  have bound: "bound_to s c" using assms(2) by (simp add: bound_to_def)
  have others: "ac_id a \<noteq> ac_id config" if "a \<in> set failing" for a
  proof -
    have "distinct (map ac_id (candidateAgents cfg t s))"
      using distinct by (auto simp: candidateAgents_def Let_def distinct_map filter_id_conv inj_on_def)
    with assms(3) that show ?thesis by (auto simp: image_iff)
  qed
  obtain n t' s' where run: "runA (tryAgents shouldFailover (safeAttempt pf verb path sch body clusterOf)
        (OtherError ''No manager Agent is available'') (failing @ config # others)) answer clock (0, t, s) =
        (Inr v, n, t', markActive config t' s')"
    and "bound_to s' c"
    and cooling: "\<forall>a \<in> set failing. \<exists>u \<ge> t + AGENT_FAILURE_COOLDOWN_MS. cs_unavailableUntil s' (ac_id a) = Some u"
    using tryAgents_run [where begun = t and n = 0 and others = others
        and lastError = "OtherError ''No manager Agent is available''", OF bound assms(4) order_refl failing assms(6)]
    by blast
  moreover have "runA (safeRequest pf cfg verb path sch body clusterOf) answer clock (0, t, s) =
      (Inr v, n, t', markActive config t' s')"
    using run assms(3) by (simp add: safeRequest_def withFailover_def runA_rules)
  moreover have "\<forall>a \<in> set failing. \<exists>u \<ge> t + AGENT_FAILURE_COOLDOWN_MS.
      cs_unavailableUntil (markActive config t' s') (ac_id a) = Some u"
    using cooling others by (auto simp: markActive_def)
  ultimately show ?thesis
    using markActive_first [OF distinct config] by (auto simp: bound_to_def markActive_def)
qed


definition demo_pair :: ManagerAgentConfig where
  "demo_pair = demo_managers\<lparr>mc_primaryId := ''a'',
     mc_agents := [demo_agent\<lparr>ac_id := ''a'', ac_baseUrl := ''https://a''\<rparr>,
                   demo_agent\<lparr>ac_id := ''b'', ac_baseUrl := ''https://b''\<rparr>]\<rparr>"

fun demo_answer :: "pending option \<Rightarrow> reply" where
  "demo_answer (Some (Wire req)) =
     (if ac_id (wr_agent req) = ''a'' then Inl (TransportError ''a'' ''request timed out'')
      else if wr_path req = ''/v1/identity'' then Inr ''identity'' else Inr ''services'')"
| "demo_answer _ = Inr []"

lemma demo_pair_loaded:
  "loadManagerAgentConfig demo_platform (demo_agent_env\<lparr>env_managerAgents := Some ''agents''\<rparr>) = Inr demo_pair"
  by (simp add: loadManagerAgentConfig_def demo_agent_env_def demo_platform_def demo_managers_def
      demo_pair_def demo_json_def ManagerAgentDefinitionsSchema_def ManagerAgentDefinitionSchema_def
      demo_agent_def resolveExpectedClusterId_def parseManagerDefinitions_def optionalFile_def
      validateTransport_def orElse_def isIdentifierChar_def Let_def)

theorem failover_reaches_a_healthy_agent_witness:
  "\<exists>n t' s'. runA (safeRequest demo_platform demo_pair GET ''/v1/services'' (z_array ServiceSummarySchema) None None)
     demo_answer (\<lambda>_. 9) (0, 7, demo_client) = (Inr [], n, t', s') \<and> cs_activeId s' = ''b'' \<and>
     (\<exists>u \<ge> 5007. cs_unavailableUntil s' ''a'' = Some u)"
proof -
  have "candidateAgents demo_pair 7 demo_client =
      [demo_agent\<lparr>ac_id := ''a'', ac_baseUrl := ''https://a''\<rparr>] @
      demo_agent\<lparr>ac_id := ''b'', ac_baseUrl := ''https://b''\<rparr> # []"
    by (simp add: candidateAgents_def demo_pair_def demo_managers_def demo_agent_def demo_client_def)
  from failover_reaches_a_healthy_agent [OF demo_pair_loaded _ this, where c = "''swarm''" and clock = "\<lambda>_. 9"
      and answer = demo_answer and verb = GET and path = "''/v1/services''" and body = None
      and sch = "z_array ServiceSummarySchema" and clusterOf = None and v = "[]"]
  show ?thesis
    by (simp add: demo_client_def attemptOutcome_def identityRequest_def readRequest_def demo_agent_def
        parseResponse_def demo_platform_def demo_json_def AgentIdentityResponseSchema_def z_literal_def
        AGENT_FAILURE_COOLDOWN_MS_def) blast
qed

text \<open>
  A rejection that the control plane itself raises before any transport counts as a server error of
  the Agent: the Agent that has just been verified is avoided for 5 seconds.
\<close>

lemma local_rejection_cools_down:
  assumes "bound_to s c" and "isBoundedIdentifier c" and "candidateAgents cfg t s = config # others"
    and "parseResponse pf AgentIdentityResponseSchema (answer (Some (Wire (identityRequest config)))) = Inr i"
    and "ai_clusterId i = c" and "sc_admission sc = None" and "sc_enforce sc"
  shows "\<exists>n t' s'. runA (sendMutation pf cfg sc path sch body) answer clock (0, t, s) =
      (Inl (PreDispatchRejection MAINTENANCE_UNAVAILABLE), n, t', s') \<and>
    cs_unavailableUntil s' (ac_id config) = Some (t' + AGENT_FAILURE_COOLDOWN_MS)"
proof -
  have "cs_referenceClusterId s = Some (ai_clusterId i)"
    using assms(1,5) by (simp add: bound_to_def)
  with assms show ?thesis
    by (simp add: sendMutation_def selectMutationAgent_def withFailover_def verifyAgent_def readIdentity_def
        identity_requested runA_rules assertClusterIdentity_bound bindReference_bound mutationAttempt_def
        maintenance_status_def markUnavailable_def markActive_def)
qed

end
