(* ===== verification/Catalog_Outcomes.thy ===== *)
theory Catalog_Outcomes
  imports Maintenance_Safety
begin

text \<open>
  What the components around the catalogue guarantee: registrations are verified and immutable,
  releases pin what the registry reports, bootstrap tokens are claimed once and bound to one node,
  credentials stay with their origin, and accepted requests are within their bounds.
\<close>

section \<open>Transactions\<close>

lemma inTransaction_duplicate:
  "inTransaction ext body w = (Inl (DuplicateEntry m), w') \<Longrightarrow> w_db w' = w_db w"
  by (auto simp: inTransaction_def rollbackTo_def Let_def tick_def split: DbOutcome.splits sum.splits prod.splits)

lemma inTransactionUnless_OK:
  assumes "inTransactionUnless ext body w = (Inr (Some x), w')"
  shows "\<exists>w2. body (tick ext w) = (Inr (Some x), w2) \<and> w_db w' = w_db w2"
  using assms
  by (auto simp: inTransactionUnless_def inTransaction_def rollbackTo_def Let_def tick_def
      split: DbOutcome.splits sum.splits prod.splits option.splits)

lemma append_audit_OK:
  "execute ext (\<lambda>now d. Inr (n, d\<lparr>audit_events := audit_events d @ [row]\<rparr>)) w = (Inr u, w') \<Longrightarrow>
     w_db w' = (w_db w)\<lparr>audit_events := audit_events (w_db w) @ [row]\<rparr>"
  by (drule execute_OK) auto

lemma registration_find_OK:
  "registration_find ext c w = (Inr x, w') \<Longrightarrow>
     x = find_row cg_clusterId c (cluster_registrations (w_db w)) \<and> w_db w' = w_db w"
  unfolding registration_find_def by (drule query_OK) simp

section \<open>Registration\<close>

lemma insertRegistration_OK:
  assumes "insertRegistration rid c i actor node now d = Inr (n, d')"
  shows "\<exists>row. cluster_registrations d' = cluster_registrations d @ [row] \<and> cg_clusterId row = c \<and>
    cg_swarmClusterId row = rg_swarmClusterId i \<and> cg_displayName row = rg_displayName i \<and>
    cg_verifiedNodeId row = node \<and> cg_registeredBy row = actor"
  using assms by (auto simp: insertRegistration_def split: if_splits)

lemma registration_register_OK:
  assumes run: "registration_register ext c i actor node w = (Inr reg, w')"
    and new: "find_row cg_clusterId c (cluster_registrations (w_db w)) = None"
  shows "find_row cg_clusterId c (cluster_registrations (w_db w')) = Some reg \<and>
    cg_swarmClusterId reg = rg_swarmClusterId i \<and> cg_displayName reg = rg_displayName i \<and>
    cg_verifiedNodeId reg = node \<and> cg_registeredBy reg = actor"
proof -
  obtain rid w1 r w2 where w1: "randomUUID ext w = (Inr rid, w1)"
    and tx: "inTransaction ext
       (thenM (execute ext (insertRegistration rid c i actor node))
       (bindM (registration_find ext c) (\<lambda>found.
        case found of
          None \<Rightarrow> throwM (PlainError ''Cluster registration disappeared after insertion'')
        | Some record \<Rightarrow> thenM (op_audit ext (registrationAudit record)) (retM record)))) w1 = (r, w2)"
    and rest: "(case r of
        Inr record \<Rightarrow> retM record
      | Inl e \<Rightarrow>
          if isDuplicateKey e then
            bindM (registration_find ext c) (\<lambda>existing.
            case existing of
              Some record \<Rightarrow>
                if matchesRegistration record c i then retM record
                else throwM (ConflictException ''Cluster or Swarm identity is already registered'')
            | None \<Rightarrow> throwM (ConflictException ''Cluster or Swarm identity is already registered''))
          else throwM e) w2 = (Inr reg, w')"
    using run unfolding registration_register_def bindM_OK attempt_OK by blast
  have db1: "w_db w1 = w_db w" using w1 by (auto simp: randomUUID_def callExternal_OK tick_def)
  show ?thesis
  proof (cases r)
    case (Inl e)
    with rest obtain m where e: "e = DuplicateEntry m" by (cases e) (simp_all add: throwM_OK)
    have "w_db w2 = w_db w" using inTransaction_duplicate [OF tx [unfolded Inl e]] db1 by simp
    then have "x = None" if "registration_find ext c w2 = (Inr x, w3)" for x w3
      using registration_find_OK [OF that] new by simp
    with rest Inl e show ?thesis by (fastforce simp: bindM_OK throwM_OK)
  next
    case (Inr stored)
    with rest have w': "w' = w2" "stored = reg" by (simp_all add: retM_OK)
    obtain w3 w4 w5 w6 u1 u2 where ins: "execute ext (insertRegistration rid c i actor node) w3 = (Inr u1, w4)"
      and find: "registration_find ext c w4 = (Inr (Some reg), w5)"
      and aud: "op_audit ext (registrationAudit reg) w5 = (Inr u2, w6)"
      and db: "w_db w3 = w_db w" "w_db w' = w_db w6"
      using inTransaction_OK [OF tx [unfolded Inr]] db1 w'
      unfolding thenM_OK bindM_OK case_option_OK retM_OK
      by (elim exE conjE disjE) (simp_all add: throwM_OK)
    have "cluster_registrations (w_db w6) = cluster_registrations (w_db w5)"
      using execute_OK [OF aud [unfolded op_audit_def]] by auto
    moreover obtain row where row: "cluster_registrations (w_db w4) = cluster_registrations (w_db w) @ [row]"
        "cg_clusterId row = c" "cg_swarmClusterId row = rg_swarmClusterId i" "cg_displayName row = rg_displayName i"
        "cg_verifiedNodeId row = node" "cg_registeredBy row = actor"
      using execute_OK [OF ins] insertRegistration_OK db(1) by metis
    moreover have "find_row cg_clusterId c (cluster_registrations (w_db w) @ [row]) = Some reg"
      using registration_find_OK [OF find] row(1) by simp
    then have "reg = row" using new by (simp add: find_row_snoc)
    ultimately show ?thesis using registration_find_OK [OF find] db by simp
  qed
qed

text \<open>The manager that identified itself between two interactions.\<close>

definition identified :: "external \<Rightarrow> nat \<Rightarrow> nat \<Rightarrow> string \<Rightarrow> string \<Rightarrow> bool" where
  "identified ext lo hi swarmId nodeId \<longleftrightarrow>
     (\<exists>n identity. lo \<le> n \<and> n < hi \<and> x_identity ext n = Inr identity \<and> ai_manager identity \<and>
        ai_clusterId identity = swarmId \<and> ai_nodeId identity = nodeId)"

lemma registration_serviceRegister_OK:
  assumes run: "registration_serviceRegister ext c i actor w = (Inr reg, w')"
  shows "c = x_clusterId ext \<and> x_managerClusterId ext = Some (cg_swarmClusterId reg) \<and>
    find_row cg_clusterId c (cluster_registrations (w_db w')) = Some reg \<and> matchesRegistration reg c i \<and>
    (find_row cg_clusterId c (cluster_registrations (w_db w)) = Some reg \<and> w_db w' = w_db w \<or>
     find_row cg_clusterId c (cluster_registrations (w_db w)) = None \<and> cg_registeredBy reg = pr_actorId actor \<and>
     identified ext (w_calls w) (w_calls w') (cg_swarmClusterId reg) (cg_verifiedNodeId reg))"
proof -
  have acc: "c = x_clusterId ext"
    and conf: "x_managerClusterId ext = Some (rg_swarmClusterId i)"
    and body: "bindM (registration_find ext c) (\<lambda>found.
        case found of
          Some existing \<Rightarrow>
            if \<not> matchesRegistration existing c i
            then throwM (ConflictException ''Cluster is already registered with different immutable metadata'')
            else retM existing
        | None \<Rightarrow>
            bindM (attempt (callExternal ext (x_identity ext))) (\<lambda>r.
            case r of
              Inl _ \<Rightarrow> throwM (BadGatewayException ''Unable to verify the configured manager identity'')
            | Inr identity \<Rightarrow>
                if \<not> ai_manager identity \<or> \<not> isBoundedIdentifier (ai_nodeId identity)
                then throwM (BadGatewayException ''Agent did not provide a valid manager identity'')
                else if Some (ai_clusterId identity) \<noteq> x_managerClusterId ext
                then throwM (ConflictException ''Current Agent cluster does not match the registration target'')
                else registration_register ext c i (pr_actorId actor) (ai_nodeId identity))) w = (Inr reg, w')"
    using run unfolding registration_serviceRegister_def registration_assertAccess_def thenM_OK if_OK
    by (elim exE conjE disjE; auto simp: throwM_OK retM_OK)+
  obtain found w1 where f: "registration_find ext c w = (Inr found, w1)"
    using body unfolding bindM_OK by blast
  note found = registration_find_OK [OF f]
  have w1: "w_calls w \<le> w_calls w1"
    using stepsD [OF reading.steps_registration_reads(1) f] by (simp add: reads_only_def only_db_iff)
  show ?thesis
  proof (cases found)
    case (Some existing)
    then show ?thesis
      using body f found acc conf
      by (auto simp: bindM_OK OK_simps matchesRegistration_def)
  next
    case None
    then obtain identity where ident: "x_identity ext (w_calls w1) = Inr identity" "ai_manager identity"
        "Some (ai_clusterId identity) = x_managerClusterId ext"
      and reg: "registration_register ext c i (pr_actorId actor) (ai_nodeId identity) (tick ext w1) = (Inr reg, w')"
      using body f unfolding bindM_OK by (auto simp: OK_simps callExternal_def)
    have "w_calls (tick ext w1) \<le> w_calls w'"
      using stepsD [OF only_db_register reg] by (simp add: only_db_iff)
    then have "identified ext (w_calls w) (w_calls w') (rg_swarmClusterId i) (ai_nodeId identity)"
      using ident w1 conf unfolding identified_def by (intro exI [of _ "w_calls w1"] exI [of _ identity]) (simp add: tick_def)
    moreover have none: "find_row cg_clusterId c (cluster_registrations (w_db (tick ext w1))) = None"
      using found None by (simp add: tick_def)
    ultimately show ?thesis
      using registration_register_OK [OF reg none] found None acc conf find_row_Some
      by (fastforce simp: matchesRegistration_def)
  qed
qed

text \<open>
  C18. A registration is verified and immutable. When registration answers, the stored row belongs to
  the configured cluster and has the configured Swarm identity and the requested name; it was there
  before, and nothing was changed, or a manager of this Swarm has identified itself during the request
  and is recorded in the row. Whatever happens later, the same row is found again.
\<close>

theorem registrations_are_verified_and_immutable:
  assumes "serve ext entries z (RegistrationController PutRegistration) request w = (Inr (RegistrationReply reg), w1)"
    and "reachable ext entries z w1 w2"
  shows "find_row cg_clusterId (x_clusterId ext) (cluster_registrations (w_db w2)) = Some reg \<and>
    x_managerClusterId ext = Some (cg_swarmClusterId reg) \<and>
    (\<exists>i. RegisterClusterRequestSchema (rq_body request) = Some i \<and> matchesRegistration reg (x_clusterId ext) i) \<and>
    (find_row cg_clusterId (x_clusterId ext) (cluster_registrations (w_db w)) = Some reg \<and> w_db w1 = w_db w \<or>
     find_row cg_clusterId (x_clusterId ext) (cluster_registrations (w_db w)) = None \<and>
     identified ext (w_calls w) (w_calls w1) (cg_swarmClusterId reg) (cg_verifiedNodeId reg))"
proof -
  obtain actor i w0 where auth: "canActivate entries ADMIN request w = (Inr actor, w0)"
    and i: "RegisterClusterRequestSchema (rq_body request) = Some i"
    and run: "registration_serviceRegister ext (rq_clusterId request) i actor w0 = (Inr reg, w1)"
    using assms(1)
    by (auto simp: serve_def OK_simps replyWith_def registration_put_def split: option.splits)
  have "w0 = w" using auth unfolding canActivate_def by (auto simp: OK_simps split: option.splits)
  with registration_serviceRegister_OK [OF run] control_kept_registration [OF reachable_control [OF assms(2)]]
  show ?thesis using i by auto
qed

section \<open>A run of registration\<close>

definition admin_tokens :: "TokenEntry list" where
  "admin_tokens =
     [\<lparr>te_token = ''admin-token-00001'', te_actorId = ''root'', te_role = ADMIN, te_clusters = [''*'']\<rparr>]"

definition admin_request :: "string \<Rightarrow> json \<Rightarrow> HttpRequest" where
  "admin_request resource body =
     \<lparr>rq_authorization = OneHeader ''Bearer admin-token-00001'', rq_clusterId = ''c1'', rq_resourceId = resource,
      rq_body = body\<rparr>"

abbreviation admin :: Principal where
  "admin \<equiv> \<lparr>pr_actorId = ''root'', pr_role = ADMIN, pr_clusters = [''*'']\<rparr>"

lemma admin_request_simps [simp]:
  "rq_clusterId (admin_request r b) = ''c1''" "rq_resourceId (admin_request r b) = r" "rq_body (admin_request r b) = b"
  by (simp_all add: admin_request_def)

lemma serve_admin:
  "serve ext admin_tokens z route (admin_request r b) w =
     thenM (whenM (bindsCluster route) (assertRegistered ext ''c1'')) (handler ext z route (admin_request r b) admin) w"
proof -
  have "canActivate admin_tokens role (paramsOf route (admin_request r b)) w = (Inr admin, w)" for role
    by (cases role) (simp_all add: canActivate_def paramsOf_def admin_request_def admin_tokens_def readBearerToken_def
        authenticate_def retM_def)
  then show ?thesis by (simp add: serve_def bindM_run(1))
qed

definition demo_registration_body :: json where
  "demo_registration_body = JObj [(''swarmClusterId'', JStr ''swarm''), (''displayName'', JStr ''Demo'')]"

definition demo_registration :: RegistrationRow where
  "demo_registration = \<lparr>cg_id = ''uuid'', cg_clusterId = ''c1'', cg_swarmClusterId = ''swarm'', cg_displayName = ''Demo'',
     cg_registeredBy = ''root'', cg_verifiedNodeId = ''n1'', cg_createdAt = 1004\<rparr>"

lemma demo_registration_input:
  "RegisterClusterRequestSchema demo_registration_body = Some \<lparr>rg_swarmClusterId = ''swarm'', rg_displayName = ''Demo''\<rparr>"
  by code_simp

lemma demo_registration_run:
  "fst (serve demo admin_tokens demo_schemas (RegistrationController PutRegistration)
     (admin_request [] demo_registration_body) demo_world) = Inr (RegistrationReply demo_registration)"
proof -
  have ids: "isBoundedIdentifier ''c1''" "isBoundedIdentifier ''swarm''" "isBoundedIdentifier ''n1''" "isDisplayName ''Demo''"
    by code_simp+
  show ?thesis
    by (simp add: serve_admin thenM_def retM_def bindM_run(1) replyWith_def
        registration_put_def demo_registration_input registration_serviceRegister_def
        registration_assertAccess_def ids registration_find_def registration_register_def monad_defs query_run
        execute_run inTransaction_run randomUUID_def callExternal_def insertRegistration_def op_audit_def
        tick_demo demo_world_def empty_db_def find_row_def demo_registration_def
        demo_identity_def demo_def [THEN arg_cong [of _ _ x_managerClusterId]]
        demo_def [THEN arg_cong [of _ _ x_identity]] demo_def [THEN arg_cong [of _ _ x_uuid]])
qed

theorem registrations_are_verified_and_immutable_witness:
  "find_row cg_clusterId ''c1'' (cluster_registrations (w_db
     (perform demo admin_tokens demo_schemas RecoverMutations
       (perform demo admin_tokens demo_schemas (Serve (RegistrationController PutRegistration)
         (admin_request [] demo_registration_body)) demo_world)))) = Some demo_registration"
proof -
  let ?m = "serve demo admin_tokens demo_schemas (RegistrationController PutRegistration)
     (admin_request [] demo_registration_body)"
  have "?m demo_world = (Inr (RegistrationReply demo_registration), snd (?m demo_world))"
    using demo_registration_run by (metis prod.collapse)
  from registrations_are_verified_and_immutable [OF this reachable.performed [OF reachable.here, where a = RecoverMutations]]
  show ?thesis by simp
qed

section \<open>Releases\<close>

lemma insertRelease_OK:
  assumes "insertRelease rid a i digest actor now d = Inr (n, d')"
  shows "\<exists>row. releases d' = releases d @ [row] \<and> find_row rl_id rid (releases d) = None \<and>
    rl_imageDigest row = toLowerCase digest \<and> rl_applicationId row = a \<and> rl_version row = cr_version i \<and>
    rl_imageRepository row = cr_imageRepository i"
  using assms by (auto simp: insertRelease_def find_row_None split: if_splits)

lemma repository_createRelease_OK:
  assumes "repository_createRelease ext a i digest actor w = (Inr r, w')"
  shows "find_row rl_id (rl_id r) (releases (w_db w')) = Some r \<and> rl_imageDigest r = toLowerCase digest \<and>
    rl_applicationId r = a \<and> rl_version r = cr_version i \<and> rl_imageRepository r = cr_imageRepository i"
proof -
  obtain rid w1 where w1: "randomUUID ext w = (Inr rid, w1)"
    and tx: "inTransaction ext
       (thenM (execute ext (insertRelease rid a i digest actor))
       (bindM (requireReleaseWithConnection ext rid) (\<lambda>created.
        thenM (creationAudit ext actor ''global'' ''release'' rid ''RELEASE_CREATED'' (releaseJson created))
        (retM created)))) w1 = (Inr r, w')"
    using assms unfolding repository_createRelease_def bindM_OK by blast
  obtain w3 w4 w5 w6 u1 u2 where ins: "execute ext (insertRelease rid a i digest actor) w3 = (Inr u1, w4)"
    and req: "requireReleaseWithConnection ext rid w4 = (Inr r, w5)"
    and aud: "creationAudit ext actor ''global'' ''release'' rid ''RELEASE_CREATED'' (releaseJson r) w5 = (Inr u2, w6)"
    and w': "w' = tick ext w6"
    using inTransaction_OK [OF tx] unfolding thenM_OK bindM_OK retM_OK by blast
  have find: "find_row rl_id rid (releases (w_db w4)) = Some r" "w_db w5 = w_db w4"
    using req unfolding requireReleaseWithConnection_def
    by (auto simp: OK_simps dest!: query_OK split: option.splits)
  obtain row where row: "releases (w_db w4) = releases (w_db w3) @ [row]" "find_row rl_id rid (releases (w_db w3)) = None"
      "rl_imageDigest row = toLowerCase digest" "rl_applicationId row = a" "rl_version row = cr_version i"
      "rl_imageRepository row = cr_imageRepository i"
    using execute_OK [OF ins] insertRelease_OK by metis
  have "r = row" using find(1) row(1,2) by (simp add: find_row_snoc)
  moreover have "releases (w_db w6) = releases (w_db w5)"
    using aud unfolding creationAudit_def audit_record_def
    by (auto simp: bindM_OK randomUUID_def callExternal_OK tick_def dest!: append_audit_OK)
  moreover have "rl_id r = rid" using find_row_Some [OF find(1)] by simp
  ultimately show ?thesis using find row w' by (simp add: tick_def)
qed

lemma later_requireApplication: "steps later (requireApplication ext aid)"
  unfolding requireApplication_def findApplication_def by (intro step_intros)

text \<open>
  C19. A release pins an image: a release that has been created carries the normalized \<open>sha256\<close>
  digest that the registry reported in a successful answer to this request's resolution of the requested
  repository and reference, which is the requested digest if there is one, and it is found unchanged
  whatever happens later.
\<close>

theorem releases_pin_the_resolved_digest:
  assumes "serve ext entries z (ReleaseController PostRelease) request w = (Inr (ReleaseReply r), w1)"
    and "reachable ext entries z w1 w2"
  shows "find_row rl_id (rl_id r) (releases (w_db w2)) = Some r \<and> isDigest (rl_imageDigest r) \<and>
    toLowerCase (rl_imageDigest r) = rl_imageDigest r \<and>
    (\<exists>i art v v'. CreateReleaseRequestSchema (rq_body request) = Some i \<and> rl_imageRepository r = cr_imageRepository i \<and>
       (\<forall>d. cr_imageDigest i = Some d \<longrightarrow> rl_imageDigest r = toLowerCase d) \<and>
       later w v \<and> later v' w1 \<and>
       registry_resolve ext (cr_imageRepository i) (case cr_imageDigest i of Some d \<Rightarrow> d | None \<Rightarrow> the (cr_imageTag i)) v
         = (Inr art, v') \<and> ra_digest art = rl_imageDigest r \<and> digest_reported ext v v' (rl_imageDigest r))"
proof -
  obtain actor i w0 role params where auth: "canActivate entries role params w = (Inr actor, w0)"
    and i: "CreateReleaseRequestSchema (rq_body request) = Some i"
    and run: "release_createRelease ext (rq_resourceId request) i actor w0 = (Inr r, w1)"
    using assms(1) by (auto simp: serve_def OK_simps replyWith_def parseBody_def split: option.splits)
  let ?ref = "case cr_imageDigest i of Some d \<Rightarrow> d | None \<Rightarrow> the (cr_imageTag i)"
  have ref: "the (case cr_imageDigest i of Some digest \<Rightarrow> Some digest | None \<Rightarrow> cr_imageTag i) = ?ref"
    by (simp split: option.split)
  obtain u art v v' where app: "requireApplication ext (rq_resourceId request) w0 = (Inr u, v)"
    and res: "registry_resolve ext (cr_imageRepository i) ?ref v = (Inr art, v')"
    and same: "falsy (cr_imageDigest i) \<or> toLowerCase (ra_digest art) = toLowerCase (the (cr_imageDigest i))"
    and stored: "repository_createRelease ext (rq_resourceId request) i (ra_digest art) (pr_actorId actor) v' = (Inr r, w1)"
    using run unfolding release_createRelease_def Let_def ref
    by (auto simp: OK_simps catchM_OK)
  have "w0 = w" using auth unfolding canActivate_def by (auto simp: OK_simps split: option.splits)
  then have early: "later w v" and late: "later v' w1"
    using stepsD [OF later_requireApplication app] stepsD [OF only_db_release_repository(3) stored]
    by (simp_all add: only_db_iff later_def)
  have dig: "\<not> falsy (cr_imageDigest i)" if "cr_imageDigest i = Some d" for d
    using CreateReleaseRequestSchema_digest [OF i that] that by (auto simp: falsy_def isDigest_def)
  note row = repository_createRelease_OK [OF stored] and art = registry_resolve_OK [OF res]
  have "find_row rl_id (rl_id r) (releases (w_db w2)) = Some r"
    using row control_kept_release [OF reachable_control [OF assms(2)]] by blast
  moreover have "rl_imageDigest r = ra_digest art" using row art by simp
  moreover have "\<forall>d. cr_imageDigest i = Some d \<longrightarrow> rl_imageDigest r = toLowerCase d"
    using same dig row art by auto
  moreover note registry_resolve_reported [OF res]
  ultimately show ?thesis using i row art res early late by metis
qed

section \<open>Bootstrap tokens\<close>

definition token_at :: "string \<Rightarrow> database \<Rightarrow> BootstrapTokenRow \<Rightarrow> bool" where
  "token_at h d row \<longleftrightarrow> find_row bt_tokenHash h (bootstrap_tokens d) = Some row"

lemma token_keys:
  assumes "control_ok d"
  shows "distinct (map bt_id (bootstrap_tokens d))" "distinct (map bt_tokenHash (bootstrap_tokens d))"
  using assms by (simp_all add: control_ok_def catalog_def)

lemma token_atI:
  assumes "control_ok d" and "row \<in> set (bootstrap_tokens d)"
  shows "token_at (bt_tokenHash row) d row"
  unfolding token_at_def by (rule find_row_unique [OF token_keys(2) [OF assms(1)] assms(2)])

lemma token_at_found:
  assumes "control_ok d" and "find (\<lambda>t. bt_tokenHash t = h \<and> P t) (bootstrap_tokens d) = Some row"
  shows "token_at h d row \<and> P row"
proof -
  have "row \<in> set (bootstrap_tokens d)" "bt_tokenHash row = h" "P row"
    using assms(2) by (auto simp: find_Some_iff)
  then show ?thesis using token_atI [OF assms(1)] by blast
qed

lemma token_at_unique: "token_at h d a \<Longrightarrow> token_at h d b \<Longrightarrow> a = b"
  by (simp add: token_at_def)

text \<open>A token is found again under its hash, in a later state.\<close>

lemma token_kept:
  assumes "control_kept d d'" and "control_ok d" and "token_at h d row"
  shows "\<exists>row'. token_at h d' row' \<and> bt_evolves row row'"
proof -
  have row: "row \<in> set (bootstrap_tokens d)" "bt_tokenHash row = h"
    using find_row_Some assms(3) unfolding token_at_def by metis+
  obtain row' where row': "find_row bt_id (bt_id row) (bootstrap_tokens d') = Some row'" "bt_evolves row row'"
    using control_kept_token [OF assms(1) find_row_unique [OF token_keys(1) [OF assms(2)] row(1)]] by blast
  have "control_ok d'" using assms(1,2) by (simp add: control_kept_def)
  then have "token_at (bt_tokenHash row') d' row'" using find_row_Some [OF row'(1)] token_atI by blast
  then show ?thesis using row' row(2) by (auto simp: bt_evolves_def)
qed

lemma insertAuditOnce_OK:
  assumes "insertAuditOnce ext tid actor c action j w = (Inr u, w')"
  shows "catalog (w_db w') = catalog (w_db w)"
  using assms unfolding insertAuditOnce_def
  by (auto simp: OK_simps dest!: query_OK append_audit_OK)

lemma catalog_tokens: "catalog d' = catalog d \<Longrightarrow> bootstrap_tokens d' = bootstrap_tokens d"
  by (simp add: catalog_def)

lemma claimToken_OK:
  assumes "claimToken tid c now d = Inr (n, d')"
  shows "bootstrap_tokens d' = update_rows (\<lambda>t. bt_id t = tid \<and> bt_usedAt t = None)
    (\<lambda>t. t\<lparr>bt_usedAt := Some now, bt_claimId := Some c\<rparr>) (bootstrap_tokens d)"
  using assms by (auto simp: claimToken_def updateTokens_def)

lemma consume_OK:
  assumes ok: "control_ok (w_db w)" and run: "consume ext h c w = (Inr (Some (rec, replayed)), w')"
  shows "\<exists>row0 row. token_at h (w_db w) row0 \<and> token_at h (w_db w') row \<and> bt_evolves row0 row \<and>
    rec = mapRow row \<and> bt_usedAt row \<noteq> None \<and> bt_claimId row = Some c \<and>
    replayed = (bt_usedAt row0 \<noteq> None)"
proof -
  have kept: "control_kept (w_db w) (w_db w')"
    using stepsD [OF control_bootstrap_repository(2) run] by (simp add: on_db_def control_step_def)
  obtain cur w1 w2 where cur: "queryAt ext (\<lambda>now d. find (\<lambda>t. bt_tokenHash t = h \<and> now < bt_expiresAt t)
        (bootstrap_tokens d)) (tick ext w) = (Inr (Some cur), w1)"
    and rest: "(if bt_usedAt cur \<noteq> None then
              (if bt_claimId cur \<noteq> Some c then retM None
               else thenM (claimAudit ext c cur) (retM (Some (mapRow cur, True))))
            else
              thenM (execute ext (claimToken (bt_id cur) c))
              (bindM (query ext (\<lambda>d. find_row bt_tokenHash h (bootstrap_tokens d))) (\<lambda>refreshed.
               case refreshed of
                 None \<Rightarrow> throwM (PlainError ''Consumed bootstrap token state is inconsistent'')
               | Some row \<Rightarrow>
                   if bt_usedAt row = None \<or> bt_claimId row \<noteq> Some c
                   then throwM (PlainError ''Consumed bootstrap token state is inconsistent'')
                   else thenM (claimAudit ext c row) (retM (Some (mapRow row, False)))))) w1
        = (Inr (Some (rec, replayed)), w2)"
    and db: "w_db w' = w_db w2"
    using inTransactionUnless_OK [OF run [unfolded consume_def]]
    unfolding bindM_OK case_option_OK by (auto simp: retM_OK)
  have w1: "w_db w1 = w_db w" and at0: "token_at h (w_db w) cur"
    using queryAt_OK [OF cur] token_at_found [OF ok] by (auto simp: tick_def)
  obtain row where row: "token_at h (w_db w') row" "bt_evolves cur row"
    using token_kept [OF kept ok at0] by blast
  have "rec = mapRow row \<and> bt_usedAt row \<noteq> None \<and> bt_claimId row = Some c \<and> replayed = (bt_usedAt cur \<noteq> None)"
  proof (cases "bt_usedAt cur")
    case None
    then obtain row1 w3 w4 u where q: "query ext (\<lambda>d. find_row bt_tokenHash h (bootstrap_tokens d)) w3 = (Inr (Some row1), w4)"
      and used: "bt_usedAt row1 \<noteq> None" "bt_claimId row1 = Some c" "rec = mapRow row1" "\<not> replayed"
      and aud: "claimAudit ext c row1 w4 = (Inr u, w2)"
      using rest by (auto simp: OK_simps)
    have found: "find_row bt_tokenHash h (bootstrap_tokens (w_db w4)) = Some row1" using query_OK [OF q] by simp
    have "bootstrap_tokens (w_db w') = bootstrap_tokens (w_db w4)"
      using insertAuditOnce_OK [OF aud [unfolded claimAudit_def]] db by (simp add: catalog_def)
    then have "row1 = row" using found row(1) by (simp add: token_at_def)
    then show ?thesis using used None by simp
  next
    case (Some t)
    then have used: "bt_claimId cur = Some c" "rec = mapRow cur" "replayed"
      and aud: "\<exists>u. claimAudit ext c cur w1 = (Inr u, w2)"
      using rest by (auto simp: OK_simps split: if_splits)
    obtain u where "claimAudit ext c cur w1 = (Inr u, w2)" using aud by blast
    then have "bootstrap_tokens (w_db w') = bootstrap_tokens (w_db w)"
      unfolding claimAudit_def using insertAuditOnce_OK db w1 by (auto simp: catalog_def)
    then have "cur = row" using at0 row(1) by (simp add: token_at_def)
    then show ?thesis using used Some by simp
  qed
  then show ?thesis using at0 row by blast
qed

definition claim_response :: "external \<Rightarrow> string \<Rightarrow> BootstrapTokenRow \<Rightarrow> bool \<Rightarrow> BootstrapClaimResponse" where
  "claim_response ext claimId row replayed =
     \<lparr>bcr_tokenId = bt_id row, bcr_clusterId = bt_clusterId row, bcr_nodeRole = bt_nodeRole row,
      bcr_labels = bt_labels row, bcr_expiresAt = toISOString (bt_expiresAt row),
      bcr_claimedAt = toISOString (the (bt_usedAt row)), bcr_claimId = claimId, bcr_replayed = replayed,
      bcr_swarmJoin = the (joinCredentials ext (bt_clusterId row) (bt_nodeRole row))\<rparr>"

lemma mapRow_simps [simp]:
  "tr_id (mapRow r) = bt_id r" "tr_clusterId (mapRow r) = bt_clusterId r" "tr_nodeRole (mapRow r) = bt_nodeRole r"
  "tr_labels (mapRow r) = bt_labels r" "tr_claimId (mapRow r) = bt_claimId r"
  "tr_usedAt (mapRow r) = map_option toISOString (bt_usedAt r)" "tr_expiresAt (mapRow r) = toISOString (bt_expiresAt r)"
  by (simp_all add: mapRow_def)

lemma findClaimable_OK:
  assumes "control_ok (w_db w)" and "findClaimableByHash ext h c w = (Inr (Some rec), w')"
  shows "\<exists>row. token_at h (w_db w) row \<and> rec = mapRow row \<and> w_db w' = w_db w"
proof -
  obtain row where row: "find (\<lambda>t. bt_tokenHash t = h \<and> w_clock w < bt_expiresAt t \<and>
      (bt_usedAt t = None \<or> bt_claimId t = Some c)) (bootstrap_tokens (w_db w)) = Some row" "rec = mapRow row" "w_db w' = w_db w"
    using queryAt_OK [OF assms(2) [unfolded findClaimableByHash_def]] by (auto simp: eq_commute [of "Some rec"])
  show ?thesis using token_at_found [OF assms(1) row(1)] row(2,3) by blast
qed

lemma reads_db: "steps reads_only m \<Longrightarrow> m w = (r, w') \<Longrightarrow> w_db w' = w_db w"
  by (drule stepsD) (auto simp: reads_only_def)

lemma bootstrap_claim_OK:
  assumes ok: "control_ok (w_db w)" and run: "bootstrap_claim ext i w = (Inr r, w')"
  shows "\<exists>row0 row. token_at (tokenHash ext (bq_token i)) (w_db w) row0 \<and>
    token_at (tokenHash ext (bq_token i)) (w_db w') row \<and> bt_evolves row0 row \<and> bt_usedAt row \<noteq> None \<and>
    bt_claimId row = Some (bq_claimId i) \<and> r = claim_response ext (bq_claimId i) row (bt_usedAt row0 \<noteq> None)"
proof -
  let ?h = "tokenHash ext (bq_token i)"
  obtain pending w1 where p: "findClaimableByHash ext ?h (bq_claimId i) w = (Inr (Some pending), w1)"
    and rest: "thenM (assertCluster ext (tr_clusterId pending))
          (thenM (assertRegistered ext (tr_clusterId pending))
          (bindM (requireSwarmJoinCredentials ext (tr_clusterId pending) (tr_nodeRole pending)) (\<lambda>swarmJoin.
           bindM (consume ext ?h (bq_claimId i)) (\<lambda>consumed.
           case consumed of
             None \<Rightarrow> throwM (UnauthorizedException ''Invalid, expired, or claimed by another bootstrap request'')
           | Some (record, replayed) \<Rightarrow>
               (case tr_usedAt record of
                  None \<Rightarrow> throwM (PlainError ''Consumed bootstrap claim is missing usedAt'')
                | Some claimedAt \<Rightarrow>
                    retM \<lparr>bcr_tokenId = tr_id record, bcr_clusterId = tr_clusterId record,
                      bcr_nodeRole = tr_nodeRole record, bcr_labels = tr_labels record,
                      bcr_expiresAt = tr_expiresAt record, bcr_claimedAt = claimedAt, bcr_claimId = bq_claimId i,
                      bcr_replayed = replayed, bcr_swarmJoin = swarmJoin\<rparr>))))) w1 = (Inr r, w')"
    using run unfolding bootstrap_claim_def Let_def bindM_OK case_option_OK by (auto simp: throwM_OK)
  obtain row0 where row0: "token_at ?h (w_db w) row0" "pending = mapRow row0" "w_db w1 = w_db w"
    using findClaimable_OK [OF ok p] by blast
  obtain w2 w3 w4 sj rec replayed claimedAt where a: "assertCluster ext (tr_clusterId pending) w1 = (Inr (), w2)"
    and b: "assertRegistered ext (tr_clusterId pending) w2 = (Inr (), w3)"
    and sj: "requireSwarmJoinCredentials ext (tr_clusterId pending) (tr_nodeRole pending) w3 = (Inr sj, w4)"
    and con: "consume ext ?h (bq_claimId i) w4 = (Inr (Some (rec, replayed)), w')" and used: "tr_usedAt rec = Some claimedAt"
    and r: "r = \<lparr>bcr_tokenId = tr_id rec, bcr_clusterId = tr_clusterId rec,
                      bcr_nodeRole = tr_nodeRole rec, bcr_labels = tr_labels rec,
                      bcr_expiresAt = tr_expiresAt rec, bcr_claimedAt = claimedAt, bcr_claimId = bq_claimId i,
                      bcr_replayed = replayed, bcr_swarmJoin = sj\<rparr>"
    using rest unfolding thenM_OK bindM_OK case_option_OK case_prod_OK retM_OK by (auto simp: throwM_OK)
  have db: "w_db w4 = w_db w"
    using reads_db [OF reading.steps_assertCluster a] reads_db [OF reading.steps_assertRegistered b]
      reads_db [OF reading.steps_bootstrap_reads(2) sj] row0(3) by simp
  have cred: "joinCredentials ext (bt_clusterId row0) (bt_nodeRole row0) = Some sj"
    using sj row0(2) by (auto simp: requireSwarmJoinCredentials_def throwM_OK retM_OK split: option.splits)
  obtain row1 row where c: "token_at ?h (w_db w) row1" "token_at ?h (w_db w') row" "bt_evolves row1 row"
      "rec = mapRow row" "bt_usedAt row \<noteq> None" "bt_claimId row = Some (bq_claimId i)" "replayed = (bt_usedAt row1 \<noteq> None)"
    using consume_OK [OF _ con] ok db by auto
  have "row1 = row0" using token_at_unique [OF c(1) row0(1)] .
  then show ?thesis
    using c used r cred by (intro exI [of _ row0] exI [of _ row]) (auto simp: claim_response_def bt_evolves_def)
qed

text \<open>
  C20. A bootstrap token is claimed once: after a claim has succeeded, every later claim with the same
  token that succeeds, in whatever run of the process, has the same claim identifier and gets the
  same answer, marked as a replay.
\<close>

theorem bootstrap_tokens_are_claimed_once:
  assumes "control_ok (w_db w0)" and "servePublic ext z PostBootstrapClaim b1 w0 = (Inr (ClaimReply r1), w1)"
    and "reachable ext entries z w1 w2" and "servePublic ext z PostBootstrapClaim b2 w2 = (Inr (ClaimReply r2), w3)"
    and "z_claim z b1 = Some i1" and "z_claim z b2 = Some i2" and "bq_token i2 = bq_token i1"
  shows "bq_claimId i2 = bq_claimId i1 \<and> r2 = r1\<lparr>bcr_replayed := True\<rparr>"
proof -
  have served: "\<exists>w'. w_db w' = w_db w \<and> bootstrap_claim ext i w' = (Inr r, w'')"
    if "servePublic ext z PostBootstrapClaim b w = (Inr (ClaimReply r), w'')" "z_claim z b = Some i" for b r w w'' i
    using that reads_db [OF reading.steps_assertRegistered]
    by (fastforce simp: servePublic_def OK_simps replyWith_def parseBody_def)
  let ?h = "tokenHash ext (bq_token i1)"
  obtain v1 where v1: "w_db v1 = w_db w0" "bootstrap_claim ext i1 v1 = (Inr r1, w1)"
    using served [OF assms(2,5)] by blast
  obtain v2 where v2: "w_db v2 = w_db w2" "bootstrap_claim ext i2 v2 = (Inr r2, w3)"
    using served [OF assms(4,6)] by blast
  obtain row1 rp where row1: "token_at ?h (w_db w1) row1" "bt_usedAt row1 \<noteq> None" "bt_claimId row1 = Some (bq_claimId i1)"
      "r1 = claim_response ext (bq_claimId i1) row1 rp"
    using bootstrap_claim_OK [OF _ v1(2)] assms(1) v1(1) by auto
  have "control_kept (w_db v1) (w_db w1)"
    using stepsD [OF hist.steps_bootstrap_claim v1(2)] by (simp add: on_db_def history_kept_def)
  then have ok1: "control_ok (w_db w1)" using assms(1) v1(1) by (simp add: control_kept_def)
  note kept = reachable_control [OF assms(3)]
  then have ok2: "control_ok (w_db v2)" using ok1 v2(1) by (simp add: control_kept_def)
  obtain row2 where row2: "token_at ?h (w_db v2) row2" "bt_evolves row1 row2"
    using token_kept [OF kept ok1 row1(1)] v2(1) by auto
  obtain row0 row3 where row3: "token_at ?h (w_db v2) row0" "bt_evolves row0 row3" "bt_usedAt row3 \<noteq> None"
      "bt_claimId row3 = Some (bq_claimId i2)" "r2 = claim_response ext (bq_claimId i2) row3 (bt_usedAt row0 \<noteq> None)"
    using bootstrap_claim_OK [OF ok2 v2(2)] assms(7) by auto
  have "row0 = row2" using token_at_unique row3(1) row2(1) by blast
  then show ?thesis
    using row1 row2(2) row3 by (auto simp: bt_evolves_def claim_response_def)
qed

text \<open>A node within the scope of a token: its state, and the role and labels that the token was issued for.\<close>

definition in_scope :: "BootstrapTokenRow \<Rightarrow> NodeSummary \<Rightarrow> bool" where
  "in_scope token node \<longleftrightarrow>
     nd_state node = ''ready'' \<and> nd_availability node = ''active'' \<and>
     nd_role node = nodeRoleName (bt_nodeRole token) \<and> (nd_manager node \<longleftrightarrow> bt_nodeRole token = BrManager) \<and>
     list_all (\<lambda>(k, v). map_of (nd_labels node) k = Some v) (bt_labels token)"

lemma scope_OK:
  "assertNodeMatchesBootstrapScope rec node w = (Inr u, w') \<Longrightarrow>
     nd_state node = ''ready'' \<and> nd_availability node = ''active'' \<and> nd_role node = nodeRoleName (tr_nodeRole rec) \<and>
     (nd_manager node \<longleftrightarrow> tr_nodeRole rec = BrManager)"
  by (auto simp: assertNodeMatchesBootstrapScope_def OK_simps)

lemma applyBootstrapLabels_OK:
  assumes "applyBootstrapLabels ext rec joined w = (Inr verified, w')"
    and "\<exists>v v'. assertNodeMatchesBootstrapScope rec (ndr_node joined) v = (Inr (), v')"
  shows "(\<exists>v v'. assertNodeMatchesBootstrapScope rec (ndr_node verified) v = (Inr (), v')) \<and>
    list_all (\<lambda>(k, v). map_of (nd_labels (ndr_node verified)) k = Some v) (tr_labels rec)"
proof (cases "tr_labels rec = []")
  case True
  then show ?thesis using assms by (auto simp: applyBootstrapLabels_def retM_OK)
next
  case False
  then show ?thesis
    using assms(1) unfolding applyBootstrapLabels_def bindM_OK if_OK thenM_OK case_sum_OK
    by (elim exE conjE disjE) (auto simp: throwM_OK retM_OK)
qed

lemma recordCompletionAudit_OK:
  assumes "recordCompletionAudit ext rec node at w = (Inr u, w')"
  shows "\<exists>row. find_row bt_id (tr_id rec) (bootstrap_tokens (w_db w')) = Some row \<and> bt_claimId row = tr_claimId rec \<and>
    bt_completedNodeId row = Some (nd_id node)"
proof -
  obtain w1 w2 locked where q: "query ext (\<lambda>d. find_row bt_id (tr_id rec) (bootstrap_tokens d)) (tick ext w) = (Inr locked, w1)"
    and c: "\<not> (case locked of None \<Rightarrow> True | Some row \<Rightarrow> bt_claimId row \<noteq> tr_claimId rec \<or> bt_usedAt row = None
                          \<or> bt_completedNodeId row \<noteq> Some (nd_id node))"
    and aud: "insertAuditOnce ext (tr_id rec) (''bootstrap:'' @ tr_id rec) (tr_clusterId rec)
               ''BOOTSTRAP_COMPLETED'' (completedJson rec node at) w1 = (Inr u, w2)"
    and w': "w' = tick ext w2"
    using inTransaction_OK [OF assms [unfolded recordCompletionAudit_def]]
    unfolding bindM_OK if_OK by (auto simp: throwM_OK)
  have "bootstrap_tokens (w_db w') = bootstrap_tokens (w_db w1)"
    using catalog_tokens [OF insertAuditOnce_OK [OF aud]] w' by (simp add: tick_def)
  then show ?thesis using query_OK [OF q] c by (auto split: option.splits)
qed

lemma bootstrap_complete_OK:
  assumes ok: "control_ok (w_db w)" and run: "bootstrap_complete ext i w = (Inr r, w')"
  shows "\<exists>row0 row. token_at (tokenHash ext (bp_token i)) (w_db w) row0 \<and> bt_claimId row0 = Some (bp_claimId i) \<and>
    in_scope row0 (bo_node r) \<and> bo_nodeRole r = bt_nodeRole row0 \<and> bo_labels r = bt_labels row0 \<and>
    token_at (tokenHash ext (bp_token i)) (w_db w') row \<and> bt_claimId row = Some (bp_claimId i) \<and>
    bt_completedNodeId row = Some (nd_id (bo_node r)) \<and> bo_tokenId r = bt_id row"
proof -
  let ?h = "tokenHash ext (bp_token i)"
  obtain rec w1 v v1 v2 v3 v4 v5 u joined verified at where f: "findClaimableByHash ext ?h (bp_claimId i) w = (Inr (Some rec), w1)"
    and claim: "tr_claimId rec = Some (bp_claimId i)"
    and scope: "assertNodeMatchesBootstrapScope rec (ndr_node joined) v = (Inr (), v1)"
    and labels: "applyBootstrapLabels ext rec joined v2 = (Inr verified, v3)"
    and aud: "recordCompletionAudit ext rec (ndr_node verified) at v4 = (Inr u, w')"
    and r: "r = \<lparr>bo_tokenId = tr_id rec, bo_claimId = bp_claimId i, bo_clusterId = tr_clusterId rec,
                      bo_nodeRole = tr_nodeRole rec, bo_labels = tr_labels rec, bo_node = ndr_node verified,
                      bo_verifiedAt = at\<rparr>"
    using run unfolding bootstrap_complete_def bindM_OK thenM_OK case_option_OK case_sum_OK if_OK retM_OK
    by (elim exE conjE disjE) (auto simp: throwM_OK)
  obtain row0 where row0: "token_at ?h (w_db w) row0" "rec = mapRow row0"
    using findClaimable_OK [OF ok f] by blast
  have kept: "control_kept (w_db w) (w_db w')"
    using stepsD [OF hist.steps_bootstrap_complete run] by (simp add: on_db_def history_kept_def)
  obtain row where row: "token_at ?h (w_db w') row" "bt_evolves row0 row"
    using token_kept [OF kept ok row0(1)] by blast
  obtain locked where locked: "find_row bt_id (bt_id row0) (bootstrap_tokens (w_db w')) = Some locked"
      "bt_claimId locked = Some (bp_claimId i)" "bt_completedNodeId locked = Some (nd_id (ndr_node verified))"
    using recordCompletionAudit_OK [OF aud] row0(2) claim by auto
  have mem: "row \<in> set (bootstrap_tokens (w_db w'))" using find_row_Some [OF row(1) [unfolded token_at_def]] by simp
  have ok': "control_ok (w_db w')" using kept ok by (simp add: control_kept_def)
  have "find_row bt_id (bt_id row0) (bootstrap_tokens (w_db w')) = Some row"
    using find_row_unique [OF token_keys(1) [OF ok'] mem] row(2) by (simp add: bt_evolves_def)
  then have "locked = row" using locked(1) by simp
  moreover have "in_scope row0 (bo_node r)"
  proof -
    obtain v6 v7 where "assertNodeMatchesBootstrapScope rec (ndr_node verified) v6 = (Inr (), v7)"
        "list_all (\<lambda>(k, v). map_of (nd_labels (ndr_node verified)) k = Some v) (tr_labels rec)"
      using applyBootstrapLabels_OK [OF labels] scope by blast
    then show ?thesis using scope_OK [of rec "ndr_node verified" v6 "()" v7] row0(2) by (simp add: in_scope_def r)
  qed
  moreover have "bt_claimId row0 = Some (bp_claimId i)" "bt_id row = bt_id row0"
    using claim row0(2) row(2) by (simp_all add: bt_evolves_def)
  ultimately have "token_at ?h (w_db w) row0 \<and> bt_claimId row0 = Some (bp_claimId i) \<and>
    in_scope row0 (bo_node r) \<and> bo_nodeRole r = bt_nodeRole row0 \<and> bo_labels r = bt_labels row0 \<and>
    token_at ?h (w_db w') row \<and> bt_claimId row = Some (bp_claimId i) \<and>
    bt_completedNodeId row = Some (nd_id (bo_node r)) \<and> bo_tokenId r = bt_id row"
    using row(1) row0 locked(2,3) r by simp
  then show ?thesis by blast
qed

lemma servePublic_complete:
  assumes "servePublic ext z PostBootstrapComplete b w = (Inr (CompleteReply r), w')" and "z_complete z b = Some i"
  shows "\<exists>v. w_db v = w_db w \<and> bootstrap_complete ext i v = (Inr r, w')"
  using assms reads_db [OF reading.steps_assertRegistered]
  by (fastforce simp: servePublic_def OK_simps replyWith_def parseBody_def)

text \<open>
  C21. A bootstrap binds one node. Every completion that succeeds belongs to a stored token that was claimed
  with the same claim identifier, and its node is ready and active and has the role and the labels that
  this token was issued for. Every later completion with the same token that succeeds, in
  whatever run of the process, has the same claim and the same node.
\<close>

theorem bootstrap_tokens_bind_one_node:
  assumes "control_ok (w_db w0)" and "servePublic ext z PostBootstrapComplete b1 w0 = (Inr (CompleteReply r1), w1)"
    and "z_complete z b1 = Some i1"
  shows "(\<exists>token. token_at (tokenHash ext (bp_token i1)) (w_db w0) token \<and> bt_claimId token = Some (bp_claimId i1) \<and>
      bo_tokenId r1 = bt_id token \<and> in_scope token (bo_node r1)) \<and>
    (\<forall>w2 b2 r2 w3 i2. reachable ext entries z w1 w2 \<and>
      servePublic ext z PostBootstrapComplete b2 w2 = (Inr (CompleteReply r2), w3) \<and> z_complete z b2 = Some i2 \<and>
      bp_token i2 = bp_token i1 \<longrightarrow>
        bp_claimId i2 = bp_claimId i1 \<and> bo_tokenId r2 = bo_tokenId r1 \<and> nd_id (bo_node r2) = nd_id (bo_node r1))"
proof -
  let ?h = "tokenHash ext (bp_token i1)"
  obtain v1 where v1: "w_db v1 = w_db w0" "bootstrap_complete ext i1 v1 = (Inr r1, w1)"
    using servePublic_complete [OF assms(2,3)] by blast
  obtain token row1 where token: "token_at ?h (w_db w0) token" "bt_claimId token = Some (bp_claimId i1)"
      "in_scope token (bo_node r1)"
    and row1: "token_at ?h (w_db w1) row1" "bt_claimId row1 = Some (bp_claimId i1)"
      "bt_completedNodeId row1 = Some (nd_id (bo_node r1))" "bo_tokenId r1 = bt_id row1"
    using bootstrap_complete_OK [OF _ v1(2)] assms(1) v1(1) by auto
  have k1: "control_kept (w_db w0) (w_db w1)"
    using stepsD [OF hist.steps_bootstrap_complete v1(2)] v1(1) by (simp add: on_db_def history_kept_def)
  then have ok1: "control_ok (w_db w1)" using assms(1) by (simp add: control_kept_def)
  have "bt_id row1 = bt_id token"
    using token_kept [OF k1 assms(1) token(1)] token_at_unique [OF row1(1)] by (auto simp: bt_evolves_def)
  have used: "bt_usedAt row1 \<noteq> None"
    using ok1 row1(1,2) find_row_Some unfolding token_at_def
    by (fastforce simp: control_ok_def catalog_def list_all_iff bt_ok_def)
  have "bp_claimId i2 = bp_claimId i1 \<and> bo_tokenId r2 = bo_tokenId r1 \<and> nd_id (bo_node r2) = nd_id (bo_node r1)"
    if reach: "reachable ext entries z w1 w2"
      and served: "servePublic ext z PostBootstrapComplete b2 w2 = (Inr (CompleteReply r2), w3)" "z_complete z b2 = Some i2"
      and same: "bp_token i2 = bp_token i1" for w2 b2 r2 w3 i2
  proof -
    obtain v2 where v2: "w_db v2 = w_db w2" "bootstrap_complete ext i2 v2 = (Inr r2, w3)"
      using servePublic_complete [OF served] by blast
    have k2: "control_kept (w_db v2) (w_db w3)"
      using stepsD [OF hist.steps_bootstrap_complete v2(2)] by (simp add: on_db_def history_kept_def)
    have kept: "control_kept (w_db w1) (w_db w3)"
      using control_kept_trans [OF reachable_control [OF reach]] k2 v2(1) by simp
    have ok2: "control_ok (w_db v2)"
      using ok1 reachable_control [OF reach] v2(1) by (simp add: control_kept_def)
    obtain row2 where row2: "token_at ?h (w_db w3) row2" "bt_evolves row1 row2"
      using token_kept [OF kept ok1 row1(1)] by blast
    obtain row3 where row3: "token_at ?h (w_db w3) row3" "bt_claimId row3 = Some (bp_claimId i2)"
        "bt_completedNodeId row3 = Some (nd_id (bo_node r2))" "bo_tokenId r2 = bt_id row3"
      using bootstrap_complete_OK [OF ok2 v2(2)] same by auto
    have "row3 = row2" using token_at_unique row3(1) row2(1) by blast
    then show ?thesis using row1 row2(2) row3 used by (auto simp: bt_evolves_def)
  qed
  then show ?thesis using token row1(4) \<open>bt_id row1 = bt_id token\<close> by metis
qed

section \<open>A run of the release catalogue\<close>

definition demo_digest :: string where
  "demo_digest = ''sha256:'' @ replicate 64 (CHR ''a'')"

definition registry_url :: Url where
  "registry_url = \<lparr>u_protocol = ''https:'', u_username = [], u_password = [], u_host = ''registry.example.com'',
     u_hostname = ''registry.example.com'', u_pathname = ''/team/api'', u_search = [], u_hash = []\<rparr>"

definition registry_answer :: RegistryResponse where
  "registry_answer = \<lparr>gp_status = 200, gp_location = None, gp_wwwAuthenticate = None,
     gp_dockerContentDigest = Some demo_digest, gp_contentLength = None, gp_contentType = None, gp_json = None\<rparr>"

definition release_demo :: external where
  "release_demo = demo\<lparr>x_parseUrl := (\<lambda>s. Some registry_url), x_lookup := (\<lambda>n h. Inr [''93.184.216.34'']),
     x_registryFetch := (\<lambda>n rq. Inr registry_answer)\<rparr>"

definition release_world :: world where
  "release_world = demo_world\<lparr>w_db := empty_db\<lparr>applications :=
     [\<lparr>ap_id = ''app-1'', ap_name = ''api'', ap_description = None, ap_createdAt = 0, ap_updatedAt = 0\<rparr>]\<rparr>\<rparr>"

definition release_body :: json where
  "release_body = JObj [(''version'', JStr ''1.0''), (''imageRepository'', JStr ''registry.example.com/team/api''),
     (''imageTag'', JStr ''stable'')]"

definition release_input :: CreateReleaseRequest where
  "release_input = \<lparr>cr_version = ''1.0'', cr_imageRepository = ''registry.example.com/team/api'',
     cr_imageTag = Some ''stable'', cr_imageDigest = None, cr_gitCommit = None, cr_buildNumber = None\<rparr>"

definition demo_release :: ReleaseRecord where
  "demo_release = \<lparr>rl_id = ''uuid'', rl_applicationId = ''app-1'', rl_version = ''1.0'',
     rl_imageRepository = ''registry.example.com/team/api'', rl_imageTag = Some ''stable'',
     rl_imageDigest = demo_digest, rl_gitCommit = None, rl_buildNumber = None, rl_createdBy = ''root'',
     rl_createdAt = 1006\<rparr>"

lemma release_demo_fields [simp]:
  "faultless release_demo" "x_parseUrl release_demo s = Some registry_url" "x_lookup release_demo n h = Inr [''93.184.216.34'']"
  "x_registryFetch release_demo n rq = Inr registry_answer" "x_uuid release_demo n = ''uuid''"
  "x_latency release_demo n = 1" "x_registryPrivateHosts release_demo = None" "x_registryCredentials release_demo = []"
  by (simp_all add: release_demo_def faultless_def demo_def)

lemma release_tick: "tick release_demo w = w\<lparr>w_calls := Suc (w_calls w), w_clock := Suc (w_clock w)\<rparr>"
  by (simp add: tick_def)

lemma registry_url_allowed: "registry_assertAllowed release_demo registry_url w = (Inr (), tick release_demo w)"
proof -
  have "\<not> registry_isPrivateAddress ''93.184.216.34''" "registryPrivateHosts release_demo = []" "\<not> isLocalName ''registry.example.com''"
    by code_simp+
  then show ?thesis
    by (simp add: registry_assertAllowed_def registry_url_def toLowerCase_def toLowerChar_def isLocalName_def
        callExternal_def monad_defs)
qed

lemma release_demo_resolved:
  "registry_resolve release_demo ''registry.example.com/team/api'' ''stable'' w =
     (Inr \<lparr>ra_repository = ''registry.example.com/team/api'', ra_reference = ''stable'', ra_digest = demo_digest,
        ra_mediaType = None, ra_contentLength = None\<rparr>,
      tick release_demo (tick release_demo (tick release_demo w)))"
proof -
  have repo: "\<exists>p. parseRepository release_demo ''registry.example.com/team/api'' = Inr p"
    by (simp add: parseRepository_def Let_def) code_simp
  have dig: "isDigest demo_digest" "\<not> isDigest ''stable''" "toLowerCase demo_digest = demo_digest" "demo_digest \<noteq> []" by code_simp+
  show ?thesis
    using repo dig
    by (auto simp: registry_resolve_def authenticatedManifest_def requestManifest_def registry_safeFetch_def
        numeral_eq_Suc registry_url_allowed callExternal_def registry_answer_def mapManifestFailure_def responseOk_def
        falsy_def parseContentLength_def monad_defs)
qed

lemma release_input_parsed: "CreateReleaseRequestSchema release_body = Some release_input"
  by code_simp

lemma demo_release_run:
  "fst (serve release_demo admin_tokens demo_schemas (ReleaseController PostRelease)
     (admin_request ''app-1'' release_body) release_world) = Inr (ReleaseReply demo_release)"
proof -
  have low: "toLowerCase demo_digest = demo_digest" by code_simp
  show ?thesis
    by (simp add: serve_admin release_input_parsed parseBody_def replyWith_def release_createRelease_def
        requireApplication_def findApplication_def release_input_def falsy_def release_demo_resolved
        repository_createRelease_def requireReleaseWithConnection_def creationAudit_def audit_record_def
        insertRelease_def randomUUID_def callExternal_def monad_defs query_run execute_run inTransaction_run
        release_tick release_world_def demo_world_def empty_db_def find_row_def demo_release_def low Let_def)
qed

theorem releases_pin_the_resolved_digest_witness:
  "find_row rl_id ''uuid'' (releases (w_db (perform release_demo admin_tokens demo_schemas (ReconcileTick False)
     (perform release_demo admin_tokens demo_schemas (Serve (ReleaseController PostRelease)
       (admin_request ''app-1'' release_body)) release_world)))) = Some demo_release \<and> isDigest (rl_imageDigest demo_release)"
proof -
  let ?m = "serve release_demo admin_tokens demo_schemas (ReleaseController PostRelease) (admin_request ''app-1'' release_body)"
  have "?m release_world = (Inr (ReleaseReply demo_release), snd (?m release_world))"
    using demo_release_run by (metis prod.collapse)
  from releases_pin_the_resolved_digest [OF this reachable.performed [OF reachable.here, where a = "ReconcileTick False"]]
  have "find_row rl_id (rl_id demo_release) (releases (w_db (perform release_demo admin_tokens demo_schemas (ReconcileTick False)
      (snd (?m release_world))))) = Some demo_release \<and> isDigest (rl_imageDigest demo_release)" by blast
  then show ?thesis by (simp add: demo_release_def)
qed

section \<open>A run of the bootstrap\<close>

definition bootstrap_demo :: external where
  "bootstrap_demo = demo\<lparr>x_swarmJoin := [\<lparr>sj_clusterId = ''c1'', sj_remoteAddr = ''10.0.0.1:2377'',
     sj_managerToken = ''manager-join-token-0001'', sj_workerToken = ''worker-join-token-00001''\<rparr>]\<rparr>"

definition demo_token :: BootstrapTokenRow where
  "demo_token = \<lparr>bt_id = ''token-1'', bt_tokenHash = ''secret'', bt_clusterId = ''c1'', bt_nodeRole = BrWorker,
     bt_labels = [], bt_createdBy = ''root'', bt_expiresAt = 60000, bt_usedAt = None, bt_claimId = None,
     bt_completedNodeId = None, bt_createdAt = 0\<rparr>"

definition bootstrap_world :: "BootstrapTokenRow \<Rightarrow> world" where
  "bootstrap_world t = demo_world\<lparr>w_db := empty_db\<lparr>bootstrap_tokens := [t]\<rparr>\<rparr>"

definition bootstrap_schemas :: Schemas where
  "bootstrap_schemas = demo_schemas\<lparr>z_claim := (\<lambda>j. Some \<lparr>bq_token = ''secret'', bq_claimId = ''claim-1''\<rparr>),
     z_complete := (\<lambda>j. Some \<lparr>bp_token = ''secret'', bp_claimId = ''claim-1'', bp_nodeId = ''n1''\<rparr>)\<rparr>"

lemma bootstrap_demo_fields [simp]:
  "faultless bootstrap_demo" "\<not> x_registrationEnforce bootstrap_demo" "x_clusterId bootstrap_demo = ''c1''"
  "x_sha256Hex bootstrap_demo s = s" "x_latency bootstrap_demo n = 1"
  "x_inspectNode bootstrap_demo n nid = Inr demo_node"
  "x_swarmJoin bootstrap_demo = [\<lparr>sj_clusterId = ''c1'', sj_remoteAddr = ''10.0.0.1:2377'',
     sj_managerToken = ''manager-join-token-0001'', sj_workerToken = ''worker-join-token-00001''\<rparr>]"
  by (simp_all add: bootstrap_demo_def faultless_def demo_def)

lemma bootstrap_tick: "tick bootstrap_demo w = w\<lparr>w_calls := Suc (w_calls w), w_clock := Suc (w_clock w)\<rparr>"
  by (simp add: tick_def)

lemma queryAt_run: "faultless ext \<Longrightarrow> queryAt ext q w = (Inr (q (w_clock w) (w_db w)), tick ext w)"
  by (simp add: queryAt_def query_run)

lemmas bootstrap_run_simps =
  servePublic_def assertRegistered_def parseBody_def bootstrap_schemas_def replyWith_def
  tokenHash_def findClaimableByHash_def queryAt_run assertCluster_def requireSwarmJoinCredentials_def joinCredentials_def
  monad_defs query_run execute_run inTransaction_run inTransactionUnless_run callExternal_def
  bootstrap_tick bootstrap_world_def demo_world_def empty_db_def find_row_def demo_token_def Let_def
  insertAuditOnce_def mapRow_def

lemma demo_claimed:
  "fst (servePublic bootstrap_demo bootstrap_schemas PostBootstrapClaim JNull (bootstrap_world demo_token)) =
     Inr (ClaimReply (claim_response bootstrap_demo ''claim-1'' (demo_token\<lparr>bt_usedAt := Some 1003, bt_claimId := Some ''claim-1''\<rparr>) False))"
  by (simp add: bootstrap_run_simps bootstrap_claim_def consume_def claimToken_def updateTokens_def update_rows_def
      claimAudit_def claim_response_def)

lemma demo_claimed_again:
  "fst (servePublic bootstrap_demo bootstrap_schemas PostBootstrapClaim JNull
     (snd (servePublic bootstrap_demo bootstrap_schemas PostBootstrapClaim JNull (bootstrap_world demo_token)))) =
     Inr (ClaimReply (claim_response bootstrap_demo ''claim-1'' (demo_token\<lparr>bt_usedAt := Some 1003, bt_claimId := Some ''claim-1''\<rparr>) True))"
  by (simp add: bootstrap_run_simps bootstrap_claim_def consume_def claimToken_def updateTokens_def update_rows_def
      claimAudit_def claim_response_def)

theorem bootstrap_tokens_are_claimed_once_witness:
  "claim_response bootstrap_demo ''claim-1'' (demo_token\<lparr>bt_usedAt := Some 1003, bt_claimId := Some ''claim-1''\<rparr>) True =
   (claim_response bootstrap_demo ''claim-1'' (demo_token\<lparr>bt_usedAt := Some 1003, bt_claimId := Some ''claim-1''\<rparr>) False)
     \<lparr>bcr_replayed := True\<rparr>"
proof -
  let ?w0 = "bootstrap_world demo_token"
  let ?m = "servePublic bootstrap_demo bootstrap_schemas PostBootstrapClaim JNull"
  let ?r = "claim_response bootstrap_demo ''claim-1'' (demo_token\<lparr>bt_usedAt := Some 1003, bt_claimId := Some ''claim-1''\<rparr>)"
  have ok: "control_ok (w_db ?w0)"
    by (simp add: bootstrap_world_def demo_world_def empty_db_def control_ok_def catalog_def demo_token_def bt_ok_def)
  have one: "?m ?w0 = (Inr (ClaimReply (?r False)), snd (?m ?w0))" using demo_claimed by (metis prod.collapse)
  have two: "?m (snd (?m ?w0)) = (Inr (ClaimReply (?r True)), snd (?m (snd (?m ?w0))))"
    using demo_claimed_again by (metis prod.collapse)
  show ?thesis
    using bootstrap_tokens_are_claimed_once [OF ok one reachable.here two] by (simp add: bootstrap_schemas_def)
qed

definition claimed_token :: BootstrapTokenRow where
  "claimed_token = demo_token\<lparr>bt_usedAt := Some 5, bt_claimId := Some ''claim-1''\<rparr>"

definition demo_completion :: "string \<Rightarrow> BootstrapCompleteResponse" where
  "demo_completion at = \<lparr>bo_tokenId = ''token-1'', bo_claimId = ''claim-1'', bo_clusterId = ''c1'', bo_nodeRole = BrWorker,
     bo_labels = [], bo_node = ndr_node demo_node, bo_verifiedAt = at\<rparr>"

lemmas complete_run_simps =
  bootstrap_run_simps claimed_token_def bootstrap_complete_def inspectNode_def agentRead_def
  assertNodeMatchesBootstrapScope_def nodeRoleName_def bindCompletionNode_def bindLocked_def bindToken_def updateTokens_def
  update_rows_def applyBootstrapLabels_def recordCompletionAudit_def demo_node_def

lemma bootstrap_completed:
  "\<exists>at. fst (servePublic bootstrap_demo bootstrap_schemas PostBootstrapComplete JNull (bootstrap_world claimed_token)) =
     Inr (CompleteReply (demo_completion at))"
  by (simp add: complete_run_simps demo_completion_def)

lemma demo_completed_again:
  "\<exists>at. fst (servePublic bootstrap_demo bootstrap_schemas PostBootstrapComplete JNull
     (snd (servePublic bootstrap_demo bootstrap_schemas PostBootstrapComplete JNull (bootstrap_world claimed_token)))) =
     Inr (CompleteReply (demo_completion at))"
  by (simp add: complete_run_simps demo_completion_def)

theorem bootstrap_tokens_bind_one_node_witness:
  "\<exists>at. in_scope claimed_token (bo_node (demo_completion at))"
proof -
  let ?w0 = "bootstrap_world claimed_token"
  let ?m = "servePublic bootstrap_demo bootstrap_schemas PostBootstrapComplete JNull"
  have ok: "control_ok (w_db ?w0)"
    by (simp add: bootstrap_world_def demo_world_def empty_db_def control_ok_def catalog_def claimed_token_def demo_token_def
        bt_ok_def)
  obtain t1 where one: "?m ?w0 = (Inr (CompleteReply (demo_completion t1)), snd (?m ?w0))"
    using bootstrap_completed by (metis prod.collapse)
  obtain t2 where two: "?m (snd (?m ?w0)) = (Inr (CompleteReply (demo_completion t2)), snd (?m (snd (?m ?w0))))"
    using demo_completed_again by (metis prod.collapse)
  have "token_at ''secret'' (w_db ?w0) row \<longleftrightarrow> row = claimed_token" for row
    by (auto simp: token_at_def bootstrap_world_def demo_world_def empty_db_def find_row_def claimed_token_def demo_token_def)
  then show ?thesis
    using bootstrap_tokens_bind_one_node [OF ok one, of "\<lparr>bp_token = ''secret'', bp_claimId = ''claim-1'', bp_nodeId = ''n1''\<rparr>" admin_tokens]
      reachable.here two
    by (auto simp: bootstrap_schemas_def tokenHash_def)
qed

section \<open>Requests to the registry\<close>

text \<open>
  C22. Registry credentials are confined: while it resolves an image, the client makes only requests to
  endpoints that its policy accepts, and they carry only the credentials configured for the image's
  registry, to the origin of the manifest; or those configured for a host that answered \<open>401\<close>, to the
  origin of the token service that this answer names; or a bearer token, to the origin whose answer asked
  for it. In particular no header follows a redirect to another origin. Two networks that differ only on
  other requests give the same outcome.
\<close>

theorem registry_credentials_are_confined:
  assumes "\<forall>n rq. client_may_send ext repository reference rq \<longrightarrow> f n rq = x_registryFetch ext n rq"
  shows "registry_resolve (ext\<lparr>x_registryFetch := f\<rparr>) repository reference w = registry_resolve ext repository reference w"
  by (rule registry_resolve_guarded [OF assms])

theorem registry_credentials_are_confined_witness:
  "registry_resolve (release_demo\<lparr>x_registryFetch := (\<lambda>n rq.
       if client_may_send release_demo ''registry.example.com/team/api'' ''stable'' rq then x_registryFetch release_demo n rq
       else Inl (PlainError ''leaked''))\<rparr>) ''registry.example.com/team/api'' ''stable'' release_world =
   registry_resolve release_demo ''registry.example.com/team/api'' ''stable'' release_world"
  by (rule registry_credentials_are_confined) simp

section \<open>Accepted requests\<close>

lemma z_elements_all: "z_elements sch js = Some xs \<Longrightarrow> x \<in> set xs \<Longrightarrow> \<exists>j. sch j = Some x"
  by (induction js arbitrary: xs) (auto split: bind_splits)

lemma z_array_all: "z_array sch j = Some xs \<Longrightarrow> x \<in> set xs \<Longrightarrow> \<exists>j. sch j = Some x"
  by (cases j) (auto dest: z_elements_all)

lemma z_entries_all: "z_entries sch fs = Some es \<Longrightarrow> e \<in> set es \<Longrightarrow> \<exists>j. sch j = Some (snd e)"
proof (induction fs arbitrary: es)
  case (Cons f fs)
  then show ?case by (cases f) (fastforce split: bind_splits)
qed simp

lemma z_record_all: "z_record sch j = Some es \<Longrightarrow> e \<in> set es \<Longrightarrow> \<exists>j. sch j = Some (snd e)"
  by (cases j) (auto dest: z_entries_all)

lemma z_default_cases: "z_default j k v sch = Some x \<Longrightarrow> x = v \<or> (\<exists>j'. sch j' = Some x)"
  by (cases j) (auto simp: z_default_def split: option.splits)

text \<open>The label changes: keys of 1 to 128 characters, values of at most 4096, at most 100 removals.\<close>

definition label_changes_bounded :: "NodeMutationRequest \<Rightarrow> bool" where
  "label_changes_bounded l \<longleftrightarrow> list_all (\<lambda>(k, v). isLabelKey k \<and> length v \<le> 4096) (nq_set l) \<and>
     list_all isLabelKey (nq_remove l) \<and> length (nq_remove l) \<le> 100"

lemma labels_bounded:
  assumes "NodeLabelsRequestSchema zod j = Some l"
  shows "label_changes_bounded l"
proof -
  let ?entries = "z_recordOf isLabelKey (z_bounded 0 4096)"
  let ?keys = "z_check (\<lambda>ks. length ks \<le> 100) (z_array (z_check isLabelKey z_string))"
  obtain es ks where es: "z_default j ''set'' [] ?entries = Some es" "nq_set l = es"
    and ks: "z_default j ''remove'' [] ?keys = Some ks" "nq_remove l = ks"
    using assms unfolding NodeLabelsRequestSchema_def by (auto simp: bind_eq_Some_conv Let_def split: if_splits)
  have "list_all (\<lambda>(k, v). isLabelKey k \<and> length v \<le> 4096) es"
    using z_default_cases [OF es(1)]
    by (auto simp: z_recordOf_def z_check_Some z_bounded_def list_all_iff dest: z_record_all)
  moreover have "list_all isLabelKey ks \<and> length ks \<le> 100"
    using z_default_cases [OF ks(1)] by (auto simp: z_check_Some list_all_iff dest: z_array_all)
  ultimately show ?thesis by (simp add: label_changes_bounded_def es(2) ks(2))
qed

lemma deploy_bounded:
  assumes "DeployRequestSchema zod j = Some d"
  shows "length (dq_operationId d) \<in> {1..64} \<and> length (dq_releaseId d) \<in> {1..64} \<and> health_ok (dq_health d)"
proof -
  have "z_field j ''operationId'' (z_trimmed 1 64) = Some (dq_operationId d)"
      "z_field j ''releaseId'' (z_trimmed 1 64) = Some (dq_releaseId d)"
      "z_field j ''health'' (HealthSchema zod) = Some (dq_health d)"
    using assms unfolding DeployRequestSchema_def by (auto simp: bind_eq_Some_conv)
  then show ?thesis by (auto simp: schema_facts dest: HealthSchema_ok)
qed

lemma identified_bounded:
  "RestartServiceRequestSchema zod j = Some r \<Longrightarrow> zod_uuid zod (rr_operationId r)"
  "NodeMutationRequestSchema zod j = Some n \<Longrightarrow> zod_uuid zod (nq_operationId n) \<and> nq_set n = [] \<and> nq_remove n = []"
  "RollbackRequestSchema j = Some i \<Longrightarrow> length i \<in> {1..64}"
  "BootstrapClaimRequestSchema zod j = Some c \<Longrightarrow> length (bq_token c) \<in> {32..256} \<and> zod_uuid zod (bq_claimId c)"
  "BootstrapCompleteRequestSchema zod j = Some p \<Longrightarrow>
     length (bp_token p) \<in> {32..256} \<and> zod_uuid zod (bp_claimId p) \<and> length (bp_nodeId p) \<in> {1..128}"
  by (auto simp: RestartServiceRequestSchema_def NodeMutationRequestSchema_def RollbackRequestSchema_def
      BootstrapClaimRequestSchema_def BootstrapCompleteRequestSchema_def schema_facts split: bind_splits if_splits)

text \<open>
  C38. Bodies that the schemas of the mutation, deployment and public bootstrap routes accept are within
  their bounds. Scale, restart, availability and label requests carry a UUID as their operation
  identifier, deployments and rollbacks a trimmed string of 1 to 64 characters, a deployment also a
  release identifier of that length. A scale request asks for at most 1000 replicas; the health check of
  a deployment has its interval, timeout, retries, window and status in the documented ranges; label
  changes are not empty, never set and remove the same key, remove at most 100 keys, and have keys of 1
  to 128 characters and values of at most 4096; a claim or completion has a token of 32 to 256
  characters and a UUID as its claim identifier, a completion a node identifier of 1 to 128 characters.
\<close>

theorem accepted_requests_are_bounded:
  "(\<forall>s. z_scale (requestSchemas zod) j = Some s \<longrightarrow> zod_uuid zod (sr_operationId s) \<and> sr_replicas s \<le> 1000) \<and>
   (\<forall>r. z_restart (requestSchemas zod) j = Some r \<longrightarrow> zod_uuid zod (rr_operationId r)) \<and>
   (\<forall>n. z_node (requestSchemas zod) j = Some n \<longrightarrow>
      zod_uuid zod (nq_operationId n) \<and> nq_set n = [] \<and> nq_remove n = []) \<and>
   (\<forall>l. z_labels (requestSchemas zod) j = Some l \<longrightarrow>
      zod_uuid zod (nq_operationId l) \<and> labelChangesOk l \<and> label_changes_bounded l) \<and>
   (\<forall>d. z_deploy (requestSchemas zod) j = Some d \<longrightarrow>
      length (dq_operationId d) \<in> {1..64} \<and> length (dq_releaseId d) \<in> {1..64} \<and> health_ok (dq_health d)) \<and>
   (\<forall>i. z_rollback (requestSchemas zod) j = Some i \<longrightarrow> length i \<in> {1..64}) \<and>
   (\<forall>c. z_claim (requestSchemas zod) j = Some c \<longrightarrow>
      length (bq_token c) \<in> {32..256} \<and> zod_uuid zod (bq_claimId c)) \<and>
   (\<forall>p. z_complete (requestSchemas zod) j = Some p \<longrightarrow>
      length (bp_token p) \<in> {32..256} \<and> zod_uuid zod (bp_claimId p) \<and> length (bp_nodeId p) \<in> {1..128})"
  unfolding requestSchemas_def Schemas.simps
  using ScaleServiceRequestSchema_ok NodeLabelsRequestSchema_ok labels_bounded deploy_bounded identified_bounded
  by meson

definition demo_zod :: Zod where
  "demo_zod = \<lparr>zod_uuid = (\<lambda>s. length s = 36), zod_url = (\<lambda>s. True), zod_parseUrl = (\<lambda>s. Some registry_url)\<rparr>"

theorem accepted_requests_are_bounded_witness:
  "\<exists>s. z_scale (requestSchemas demo_zod)
     (JObj [(''operationId'', JStr ''00000000-0000-4000-8000-000000000001''), (''expectedVersion'', JNum 7),
       (''replicas'', JNum 1000)]) = Some s \<and> sr_replicas s \<le> 1000"
proof -
  have "z_scale (requestSchemas demo_zod)
     (JObj [(''operationId'', JStr ''00000000-0000-4000-8000-000000000001''), (''expectedVersion'', JNum 7),
       (''replicas'', JNum 1000)]) =
     Some \<lparr>sr_operationId = ''00000000-0000-4000-8000-000000000001'', sr_expectedVersion = 7, sr_replicas = 1000\<rparr>"
    by code_simp
  then show ?thesis using accepted_requests_are_bounded by blast
qed

end
