(* ===== verification/Migrations.thy ===== *)
theory Migrations
  imports Effects
begin

text \<open>
  The schema of the database: \<^verbatim>\<open>db/migrations.ts\<close>, the \<^verbatim>\<open>db/*.migration.ts\<close> files and
  the start-up of \<^verbatim>\<open>db/database.ts\<close>. The state is the set of tables with their columns, keys and
  rows, and the table \<open>schema_migrations\<close>. Every statement commits on its own; it may fail or lose
  its acknowledgement, as in \<open>Effects\<close>. A time stamp of the server is the value \<open>SqlNow\<close>,
  strings compare exactly, and the columns of a query on \<^verbatim>\<open>information_schema\<close> have the names that
  the query spells (a server that returns them in capitals makes the metadata check of
  \<open>migrateMaintenanceDispatchUniqueness\<close> fail).

  The lemmas show that every step of a migration may be repeated after the steps that follow it, so a
  start after interrupted ones brings the database to where an uninterrupted start brings it.
\<close>

section \<open>Tables\<close>

datatype SqlValue = SqlNull | SqlNow | SqlText string | SqlNumber nat | SqlJson json

type_synonym SqlRow = "(string \<times> SqlValue) list"

datatype SqlType =
    VarcharType nat
  | CharType nat
  | TextType
  | JsonType
  | IntType
  | UnsignedIntType
  | UnsignedBigintType
  | BooleanType
  | TimestampType
  | DatetimeType
  | EnumType "string list"

datatype Charset = DefaultCharset | AsciiBin | Utf8mb4Bin

datatype ColumnDefault = NoDefault | DefaultValue SqlValue | DefaultNow | DefaultNowOnUpdate

record SqlColumn =
  col_name :: string
  col_type :: SqlType
  col_charset :: Charset
  col_null :: bool
  col_default :: ColumnDefault

record SqlKey =
  key_name :: string
  key_unique :: bool
  key_columns :: "string list"

record SqlForeignKey =
  fk_name :: string
  fk_columns :: string
  fk_table :: string
  fk_references :: string

record SqlTable =
  tb_name :: string
  tb_columns :: "SqlColumn list"
  tb_keys :: "SqlKey list"
  tb_foreignKeys :: "SqlForeignKey list"
  tb_charset :: Charset
  tb_rows :: "SqlRow list"

record MigrationRow =
  mr_version :: nat
  mr_name :: string
  mr_checksum :: string

text \<open>\<open>mg_applied\<close> holds the rows of \<open>schema_migrations\<close> once this table exists.\<close>

record Schema =
  mg_tables :: "string \<rightharpoonup> SqlTable"
  mg_applied :: "MigrationRow list option"

definition notNull :: "string \<Rightarrow> SqlType \<Rightarrow> SqlColumn" where
  "notNull name ty = \<lparr>col_name = name, col_type = ty, col_charset = DefaultCharset, col_null = False, col_default = NoDefault\<rparr>"

definition asciiNotNull :: "string \<Rightarrow> SqlType \<Rightarrow> SqlColumn" where
  "asciiNotNull name ty = (notNull name ty)\<lparr>col_charset := AsciiBin\<rparr>"

definition orNull :: "string \<Rightarrow> SqlType \<Rightarrow> SqlColumn" where
  "orNull name ty = (notNull name ty)\<lparr>col_null := True\<rparr>"

definition withDefault :: "string \<Rightarrow> SqlType \<Rightarrow> SqlValue \<Rightarrow> SqlColumn" where
  "withDefault name ty v = (notNull name ty)\<lparr>col_default := DefaultValue v\<rparr>"

definition stamped :: "string \<Rightarrow> SqlColumn" where
  "stamped name = (notNull name TimestampType)\<lparr>col_default := DefaultNow\<rparr>"

definition restamped :: "string \<Rightarrow> SqlColumn" where
  "restamped name = (notNull name TimestampType)\<lparr>col_default := DefaultNowOnUpdate\<rparr>"

definition primaryKey :: "string list \<Rightarrow> SqlKey" where
  "primaryKey cs = \<lparr>key_name = ''PRIMARY'', key_unique = True, key_columns = cs\<rparr>"

definition uniqueKey :: "string \<Rightarrow> string list \<Rightarrow> SqlKey" where
  "uniqueKey name cs = \<lparr>key_name = name, key_unique = True, key_columns = cs\<rparr>"

definition indexOn :: "string \<Rightarrow> string list \<Rightarrow> SqlKey" where
  "indexOn name cs = \<lparr>key_name = name, key_unique = False, key_columns = cs\<rparr>"

definition foreignKey :: "string \<Rightarrow> string \<Rightarrow> string \<Rightarrow> string \<Rightarrow> SqlForeignKey" where
  "foreignKey name c t r = \<lparr>fk_name = name, fk_columns = c, fk_table = t, fk_references = r\<rparr>"

definition newTable :: "string \<Rightarrow> SqlColumn list \<Rightarrow> SqlKey list \<Rightarrow> SqlForeignKey list \<Rightarrow> SqlTable" where
  "newTable name cs ks fs =
     \<lparr>tb_name = name, tb_columns = cs, tb_keys = ks, tb_foreignKeys = fs, tb_charset = DefaultCharset, tb_rows = []\<rparr>"

definition newBinaryTable :: "string \<Rightarrow> SqlColumn list \<Rightarrow> SqlKey list \<Rightarrow> SqlForeignKey list \<Rightarrow> SqlTable" where
  "newBinaryTable name cs ks fs = (newTable name cs ks fs)\<lparr>tb_charset := Utf8mb4Bin\<rparr>"

lemmas column_defs = notNull_def asciiNotNull_def orNull_def withDefault_def stamped_def restamped_def primaryKey_def
  uniqueKey_def indexOn_def foreignKey_def newTable_def newBinaryTable_def

section \<open>Statements\<close>

definition hasColumn :: "string \<Rightarrow> string \<Rightarrow> Schema \<Rightarrow> bool" where
  "hasColumn t c s = (case mg_tables s t of None \<Rightarrow> False | Some tb \<Rightarrow> c \<in> col_name ` set (tb_columns tb))"

definition hasIndex :: "string \<Rightarrow> string \<Rightarrow> Schema \<Rightarrow> bool" where
  "hasIndex t k s = (case mg_tables s t of None \<Rightarrow> False | Some tb \<Rightarrow> k \<in> key_name ` set (tb_keys tb))"

definition cell :: "SqlRow \<Rightarrow> string \<Rightarrow> SqlValue" where
  "cell r c = (case map_of r c of None \<Rightarrow> SqlNull | Some v \<Rightarrow> v)"

definition setCell :: "string \<Rightarrow> SqlValue \<Rightarrow> SqlRow \<Rightarrow> SqlRow" where
  "setCell c v r = map (\<lambda>(k, x). (k, if k = c then v else x)) r"

text \<open>A statement on one table; without the table or one of the columns it is an error.\<close>

definition onTable :: "string \<Rightarrow> string list \<Rightarrow> (SqlTable \<Rightarrow> string + SqlTable) \<Rightarrow> Schema \<Rightarrow> string + Schema" where
  "onTable t cs f s =
     (case mg_tables s t of
        None \<Rightarrow> Inl (''Table does not exist: '' @ t)
      | Some tb \<Rightarrow>
          if \<not> set cs \<subseteq> col_name ` set (tb_columns tb) then Inl (''Unknown column in table '' @ t)
          else (case f tb of
                  Inl e \<Rightarrow> Inl e
                | Inr tb' \<Rightarrow> Inr (s\<lparr>mg_tables := (mg_tables s)(t \<mapsto> tb')\<rparr>)))"

text \<open>A foreign key needs the column that it refers to.\<close>

definition createTableIfNotExists :: "SqlTable \<Rightarrow> Schema \<Rightarrow> string + Schema" where
  "createTableIfNotExists tb s =
     (if mg_tables s (tb_name tb) \<noteq> None then Inr s
      else if \<not> list_all (\<lambda>fk. hasColumn (fk_table fk) (fk_references fk) s) (tb_foreignKeys tb)
      then Inl ''Failed to open the referenced table''
      else Inr (s\<lparr>mg_tables := (mg_tables s)(tb_name tb \<mapsto> tb)\<rparr>))"

definition initialValue :: "SqlColumn \<Rightarrow> SqlValue" where
  "initialValue c =
     (case col_default c of NoDefault \<Rightarrow> SqlNull | DefaultValue v \<Rightarrow> v | DefaultNow \<Rightarrow> SqlNow | DefaultNowOnUpdate \<Rightarrow> SqlNow)"

definition addColumn :: "string \<Rightarrow> SqlColumn \<Rightarrow> Schema \<Rightarrow> string + Schema" where
  "addColumn t c = onTable t [] (\<lambda>tb.
     if col_name c \<in> col_name ` set (tb_columns tb) then Inl (''Duplicate column name '' @ col_name c)
     else Inr (tb\<lparr>tb_columns := tb_columns tb @ [c],
                 tb_rows := map (\<lambda>r. r @ [(col_name c, initialValue c)]) (tb_rows tb)\<rparr>))"

text \<open>Rows with a null in a unique key do not conflict.\<close>

definition keyConflict :: "SqlKey \<Rightarrow> SqlRow list \<Rightarrow> bool" where
  "keyConflict k rows = (key_unique k \<and>
     \<not> distinct (filter (\<lambda>vs. SqlNull \<notin> set vs) (map (\<lambda>r. map (cell r) (key_columns k)) rows)))"

definition addKey :: "string \<Rightarrow> SqlKey \<Rightarrow> Schema \<Rightarrow> string + Schema" where
  "addKey t k = onTable t (key_columns k) (\<lambda>tb.
     if key_name k \<in> key_name ` set (tb_keys tb) then Inl (''Duplicate key name '' @ key_name k)
     else if keyConflict k (tb_rows tb) then Inl (''Duplicate entry for key '' @ key_name k)
     else Inr (tb\<lparr>tb_keys := tb_keys tb @ [k]\<rparr>))"

definition modifyColumn :: "string \<Rightarrow> SqlColumn \<Rightarrow> Schema \<Rightarrow> string + Schema" where
  "modifyColumn t c = onTable t [col_name c] (\<lambda>tb.
     Inr (tb\<lparr>tb_columns := map (\<lambda>old. if col_name old = col_name c then c else old) (tb_columns tb)\<rparr>))"

section \<open>Statements that fill in data\<close>

definition backfillAuditResources :: "Schema \<Rightarrow> string + Schema" where
  "backfillAuditResources = onTable ''audit_events'' [''resource_type'', ''resource_id'', ''service_id''] (\<lambda>tb.
     Inr (tb\<lparr>tb_rows := update_rows (\<lambda>r. cell r ''resource_id'' = SqlText [])
       (\<lambda>r. setCell ''resource_id'' (cell r ''service_id'') (setCell ''resource_type'' (SqlText ''service'') r))
       (tb_rows tb)\<rparr>))"

text \<open>MySQL's \<open>TRIM\<close> removes spaces only.\<close>

definition trimSpaces :: "string \<Rightarrow> string" where
  "trimSpaces v = rev (dropWhile (\<lambda>c. c = CHR '' '') (rev (dropWhile (\<lambda>c. c = CHR '' '') v)))"

text \<open>The node of a token according to its only completion event, if the event belongs to its claim.\<close>

definition completedNode :: "SqlRow list \<Rightarrow> SqlRow \<Rightarrow> string option" where
  "completedNode audits tok =
     (case filter (\<lambda>a. cell a ''resource_type'' = SqlText ''bootstrap_token''
                     \<and> cell a ''action'' = SqlText ''BOOTSTRAP_COMPLETED''
                     \<and> cell a ''operation_id'' = cell tok ''id'') audits of
        [a] \<Rightarrow>
          if cell a ''resource_id'' = cell tok ''id'' \<and> cell a ''cluster_id'' = cell tok ''cluster_id''
             \<and> cell tok ''completed_node_id'' = SqlNull \<and> cell tok ''used_at'' \<noteq> SqlNull
             \<and> cell tok ''claim_id'' \<noteq> SqlNull
          then (case cell a ''after_json'' of
                  SqlJson j \<Rightarrow>
                    (case (json_field j ''claimId'', json_field j ''nodeId'') of
                       (Some (JStr claimId), Some (JStr nodeId)) \<Rightarrow>
                         if SqlText claimId = cell tok ''claim_id'' \<and> 1 \<le> length nodeId \<and> length nodeId \<le> 128
                            \<and> nodeId = trimSpaces nodeId
                         then Some nodeId else None
                     | _ \<Rightarrow> None)
                | _ \<Rightarrow> None)
          else None
      | _ \<Rightarrow> None)"

definition rowsOf :: "string \<Rightarrow> Schema \<Rightarrow> SqlRow list" where
  "rowsOf t s = (case mg_tables s t of None \<Rightarrow> [] | Some tb \<Rightarrow> tb_rows tb)"

definition requireTables :: "string list \<Rightarrow> (Schema \<Rightarrow> string + Schema) \<Rightarrow> Schema \<Rightarrow> string + Schema" where
  "requireTables ts f s =
     (if list_all (\<lambda>t. mg_tables s t \<noteq> None) ts then f s else Inl ''Table does not exist'')"

definition backfillBootstrapCompletedNodeId :: "Schema \<Rightarrow> string + Schema" where
  "backfillBootstrapCompletedNodeId = requireTables [''audit_events''] (\<lambda>s.
     onTable ''bootstrap_tokens'' [''id'', ''cluster_id'', ''used_at'', ''claim_id'', ''completed_node_id''] (\<lambda>tb.
       Inr (tb\<lparr>tb_rows := map (\<lambda>tok. case completedNode (rowsOf ''audit_events'' s) tok of
              None \<Rightarrow> tok
            | Some nodeId \<Rightarrow> setCell ''completed_node_id'' (SqlText nodeId) tok) (tb_rows tb)\<rparr>)) s)"

text \<open>The rows of the join: deployments whose rollback operation is a rollback of the same service.\<close>

definition rollbackPairs :: "Schema \<Rightarrow> (SqlValue \<times> SqlValue) list" where
  "rollbackPairs s =
     concat (map (\<lambda>d. concat (map (\<lambda>t. concat (map (\<lambda>o1.
       if cell t ''id'' = cell d ''deployment_target_id'' \<and> cell o1 ''id'' = cell d ''rollback_operation_id''
          \<and> cell o1 ''type'' = SqlText ''ROLLBACK'' \<and> cell o1 ''cluster_id'' = cell t ''cluster_id''
          \<and> cell o1 ''service_id'' = cell t ''docker_service_id''
       then [(cell o1 ''id'', cell d ''id'')] else [])
       (rowsOf ''operations'' s))) (rowsOf ''deployment_targets'' s))) (rowsOf ''deployments'' s))"

text \<open>\<open>ON DUPLICATE KEY UPDATE deployment_id = deployment_id\<close> leaves an existing attempt as it is.\<close>

definition insertAttempt :: "SqlRow list \<Rightarrow> SqlValue \<times> SqlValue \<Rightarrow> SqlRow list" where
  "insertAttempt rows pair =
     (if list_ex (\<lambda>r. cell r ''operation_id'' = fst pair) rows then rows
      else rows @ [[(''operation_id'', fst pair), (''deployment_id'', snd pair), (''created_at'', SqlNow)]])"

definition backfillRollbackAttempts :: "Schema \<Rightarrow> string + Schema" where
  "backfillRollbackAttempts = requireTables [''deployments'', ''deployment_targets'', ''operations''] (\<lambda>s.
     onTable ''rollback_attempts'' [''operation_id'', ''deployment_id''] (\<lambda>tb.
       Inr (tb\<lparr>tb_rows := foldl insertAttempt (tb_rows tb) (rollbackPairs s)\<rparr>)) s)"

section \<open>Computations\<close>

text \<open>What the environment decides: the fate of each interaction, the answer of \<open>GET_LOCK\<close>, and SHA-256.\<close>

record MigrationEnv =
  me_db :: "nat \<Rightarrow> DbOutcome"
  me_lock :: "nat \<Rightarrow> nat option"
  me_sha256 :: "string \<Rightarrow> string"

type_synonym 'a mig = "nat \<times> Schema \<Rightarrow> (string + 'a) \<times> nat \<times> Schema"

definition retG :: "'a \<Rightarrow> 'a mig" where
  "retG x st = (Inr x, st)"

definition throwG :: "string \<Rightarrow> 'a mig" where
  "throwG e st = (Inl e, st)"

definition bindG :: "'a mig \<Rightarrow> ('a \<Rightarrow> 'b mig) \<Rightarrow> 'b mig" where
  "bindG m f st = (case m st of (Inl e, st') \<Rightarrow> (Inl e, st') | (Inr x, st') \<Rightarrow> f x st')"

definition thenG :: "'a mig \<Rightarrow> 'b mig \<Rightarrow> 'b mig" where
  "thenG m m' = bindG m (\<lambda>_. m')"

definition queryG :: "MigrationEnv \<Rightarrow> (Schema \<Rightarrow> string + 'a) \<Rightarrow> 'a mig" where
  "queryG env q st =
     (case me_db env (fst st) of
        DbOk \<Rightarrow> (q (snd st), Suc (fst st), snd st)
      | DbFailed m \<Rightarrow> (Inl m, Suc (fst st), snd st)
      | DbLost m \<Rightarrow> (Inl m, Suc (fst st), snd st))"

definition executeG :: "MigrationEnv \<Rightarrow> (Schema \<Rightarrow> string + Schema) \<Rightarrow> unit mig" where
  "executeG env stmt st =
     (case me_db env (fst st) of
        DbFailed m \<Rightarrow> (Inl m, Suc (fst st), snd st)
      | DbOk \<Rightarrow> (case stmt (snd st) of Inl e \<Rightarrow> (Inl e, Suc (fst st), snd st) | Inr s \<Rightarrow> (Inr (), Suc (fst st), s))
      | DbLost m \<Rightarrow> (case stmt (snd st) of Inl e \<Rightarrow> (Inl e, Suc (fst st), snd st) | Inr s \<Rightarrow> (Inl m, Suc (fst st), s)))"

text \<open>\<open>finally\<close> with a clean-up whose own errors are swallowed.\<close>

definition finallyG :: "'a mig \<Rightarrow> 'b mig \<Rightarrow> 'a mig" where
  "finallyG m cleanup st = (case m st of (r, st') \<Rightarrow> (r, snd (cleanup st')))"

lemmas mig_defs = retG_def throwG_def bindG_def thenG_def queryG_def executeG_def finallyG_def

section \<open>Steps of migrations\<close>

definition isSafeChar :: "char \<Rightarrow> bool" where
  "isSafeChar c = (let n = (of_char c :: nat) in (97 \<le> n \<and> n \<le> 122) \<or> n = 95)"

definition assertSafeIdentifier :: "string \<Rightarrow> unit mig" where
  "assertSafeIdentifier v =
     (if v \<noteq> [] \<and> list_all isSafeChar v then retG () else throwG (''Unsafe database identifier: '' @ v))"

definition addMissingColumn :: "MigrationEnv \<Rightarrow> string \<Rightarrow> SqlColumn \<Rightarrow> unit mig" where
  "addMissingColumn env t c =
     bindG (queryG env (\<lambda>s. Inr (hasColumn t (col_name c) s))) (\<lambda>present.
     if present then retG () else executeG env (addColumn t c))"

definition ensureColumn :: "MigrationEnv \<Rightarrow> string \<Rightarrow> SqlColumn \<Rightarrow> unit mig" where
  "ensureColumn env t c =
     thenG (assertSafeIdentifier t) (thenG (assertSafeIdentifier (col_name c)) (addMissingColumn env t c))"

definition ensureIndex :: "MigrationEnv \<Rightarrow> string \<Rightarrow> SqlKey \<Rightarrow> unit mig" where
  "ensureIndex env t k =
     thenG (assertSafeIdentifier t) (thenG (assertSafeIdentifier (key_name k))
    (bindG (queryG env (\<lambda>s. Inr (hasIndex t (key_name k) s))) (\<lambda>present.
     if present then retG () else executeG env (addKey t k))))"

definition dispatchKey :: SqlKey where
  "dispatchKey = uniqueKey ''uq_maintenance_dispatch_operation'' [''cluster_id'', ''operation_id'']"

definition duplicateDispatches :: "Schema \<Rightarrow> string + bool" where
  "duplicateDispatches s =
     (case mg_tables s ''maintenance_dispatches'' of
        None \<Rightarrow> Inl ''Table does not exist: maintenance_dispatches''
      | Some tb \<Rightarrow> Inr (\<not> distinct (map (\<lambda>r. (cell r ''cluster_id'', cell r ''operation_id'')) (tb_rows tb))))"

definition dispatchIndex :: "Schema \<Rightarrow> SqlKey option" where
  "dispatchIndex s =
     (case mg_tables s ''maintenance_dispatches'' of
        None \<Rightarrow> None | Some tb \<Rightarrow> find_row key_name (key_name dispatchKey) (tb_keys tb))"

definition migrateMaintenanceDispatchUniqueness :: "MigrationEnv \<Rightarrow> unit mig" where
  "migrateMaintenanceDispatchUniqueness env =
     bindG (queryG env duplicateDispatches) (\<lambda>duplicates.
     if duplicates then throwG ''Duplicate maintenance dispatch evidence requires reconciliation before migration''
     else
       bindG (queryG env (\<lambda>s. Inr (dispatchIndex s))) (\<lambda>index.
       case index of
         Some k \<Rightarrow>
           if \<not> key_unique k \<or> key_columns k \<noteq> key_columns dispatchKey
           then throwG ''Maintenance dispatch uniqueness index metadata mismatch'' else retG ()
       | None \<Rightarrow> executeG env (addKey ''maintenance_dispatches'' dispatchKey)))"

text \<open>The awaited calls of the migrations, in the words of the source.\<close>

datatype MigrationStep =
    CreateTable SqlTable
  | EnsureColumn string SqlColumn
  | AddMissingColumn string SqlColumn
  | EnsureIndex string SqlKey
  | ModifyColumn string SqlColumn
  | BackfillAuditResources
  | BackfillCompletedNodes
  | BackfillRollbackAttempts
  | DispatchUniqueness

fun runStep :: "MigrationEnv \<Rightarrow> MigrationStep \<Rightarrow> unit mig" where
  "runStep env (CreateTable tb) = executeG env (createTableIfNotExists tb)"
| "runStep env (EnsureColumn t c) = ensureColumn env t c"
| "runStep env (AddMissingColumn t c) = addMissingColumn env t c"
| "runStep env (EnsureIndex t k) = ensureIndex env t k"
| "runStep env (ModifyColumn t c) = executeG env (modifyColumn t c)"
| "runStep env BackfillAuditResources = executeG env backfillAuditResources"
| "runStep env BackfillCompletedNodes = executeG env backfillBootstrapCompletedNodeId"
| "runStep env BackfillRollbackAttempts = executeG env backfillRollbackAttempts"
| "runStep env DispatchUniqueness = migrateMaintenanceDispatchUniqueness env"

fun runSteps :: "MigrationEnv \<Rightarrow> MigrationStep list \<Rightarrow> unit mig" where
  "runSteps env [] = retG ()"
| "runSteps env (x # xs) = thenG (runStep env x) (runSteps env xs)"

section \<open>The baseline schema\<close>

definition audit_events_table :: SqlTable where
  "audit_events_table = newTable ''audit_events''
     [notNull ''id'' UnsignedBigintType, notNull ''operation_id'' (VarcharType 64), notNull ''actor_id'' (VarcharType 128),
      notNull ''cluster_id'' (VarcharType 128), notNull ''service_id'' (VarcharType 128),
      withDefault ''resource_type'' (VarcharType 32) (SqlText ''service''),
      withDefault ''resource_id'' (VarcharType 128) (SqlText []), notNull ''action'' (VarcharType 64),
      orNull ''before_json'' JsonType, orNull ''after_json'' JsonType, stamped ''created_at'']
     [primaryKey [''id''], indexOn ''idx_audit_operation'' [''operation_id''],
      indexOn ''idx_audit_resource'' [''cluster_id'', ''service_id'', ''created_at'']] []"

definition applications_table :: SqlTable where
  "applications_table = newTable ''applications''
     [notNull ''id'' (VarcharType 64), notNull ''name'' (VarcharType 255), orNull ''description'' TextType,
      stamped ''created_at'', restamped ''updated_at'']
     [primaryKey [''id''], uniqueKey ''uq_applications_name'' [''name'']] []"

definition deployment_targets_table :: SqlTable where
  "deployment_targets_table = newTable ''deployment_targets''
     [notNull ''id'' (VarcharType 64), notNull ''application_id'' (VarcharType 64), notNull ''cluster_id'' (VarcharType 128),
      notNull ''environment'' (VarcharType 255), notNull ''docker_service_id'' (VarcharType 255),
      notNull ''service_name'' (VarcharType 255), notNull ''routing_mode'' (VarcharType 32),
      stamped ''created_at'', restamped ''updated_at'']
     [primaryKey [''id''], uniqueKey ''uq_target_cluster_service'' [''cluster_id'', ''docker_service_id''],
      uniqueKey ''uq_target_application_environment'' [''application_id'', ''environment''],
      indexOn ''idx_targets_application'' [''application_id'']]
     [foreignKey ''fk_targets_application'' ''application_id'' ''applications'' ''id'']"

definition releases_table :: SqlTable where
  "releases_table = newTable ''releases''
     [notNull ''id'' (VarcharType 64), notNull ''application_id'' (VarcharType 64), notNull ''version'' (VarcharType 255),
      notNull ''image_repository'' (VarcharType 512), orNull ''image_tag'' (VarcharType 255),
      notNull ''image_digest'' (VarcharType 80), orNull ''git_commit'' (VarcharType 128),
      orNull ''build_number'' (VarcharType 128), notNull ''created_by'' (VarcharType 128), stamped ''created_at'']
     [primaryKey [''id''], uniqueKey ''uq_release_application_version'' [''application_id'', ''version''],
      indexOn ''idx_releases_application_created'' [''application_id'', ''created_at'']]
     [foreignKey ''fk_releases_application'' ''application_id'' ''applications'' ''id'']"

definition operations_table :: SqlTable where
  "operations_table = newTable ''operations''
     [notNull ''id'' (VarcharType 64), notNull ''cluster_id'' (VarcharType 128), notNull ''service_id'' (VarcharType 128),
      notNull ''type'' (VarcharType 32), notNull ''status'' (VarcharType 32), notNull ''actor_id'' (VarcharType 128),
      notNull ''expected_version'' UnsignedBigintType, withDefault ''before_spec_hash'' (VarcharType 64) (SqlText []),
      withDefault ''target_spec_hash'' (VarcharType 64) (SqlText []),
      withDefault ''target_force_update'' UnsignedBigintType (SqlNumber 0), orNull ''target_replicas'' IntType,
      orNull ''target_image'' (VarcharType 1024), orNull ''target_task_spec_hash'' (VarcharType 64),
      orNull ''target_runtime_spec_hash'' (VarcharType 64), orNull ''result_version'' UnsignedBigintType,
      orNull ''error_code'' (VarcharType 64), orNull ''error_message'' TextType,
      stamped ''created_at'', restamped ''updated_at'']
     [primaryKey [''id''], indexOn ''idx_operations_service'' [''cluster_id'', ''service_id'', ''created_at''],
      indexOn ''idx_operations_status'' [''status'', ''updated_at'']] []"

definition node_operations_table :: SqlTable where
  "node_operations_table = newTable ''node_operations''
     [notNull ''id'' (VarcharType 64), notNull ''cluster_id'' (VarcharType 128), notNull ''node_id'' (VarcharType 128),
      notNull ''type'' (VarcharType 32), notNull ''status'' (VarcharType 32), notNull ''actor_id'' (VarcharType 128),
      notNull ''expected_version'' UnsignedBigintType, notNull ''before_spec_hash'' (VarcharType 64),
      notNull ''target_spec_hash'' (VarcharType 64), notNull ''target_availability'' (VarcharType 16),
      notNull ''affected_service_ids'' JsonType, orNull ''target_labels'' JsonType, orNull ''label_patch'' JsonType,
      orNull ''result_version'' UnsignedBigintType, orNull ''error_code'' (VarcharType 64),
      orNull ''error_message'' TextType, stamped ''created_at'', restamped ''updated_at'']
     [primaryKey [''id''], indexOn ''idx_node_operations_node'' [''cluster_id'', ''node_id'', ''created_at''],
      indexOn ''idx_node_operations_status'' [''status'', ''updated_at'']] []"

definition deployments_table :: SqlTable where
  "deployments_table = newTable ''deployments''
     [notNull ''id'' (VarcharType 64), withDefault ''kind'' (VarcharType 32) (SqlText ''DEPLOY''),
      orNull ''source_deployment_id'' (VarcharType 64), notNull ''release_id'' (VarcharType 64),
      orNull ''previous_release_id'' (VarcharType 64), notNull ''deployment_target_id'' (VarcharType 64),
      notNull ''operation_id'' (VarcharType 64), orNull ''rollback_operation_id'' (VarcharType 64),
      notNull ''status'' (VarcharType 32), orNull ''reason'' TextType, withDefault ''no_op'' BooleanType (SqlNumber 0),
      notNull ''before_spec'' JsonType, notNull ''target_spec'' JsonType, notNull ''health_json'' JsonType,
      notNull ''expected_service_version'' UnsignedBigintType, stamped ''started_at'',
      orNull ''finished_at'' TimestampType, notNull ''created_by'' (VarcharType 128), stamped ''created_at'']
     [primaryKey [''id''], uniqueKey ''uq_deployments_operation'' [''operation_id''],
      uniqueKey ''uq_deployments_rollback_operation'' [''rollback_operation_id''],
      indexOn ''idx_deployments_target_created'' [''deployment_target_id'', ''created_at''],
      indexOn ''idx_deployments_status'' [''status'', ''created_at'']]
     [foreignKey ''fk_deployments_release'' ''release_id'' ''releases'' ''id'',
      foreignKey ''fk_deployments_previous_release'' ''previous_release_id'' ''releases'' ''id'',
      foreignKey ''fk_deployments_target'' ''deployment_target_id'' ''deployment_targets'' ''id'']"

definition bootstrap_tokens_table :: SqlTable where
  "bootstrap_tokens_table = newTable ''bootstrap_tokens''
     [notNull ''id'' (VarcharType 64), notNull ''token_hash'' (CharType 64), notNull ''cluster_id'' (VarcharType 128),
      notNull ''node_role'' (VarcharType 16), notNull ''labels_json'' JsonType, notNull ''created_by'' (VarcharType 128),
      notNull ''expires_at'' TimestampType, orNull ''used_at'' TimestampType, orNull ''claim_id'' (VarcharType 64),
      orNull ''completed_node_id'' (VarcharType 128), stamped ''created_at'']
     [primaryKey [''id''], uniqueKey ''uq_bootstrap_token_hash'' [''token_hash''],
      indexOn ''idx_bootstrap_tokens_expiry'' [''expires_at'', ''used_at''],
      indexOn ''idx_bootstrap_tokens_cluster'' [''cluster_id'', ''created_at'']] []"

definition baselineAudit :: "MigrationStep list" where
  "baselineAudit =
     [CreateTable audit_events_table,
      EnsureColumn ''audit_events'' (withDefault ''resource_type'' (VarcharType 32) (SqlText ''service'')),
      EnsureColumn ''audit_events'' (withDefault ''resource_id'' (VarcharType 128) (SqlText [])),
      BackfillAuditResources]"

definition baselineOperations :: "MigrationStep list" where
  "baselineOperations =
     [CreateTable operations_table,
      EnsureColumn ''operations'' (withDefault ''before_spec_hash'' (VarcharType 64) (SqlText [])),
      EnsureColumn ''operations'' (withDefault ''target_spec_hash'' (VarcharType 64) (SqlText [])),
      EnsureColumn ''operations'' (withDefault ''target_force_update'' UnsignedBigintType (SqlNumber 0)),
      EnsureColumn ''operations'' (orNull ''target_image'' (VarcharType 1024)),
      EnsureColumn ''operations'' (orNull ''target_task_spec_hash'' (VarcharType 64)),
      EnsureColumn ''operations'' (orNull ''target_runtime_spec_hash'' (VarcharType 64))]"

definition baselineNodeOperations :: "MigrationStep list" where
  "baselineNodeOperations =
     [CreateTable node_operations_table,
      EnsureColumn ''node_operations'' (orNull ''target_labels'' JsonType),
      EnsureColumn ''node_operations'' (orNull ''label_patch'' JsonType)]"

definition baselineDeployments :: "MigrationStep list" where
  "baselineDeployments =
     [CreateTable deployments_table,
      EnsureColumn ''deployments'' (orNull ''rollback_operation_id'' (VarcharType 64)),
      EnsureColumn ''deployments'' (withDefault ''kind'' (VarcharType 32) (SqlText ''DEPLOY'')),
      EnsureColumn ''deployments'' (orNull ''source_deployment_id'' (VarcharType 64)),
      EnsureIndex ''deployments'' (uniqueKey ''uq_deployments_rollback_operation'' [''rollback_operation_id''])]"

definition baselineBootstrapTokens :: "MigrationStep list" where
  "baselineBootstrapTokens =
     [CreateTable bootstrap_tokens_table,
      EnsureColumn ''bootstrap_tokens'' (orNull ''claim_id'' (VarcharType 64)),
      EnsureColumn ''bootstrap_tokens'' (orNull ''completed_node_id'' (VarcharType 128))]"

definition migrateBaselineCurrentSchema :: "MigrationStep list" where
  "migrateBaselineCurrentSchema =
     baselineAudit @
     [CreateTable applications_table, CreateTable deployment_targets_table, CreateTable releases_table] @
     baselineOperations @ baselineNodeOperations @ baselineDeployments @ baselineBootstrapTokens"

section \<open>The later migrations\<close>

definition migrateClusterRegistration :: "MigrationStep list" where
  "migrateClusterRegistration =
     [CreateTable (newBinaryTable ''cluster_registrations''
        [asciiNotNull ''cluster_id'' (VarcharType 128), asciiNotNull ''id'' (CharType 36),
         asciiNotNull ''swarm_cluster_id'' (VarcharType 128), notNull ''display_name'' (VarcharType 128),
         notNull ''registered_by'' (VarcharType 128), asciiNotNull ''verified_node_id'' (VarcharType 128),
         stamped ''created_at'']
        [primaryKey [''cluster_id''], uniqueKey ''uq_cluster_registration_id'' [''id''],
         uniqueKey ''uq_cluster_registration_swarm'' [''swarm_cluster_id'']] [])]"

definition migrateRollbackAttemptHistory :: "MigrationStep list" where
  "migrateRollbackAttemptHistory =
     [CreateTable (newTable ''rollback_attempts''
        [notNull ''operation_id'' (VarcharType 64), notNull ''deployment_id'' (VarcharType 64), stamped ''created_at'']
        [primaryKey [''operation_id''], indexOn ''idx_rollback_attempts_deployment'' [''deployment_id'', ''created_at'']]
        [foreignKey ''fk_rollback_attempt_deployment'' ''deployment_id'' ''deployments'' ''id'',
         foreignKey ''fk_rollback_attempt_operation'' ''operation_id'' ''operations'' ''id'']),
      BackfillRollbackAttempts]"

definition migrateClusterMaintenanceState :: "MigrationStep list" where
  "migrateClusterMaintenanceState =
     [CreateTable (newBinaryTable ''cluster_maintenance_states''
        [asciiNotNull ''cluster_id'' (VarcharType 128),
         notNull ''state'' (EnumType [''OPEN'', ''CLOSING'', ''CLOSED'', ''RECONCILING'']),
         notNull ''generation'' UnsignedBigintType, asciiNotNull ''owner_id'' (VarcharType 128),
         notNull ''reason'' (VarcharType 1024), notNull ''changed_by'' (VarcharType 128), stamped ''changed_at'']
        [primaryKey [''cluster_id'']]
        [foreignKey ''fk_cluster_maintenance_registration'' ''cluster_id'' ''cluster_registrations'' ''cluster_id''])]"

definition migrateMaintenanceOwnerUnicode :: "MigrationStep list" where
  "migrateMaintenanceOwnerUnicode =
     [ModifyColumn ''cluster_maintenance_states'' ((notNull ''owner_id'' (VarcharType 128))\<lparr>col_charset := Utf8mb4Bin\<rparr>)]"

definition migrateMaintenanceDispatch :: "MigrationStep list" where
  "migrateMaintenanceDispatch =
     [CreateTable (newBinaryTable ''maintenance_dispatches''
        [asciiNotNull ''id'' (CharType 36), asciiNotNull ''cluster_id'' (VarcharType 128),
         notNull ''generation'' UnsignedBigintType, asciiNotNull ''agent_id'' (VarcharType 128),
         notNull ''operation_id'' (VarcharType 64),
         notNull ''phase'' (EnumType [''PREPARED'', ''SENDING'', ''ACKNOWLEDGED'', ''REJECTED'', ''UNCERTAIN'']),
         stamped ''created_at'', restamped ''updated_at'']
        [primaryKey [''id''], indexOn ''idx_dispatch_unresolved'' [''cluster_id'', ''phase'']]
        [foreignKey ''fk_maintenance_dispatch_cluster'' ''cluster_id'' ''cluster_maintenance_states'' ''cluster_id'']),
      CreateTable (newBinaryTable ''maintenance_agent_barriers''
        [asciiNotNull ''cluster_id'' (VarcharType 128), asciiNotNull ''agent_id'' (VarcharType 128),
         notNull ''generation'' UnsignedBigintType, notNull ''state'' (EnumType [''PENDING'', ''ACKNOWLEDGED'']),
         restamped ''updated_at'']
        [primaryKey [''cluster_id'', ''agent_id'']]
        [foreignKey ''fk_maintenance_barrier_cluster'' ''cluster_id'' ''cluster_maintenance_states'' ''cluster_id''])]"

definition migrateMaintenanceActiveAdmissions :: "MigrationStep list" where
  "migrateMaintenanceActiveAdmissions =
     [CreateTable (newBinaryTable ''maintenance_active_admissions''
        [asciiNotNull ''id'' (CharType 36), asciiNotNull ''cluster_id'' (VarcharType 128),
         notNull ''generation'' UnsignedBigintType, stamped ''created_at'']
        [primaryKey [''id''], indexOn ''idx_maintenance_active_cluster'' [''cluster_id'']]
        [foreignKey ''fk_maintenance_active_cluster'' ''cluster_id'' ''cluster_maintenance_states'' ''cluster_id''])]"

definition migrateMaintenanceControlLease :: "MigrationStep list" where
  "migrateMaintenanceControlLease =
     [CreateTable (newBinaryTable ''maintenance_control_leases''
        [asciiNotNull ''cluster_id'' (VarcharType 128), asciiNotNull ''holder_id'' (CharType 36),
         notNull ''fence_token'' UnsignedBigintType, notNull ''expires_at'' DatetimeType]
        [primaryKey [''cluster_id'']]
        [foreignKey ''fk_maintenance_control_lease_cluster'' ''cluster_id'' ''cluster_maintenance_states'' ''cluster_id''])]"

definition migrateMaintenanceEvidenceResolution :: "MigrationStep list" where
  "migrateMaintenanceEvidenceResolution =
     map (AddMissingColumn ''maintenance_active_admissions'')
       [(orNull ''owner_id'' (CharType 36))\<lparr>col_charset := AsciiBin\<rparr>,
        (orNull ''resource_type'' (VarcharType 16))\<lparr>col_charset := AsciiBin\<rparr>,
        orNull ''resource_id'' (VarcharType 128), orNull ''operation_id'' (VarcharType 64)] @
     [CreateTable (newBinaryTable ''maintenance_evidence_resolutions''
        [asciiNotNull ''id'' (CharType 36), asciiNotNull ''cluster_id'' (VarcharType 128),
         notNull ''evidence_type'' (EnumType [''ADMISSION'', ''DISPATCH'']), asciiNotNull ''evidence_id'' (CharType 36),
         notNull ''actor_id'' (VarcharType 128), notNull ''reason'' (VarcharType 1024), notNull ''evidence_json'' JsonType,
         stamped ''created_at'']
        [primaryKey [''id''],
         uniqueKey ''uq_maintenance_evidence_resolution'' [''cluster_id'', ''evidence_type'', ''evidence_id'']]
        [foreignKey ''fk_maintenance_resolution_cluster'' ''cluster_id'' ''cluster_maintenance_states'' ''cluster_id''])]"

section \<open>The catalogue and the runner\<close>

record Migration =
  mn_version :: nat
  mn_name :: string
  mn_signature :: string
  mn_up :: "MigrationStep list"

definition migration :: "nat \<Rightarrow> string \<Rightarrow> string \<Rightarrow> MigrationStep list \<Rightarrow> Migration" where
  "migration v name signature up = \<lparr>mn_version = v, mn_name = name, mn_signature = signature, mn_up = up\<rparr>"

definition DATABASE_MIGRATIONS :: "Migration list" where
  "DATABASE_MIGRATIONS =
     [migration 1 ''baseline-current-schema'' ''2026-10-01-baseline-current-schema-v1'' migrateBaselineCurrentSchema,
      migration 2 ''backfill-bootstrap-completed-node-id'' ''2026-10-01-backfill-bootstrap-completed-node-id-v1''
        [BackfillCompletedNodes],
      migration 3 ''cluster-registration'' ''2026-10-08-cluster-registration-v1'' migrateClusterRegistration,
      migration 4 ''rollback-attempt-history'' ''2026-10-08-rollback-attempt-history-v1'' migrateRollbackAttemptHistory,
      migration 5 ''cluster-maintenance-state'' ''2026-10-13-cluster-maintenance-state-v1'' migrateClusterMaintenanceState,
      migration 6 ''maintenance-owner-unicode'' ''2026-10-13-maintenance-owner-unicode-v1'' migrateMaintenanceOwnerUnicode,
      migration 7 ''maintenance-dispatch-evidence'' ''2026-10-14-maintenance-dispatch-evidence-v1'' migrateMaintenanceDispatch,
      migration 8 ''maintenance-dispatch-uniqueness'' ''2026-10-14-maintenance-dispatch-uniqueness-v1'' [DispatchUniqueness],
      migration 9 ''maintenance-active-admissions'' ''2026-10-16-maintenance-active-admissions-v1''
        migrateMaintenanceActiveAdmissions,
      migration 10 ''maintenance-control-lease'' ''2026-10-16-maintenance-control-lease-v1'' migrateMaintenanceControlLease,
      migration 11 ''maintenance-evidence-resolution'' ''2026-10-16-maintenance-evidence-resolution-v1''
        migrateMaintenanceEvidenceResolution]"

text \<open>The loop of \<open>assertMigrationCatalog\<close>; the first argument is the expected version.\<close>

fun assertCatalogFrom :: "nat \<Rightarrow> Migration list \<Rightarrow> string + unit" where
  "assertCatalogFrom expected [] = Inr ()"
| "assertCatalogFrom expected (m # ms) =
     (if mn_version m \<noteq> expected
      then Inl (''Database migration catalog must be contiguous from version 1: expected '' @ show_nat expected
             @ '', found '' @ show_nat (mn_version m))
      else if trim (mn_name m) = [] \<or> trim (mn_signature m) = []
      then Inl (''Database migration '' @ show_nat (mn_version m) @ '' must have stable name and signature metadata'')
      else assertCatalogFrom (Suc expected) ms)"

definition assertMigrationCatalog :: "Migration list \<Rightarrow> string + unit" where
  "assertMigrationCatalog = assertCatalogFrom 1"

definition migrationChecksum :: "MigrationEnv \<Rightarrow> Migration \<Rightarrow> string" where
  "migrationChecksum env m =
     me_sha256 env (show_nat (mn_version m) @ '':'' @ mn_name m @ '':'' @ mn_signature m)"

text \<open>One row of \<open>schema_migrations\<close> against the catalogue; \<open>None\<close> is acceptance.\<close>

definition refuseRow :: "MigrationEnv \<Rightarrow> Migration list \<Rightarrow> MigrationRow \<Rightarrow> string option" where
  "refuseRow env ms row =
     (case find (\<lambda>m. mn_version m = mr_version row) ms of
        None \<Rightarrow>
          (let latestVersion = (if ms = [] then 0 else mn_version (last ms)) in
           if mr_version row > latestVersion
           then Some (''Database schema version '' @ show_nat (mr_version row)
                  @ '' is newer than this Docklane build (latest '' @ show_nat latestVersion @ '')'')
           else Some (''Database contains unknown migration version '' @ show_nat (mr_version row)))
      | Some m \<Rightarrow>
          if mr_name row \<noteq> mn_name m \<or> mr_checksum row \<noteq> migrationChecksum env m
          then Some (''Database migration '' @ show_nat (mr_version row) @ '' metadata does not match this Docklane build'')
          else None)"

fun refuseRows :: "MigrationEnv \<Rightarrow> Migration list \<Rightarrow> MigrationRow list \<Rightarrow> string option" where
  "refuseRows env ms [] = None"
| "refuseRows env ms (row # rows) =
     (case refuseRow env ms row of Some e \<Rightarrow> Some e | None \<Rightarrow> refuseRows env ms rows)"

definition createSchemaMigrations :: "Schema \<Rightarrow> string + Schema" where
  "createSchemaMigrations s = Inr (case mg_applied s of None \<Rightarrow> s\<lparr>mg_applied := Some []\<rparr> | Some _ \<Rightarrow> s)"

definition appliedRows :: "Schema \<Rightarrow> MigrationRow list" where
  "appliedRows s = (case mg_applied s of None \<Rightarrow> [] | Some rows \<Rightarrow> rows)"

definition insertMigration :: "MigrationEnv \<Rightarrow> Migration \<Rightarrow> Schema \<Rightarrow> string + Schema" where
  "insertMigration env m s =
     (case mg_applied s of
        None \<Rightarrow> Inl ''Table does not exist: schema_migrations''
      | Some rows \<Rightarrow>
          if mn_version m \<in> mr_version ` set rows then Inl ''Duplicate entry for schema_migrations''
          else Inr (s\<lparr>mg_applied := Some (rows @
            [\<lparr>mr_version = mn_version m, mr_name = mn_name m, mr_checksum = migrationChecksum env m\<rparr>])\<rparr>))"

fun applyMigrations :: "MigrationEnv \<Rightarrow> nat set \<Rightarrow> Migration list \<Rightarrow> unit mig" where
  "applyMigrations env applied [] = retG ()"
| "applyMigrations env applied (m # ms) =
     (if mn_version m \<in> applied then applyMigrations env applied ms
      else thenG (runSteps env (mn_up m))
             (thenG (executeG env (insertMigration env m)) (applyMigrations env applied ms)))"

definition underMigrationLock :: "MigrationEnv \<Rightarrow> Migration list \<Rightarrow> unit mig" where
  "underMigrationLock env ms =
     thenG (executeG env createSchemaMigrations)
    (bindG (queryG env (\<lambda>s. Inr (sort_key mr_version (appliedRows s)))) (\<lambda>rows.
     case refuseRows env ms rows of
       Some e \<Rightarrow> throwG e
     | None \<Rightarrow> applyMigrations env (mr_version ` set rows) ms))"

definition getMigrationLock :: "MigrationEnv \<Rightarrow> nat mig" where
  "getMigrationLock env st =
     queryG env (\<lambda>_. Inr (case me_lock env (fst st) of None \<Rightarrow> 0 | Some acquired \<Rightarrow> acquired)) st"

definition runDatabaseMigrations :: "MigrationEnv \<Rightarrow> unit mig" where
  "runDatabaseMigrations env =
     (case assertMigrationCatalog DATABASE_MIGRATIONS of
        Inl e \<Rightarrow> throwG e
      | Inr _ \<Rightarrow>
          bindG (getMigrationLock env) (\<lambda>acquired.
          if acquired \<noteq> 1 then throwG ''Could not acquire Docklane database migration lock''
          else finallyG (underMigrationLock env DATABASE_MIGRATIONS) (queryG env (\<lambda>_. Inr ()))))"

text \<open>\<open>getConnection\<close> sets the time zone of the session before it hands out the connection.\<close>

definition getConnection :: "MigrationEnv \<Rightarrow> unit mig" where
  "getConnection env = queryG env (\<lambda>_. Inr ())"

definition onModuleInit :: "MigrationEnv \<Rightarrow> unit mig" where
  "onModuleInit env = thenG (getConnection env) (runDatabaseMigrations env)"

end
