(* ===== verification/Migration_Outcomes.thy ===== *)
theory Migration_Outcomes
  imports Migrations
begin

text \<open>
  What the migrations guarantee. \<open>effect\<close> is what a step does when nothing fails; a run of the code
  \<open>implements\<close> a list of effects if it performs a prefix of them whatever fails. A step is
  \<open>settled\<close> when its effect is to change nothing. Every step settles itself and the steps of a
  migration keep the earlier ones settled, so an interrupted migration can be started again from its
  first step.
\<close>

section \<open>Runs as lists of effects\<close>

type_synonym schema_effect = "Schema \<Rightarrow> string + Schema"

fun prun :: "schema_effect list \<Rightarrow> Schema \<Rightarrow> string option \<times> Schema" where
  "prun [] s = (None, s)"
| "prun (f # fs) s = (case f s of Inl e \<Rightarrow> (Some e, s) | Inr t \<Rightarrow> prun fs t)"

fun interrupted :: "schema_effect list \<Rightarrow> Schema \<Rightarrow> Schema set" where
  "interrupted [] s = {s}"
| "interrupted (f # fs) s = insert s (case f s of Inl e \<Rightarrow> {} | Inr t \<Rightarrow> interrupted fs t)"

lemma interrupted_start [simp]: "s \<in> interrupted fs s"
  by (cases fs) auto

lemma prun_append: "prun (fs @ gs) s = (case prun fs s of (None, t) \<Rightarrow> prun gs t | (Some e, t) \<Rightarrow> (Some e, t))"
  by (induction fs arbitrary: s) (auto split: sum.splits)

lemma interrupted_append:
  "t \<in> interrupted (fs @ gs) s \<longleftrightarrow>
     t \<in> interrupted fs s \<or> (\<exists>u. prun fs s = (None, u) \<and> t \<in> interrupted gs u)"
  by (induction fs arbitrary: s) (auto split: sum.splits)

definition faultless_env :: "MigrationEnv \<Rightarrow> bool" where
  "faultless_env env \<longleftrightarrow> (\<forall>n. me_db env n = DbOk \<and> me_lock env n = Some 1)"

lemma not_faultless:
  "me_db env n = DbFailed m \<Longrightarrow> \<not> faultless_env env" "me_db env n = DbLost m \<Longrightarrow> \<not> faultless_env env"
  by (auto simp: faultless_env_def intro!: exI [of _ n])

definition implements :: "MigrationEnv \<Rightarrow> unit mig \<Rightarrow> schema_effect list \<Rightarrow> bool" where
  "implements env m fs \<longleftrightarrow> (\<forall>n s r n' t. m (n, s) = (r, n', t) \<longrightarrow>
     t \<in> interrupted fs s \<and> (r = Inr () \<longrightarrow> prun fs s = (None, t)) \<and>
     (faultless_env env \<longrightarrow> prun fs s = (case r of Inl e \<Rightarrow> Some e | Inr _ \<Rightarrow> None, t)))"

lemma implements_retG [intro]: "implements env (retG ()) []"
  by (auto simp: implements_def retG_def)

lemma implements_executeG [intro]: "implements env (executeG env f) [f]"
  by (auto simp: implements_def executeG_def dest: not_faultless split: DbOutcome.splits sum.splits)

lemma implements_thenG:
  assumes m: "implements env m fs" and m': "implements env m' gs"
  shows "implements env (thenG m m') (fs @ gs)"
  unfolding implements_def
proof (intro allI impI)
  fix n s r n' t assume run: "thenG m m' (n, s) = (r, n', t)"
  obtain r1 n1 u where first: "m (n, s) = (r1, n1, u)" by (metis prod.exhaust)
  note F = m [unfolded implements_def, rule_format, OF first]
  show "t \<in> interrupted (fs @ gs) s \<and> (r = Inr () \<longrightarrow> prun (fs @ gs) s = (None, t)) \<and>
    (faultless_env env \<longrightarrow> prun (fs @ gs) s = (case r of Inl e \<Rightarrow> Some e | Inr _ \<Rightarrow> None, t))"
  proof (cases r1)
    case (Inl e)
    then have "r = Inl e" "t = u" using run first by (auto simp: thenG_def bindG_def)
    then show ?thesis using F Inl by (auto simp: interrupted_append prun_append)
  next
    case (Inr x)
    then have "m' (n1, u) = (r, n', t)" using run first by (auto simp: thenG_def bindG_def)
    note G = m' [unfolded implements_def, rule_format, OF this]
    show ?thesis using F G Inr by (auto simp: interrupted_append prun_append)
  qed
qed

section \<open>The effect of a step\<close>

definition safeIdentifier :: "string \<Rightarrow> bool" where
  "safeIdentifier v \<longleftrightarrow> v \<noteq> [] \<and> list_all isSafeChar v"

definition unlessUnsafe :: "string list \<Rightarrow> schema_effect \<Rightarrow> schema_effect" where
  "unlessUnsafe vs f s =
     (case find (\<lambda>v. \<not> safeIdentifier v) vs of
        Some v \<Rightarrow> Inl (''Unsafe database identifier: '' @ v) | None \<Rightarrow> f s)"

fun effect :: "MigrationStep \<Rightarrow> schema_effect" where
  "effect (CreateTable tb) = createTableIfNotExists tb"
| "effect (AddMissingColumn t c) = (\<lambda>s. if hasColumn t (col_name c) s then Inr s else addColumn t c s)"
| "effect (EnsureColumn t c) =
     unlessUnsafe [t, col_name c] (\<lambda>s. if hasColumn t (col_name c) s then Inr s else addColumn t c s)"
| "effect (EnsureIndex t k) =
     unlessUnsafe [t, key_name k] (\<lambda>s. if hasIndex t (key_name k) s then Inr s else addKey t k s)"
| "effect (ModifyColumn t c) = modifyColumn t c"
| "effect BackfillAuditResources = backfillAuditResources"
| "effect BackfillCompletedNodes = backfillBootstrapCompletedNodeId"
| "effect BackfillRollbackAttempts = backfillRollbackAttempts"
| "effect DispatchUniqueness = (\<lambda>s.
     case duplicateDispatches s of
       Inl e \<Rightarrow> Inl e
     | Inr True \<Rightarrow> Inl ''Duplicate maintenance dispatch evidence requires reconciliation before migration''
     | Inr False \<Rightarrow>
         (case dispatchIndex s of
            Some k \<Rightarrow>
              if \<not> key_unique k \<or> key_columns k \<noteq> key_columns dispatchKey
              then Inl ''Maintenance dispatch uniqueness index metadata mismatch'' else Inr s
          | None \<Rightarrow> addKey ''maintenance_dispatches'' dispatchKey s))"

lemma implements_addMissingColumn: "implements env (addMissingColumn env t c) [effect (AddMissingColumn t c)]"
  unfolding implements_def addMissingColumn_def
  by (auto simp: mig_defs dest: not_faultless split: DbOutcome.splits sum.splits if_splits)

lemma assertSafe_eq:
  "thenG (assertSafeIdentifier a) (thenG (assertSafeIdentifier b) m) st =
     (case find (\<lambda>v. \<not> safeIdentifier v) [a, b] of
        Some v \<Rightarrow> (Inl (''Unsafe database identifier: '' @ v), st) | None \<Rightarrow> m st)"
  by (auto simp: assertSafeIdentifier_def safeIdentifier_def mig_defs)

lemma implements_safe:
  assumes "implements env m [f]"
  shows "implements env (thenG (assertSafeIdentifier a) (thenG (assertSafeIdentifier b) m)) [unlessUnsafe [a, b] f]"
  using assms unfolding implements_def
  by (auto simp: assertSafe_eq unlessUnsafe_def split: if_splits)

lemma implements_runStep: "implements env (runStep env x) [effect x]"
proof (cases x)
  case (EnsureColumn t c)
  then show ?thesis
    using implements_safe [OF implements_addMissingColumn] by (simp add: ensureColumn_def)
next
  case (EnsureIndex t k)
  have "implements env (bindG (queryG env (\<lambda>s. Inr (hasIndex t (key_name k) s)))
      (\<lambda>present. if present then retG () else executeG env (addKey t k)))
      [\<lambda>s. if hasIndex t (key_name k) s then Inr s else addKey t k s]"
    unfolding implements_def
    by (auto simp: mig_defs dest: not_faultless split: DbOutcome.splits sum.splits if_splits)
  from implements_safe [OF this] show ?thesis using EnsureIndex by (simp add: ensureIndex_def)
next
  case DispatchUniqueness
  then show ?thesis
    unfolding implements_def
    by (auto simp: migrateMaintenanceDispatchUniqueness_def mig_defs dest: not_faultless
        split: DbOutcome.splits sum.splits if_splits option.splits bool.splits)
qed (use implements_executeG implements_addMissingColumn in auto)

lemma implements_runSteps: "implements env (runSteps env xs) (map effect xs)"
proof (induction xs)
  case (Cons x xs)
  from implements_thenG [OF implements_runStep Cons.IH] show ?case by simp
qed auto

fun plan :: "MigrationEnv \<Rightarrow> nat set \<Rightarrow> Migration list \<Rightarrow> schema_effect list" where
  "plan env applied [] = []"
| "plan env applied (m # ms) =
     (if mn_version m \<in> applied then [] else map effect (mn_up m) @ [insertMigration env m]) @ plan env applied ms"

lemma implements_applyMigrations: "implements env (applyMigrations env applied ms) (plan env applied ms)"
proof (induction ms)
  case (Cons m ms)
  from implements_thenG [OF implements_runSteps implements_thenG [OF implements_executeG Cons.IH], of "mn_up m"]
  show ?case using Cons.IH by simp
qed auto

section \<open>Steps that are settled\<close>

definition settled :: "MigrationStep \<Rightarrow> Schema \<Rightarrow> bool" where
  "settled x s \<longleftrightarrow> effect x s = Inr s"

lemma onTable_Inr:
  "onTable t cs f s = Inr u \<longleftrightarrow> (\<exists>tb tb'. mg_tables s t = Some tb \<and> set cs \<subseteq> col_name ` set (tb_columns tb) \<and>
     f tb = Inr tb' \<and> u = s\<lparr>mg_tables := (mg_tables s)(t \<mapsto> tb')\<rparr>)"
  by (auto simp: onTable_def split: option.splits sum.splits if_splits)

lemma tables_upd_triv: "mg_tables s t = Some tb \<Longrightarrow> s\<lparr>mg_tables := (mg_tables s)(t \<mapsto> tb)\<rparr> = s"
  by (simp add: map_upd_triv)

lemma setCell_setCell: "setCell c v (setCell c w r) = setCell c v r"
  by (induction r) (auto simp: setCell_def)

lemma setCell_swap: "c \<noteq> d \<Longrightarrow> setCell c v (setCell d w r) = setCell d w (setCell c v r)"
  by (induction r) (auto simp: setCell_def)

lemma cell_setCell_other: "c \<noteq> d \<Longrightarrow> cell (setCell d w r) c = cell r c"
  by (induction r) (auto simp: setCell_def cell_def)

lemma setCell_or: "setCell c v r = r \<or> cell (setCell c v r) c = v"
  by (induction r) (auto simp: setCell_def cell_def)

lemma update_rows_settles:
  assumes "\<And>r. P r \<Longrightarrow> P (f r) \<Longrightarrow> f (f r) = f r"
  shows "update_rows P f (update_rows P f rows) = update_rows P f rows"
  using assms by (auto simp: update_rows_def)

lemma completedNode_settles:
  assumes "completedNode audits tok = Some v"
  shows "completedNode audits (setCell ''completed_node_id'' (SqlText v) tok) = None \<or>
    setCell ''completed_node_id'' (SqlText v) tok = tok"
  using setCell_or [of "''completed_node_id''" "SqlText v" tok]
  by (auto simp: completedNode_def split: list.splits)

definition attempted :: "SqlRow list \<Rightarrow> SqlValue \<times> SqlValue \<Rightarrow> bool" where
  "attempted rows pair \<longleftrightarrow> list_ex (\<lambda>r. cell r ''operation_id'' = fst pair) rows"

lemma insertAttempt_attempted:
  "attempted (insertAttempt rows p) p" "attempted rows q \<Longrightarrow> attempted (insertAttempt rows p) q"
  by (auto simp: attempted_def insertAttempt_def cell_def)

lemma foldl_keeps_attempted: "attempted rows q \<Longrightarrow> attempted (foldl insertAttempt rows ps) q"
  by (induction ps arbitrary: rows) (auto simp: insertAttempt_attempted)

lemma foldl_attempted: "p \<in> set ps \<Longrightarrow> attempted (foldl insertAttempt rows ps) p"
  by (induction ps arbitrary: rows) (auto simp: insertAttempt_attempted foldl_keeps_attempted)

lemma foldl_attempted_triv: "(\<And>p. p \<in> set ps \<Longrightarrow> attempted rows p) \<Longrightarrow> foldl insertAttempt rows ps = rows"
  by (induction ps) (auto simp: attempted_def insertAttempt_def)


lemma addColumn_settles: "addColumn t c s = Inr u \<Longrightarrow> hasColumn t (col_name c) u"
  by (auto simp: addColumn_def onTable_Inr hasColumn_def split: if_splits)

lemma addKey_settles: "addKey t k s = Inr u \<Longrightarrow> hasIndex t (key_name k) u"
  by (auto simp: addKey_def onTable_Inr hasIndex_def split: if_splits)

lemma find_row_fresh: "k \<notin> key ` set rows \<Longrightarrow> key r = k \<Longrightarrow> find_row key k (rows @ [r]) = Some r"
  by (induction rows) (auto simp: find_row_def)

lemma onTable_settles:
  assumes "onTable t cs g s = Inr u"
    and "\<And>tb tb'. g tb = Inr tb' \<Longrightarrow> g tb' = Inr tb' \<and> col_name ` set (tb_columns tb) \<subseteq> col_name ` set (tb_columns tb')"
  shows "onTable t cs g u = Inr u"
proof -
  obtain tb tb' where "mg_tables s t = Some tb" "set cs \<subseteq> col_name ` set (tb_columns tb)" "g tb = Inr tb'"
      "u = s\<lparr>mg_tables := (mg_tables s)(t \<mapsto> tb')\<rparr>"
    using assms(1) by (auto simp: onTable_Inr)
  with assms(2) [OF this(3)] show ?thesis by (auto simp: onTable_def)
qed

lemma audit_rows_settle:
  "update_rows (\<lambda>r. cell r ''resource_id'' = SqlText [])
     (\<lambda>r. setCell ''resource_id'' (cell r ''service_id'') (setCell ''resource_type'' (SqlText ''service'') r))
     (update_rows (\<lambda>r. cell r ''resource_id'' = SqlText [])
       (\<lambda>r. setCell ''resource_id'' (cell r ''service_id'') (setCell ''resource_type'' (SqlText ''service'') r)) rows) =
   update_rows (\<lambda>r. cell r ''resource_id'' = SqlText [])
     (\<lambda>r. setCell ''resource_id'' (cell r ''service_id'') (setCell ''resource_type'' (SqlText ''service'') r)) rows"
  by (rule update_rows_settles)
    (simp add: cell_setCell_other setCell_setCell
      setCell_swap [of "''resource_type''" "''resource_id''"])

lemma modified_names: "col_name ` (\<lambda>old. if col_name old = col_name c then c else old) ` A = col_name ` A"
proof -
  have "(\<lambda>old. col_name (if col_name old = col_name c then c else old)) = col_name" by auto
  then show ?thesis by (simp only: image_image)
qed

lemma backfillAuditResources_settles: "backfillAuditResources s = Inr u \<Longrightarrow> backfillAuditResources u = Inr u"
  unfolding backfillAuditResources_def by (erule onTable_settles) (auto simp: audit_rows_settle)

lemma required_settles:
  assumes stmt: "requireTables ts (\<lambda>s. onTable t cs (g s) s) s = Inr u"
    and reads: "\<And>v. \<forall>x. x \<noteq> t \<longrightarrow> mg_tables v x = mg_tables s x \<Longrightarrow> g v = g s" and "t \<notin> set ts"
    and idem: "\<And>tb tb'. g s tb = Inr tb' \<Longrightarrow> g s tb' = Inr tb' \<and> col_name ` set (tb_columns tb) \<subseteq> col_name ` set (tb_columns tb')"
  shows "requireTables ts (\<lambda>s. onTable t cs (g s) s) u = Inr u"
proof -
  have at: "list_all (\<lambda>t. mg_tables s t \<noteq> None) ts" "onTable t cs (g s) s = Inr u"
    using stmt by (auto simp: requireTables_def split: if_splits)
  then obtain tb where u: "u = s\<lparr>mg_tables := (mg_tables s)(t \<mapsto> tb)\<rparr>" by (auto simp: onTable_Inr)
  have "g u = g s" by (rule reads) (simp add: u)
  moreover have "list_all (\<lambda>t. mg_tables u t \<noteq> None) ts" using at(1) u by (auto simp: list_all_iff)
  ultimately show ?thesis
    using onTable_settles [OF at(2) idem] by (simp add: requireTables_def)
qed

lemma filled_node_settles:
  "map (\<lambda>tok. case completedNode audits tok of None \<Rightarrow> tok | Some v \<Rightarrow> setCell ''completed_node_id'' (SqlText v) tok)
     (map (\<lambda>tok. case completedNode audits tok of None \<Rightarrow> tok | Some v \<Rightarrow> setCell ''completed_node_id'' (SqlText v) tok) rows) =
   map (\<lambda>tok. case completedNode audits tok of None \<Rightarrow> tok | Some v \<Rightarrow> setCell ''completed_node_id'' (SqlText v) tok) rows"
proof -
  let ?f = "\<lambda>tok. case completedNode audits tok of None \<Rightarrow> tok | Some v \<Rightarrow> setCell ''completed_node_id'' (SqlText v) tok"
  have "?f (?f tok) = ?f tok" for tok
  proof (cases "completedNode audits tok")
    case (Some v)
    from completedNode_settles [OF Some] show ?thesis
    proof
      assume "completedNode audits (setCell ''completed_node_id'' (SqlText v) tok) = None"
      then show ?thesis by (simp add: Some)
    next
      assume "setCell ''completed_node_id'' (SqlText v) tok = tok"
      then show ?thesis by (simp only: Some option.case)
    qed
  qed simp
  then show ?thesis by simp
qed

lemma attempts_settle: "foldl insertAttempt (foldl insertAttempt rows ps) ps = foldl insertAttempt rows ps"
  by (rule foldl_attempted_triv) (rule foldl_attempted)

lemma backfillCompleted_settles:
  "backfillBootstrapCompletedNodeId s = Inr u \<Longrightarrow> backfillBootstrapCompletedNodeId u = Inr u"
  unfolding backfillBootstrapCompletedNodeId_def
proof (erule required_settles, goal_cases)
  case (3 tb tb')
  then show ?case by (auto simp: filled_node_settles simp del: map_map list.map_comp)
qed (auto simp: rowsOf_def)

lemma backfillAttempts_settles: "backfillRollbackAttempts s = Inr u \<Longrightarrow> backfillRollbackAttempts u = Inr u"
  unfolding backfillRollbackAttempts_def
proof (erule required_settles, goal_cases)
  case (1 v)
  then show ?case by (simp add: rollbackPairs_def rowsOf_def)
qed (auto simp: attempts_settle)

lemma dispatchKey_unique: "key_unique dispatchKey"
  by (simp add: dispatchKey_def uniqueKey_def)

text \<open>A step that has succeeded changes nothing when it is repeated at once.\<close>

lemma effect_settles: "effect x s = Inr u \<Longrightarrow> settled x u"
proof (cases x)
  case (CreateTable tb)
  then show "effect x s = Inr u \<Longrightarrow> settled x u"
    by (auto simp: settled_def createTableIfNotExists_def split: if_splits)
next
  case DispatchUniqueness
  then show "effect x s = Inr u \<Longrightarrow> settled x u"
    by (auto simp: settled_def duplicateDispatches_def dispatchIndex_def addKey_def onTable_Inr find_row_fresh dispatchKey_unique
        split: if_splits sum.splits option.splits bool.splits)
next
  case (ModifyColumn t c)
  have "modifyColumn t c s = Inr u \<Longrightarrow> modifyColumn t c u = Inr u"
    unfolding modifyColumn_def
    by (erule onTable_settles) (auto simp: modified_names simp del: image_Int_subset)
  then show "effect x s = Inr u \<Longrightarrow> settled x u" using ModifyColumn by (simp add: settled_def)
qed (auto simp: settled_def unlessUnsafe_def backfillAuditResources_settles backfillCompleted_settles
    backfillAttempts_settles addColumn_settles addKey_settles split: if_splits option.splits)

section \<open>Steps keep each other settled\<close>

definition keeps :: "MigrationStep \<Rightarrow> MigrationStep \<Rightarrow> bool" where
  "keeps x y \<longleftrightarrow> (\<forall>s u. settled x s \<longrightarrow> effect y s = Inr u \<longrightarrow> settled x u)"

fun writes :: "MigrationStep \<Rightarrow> string" where
  "writes (CreateTable tb) = tb_name tb"
| "writes (EnsureColumn t c) = t"
| "writes (AddMissingColumn t c) = t"
| "writes (EnsureIndex t k) = t"
| "writes (ModifyColumn t c) = t"
| "writes BackfillAuditResources = ''audit_events''"
| "writes BackfillCompletedNodes = ''bootstrap_tokens''"
| "writes BackfillRollbackAttempts = ''rollback_attempts''"
| "writes DispatchUniqueness = ''maintenance_dispatches''"

definition grows :: "SqlTable option \<Rightarrow> SqlTable option \<Rightarrow> bool" where
  "grows old new \<longleftrightarrow> (\<forall>tb. old = Some tb \<longrightarrow> (\<exists>tb'. new = Some tb' \<and>
     col_name ` set (tb_columns tb) \<subseteq> col_name ` set (tb_columns tb') \<and>
     key_name ` set (tb_keys tb) \<subseteq> key_name ` set (tb_keys tb')))"

lemma grows_refl [simp]: "grows t t"
  by (auto simp: grows_def)

lemma modifyColumn_writes:
  assumes "modifyColumn t c s = Inr u"
  shows "\<exists>tb. u = s\<lparr>mg_tables := (mg_tables s)(t \<mapsto> tb)\<rparr> \<and> grows (mg_tables s t) (Some tb)"
proof -
  obtain tb where tb: "mg_tables s t = Some tb" "u = s\<lparr>mg_tables := (mg_tables s)(t \<mapsto> tb\<lparr>tb_columns :=
      map (\<lambda>old. if col_name old = col_name c then c else old) (tb_columns tb)\<rparr>)\<rparr>"
    using assms by (auto simp: modifyColumn_def onTable_Inr)
  have "grows (Some tb) (Some (tb\<lparr>tb_columns := map (\<lambda>old. if col_name old = col_name c then c else old) (tb_columns tb)\<rparr>))"
    unfolding grows_def by (simp only: option.inject SqlTable.simps set_map modified_names) auto
  with tb show ?thesis by auto
qed

text \<open>A step writes one table, and there it drops no column and no key.\<close>

lemma effect_writes:
  assumes "effect y s = Inr u"
  shows "\<exists>tb. u = s \<or> u = s\<lparr>mg_tables := (mg_tables s)(writes y \<mapsto> tb)\<rparr> \<and> grows (mg_tables s (writes y)) (Some tb)"
  using assms
proof (cases y)
  case (CreateTable tb)
  then show ?thesis
    using assms by (auto simp: createTableIfNotExists_def grows_def split: if_splits)
next
  case (ModifyColumn t c)
  then show ?thesis
    using assms modifyColumn_writes by fastforce
qed (auto simp: unlessUnsafe_def addColumn_def addKey_def modifyColumn_def backfillAuditResources_def requireTables_def
    backfillBootstrapCompletedNodeId_def backfillRollbackAttempts_def onTable_Inr grows_def duplicateDispatches_def
    split: if_splits option.splits sum.splits bool.splits)

lemma effect_frame: "effect y s = Inr u \<Longrightarrow> t \<noteq> writes y \<Longrightarrow> mg_tables u t = mg_tables s t"
  by (drule effect_writes) auto

lemma effect_grows: "effect y s = Inr u \<Longrightarrow> grows (mg_tables s t) (mg_tables u t)"
  by (drule effect_writes) auto

lemma effect_applied: "effect y s = Inr u \<Longrightarrow> mg_applied u = mg_applied s"
  by (drule effect_writes) auto

text \<open>Steps that only require something to exist stay settled; the others look at a few tables.\<close>

fun lasting :: "MigrationStep \<Rightarrow> bool" where
  "lasting (CreateTable tb) = True"
| "lasting (EnsureColumn t c) = True"
| "lasting (AddMissingColumn t c) = True"
| "lasting (EnsureIndex t k) = True"
| "lasting _ = False"

fun reads :: "MigrationStep \<Rightarrow> string list" where
  "reads (ModifyColumn t c) = [t]"
| "reads BackfillAuditResources = [''audit_events'']"
| "reads BackfillCompletedNodes = [''audit_events'', ''bootstrap_tokens'']"
| "reads BackfillRollbackAttempts = [''deployments'', ''deployment_targets'', ''operations'', ''rollback_attempts'']"
| "reads DispatchUniqueness = [''maintenance_dispatches'']"
| "reads _ = []"

lemma settled_CreateTable: "settled (CreateTable tb) s \<longleftrightarrow> mg_tables s (tb_name tb) \<noteq> None"
proof -
  have "mg_tables s (tb_name tb) \<noteq> None" if "s = s\<lparr>mg_tables := (mg_tables s)(tb_name tb \<mapsto> tb)\<rparr>"
    by (subst that) simp
  then show ?thesis by (auto simp: settled_def createTableIfNotExists_def)
qed

lemma settled_columns:
  "settled (AddMissingColumn t c) s \<longleftrightarrow> hasColumn t (col_name c) s"
  "settled (EnsureColumn t c) s \<longleftrightarrow> safeIdentifier t \<and> safeIdentifier (col_name c) \<and> hasColumn t (col_name c) s"
  "settled (EnsureIndex t k) s \<longleftrightarrow> safeIdentifier t \<and> safeIdentifier (key_name k) \<and> hasIndex t (key_name k) s"
  by (auto simp: settled_def unlessUnsafe_def dest: addColumn_settles addKey_settles split: if_splits)

lemma grows_has:
  assumes "\<And>t. grows (mg_tables s t) (mg_tables u t)"
  shows "mg_tables s t \<noteq> None \<Longrightarrow> mg_tables u t \<noteq> None"
    "hasColumn t c s \<Longrightarrow> hasColumn t c u" "hasIndex t k s \<Longrightarrow> hasIndex t k u"
  using assms [of t] by (auto simp: grows_def hasColumn_def hasIndex_def split: option.splits)

lemma lasting_keeps: "lasting x \<Longrightarrow> keeps x y"
proof -
  assume x: "lasting x"
  have "settled x u" if "settled x s" "effect y s = Inr u" for s u
    using x that(1) grows_has [of s u] effect_grows [OF that(2)]
    by (cases x) (simp_all only: settled_CreateTable settled_columns lasting.simps, blast+)
  then show ?thesis by (auto simp: keeps_def)
qed

lemma onTable_same:
  "onTable t cs f s = Inr s \<longleftrightarrow>
     (\<exists>tb. mg_tables s t = Some tb \<and> set cs \<subseteq> col_name ` set (tb_columns tb) \<and> f tb = Inr tb)"
proof -
  have "tb' = tb" if "mg_tables s t = Some tb" "s = s\<lparr>mg_tables := (mg_tables s)(t \<mapsto> tb')\<rparr>" for tb tb'
    using arg_cong [OF that(2), of "\<lambda>s. mg_tables s t"] that(1) by simp
  then show ?thesis unfolding onTable_Inr by (metis tables_upd_triv)
qed

lemma settled_reads:
  assumes "\<not> lasting x" and "\<forall>t \<in> set (reads x). mg_tables u t = mg_tables s t"
  shows "settled x u \<longleftrightarrow> settled x s"
  using assms
proof (cases x)
  case DispatchUniqueness
  then show ?thesis
    using assms by (auto simp: settled_def duplicateDispatches_def dispatchIndex_def addKey_def onTable_same
        split: option.splits bool.splits)
qed (simp_all add: settled_def modifyColumn_def backfillAuditResources_def backfillBootstrapCompletedNodeId_def
    backfillRollbackAttempts_def requireTables_def rollbackPairs_def rowsOf_def onTable_same)

definition independent :: "MigrationStep \<Rightarrow> MigrationStep \<Rightarrow> bool" where
  "independent x y \<longleftrightarrow> lasting x \<or> writes y \<notin> set (reads x)"

lemma independent_keeps: "independent x y \<Longrightarrow> keeps x y"
proof (cases "lasting x")
  case False
  assume "independent x y"
  with False have fresh: "t \<noteq> writes y" if "t \<in> set (reads x)" for t
    using that by (auto simp: independent_def)
  have "settled x u \<longleftrightarrow> settled x s" if "effect y s = Inr u" for s u
    using settled_reads [OF False] effect_frame [OF that fresh] by blast
  then show ?thesis by (auto simp: keeps_def)
qed (rule lasting_keeps)

lemma steps_independent: "\<forall>m \<in> set DATABASE_MIGRATIONS. sorted_wrt independent (mn_up m)"
  by code_simp

section \<open>Starting again\<close>

lemma settled_interrupted:
  assumes "settled x s" and "\<forall>y \<in> set ys. keeps x y" and "u \<in> interrupted (map effect ys) s"
  shows "settled x u"
  using assms
proof (induction ys arbitrary: s)
  case (Cons y ys)
  show ?case
  proof (cases "u = s")
    case False
    then obtain s1 where s1: "effect y s = Inr s1" "u \<in> interrupted (map effect ys) s1"
      using Cons.prems(3) by (auto split: sum.splits)
    moreover from s1(1) Cons.prems(1,2) have "settled x s1" by (auto simp: keeps_def)
    ultimately show ?thesis using Cons.IH Cons.prems(2) by simp
  qed (use Cons.prems(1) in simp)
qed simp

text \<open>Repeating an interrupted sequence of steps from the start ends like the first attempt would have.\<close>

lemma steps_resume:
  assumes "sorted_wrt keeps xs" and "u \<in> interrupted (map effect xs) s"
  shows "prun (map effect xs @ fs) u = prun (map effect xs @ fs) s"
  using assms
proof (induction xs arbitrary: s)
  case (Cons x xs)
  show ?case
  proof (cases "effect x s")
    case (Inr s1)
    show ?thesis
    proof (cases "u = s")
      case False
      then have u: "u \<in> interrupted (map effect xs) s1" using Cons.prems(2) Inr by auto
      have "settled x u"
        using settled_interrupted [OF effect_settles [OF Inr] _ u] Cons.prems(1) by simp
      then show ?thesis using Cons.IH [OF _ u] Cons.prems(1) Inr by (simp add: settled_def)
    qed simp
  qed (use Cons.prems(2) in auto)
qed simp

lemma prun_interrupted: "prun fs s = (None, t) \<Longrightarrow> t \<in> interrupted fs s"
  by (induction fs arbitrary: s) (auto split: sum.splits)

definition versions :: "Schema \<Rightarrow> nat set" where
  "versions s = mr_version ` set (appliedRows s)"

definition migrationRow :: "MigrationEnv \<Rightarrow> Migration \<Rightarrow> MigrationRow" where
  "migrationRow env m = \<lparr>mr_version = mn_version m, mr_name = mn_name m, mr_checksum = migrationChecksum env m\<rparr>"

lemma insertMigration_Inr:
  assumes "insertMigration env m s = Inr u"
  shows "mg_applied s \<noteq> None \<and> mg_applied u = Some (appliedRows s @ [migrationRow env m])"
  using assms by (auto simp: insertMigration_def migrationRow_def appliedRows_def split: option.splits if_splits)

lemma interrupted_steps_applied: "u \<in> interrupted (map effect xs) s \<Longrightarrow> mg_applied u = mg_applied s"
  by (induction xs arbitrary: s) (auto split: sum.splits dest: effect_applied)

lemma plan_cong: "\<forall>m \<in> set ms. mn_version m \<in> A \<longleftrightarrow> mn_version m \<in> B \<Longrightarrow> plan env A ms = plan env B ms"
  by (induction ms) auto

lemma appliedRows_Some: "mg_applied u = Some rows \<Longrightarrow> appliedRows u = rows"
  by (simp add: appliedRows_def)

lemma interrupted_migration_cases:
  assumes run: "u \<in> interrupted (plan env A (m # ms)) s" and "mn_version m \<notin> A"
  obtains "u \<in> interrupted (map effect (mn_up m)) s"
  | t t1 where "prun (map effect (mn_up m)) s = (None, t)" "insertMigration env m t = Inr t1"
      "u \<in> interrupted (plan env A ms) t1"
proof -
  have "u \<in> interrupted (map effect (mn_up m) @ insertMigration env m # plan env A ms) s" using assms by simp
  then consider "u \<in> interrupted (map effect (mn_up m)) s"
    | t where "prun (map effect (mn_up m)) s = (None, t)" "u \<in> interrupted (insertMigration env m # plan env A ms) t"
    by (auto simp only: interrupted_append)
  then show thesis
  proof cases
    case (2 t)
    then show thesis using that prun_interrupted [OF 2(1)] by (auto split: sum.splits)
  qed (rule that)
qed

text \<open>An interrupted run only appends rows of the catalogue to \<open>schema_migrations\<close>.\<close>

lemma interrupted_plan_applied:
  assumes "u \<in> interrupted (plan env A ms) s" and "mg_applied s \<noteq> None"
  shows "\<exists>new. set new \<subseteq> migrationRow env ` set ms \<and> mg_applied u = Some (appliedRows s @ new)"
  using assms
proof (induction ms arbitrary: s)
  case Nil
  then show ?case by (auto simp: appliedRows_def)
next
  case (Cons m ms)
  show ?case
  proof (cases "mn_version m \<in> A")
    case True
    then show ?thesis using Cons.IH [of s] Cons.prems by fastforce
  next
    case False
    with Cons.prems(1) show ?thesis
    proof (cases rule: interrupted_migration_cases)
      case 1
      then show ?thesis using interrupted_steps_applied [OF 1] Cons.prems(2) by (auto simp: appliedRows_def)
    next
      case (2 t t1)
      have "appliedRows t = appliedRows s"
        using interrupted_steps_applied [OF prun_interrupted [OF 2(1)]] by (simp add: appliedRows_def)
      moreover have t1: "mg_applied t1 = Some (appliedRows t @ [migrationRow env m])"
        using insertMigration_Inr [OF 2(2)] by simp
      moreover obtain new where "set new \<subseteq> migrationRow env ` set ms" "mg_applied u = Some (appliedRows t1 @ new)"
        using Cons.IH [OF 2(3)] t1 by auto
      ultimately show ?thesis
        by (intro exI [of _ "migrationRow env m # new"]) (auto simp: appliedRows_def)
    qed
  qed
qed

lemma plan_resume:
  assumes "\<forall>m \<in> set ms. sorted_wrt keeps (mn_up m)" and "distinct (map mn_version ms)"
    and "mg_applied s \<noteq> None" and "u \<in> interrupted (plan env (versions s) ms) s"
  shows "prun (plan env (versions u) ms) u = prun (plan env (versions s) ms) s"
  using assms
proof (induction ms arbitrary: s)
  case (Cons m ms)
  have grown: "versions s \<subseteq> versions u"
    using interrupted_plan_applied [OF Cons.prems(4,3)] by (auto simp: versions_def appliedRows_Some)
  show ?case
  proof (cases "mn_version m \<in> versions s")
    case True
    then show ?thesis using Cons grown by auto
  next
    case False
    with Cons.prems(4) show ?thesis
    proof (cases rule: interrupted_migration_cases)
      case 1
      then have "versions u = versions s"
        using interrupted_steps_applied by (simp add: versions_def appliedRows_def)
      then show ?thesis using steps_resume [OF _ 1] Cons.prems(1) False by simp
    next
      case (2 t t1)
      have t1: "mg_applied t1 = Some (appliedRows s @ [migrationRow env m])"
        using insertMigration_Inr [OF 2(2)] interrupted_steps_applied [OF prun_interrupted [OF 2(1)]]
        by (simp add: appliedRows_def)
      then have v: "versions t1 = insert (mn_version m) (versions s)"
        by (auto simp: versions_def appliedRows_def migrationRow_def)
      have same: "plan env (versions t1) ms = plan env (versions s) ms"
        using Cons.prems(2) by (intro plan_cong) (auto simp: v image_iff)
      have "versions t1 \<subseteq> versions u"
        using interrupted_plan_applied [OF 2(3)] t1 by (auto simp: versions_def appliedRows_Some)
      moreover have "prun (plan env (versions u) ms) u = prun (plan env (versions t1) ms) t1"
        using Cons.IH [of t1] Cons.prems(1,2) t1 2(3) same by simp
      ultimately show ?thesis using False 2(1,2) v same by (auto simp: prun_append)
    qed
  qed
qed simp

section \<open>A start of the process\<close>

definition created :: "Schema \<Rightarrow> Schema" where
  "created s = (case mg_applied s of None \<Rightarrow> s\<lparr>mg_applied := Some []\<rparr> | Some _ \<Rightarrow> s)"

definition refusal :: "MigrationEnv \<Rightarrow> Migration list \<Rightarrow> Schema \<Rightarrow> string option" where
  "refusal env ms s = refuseRows env ms (sort_key mr_version (appliedRows s))"

definition upgrade :: "MigrationEnv \<Rightarrow> Migration list \<Rightarrow> Schema \<Rightarrow> string option \<times> Schema" where
  "upgrade env ms s =
     (case refusal env ms (created s) of
        Some e \<Rightarrow> (Some e, created s) | None \<Rightarrow> prun (plan env (versions (created s)) ms) (created s))"

definition partly :: "MigrationEnv \<Rightarrow> Migration list \<Rightarrow> Schema \<Rightarrow> Schema set" where
  "partly env ms s = {s, created s} \<union>
     (if refusal env ms (created s) = None then interrupted (plan env (versions (created s)) ms) (created s) else {})"

definition performs :: "MigrationEnv \<Rightarrow> Migration list \<Rightarrow> unit mig \<Rightarrow> bool" where
  "performs env ms m \<longleftrightarrow> (\<forall>n s r n' t. m (n, s) = (r, n', t) \<longrightarrow>
     t \<in> partly env ms s \<and> (r = Inr () \<longrightarrow> upgrade env ms s = (None, t)) \<and>
     (faultless_env env \<longrightarrow> upgrade env ms s = (case r of Inl e \<Rightarrow> Some e | Inr _ \<Rightarrow> None, t)))"

lemma createSchemaMigrations_created: "createSchemaMigrations s = Inr (created s)"
  by (simp add: createSchemaMigrations_def created_def)

lemma underMigrationLock_performs: "performs env ms (underMigrationLock env ms)"
  unfolding performs_def
proof (intro allI impI)
  fix n s r n' t assume run: "underMigrationLock env ms (n, s) = (r, n', t)"
  show "t \<in> partly env ms s \<and> (r = Inr () \<longrightarrow> upgrade env ms s = (None, t)) \<and>
     (faultless_env env \<longrightarrow> upgrade env ms s = (case r of Inl e \<Rightarrow> Some e | Inr _ \<Rightarrow> None, t))"
  proof (cases "me_db env n = DbOk \<and> me_db env (Suc n) = DbOk \<and> refusal env ms (created s) = None")
    case True
    then have "applyMigrations env (versions (created s)) ms (Suc (Suc n), created s) = (r, n', t)"
      using run by (simp add: underMigrationLock_def thenG_def bindG_def executeG_def queryG_def
          createSchemaMigrations_created refusal_def versions_def)
    from implements_applyMigrations [unfolded implements_def, rule_format, OF this] True
    show ?thesis by (auto simp: partly_def upgrade_def)
  next
    case False
    then show ?thesis
      using run by (auto simp: underMigrationLock_def mig_defs createSchemaMigrations_created partly_def upgrade_def
          refusal_def dest: not_faultless split: DbOutcome.splits option.splits)
  qed
qed

lemma catalog_accepted: "assertMigrationCatalog DATABASE_MIGRATIONS = Inr ()"
  by code_simp

lemma onModuleInit_performs: "performs env DATABASE_MIGRATIONS (onModuleInit env)"
  unfolding performs_def
proof (intro allI impI)
  fix n s r n' t assume run: "onModuleInit env (n, s) = (r, n', t)"
  show "t \<in> partly env DATABASE_MIGRATIONS s \<and> (r = Inr () \<longrightarrow> upgrade env DATABASE_MIGRATIONS s = (None, t)) \<and>
     (faultless_env env \<longrightarrow> upgrade env DATABASE_MIGRATIONS s = (case r of Inl e \<Rightarrow> Some e | Inr _ \<Rightarrow> None, t))"
  proof (cases "me_db env n = DbOk \<and> me_db env (Suc n) = DbOk \<and> me_lock env (Suc n) = Some 1")
    case True
    then obtain n1 where "underMigrationLock env DATABASE_MIGRATIONS (Suc (Suc n), s) = (r, n1, t)"
      using run by (auto simp: onModuleInit_def getConnection_def runDatabaseMigrations_def catalog_accepted
          getMigrationLock_def mig_defs split: prod.splits DbOutcome.splits)
    from underMigrationLock_performs [unfolded performs_def, rule_format, OF this] show ?thesis .
  next
    case False
    then have "\<not> faultless_env env" by (auto simp: faultless_env_def)
    with False show ?thesis
      using run by (auto simp: onModuleInit_def getConnection_def runDatabaseMigrations_def catalog_accepted
          getMigrationLock_def mig_defs partly_def split: prod.splits DbOutcome.splits option.splits if_splits)
  qed
qed

section \<open>Interrupted starts\<close>

lemma refuseRows_None: "refuseRows env ms rows = None \<longleftrightarrow> (\<forall>row \<in> set rows. refuseRow env ms row = None)"
  by (induction rows) (auto split: option.splits)

lemma find_version:
  assumes "distinct (map mn_version ms)" and "m \<in> set ms"
  shows "find (\<lambda>m'. mn_version m' = mn_version m) ms = Some m"
proof (cases "find (\<lambda>m'. mn_version m' = mn_version m) ms")
  case None
  then show ?thesis using assms(2) by (auto simp: find_None_iff)
next
  case (Some m')
  then have "m' \<in> set ms" "mn_version m' = mn_version m" by (auto simp: find_Some_iff)
  then show ?thesis using assms Some by (auto simp: distinct_map inj_on_def)
qed

lemma own_rows_accepted:
  "distinct (map mn_version ms) \<Longrightarrow> m \<in> set ms \<Longrightarrow> refuseRow env ms (migrationRow env m) = None"
  by (simp add: refuseRow_def migrationRow_def find_version)

lemma created_simps [simp]: "created (created s) = created s" "mg_applied (created s) \<noteq> None"
  by (auto simp: created_def split: option.splits)

lemma created_triv: "mg_applied s \<noteq> None \<Longrightarrow> created s = s"
  by (auto simp: created_def)

text \<open>Going on from where a start was interrupted ends like the start would have.\<close>

lemma upgrade_resume:
  assumes "\<forall>m \<in> set ms. sorted_wrt keeps (mn_up m)" and dist: "distinct (map mn_version ms)"
    and "u \<in> partly env ms s"
  shows "upgrade env ms u = upgrade env ms s"
proof (cases "u = s \<or> u = created s")
  case False
  then have ok: "refusal env ms (created s) = None"
    and run: "u \<in> interrupted (plan env (versions (created s)) ms) (created s)"
    using assms(3) by (auto simp: partly_def split: if_splits)
  obtain new where new: "set new \<subseteq> migrationRow env ` set ms" "mg_applied u = Some (appliedRows (created s) @ new)"
    using interrupted_plan_applied [OF run] by auto
  have "refusal env ms u = None"
    using ok new own_rows_accepted [OF dist] by (auto simp: refusal_def refuseRows_None appliedRows_Some)
  moreover have "created u = u" using new(2) by (simp add: created_triv)
  ultimately show ?thesis
    using ok plan_resume [OF assms(1) dist _ run] by (simp add: upgrade_def)
qed (auto simp: upgrade_def split: option.splits)

lemma migrations_resumable:
  "\<forall>m \<in> set DATABASE_MIGRATIONS. sorted_wrt keeps (mn_up m)" "distinct (map mn_version DATABASE_MIGRATIONS)"
  using steps_independent independent_keeps sorted_wrt_mono_rel [where P = independent and Q = keeps]
  by (blast, simp add: DATABASE_MIGRATIONS_def migration_def)

text \<open>Only the hash function of an environment matters for what an upgrade does.\<close>

lemma checksum_cong: "me_sha256 e = me_sha256 env \<Longrightarrow> migrationChecksum e = migrationChecksum env"
  by (simp add: migrationChecksum_def fun_eq_iff)

lemma insertMigration_cong:
  assumes "me_sha256 e = me_sha256 env"
  shows "insertMigration e = insertMigration env"
  by (intro ext) (unfold insertMigration_def checksum_cong [OF assms], rule refl)

lemma plan_env_cong:
  assumes "me_sha256 e = me_sha256 env"
  shows "plan e A ms = plan env A ms"
  using insertMigration_cong [OF assms] by (induction ms) simp_all

lemma refuseRow_cong:
  assumes "me_sha256 e = me_sha256 env"
  shows "refuseRow e = refuseRow env"
  by (intro ext) (unfold refuseRow_def checksum_cong [OF assms], rule refl)

lemma refuseRows_cong:
  assumes "me_sha256 e = me_sha256 env"
  shows "refuseRows e ms rows = refuseRows env ms rows"
  using refuseRow_cong [OF assms] by (induction rows) (simp_all split: option.split)

lemma upgrade_cong:
  assumes "me_sha256 e = me_sha256 env"
  shows "upgrade e ms s = upgrade env ms s" "partly e ms s = partly env ms s"
  using refuseRows_cong [OF assms] plan_env_cong [OF assms]
  by (simp_all add: upgrade_def partly_def refusal_def split: option.split)

fun starts :: "MigrationEnv list \<Rightarrow> Schema \<Rightarrow> Schema" where
  "starts [] s = s"
| "starts (e # es) s = starts es (snd (snd (onModuleInit e (0, s))))"

lemma starts_resume:
  assumes "\<forall>e \<in> set es. me_sha256 e = me_sha256 env"
  shows "upgrade env DATABASE_MIGRATIONS (starts es s) = upgrade env DATABASE_MIGRATIONS s"
  using assms
proof (induction es arbitrary: s)
  case (Cons e es)
  obtain r n t where run: "onModuleInit e (0, s) = (r, n, t)" by (metis prod.exhaust)
  have "t \<in> partly env DATABASE_MIGRATIONS s"
    using onModuleInit_performs [unfolded performs_def, rule_format, OF run] upgrade_cong(2) [of e env] Cons.prems by simp
  then have "upgrade env DATABASE_MIGRATIONS t = upgrade env DATABASE_MIGRATIONS s"
    by (rule upgrade_resume [OF migrations_resumable])
  then show ?case using Cons run by simp
qed simp


text \<open>
  C24. Foreign databases are refused: if \<open>schema_migrations\<close> records a version that the catalogue
  does not have, or one with another name or checksum, every start fails and changes nothing.
\<close>

theorem foreign_databases_are_refused:
  assumes "mg_applied s = Some rows" and "row \<in> set rows"
    and "mr_version row \<notin> mn_version ` set DATABASE_MIGRATIONS \<or>
      (\<exists>m \<in> set DATABASE_MIGRATIONS. mn_version m = mr_version row \<and>
         (mr_name row \<noteq> mn_name m \<or> mr_checksum row \<noteq> migrationChecksum env m))"
  shows "\<exists>e k. onModuleInit env (n, s) = (Inl e, k, s)"
proof -
  obtain r k t where run: "onModuleInit env (n, s) = (r, k, t)" by (metis prod.exhaust)
  have "refuseRow env DATABASE_MIGRATIONS row \<noteq> None"
    using assms(3)
  proof
    assume "mr_version row \<notin> mn_version ` set DATABASE_MIGRATIONS"
    then have "find (\<lambda>m. mn_version m = mr_version row) DATABASE_MIGRATIONS = None"
      by (auto simp: find_None_iff image_iff)
    then show ?thesis by (simp add: refuseRow_def Let_def)
  next
    assume "\<exists>m \<in> set DATABASE_MIGRATIONS. mn_version m = mr_version row \<and>
      (mr_name row \<noteq> mn_name m \<or> mr_checksum row \<noteq> migrationChecksum env m)"
    then obtain m where "m \<in> set DATABASE_MIGRATIONS" "mr_version row = mn_version m"
      "mr_name row \<noteq> mn_name m \<or> mr_checksum row \<noteq> migrationChecksum env m" by metis
    then show ?thesis using find_version [OF migrations_resumable(2)] by (simp add: refuseRow_def)
  qed
  then have "\<not> refuseRows env DATABASE_MIGRATIONS (sort_key mr_version rows) = None"
    unfolding refuseRows_None using assms(2) by auto
  then have "refusal env DATABASE_MIGRATIONS s \<noteq> None" and "created s = s"
    using assms(1) by (simp_all add: refusal_def created_triv appliedRows_Some)
  then have "t = s \<and> r \<noteq> Inr ()"
    using onModuleInit_performs [unfolded performs_def, rule_format, OF run]
    by (auto simp: partly_def upgrade_def split: option.splits)
  then show ?thesis using run by (cases r) auto
qed

section \<open>The schema of a fresh database\<close>

definition fresh_schema :: Schema where
  "fresh_schema = \<lparr>mg_tables = Map.empty, mg_applied = None\<rparr>"

text \<open>The primary and unique keys that the insertions of the other theories check.\<close>

definition relied_keys :: "(string \<times> string list) list" where
  "relied_keys =
     [(''operations'', [''id'']), (''node_operations'', [''id'']), (''deployments'', [''id'']),
      (''deployments'', [''operation_id'']), (''deployments'', [''rollback_operation_id'']),
      (''rollback_attempts'', [''operation_id'']), (''applications'', [''id'']), (''applications'', [''name'']),
      (''deployment_targets'', [''id'']), (''deployment_targets'', [''cluster_id'', ''docker_service_id'']),
      (''deployment_targets'', [''application_id'', ''environment'']), (''releases'', [''id'']),
      (''releases'', [''application_id'', ''version'']), (''bootstrap_tokens'', [''id'']),
      (''bootstrap_tokens'', [''token_hash'']), (''cluster_registrations'', [''cluster_id'']),
      (''cluster_registrations'', [''id'']), (''cluster_registrations'', [''swarm_cluster_id'']),
      (''cluster_maintenance_states'', [''cluster_id'']), (''maintenance_dispatches'', [''id'']),
      (''maintenance_dispatches'', [''cluster_id'', ''operation_id'']),
      (''maintenance_agent_barriers'', [''cluster_id'', ''agent_id'']), (''maintenance_active_admissions'', [''id'']),
      (''maintenance_control_leases'', [''cluster_id'']), (''maintenance_evidence_resolutions'', [''id'']),
      (''maintenance_evidence_resolutions'', [''cluster_id'', ''evidence_type'', ''evidence_id''])]"

definition has_key :: "Schema \<Rightarrow> string \<times> string list \<Rightarrow> bool" where
  "has_key s k =
     (case mg_tables s (fst k) of
        None \<Rightarrow> False | Some tb \<Rightarrow> list_ex (\<lambda>key. key_unique key \<and> key_columns key = snd k) (tb_keys tb))"

lemma fresh_upgrade:
  "list_all (has_key (snd (upgrade env DATABASE_MIGRATIONS fresh_schema))) relied_keys"
  "map mr_version (appliedRows (snd (upgrade env DATABASE_MIGRATIONS fresh_schema))) = [1..<12]"
  by code_simp+

text \<open>
  C25. A fresh database gets every key: after however many interrupted starts on an empty database, a
  start that succeeds leaves all eleven migrations recorded in order and every primary and unique key
  that the insertions of the control plane rely on. The server names the columns of its metadata as the
  queries spell them.
\<close>

theorem fresh_databases_get_every_key:
  assumes "\<forall>e \<in> set es. me_sha256 e = me_sha256 env"
    and "onModuleInit env (0, starts es fresh_schema) = (Inr (), n, t)"
  shows "list_all (has_key t) relied_keys \<and> map mr_version (appliedRows t) = [1..<12]"
proof -
  have "upgrade env DATABASE_MIGRATIONS fresh_schema = (None, t)"
    using onModuleInit_performs [unfolded performs_def, rule_format, OF assms(2)] starts_resume [OF assms(1)] by simp
  then show ?thesis using fresh_upgrade [of env] by simp
qed

section \<open>Witnesses\<close>

definition steady_server :: MigrationEnv where
  "steady_server = \<lparr>me_db = (\<lambda>_. DbOk), me_lock = (\<lambda>_. Some 1), me_sha256 = id\<rparr>"

text \<open>A server that loses the connection with the twentieth statement, after it has taken effect.\<close>

definition lossy_server :: MigrationEnv where
  "lossy_server = steady_server\<lparr>me_db := (\<lambda>n. if n = 20 then DbLost ''connection lost'' else DbOk)\<rparr>"

lemma servers:
  "faultless_env steady_server" "\<forall>e \<in> set [lossy_server, lossy_server]. me_sha256 e = me_sha256 steady_server"
  by (simp_all add: faultless_env_def steady_server_def lossy_server_def)




definition newer_schema :: Schema where
  "newer_schema = \<lparr>mg_tables = Map.empty,
     mg_applied = Some [\<lparr>mr_version = 999, mr_name = ''future'', mr_checksum = ''f''\<rparr>]\<rparr>"

theorem foreign_databases_are_refused_witness:
  "\<exists>e k. onModuleInit steady_server (0, newer_schema) = (Inl e, k, newer_schema)"
  by (rule foreign_databases_are_refused [where rows = "[\<lparr>mr_version = 999, mr_name = ''future'', mr_checksum = ''f''\<rparr>]"
      and row = "\<lparr>mr_version = 999, mr_name = ''future'', mr_checksum = ''f''\<rparr>"])
    (simp_all add: newer_schema_def DATABASE_MIGRATIONS_def migration_def)

theorem fresh_databases_get_every_key_witness:
  "\<exists>k t. onModuleInit steady_server (0, starts [lossy_server, lossy_server] fresh_schema) = (Inr (), k, t) \<and>
     list_all (has_key t) relied_keys \<and> map mr_version (appliedRows t) = [1..<12]"
proof -
  have "fst (onModuleInit steady_server (0, starts [lossy_server, lossy_server] fresh_schema)) = Inr ()"
    by code_simp
  then obtain k t where "onModuleInit steady_server (0, starts [lossy_server, lossy_server] fresh_schema) = (Inr (), k, t)"
    by (metis prod.collapse)
  then show ?thesis using fresh_databases_get_every_key [OF servers(2)] by blast
qed

end
