(* ===== verification/Spec2Isabelle.thy ===== *)
theory Spec2Isabelle
  imports Health_Outcomes Evidence_Outcomes Agent_Outcomes Catalog_Outcomes Migration_Outcomes
begin

text \<open>
  Verification of the Docklane control plane: the API server that scales, restarts, deploys and rolls
  back Docker Swarm services and drains, activates and labels nodes through an Agent
  (\<^verbatim>\<open>src/apps/api/src\<close>).

  \<^bold>\<open>The program.\<close> A request passes the authentication guard and the registration guard and
  reaches a controller. A service of the control plane takes the named locks of the affected
  resources, checks idempotency and conflicts, asks the Agent for a plan, commits a durable intent
  with an audit event, hands the mutation to transport, and verifies the result by inspecting the
  cluster until a deadline. Whatever goes wrong after the intent is resolved by reconciliation,
  never by sending again: on the next request for the resource, at start-up, or by a timer.

  \<^bold>\<open>Theories and sources.\<close>
  \<^item> \<open>Prelude\<close>: JavaScript strings, JSON, SQL tables as lists of rows.
  \<^item> \<open>Records\<close>: the data model (\<^verbatim>\<open>operations/operation.types.ts\<close>,
    \<^verbatim>\<open>deployments/deployment.types.ts\<close>, \<^verbatim>\<open>agent/read-model.ts\<close> and the other type
    files), exceptions, \<open>isDeterministicAgentRejection\<close> of \<^verbatim>\<open>agent/agent-client.ts\<close>.
  \<^item> \<open>Verification\<close>: the snapshot classifiers of \<^verbatim>\<open>operations/mutation-verification.ts\<close>,
    \<^verbatim>\<open>operations/node-mutation-verification.ts\<close> and \<^verbatim>\<open>deployments/deployment.service.ts\<close>.
  \<^item> \<open>Effects\<close>: database, outside world, computations, transactions, polling loops, and the
    locale \<open>step_relation\<close> with the rules for relations between worlds.
  \<^item> \<open>Repositories\<close>, \<open>History\<close>: the statements of the operation, node operation and
    deployment repositories, and what they keep.
  \<^item> \<open>Dispatch\<close>: \<^verbatim>\<open>clusters/cluster-binding.policy.ts\<close>,
    \<^verbatim>\<open>clusters/registered-agent-client.ts\<close>, \<open>mutationRequest\<close> of
    \<^verbatim>\<open>agent/http-agent.client.ts\<close>, \<^verbatim>\<open>clusters/maintenance-dispatch-journal.ts\<close>.
  \<^item> \<open>Operation_Lock\<close>, \<open>Lock_Sessions\<close>: \<^verbatim>\<open>operations/operation-lock.ts\<close> and
    \<^verbatim>\<open>clusters/registered-operation-lock.ts\<close>, for one session and for many.
  \<^item> \<open>Store\<close>, \<open>Contract\<close>, \<open>Safety\<close>: the tables as a state machine
    (\<open>store_step\<close>), the contract of the services as locales (\<open>recovery_relation\<close>,
    \<open>store_relation\<close>), and the safety relations that interpret them.
  \<^item> \<open>Mutation_Service\<close>, \<open>Node_Mutation_Service\<close>, \<open>Deployment_Service\<close>,
    \<open>Deployment_Safety\<close>, \<open>Health\<close>: the services, method by method, and the proof, in
    the contract locales, that each of them keeps every interpreted relation
    (\<^verbatim>\<open>operations/mutation.service.ts\<close>, \<^verbatim>\<open>operations/node-mutation.service.ts\<close>,
    \<^verbatim>\<open>deployments/deployment.service.ts\<close>, \<^verbatim>\<open>deployments/health-verifier.ts\<close>,
    \<^verbatim>\<open>deployments/health-endpoint.policy.ts\<close>, \<^verbatim>\<open>capacity/capacity.service.ts\<close>).
  \<^item> \<open>Api\<close>: guards, controllers, and the process as a transition system (\<open>perform\<close>,
    \<open>reachable\<close>).
  \<^item> \<open>Nominal\<close>, \<open>Scenario\<close>: rewriting for runs without faults, and two concrete runs
    for the witnesses.
  \<^item> \<open>Outcomes\<close>, \<open>Request_Outcomes\<close>, \<open>Health_Outcomes\<close>: properties of single
    loops and requests.
  \<^item> \<open>Maintenance\<close>, \<open>Evidence_Recovery\<close>, \<open>Maintenance_Api\<close>: the maintenance
    state machine, its fencing lease and manager barriers, the resolution of orphaned evidence, and the
    five administrative controllers (\<^verbatim>\<open>clusters/cluster-maintenance.repository.ts\<close>,
    \<^verbatim>\<open>clusters/maintenance-control-lease.ts\<close>, \<^verbatim>\<open>clusters/maintenance-manager-barrier.ts\<close>,
    \<^verbatim>\<open>clusters/maintenance-evidence-recovery.ts\<close> and the \<^verbatim>\<open>maintenance-*.controller.ts\<close>).
  \<^item> \<open>Maintenance_Scenario\<close>, \<open>Maintenance_Safety\<close>, \<open>Evidence_Outcomes\<close>: a concrete
    cluster under maintenance, and what the maintenance subsystem guarantees, also for a fleet of control
    planes that share one database (\<open>fleet\<close>).
  \<^item> \<open>Agent_Schemas\<close>, \<open>Agent_Config\<close>, \<open>Async\<close>, \<open>Agent_Client\<close>,
    \<open>Agent_Outcomes\<close>: the schemas of Agent answers, the configuration of the manager Agents
    (\<^verbatim>\<open>agent/agent-config.ts\<close>), asynchronous functions with the locale \<open>interference\<close>, the
    HTTP client with its exchanges, identity checks and failover
    (\<^verbatim>\<open>agent/http-agent.client.ts\<close>), and what holds of it in every interleaving of calls. For the
    theories above, this client is the part of \<open>external\<close> that answers Agent calls.
  \<^item> \<open>Catalog\<close>, \<open>Registration\<close>, \<open>Registry\<close>, \<open>Request_Schemas\<close>,
    \<open>Releases\<close>, \<open>Bootstrap\<close>, \<open>Reads\<close>, \<open>Catalog_Outcomes\<close>: the registration of
    the cluster (\<^verbatim>\<open>clusters/cluster-registration.*.ts\<close>), the client of the image registry
    (\<^verbatim>\<open>registry/*.ts\<close>), the schemas of request bodies (\<^verbatim>\<open>*.dto.ts\<close>), applications,
    targets and releases (\<^verbatim>\<open>releases/*.ts\<close>), the enrolment of nodes with one-time tokens
    (\<^verbatim>\<open>bootstrap/*.ts\<close>), the views of the cluster (\<^verbatim>\<open>read/*.ts\<close>), and what holds of
    them in every run. \<open>Catalog\<close> shows once that statements on these tables keep every contract
    relation of the process.
  \<^item> \<open>Migrations\<close>, \<open>Migration_Outcomes\<close>: the schema of the database, its migrations
    (\<^verbatim>\<open>db/migrations.ts\<close> and \<^verbatim>\<open>db/*.migration.ts\<close>) and the start-up of
    \<^verbatim>\<open>db/database.ts\<close>, with every table as data, and what an interrupted start leaves to the next
    one. The unique keys of this schema are those that the insertions of the other theories check.

  \<^bold>\<open>State and operations.\<close> \<open>world\<close> holds the database (one list of rows per table), the
  clock, the number of external interactions, the named locks of the session, the three
  \<open>AsyncLocalStorage\<close> scopes and, as ghosts, the mutations handed to transport and the
  barriers put on managers. A method of the
  source is a function of type \<open>'a cp\<close> from worlds to a result or failure and a new world;
  every \<open>throw\<close>, \<open>catch\<close> and \<open>finally\<close> is a branch. \<open>external\<close> holds what the
  process does not control. Its components are functions of the number of the interaction, about
  which nothing is assumed: a statement may fail or lose its acknowledgement, an Agent may answer
  anything. A hypothesis such as \<open>canonical_ids\<close> or \<open>faultless\<close> is named where it is used.
  The HTTP client is a separate state machine: a method of it is a function of type \<open>'a client\<close> that runs
  from one \<open>await\<close> to the next on the shared \<open>ClientState\<close>.

  \<^bold>\<open>What is shown.\<close> The properties C1 to C9 hold for all runs and all behaviours of the outside
  world: history is kept, no operation is dispatched twice, success is observed, only recorded and
  locked intents are dispatched, unfinished operations exclude each other, outcomes are audited, the
  tables follow the abstract state machine, and recovery sends nothing. The
  others concern the maintenance state machine with its leases, barriers and evidence, the
  choice of the Agent for a mutation and failover, registrations, releases and bootstrap tokens in every
  run, the confinement of registry credentials (\<open>may_carry\<close>), database migrations, access control, named locks, the dispatch journal,
  bounds and liveness of verification, rejected requests, reconciliation, image
  references, health checks, request bodies and addresses.

  \<^bold>\<open>Bounds.\<close> Loops with a deadline are \<open>poll\<close>; its fuel, one more than time-out divided by
  interval, always lasts until the deadline (\<open>poll_timeout\<close>) because each round sleeps for at least the
  interval; a timer may fire later, by an amount \<open>x_timerDelay\<close> that nothing bounds, and the properties
  that state upper time bounds name theirs. The redirect loops have the fuel 6 of the source's constants. All other recursion is on
  lists. A suspended call of the client is a well-founded tree, so it makes finitely many requests
  without any fuel.

  \<^bold>\<open>Simplifications.\<close> Activities of one process run one after the other: requests that overlap
  in one process are covered only by the lock model of \<open>Lock_Sessions\<close> and, inside the HTTP client,
  by \<open>Agent_Outcomes\<close>. Logging is left out.
  Versions, counters and times are natural numbers where the source has JavaScript numbers. The server
  names the columns of \<^verbatim>\<open>information_schema\<close> as the migrations spell them, and its time stamps
  are one value there.

  \<^bold>\<open>Not modelled.\<close> The formats \<open>uuid()\<close> and \<open>url()\<close> of the schema library,
  \<open>JSON.parse\<close> and URL parsing (arguments of the definitions that use them), TLS and
  connection pooling, the dependency-injection modules, and the Agent itself, a Go program.
\<close>

section \<open>The process as a whole\<close>

lemma demo_reaches:
  "reachable demo demo_tokens demo_schemas demo_world (perform demo demo_tokens demo_schemas demo_scale demo_world)"
  by (intro reachable.intros)

text \<open>
  C1. Recorded history is never rewritten: whatever requests are served and however often recovery
  runs, no operation, node operation or deployment disappears, no recorded intent changes, the
  outcome of a finished operation is final, the audit log only grows, and the maintenance state, leases and
  resolutions move only forward, for every behaviour of
  database, Agent and network.
\<close>

theorem history_is_kept:
  assumes "reachable ext entries z w0 w"
  shows "history_kept (w_db w0) (w_db w)"
  using hist.reachable_related [OF assms] by (simp add: on_db_def)

theorem history_is_kept_witness:
  "history_kept empty_db (w_db (perform demo demo_tokens demo_schemas demo_scale demo_world)) \<and>
   operations (w_db (perform demo demo_tokens demo_schemas demo_scale demo_world)) = [demo_row SUCCESS (Some 8) 1022]"
  using history_is_kept [OF demo_reaches] demo_scaled by (simp add: demo_world_def demo_at_def)

text \<open>
  C7. Every outcome is audited: an operation that has become \<open>SUCCESS\<close>, \<open>FAILED\<close> or
  \<open>NEEDS_ATTENTION\<close> left an audit event for it in the same stretch of the run.
\<close>

theorem outcomes_are_audited:
  assumes "reachable ext entries z w0 w"
    and "find_row o_id oid (operations (w_db w)) = Some r" and "settled_status (o_status r)"
    and "\<forall>r0. find_row o_id oid (operations (w_db w0)) = Some r0 \<longrightarrow> o_status r0 \<noteq> o_status r"
  shows "newly_audited oid (w_db w0) (w_db w)"
proof -
  have "audited (w_db w0) (w_db w)"
    using audit_trail.reachable_related [OF assms(1)] by (simp add: on_db_def)
  then show ?thesis using assms(2-4) unfolding audited_def by blast
qed

theorem outcomes_are_audited_witness:
  "newly_audited ''op-1'' empty_db (w_db (perform demo demo_tokens demo_schemas demo_scale demo_world))"
  using outcomes_are_audited [OF demo_reaches, of "''op-1''" "demo_row SUCCESS (Some 8) 1022"] demo_scaled
  by (simp add: demo_at_def demo_world_def empty_db_def find_row_def demo_row_def settled_status_def)

text \<open>
  C3. Success of a service operation is observed, never assumed: an operation that became
  \<open>SUCCESS\<close> during the run was shown converged by an answer of the Agent received during the run.
\<close>

theorem success_is_observed:
  assumes "reachable ext entries z w0 w" and "unique_keys (w_db w0)"
    and "find_row o_id oid (operations (w_db w)) = Some r" and "o_status r = SUCCESS"
    and "\<forall>r0. find_row o_id oid (operations (w_db w0)) = Some r0 \<longrightarrow> o_status r0 \<noteq> SUCCESS"
  shows "shown ext (w_calls w0) (w_calls w) r"
  using justified_op [OF success.reachable_related [OF assms(1)] assms(2-4)] assms(5) by blast

theorem success_is_observed_witness:
  "shown demo 0 27 (demo_row SUCCESS (Some 8) 1022)"
  using success_is_observed [OF demo_reaches, of "''op-1''" "demo_row SUCCESS (Some 8) 1022"] demo_scaled
  by (simp add: demo_at_def demo_world_def empty_db_def find_row_def demo_row_def unique_keys_def)

text \<open>
  C4. The same for node operations, including placement of every affected service after a label
  change.
\<close>

theorem node_success_is_observed:
  assumes "reachable ext entries z w0 w" and "unique_keys (w_db w0)"
    and "find_row n_id oid (node_operations (w_db w)) = Some r" and "n_status r = SUCCESS"
    and "\<forall>r0. find_row n_id oid (node_operations (w_db w0)) = Some r0 \<longrightarrow> n_status r0 \<noteq> SUCCESS"
  shows "node_shown ext (w_calls w0) (w_calls w) r"
  using justified_node [OF success.reachable_related [OF assms(1)] assms(2-4)] assms(5) by blast

theorem node_success_is_observed_witness:
  "node_shown demo 0 (w_calls (perform demo demo_tokens demo_schemas demo_activate demo_world))
     (demo_node_row SUCCESS (Some 4) 1020)"
proof -
  have "reachable demo demo_tokens demo_schemas demo_world (perform demo demo_tokens demo_schemas demo_activate demo_world)"
    by (intro reachable.intros)
  from node_success_is_observed [OF this, of "''op-3''" "demo_node_row SUCCESS (Some 4) 1020"]
  show ?thesis
    using demo_activated
    by (simp add: demo_world_def empty_db_def find_row_def demo_node_row_def unique_keys_def)
qed

text \<open>
  C6. Mutual exclusion of unfinished work: if at most one unfinished operation claims each service
  and each node at the start, this stays so, provided that Docker resolves identifiers
  consistently.
\<close>

theorem unfinished_operations_exclude_each_other:
  assumes "reachable ext entries z w0 w" and "canonical_ids ext" and "exclusive (w_db w0)"
  shows "exclusive (w_db w)"
  using exclusion.reachable_related [OF assms(1)] assms(2,3) by (simp add: on_db_def keeps_exclusive_def)

theorem unfinished_operations_exclude_each_other_witness:
  "exclusive (w_db (perform demo demo_tokens demo_schemas demo_scale demo_world))"
proof (rule unfinished_operations_exclude_each_other [OF demo_reaches])
  show "canonical_ids demo"
    by (auto simp: canonical_ids_def demo_def demo_service_def demo_node_def)
  show "exclusive (w_db demo_world)"
    by (simp add: exclusive_def unique_keys_def demo_world_def empty_db_def nonTerminalForService_def
        nonTerminalAffectingService_def nonTerminalForNode_def)
qed

text \<open>
  C5. Only recorded intents are dispatched: every mutation handed to transport belongs to a
  committed \<open>RUNNING\<close> operation with the same target, and the session holds the lock of the
  service, or of the node and all affected services.
\<close>

theorem dispatches_are_recorded_intents:
  assumes "reachable ext entries z w0 w"
  shows "\<exists>new. w_sent w = w_sent w0 @ new \<and> list_all (dispatch_ok ext) new"
  using dispatching.reachable_related [OF assms] by (fastforce simp: dispatches_intents_def list_all_iff)

theorem dispatches_are_recorded_intents_witness:
  "list_all (dispatch_ok demo) (w_sent (perform demo demo_tokens demo_schemas demo_scale demo_world))"
  using dispatches_are_recorded_intents [OF demo_reaches] by (auto simp: demo_world_def)

text \<open>
  C9. Recovery only observes: start-up recovery and the reconciliation timer hand no mutation to
  transport.
\<close>

theorem recovery_sends_nothing:
  assumes "is_recovery a"
  shows "w_sent (perform ext entries z a w) = w_sent w"
  using silence.recovery_related [OF assms] by (simp add: sends_nothing_def)

theorem recovery_sends_nothing_witness:
  "w_sent (perform demo demo_tokens demo_schemas RecoverMutations
     (perform demo demo_tokens demo_schemas demo_scale demo_world)) =
   w_sent (perform demo demo_tokens demo_schemas demo_scale demo_world)"
  using recovery_sends_nothing [of RecoverMutations] by simp

text \<open>
  Recovery starts nothing: it creates no operation and reopens no finished one.
\<close>

theorem recovery_opens_nothing:
  assumes "is_recovery a"
  shows "opens_nothing (w_db w) (w_db (perform ext entries z a w))"
  using closing.recovery_related [OF assms] by (simp add: on_db_def)

theorem recovery_opens_nothing_witness:
  "opens_nothing (w_db demo_world) (w_db (perform demo demo_tokens demo_schemas (ReconcileTick False) demo_world))"
  using recovery_opens_nothing [of "ReconcileTick False"] by simp

text \<open>
  C2. At-most-once dispatch: no operation is handed to transport twice in a run, however often it
  is retried or recovered, and an operation that was recorded before the run is never dispatched
  in it, for every behaviour of database, Agent and network.
\<close>

theorem operations_are_dispatched_at_most_once:
  assumes "reachable ext entries z w0 w"
  shows "\<exists>new. w_sent w = w_sent w0 @ new \<and> distinct (map sent_key new) \<and>
           set (map sent_key new) \<inter> recorded (w_db w0) = {}"
  using once.reachable_related [OF assms] unfolding sends_once_def by blast

theorem operations_are_dispatched_at_most_once_witness:
  "distinct (map sent_key (w_sent (perform demo demo_tokens demo_schemas demo_scale
     (perform demo demo_tokens demo_schemas demo_scale demo_world))))"
  using operations_are_dispatched_at_most_once
      [OF reachable.performed [OF demo_reaches, where a = demo_scale]]
  by (auto simp: demo_world_def)

text \<open>
  Primary keys stay unique: the tables of operations and node operations never hold two rows
  with the same identifier.
\<close>

theorem keys_stay_unique:
  assumes "reachable ext entries z w0 w" and "unique_keys (w_db w0)"
  shows "unique_keys (w_db w)"
  using success.reachable_related [OF assms(1)] assms(2) by (simp add: justified_def)

theorem keys_stay_unique_witness:
  "unique_keys (w_db (perform demo demo_tokens demo_schemas demo_scale demo_world))"
  using keys_stay_unique [OF demo_reaches] by (simp add: demo_world_def empty_db_def unique_keys_def)

text \<open>
  C8. The process implements the abstract store: what any run does to the tables of operations, node
  operations, deployments and audit events is a sequence of steps of the state machine
  \<open>store_step\<close>, that is, starting an intent, advancing an open operation, settling it together
  with its audit event, or annotating, besides changes of the maintenance tables and of the catalogue.
\<close>

theorem process_refines_the_store:
  assumes "reachable ext entries z w0 w"
  shows "store_move\<^sup>*\<^sup>* (w_db w0) (w_db w)"
  using refining.reachable_related [OF assms] by (simp add: on_db_def)

theorem process_refines_the_store_witness:
  "store_move\<^sup>*\<^sup>* empty_db (w_db (perform demo demo_tokens demo_schemas demo_scale demo_world))"
  using process_refines_the_store [OF demo_reaches] by (simp add: demo_world_def)

section \<open>Access\<close>

text \<open>
  C26. A request whose token is missing or unknown, whose role is too low for the route or whose
  token does not cover the cluster is refused with 401 or 403 and changes nothing at all: no
  statement is executed, no Agent is called and the clock of the model does not move.
\<close>

theorem unauthorized_requests_do_nothing:
  assumes "\<not> authorized entries (requiredRole route) (paramsOf route request)"
  shows "\<exists>m. serve ext entries z route request w \<in>
           {(Inl (UnauthorizedException m), w), (Inl (ForbiddenException m), w)}"
  using canActivate_refused [OF assms, of w] by (auto simp: serve_def bindM_def)

theorem unauthorized_requests_do_nothing_witness:
  "\<exists>m. serve demo demo_tokens demo_schemas (MutationController PostScale) (demo_request ''viewer-token-0001'') demo_world \<in>
     {(Inl (UnauthorizedException m), demo_world), (Inl (ForbiddenException m), demo_world)}"
proof (rule unauthorized_requests_do_nothing)
  show "\<not> authorized demo_tokens (requiredRole (MutationController PostScale))
      (paramsOf (MutationController PostScale) (demo_request ''viewer-token-0001''))"
    by (simp add: authorized_def demo_tokens_def demo_request_def readBearerToken_def authenticate_def)
qed

text \<open>
  C27. Every route that a viewer may use only reads: it changes no row of any table, dispatches
  nothing and leaves locks and scopes as they were.
\<close>

theorem viewer_routes_only_read:
  assumes "requiredRole route = VIEWER"
  shows "reads_only w (perform ext entries z (Serve route request) w)"
proof -
  have "steps reads_only (serve ext entries z route request)"
    unfolding serve_def
    by (intro step_intros reading.steps_reading_handler) (simp add: reading_route_def assms)
  then show ?thesis using reading.steps_at by simp
qed

theorem viewer_routes_only_read_witness:
  "w_db (perform demo demo_tokens demo_schemas (Serve (MutationController GetOperation) (demo_request ''viewer-token-0001''))
     (perform demo demo_tokens demo_schemas demo_scale demo_world)) =
   w_db (perform demo demo_tokens demo_schemas demo_scale demo_world)"
  using viewer_routes_only_read [of "MutationController GetOperation"] by (simp add: reads_only_def)

text \<open>
  C28. With enforced registration a request for a route of a cluster, registration itself apart,
  reaches its handler only for the configured cluster, and only if that cluster is registered with the expected Swarm identity; otherwise it is
  answered with an error and nothing is changed or dispatched.
\<close>

theorem unregistered_clusters_are_refused:
  assumes "x_registrationEnforce ext" and "bindsCluster route"
    and "\<forall>reg. find_row cg_clusterId (rq_clusterId request) (cluster_registrations (w_db w)) = Some reg \<longrightarrow>
           Some (cg_swarmClusterId reg) \<noteq> x_expectedSwarmClusterId ext"
  shows "\<exists>e. fst (serve ext entries z route request w) = Inl e \<and>
           reads_only w (snd (serve ext entries z route request w))"
proof -
  obtain r w1 where auth: "canActivate entries (requiredRole route) (paramsOf route request) w = (r, w1)" by fastforce
  have w1: "reads_only w w1" by (rule stepsD [OF reading.steps_canActivate auth])
  obtain b w2 where reg: "assertRegistered ext (rq_clusterId request) w1 = (b, w2)" by fastforce
  have w2: "reads_only w1 w2" by (rule stepsD [OF reading.steps_assertRegistered reg])
  have "\<exists>e. b = Inl e"
  proof (rule ccontr)
    assume "\<not> ?thesis"
    then have "b = Inr ()" by (cases b) auto
    with reg assms(1,3) w1 show False
      by (auto simp: assertRegistered_def registration_find_def query_def reads_only_def OK_simps
          split: if_splits DbOutcome.splits)
  qed
  then show ?thesis
    using auth reg w1 w2 reading.trans [OF w1 w2]
    by (cases r) (auto simp: serve_def bindM_def thenM_def assms(2))
qed

definition guarded_demo :: external where
  "guarded_demo = demo\<lparr>x_registrationEnforce := True, x_expectedSwarmClusterId := Some ''swarm''\<rparr>"

theorem unregistered_clusters_are_refused_witness:
  "w_db (snd (serve guarded_demo demo_tokens demo_schemas (MutationController PostScale)
     (demo_request ''operator-token-01'') demo_world)) = empty_db"
  using unregistered_clusters_are_refused [of guarded_demo "MutationController PostScale" "demo_request ''operator-token-01''" demo_world
      demo_tokens demo_schemas]
  by (simp add: guarded_demo_def demo_world_def empty_db_def find_row_def reads_only_def)

end
